(* ===== verification/Prelude.thy ===== *)
theory Prelude
  imports Main "HOL-Library.Word"
begin

text \<open>
  Shared vocabulary of the development: Go errors and results, sequencing with early
  return, calls to the outside world, and the few functions of Go's standard library
  on strings that the sources use.

  \<^item> A Go function that returns \<^verbatim>\<open>(T, error)\<close> returns a value of type \<open>'a res\<close>: \<open>Ok\<close>, \<open>Err\<close> or
    \<open>Panic\<close> (nil dereference, index out of range).
  \<^item> \<open>catchE\<close>, \<open>tryE\<close>, \<open>ignoreE\<close> and \<open>deferE\<close> are \<^verbatim>\<open>if err != nil\<close>, its wrapping form, \<^verbatim>\<open>_ = f()\<close>
    and \<^verbatim>\<open>defer\<close>.
  \<^item> A call that leaves the program (a shell command, netlink, the database, a remote
    procedure call) is appended to a trace, and its outcome is what the environment
    answers, a function of the trace so far.  Environments are arbitrary parameters, so a
    statement that holds for all of them holds for every sequence of answers.
\<close>

unbundle bit_operations_syntax

named_theorems flow_simps \<open>unfolding of the sequencing combinators\<close>
named_theorems flow_splits \<open>case splits for results and combinators\<close>
named_theorems keeps_intros \<open>rules that push a state property through the combinators\<close>

section \<open>Errors\<close>

text \<open>
  The sentinel errors of the sources are constructors of their own.  \<open>Wrap m e\<close> is
  \<^verbatim>\<open>fmt.Errorf("m: %w", e)\<close>; \<open>Errorf m\<close> is an error without a cause; \<open>External m\<close> an error made
  outside the program whose text is \<open>m\<close>; \<open>Joined\<close> is \<^verbatim>\<open>errors.Join\<close>.
\<close>

datatype gerror =
    ErrMachineNotFound
  | ErrNetworkInterfaceNotFound
  | ErrVolumeAlreadyAllocated
  | ErrRecordNotFound
  | ErrCanceled
  | ErrDeadlineExceeded
  | ErrEOF
  | LinkNotFoundError
  | Errorf string
  | External string
  | Wrap string gerror
  | Joined "gerror list"

fun join_lines :: "string list \<Rightarrow> string" where
  "join_lines [] = []"
| "join_lines [x] = x"
| "join_lines (x # y # xs) = x @ [CHR 0x0A] @ join_lines (y # xs)"

fun error_string :: "gerror \<Rightarrow> string" where
  "error_string ErrMachineNotFound = ''machine not found''"
| "error_string ErrNetworkInterfaceNotFound = ''network interface not found''"
| "error_string ErrVolumeAlreadyAllocated = ''volume already allocated''"
| "error_string ErrRecordNotFound = ''record not found''"
| "error_string ErrCanceled = ''context canceled''"
| "error_string ErrDeadlineExceeded = ''context deadline exceeded''"
| "error_string ErrEOF = ''EOF''"
| "error_string LinkNotFoundError = ''Link not found''"
| "error_string (Errorf m) = m"
| "error_string (External m) = m"
| "error_string (Wrap m e) = m @ '': '' @ error_string e"
| "error_string (Joined es) = join_lines (map error_string es)"

text \<open>\<^verbatim>\<open>errors.Is\<close>: the error itself or one of its causes.\<close>

fun errors_is :: "gerror \<Rightarrow> gerror \<Rightarrow> bool" where
  "errors_is (Wrap m e) t = (Wrap m e = t \<or> errors_is e t)"
| "errors_is (Joined es) t = (Joined es = t \<or> list_ex (\<lambda>e. errors_is e t) es)"
| "errors_is e t = (e = t)"

section \<open>Results and sequencing\<close>

datatype 'a res = Ok 'a | Err gerror | Panic string

fun is_ok :: "'a res \<Rightarrow> bool" where
  "is_ok (Ok _) = True"
| "is_ok _ = False"

definition catchE :: "'a res \<times> 's \<Rightarrow> ('a \<Rightarrow> 's \<Rightarrow> 'b res \<times> 's) \<Rightarrow>
    (gerror \<Rightarrow> 's \<Rightarrow> 'b res \<times> 's) \<Rightarrow> 'b res \<times> 's" where
  "catchE m k h = (case fst m of
      Ok x \<Rightarrow> k x (snd m)
    | Err e \<Rightarrow> h e (snd m)
    | Panic p \<Rightarrow> (Panic p, snd m))"

definition tryE :: "(gerror \<Rightarrow> gerror) \<Rightarrow> 'a res \<times> 's \<Rightarrow> ('a \<Rightarrow> 's \<Rightarrow> 'b res \<times> 's) \<Rightarrow> 'b res \<times> 's" where
  "tryE w m k = catchE m k (\<lambda>e s. (Err (w e), s))"

definition ignoreE :: "'a res \<times> 's \<Rightarrow> ('s \<Rightarrow> 'b res \<times> 's) \<Rightarrow> 'b res \<times> 's" where
  "ignoreE m k = catchE m (\<lambda>_. k) (\<lambda>_. k)"

definition deferE :: "'a res \<times> 's \<Rightarrow> ('a res \<Rightarrow> 's \<Rightarrow> 's) \<Rightarrow> 'a res \<times> 's" where
  "deferE m f = (fst m, f (fst m) (snd m))"

lemma catchE_simps [simp]:
  "catchE (Ok x, s) k h = k x s"
  "catchE (Err e, s) k h = h e s"
  "catchE (Panic p, s) k h = (Panic p, s)"
  by (simp_all add: catchE_def)

lemma tryE_simps [simp]:
  "tryE w (Ok x, s) k = k x s"
  "tryE w (Err e, s) k = (Err (w e), s)"
  "tryE w (Panic p, s) k = (Panic p, s)"
  by (simp_all add: tryE_def)

lemma ignoreE_simps [simp]:
  "ignoreE (Ok x, s) k' = k' s"
  "ignoreE (Err e, s) k' = k' s"
  "ignoreE (Panic p, s) k' = (Panic p, s)"
  by (simp_all add: ignoreE_def)

lemma deferE_simps [simp]: "deferE (r, s) f = (r, f r s)"
  by (simp add: deferE_def)

lemma catchE_split [flow_splits]:
  "P (catchE m k h) =
    ((\<forall>x s. m = (Ok x, s) \<longrightarrow> P (k x s)) \<and>
     (\<forall>e s. m = (Err e, s) \<longrightarrow> P (h e s)) \<and>
     (\<forall>p s. m = (Panic p, s) \<longrightarrow> P (Panic p, s)))"
  by (cases m; cases "fst m") auto

lemma catchE_split_asm [flow_splits]:
  "P (catchE m k h) =
    (\<not> ((\<exists>x s. m = (Ok x, s) \<and> \<not> P (k x s)) \<or>
       (\<exists>e s. m = (Err e, s) \<and> \<not> P (h e s)) \<or>
       (\<exists>p s. m = (Panic p, s) \<and> \<not> P (Panic p, s))))"
  by (cases m; cases "fst m") auto

lemma tryE_split [flow_splits]:
  "P (tryE w m k) =
    ((\<forall>x s. m = (Ok x, s) \<longrightarrow> P (k x s)) \<and>
     (\<forall>e s. m = (Err e, s) \<longrightarrow> P (Err (w e), s)) \<and>
     (\<forall>p s. m = (Panic p, s) \<longrightarrow> P (Panic p, s)))"
  unfolding tryE_def by (rule catchE_split)

lemma tryE_split_asm [flow_splits]:
  "P (tryE w m k) =
    (\<not> ((\<exists>x s. m = (Ok x, s) \<and> \<not> P (k x s)) \<or>
       (\<exists>e s. m = (Err e, s) \<and> \<not> P (Err (w e), s)) \<or>
       (\<exists>p s. m = (Panic p, s) \<and> \<not> P (Panic p, s))))"
  unfolding tryE_def by (rule catchE_split_asm)

lemma ignoreE_split [flow_splits]:
  "P (ignoreE m k) =
    ((\<forall>x s. m = (Ok x, s) \<longrightarrow> P (k s)) \<and>
     (\<forall>e s. m = (Err e, s) \<longrightarrow> P (k s)) \<and>
     (\<forall>p s. m = (Panic p, s) \<longrightarrow> P (Panic p, s)))"
  unfolding ignoreE_def by (rule catchE_split)

lemma ignoreE_split_asm [flow_splits]:
  "P (ignoreE m k) =
    (\<not> ((\<exists>x s. m = (Ok x, s) \<and> \<not> P (k s)) \<or>
       (\<exists>e s. m = (Err e, s) \<and> \<not> P (k s)) \<or>
       (\<exists>p s. m = (Panic p, s) \<and> \<not> P (Panic p, s))))"
  unfolding ignoreE_def by (rule catchE_split_asm)

lemmas flow = catchE_split tryE_split ignoreE_split
lemmas flow_asm = catchE_split_asm tryE_split_asm ignoreE_split_asm

fun_cases is_okE: "is_ok r"

text \<open>
  A property of the state that holds at the end of a computation, on every path.  The rules
  follow the combinators, so an operation is shown to keep a property by
  \<open>auto intro!: keeps_intros\<close> after unfolding.
\<close>

definition keeps :: "('s \<Rightarrow> bool) \<Rightarrow> 'a res \<times> 's \<Rightarrow> bool" where
  "keeps P m \<longleftrightarrow> P (snd m)"

lemma keepsD: "keeps P m \<Longrightarrow> m = (r, s) \<Longrightarrow> P s"
  by (simp add: keeps_def)

lemma keeps_pair [simp]: "keeps P (r, s) = P s"
  by (simp add: keeps_def)

lemma keeps_catchE [keeps_intros]:
  "keeps P m \<Longrightarrow> (\<And>x s. P s \<Longrightarrow> m = (Ok x, s) \<Longrightarrow> keeps P (k x s)) \<Longrightarrow>
   (\<And>e s. P s \<Longrightarrow> m = (Err e, s) \<Longrightarrow> keeps P (h e s)) \<Longrightarrow> keeps P (catchE m k h)"
  by (cases m; cases "fst m") (auto simp: keeps_def)

lemma keeps_tryE [keeps_intros]:
  "keeps P m \<Longrightarrow> (\<And>x s. P s \<Longrightarrow> m = (Ok x, s) \<Longrightarrow> keeps P (k x s)) \<Longrightarrow> keeps P (tryE w m k)"
  by (cases m; cases "fst m") (auto simp: keeps_def)

lemma keeps_ignoreE [keeps_intros]:
  "keeps P m \<Longrightarrow> (\<And>s. P s \<Longrightarrow> keeps P (k s)) \<Longrightarrow> keeps P (ignoreE m k)"
  by (cases m; cases "fst m") (auto simp: keeps_def)

lemma keeps_deferE [keeps_intros]:
  "keeps P m \<Longrightarrow> (\<And>r s. P s \<Longrightarrow> P (f r s)) \<Longrightarrow> keeps P (deferE m f)"
  by (cases m) (auto simp: keeps_def)

lemma keeps_if [keeps_intros]:
  "(b \<Longrightarrow> keeps P m) \<Longrightarrow> (\<not> b \<Longrightarrow> keeps P m') \<Longrightarrow> keeps P (if b then m else m')"
  by simp

section \<open>The outside world\<close>

text \<open>
  \<open>env_err\<close> says whether a call made after a given trace fails; \<open>env_now\<close> is the clock
  (\<^verbatim>\<open>time.Now\<close>), \<open>env_id\<close> the identifier generator (\<^verbatim>\<open>cuid2.Generate\<close>).
\<close>

record 'c env =
  env_err :: "'c list \<Rightarrow> 'c \<Rightarrow> gerror option"
  env_now :: "'c list \<Rightarrow> nat"
  env_id :: "'c list \<Rightarrow> string"

definition ext :: "('c, 'e) env_scheme \<Rightarrow> 'c \<Rightarrow> 'c list \<Rightarrow> unit res \<times> 'c list" where
  "ext E c t = (case env_err E t c of None \<Rightarrow> Ok () | Some e \<Rightarrow> Err e, t @ [c])"

definition ext_val :: "('c, 'e) env_scheme \<Rightarrow> 'c \<Rightarrow> ('c list \<Rightarrow> 'a) \<Rightarrow> 'c list \<Rightarrow> 'a res \<times> 'c list" where
  "ext_val E c v t = (case env_err E t c of None \<Rightarrow> Ok (v t) | Some e \<Rightarrow> Err e, t @ [c])"

lemma ext_trace [simp]: "snd (ext E c t) = t @ [c]"
  by (simp add: ext_def)

lemma ext_val_trace [simp]: "snd (ext_val E c v t) = t @ [c]"
  by (simp add: ext_val_def)

lemma ext_Ok [simp]: "(ext E c t = (Ok u, s)) = (env_err E t c = None \<and> s = t @ [c])"
  by (auto simp: ext_def split: option.splits)

lemma ext_Err [simp]: "(ext E c t = (Err e, s)) = (env_err E t c = Some e \<and> s = t @ [c])"
  by (auto simp: ext_def split: option.splits)

lemma ext_Panic [simp]: "ext E c t \<noteq> (Panic p, s)"
  by (auto simp: ext_def split: option.splits)

lemma ext_val_Ok [simp]:
  "(ext_val E c v t = (Ok x, s)) = (env_err E t c = None \<and> x = v t \<and> s = t @ [c])"
  by (auto simp: ext_val_def split: option.splits)

lemma ext_val_Err [simp]:
  "(ext_val E c v t = (Err e, s)) = (env_err E t c = Some e \<and> s = t @ [c])"
  by (auto simp: ext_val_def split: option.splits)

lemma ext_val_Panic [simp]: "ext_val E c v t \<noteq> (Panic p, s)"
  by (auto simp: ext_val_def split: option.splits)

lemma map_filter_append: "List.map_filter f (xs @ ys) = List.map_filter f xs @ List.map_filter f ys"
  by (simp add: List.map_filter_def)

text \<open>The successful calls of a kind among those made after a trace.\<close>

fun count_ok :: "('c, 'e) env_scheme \<Rightarrow> ('c \<Rightarrow> bool) \<Rightarrow> 'c list \<Rightarrow> 'c list \<Rightarrow> nat" where
  "count_ok E P t [] = 0"
| "count_ok E P t (c # cs) = (if P c \<and> env_err E t c = None then 1 else 0) + count_ok E P (t @ [c]) cs"

lemma count_ok_append [simp]: "count_ok E P t (xs @ ys) = count_ok E P t xs + count_ok E P (t @ xs) ys"
  by (induction xs arbitrary: t) auto

end
