(* ===== verification/GoLib.thy ===== *)
theory GoLib
  imports Prelude
begin

text \<open>
  The functions of Go's standard library that the sources apply to strings: decimal and
  hexadecimal formatting (\<^verbatim>\<open>%d\<close>, \<^verbatim>\<open>%02x\<close>), \<^verbatim>\<open>strings.Split\<close>, \<^verbatim>\<open>SplitN\<close>, \<^verbatim>\<open>Join\<close>, \<^verbatim>\<open>Contains\<close>,
  \<^verbatim>\<open>HasPrefix\<close>, \<^verbatim>\<open>ToLower\<close>, \<^verbatim>\<open>path.Join\<close>, \<^verbatim>\<open>net.SplitHostPort\<close> and \<^verbatim>\<open>net.JoinHostPort\<close>, with the facts the
  components share.  Strings are lists of bytes.
\<close>

section \<open>Decimal numbers\<close>

definition digit :: "nat \<Rightarrow> char" where
  "digit n = ''0123456789'' ! n"

fun dec :: "nat \<Rightarrow> string" where
  "dec n = (if n < 10 then [digit n] else dec (n div 10) @ [digit (n mod 10)])"

declare dec.simps [simp del]

definition digit_val :: "char \<Rightarrow> nat" where
  "digit_val c = (of_char c :: nat) - 48"

definition undec :: "string \<Rightarrow> nat" where
  "undec s = foldl (\<lambda>a c. a * 10 + digit_val c) 0 s"

definition is_digit :: "char \<Rightarrow> bool" where
  "is_digit c \<longleftrightarrow> c \<in> set ''0123456789''"

lemma less_10_cases:
  assumes "n < (10::nat)"
  shows "n = 0 \<or> n = 1 \<or> n = 2 \<or> n = 3 \<or> n = 4 \<or> n = 5 \<or> n = 6 \<or> n = 7 \<or> n = 8 \<or> n = 9"
  using assms by arith

lemma digit_val_digit [simp]: "n < 10 \<Longrightarrow> digit_val (digit n) = n"
  by (drule less_10_cases) (auto simp: digit_val_def digit_def)

lemma is_digit_digit [simp]: "n < 10 \<Longrightarrow> is_digit (digit n)"
  by (drule less_10_cases) (auto simp: is_digit_def digit_def)

lemma undec_dec [simp]: "undec (dec n) = n"
proof (induction n rule: dec.induct)
  case (1 n)
  show ?case
  proof (cases "n < 10")
    case True
    then show ?thesis by (simp add: dec.simps [of n] undec_def)
  next
    case False
    with 1 have "undec (dec (n div 10)) = n div 10" by simp
    with False show ?thesis by (simp add: dec.simps [of n] undec_def)
  qed
qed

lemma dec_inj [simp]: "dec m = dec n \<longleftrightarrow> m = n"
  by (metis undec_dec)

lemma dec_not_Nil [simp]: "dec n \<noteq> []"
  by (simp add: dec.simps [of n])

lemma dec_digits: "c \<in> set (dec n) \<Longrightarrow> is_digit c"
proof (induction n rule: dec.induct)
  case (1 n)
  then show ?case by (cases "n < 10") (auto simp: dec.simps [of n])
qed

text \<open>\<^verbatim>\<open>%d\<close> of a Go \<^verbatim>\<open>int\<close>.\<close>

definition dec_int :: "int \<Rightarrow> string" where
  "dec_int i = (if i < 0 then CHR ''-'' # dec (nat (- i)) else dec (nat i))"

section \<open>Hexadecimal bytes\<close>

definition hexdigit :: "nat \<Rightarrow> char" where
  "hexdigit n = ''0123456789abcdef'' ! n"

definition hex2 :: "8 word \<Rightarrow> string" where
  "hex2 b = [hexdigit (unat b div 16), hexdigit (unat b mod 16)]"

fun find_index :: "char \<Rightarrow> string \<Rightarrow> nat \<Rightarrow> nat option" where
  "find_index c [] i = None"
| "find_index c (x # xs) i = (if x = c then Some i else find_index c xs (Suc i))"

text \<open>A hexadecimal digit, in either case, as \<^verbatim>\<open>net.ParseMAC\<close> reads it.\<close>

definition hexval :: "char \<Rightarrow> nat option" where
  "hexval c = (case find_index c ''0123456789abcdef'' 0 of
      Some n \<Rightarrow> Some n
    | None \<Rightarrow> map_option ((+) 10) (find_index c ''ABCDEF'' 0))"

definition unhex2 :: "string \<Rightarrow> 8 word option" where
  "unhex2 s = (case s of
      [a, b] \<Rightarrow> (case (hexval a, hexval b) of
          (Some x, Some y) \<Rightarrow> Some (of_nat (16 * x + y))
        | _ \<Rightarrow> None)
    | _ \<Rightarrow> None)"

lemma hexdigit_table:
  "list_all (\<lambda>n. hexval (hexdigit n) = Some n \<and> hexdigit n \<noteq> CHR '':'') [0..<16]"
  by code_simp

lemma hexval_hexdigit [simp]: "n < 16 \<Longrightarrow> hexval (hexdigit n) = Some n"
  using hexdigit_table by (simp add: list_all_iff)

lemma unat_byte_bound [simp]: "unat (b :: 8 word) < 256"
  using unsigned_less [of b] by simp

lemma unhex2_hex2 [simp]: "unhex2 (hex2 b) = Some b"
proof -
  have "unat b div 16 < 16" using unat_byte_bound [of b] by linarith
  then show ?thesis by (simp add: unhex2_def hex2_def)
qed

lemma hexdigit_not_colon [simp]: "n < 16 \<Longrightarrow> hexdigit n \<noteq> CHR '':''"
  using hexdigit_table by (simp add: list_all_iff)

lemma hex2_no_colon [simp]: "CHR '':'' \<notin> set (hex2 b)"
proof -
  have "unat b div 16 < 16" using unat_byte_bound [of b] by linarith
  then have "hexdigit (unat b div 16) \<noteq> CHR '':''" and "hexdigit (unat b mod 16) \<noteq> CHR '':''"
    by simp_all
  then show ?thesis by (metis empty_set hex2_def list.set_intros list.simps(15) singletonD insertE)
qed

section \<open>Splitting and joining\<close>

text \<open>\<^verbatim>\<open>strings.Split(s, sep)\<close> for a one-byte separator.\<close>

fun split_on :: "char \<Rightarrow> string \<Rightarrow> string list" where
  "split_on c [] = [[]]"
| "split_on c (x # xs) =
    (if x = c then [] # split_on c xs
     else (case split_on c xs of [] \<Rightarrow> [[x]] | y # ys \<Rightarrow> (x # y) # ys))"

text \<open>\<^verbatim>\<open>strings.Join(xs, sep)\<close>.\<close>

fun join :: "string \<Rightarrow> string list \<Rightarrow> string" where
  "join sep [] = []"
| "join sep [x] = x"
| "join sep (x # y # xs) = x @ sep @ join sep (y # xs)"

lemma split_on_not_Nil [simp]: "split_on c s \<noteq> []"
  by (induction s) (auto split: list.splits)

lemma split_on_append_sep:
  "c \<notin> set x \<Longrightarrow> split_on c (x @ c # s) = x # split_on c s"
  by (induction x) auto

lemma split_on_no_sep: "c \<notin> set x \<Longrightarrow> split_on c x = [x]"
  by (induction x) auto

lemma split_on_join:
  "xs \<noteq> [] \<Longrightarrow> \<forall>x \<in> set xs. c \<notin> set x \<Longrightarrow> split_on c (join [c] xs) = xs"
proof (induction xs)
  case Nil
  then show ?case by simp
next
  case (Cons x xs)
  then show ?case by (cases xs) (auto simp: split_on_no_sep split_on_append_sep)
qed

text \<open>\<^verbatim>\<open>strings.SplitN(s, c, 2)\<close>: at most one cut, at the first separator.\<close>

definition split_n2 :: "char \<Rightarrow> string \<Rightarrow> string list" where
  "split_n2 c s = (let pre = takeWhile (\<lambda>x. x \<noteq> c) s; rest = dropWhile (\<lambda>x. x \<noteq> c) s
     in case rest of [] \<Rightarrow> [pre] | _ # r \<Rightarrow> [pre, r])"

definition has_prefix :: "string \<Rightarrow> string \<Rightarrow> bool" where
  "has_prefix s p \<longleftrightarrow> take (length p) s = p"

fun contains :: "string \<Rightarrow> string \<Rightarrow> bool" where
  "contains [] p \<longleftrightarrow> p = []"
| "contains (c # s) p \<longleftrightarrow> has_prefix (c # s) p \<or> contains s p"

definition lower_char :: "char \<Rightarrow> char" where
  "lower_char c = (let n = (of_char c :: nat) in if 65 \<le> n \<and> n \<le> 90 then char_of (n + 32) else c)"

definition to_lower :: "string \<Rightarrow> string" where
  "to_lower s = map lower_char s"

lemma has_prefix_append [simp]: "has_prefix (p @ s) p"
  by (simp add: has_prefix_def)

lemma contains_append: "contains (a @ p @ b) p"
proof (induction a)
  case Nil
  have "has_prefix (p @ b) p" by simp
  then show ?case by (cases "p @ b") (auto simp: has_prefix_def)
next
  case (Cons c a)
  then show ?case by simp
qed

section \<open>\<^verbatim>\<open>path.Join\<close>\<close>

text \<open>
  \<^verbatim>\<open>path.Clean\<close> resolves \<^verbatim>\<open>.\<close>, \<^verbatim>\<open>..\<close> and repeated slashes lexically; \<^verbatim>\<open>path.Join\<close> cleans the join of its
  non-empty arguments.  The stack of \<open>clean_segs\<close> holds the segments kept so far, last one
  first.
\<close>

fun clean_segs :: "bool \<Rightarrow> string list \<Rightarrow> string list \<Rightarrow> string list" where
  "clean_segs rooted st [] = rev st"
| "clean_segs rooted st (s # ss) =
    (if s = [] \<or> s = ''.'' then clean_segs rooted st ss
     else if s = ''..'' then
       (case st of
          [] \<Rightarrow> clean_segs rooted (if rooted then [] else [''..'']) ss
        | x # st' \<Rightarrow> clean_segs rooted (if x = ''..'' then ''..'' # st else st') ss)
     else clean_segs rooted (s # st) ss)"

definition path_clean :: "string \<Rightarrow> string" where
  "path_clean p = (if p = [] then ''.'' else
     let rooted = (hd p = CHR ''/'');
         body = join ''/'' (clean_segs rooted [] (split_on (CHR ''/'') p))
     in if rooted then CHR ''/'' # body else if body = [] then ''.'' else body)"

definition path_join :: "string list \<Rightarrow> string" where
  "path_join ps = (let qs = filter (\<lambda>p. p \<noteq> []) ps in if qs = [] then [] else path_clean (join ''/'' qs))"

lemma path_join_example: "path_join [''/var/lib/baepo'', ''runtimes'', ''m1''] = ''/var/lib/baepo/runtimes/m1''"
  by (simp add: path_join_def path_clean_def)

section \<open>Host and port\<close>

fun last_index :: "char \<Rightarrow> string \<Rightarrow> nat \<Rightarrow> nat option \<Rightarrow> nat option" where
  "last_index c [] i acc = acc"
| "last_index c (x # xs) i acc = last_index c xs (Suc i) (if x = c then Some i else acc)"

text \<open>
  \<^verbatim>\<open>net.SplitHostPort\<close>: the port follows the last colon; the host may be in brackets, and
  otherwise has no colon; neither part has a stray bracket.
\<close>

definition SplitHostPort :: "string \<Rightarrow> (string \<times> string) res" where
  "SplitHostPort hp =
    (case last_index (CHR '':'') hp 0 None of
       None \<Rightarrow> Err (Errorf ''missing port in address'')
     | Some i \<Rightarrow>
       if hp \<noteq> [] \<and> hd hp = CHR ''['' then
         (case find_index (CHR '']'') hp 0 of
            None \<Rightarrow> Err (Errorf ''missing ']' in address'')
          | Some e \<Rightarrow>
            if Suc e = length hp then Err (Errorf ''missing port in address'')
            else if Suc e = i then
              (let host = take (e - 1) (drop 1 hp); port = drop (Suc i) hp in
               if CHR ''['' \<in> set (drop 1 hp) then Err (Errorf ''unexpected '[' in address'')
               else if CHR '']'' \<in> set (drop (Suc e) hp) then Err (Errorf ''unexpected ']' in address'')
               else Ok (host, port))
            else if hp ! Suc e = CHR '':'' then Err (Errorf ''too many colons in address'')
            else Err (Errorf ''missing port in address''))
       else
         (let host = take i hp; port = drop (Suc i) hp in
          if CHR '':'' \<in> set host then Err (Errorf ''too many colons in address'')
          else if CHR ''['' \<in> set hp then Err (Errorf ''unexpected '[' in address'')
          else if CHR '']'' \<in> set hp then Err (Errorf ''unexpected ']' in address'')
          else Ok (host, port)))"

definition JoinHostPort :: "string \<Rightarrow> string \<Rightarrow> string" where
  "JoinHostPort host port =
    (if CHR '':'' \<in> set host then ''['' @ host @ '']:'' @ port else host @ '':'' @ port)"

lemma last_index_append_no:
  "c \<notin> set ys \<Longrightarrow> last_index c (xs @ ys) i acc = last_index c xs i acc"
proof (induction xs arbitrary: i acc)
  case Nil
  then show ?case
  proof (induction ys arbitrary: i acc)
    case Nil
    then show ?case by simp
  next
    case (Cons y ys)
    then show ?case by auto
  qed
next
  case (Cons x xs)
  then show ?case by simp
qed

lemma last_index_snoc: "last_index c (xs @ [c]) i acc = Some (i + length xs)"
  by (induction xs arbitrary: i acc) auto

lemma last_index_sep:
  assumes "c \<notin> set ys"
  shows "last_index c (xs @ c # ys) i acc = Some (i + length xs)"
  using last_index_append_no [OF assms, of "xs @ [c]" i acc] by (simp add: last_index_snoc)

lemma SplitHostPort_JoinHostPort:
  assumes "set host \<inter> {CHR '':'', CHR ''['', CHR '']''} = {}"
    and "set port \<inter> {CHR '':'', CHR ''['', CHR '']''} = {}"
  shows "SplitHostPort (JoinHostPort host port) = Ok (host, port)"
proof -
  have "last_index (CHR '':'') (host @ CHR '':'' # port) 0 None = Some (length host)"
    using assms(2) by (subst last_index_sep) auto
  moreover have "hd (host @ CHR '':'' # port) \<noteq> CHR ''[''"
    using assms(1) by (cases host) auto
  ultimately show ?thesis
    using assms by (auto simp: SplitHostPort_def JoinHostPort_def Let_def)
qed

end
