(* ===== verification/CoreTypes.thy ===== *)
theory CoreTypes
  imports GoLib
begin

text \<open>
  The data of \<^verbatim>\<open>core/types\<close> and the helpers of \<^verbatim>\<open>core/typeutil\<close>.  The string enumerations of the
  sources are open (any string is a value of the Go type), so each datatype has a last
  constructor for a string other than the named ones.  \<^verbatim>\<open>int32\<close>, \<^verbatim>\<open>uint32\<close> and \<^verbatim>\<open>uint64\<close> fields are
  machine words; a pointer that may be nil is an option; a Go map is an option of a map
  (\<open>None\<close> is the nil map).
\<close>

section \<open>\<^verbatim>\<open>core/types/machine.go\<close>\<close>

datatype machine_state =
    MachineStatePending
  | MachineStateStarting
  | MachineStateRunning
  | MachineStateDegraded
  | MachineStateError
  | MachineStateTerminating
  | MachineStateTerminated
  | MachineStateUnknown
  | MachineStateOther string

datatype machine_desired_state =
    MachineDesiredStatePending
  | MachineDesiredStateRunning
  | MachineDesiredStateTerminated
  | MachineDesiredStateUnknown
  | MachineDesiredStateOther string

record machine_spec =
  msName :: "string option"
  msCpus :: "32 word"
  msMemoryMB :: "64 word"
  msTimeout :: "64 word option"

section \<open>\<^verbatim>\<open>core/types/container.go\<close>\<close>

datatype restart_policy =
    ContainerRestartPolicyUnknown
  | ContainerRestartPolicyNo
  | ContainerRestartPolicyOnFailure
  | ContainerRestartPolicyAlways
  | ContainerRestartPolicyOther string

record restart_spec =
  rsPolicy :: restart_policy
  rsMaxRetries :: "32 word"

record http_healthcheck_spec =
  hhMethod :: string
  hhPath :: string
  hhPort :: "32 word"
  hhHeaders :: "(string \<rightharpoonup> string) option"

record healthcheck_spec =
  hcInitialDelaySeconds :: "32 word"
  hcPeriodSeconds :: "32 word"
  hcHttp :: "http_healthcheck_spec option"

record container_spec =
  csName :: "string option"
  csImage :: string
  csEnv :: "(string \<rightharpoonup> string) option"
  csCommand :: "string list option"
  csUser :: "string option"
  csHealthcheck :: "healthcheck_spec option"
  csWorkingDir :: "string option"
  csRestart :: "restart_spec option"

section \<open>\<^verbatim>\<open>core/types/runtime.go\<close> and \<^verbatim>\<open>core/types/init.go\<close>\<close>

text \<open>\<^verbatim>\<open>net.IP\<close> and \<^verbatim>\<open>net.HardwareAddr\<close> are byte slices; \<^verbatim>\<open>net.IPNet\<close> is an address and a mask.\<close>

type_synonym ip = "8 word list"
type_synonym hwaddr = "8 word list"

record ipnet =
  netIP :: ip
  netMask :: "8 word list"

record runtime_container_config =
  rcContainerID :: string
  rcSpec :: container_spec
  rcVolumePath :: string

record runtime_network_config =
  rnInterfaceName :: string
  rnIPAddress :: ip
  rnMacAddress :: string
  rnGatewayAddress :: ip
  rnNetworkCIDR :: ipnet
  rnHostname :: string

record runtime_config =
  rtWorkingDir :: string
  rtMachineID :: string
  rtCpus :: "32 word"
  rtMemoryMB :: "64 word"
  rtNetwork :: runtime_network_config
  rtContainers :: "runtime_container_config list"

record init_container_config =
  icSpec :: container_spec
  icContainerID :: string
  icVolume :: string

record init_config =
  iniIPAddress :: string
  iniMacAddress :: string
  iniGatewayAddress :: string
  iniHostname :: string
  iniContainers :: "init_container_config list"

definition InitServerPort :: nat where
  "InitServerPort = 9000"

section \<open>\<^verbatim>\<open>core/typeutil\<close>\<close>

text \<open>
  Pointers: \<open>None\<close> is nil, \<open>Some (a, v)\<close> a pointer to address \<open>a\<close> that holds \<open>v\<close>.
  \<^verbatim>\<open>PtrEqual\<close> compares the pointers before the values.
\<close>

definition PtrEqual :: "(nat \<times> 'a) option \<Rightarrow> (nat \<times> 'a) option \<Rightarrow> bool" where
  "PtrEqual a b =
    (if (a = None \<and> b = None) \<or> map_option fst a \<noteq> map_option fst b then False
     else map_option snd a = map_option snd b)"

definition Deref :: "'a \<Rightarrow> 'a option \<Rightarrow> 'a" where
  "Deref zero value = (case value of None \<Rightarrow> zero | Some v \<Rightarrow> v)"

fun Includes :: "'a list \<Rightarrow> 'a \<Rightarrow> bool" where
  "Includes [] expected = False"
| "Includes (item # rest) expected = (if item = expected then True else Includes rest expected)"

lemma Includes_iff [simp]: "Includes xs expected \<longleftrightarrow> expected \<in> set xs"
  by (induction xs) auto

text \<open>
  Two pointers to equal values at different addresses are not \<^verbatim>\<open>PtrEqual\<close>, although the
  function goes on to compare the values: the last line only ever sees one address.
\<close>

lemma PtrEqual_same_address:
  assumes "\<And>v w x. a = Some (x, v) \<Longrightarrow> b = Some (x, w) \<Longrightarrow> v = w"
  shows "PtrEqual a b \<longleftrightarrow> (\<exists>x v. a = Some (x, v) \<and> b = Some (x, v))"
  using assms by (cases a; cases b) (auto simp: PtrEqual_def)

end
