(* ===== verification/V1pbAdapter.thy ===== *)
theory V1pbAdapter
  imports CoreTypes
begin

text \<open>
  \<^verbatim>\<open>core/v1pbadapter\<close>: the conversions between the program's types and the messages of the
  control plane.  The message types are generated outside the repository; they appear here
  as the constants and fields the sources name.  A protobuf enumeration is open, so each
  has a constructor for the numbers without a name.
\<close>

datatype pb_machine_state =
    MachineState_Pending
  | MachineState_Starting
  | MachineState_Running
  | MachineState_Degraded
  | MachineState_Error
  | MachineState_Terminating
  | MachineState_Terminated
  | MachineState_Unknown
  | MachineState_Number int

datatype pb_machine_desired_state =
    MachineDesiredState_Pending
  | MachineDesiredState_Running
  | MachineDesiredState_Terminated
  | MachineDesiredState_Unknown
  | MachineDesiredState_Number int

datatype pb_restart_policy =
    ContainerRestartSpec_Policy_No
  | ContainerRestartSpec_Policy_OnFailure
  | ContainerRestartSpec_Policy_Always
  | ContainerRestartSpec_Policy_Number int

record pb_restart_spec =
  pbrPolicy :: pb_restart_policy
  pbrMaxRetries :: "32 word"

record pb_http_healthcheck_spec =
  pbhMethod :: string
  pbhPath :: string
  pbhPort :: "32 word"
  pbhHeaders :: "(string \<rightharpoonup> string) option"

text \<open>The \<^verbatim>\<open>oneof\<close> of a health check: unset, an HTTP check (possibly nil), or another kind.\<close>

datatype pb_healthcheck_type =
    HealthcheckSpec_None
  | HealthcheckSpec_Http "pb_http_healthcheck_spec option"
  | HealthcheckSpec_Other

record pb_healthcheck_spec =
  pbkInitialDelaySeconds :: "32 word"
  pbkPeriodSeconds :: "32 word"
  pbkType :: pb_healthcheck_type

record pb_container_spec =
  pbcName :: "string option"
  pbcImage :: string
  pbcEnv :: "(string \<rightharpoonup> string) option"
  pbcCommand :: "string list option"
  pbcHealthcheck :: "pb_healthcheck_spec option"
  pbcWorkingDir :: "string option"
  pbcRestart :: "pb_restart_spec option"

record pb_machine_spec =
  pbmName :: "string option"
  pbmCpus :: "32 word"
  pbmMemoryMb :: "64 word"
  pbmTimeout :: "64 word option"

section \<open>\<^verbatim>\<open>machine_from.go\<close>\<close>

fun FromMachineState :: "machine_state \<Rightarrow> pb_machine_state" where
  "FromMachineState MachineStatePending = MachineState_Pending"
| "FromMachineState MachineStateStarting = MachineState_Starting"
| "FromMachineState MachineStateRunning = MachineState_Running"
| "FromMachineState MachineStateDegraded = MachineState_Degraded"
| "FromMachineState MachineStateError = MachineState_Error"
| "FromMachineState MachineStateTerminating = MachineState_Terminating"
| "FromMachineState MachineStateTerminated = MachineState_Terminated"
| "FromMachineState _ = MachineState_Unknown"

fun FromMachineDesiredState :: "machine_desired_state \<Rightarrow> pb_machine_desired_state" where
  "FromMachineDesiredState MachineDesiredStatePending = MachineDesiredState_Pending"
| "FromMachineDesiredState MachineDesiredStateRunning = MachineDesiredState_Running"
| "FromMachineDesiredState MachineDesiredStateTerminated = MachineDesiredState_Terminated"
| "FromMachineDesiredState _ = MachineDesiredState_Unknown"

section \<open>\<^verbatim>\<open>machine_to.go\<close>\<close>

text \<open>\<^verbatim>\<open>ToMachineSpec\<close> reads the fields of its argument without a nil check.\<close>

definition ToMachineSpec :: "pb_machine_spec option \<Rightarrow> machine_spec res" where
  "ToMachineSpec spec = (case spec of
      None \<Rightarrow> Panic ''nil pointer dereference''
    | Some s \<Rightarrow> Ok \<lparr>msName = pbmName s, msCpus = pbmCpus s, msMemoryMB = pbmMemoryMb s,
        msTimeout = pbmTimeout s\<rparr>)"

fun ToMachineDesiredState :: "pb_machine_desired_state \<Rightarrow> machine_desired_state" where
  "ToMachineDesiredState MachineDesiredState_Pending = MachineDesiredStatePending"
| "ToMachineDesiredState MachineDesiredState_Running = MachineDesiredStateRunning"
| "ToMachineDesiredState MachineDesiredState_Terminated = MachineDesiredStateTerminated"
| "ToMachineDesiredState _ = MachineDesiredStateUnknown"

fun ToMachineState :: "pb_machine_state \<Rightarrow> machine_state" where
  "ToMachineState MachineState_Pending = MachineStatePending"
| "ToMachineState MachineState_Starting = MachineStateStarting"
| "ToMachineState MachineState_Running = MachineStateRunning"
| "ToMachineState MachineState_Degraded = MachineStateDegraded"
| "ToMachineState MachineState_Error = MachineStateError"
| "ToMachineState MachineState_Terminating = MachineStateTerminating"
| "ToMachineState MachineState_Terminated = MachineStateTerminated"
| "ToMachineState _ = MachineStateUnknown"

section \<open>\<^verbatim>\<open>container_to.go\<close>\<close>

fun ToContainerRestartPolicy :: "pb_restart_policy \<Rightarrow> restart_policy" where
  "ToContainerRestartPolicy ContainerRestartSpec_Policy_No = ContainerRestartPolicyNo"
| "ToContainerRestartPolicy ContainerRestartSpec_Policy_OnFailure = ContainerRestartPolicyOnFailure"
| "ToContainerRestartPolicy ContainerRestartSpec_Policy_Always = ContainerRestartPolicyAlways"
| "ToContainerRestartPolicy _ = ContainerRestartPolicyUnknown"

definition ToContainerRestartSpec :: "pb_restart_spec option \<Rightarrow> restart_spec option" where
  "ToContainerRestartSpec spec = (case spec of None \<Rightarrow> None
    | Some s \<Rightarrow> Some \<lparr>rsPolicy = ToContainerRestartPolicy (pbrPolicy s), rsMaxRetries = pbrMaxRetries s\<rparr>)"

definition ToContainerHttpHealthcheckSpec ::
    "pb_http_healthcheck_spec option \<Rightarrow> http_healthcheck_spec option" where
  "ToContainerHttpHealthcheckSpec spec = (case spec of None \<Rightarrow> None
    | Some s \<Rightarrow> Some \<lparr>hhMethod = pbhMethod s, hhPath = pbhPath s, hhPort = pbhPort s,
        hhHeaders = pbhHeaders s\<rparr>)"

definition ToContainerHealthcheckSpec :: "pb_healthcheck_spec option \<Rightarrow> healthcheck_spec option" where
  "ToContainerHealthcheckSpec spec = (case spec of None \<Rightarrow> None
    | Some s \<Rightarrow> Some \<lparr>hcInitialDelaySeconds = pbkInitialDelaySeconds s,
        hcPeriodSeconds = pbkPeriodSeconds s,
        hcHttp = (case pbkType s of
            HealthcheckSpec_Http h \<Rightarrow> ToContainerHttpHealthcheckSpec h
          | _ \<Rightarrow> None)\<rparr>)"

definition ToContainerSpec :: "pb_container_spec option \<Rightarrow> container_spec option" where
  "ToContainerSpec spec = (case spec of None \<Rightarrow> None
    | Some s \<Rightarrow> Some \<lparr>csName = pbcName s, csImage = pbcImage s, csEnv = pbcEnv s,
        csCommand = pbcCommand s, csUser = None,
        csHealthcheck = ToContainerHealthcheckSpec (pbcHealthcheck s),
        csWorkingDir = pbcWorkingDir s,
        csRestart = ToContainerRestartSpec (pbcRestart s)\<rparr>)"

section \<open>Lemmas\<close>

text \<open>States survive the round trip through the wire exactly when they have a name.\<close>

lemma To_From_MachineState: "ToMachineState (FromMachineState s) = s \<longleftrightarrow> (\<nexists>x. s = MachineStateOther x)"
  by (cases s) auto

lemma From_To_MachineState: "FromMachineState (ToMachineState p) = p \<longleftrightarrow> (\<nexists>x. p = MachineState_Number x)"
  by (cases p) auto

lemma To_From_MachineDesiredState:
  "ToMachineDesiredState (FromMachineDesiredState s) = s \<longleftrightarrow> (\<nexists>x. s = MachineDesiredStateOther x)"
  by (cases s) auto

lemma From_To_MachineDesiredState:
  "FromMachineDesiredState (ToMachineDesiredState p) = p \<longleftrightarrow> (\<nexists>x. p = MachineDesiredState_Number x)"
  by (cases p) auto

lemma ToMachineDesiredState_no_other [simp]: "ToMachineDesiredState p \<noteq> MachineDesiredStateOther x"
  by (cases p) auto

lemma ToContainerSpec_User: "ToContainerSpec spec = Some s \<Longrightarrow> csUser s = None"
  by (auto simp: ToContainerSpec_def split: option.splits)

end
