(* ===== verification/Messages.thy ===== *)
theory Messages
  imports V1pbAdapter
begin

text \<open>
  The messages that cross process boundaries: events of a container as the init server, the
  runtime and the node agent exchange them, the events the node agent sends to the control
  plane and the commands it receives.  The message types are generated from a schema that is
  not part of the repository; each record has the fields the sources read or write.
  Timestamps are numbers; \<^verbatim>\<open>int32\<close> fields are words.
\<close>

datatype pb_container_state =
    ContainerState_Exited
  | ContainerState_Running
  | ContainerState_Unknown
  | ContainerState_Number int

text \<open>
  The container event of \<^verbatim>\<open>InitEventsResponse\<close>, \<^verbatim>\<open>RuntimeEventsResponse\<close> and \<^verbatim>\<open>ContainerEvent\<close>.  The
  first two carry the container's identifier inside, the third outside of it.
\<close>

record pb_container_state_changed =
  pceContainerId :: string
  pceState :: pb_container_state
  pceStartedAt :: "nat option"
  pceExitedAt :: "nat option"
  pceExitCode :: "32 word option"
  pceExitError :: "string option"
  pceHealthy :: bool
  pceHealthcheckError :: "string option"
  pceRestartCount :: "32 word"

datatype init_event =
    InitEvent_ContainerStateChanged pb_container_state_changed
  | InitEvent_Ping
  | InitEvent_Unset

record init_events_response =
  ierEventId :: string
  ierTimestamp :: nat
  ierEvent :: init_event

datatype runtime_event =
    RuntimeEvent_ContainerStateChanged pb_container_state_changed
  | RuntimeEvent_Ping
  | RuntimeEvent_Unset

record runtime_events_response =
  rerEventId :: string
  rerTimestamp :: nat
  rerEvent :: runtime_event

datatype pb_machine_event_kind =
    MachineEvent_DesiredStateChanged pb_machine_desired_state
  | MachineEvent_StateChanged pb_machine_state

record pb_machine_event =
  pmeEventId :: string
  pmeMachineId :: string
  pmeTimestamp :: nat
  pmeEvent :: pb_machine_event_kind

record pb_container_event =
  pcnEventId :: string
  pcnContainerId :: string
  pcnTimestamp :: nat
  pcnStateChanged :: pb_container_state_changed

section \<open>The control plane's stream\<close>

record pb_stats =
  pbsTotalMemoryMb :: "64 word"
  pbsUsedMemoryMb :: "64 word"
  pbsReservedMemoryMb :: "64 word"
  pbsCpuCount :: "32 word"

record pb_register =
  pbrClusterId :: string
  pbrBootstrapToken :: string
  pbrNodeToken :: "string option"
  pbrIpAddress :: string
  pbrApiEndpoint :: string
  pbrGatewayEndpoint :: string
  pbrStats :: pb_stats

datatype client_event =
    ClientEvent_Register pb_register
  | ClientEvent_Machine pb_machine_event
  | ClientEvent_Container pb_container_event
  | ClientEvent_Stats pb_stats

record pb_container =
  pbctContainerId :: string
  pbctSpec :: "pb_container_spec option"

record pb_machine =
  pbmaMachineId :: string
  pbmaDesiredState :: pb_machine_desired_state
  pbmaSpec :: "pb_machine_spec option"
  pbmaContainers :: "pb_container list"

record pb_registration_completed =
  prcNodeId :: string
  prcAuthorityCert :: "8 word list"
  prcServerCert :: "8 word list"
  prcServerKey :: "8 word list"
  prcNodeToken :: string
  prcExpectedMachines :: "pb_machine list"

datatype server_event =
    ServerEvent_RegistrationCompleted pb_registration_completed
  | ServerEvent_CreateMachine pb_machine
  | ServerEvent_UpdateMachineDesiredState string pb_machine_desired_state
  | ServerEvent_Ping
  | ServerEvent_Unset

section \<open>Streams\<close>

text \<open>A line of a container's output, as the init server sends it.\<close>

record init_log =
  iglContainerID :: string
  iglError :: bool
  iglContent :: string
  iglTimestamp :: nat

text \<open>Sending messages until one fails; the \<open>n\<close>-th message of the stream has the outcome \<open>send n\<close>.\<close>

fun send_all :: "(nat \<Rightarrow> gerror option) \<Rightarrow> 'm list \<Rightarrow> 'm list \<Rightarrow> gerror option \<times> 'm list" where
  "send_all send [] sent = (None, sent)"
| "send_all send (x # xs) sent = (case send (length sent) of
      Some e \<Rightarrow> (Some e, sent)
    | None \<Rightarrow> send_all send xs (sent @ [x]))"

lemma send_all_ok: "send_all (\<lambda>_. None) xs sent = (None, sent @ xs)"
  by (induction xs arbitrary: sent) auto

end
