(* ===== verification/LogManager.thy ===== *)
theory LogManager
  imports GoLib
begin

text \<open>
  \<^verbatim>\<open>core/logmanager\<close>: the log file of a machine, a sequence of JSON values that one process appends
  to and any process reads from the start.  A value of the file that does not decode (a line cut
  by a crash) is \<open>None\<close>.  The outcomes of opening, encoding and closing are arguments.
\<close>

datatype entry_source =
    MachineLogEntrySource
  | ContainerLogEntrySource
  | OtherLogEntrySource string

record log_entry =
  leSource :: entry_source
  leContainerID :: "string option"
  leTimestamp :: nat
  leMessage :: string
  leStderr :: bool

type_synonym log_file = "log_entry option list"

text \<open>
  \<open>lmClosed\<close> tells whether the open file has been closed (\<^verbatim>\<open>Close\<close> leaves the field set), \<open>lmEncErr\<close>
  is the error a \<^verbatim>\<open>json.Encoder\<close> keeps once a write has failed and returns ever after.
\<close>

record log_manager =
  lmPath :: string
  lmLogFile :: bool
  lmClosed :: bool
  lmEncoder :: bool
  lmEncErr :: "gerror option"
  lmDisk :: log_file

text \<open>\<open>io_partial\<close>: a failing write has put a part of its value in the file.\<close>

record log_io =
  io_open :: "gerror option"
  io_write :: "gerror option"
  io_partial :: bool
  io_close :: "gerror option"
  io_now :: nat

definition logmanager_New :: "string \<Rightarrow> log_file \<Rightarrow> log_manager" where
  "logmanager_New logPath disk = \<lparr>lmPath = logPath, lmLogFile = False, lmClosed = False, lmEncoder = False,
     lmEncErr = None, lmDisk = disk\<rparr>"

text \<open>\<^verbatim>\<open>json.Encoder.Encode\<close> on the log file.\<close>

definition Encode :: "log_io \<Rightarrow> log_entry \<Rightarrow> log_manager \<Rightarrow> unit res \<times> log_manager" where
  "Encode io entry m = (case lmEncErr m of
      Some e \<Rightarrow> (Err e, m)
    | None \<Rightarrow>
        (case (if lmClosed m then Some (External ''file already closed'') else io_write io) of
           Some e \<Rightarrow> (Err e, m\<lparr>lmEncErr := Some e,
             lmDisk := (if io_partial io \<and> \<not> lmClosed m then lmDisk m @ [None] else lmDisk m)\<rparr>)
         | None \<Rightarrow> (Ok (), m\<lparr>lmDisk := lmDisk m @ [Some entry]\<rparr>)))"

definition WriteLog :: "log_io \<Rightarrow> log_entry \<Rightarrow> log_manager \<Rightarrow> unit res \<times> log_manager" where
  "WriteLog io entry m =
    (if \<not> lmLogFile m \<and> io_open io \<noteq> None then (Err (the (io_open io)), m)
     else Encode io (entry\<lparr>leTimestamp := io_now io\<rparr>) (m\<lparr>lmLogFile := True, lmEncoder := True\<rparr>))"

definition Close :: "log_io \<Rightarrow> log_manager \<Rightarrow> unit res \<times> log_manager" where
  "Close io m =
    (if lmLogFile m then
       if lmClosed m then (Err (External ''file already closed''), m)
       else (case io_close io of Some e \<Rightarrow> (Err e, m) | None \<Rightarrow> (Ok (), m\<lparr>lmClosed := True\<rparr>))
     else (Ok (), m))"

text \<open>
  The reading goroutine for \<open>n\<close> turns of its loop (the context ends before the next): the entries
  it sends, and whether it has closed the channel.  It stops at the first value that does not
  decode and at the end of the file.
\<close>

fun read_loop :: "nat \<Rightarrow> log_file \<Rightarrow> log_entry list" where
  "read_loop 0 items = []"
| "read_loop (Suc n) (Some entry # items) = entry # read_loop n items"
| "read_loop (Suc n) items = []"

definition ReadLogs :: "log_file res \<Rightarrow> nat \<Rightarrow> log_entry list res" where
  "ReadLogs opened n = (case opened of Ok items \<Rightarrow> Ok (read_loop n items) | Err e \<Rightarrow> Err e | Panic p \<Rightarrow> Panic p)"

section \<open>Lemmas\<close>

lemma read_loop_decodable: "length items \<le> n \<Longrightarrow> read_loop n (map Some items) = items"
  by (induction n "map Some items" arbitrary: items rule: read_loop.induct) (auto simp: Cons_eq_map_conv)

lemma read_loop_prefix: "read_loop n (items @ rest) = read_loop n items @
    (if None \<in> set items then [] else read_loop (n - length items) rest)"
  by (induction n items rule: read_loop.induct) auto

lemma read_loop_length: "length (read_loop n items) \<le> n"
  by (induction n items rule: read_loop.induct) auto

lemma WriteLog_Ok:
  "WriteLog io entry m = (Ok u, m') \<Longrightarrow> m' = m\<lparr>lmLogFile := True, lmEncoder := True,
     lmDisk := lmDisk m @ [Some (entry\<lparr>leTimestamp := io_now io\<rparr>)]\<rparr> \<and> lmEncErr m = None \<and> \<not> lmClosed m"
  by (auto simp: WriteLog_def Encode_def split: if_splits option.splits)

lemma WriteLog_Err: "WriteLog io entry m = (Err e, m') \<Longrightarrow>
    lmDisk m' = lmDisk m \<and> lmEncErr m' = lmEncErr m \<or> lmEncErr m' \<noteq> None \<and> lmDisk m' \<in> {lmDisk m, lmDisk m @ [None]}"
  by (auto simp: WriteLog_def Encode_def split: if_splits option.splits)

lemma WriteLog_no_Panic [simp]: "WriteLog io e m \<noteq> (Panic p, m')"
  by (auto simp: WriteLog_def Encode_def split: if_splits option.splits)

lemma WriteLog_stuck: "lmEncErr m \<noteq> None \<Longrightarrow> WriteLog io e m = (r, m') \<Longrightarrow>
    (\<exists>x. r = Err x) \<and> lmEncErr m' \<noteq> None \<and> lmDisk m' = lmDisk m"
  by (auto simp: WriteLog_def Encode_def split: if_splits option.splits)

text \<open>A run of writes, each with its own outcomes; the entries that got through.\<close>

fun write_all :: "(log_io \<times> log_entry) list \<Rightarrow> log_manager \<Rightarrow> log_manager" where
  "write_all [] m = m"
| "write_all ((io, e) # ws) m = write_all ws (snd (WriteLog io e m))"

fun written :: "(log_io \<times> log_entry) list \<Rightarrow> log_manager \<Rightarrow> log_entry list" where
  "written [] m = []"
| "written ((io, e) # ws) m = (case WriteLog io e m of
      (Ok _, m') \<Rightarrow> e\<lparr>leTimestamp := io_now io\<rparr> # written ws m'
    | (_, m') \<Rightarrow> written ws m')"

lemma write_all_stuck: "lmEncErr m \<noteq> None \<Longrightarrow> lmDisk (write_all ws m) = lmDisk m \<and> written ws m = []"
proof (induction ws arbitrary: m)
  case (Cons w ws)
  obtain io e where w: "w = (io, e)" by (cases w)
  obtain r m' where r: "WriteLog io e m = (r, m')" by fastforce
  from WriteLog_stuck [OF Cons.prems r] obtain x where "r = Err x" "lmEncErr m' \<noteq> None" "lmDisk m' = lmDisk m"
    by blast
  with Cons.IH [of m'] r w show ?case by simp
qed simp

lemma write_all_disk:
  "\<exists>cut. lmDisk (write_all ws m) = lmDisk m @ map Some (written ws m) @ cut \<and> cut \<in> {[], [None]}"
proof (induction ws arbitrary: m)
  case Nil
  then show ?case by simp
next
  case (Cons w ws)
  obtain io e where w: "w = (io, e)" by (cases w)
  obtain r m' where r: "WriteLog io e m = (r, m')" by fastforce
  show ?case
  proof (cases r)
    case (Ok u)
    with r w Cons [of m'] WriteLog_Ok [of io e m u m'] show ?thesis by auto
  next
    case (Err x)
    with WriteLog_Err [of io e m x m'] r
    consider "lmDisk m' = lmDisk m" | "lmEncErr m' \<noteq> None" "lmDisk m' = lmDisk m @ [None]" by auto
    then show ?thesis
      using Cons [of m'] write_all_stuck [of m' ws] r w Err by cases auto
  qed (use r in simp)
qed


text \<open>Once a write has failed, no later write of the process reaches the file.\<close>

lemma failed_write_ends_log:
  assumes "lmLogFile m" "lmEncErr m = None" "\<not> lmClosed m" "io_write io \<noteq> None"
  shows "written ((io, e) # ws) m = []"
proof -
  obtain r m' where r: "WriteLog io e m = (r, m')" by fastforce
  with assms have "(\<exists>x. r = Err x) \<and> lmEncErr m' \<noteq> None"
    by (auto simp: WriteLog_def Encode_def split: option.splits)
  with r write_all_stuck [of m' ws] show ?thesis by auto
qed

definition sample_entry :: log_entry where
  "sample_entry = \<lparr>leSource = MachineLogEntrySource, leContainerID = None, leTimestamp = 0, leMessage = ''boot'', leStderr = False\<rparr>"

definition good_io :: "nat \<Rightarrow> log_io" where
  "good_io t = \<lparr>io_open = None, io_write = None, io_partial = False, io_close = None, io_now = t\<rparr>"


end
