(* ===== verification/NodeTypes.thy ===== *)
theory NodeTypes
  imports Messages LogManager
begin

text \<open>
  The data of the node agent (\<^verbatim>\<open>nodeagent/internal/types\<close>), the calls it makes to the outside
  world, and its memory.

  Objects that the code shares through pointers (network interfaces, volumes, images,
  containers) live at addresses of an explicit store, because the code relies on the
  sharing: a volume's source is the volume object of the image, and becomes usable when
  pulling the image writes its path.  A nil pointer is \<open>None\<close>.
\<close>

section \<open>Data\<close>

record network_interface =
  niID :: string
  niName :: string
  niIPAddress :: ip
  niMacAddress :: hwaddr
  niGatewayAddress :: ip
  niNetworkCIDR :: ipnet
  niAllocatedAt :: "nat option"
  niReleasedAt :: "nat option"

record volume =
  voID :: string
  voSize :: "64 word"
  voPath :: "string option"
  voSourceID :: "string option"
  voSource :: "nat option"
  voAllocatedAt :: "nat option"
  voReleasedAt :: "nat option"

record image_spec =
  imsUser :: string
  imsWorkingDir :: string
  imsEnv :: "string \<rightharpoonup> string"
  imsCommand :: "string list"

record image =
  imID :: string
  imDigest :: string
  imName :: string
  imSpec :: "image_spec option"
  imVolumeID :: string
  imVolume :: "nat option"
  imPulledAt :: "nat option"

record container =
  ctID :: string
  ctMachineID :: string
  ctSpec :: "container_spec option"

record machine_volume =
  mvID :: string
  mvPosition :: nat
  mvMachineID :: string
  mvContainerID :: string
  mvImageID :: "string option"
  mvImage :: "nat option"
  mvVolumeID :: string
  mvVolume :: "nat option"

record machine =
  mID :: string
  mState :: machine_state
  mDesiredState :: machine_desired_state
  mSpec :: "machine_spec option"
  mNetworkInterfaceID :: "string option"
  mVolumes :: "machine_volume list"
  mContainers :: "nat list"
  mNetworkInterface :: "nat option"
  mTerminatedAt :: "nat option"

datatype machine_event_type =
    MachineEventTypeStateChanged
  | MachineEventTypeDesiredStateChanged
  | MachineEventTypeContainerStateChanged
  | MachineEventTypeOther string

record machine_event =
  mevID :: string
  mevType :: machine_event_type
  mevMachineID :: string
  mevContainerID :: "string option"
  mevPayload :: "8 word list"
  mevTimestamp :: nat

record machine_create_container_options =
  mccContainerID :: string
  mccSpec :: "container_spec option"

record machine_create_options =
  mcoMachineID :: string
  mcoDesiredState :: machine_desired_state
  mcoSpec :: "machine_spec option"
  mcoContainers :: "machine_create_container_options list"

record config =
  cfDebug :: bool
  cfClusterID :: string
  cfBootstrapToken :: string
  cfIPAddr :: string
  cfAPIAddr :: string
  cfGatewayAddr :: string
  cfStorageDirectory :: string
  cfRuntimeBinary :: string
  cfVolumeGroup :: string
  cfControlPlaneURL :: string

section \<open>Calls to the outside world\<close>

text \<open>
  One constructor per kind of call of the node agent, in groups: netlink, the operating
  system, the database, the image registry, the runtime's process and socket, and the rest.
  Database calls carry the row and, for an update, the selected columns.
\<close>

datatype net_call =
    LinkByName string
  | LinkAdd string
  | LinkDel string
  | LinkSetHardwareAddr string hwaddr
  | LinkSetUp string
  | LinkSetMaster string string
  | AddrAdd string ip "8 word list"

datatype os_call =
    WriteFile string string nat
  | ReadFile string
  | MkdirAll string nat
  | Mkdir string nat
  | MkdirTemp string
  | RemoveAll string
  | CreateFile string
  | CopyLayer nat string
  | Mount string string string
  | Unmount string
  | OpenFile string
  | EncodeRuntimeConfig string runtime_config

datatype db_call =
    DbCreateInterface network_interface
  | DbSaveInterface "string list" network_interface
  | DbFindInterfaces
  | DbSaveVolume "string list" volume
  | DbFirstImage string
  | DbSaveImage "string list" image
  | DbCreateMachine machine
  | DbSaveMachine "string list" machine
  | DbFindMachines
  | DbCreateEvent machine_event
  | DbFindEvents string

datatype registry_call =
    ParseReference string
  | RemoteImage string
  | RemoteDigest string
  | RemoteConfigFile string
  | RemoteSize string
  | RemoteLayers string
  | LayerCompressed nat

datatype runtime_call =
    RuntimeGetState string
  | RuntimeGetLogs string bool
  | RuntimeGetContainerLogs string string bool
  | FindProcess int
  | SignalTerm int
  | ProcessKill int
  | CmdStdoutPipe
  | CmdStderrPipe
  | CmdStart string "string list"

datatype node_call =
    RunCmd string "string list"
  | GenID
  | Net net_call
  | Os os_call
  | Db db_call
  | Registry registry_call
  | Rt runtime_call
  | StreamSend client_event
  | StreamReceive
  | VirtualMemory
  | CpuInfo

record remote_config =
  rmUser :: string
  rmWorkingDir :: string
  rmEntrypoint :: "string list"
  rmCmd :: "string list"
  rmEnv :: "string list"

text \<open>
  What the query of the machines with their associations gives: rows, and the objects they
  point to by addresses counted from the first free one.
\<close>

record loaded =
  ldMachines :: "machine list"
  ldIfaces :: "(nat \<times> network_interface) list"
  ldVolumes :: "(nat \<times> volume) list"
  ldImages :: "(nat \<times> image) list"
  ldContainers :: "(nat \<times> container) list"
  ldCount :: nat

text \<open>A log message of the runtime's streams; \<^verbatim>\<open>GetLogs\<close> leaves the first two fields empty.\<close>

record runtime_log =
  rlgContainerID :: string
  rlgError :: bool
  rlgContent :: string
  rlgTimestamp :: nat

text \<open>
  The answers to the calls that return more than an error, again functions of the trace,
  and the encoders of the protobuf library.  \<open>ne_image\<close> returns the row of an image with the
  address of its preloaded volume.
\<close>

record node_env = "node_call env" +
  ne_link_hwaddr :: "node_call list \<Rightarrow> hwaddr"
  ne_interfaces :: "node_call list \<Rightarrow> network_interface list"
  ne_file :: "node_call list \<Rightarrow> string"
  ne_tmpdir :: "node_call list \<Rightarrow> string"
  ne_image :: "node_call list \<Rightarrow> image \<times> volume"
  ne_ref_string :: "string \<Rightarrow> string"
  ne_digest :: "node_call list \<Rightarrow> string"
  ne_config_file :: "node_call list \<Rightarrow> remote_config"
  ne_size :: "node_call list \<Rightarrow> int"
  ne_layers :: "node_call list \<Rightarrow> nat"
  ne_pid :: "node_call list \<Rightarrow> int"
  ne_exited :: "node_call list \<Rightarrow> bool"
  ne_memory :: "node_call list \<Rightarrow> 64 word \<times> 64 word"
  ne_cpus :: "node_call list \<Rightarrow> nat"
  ne_events :: "node_call list \<Rightarrow> machine_event list"
  ne_received :: "node_call list \<Rightarrow> server_event"
  ne_machines :: "node_call list \<Rightarrow> loaded"
  ne_log_file :: "node_call list \<Rightarrow> log_file"
  ne_log_stream :: "node_call list \<Rightarrow> runtime_log list"
  ne_pem :: "8 word list \<Rightarrow> (string \<times> 8 word list) option"
  ne_parse_cert :: "8 word list \<Rightarrow> gerror option"
  ne_key_pair :: "8 word list \<Rightarrow> 8 word list \<Rightarrow> gerror option"
  ne_marshal_machine :: "pb_machine_event \<Rightarrow> 8 word list res"
  ne_unmarshal_machine :: "8 word list \<Rightarrow> pb_machine_event res"
  ne_marshal_container :: "pb_container_event \<Rightarrow> 8 word list res"
  ne_unmarshal_container :: "8 word list \<Rightarrow> pb_container_event res"

section \<open>The memory of the node agent\<close>

text \<open>The network provider's own fields (\<^verbatim>\<open>networkprovider.Provider\<close>).\<close>

record net_provider =
  npBridgeInterface :: string
  npNetworkCIDR :: ipnet
  npNetworkAddr :: ip
  npGatewayAddr :: ip
  npAllocatedIPs :: "string list"

record node =
  nIfaces :: "nat \<rightharpoonup> network_interface"
  nVolumes :: "nat \<rightharpoonup> volume"
  nImages :: "nat \<rightharpoonup> image"
  nContainers :: "nat \<rightharpoonup> container"
  nNet :: net_provider
  nTrace :: "node_call list"
  nNext :: nat

text \<open>A call of the node agent: its outcome, and the trace one longer.\<close>

definition call :: "('e) node_env_scheme \<Rightarrow> node_call \<Rightarrow> 'm node_scheme \<Rightarrow> unit res \<times> 'm node_scheme" where
  "call E c s = (fst (ext E c (nTrace s)), s\<lparr>nTrace := nTrace s @ [c]\<rparr>)"

definition call_val :: "('e) node_env_scheme \<Rightarrow> node_call \<Rightarrow> (node_call list \<Rightarrow> 'a) \<Rightarrow>
    'm node_scheme \<Rightarrow> 'a res \<times> 'm node_scheme" where
  "call_val E c v s = (fst (ext_val E c v (nTrace s)), s\<lparr>nTrace := nTrace s @ [c]\<rparr>)"

definition gen_id :: "('e) node_env_scheme \<Rightarrow> 'm node_scheme \<Rightarrow> string \<times> 'm node_scheme" where
  "gen_id E s = (env_id E (nTrace s), s\<lparr>nTrace := nTrace s @ [GenID]\<rparr>)"

definition now :: "('e) node_env_scheme \<Rightarrow> 'm node_scheme \<Rightarrow> nat" where
  "now E s = env_now E (nTrace s)"

text \<open>
  A pointer is followed in the store; a nil pointer panics.  Every address the code holds has
  been allocated, so an address that is not in the store stands for nil as well.
\<close>

definition deref :: "(nat \<rightharpoonup> 'a) \<Rightarrow> nat option \<Rightarrow> 's \<Rightarrow> 'a res \<times> 's" where
  "deref h p s = (case Option.bind p h of None \<Rightarrow> Panic ''nil pointer dereference'' | Some x \<Rightarrow> Ok x, s)"

lemma call_Ok [simp]:
  "(call E c s = (Ok u, s')) = (env_err E (nTrace s) c = None \<and> s' = s\<lparr>nTrace := nTrace s @ [c]\<rparr>)"
  by (auto simp: call_def ext_def split: option.splits)

lemma call_Err [simp]:
  "(call E c s = (Err e, s')) = (env_err E (nTrace s) c = Some e \<and> s' = s\<lparr>nTrace := nTrace s @ [c]\<rparr>)"
  by (auto simp: call_def ext_def split: option.splits)

lemma call_Panic [simp]: "call E c s \<noteq> (Panic p, s')"
  by (auto simp: call_def ext_def split: option.splits)

lemma call_val_Ok [simp]:
  "(call_val E c v s = (Ok x, s')) =
    (env_err E (nTrace s) c = None \<and> x = v (nTrace s) \<and> s' = s\<lparr>nTrace := nTrace s @ [c]\<rparr>)"
  by (auto simp: call_val_def ext_val_def split: option.splits)

lemma call_val_Err [simp]:
  "(call_val E c v s = (Err e, s')) = (env_err E (nTrace s) c = Some e \<and> s' = s\<lparr>nTrace := nTrace s @ [c]\<rparr>)"
  by (auto simp: call_val_def ext_val_def split: option.splits)

lemma call_val_Panic [simp]: "call_val E c v s \<noteq> (Panic p, s')"
  by (auto simp: call_val_def ext_val_def split: option.splits)

lemma call_cases:
  "call E c s = (case env_err E (nTrace s) c of
      None \<Rightarrow> (Ok (), s\<lparr>nTrace := nTrace s @ [c]\<rparr>)
    | Some e \<Rightarrow> (Err e, s\<lparr>nTrace := nTrace s @ [c]\<rparr>))"
  by (auto simp: call_def ext_def split: option.splits)

lemma call_val_cases:
  "call_val E c v s = (case env_err E (nTrace s) c of
      None \<Rightarrow> (Ok (v (nTrace s)), s\<lparr>nTrace := nTrace s @ [c]\<rparr>)
    | Some e \<Rightarrow> (Err e, s\<lparr>nTrace := nTrace s @ [c]\<rparr>))"
  by (auto simp: call_val_def ext_val_def split: option.splits)

lemma deref_Ok [simp]: "(deref h p s = (Ok x, s')) = (\<exists>a. p = Some a \<and> h a = Some x \<and> s' = s)"
  by (auto simp: deref_def split: option.splits bind_splits)

lemma deref_Err [simp]: "deref h p s \<noteq> (Err e, s')"
  by (auto simp: deref_def split: option.splits)

lemma deref_Panic [simp]: "(deref h p s = (Panic m, s')) =
    (Option.bind p h = None \<and> m = ''nil pointer dereference'' \<and> s' = s)"
  by (auto simp: deref_def split: option.splits)

lemma deref_Some: "h a = Some x \<Longrightarrow> deref h (Some a) s = (Ok x, s)"
  by (simp add: deref_def)

lemmas outcomes = call_cases call_val_cases

text \<open>An operation that makes calls and changes nothing in memory.\<close>

definition trace_only :: "'m node_scheme \<Rightarrow> 'm node_scheme \<Rightarrow> bool" where
  "trace_only s s' \<longleftrightarrow> s' = s\<lparr>nTrace := nTrace s'\<rparr>"

lemma trace_only_refl [simp]: "trace_only s s"
  by (simp add: trace_only_def)

lemma trace_only_upd [simp]: "trace_only s (s'\<lparr>nTrace := t\<rparr>) = trace_only s s'"
  by (auto simp: trace_only_def) (metis node.surjective node.update_convs(6))+

lemma trace_only_trans: "trace_only s s' \<Longrightarrow> trace_only s' s'' \<Longrightarrow> trace_only s s''"
  unfolding trace_only_def by (metis node.surjective node.update_convs(6))

lemma trace_onlyE: "trace_only s s' \<Longrightarrow> (\<And>t. s' = s\<lparr>nTrace := t\<rparr> \<Longrightarrow> P) \<Longrightarrow> P"
  by (auto simp: trace_only_def)

lemma keeps_call [keeps_intros]: "P (s\<lparr>nTrace := nTrace s @ [c]\<rparr>) \<Longrightarrow> keeps P (call E c s)"
  by (simp add: keeps_def call_def)

lemma keeps_call_val [keeps_intros]: "P (s\<lparr>nTrace := nTrace s @ [c]\<rparr>) \<Longrightarrow> keeps P (call_val E c v s)"
  by (simp add: keeps_def call_val_def)

lemma keeps_deref [keeps_intros]: "P s \<Longrightarrow> keeps P (deref h p s)"
  by (simp add: keeps_def deref_def)

text \<open>A call that fails nowhere, for instances.\<close>

definition quiet_env :: node_env where
  "quiet_env = \<lparr>env_err = \<lambda>_ _. None, env_now = length, env_id = \<lambda>t. dec (length t),
    ne_link_hwaddr = \<lambda>_. [], ne_interfaces = \<lambda>_. [], ne_file = \<lambda>_. [], ne_tmpdir = \<lambda>_. ''/tmp/x'',
    ne_image = \<lambda>_. (\<lparr>imID = ''i'', imDigest = ''d'', imName = ''n'', imSpec = None, imVolumeID = ''v'',
       imVolume = None, imPulledAt = None\<rparr>, \<lparr>voID = ''v'', voSize = 0, voPath = None, voSourceID = None,
       voSource = None, voAllocatedAt = None, voReleasedAt = None\<rparr>),
    ne_ref_string = \<lambda>x. x, ne_digest = \<lambda>_. ''d'',
    ne_config_file = \<lambda>_. \<lparr>rmUser = [], rmWorkingDir = [], rmEntrypoint = [], rmCmd = [], rmEnv = []\<rparr>,
    ne_size = \<lambda>_. 0, ne_layers = \<lambda>_. 0, ne_pid = \<lambda>_. 1, ne_exited = \<lambda>_. True,
    ne_memory = \<lambda>_. (0, 0), ne_cpus = \<lambda>_. 1, ne_events = \<lambda>_. [],
    ne_received = \<lambda>_. ServerEvent_Ping,
    ne_machines = \<lambda>_. \<lparr>ldMachines = [], ldIfaces = [], ldVolumes = [], ldImages = [], ldContainers = [], ldCount = 0\<rparr>,
    ne_log_file = \<lambda>_. [], ne_log_stream = \<lambda>_. [], ne_pem = \<lambda>_. None, ne_parse_cert = \<lambda>_. None, ne_key_pair = \<lambda>_ _. None,
    ne_marshal_machine = \<lambda>_. Ok [],
    ne_unmarshal_machine = \<lambda>_. Err (External ''decode''), ne_marshal_container = \<lambda>_. Ok [],
    ne_unmarshal_container = \<lambda>_. Err (External ''decode'')\<rparr>"

definition bare_node :: node where
  "bare_node = \<lparr>nIfaces = Map.empty, nVolumes = Map.empty, nImages = Map.empty, nContainers = Map.empty,
     nNet = \<lparr>npBridgeInterface = [], npNetworkCIDR = \<lparr>netIP = [], netMask = []\<rparr>, npNetworkAddr = [],
       npGatewayAddr = [], npAllocatedIPs = []\<rparr>, nTrace = [], nNext = 0\<rparr>"

end
