(* ===== verification/Interfaces.thy ===== *)
theory Interfaces
  imports NodeTypes
begin

text \<open>
  The contracts of the interfaces of \<^verbatim>\<open>nodeagent/internal/types\<close> that the machine service and
  the machine controller program against.  Each is interpreted on the model of its provider,
  in that provider's theory.
\<close>

section \<open>\<^verbatim>\<open>types.NetworkProvider\<close>\<close>

text \<open>
  \<open>live s\<close> are the interfaces allocated and not yet released, by address.  An allocation adds
  one, a failed one adds none, a release removes at most the one it names, and no two live
  interfaces share an IP address.
\<close>

locale network_provider =
  fixes allocate :: "'s \<Rightarrow> nat res \<times> 's"
    and setup_if :: "nat option \<Rightarrow> 's \<Rightarrow> unit res \<times> 's"
    and release :: "nat option \<Rightarrow> 's \<Rightarrow> unit res \<times> 's"
    and live :: "'s \<Rightarrow> nat \<rightharpoonup> network_interface"
    and inv :: "'s \<Rightarrow> bool"
  assumes allocate_inv: "inv s \<Longrightarrow> allocate s = (r, s') \<Longrightarrow> inv s'"
    and setup_inv: "inv s \<Longrightarrow> setup_if p s = (u, s') \<Longrightarrow> inv s'"
    and release_inv: "inv s \<Longrightarrow> release p s = (u, s') \<Longrightarrow> inv s'"
    and allocate_ok: "inv s \<Longrightarrow> allocate s = (Ok a, s') \<Longrightarrow>
          live s a = None \<and> (\<exists>ni. live s' = (live s)(a \<mapsto> ni))"
    and allocate_failed: "inv s \<Longrightarrow> allocate s = (Err e, s') \<Longrightarrow> live s' = live s"
    and allocate_no_panic: "inv s \<Longrightarrow> allocate s \<noteq> (Panic m, s')"
    and setup_live: "inv s \<Longrightarrow> setup_if p s = (u, s') \<Longrightarrow> live s' = live s"
    and release_ok: "inv s \<Longrightarrow> release (Some a) s = (Ok (), s') \<Longrightarrow> live s' = (live s)(a := None)"
    and release_failed: "inv s \<Longrightarrow> release (Some a) s = (Err e, s') \<Longrightarrow>
          live s' = live s \<or> live s' = (live s)(a := None)"
    and release_no_panic: "inv s \<Longrightarrow> live s a \<noteq> None \<Longrightarrow> release (Some a) s \<noteq> (Panic m, s')"
    and live_unique: "inv s \<Longrightarrow> live s a = Some x \<Longrightarrow> live s b = Some y \<Longrightarrow>
          niIPAddress x = niIPAddress y \<Longrightarrow> a = b"
begin

text \<open>An allocation taken back leaves the live interfaces as they were.\<close>

lemma allocate_then_release:
  assumes "inv s" "allocate s = (Ok a, s1)" "live s2 = live s1" "inv s2" "release (Some a) s2 = (Ok (), s3)"
  shows "live s3 = live s"
proof -
  obtain ni where l: "live s a = None" "live s1 = (live s)(a \<mapsto> ni)"
    using allocate_ok [OF assms(1,2)] by blast
  have "live s3 = (live s2)(a := None)" using release_ok [OF assms(4,5)] .
  with l assms(3) show ?thesis by (auto simp: fun_eq_iff)
qed

text \<open>A new interface has an address no live interface has.\<close>

lemma allocate_fresh_ip:
  assumes "inv s" "allocate s = (Ok a, s')" "live s' a = Some x" "live s b = Some y"
  shows "niIPAddress x \<noteq> niIPAddress y"
proof
  assume eq: "niIPAddress x = niIPAddress y"
  obtain ni where l: "live s a = None" "live s' = (live s)(a \<mapsto> ni)"
    using allocate_ok [OF assms(1,2)] by blast
  then have "b \<noteq> a" "live s' b = Some y" using assms(4) by auto
  with live_unique [OF allocate_inv [OF assms(1,2)] assms(3) _ eq] show False by simp
qed

text \<open>The invariant survives any sequence of operations.\<close>

inductive ops :: "'s \<Rightarrow> 's \<Rightarrow> bool" where
  ops_refl: "ops s s"
| ops_allocate: "ops s s' \<Longrightarrow> allocate s' = (r, s'') \<Longrightarrow> ops s s''"
| ops_setup: "ops s s' \<Longrightarrow> setup_if p s' = (u, s'') \<Longrightarrow> ops s s''"
| ops_release: "ops s s' \<Longrightarrow> release p s' = (u, s'') \<Longrightarrow> ops s s''"

lemma ops_inv: "ops s s' \<Longrightarrow> inv s \<Longrightarrow> inv s'"
  by (induction rule: ops.induct) (auto intro: allocate_inv setup_inv release_inv)

end

section \<open>\<^verbatim>\<open>types.VolumeProvider\<close>\<close>

text \<open>
  \<open>volume s a\<close> is the volume object at an address.  Allocating an allocated volume fails with
  the sentinel error and does nothing; releasing a released one succeeds and does nothing;
  neither touches another volume.
\<close>

locale volume_provider =
  fixes allocate :: "nat option \<Rightarrow> 's \<Rightarrow> unit res \<times> 's"
    and release :: "nat option \<Rightarrow> 's \<Rightarrow> unit res \<times> 's"
    and volume :: "'s \<Rightarrow> nat \<rightharpoonup> volume"
  assumes allocate_ok: "allocate (Some a) s = (Ok (), s') \<Longrightarrow>
          \<exists>v v'. volume s a = Some v \<and> volume s' = (volume s)(a \<mapsto> v') \<and>
            voAllocatedAt v = None \<and> voAllocatedAt v' \<noteq> None \<and> voPath v' \<noteq> None"
    and allocate_again: "volume s a = Some v \<Longrightarrow> voAllocatedAt v \<noteq> None \<Longrightarrow>
          allocate (Some a) s = (Err ErrVolumeAlreadyAllocated, s)"
    and allocate_frame: "allocate (Some a) s = (r, s') \<Longrightarrow> b \<noteq> a \<Longrightarrow> volume s' b = volume s b"
    and release_ok: "release (Some a) s = (Ok (), s') \<Longrightarrow>
          \<exists>v'. volume s' a = Some v' \<and> voReleasedAt v' \<noteq> None"
    and release_again: "volume s a = Some v \<Longrightarrow> voReleasedAt v \<noteq> None \<Longrightarrow> release (Some a) s = (Ok (), s)"
    and release_frame: "release (Some a) s = (r, s') \<Longrightarrow> b \<noteq> a \<Longrightarrow> volume s' b = volume s b"
    and release_keeps: "release (Some a) s = (r, s') \<Longrightarrow> volume s b = Some v \<Longrightarrow> voReleasedAt v \<noteq> None \<Longrightarrow>
          volume s' b = Some v"
begin

text \<open>\<^verbatim>\<open>Allocate\<close> with \<^verbatim>\<open>ErrVolumeAlreadyAllocated\<close> accepted, as its callers use it.\<close>

definition ensure :: "nat option \<Rightarrow> 's \<Rightarrow> unit res \<times> 's" where
  "ensure p s = catchE (allocate p s) (\<lambda>_ s. (Ok (), s))
     (\<lambda>e s. if errors_is e ErrVolumeAlreadyAllocated then (Ok (), s) else (Err e, s))"

lemma ensure_twice:
  assumes "allocate (Some a) s = (Ok (), s')"
  shows "ensure (Some a) s = (Ok (), s')" and "ensure (Some a) s' = (Ok (), s')"
proof -
  show "ensure (Some a) s = (Ok (), s')" using assms by (simp add: ensure_def)
  obtain v' where "volume s' a = Some v'" "voAllocatedAt v' \<noteq> None"
    using allocate_ok [OF assms] by fastforce
  then show "ensure (Some a) s' = (Ok (), s')"
    using allocate_again by (simp add: ensure_def)
qed

text \<open>Releasing a list of volumes, stopping at the first error.\<close>

fun release_list :: "nat list \<Rightarrow> 's \<Rightarrow> unit res \<times> 's" where
  "release_list [] s = (Ok (), s)"
| "release_list (a # as) s = tryE id (release (Some a) s) (\<lambda>_ s. release_list as s)"

lemma release_list_keeps:
  "release_list as s = (r, s') \<Longrightarrow> volume s b = Some v \<Longrightarrow> voReleasedAt v \<noteq> None \<Longrightarrow> volume s' b = Some v"
proof (induction as arbitrary: s)
  case Nil
  then show ?case by simp
next
  case (Cons a as)
  then show ?case
    by (auto split: flow_asm dest: release_keeps)
qed

lemma release_list_ok:
  assumes "release_list as s = (Ok (), s')" and "a \<in> set as"
  shows "\<exists>v. volume s' a = Some v \<and> voReleasedAt v \<noteq> None"
  using assms
proof (induction as arbitrary: s)
  case Nil
  then show ?case by simp
next
  case (Cons x as)
  then obtain s1 where 1: "release (Some x) s = (Ok (), s1)" and 2: "release_list as s1 = (Ok (), s')"
    by (auto split: flow_asm)
  show ?case
  proof (cases "a = x")
    case True
    with release_ok [OF 1] release_list_keeps [OF 2] show ?thesis by blast
  next
    case False
    with Cons.IH [OF 2] Cons.prems(2) show ?thesis by simp
  qed
qed

end

end
