(* ===== verification/NetworkProvider.thy ===== *)
theory NetworkProvider
  imports Interfaces
begin

text \<open>
  \<^verbatim>\<open>nodeagent/internal/networkprovider\<close>: the bridge, the table of addresses in use and the tap
  interfaces of the machines.  An offset into the /24 network determines an interface's IP
  address, MAC address and name; the table \<open>npAllocatedIPs\<close> says which offsets are taken.
\<close>

section \<open>Standard library: \<^verbatim>\<open>net.IP\<close>, \<^verbatim>\<open>net.HardwareAddr\<close>, \<^verbatim>\<open>net.IPMask\<close>\<close>

definition To4 :: "ip \<Rightarrow> ip option" where
  "To4 a = (if length a = 4 then Some a
    else if length a = 16 \<and> take 10 a = replicate 10 0 \<and> a ! 10 = 0xFF \<and> a ! 11 = 0xFF
    then Some (drop 12 a) else None)"

text \<open>\<^verbatim>\<open>if ip.To4() != nil { ip = ip.To4() }\<close>\<close>

definition norm4 :: "ip \<Rightarrow> ip" where
  "norm4 a = (case To4 a of None \<Rightarrow> a | Some b \<Rightarrow> b)"

text \<open>
  \<^verbatim>\<open>net.IP.String\<close> for the addresses the program makes: IPv4, nil, and slices of a wrong
  length.
\<close>

definition ip_string :: "ip \<Rightarrow> string" where
  "ip_string a = (case To4 a of
      Some b \<Rightarrow> join ''.'' (map (\<lambda>x. dec (unat x)) b)
    | None \<Rightarrow> if a = [] then ''<nil>'' else ''?'' @ concat (map hex2 a))"

definition mac_string :: "hwaddr \<Rightarrow> string" where
  "mac_string m = join '':'' (map hex2 m)"

text \<open>\<^verbatim>\<open>net.ParseMAC\<close> for the forms made of two-digit groups.\<close>

fun unhex_groups :: "string list \<Rightarrow> hwaddr option" where
  "unhex_groups [] = Some []"
| "unhex_groups (g # gs) = (case (unhex2 g, unhex_groups gs) of
      (Some b, Some bs) \<Rightarrow> Some (b # bs)
    | _ \<Rightarrow> None)"

definition ParseMAC :: "string \<Rightarrow> hwaddr res" where
  "ParseMAC m =
    (let sep = (if 2 < length m then m ! 2 else CHR '':'');
         gs = split_on sep m in
     if (sep = CHR '':'' \<or> sep = CHR ''-'') \<and> length gs \<in> {6, 8, 20}
     then (case unhex_groups gs of Some b \<Rightarrow> Ok b | None \<Rightarrow> Err (Errorf ''invalid MAC address''))
     else Err (Errorf ''invalid MAC address''))"

definition byte_bits :: "8 word \<Rightarrow> bool list" where
  "byte_bits b = map (bit b) [7, 6, 5, 4, 3, 2, 1, 0]"

text \<open>\<^verbatim>\<open>IPMask.Size\<close>: the leading ones and the length in bits, (0, 0) if the mask has a hole.\<close>

definition mask_size :: "8 word list \<Rightarrow> nat \<times> nat" where
  "mask_size m = (let bs = concat (map byte_bits m); ones = length (takeWhile id bs) in
    if list_all Not (drop ones bs) then (ones, length bs) else (0, 0))"

definition ipnet_string :: "ipnet \<Rightarrow> string" where
  "ipnet_string n = ip_string (netIP n) @ ''/'' @ dec (fst (mask_size (netMask n)))"

section \<open>Address arithmetic\<close>

fun offset_loop :: "8 word list \<Rightarrow> 8 word list \<Rightarrow> 64 word \<Rightarrow> 64 word res" where
  "offset_loop [] base off = Ok off"
| "offset_loop (x # xs) [] off = Panic ''index out of range''"
| "offset_loop (x # xs) (b # bs) off = offset_loop xs bs (push_bit 8 off OR ucast (x - b))"

definition calculateOffsetFromIP :: "net_provider \<Rightarrow> ip \<Rightarrow> 64 word res" where
  "calculateOffsetFromIP p a = offset_loop (norm4 a) (norm4 (npNetworkAddr p)) 0"

text \<open>The loop of \<^verbatim>\<open>calculateIPFromOffset\<close> runs from the last byte to the first.\<close>

fun ip_loop :: "8 word list \<Rightarrow> 64 word \<Rightarrow> 8 word list" where
  "ip_loop [] off = []"
| "ip_loop (b # bs) off =
    (let b' = b + ucast (off AND 0xFF); off' = signed_drop_bit 8 off in
     if off' = 0 then b' # bs else b' # ip_loop bs off')"

definition calculateIPFromOffset :: "net_provider \<Rightarrow> 64 word \<Rightarrow> ip" where
  "calculateIPFromOffset p off = rev (ip_loop (rev (norm4 (npNetworkAddr p))) off)"

definition calculateIndexFromHwAddr :: "net_provider \<Rightarrow> hwaddr \<Rightarrow> int" where
  "calculateIndexFromHwAddr p hw =
    (if length hw = 6 \<and> hw ! 0 = 0x52 \<and> hw ! 1 = 0x54 \<and> hw ! 2 = 0x00 then
       (let index = push_bit 16 (ucast (hw ! 3)) OR push_bit 8 (ucast (hw ! 4)) OR ucast (hw ! 5) :: 64 word in
        if 0 \<le> sint index \<and> sint index < int (length (npAllocatedIPs p)) then sint index else -1)
     else -1)"

section \<open>The table of addresses\<close>

fun first_free :: "string list \<Rightarrow> int \<Rightarrow> int" where
  "first_free [] index = -1"
| "first_free (x # xs) index = (if x = [] then index else first_free xs (index + 1))"

definition findAvailableOffset :: "net_provider \<Rightarrow> int" where
  "findAvailableOffset p = first_free (npAllocatedIPs p) 0"

text \<open>\<^verbatim>\<open>p.allocatedIPs[off] = name\<close>, which panics out of range.\<close>

definition claim :: "64 word \<Rightarrow> string \<Rightarrow> net_provider \<Rightarrow> net_provider res" where
  "claim off nm p = (if 0 \<le> sint off \<and> sint off < int (length (npAllocatedIPs p))
    then Ok (p\<lparr>npAllocatedIPs := (npAllocatedIPs p)[nat (sint off) := nm]\<rparr>)
    else Panic ''index out of range'')"

definition claim_ip :: "ip \<Rightarrow> string \<Rightarrow> net_provider \<Rightarrow> net_provider res" where
  "claim_ip a nm p = (case calculateOffsetFromIP p a of
      Ok off \<Rightarrow> claim off nm p
    | Err e \<Rightarrow> Err e
    | Panic m \<Rightarrow> Panic m)"

definition on_net :: "net_provider res \<Rightarrow> 'm node_scheme \<Rightarrow> unit res \<times> 'm node_scheme" where
  "on_net r s = (case r of Ok p \<Rightarrow> (Ok (), s\<lparr>nNet := p\<rparr>) | Err e \<Rightarrow> (Err e, s) | Panic m \<Rightarrow> (Panic m, s))"

definition tap_name :: "int \<Rightarrow> string" where
  "tap_name index = ''tap'' @ dec_int index"

definition tap_mac :: "64 word \<Rightarrow> string" where
  "tap_mac index = ''52:54:00:'' @ hex2 (ucast (signed_drop_bit 16 index AND 0xFF)) @ '':'' @
    hex2 (ucast (signed_drop_bit 8 index AND 0xFF)) @ '':'' @ hex2 (ucast (index AND 0xFF))"

definition new_interface :: "'e node_env_scheme \<Rightarrow> string \<Rightarrow> int \<Rightarrow> 'm node_scheme \<Rightarrow> network_interface" where
  "new_interface E newid index s =
    \<lparr>niID = newid, niName = tap_name index,
     niIPAddress = calculateIPFromOffset (nNet s) (of_int index), niMacAddress = [],
     niGatewayAddress = npGatewayAddr (nNet s), niNetworkCIDR = npNetworkCIDR (nNet s),
     niAllocatedAt = Some (now E s), niReleasedAt = None\<rparr>"

definition AllocateInterface :: "'e node_env_scheme \<Rightarrow> 'm node_scheme \<Rightarrow> nat res \<times> 'm node_scheme" where
  "AllocateInterface E s =
    (let index = findAvailableOffset (nNet s) in
     if index = -1 then
       (Err (Errorf (''no available ip addresses in network '' @ ipnet_string (npNetworkCIDR (nNet s)))), s)
     else
       let (newid, s) = gen_id E s;
           ni = new_interface E newid index s
       in tryE (Wrap ''failed to parse mac address'') (ParseMAC (tap_mac (of_int index)), s)
         (\<lambda>hw s. let ni = ni\<lparr>niMacAddress := hw\<rparr> in
            tryE (Wrap ''failed to create network interface in database'')
              (call E (Db (DbCreateInterface ni)) s)
              (\<lambda>_ s. tryE id (on_net (claim (of_int index) (niName ni) (nNet s)) s)
                (\<lambda>_ s. (Ok (nNext s), s\<lparr>nIfaces := (nIfaces s)(nNext s \<mapsto> ni), nNext := Suc (nNext s)\<rparr>)))))"

section \<open>Firewall rules of a tap interface\<close>

definition runCmd :: "'e node_env_scheme \<Rightarrow> string \<Rightarrow> string list \<Rightarrow> 'm node_scheme \<Rightarrow> unit res \<times> 'm node_scheme" where
  "runCmd E name args s = call E (RunCmd name args) s"

definition ebtables_rule :: "string \<Rightarrow> network_interface \<Rightarrow> string list" where
  "ebtables_rule op ni = [op, ''FORWARD'', ''-i'', niName ni, ''-s'', ''!'',
     to_lower (mac_string (niMacAddress ni)), ''-j'', ''DROP'']"

definition iptables_rule :: "string \<Rightarrow> network_interface \<Rightarrow> string list" where
  "iptables_rule op ni = [op, ''FORWARD'', ''-i'', niName ni, ''!'', ''-s'',
     ip_string (niIPAddress ni), ''-j'', ''DROP'']"

definition arptables_rule :: "string \<Rightarrow> network_interface \<Rightarrow> string list" where
  "arptables_rule op ni = [op, ''FORWARD'', ''-i'', niName ni, ''!'', ''--source-mac'',
     to_lower (mac_string (niMacAddress ni)), ''-j'', ''DROP'']"

definition applyTapFirewallRules :: "'e node_env_scheme \<Rightarrow> network_interface \<Rightarrow> bool \<Rightarrow>
    'm node_scheme \<Rightarrow> unit res \<times> 'm node_scheme" where
  "applyTapFirewallRules E ni shouldRemove s =
    (let operation = (if shouldRemove then ''-D'' else ''-A'') in
     tryE (Wrap ''failed to apply mac filtering rule'') (runCmd E ''ebtables'' (ebtables_rule operation ni) s)
     (\<lambda>_ s. tryE (Wrap ''failed to apply ip filtering rule'') (runCmd E ''iptables'' (iptables_rule operation ni) s)
     (\<lambda>_ s. ignoreE (runCmd E ''arptables'' [''-N'', ''FORWARD''] s)
     (\<lambda>s. tryE (Wrap ''failed to apply arp filtering rule'') (runCmd E ''arptables'' (arptables_rule operation ni) s)
     (\<lambda>_ s. (Ok (), s))))))"

section \<open>Setting up and releasing an interface\<close>

definition del_tap :: "'e node_env_scheme \<Rightarrow> string \<Rightarrow> (gerror \<Rightarrow> gerror) \<Rightarrow> gerror \<Rightarrow>
    'm node_scheme \<Rightarrow> unit res \<times> 'm node_scheme" where
  "del_tap E name w e s = ignoreE (call E (Net (LinkDel name)) s) (\<lambda>s. (Err (w e), s))"

definition SetupInterface :: "'e node_env_scheme \<Rightarrow> nat option \<Rightarrow> 'm node_scheme \<Rightarrow> unit res \<times> 'm node_scheme" where
  "SetupInterface E ptr s = tryE id (deref (nIfaces s) ptr s) (\<lambda>ni s.
     let name = niName ni; bridge = npBridgeInterface (nNet s) in
     tryE (Wrap (''failed to delete existing tap interface '' @ name))
       (catchE (call E (Net (LinkByName name)) s)
          (\<lambda>_ s. call E (Net (LinkDel name)) s)
          (\<lambda>_ s. (Ok (), s)))
     (\<lambda>_ s. tryE (Wrap ''failed to add tap interface'') (call E (Net (LinkAdd name)) s)
     (\<lambda>_ s. catchE (call E (Net (LinkSetHardwareAddr name (niMacAddress ni))) s)
       (\<lambda>_ s. catchE (call E (Net (LinkSetUp name)) s)
         (\<lambda>_ s. catchE (call E (Net (LinkByName bridge)) s)
           (\<lambda>_ s. catchE (call E (Net (LinkSetMaster name bridge)) s)
             (\<lambda>_ s. tryE (Wrap ''failed to apply firewall rules to tap interface'')
                (applyTapFirewallRules E ni False s) (\<lambda>_ s. (Ok (), s)))
             (del_tap E name (Wrap ''failed to set tap interface master'')))
           (del_tap E name (Wrap (''failed to find bridge '' @ bridge))))
         (del_tap E name (Wrap ''failed to set tap interface up'')))
       (del_tap E name (Wrap ''failed to set mac address'')))))"

definition isLinkNotFoundError :: "gerror \<Rightarrow> bool" where
  "isLinkNotFoundError e = errors_is e LinkNotFoundError"

text \<open>
  Freeing the address, stamping the object and saving the row: the last part of
  \<^verbatim>\<open>ReleaseInterface\<close>.  The table and the object change before the row is saved.
\<close>

definition release_address :: "'e node_env_scheme \<Rightarrow> nat \<Rightarrow> network_interface \<Rightarrow> 'm node_scheme \<Rightarrow> unit res \<times> 'm node_scheme" where
  "release_address E a ni s =
    (if niReleasedAt ni = None then
       tryE id (on_net (claim_ip (niIPAddress ni) [] (nNet s)) s)
       (\<lambda>_ s. let ni = ni\<lparr>niReleasedAt := Some (now E s)\<rparr>; s = s\<lparr>nIfaces := (nIfaces s)(a \<mapsto> ni)\<rparr> in
          tryE (Wrap ''failed to persist network interface changes in database'')
            (call E (Db (DbSaveInterface [''ReleasedAt''] ni)) s) (\<lambda>_ s. (Ok (), s)))
     else (Ok (), s))"

definition ReleaseInterface :: "'e node_env_scheme \<Rightarrow> nat option \<Rightarrow> 'm node_scheme \<Rightarrow> unit res \<times> 'm node_scheme" where
  "ReleaseInterface E ptr s = tryE id (deref (nIfaces s) ptr s) (\<lambda>ni s.
     catchE (call E (Net (LinkByName (niName ni))) s)
       (\<lambda>_ s. tryE (Wrap ''failed to apply firewall rules to tap interface'') (applyTapFirewallRules E ni True s)
         (\<lambda>_ s. tryE (Wrap (''failed to delete interface '' @ niName ni)) (call E (Net (LinkDel (niName ni))) s)
           (\<lambda>_ s. release_address E (the ptr) ni s)))
       (\<lambda>e s. if \<not> isLinkNotFoundError e then (Err (Wrap (''failed to find interface '' @ niName ni) e), s)
          else release_address E (the ptr) ni s))"

definition GetInterface :: "'e node_env_scheme \<Rightarrow> string \<Rightarrow> 'm node_scheme \<Rightarrow>
    (string \<times> ip \<times> hwaddr) res \<times> 'm node_scheme" where
  "GetInterface E name s = tryE id (call_val E (Net (LinkByName name)) (ne_link_hwaddr E) s)
     (\<lambda>hw s. (Ok (name, calculateIPFromOffset (nNet s) (of_int (calculateIndexFromHwAddr (nNet s) hw)), hw), s))"

section \<open>The bridge\<close>

definition LocalNetworks :: "string list" where
  "LocalNetworks = [''10.0.0.0/8'', ''172.16.0.0/12'', ''192.168.0.0/16'']"

definition upsertIptablesRule :: "'e node_env_scheme \<Rightarrow> string \<Rightarrow> string \<Rightarrow> string list \<Rightarrow>
    'm node_scheme \<Rightarrow> unit res \<times> 'm node_scheme" where
  "upsertIptablesRule E table chain ruleSpec s =
    catchE (runCmd E ''iptables'' ([''-t'', table, ''-C'', chain] @ ruleSpec) s)
      (\<lambda>_ s. (Ok (), s))
      (\<lambda>_ s. runCmd E ''iptables'' ([''-t'', table, ''-A'', chain] @ ruleSpec) s)"

definition nat_rule :: "net_provider \<Rightarrow> string \<Rightarrow> string list" where
  "nat_rule p ext_if = [''-s'', ipnet_string (npNetworkCIDR p), ''-o'', ext_if, ''-j'', ''MASQUERADE'']"

definition accept_out_rule :: "net_provider \<Rightarrow> string \<Rightarrow> string list" where
  "accept_out_rule p ext_if = [''-i'', npBridgeInterface p, ''-o'', ext_if, ''-j'', ''ACCEPT'']"

definition accept_in_rule :: "net_provider \<Rightarrow> string \<Rightarrow> string list" where
  "accept_in_rule p ext_if = [''-i'', ext_if, ''-o'', npBridgeInterface p, ''-m'', ''state'',
     ''--state'', ''RELATED,ESTABLISHED'', ''-j'', ''ACCEPT'']"

definition drop_local_rule :: "net_provider \<Rightarrow> string \<Rightarrow> string \<Rightarrow> string list" where
  "drop_local_rule p ext_if network = [''-i'', npBridgeInterface p, ''-o'', ext_if, ''-d'', network,
     ''-j'', ''DROP'']"

fun block_local_networks :: "'e node_env_scheme \<Rightarrow> string \<Rightarrow> string list \<Rightarrow> 'm node_scheme \<Rightarrow>
    unit res \<times> 'm node_scheme" where
  "block_local_networks E ext_if [] s = (Ok (), s)"
| "block_local_networks E ext_if (n # ns) s =
    tryE (Wrap (''failed to block VM access to local network '' @ n))
      (upsertIptablesRule E ''filter'' ''FORWARD'' (drop_local_rule (nNet s) ext_if n) s)
      (\<lambda>_ s. block_local_networks E ext_if ns s)"

definition applyBridgeFirewallRules :: "'e node_env_scheme \<Rightarrow> string \<Rightarrow> 'm node_scheme \<Rightarrow> unit res \<times> 'm node_scheme" where
  "applyBridgeFirewallRules E ext_if s =
    tryE (Wrap ''failed to setup NAT'')
      (upsertIptablesRule E ''nat'' ''POSTROUTING'' (nat_rule (nNet s) ext_if) s)
    (\<lambda>_ s. tryE (Wrap ''failed to allow VM outbound traffic'')
      (upsertIptablesRule E ''filter'' ''FORWARD'' (accept_out_rule (nNet s) ext_if) s)
    (\<lambda>_ s. tryE (Wrap ''failed to allow established connections'')
      (upsertIptablesRule E ''filter'' ''FORWARD'' (accept_in_rule (nNet s) ext_if) s)
    (\<lambda>_ s. block_local_networks E ext_if LocalNetworks s)))"

definition SetupBridge :: "'e node_env_scheme \<Rightarrow> string \<Rightarrow> 'm node_scheme \<Rightarrow> unit res \<times> 'm node_scheme" where
  "SetupBridge E externalInterface s =
    (let bridge = npBridgeInterface (nNet s) in
     tryE (Wrap ''failed to create bridge'')
       (catchE (call E (Net (LinkByName bridge)) s) (\<lambda>_ s. (Ok (), s)) (\<lambda>_ s. call E (Net (LinkAdd bridge)) s))
     (\<lambda>_ s. let p = nNet s; p = p\<lparr>npNetworkAddr := netIP (npNetworkCIDR p)\<rparr>;
                p = p\<lparr>npGatewayAddr := calculateIPFromOffset p 1\<rparr>; s = s\<lparr>nNet := p\<rparr> in
      tryE (Wrap ''failed to add address to bridge'')
        (catchE (call E (Net (AddrAdd bridge (npGatewayAddr p) (netMask (npNetworkCIDR p)))) s)
          (\<lambda>_ s. (Ok (), s))
          (\<lambda>e s. if \<not> contains (error_string e) ''file exists'' then (Err e, s) else (Ok (), s)))
      (\<lambda>_ s. tryE (Wrap ''failed to bring up bridge'') (call E (Net (LinkSetUp bridge)) s)
      (\<lambda>_ s. tryE (Wrap ''failed to setup IP forwarding'')
        (call E (Os (WriteFile ''/proc/sys/net/ipv4/ip_forward'' ''1'' 420)) s)
      (\<lambda>_ s. tryE (Wrap ''failed to setup firewall rules'') (applyBridgeFirewallRules E externalInterface s)
      (\<lambda>_ s. (Ok (), s)))))))"

section \<open>The constructor\<close>

definition default_cidr :: ipnet where
  "default_cidr = \<lparr>netIP = [192, 168, 100, 0], netMask = [255, 255, 255, 0]\<rparr>"

definition max_addresses :: "ipnet \<Rightarrow> nat" where
  "max_addresses n = (case mask_size (netMask n) of (ones, bits) \<Rightarrow> 2 ^ (bits - ones))"

fun claim_all :: "network_interface list \<Rightarrow> 'm node_scheme \<Rightarrow> unit res \<times> 'm node_scheme" where
  "claim_all [] s = (Ok (), s)"
| "claim_all (ni # nis) s =
    tryE id (on_net (claim_ip (niIPAddress ni) (niName ni) (nNet s)) s) (\<lambda>_ s. claim_all nis s)"

definition fresh_provider :: net_provider where
  "fresh_provider = \<lparr>npBridgeInterface = ''br0'', npNetworkCIDR = default_cidr, npNetworkAddr = [],
     npGatewayAddr = [], npAllocatedIPs = []\<rparr>"

definition NetworkProvider_New :: "'e node_env_scheme \<Rightarrow> 'm node_scheme \<Rightarrow> unit res \<times> 'm node_scheme" where
  "NetworkProvider_New E s =
    tryE (Wrap ''failed to setup bridge interface'') (SetupBridge E ''eth0'' (s\<lparr>nNet := fresh_provider\<rparr>))
    (\<lambda>_ s. let p = nNet s in
      tryE id (on_net (Ok (p\<lparr>npAllocatedIPs := replicate (max_addresses (npNetworkCIDR p)) []\<rparr>)) s)
    (\<lambda>_ s. tryE id (on_net (claim_ip (npNetworkAddr (nNet s)) ''network'' (nNet s)) s)
    (\<lambda>_ s. tryE id (on_net (claim_ip (npGatewayAddr (nNet s)) ''br0'' (nNet s)) s)
    (\<lambda>_ s. tryE (Wrap ''could not find allocated network interfaces'')
      (call_val E (Db DbFindInterfaces) (ne_interfaces E) s)
    (\<lambda>nis s. claim_all nis s)))))"

section \<open>Lemmas: address arithmetic\<close>

lemma norm4_4 [simp]: "length a = 4 \<Longrightarrow> norm4 a = a"
  by (simp add: norm4_def To4_def)

lemma list4: "length xs = 4 \<Longrightarrow> \<exists>a b c d. xs = [a, b, c, d]"
  by (auto simp: length_Suc_conv numeral_eq_Suc)

definition bytes_offset :: "8 word \<Rightarrow> 8 word \<Rightarrow> 8 word \<Rightarrow> 8 word \<Rightarrow> 64 word" where
  "bytes_offset x0 x1 x2 x3 =
    push_bit 8 (push_bit 8 (push_bit 8 (ucast x0) OR ucast x1) OR ucast x2) OR ucast x3"

lemma calculateOffsetFromIP_4:
  assumes "npNetworkAddr p = [n0, n1, n2, n3]"
  shows "calculateOffsetFromIP p [a0, a1, a2, a3] = Ok (bytes_offset (a0 - n0) (a1 - n1) (a2 - n2) (a3 - n3))"
  using assms by (simp add: calculateOffsetFromIP_def bytes_offset_def)

text \<open>Bytes of a non-negative 32-bit offset.\<close>

lemma unat_drop: "unat (drop_bit n (off :: 64 word)) = unat off div 2 ^ n"
  unfolding unat_drop_bit_eq by (rule drop_bit_eq_div)

lemma drop_bit_high:
  assumes "unat (off :: 64 word) < 2 ^ 32" "32 \<le> n"
  shows "drop_bit n off = 0"
proof -
  have "unat off < 2 ^ n"
    using assms by (meson less_le_trans power_increasing one_le_numeral)
  then have "unat (drop_bit n off) = 0"
    unfolding unat_drop by simp
  then show ?thesis by (rule unsigned_eq_0_iff [THEN iffD1])
qed

lemma signed_drop_bit_low:
  assumes "unat (off :: 64 word) < 2 ^ 32"
  shows "signed_drop_bit n off = drop_bit n off"
proof -
  have "\<not> bit off 63"
    using drop_bit_high [OF assms, of 63] by (simp add: bit_iff_odd_drop_bit)
  moreover have "bit off k \<Longrightarrow> k < 64" for k
    using bit_imp_le_length [of off k] by simp
  ultimately have "bit off (if 64 - n \<le> k then 63 else n + k) = bit off (n + k)" if "k < 64" for k
    using that by force
  note eq = this
  show ?thesis
  proof (rule bit_word_eqI)
    fix k assume "k < LENGTH(64)"
    then show "bit (signed_drop_bit n off) k = bit (drop_bit n off) k"
      using eq [of k] by (simp add: bit_signed_drop_bit_iff bit_drop_bit_eq split: if_splits)
  qed
qed

lemma ip_loop_bytes:
  assumes "unat (off :: 64 word) < 2 ^ 32"
  shows "ip_loop [b0, b1, b2, b3] off =
    [b0 + ucast off, b1 + ucast (drop_bit 8 off), b2 + ucast (drop_bit 16 off), b3 + ucast (drop_bit 24 off)]"
proof -
  have e: "(0xFF :: 64 word) = mask 8" by (simp add: mask_eq_exp_minus_1)
  have "x AND 0xFF = take_bit 8 x" for x :: "64 word" unfolding e take_bit_eq_mask by (rule refl)
  then have m: "ucast (x AND 0xFF) = (ucast x :: 8 word)" for x :: "64 word"
    by (simp only:) (rule bit_word_eqI, auto simp: bit_ucast_iff bit_take_bit_iff)
  have l: "unat (drop_bit n off) < 2 ^ 32" for n
    unfolding unat_drop using assms by (meson div_le_dividend le_less_trans)
  have s: "signed_drop_bit 8 (drop_bit n off) = drop_bit (8 + n) off" for n
    by (simp add: signed_drop_bit_low [OF l])
  have z: "drop_bit n off = 0 \<Longrightarrow> drop_bit (8 + n) off = 0" for n
    by (simp flip: drop_bit_drop_bit)
  show ?thesis
    using s [of 0] s [of 8] s [of 16] s [of 24] z [of 8] z [of 16] z [of 24] 
    by (simp add: Let_def m)
qed

lemma bytes_of_offset:
  assumes "unat (off :: 64 word) < 2 ^ 32"
  shows "bytes_offset (ucast (drop_bit 24 off)) (ucast (drop_bit 16 off)) (ucast (drop_bit 8 off)) (ucast off) = off"
proof (rule bit_word_eqI)
  fix n assume n: "n < LENGTH(64)"
  have h: "bit off k \<Longrightarrow> k < 32" for k
    using drop_bit_high [OF assms, of k] by (force simp: bit_iff_odd_drop_bit not_less)
  show "bit (bytes_offset (ucast (drop_bit 24 off)) (ucast (drop_bit 16 off)) (ucast (drop_bit 8 off)) (ucast off)) n
      = bit off n"
    unfolding bytes_offset_def using h [of n] n
    by (cases "n < 8"; cases "n < 16"; cases "n < 24"; cases "n < 32")
       (auto simp: bit_or_iff bit_push_bit_iff bit_ucast_iff bit_drop_bit_eq not_less)
qed

lemma offset_of_bytes:
  fixes x0 x1 x2 x3 :: "8 word"
  defines "off \<equiv> bytes_offset x0 x1 x2 x3"
  shows "unat off < 2 ^ 32" "ucast (drop_bit 24 off) = x0" "ucast (drop_bit 16 off) = (x1 :: 8 word)"
     "ucast (drop_bit 8 off) = (x2 :: 8 word)" "ucast off = (x3 :: 8 word)"
proof -
  show "ucast (drop_bit 24 off) = x0" "ucast (drop_bit 16 off) = (x1 :: 8 word)"
     "ucast (drop_bit 8 off) = (x2 :: 8 word)" "ucast off = (x3 :: 8 word)"
    unfolding off_def bytes_offset_def
    by (rule bit_word_eqI; auto simp: bit_or_iff bit_push_bit_iff bit_ucast_iff bit_drop_bit_eq dest: bit_imp_le_length)+
  have "take_bit 32 off = off" unfolding off_def bytes_offset_def
    by (rule bit_word_eqI) (auto simp: bit_take_bit_iff bit_or_iff bit_push_bit_iff bit_ucast_iff dest: bit_imp_le_length)
  then show "unat off < 2 ^ 32" by (metis unsigned_take_bit_eq take_bit_nat_less_exp)
qed
text \<open>Offsets below 2^32 and 4-byte addresses are in bijection, whatever the network address.\<close>

lemma calculateIPFromOffset_4:
  assumes "npNetworkAddr p = [n0, n1, n2, n3]" and "unat off < 2 ^ 32"
  shows "calculateIPFromOffset p off =
    [n0 + ucast (drop_bit 24 off), n1 + ucast (drop_bit 16 off), n2 + ucast (drop_bit 8 off), n3 + ucast off]"
  using assms by (simp add: calculateIPFromOffset_def ip_loop_bytes del: ip_loop.simps)

lemma offset_of_ip_of_offset:
  assumes "length (npNetworkAddr p) = 4" and "unat off < 2 ^ 32"
  shows "calculateOffsetFromIP p (calculateIPFromOffset p off) = Ok off"
proof -
  obtain n0 n1 n2 n3 where n: "npNetworkAddr p = [n0, n1, n2, n3]"
    using list4 [OF assms(1)] by blast
  show ?thesis
    by (simp add: calculateIPFromOffset_4 [OF n assms(2)] calculateOffsetFromIP_4 [OF n]
        bytes_of_offset [OF assms(2)])
qed

lemma ip_of_offset_of_ip:
  assumes "length (npNetworkAddr p) = 4" and "length a = 4"
  shows "\<exists>off. calculateOffsetFromIP p a = Ok off \<and> unat off < 2 ^ 32 \<and> calculateIPFromOffset p off = a"
proof -
  obtain n0 n1 n2 n3 where n: "npNetworkAddr p = [n0, n1, n2, n3]"
    using list4 [OF assms(1)] by blast
  obtain a0 a1 a2 a3 where a: "a = [a0, a1, a2, a3]"
    using list4 [OF assms(2)] by blast
  note o = offset_of_bytes [of "a0 - n0" "a1 - n1" "a2 - n2" "a3 - n3"]
  show ?thesis
    using o(1) by (simp add: a calculateOffsetFromIP_4 [OF n] calculateIPFromOffset_4 [OF n o(1)] o(2-5))
qed

lemma length_ip_loop [simp]: "length (ip_loop bs off) = length bs"
  by (induction bs off rule: ip_loop.induct) (auto simp: Let_def)

lemma length_calculateIPFromOffset [simp]:
  "length (calculateIPFromOffset p off) = length (norm4 (npNetworkAddr p))"
  by (simp add: calculateIPFromOffset_def)

lemma calculateIPFromOffset_inj:
  assumes "length (npNetworkAddr p) = 4" "unat x < 2 ^ 32" "unat y < 2 ^ 32"
  shows "calculateIPFromOffset p x = calculateIPFromOffset p y \<longleftrightarrow> x = y"
  using offset_of_ip_of_offset [OF assms(1,2)] offset_of_ip_of_offset [OF assms(1,3)]
  by (metis res.inject(1))

section \<open>Lemmas: MAC addresses\<close>

lemma unhex_groups_map_hex2 [simp]: "unhex_groups (map hex2 m) = Some m"
  by (induction m) auto

lemma ParseMAC_mac_string:
  assumes "length m \<in> {6, 8, 20}"
  shows "ParseMAC (mac_string m) = Ok m"
proof -
  obtain x y ys where m: "m = x # y # ys"
    using assms by (cases m; cases "tl m") auto
  have "split_on (CHR '':'') (mac_string m) = map hex2 m"
    unfolding mac_string_def using m by (intro split_on_join) auto
  moreover have "2 < length (mac_string m)" "mac_string m ! 2 = CHR '':''"
    by (simp_all add: m mac_string_def hex2_def)
  ultimately show ?thesis
    using assms by (simp add: ParseMAC_def Let_def)
qed

definition tap_hwaddr :: "64 word \<Rightarrow> hwaddr" where
  "tap_hwaddr index = [0x52, 0x54, 0x00, ucast (signed_drop_bit 16 index AND 0xFF),
     ucast (signed_drop_bit 8 index AND 0xFF), ucast (index AND 0xFF)]"

lemma tap_mac_string: "tap_mac index = mac_string (tap_hwaddr index)"
proof -
  have "hex2 0x52 = ''52''" "hex2 0x54 = ''54''" "hex2 0 = ''00''"
    by (simp_all add: hex2_def hexdigit_def)
  then show ?thesis
    by (simp add: tap_mac_def tap_hwaddr_def mac_string_def)
qed

lemma ParseMAC_tap_mac [simp]: "ParseMAC (tap_mac index) = Ok (tap_hwaddr index)"
  unfolding tap_mac_string by (rule ParseMAC_mac_string) (simp add: tap_hwaddr_def)

lemma sint_small:
  assumes "0 \<le> i" "i < 2 ^ 32"
  shows "sint (of_int i :: 64 word) = i" "unat (of_int i :: 64 word) = nat i"
proof -
  have "signed_take_bit 63 i = i"
    using assms by (intro signed_take_bit_int_eq_self) auto
  then show "sint (of_int i :: 64 word) = i" by (simp add: signed_of_int)
  have "take_bit 64 i = i"
    using assms by (intro take_bit_int_eq_self) auto
  then show "unat (of_int i :: 64 word) = nat i" by (simp add: unsigned_of_int)
qed

lemma sint_256:
  assumes "0 \<le> i" "i < 256"
  shows "sint (of_int i :: 64 word) = i" "unat (of_int i :: 64 word) = nat i"
  using assms by (intro sint_small; simp)+

lemma bytes_offset_3: "bytes_offset 0 x1 x2 x3 = push_bit 16 (ucast x1) OR push_bit 8 (ucast x2) OR ucast x3"
  by (simp add: bytes_offset_def push_bit_or or.assoc)

lemma ucast_and_ff: "(ucast (x AND 0xFF :: 64 word) :: 8 word) = ucast x"
proof -
  have e: "(0xFF :: 64 word) = mask 8" by (simp add: mask_eq_exp_minus_1)
  have "x AND 0xFF = take_bit 8 x" unfolding e take_bit_eq_mask by (rule refl)
  then show ?thesis
    by (simp only:) (rule bit_word_eqI, auto simp: bit_ucast_iff bit_take_bit_iff)
qed

lemma calculateIndexFromHwAddr_tap:
  assumes "0 \<le> i" "i < int (length (npAllocatedIPs p))" "i < 2 ^ 24"
  shows "calculateIndexFromHwAddr p (tap_hwaddr (of_int i)) = i"
proof -
  let ?w = "of_int i :: 64 word"
  have u: "unat ?w = nat i" "sint ?w = i" using sint_small [of i] assms by auto
  then have "unat ?w < 2 ^ 32" using assms by simp
  note b = bytes_of_offset [OF this] and d = signed_drop_bit_low [OF this]
  have "unat (drop_bit 24 ?w) = 0" unfolding unat_drop using u assms by simp
  then have "drop_bit 24 ?w = 0" by (rule unsigned_eq_0_iff [THEN iffD1])
  with b have "push_bit 16 (ucast (ucast (drop_bit 16 ?w) :: 8 word)) OR
      push_bit 8 (ucast (ucast (drop_bit 8 ?w) :: 8 word)) OR ucast (ucast ?w :: 8 word) = ?w"
    by (simp add: bytes_offset_3)
  with u assms show ?thesis
    by (simp add: calculateIndexFromHwAddr_def tap_hwaddr_def ucast_and_ff d Let_def)
qed

lemma tap_hwaddr_inj:
  assumes "0 \<le> i" "i < 2 ^ 24" "0 \<le> j" "j < 2 ^ 24" "tap_hwaddr (of_int i) = tap_hwaddr (of_int j)"
  shows "i = j"
proof -
  let ?p = "fresh_provider\<lparr>npAllocatedIPs := replicate (2 ^ 24) []\<rparr>"
  have "calculateIndexFromHwAddr ?p (tap_hwaddr (of_int i)) = i"
    "calculateIndexFromHwAddr ?p (tap_hwaddr (of_int j)) = j"
    using assms(1-4) by (intro calculateIndexFromHwAddr_tap; simp)+
  with assms(5) show ?thesis by simp
qed

lemma tap_name_inj: "0 \<le> i \<Longrightarrow> 0 \<le> j \<Longrightarrow> tap_name i = tap_name j \<longleftrightarrow> i = j"
  by (auto simp: tap_name_def dec_int_def)

lemma tap_name_not_Nil [simp]: "tap_name i \<noteq> []" "[] \<noteq> tap_name i"
  by (simp_all add: tap_name_def)

section \<open>The invariant of the table\<close>

definition live_ifaces :: "'m node_scheme \<Rightarrow> nat \<rightharpoonup> network_interface" where
  "live_ifaces s a = (case nIfaces s a of None \<Rightarrow> None
     | Some ni \<Rightarrow> if niReleasedAt ni = None then Some ni else None)"

text \<open>The interface of an offset: its name, IP address and MAC address.\<close>

definition iface_at :: "net_provider \<Rightarrow> int \<Rightarrow> network_interface \<Rightarrow> bool" where
  "iface_at p i ni \<longleftrightarrow> niName ni = tap_name i \<and> niIPAddress ni = calculateIPFromOffset p (of_int i) \<and>
     niMacAddress ni = tap_hwaddr (of_int i)"

definition net_base :: "net_provider \<Rightarrow> bool" where
  "net_base p \<longleftrightarrow> npBridgeInterface p = ''br0'' \<and> npNetworkCIDR p = default_cidr \<and>
     npNetworkAddr p = [192, 168, 100, 0] \<and> npGatewayAddr p = [192, 168, 100, 1] \<and>
     length (npAllocatedIPs p) = 256 \<and> npAllocatedIPs p ! 0 = ''network'' \<and> npAllocatedIPs p ! 1 = ''br0''"

definition net_fresh :: "'m node_scheme \<Rightarrow> bool" where
  "net_fresh s \<longleftrightarrow> (\<forall>a \<ge> nNext s. nIfaces s a = None)"

definition net_live :: "'m node_scheme \<Rightarrow> bool" where
  "net_live s \<longleftrightarrow> (\<forall>a ni. live_ifaces s a = Some ni \<longrightarrow>
     (\<exists>i. 2 \<le> i \<and> i < 256 \<and> iface_at (nNet s) i ni \<and> npAllocatedIPs (nNet s) ! nat i = tap_name i))"

definition net_unique :: "'m node_scheme \<Rightarrow> bool" where
  "net_unique s \<longleftrightarrow> (\<forall>a b x y. live_ifaces s a = Some x \<longrightarrow> live_ifaces s b = Some y \<longrightarrow>
     niIPAddress x = niIPAddress y \<longrightarrow> a = b)"

definition net_exact :: "'m node_scheme \<Rightarrow> bool" where
  "net_exact s \<longleftrightarrow> (\<forall>i. 2 \<le> i \<longrightarrow> i < 256 \<longrightarrow> npAllocatedIPs (nNet s) ! nat i \<noteq> [] \<longrightarrow>
     (\<exists>a ni. live_ifaces s a = Some ni \<and> iface_at (nNet s) i ni))"

definition net_inv :: "'m node_scheme \<Rightarrow> bool" where
  "net_inv s \<longleftrightarrow> net_base (nNet s) \<and> net_fresh s \<and> net_live s \<and> net_unique s \<and> net_exact s"

lemma net_liveD: "net_live s \<Longrightarrow> live_ifaces s a = Some ni \<Longrightarrow>
    \<exists>i. 2 \<le> i \<and> i < 256 \<and> iface_at (nNet s) i ni \<and> npAllocatedIPs (nNet s) ! nat i = tap_name i"
  by (simp add: net_live_def)

lemma net_uniqueD: "net_unique s \<Longrightarrow> live_ifaces s a = Some x \<Longrightarrow> live_ifaces s b = Some y \<Longrightarrow>
    niIPAddress x = niIPAddress y \<Longrightarrow> a = b"
  by (simp add: net_unique_def)

lemma net_exactD: "net_exact s \<Longrightarrow> 2 \<le> i \<Longrightarrow> i < 256 \<Longrightarrow> npAllocatedIPs (nNet s) ! nat i \<noteq> [] \<Longrightarrow>
    \<exists>a ni. live_ifaces s a = Some ni \<and> iface_at (nNet s) i ni"
  by (simp add: net_exact_def)

lemma net_base_addr: "net_base p \<Longrightarrow> length (npNetworkAddr p) = 4"
  by (simp add: net_base_def)

lemma iface_at_ip_inj:
  assumes "net_base p" "iface_at p i x" "iface_at p j y" "niIPAddress x = niIPAddress y"
    "0 \<le> i" "i < 256" "0 \<le> j" "j < 256"
  shows "i = j"
proof -
  have s: "sint (of_int i :: 64 word) = i" "sint (of_int j :: 64 word) = j"
    and u: "unat (of_int i :: 64 word) = nat i" "unat (of_int j :: 64 word) = nat j"
    using assms(5-8) by (simp_all add: sint_256)
  have "unat (of_int i :: 64 word) < 2 ^ 32" "unat (of_int j :: 64 word) < 2 ^ 32"
    unfolding u using assms(5-8) by simp_all
  moreover have "calculateIPFromOffset p (of_int i) = calculateIPFromOffset p (of_int j)"
    using assms(2,3,4) by (simp add: iface_at_def)
  ultimately have "(of_int i :: 64 word) = of_int j"
    using calculateIPFromOffset_inj [OF net_base_addr [OF assms(1)]] by blast
  with s show ?thesis by metis
qed

lemma first_free_bounds:
  "0 \<le> k \<Longrightarrow> first_free xs k = r \<Longrightarrow> r \<noteq> -1 \<Longrightarrow>
    k \<le> r \<and> r < k + int (length xs) \<and> xs ! nat (r - k) = [] \<and> (\<forall>j. k \<le> j \<and> j < r \<longrightarrow> xs ! nat (j - k) \<noteq> [])"
proof (induction xs arbitrary: k)
  case Nil
  then show ?case by simp
next
  case (Cons x xs)
  show ?case
  proof (cases "x = []")
    case True
    with Cons.prems show ?thesis by auto
  next
    case False
    with Cons.prems have "first_free xs (k + 1) = r" by simp
    with Cons.IH [of "k + 1"] Cons.prems have ih: "k + 1 \<le> r \<and> r < k + 1 + int (length xs) \<and>
        xs ! nat (r - (k + 1)) = [] \<and> (\<forall>j. k + 1 \<le> j \<and> j < r \<longrightarrow> xs ! nat (j - (k + 1)) \<noteq> [])" by simp
    have shift: "(x # xs) ! nat (j - k) = xs ! nat (j - (k + 1))" if "k + 1 \<le> j" for j
    proof -
      have "nat (j - k) = Suc (nat (j - (k + 1)))" using that by arith
      then show ?thesis by simp
    qed
    have "(x # xs) ! nat (j - k) \<noteq> []" if "k \<le> j" "j < r" for j
      using that ih shift [of j] False by (cases "j = k") auto
    with ih shift [of r] show ?thesis by auto
  qed
qed

lemma first_free_none: "0 \<le> k \<Longrightarrow> first_free xs k = -1 \<longleftrightarrow> (\<forall>x \<in> set xs. x \<noteq> [])"
  by (induction xs arbitrary: k) auto

lemma findAvailableOffset_Some:
  assumes "net_base p" "findAvailableOffset p = i" "i \<noteq> -1"
  shows "2 \<le> i" "i < 256" "npAllocatedIPs p ! nat i = []"
proof -
  note b = first_free_bounds [of 0 "npAllocatedIPs p" i]
  have i: "0 \<le> i" "i < 256" "npAllocatedIPs p ! nat i = []"
    using b assms by (auto simp: findAvailableOffset_def net_base_def)
  moreover have "i \<noteq> 0" "i \<noteq> 1"
    using i assms(1) by (auto simp: net_base_def)
  ultimately show "2 \<le> i" "i < 256" "npAllocatedIPs p ! nat i = []" by auto
qed

lemma AllocateInterface_Ok_state:
  assumes "net_base (nNet s)" "AllocateInterface E s = (Ok a, s')"
  defines "i \<equiv> findAvailableOffset (nNet s)"
  defines "ni \<equiv> (new_interface E (env_id E (nTrace s)) i (s\<lparr>nTrace := nTrace s @ [GenID]\<rparr>))
                \<lparr>niMacAddress := tap_hwaddr (of_int i)\<rparr>"
  shows "i \<noteq> -1 \<and> a = nNext s \<and>
    s' = s\<lparr>nTrace := nTrace s @ [GenID, Db (DbCreateInterface ni)],
      nNet := (nNet s)\<lparr>npAllocatedIPs := (npAllocatedIPs (nNet s))[nat i := tap_name i]\<rparr>,
      nIfaces := (nIfaces s)(nNext s \<mapsto> ni), nNext := Suc (nNext s)\<rparr>"
proof -
  have n1: "i \<noteq> -1" using assms(2) by (auto simp: AllocateInterface_def Let_def i_def)
  note f = findAvailableOffset_Some [OF assms(1) i_def [symmetric, THEN meta_eq_to_obj_eq] n1]
  from f have si: "sint (of_int i :: 64 word) = i" by (intro sint_small) auto
  have l: "length (npAllocatedIPs (nNet s)) = 256" using assms(1) by (simp add: net_base_def)
  show ?thesis
    using assms(2) n1 f si l unfolding ni_def i_def
    by (auto simp: AllocateInterface_def Let_def gen_id_def claim_def on_net_def new_interface_def
        split: flow_asm if_splits)
qed

lemma AllocateInterface_Ok:
  assumes "net_base (nNet s)" "AllocateInterface E s = (Ok a, s')"
  obtains i ni where "findAvailableOffset (nNet s) = i" "2 \<le> i" "i < 256" "npAllocatedIPs (nNet s) ! nat i = []"
    "a = nNext s" "iface_at (nNet s) i ni" "niReleasedAt ni = None"
    "s' = s\<lparr>nTrace := nTrace s @ [GenID, Db (DbCreateInterface ni)],
      nNet := (nNet s)\<lparr>npAllocatedIPs := (npAllocatedIPs (nNet s))[nat i := tap_name i]\<rparr>,
      nIfaces := (nIfaces s)(nNext s \<mapsto> ni), nNext := Suc (nNext s)\<rparr>"
  using AllocateInterface_Ok_state [OF assms] findAvailableOffset_Some [OF assms(1) refl]
  by (elim conjE) (rule that [OF refl], auto simp: iface_at_def new_interface_def)

lemma AllocateInterface_Err:
  assumes "net_base (nNet s)" "AllocateInterface E s = (Err e, s')"
  shows "\<exists>t. s' = s\<lparr>nTrace := t\<rparr>"
proof -
  let ?i = "findAvailableOffset (nNet s)"
  show ?thesis
  proof (cases "?i = -1")
    case True
    then have "s' = s\<lparr>nTrace := nTrace s\<rparr>" using assms(2) by (simp add: AllocateInterface_def Let_def)
    then show ?thesis by blast
  next
    case False
    note f = findAvailableOffset_Some [OF assms(1) refl False]
    from f have si: "sint (of_int ?i :: 64 word) = ?i" by (intro sint_small) auto
    show ?thesis
      using assms False f si
      by (auto simp: AllocateInterface_def Let_def gen_id_def claim_def on_net_def net_base_def
          split: flow_asm if_splits)
  qed
qed

lemma AllocateInterface_no_Panic:
  assumes "net_base (nNet s)"
  shows "AllocateInterface E s \<noteq> (Panic m, s')"
proof (cases "findAvailableOffset (nNet s) = -1")
  case True
  then show ?thesis by (simp add: AllocateInterface_def Let_def)
next
  case False
  note f = findAvailableOffset_Some [OF assms refl False]
  from f have "sint (of_int (findAvailableOffset (nNet s)) :: 64 word) = findAvailableOffset (nNet s)"
    by (intro sint_small) auto
  then show ?thesis
    using assms False f
    by (auto simp: AllocateInterface_def Let_def gen_id_def claim_def on_net_def net_base_def
        split: flow_asm if_splits)
qed

text \<open>Operations that only make calls.\<close>

lemma applyTapFirewallRules_keeps [keeps_intros]:
  "trace_only s0 s \<Longrightarrow> keeps (trace_only s0) (applyTapFirewallRules E ni b s)"
  by (auto simp: applyTapFirewallRules_def runCmd_def Let_def intro!: keeps_intros)

lemma del_tap_keeps [keeps_intros]: "trace_only s0 s \<Longrightarrow> keeps (trace_only s0) (del_tap E n w e s)"
  by (auto simp: del_tap_def intro!: keeps_intros)

lemma SetupInterface_keeps:
  "trace_only s0 s \<Longrightarrow> keeps (trace_only s0) (SetupInterface E ptr s)"
  by (auto simp: SetupInterface_def Let_def intro!: keeps_intros)

lemma live_ifaces_upd [simp]: "live_ifaces (s\<lparr>nTrace := t\<rparr>) = live_ifaces s"
  by (auto simp: live_ifaces_def fun_eq_iff)

lemma net_inv_upd [simp]: "net_inv (s\<lparr>nTrace := t\<rparr>) = net_inv s"
  by (simp add: net_inv_def net_fresh_def net_live_def net_unique_def net_exact_def)

lemma live_ifaces_SomeD: "live_ifaces s a = Some ni \<Longrightarrow> nIfaces s a = Some ni \<and> niReleasedAt ni = None"
  by (auto simp: live_ifaces_def split: option.splits if_splits)

text \<open>The offset of a live interface is its index.\<close>

lemma iface_at_offset:
  assumes "net_base p" "iface_at p i ni" "0 \<le> i" "i < 256"
  shows "calculateOffsetFromIP p (niIPAddress ni) = Ok (of_int i)"
  using assms offset_of_ip_of_offset [OF net_base_addr [OF assms(1)], of "of_int i"]
  by (simp add: iface_at_def sint_256)

lemma iface_at_upd [simp]: "iface_at (p\<lparr>npAllocatedIPs := al\<rparr>) i ni = iface_at p i ni"
  by (simp add: iface_at_def calculateIPFromOffset_def)

lemma net_base_upd:
  "net_base p \<Longrightarrow> 2 \<le> i \<Longrightarrow> net_base (p\<lparr>npAllocatedIPs := (npAllocatedIPs p)[nat i := x]\<rparr>)"
  by (simp add: net_base_def nth_list_update)

text \<open>Claiming a free slot for a new interface, and freeing the slot of a live one.\<close>

lemma net_inv_allocate:
  assumes inv: "net_inv s" and i: "2 \<le> i" "i < 256" and free: "npAllocatedIPs (nNet s) ! nat i = []"
    and at: "iface_at (nNet s) i ni" and rel: "niReleasedAt ni = None"
    and s': "s' = s\<lparr>nTrace := t, nNet := (nNet s)\<lparr>npAllocatedIPs := (npAllocatedIPs (nNet s))[nat i := tap_name i]\<rparr>,
      nIfaces := (nIfaces s)(nNext s \<mapsto> ni), nNext := Suc (nNext s)\<rparr>"
  shows "net_inv s'" and "live_ifaces s' = (live_ifaces s)(nNext s \<mapsto> ni)" and "live_ifaces s (nNext s) = None"
proof -
  have base: "net_base (nNet s)" and fresh: "net_fresh s" and lv: "net_live s" and uq: "net_unique s"
    and ex: "net_exact s"
    using inv by (simp_all add: net_inv_def)
  have len: "length (npAllocatedIPs (nNet s)) = 256" using base by (simp add: net_base_def)
  show n: "live_ifaces s (nNext s) = None" using fresh by (simp add: live_ifaces_def net_fresh_def)
  show l: "live_ifaces s' = (live_ifaces s)(nNext s \<mapsto> ni)"
    using rel by (auto simp: s' live_ifaces_def fun_eq_iff)
  have other: "\<exists>j. 2 \<le> j \<and> j < 256 \<and> iface_at (nNet s) j x \<and> npAllocatedIPs (nNet s) ! nat j = tap_name j \<and> j \<noteq> i"
    if "live_ifaces s a = Some x" for a x
    using net_liveD [OF lv that] free by force
  have ip: "niIPAddress x \<noteq> niIPAddress ni" if x: "live_ifaces s a = Some x" for a x
  proof -
    obtain j where j: "2 \<le> j" "j < 256" "iface_at (nNet s) j x" "j \<noteq> i"
      using other [OF x] by blast
    then show ?thesis
      using iface_at_ip_inj [OF base j(3) at] i by force
  qed
  have "net_live s'"
    unfolding net_live_def
  proof (intro allI impI)
    fix a x assume a: "live_ifaces s' a = Some x"
    show "\<exists>j. 2 \<le> j \<and> j < 256 \<and> iface_at (nNet s') j x \<and> npAllocatedIPs (nNet s') ! nat j = tap_name j"
    proof (cases "a = nNext s")
      case True
      then show ?thesis using a l at i len by (intro exI [of _ i]) (simp add: s')
    next
      case False
      then obtain j where "2 \<le> j" "j < 256" "iface_at (nNet s) j x" "npAllocatedIPs (nNet s) ! nat j = tap_name j" "j \<noteq> i"
        using a l other [of a x] by auto
      then show ?thesis using i by (intro exI [of _ j]) (simp add: s')
    qed
  qed
  moreover have "net_unique s'"
    using uq ip by (auto simp: net_unique_def l) metis+
  moreover have "net_exact s'"
    unfolding net_exact_def
  proof (intro allI impI)
    fix j :: int assume j: "2 \<le> j" "j < 256" "npAllocatedIPs (nNet s') ! nat j \<noteq> []"
    show "\<exists>a x. live_ifaces s' a = Some x \<and> iface_at (nNet s') j x"
    proof (cases "j = i")
      case True
      then show ?thesis using at l by (intro exI [of _ "nNext s"] exI [of _ ni]) (simp add: s')
    next
      case False
      then have "npAllocatedIPs (nNet s) ! nat j \<noteq> []" using j i by (simp add: s')
      then obtain a x where "live_ifaces s a = Some x" "iface_at (nNet s) j x"
        using net_exactD [OF ex j(1,2)] by blast
      then show ?thesis using l n by (intro exI [of _ a] exI [of _ x]) (auto simp: s')
    qed
  qed
  moreover have "net_base (nNet s')" using net_base_upd [OF base i(1)] by (simp add: s')
  moreover have "net_fresh s'" using fresh by (simp add: net_fresh_def s')
  ultimately show "net_inv s'" by (simp add: net_inv_def)
qed

lemma net_inv_release:
  assumes inv: "net_inv s" and a: "live_ifaces s a = Some ni"
    and i: "2 \<le> i" "i < 256" "iface_at (nNet s) i ni"
    and s': "s' = s\<lparr>nTrace := t, nNet := (nNet s)\<lparr>npAllocatedIPs := (npAllocatedIPs (nNet s))[nat i := []]\<rparr>,
      nIfaces := (nIfaces s)(a \<mapsto> ni\<lparr>niReleasedAt := Some x\<rparr>)\<rparr>"
  shows "net_inv s'" and "live_ifaces s' = (live_ifaces s)(a := None)"
proof -
  have base: "net_base (nNet s)" and fresh: "net_fresh s" and lv: "net_live s" and uq: "net_unique s"
    and ex: "net_exact s"
    using inv by (simp_all add: net_inv_def)
  have len: "length (npAllocatedIPs (nNet s)) = 256" using base by (simp add: net_base_def)
  show l: "live_ifaces s' = (live_ifaces s)(a := None)"
    by (auto simp: s' live_ifaces_def fun_eq_iff)
  have other: "\<exists>j. 2 \<le> j \<and> j < 256 \<and> iface_at (nNet s) j y \<and> npAllocatedIPs (nNet s) ! nat j = tap_name j \<and> j \<noteq> i"
    if y: "live_ifaces s b = Some y" "b \<noteq> a" for b y
  proof -
    obtain j where j: "2 \<le> j" "j < 256" "iface_at (nNet s) j y" "npAllocatedIPs (nNet s) ! nat j = tap_name j"
      using net_liveD [OF lv y(1)] by blast
    have "j \<noteq> i"
    proof
      assume "j = i"
      then have "niIPAddress y = niIPAddress ni" using j(3) i(3) by (simp add: iface_at_def)
      with net_uniqueD [OF uq y(1) a] y(2) show False by simp
    qed
    with j show ?thesis by blast
  qed
  have "net_live s'"
    unfolding net_live_def
  proof (intro allI impI)
    fix b y assume b: "live_ifaces s' b = Some y"
    then obtain j where "2 \<le> j" "j < 256" "iface_at (nNet s) j y" "npAllocatedIPs (nNet s) ! nat j = tap_name j" "j \<noteq> i"
      using l other [of b y] by (auto split: if_splits)
    then show "\<exists>j. 2 \<le> j \<and> j < 256 \<and> iface_at (nNet s') j y \<and> npAllocatedIPs (nNet s') ! nat j = tap_name j"
      using i by (intro exI [of _ j]) (simp add: s')
  qed
  moreover have "net_unique s'"
    using uq by (auto simp: net_unique_def l)
  moreover have "net_exact s'"
    unfolding net_exact_def
  proof (intro allI impI)
    fix j :: int assume j: "2 \<le> j" "j < 256" "npAllocatedIPs (nNet s') ! nat j \<noteq> []"
    then have ji: "j \<noteq> i" using i len by (auto simp: s')
    then have "npAllocatedIPs (nNet s) ! nat j \<noteq> []" using j i by (simp add: s')
    then obtain b y where b: "live_ifaces s b = Some y" "iface_at (nNet s) j y"
      using net_exactD [OF ex j(1,2)] by blast
    have "b \<noteq> a"
    proof
      assume "b = a"
      then have "y = ni" using a b by simp
      then have "j = i" using iface_at_ip_inj [OF base b(2) _ refl, of i] i j by simp
      with ji show False by simp
    qed
    then show "\<exists>a x. live_ifaces s' a = Some x \<and> iface_at (nNet s') j x"
      using l b by (intro exI [of _ b] exI [of _ y]) (auto simp: s')
  qed
  moreover have "net_base (nNet s')" using net_base_upd [OF base i(1)] by (simp add: s')
  moreover have "net_fresh s'"
    using fresh live_ifaces_SomeD [OF a] by (auto simp: net_fresh_def s')
  ultimately show "net_inv s'" by (simp add: net_inv_def)
qed

text \<open>The last part of a release, on a live interface and on another.\<close>

lemma release_address_live:
  assumes inv: "net_inv s" and a: "live_ifaces s a = Some ni" and r: "release_address E a ni s = (r, s')"
  shows "net_inv s' \<and> live_ifaces s' = (live_ifaces s)(a := None) \<and> (\<forall>m. r \<noteq> Panic m)"
proof -
  have base: "net_base (nNet s)" and lv: "net_live s" using inv by (simp_all add: net_inv_def)
  obtain i where i: "2 \<le> i" "i < 256" "iface_at (nNet s) i ni"
    using net_liveD [OF lv a] by blast
  have "claim_ip (niIPAddress ni) [] (nNet s) =
      Ok ((nNet s)\<lparr>npAllocatedIPs := (npAllocatedIPs (nNet s))[nat i := []]\<rparr>)"
    using base i by (simp add: claim_ip_def iface_at_offset [OF base i(3)] claim_def sint_256 net_base_def)
  note cl = this
  let ?x = "now E (s\<lparr>nNet := (nNet s)\<lparr>npAllocatedIPs := (npAllocatedIPs (nNet s))[nat i := []]\<rparr>\<rparr>)"
  have "s' = s\<lparr>nTrace := nTrace s', nNet := (nNet s)\<lparr>npAllocatedIPs := (npAllocatedIPs (nNet s))[nat i := []]\<rparr>,
      nIfaces := (nIfaces s)(a \<mapsto> ni\<lparr>niReleasedAt := Some ?x\<rparr>)\<rparr>"
    using r cl live_ifaces_SomeD [OF a]
    by (intro node.equality) (auto simp: release_address_def on_net_def Let_def split: flow_asm)
  moreover have "\<forall>m. r \<noteq> Panic m"
    using r cl live_ifaces_SomeD [OF a]
    by (auto simp: release_address_def on_net_def Let_def split: flow_asm)
  ultimately show ?thesis using net_inv_release [OF inv a i] by blast
qed

lemma release_address_done:
  "niReleasedAt ni \<noteq> None \<Longrightarrow> release_address E a ni s = (Ok (), s)"
  unfolding release_address_def by (rule if_not_P)

text \<open>A release either stops before the table is touched or ends with \<open>release_address\<close>.\<close>

lemma applyTapFirewallRules_no_Panic [simp]: "applyTapFirewallRules E ni b s \<noteq> (Panic m, s')"
  by (auto simp: applyTapFirewallRules_def runCmd_def Let_def split: flow_asm)

lemma applyTapFirewallRules_trace:
  "applyTapFirewallRules E ni b s = (r, s') \<Longrightarrow> trace_only s s'"
  using keepsD [OF applyTapFirewallRules_keeps [OF trace_only_refl]] .

lemma ReleaseInterface_cases:
  assumes r: "ReleaseInterface E (Some a) s = (r, s')" and a: "nIfaces s a = Some ni"
  obtains (early) e where "trace_only s s'" "r = Err e"
  | (late) s1 where "trace_only s s1" "release_address E a ni s1 = (r, s')"
proof (cases "call E (Net (LinkByName (niName ni))) s")
  case (Pair q s1)
  have r': "catchE (q, s1)
       (\<lambda>_ s. tryE (Wrap ''failed to apply firewall rules to tap interface'') (applyTapFirewallRules E ni True s)
         (\<lambda>_ s. tryE (Wrap (''failed to delete interface '' @ niName ni)) (call E (Net (LinkDel (niName ni))) s)
           (\<lambda>_ s. release_address E a ni s)))
       (\<lambda>e s. if \<not> isLinkNotFoundError e then (Err (Wrap (''failed to find interface '' @ niName ni) e), s)
          else release_address E (the (Some a)) ni s) = (r, s')"
    using r by (simp add: ReleaseInterface_def deref_Some [of "nIfaces s" a ni, OF a] Pair)
  have t1: "trace_only s s1" using Pair by (auto simp: call_def)
  show thesis
  proof (cases q)
    case (Ok u)
    obtain q2 s2 where q2: "applyTapFirewallRules E ni True s1 = (q2, s2)" by fastforce
    have t2: "trace_only s s2" using applyTapFirewallRules_trace [OF q2] t1 by (rule trace_only_trans [rotated])
    show thesis
      using r' Ok q2 t2
      by (cases q2) (auto split: flow_asm intro: early late [rotated])
  next
    case (Err e)
    then show thesis using r' t1 by (auto split: if_splits intro: early late [rotated])
  next
    case (Panic m)
    then show thesis using Pair by simp
  qed
qed

section \<open>The contract of \<^verbatim>\<open>types.NetworkProvider\<close>\<close>

lemma trace_only_net:
  assumes "trace_only s s'"
  shows "live_ifaces s' = live_ifaces s" "net_inv s' = net_inv s"
  using assms by (auto elim!: trace_onlyE)

text \<open>Releasing again an interface that was released frees nothing.\<close>

lemma ReleaseInterface_effect:
  assumes inv: "net_inv s" and r: "ReleaseInterface E p s = (r, s')"
  shows "net_inv s' \<and> (live_ifaces s' = live_ifaces s \<and> r \<noteq> Ok () \<or>
    live_ifaces s' = (\<lambda>b. if p = Some b then None else live_ifaces s b))"
proof (cases "\<exists>a ni. p = Some a \<and> nIfaces s a = Some ni")
  case False
  then have "Option.bind p (nIfaces s) = None" by (cases p) auto
  then have "s' = s \<and> r \<noteq> Ok ()" using r by (auto simp: ReleaseInterface_def deref_def)
  with inv show ?thesis by simp
next
  case True
  then obtain a ni where p: "p = Some a" and a: "nIfaces s a = Some ni" by blast
  from r [unfolded p] a show ?thesis
  proof (cases rule: ReleaseInterface_cases)
    case (early e)
    with inv show ?thesis by (simp add: trace_only_net)
  next
    case (late s1)
    have i1: "net_inv s1" and l1: "live_ifaces s1 = live_ifaces s" and n1: "nIfaces s1 a = Some ni"
      using late(1) inv a by (auto elim!: trace_onlyE)
    show ?thesis
    proof (cases "niReleasedAt ni")
      case None
      then have "live_ifaces s1 a = Some ni" using n1 by (simp add: live_ifaces_def)
      from release_address_live [OF i1 this late(2)] l1 p show ?thesis by (auto simp: fun_eq_iff)
    next
      case (Some x)
      then have "r = Ok ()" "s' = s1" using late(2) by (simp_all add: release_address_done)
      moreover have "live_ifaces s1 a = None" using n1 Some by (simp add: live_ifaces_def)
      ultimately show ?thesis using i1 l1 p by (auto simp: fun_eq_iff)
    qed
  qed
qed

lemma ReleaseInterface_no_Panic:
  assumes inv: "net_inv s" and l: "live_ifaces s a \<noteq> None"
  shows "ReleaseInterface E (Some a) s \<noteq> (Panic m, s')"
proof
  assume r: "ReleaseInterface E (Some a) s = (Panic m, s')"
  obtain ni where ni: "live_ifaces s a = Some ni" using l by blast
  note a = live_ifaces_SomeD [OF ni, THEN conjunct1]
  from r a show False
  proof (cases rule: ReleaseInterface_cases)
    case (late s1)
    then show False
      using release_address_live [of s1 a ni E] inv ni by (auto simp: trace_only_net)
  qed simp
qed

lemma AllocateInterface_inv:
  assumes inv: "net_inv s" and r: "AllocateInterface E s = (r, s')"
  shows "net_inv s'"
proof -
  have base: "net_base (nNet s)" using inv by (simp add: net_inv_def)
  show ?thesis
  proof (cases r)
    case (Ok a)
    from AllocateInterface_Ok [OF base r [unfolded Ok]] show ?thesis
      using net_inv_allocate(1) [OF inv] by metis
  next
    case (Err e)
    from AllocateInterface_Err [OF base r [unfolded Err]] inv show ?thesis by auto
  next
    case (Panic m)
    with AllocateInterface_no_Panic [OF base] r show ?thesis by blast
  qed
qed

lemma AllocateInterface_live:
  assumes inv: "net_inv s" and r: "AllocateInterface E s = (Ok a, s')"
  shows "live_ifaces s a = None \<and> (\<exists>ni. live_ifaces s' = (live_ifaces s)(a \<mapsto> ni))"
proof -
  have base: "net_base (nNet s)" using inv by (simp add: net_inv_def)
  from AllocateInterface_Ok [OF base r] show ?thesis
    using net_inv_allocate(2,3) [OF inv] by metis
qed

interpretation net: network_provider "AllocateInterface E" "SetupInterface E" "ReleaseInterface E"
    live_ifaces net_inv for E
proof (unfold_locales, goal_cases)
  case (1 s r s')
  then show ?case by (rule AllocateInterface_inv)
next
  case (2 s p u s')
  then show ?case using keepsD [OF SetupInterface_keeps [OF trace_only_refl]] by (metis trace_only_net(2))
next
  case (3 s p u s')
  then show ?case using ReleaseInterface_effect by blast
next
  case (4 s a s')
  then show ?case by (rule AllocateInterface_live)
next
  case (5 s e s')
  then show ?case using AllocateInterface_Err by (fastforce simp: net_inv_def)
next
  case (6 s m s')
  then have "net_base (nNet s)" by (simp add: net_inv_def)
  then show ?case by (rule AllocateInterface_no_Panic)
next
  case (7 s p u s')
  then show ?case using keepsD [OF SetupInterface_keeps [OF trace_only_refl]] by (metis trace_only_net(1))
next
  case (8 s a s')
  then show ?case using ReleaseInterface_effect by (fastforce simp: fun_eq_iff)
next
  case (9 s a e s')
  then show ?case using ReleaseInterface_effect by (fastforce simp: fun_eq_iff)
next
  case (10 s a m s')
  then show ?case using ReleaseInterface_no_Panic by blast
next
  case (11 s a x b y)
  then show ?case using net_uniqueD by (metis net_inv_def)
qed

section \<open>The constructor\<close>

lemma upsertIptablesRule_keeps [keeps_intros]:
  "trace_only s0 s \<Longrightarrow> keeps (trace_only s0) (upsertIptablesRule E tbl ch r s)"
  by (auto simp: upsertIptablesRule_def runCmd_def intro!: keeps_intros)

lemma block_local_networks_keeps [keeps_intros]:
  "trace_only s0 s \<Longrightarrow> keeps (trace_only s0) (block_local_networks E x ns s)"
  by (induction ns arbitrary: s) (auto intro!: keeps_intros)

lemma applyBridgeFirewallRules_keeps [keeps_intros]:
  "trace_only s0 s \<Longrightarrow> keeps (trace_only s0) (applyBridgeFirewallRules E x s)"
  by (auto simp: applyBridgeFirewallRules_def intro!: keeps_intros)

definition base_provider :: net_provider where
  "base_provider = \<lparr>npBridgeInterface = ''br0'', npNetworkCIDR = default_cidr,
     npNetworkAddr = [192, 168, 100, 0], npGatewayAddr = [192, 168, 100, 1], npAllocatedIPs = []\<rparr>"

lemma gateway_of_default:
  "fresh_provider\<lparr>npNetworkAddr := [192, 168, 100, 0],
     npGatewayAddr := calculateIPFromOffset (fresh_provider\<lparr>npNetworkAddr := [192, 168, 100, 0]\<rparr>) 1\<rparr> = base_provider"
  by (simp add: calculateIPFromOffset_def fresh_provider_def base_provider_def)

lemma SetupBridge_Ok:
  assumes "SetupBridge E ext_if (s\<lparr>nNet := fresh_provider\<rparr>) = (Ok (), s')"
  shows "\<exists>t. s' = s\<lparr>nNet := base_provider, nTrace := t\<rparr>"
proof -
  have t: "\<exists>t. s' = s\<lparr>nNet := base_provider, nTrace := t\<rparr>"
    if "applyBridgeFirewallRules E ext_if (s\<lparr>nNet := base_provider, nTrace := t0\<rparr>) = (q, s')" for t0 q
    using keepsD [OF applyBridgeFirewallRules_keeps [OF trace_only_refl] that] by (auto elim!: trace_onlyE)
  have n: "netIP (npNetworkCIDR fresh_provider) = [192, 168, 100, 0]"
    by (simp add: fresh_provider_def default_cidr_def)
  show ?thesis
    using assms unfolding SetupBridge_def Let_def
    by (auto simp: gateway_of_default n split: flow_asm if_splits intro: t)
qed

lemma claim_ip_at:
  assumes b: "npNetworkAddr p = [192, 168, 100, 0]" "length (npAllocatedIPs p) = 256"
    and i: "0 \<le> i" "i < 256" and a: "a = calculateIPFromOffset p (of_int i)"
  shows "claim_ip a nm p = Ok (p\<lparr>npAllocatedIPs := (npAllocatedIPs p)[nat i := nm]\<rparr>)"
proof -
  have "calculateOffsetFromIP p a = Ok (of_int i)"
    unfolding a using b i by (intro offset_of_ip_of_offset) (auto simp: sint_256)
  then show ?thesis using b i by (simp add: claim_ip_def claim_def sint_256)
qed

text \<open>Claiming the addresses of a list of rows fills exactly their slots.\<close>

lemma claim_all_table:
  assumes "npNetworkAddr (nNet s) = [192, 168, 100, 0]" "length (npAllocatedIPs (nNet s)) = 256"
    and "\<forall>ni \<in> set nis. \<exists>i. 0 \<le> i \<and> i < 256 \<and> iface_at (nNet s) i ni"
  shows "\<exists>al. claim_all nis s = (Ok (), s\<lparr>nNet := (nNet s)\<lparr>npAllocatedIPs := al\<rparr>\<rparr>) \<and> length al = 256 \<and>
    (\<forall>k. 0 \<le> k \<longrightarrow> k < 256 \<longrightarrow> al ! nat k = (if \<exists>ni \<in> set nis. iface_at (nNet s) k ni then tap_name k
       else npAllocatedIPs (nNet s) ! nat k))"
  using assms
proof (induction nis arbitrary: s)
  case Nil
  show ?case by (rule exI [of _ "npAllocatedIPs (nNet s)"]) (use Nil in simp)
next
  case (Cons ni nis)
  obtain i where i: "0 \<le> i" "i < 256" "iface_at (nNet s) i ni" using Cons.prems(3) by auto
  let ?s = "s\<lparr>nNet := (nNet s)\<lparr>npAllocatedIPs := (npAllocatedIPs (nNet s))[nat i := niName ni]\<rparr>\<rparr>"
  have c: "claim_ip (niIPAddress ni) (niName ni) (nNet s) = Ok (nNet ?s)"
    using claim_ip_at [OF Cons.prems(1,2) i(1,2)] i(3) by (simp add: iface_at_def)
  obtain al where al: "claim_all nis ?s = (Ok (), ?s\<lparr>nNet := (nNet ?s)\<lparr>npAllocatedIPs := al\<rparr>\<rparr>)" "length al = 256"
    "\<And>k. 0 \<le> k \<Longrightarrow> k < 256 \<Longrightarrow> al ! nat k = (if \<exists>ni \<in> set nis. iface_at (nNet ?s) k ni then tap_name k
       else npAllocatedIPs (nNet ?s) ! nat k)"
    using Cons.IH [of ?s] Cons.prems by auto
  have "al ! nat k = (if \<exists>x \<in> set (ni # nis). iface_at (nNet s) k x then tap_name k
       else npAllocatedIPs (nNet s) ! nat k)" if k: "0 \<le> k" "k < 256" for k
  proof (cases "k = i")
    case True
    then show ?thesis using al(3) [OF k] i Cons.prems(2) by (auto simp: iface_at_def)
  next
    case False
    then have "niName ni \<noteq> tap_name k" using i k by (simp add: iface_at_def tap_name_inj)
    then have "\<not> iface_at (nNet s) k ni" by (auto simp: iface_at_def)
    then show ?thesis using al(3) [OF k] False i k by (simp add: nth_list_update)
  qed
  then show ?case using al(1,2) c by (intro exI [of _ al]) (simp add: on_net_def)
qed

lemma list_eq_256:
  "length xs = 256 \<Longrightarrow> length ys = 256 \<Longrightarrow> (\<And>k::int. 0 \<le> k \<Longrightarrow> k < 256 \<Longrightarrow> xs ! nat k = ys ! nat k) \<Longrightarrow> xs = ys"
  by (rule nth_equalityI, simp) (metis nat_int of_nat_0_le_iff of_nat_less_iff of_nat_numeral)

lemma mask_size_default: "max_addresses default_cidr = 256"
  by (simp add: max_addresses_def mask_size_def default_cidr_def byte_bits_def)

definition start_provider :: net_provider where
  "start_provider = base_provider\<lparr>npAllocatedIPs := ''network'' # ''br0'' # replicate 254 []\<rparr>"

lemma start_claims:
  "max_addresses (npNetworkCIDR base_provider) = 256"
  "claim_ip (npNetworkAddr base_provider) ''network'' (base_provider\<lparr>npAllocatedIPs := replicate 256 []\<rparr>) =
     Ok (base_provider\<lparr>npAllocatedIPs := (replicate 256 [])[0 := ''network'']\<rparr>)"
  "claim_ip (npGatewayAddr base_provider) ''br0'' (base_provider\<lparr>npAllocatedIPs := (replicate 256 [])[0 := ''network'']\<rparr>) =
     Ok start_provider"
proof -
  show "max_addresses (npNetworkCIDR base_provider) = 256" by (simp add: base_provider_def mask_size_default)
  have l: "(replicate 256 [])[0 := ''network'', Suc 0 := ''br0''] = ''network'' # ''br0'' # replicate 254 []"
    by (simp add: numeral_eq_Suc)
  have a: "npNetworkAddr base_provider = calculateIPFromOffset (base_provider\<lparr>npAllocatedIPs := x\<rparr>) (of_int 0)"
    "npGatewayAddr base_provider = calculateIPFromOffset (base_provider\<lparr>npAllocatedIPs := x\<rparr>) (of_int 1)" for x
    by (simp_all add: calculateIPFromOffset_def base_provider_def)
  have n: "npNetworkAddr base_provider = [192, 168, 100, 0]" by (simp add: base_provider_def)
  show "claim_ip (npNetworkAddr base_provider) ''network'' (base_provider\<lparr>npAllocatedIPs := replicate 256 []\<rparr>) =
     Ok (base_provider\<lparr>npAllocatedIPs := (replicate 256 [])[0 := ''network'']\<rparr>)"
    using claim_ip_at [of "base_provider\<lparr>npAllocatedIPs := replicate 256 []\<rparr>" 0] n a(1) by simp
  show "claim_ip (npGatewayAddr base_provider) ''br0'' (base_provider\<lparr>npAllocatedIPs := (replicate 256 [])[0 := ''network'']\<rparr>) =
     Ok start_provider"
    using claim_ip_at [of "base_provider\<lparr>npAllocatedIPs := (replicate 256 [])[0 := ''network'']\<rparr>" 1] n a(2)
    by (simp add: l start_provider_def)
qed

lemma NetworkProvider_New_Ok:
  assumes "NetworkProvider_New E s = (Ok (), s')"
  shows "\<exists>t u. claim_all (ne_interfaces E u) (s\<lparr>nNet := start_provider, nTrace := t\<rparr>) = (Ok (), s')"
proof -
  obtain s1 where s1: "SetupBridge E ''eth0'' (s\<lparr>nNet := fresh_provider\<rparr>) = (Ok (), s1)"
    using assms by (auto simp: NetworkProvider_New_def split: flow_asm)
  obtain t1 where t1: "s1 = s\<lparr>nNet := base_provider, nTrace := t1\<rparr>" using SetupBridge_Ok [OF s1] by blast
  show ?thesis
    using assms s1 unfolding NetworkProvider_New_def t1
    by (auto simp: on_net_def start_claims split: flow_asm)
qed

lemma length_start_provider: "length (npAllocatedIPs start_provider) = 256"
  by (simp add: start_provider_def)

lemma start_provider_free: "2 \<le> k \<Longrightarrow> k < 256 \<Longrightarrow> npAllocatedIPs start_provider ! nat k = []"
proof -
  assume k: "2 \<le> k" "k < 256"
  then obtain n where n: "nat k = Suc (Suc n)" by (metis Suc_nat_eq_nat_zadd1 nat_eq_iff2 numeral_2_eq_2 nat_le_iff le_Suc_ex add_2_eq_Suc nat_mono nat_numeral)
  with k have "n < 254" by linarith
  then show ?thesis by (simp add: start_provider_def n)
qed

lemma base_start:
  "net_base p \<Longrightarrow> p = start_provider\<lparr>npAllocatedIPs := npAllocatedIPs p\<rparr>"
  by (simp add: net_base_def start_provider_def base_provider_def)

lemma iface_at_base: "net_base p \<Longrightarrow> iface_at p = iface_at start_provider"
  by (rule ext, rule ext) (simp add: iface_at_def calculateIPFromOffset_def net_base_def start_provider_def base_provider_def)

section \<open>Properties\<close>

text \<open>A node with nothing in memory, and the same node after a first start.\<close>

definition empty_node :: node where
  "empty_node = \<lparr>nIfaces = Map.empty, nVolumes = Map.empty, nImages = Map.empty,
     nContainers = Map.empty, nNet = fresh_provider, nTrace = [], nNext = 0\<rparr>"

definition start_node :: node where
  "start_node = empty_node\<lparr>nNet := start_provider\<rparr>"

lemma net_base_start: "net_base start_provider"
  by (simp add: net_base_def start_provider_def base_provider_def)

lemma net_inv_start_node: "net_inv start_node"
  using net_base_start start_provider_free
  by (auto simp: net_inv_def net_fresh_def net_live_def net_unique_def net_exact_def start_node_def
      empty_node_def live_ifaces_def)

lemma first_allocation:
  "AllocateInterface quiet_env start_node = (Ok 0, snd (AllocateInterface quiet_env start_node))"
  "live_ifaces (snd (AllocateInterface quiet_env start_node)) 0 \<noteq> None"
proof -
  have f: "findAvailableOffset start_provider = 2"
    by (simp add: findAvailableOffset_def start_provider_def numeral_eq_Suc)
  show a: "AllocateInterface quiet_env start_node = (Ok 0, snd (AllocateInterface quiet_env start_node))"
    by (simp add: AllocateInterface_def Let_def f start_node_def gen_id_def call_cases quiet_env_def
        claim_def length_start_provider on_net_def empty_node_def)
  show "live_ifaces (snd (AllocateInterface quiet_env start_node)) 0 \<noteq> None"
    using AllocateInterface_live [OF net_inv_start_node a] by auto
qed

lemma live_offset:
  assumes "net_inv s" "live_ifaces s a = Some x"
  obtains i where "2 \<le> i" "i < 256" "iface_at (nNet s) i x"
  using assms net_liveD [of s a x] by (auto simp: net_inv_def)

lemma live_not_reserved:
  assumes inv: "net_inv s" and a: "live_ifaces s a = Some x"
  shows "niIPAddress x \<noteq> npGatewayAddr (nNet s) \<and> niIPAddress x \<noteq> npNetworkAddr (nNet s)"
proof -
  have base: "net_base (nNet s)" using inv by (simp add: net_inv_def)
  obtain i where i: "2 \<le> i" "i < 256" "iface_at (nNet s) i x" using live_offset [OF inv a] .
  have "npGatewayAddr (nNet s) = calculateIPFromOffset (nNet s) (of_int 1)"
    "npNetworkAddr (nNet s) = calculateIPFromOffset (nNet s) (of_int 0)"
    using base by (simp_all add: net_base_def calculateIPFromOffset_def)
  moreover have ne: "calculateIPFromOffset (nNet s) (of_int i) \<noteq> calculateIPFromOffset (nNet s) (of_int j)"
    if "0 \<le> j" "j < 2" for j
  proof
    assume "calculateIPFromOffset (nNet s) (of_int i) = calculateIPFromOffset (nNet s) (of_int j)"
    then have "calculateOffsetFromIP (nNet s) (calculateIPFromOffset (nNet s) (of_int i)) =
        calculateOffsetFromIP (nNet s) (calculateIPFromOffset (nNet s) (of_int j))" by simp
    then have "(of_int i :: 64 word) = of_int j"
      using i that by (simp add: offset_of_ip_of_offset [OF net_base_addr [OF base]] sint_256)
    then show False using sint_256(1) [of i] sint_256(1) [of j] i that by simp
  qed
  ultimately show ?thesis using i(3) ne [of 0] ne [of 1] by (simp add: iface_at_def)
qed

text \<open>Any sequence of operations of the provider.\<close>

abbreviation net_ops :: "'e node_env_scheme \<Rightarrow> 'm node_scheme \<Rightarrow> 'm node_scheme \<Rightarrow> bool" where
  "net_ops E \<equiv> network_provider.ops (AllocateInterface E) (SetupInterface E) (ReleaseInterface E)"

lemma ipnet_string_default: "ipnet_string default_cidr = ''192.168.100.0/24''"
proof -
  have m: "mask_size (netMask default_cidr) = (24, 32)" by (simp add: mask_size_def default_cidr_def byte_bits_def)
  have i: "netIP default_cidr = [192, 168, 100, 0]" by (simp add: default_cidr_def)
  have d: "dec 192 = ''192''" "dec 168 = ''168''" "dec 100 = ''100''" "dec 0 = ''0''" "dec 24 = ''24''"
    by (simp_all add: dec.simps digit_def)
  show ?thesis
    by (simp add: ipnet_string_def ip_string_def i m To4_def d)
qed

lemma no_offset_iff:
  assumes base: "net_base p"
  shows "findAvailableOffset p = -1 \<longleftrightarrow> (\<forall>k. 2 \<le> k \<longrightarrow> k < 256 \<longrightarrow> npAllocatedIPs p ! nat k \<noteq> [])"
proof
  assume "findAvailableOffset p = -1"
  then have "\<forall>x \<in> set (npAllocatedIPs p). x \<noteq> []" by (simp add: findAvailableOffset_def first_free_none)
  then show "\<forall>k. 2 \<le> k \<longrightarrow> k < 256 \<longrightarrow> npAllocatedIPs p ! nat k \<noteq> []"
    using base by (auto simp: net_base_def)
next
  assume all: "\<forall>k. 2 \<le> k \<longrightarrow> k < 256 \<longrightarrow> npAllocatedIPs p ! nat k \<noteq> []"
  show "findAvailableOffset p = -1"
    using findAvailableOffset_Some [OF base refl] all by blast
qed

lemma AllocateInterface_trace:
  "findAvailableOffset (nNet s) \<noteq> -1 \<Longrightarrow> nTrace (snd (AllocateInterface E s)) \<noteq> nTrace s"
  by (auto simp: AllocateInterface_def Let_def gen_id_def call_cases on_net_def split: option.splits res.splits)

text \<open>
  C1: whatever sequence of allocations, set-ups and releases runs on the table, and whatever
  the database, netlink and the firewall commands answer, two interfaces in use never have the
  same IP address, MAC address or name, and none has the address of the gateway or of the network.
\<close>

theorem live_interfaces_distinct:
  assumes "net_inv s" and "net_ops E s s'"
    and "live_ifaces s' a = Some x" and "live_ifaces s' b = Some y" and "a \<noteq> b"
  shows "niIPAddress x \<noteq> niIPAddress y \<and> niMacAddress x \<noteq> niMacAddress y \<and> niName x \<noteq> niName y \<and>
    niIPAddress x \<noteq> npGatewayAddr (nNet s') \<and> niIPAddress x \<noteq> npNetworkAddr (nNet s')"
proof -
  have inv: "net_inv s'" using net.ops_inv [OF assms(2,1)] .
  have ip: "niIPAddress x \<noteq> niIPAddress y" using net.live_unique [OF inv assms(3,4)] assms(5) by blast
  obtain i where i: "2 \<le> i" "i < 256" "iface_at (nNet s') i x" using live_offset [OF inv assms(3)] .
  obtain j where j: "2 \<le> j" "j < 256" "iface_at (nNet s') j y" using live_offset [OF inv assms(4)] .
  have "i \<noteq> j" using i j ip by (auto simp: iface_at_def)
  then have "niMacAddress x \<noteq> niMacAddress y" "niName x \<noteq> niName y"
    using i j tap_hwaddr_inj [of i j] by (auto simp: iface_at_def tap_name_inj)
  with ip live_not_reserved [OF inv assms(3)] show ?thesis by blast
qed

lemma two_allocations:
  defines "s1 \<equiv> snd (AllocateInterface quiet_env start_node)"
  defines "s2 \<equiv> snd (AllocateInterface quiet_env s1)"
  shows "net_ops quiet_env start_node s2" and "\<exists>x y. live_ifaces s2 0 = Some x \<and> live_ifaces s2 1 = Some y"
proof -
  have i1: "net_inv s1" using AllocateInterface_inv [OF net_inv_start_node] first_allocation(1) by (simp add: s1_def)
  have b1: "net_base (nNet s1)" using i1 by (simp add: net_inv_def)
  have a1: "AllocateInterface quiet_env start_node = (Ok 0, s1)" using first_allocation(1) by (simp add: s1_def)
  have f0: "findAvailableOffset start_provider = 2"
    by (simp add: findAvailableOffset_def start_provider_def numeral_eq_Suc)
  from AllocateInterface_Ok_state [OF _ a1] have s1: "npAllocatedIPs (nNet s1) = ''network'' # ''br0'' # tap_name 2 # replicate 253 []"
    "nNext s1 = 1"
    by (simp_all add: net_base_start start_node_def empty_node_def f0)
       (simp add: start_provider_def numeral_eq_Suc)
  then have f: "findAvailableOffset (nNet s1) = 3"
    by (simp add: findAvailableOffset_def numeral_eq_Suc)
  have a2: "AllocateInterface quiet_env s1 = (Ok 1, s2)"
    using b1 s1(2) f unfolding s2_def
    by (simp add: AllocateInterface_def Let_def gen_id_def call_cases quiet_env_def claim_def on_net_def net_base_def)
  show "net_ops quiet_env start_node s2"
    using net.ops_allocate [OF net.ops_allocate [OF net.ops_refl a1] a2] .
  have "live_ifaces s1 0 \<noteq> None" using first_allocation(2) by (simp add: s1_def)
  with AllocateInterface_live [OF i1 a2] show "\<exists>x y. live_ifaces s2 0 = Some x \<and> live_ifaces s2 1 = Some y"
    by fastforce
qed

theorem live_interfaces_distinct_witness:
  "\<exists>s x y. net_ops quiet_env start_node s \<and> live_ifaces s 0 = Some x \<and> live_ifaces s 1 = Some y \<and>
     niIPAddress x \<noteq> niIPAddress y \<and> niMacAddress x \<noteq> niMacAddress y"
proof -
  note t = two_allocations
  obtain x y where "live_ifaces (snd (AllocateInterface quiet_env (snd (AllocateInterface quiet_env start_node)))) 0 = Some x"
    "live_ifaces (snd (AllocateInterface quiet_env (snd (AllocateInterface quiet_env start_node)))) 1 = Some y"
    using t(2) by blast
  with live_interfaces_distinct [OF net_inv_start_node t(1) this] t(1) show ?thesis by (simp; blast)
qed

lemma live_at_slot:
  assumes inv: "net_inv s" and k: "2 \<le> k" "k < 256"
  shows "npAllocatedIPs (nNet s) ! nat k =
    (if \<exists>a x. live_ifaces s a = Some x \<and> iface_at (nNet s) k x then tap_name k else [])"
proof (cases "\<exists>a x. live_ifaces s a = Some x \<and> iface_at (nNet s) k x")
  case True
  then obtain a x where x: "live_ifaces s a = Some x" "iface_at (nNet s) k x" by blast
  obtain j where j: "2 \<le> j" "j < 256" "iface_at (nNet s) j x" "npAllocatedIPs (nNet s) ! nat j = tap_name j"
    using inv net_liveD [OF _ x(1)] by (auto simp: net_inv_def)
  have "j = k" using j x k by (auto simp: iface_at_def tap_name_inj)
  with True j show ?thesis by simp
next
  case False
  then have "npAllocatedIPs (nNet s) ! nat k = []"
    using inv net_exactD [of s k] k unfolding net_inv_def by blast
  with False show ?thesis by simp
qed

text \<open>
  C24: restarting the agent loses no address: when the database holds the rows of the interfaces
  in use, the constructor rebuilds exactly the table the previous process had.
\<close>

theorem restart_rebuilds_table:
  assumes inv: "net_inv s" and rows: "\<And>t. set (ne_interfaces E t) = ran (live_ifaces s)"
    and new: "NetworkProvider_New E s = (Ok (), s')"
  shows "nNet s' = nNet s \<and> live_ifaces s' = live_ifaces s \<and> net_inv s'"
proof -
  have base: "net_base (nNet s)" using inv by (simp add: net_inv_def)
  obtain t u where c: "claim_all (ne_interfaces E u) (s\<lparr>nNet := start_provider, nTrace := t\<rparr>) = (Ok (), s')"
    using NetworkProvider_New_Ok [OF new] by blast
  have at: "\<exists>i. 2 \<le> i \<and> i < 256 \<and> iface_at (nNet s) i x" if x: "x \<in> ran (live_ifaces s)" for x
  proof -
    obtain a where "live_ifaces s a = Some x" using x by (auto simp: ran_def)
    from live_offset [OF inv this] show ?thesis by blast
  qed
  have "\<forall>ni \<in> set (ne_interfaces E u). \<exists>i. 0 \<le> i \<and> i < 256 \<and>
      iface_at (nNet (s\<lparr>nNet := start_provider, nTrace := t\<rparr>)) i ni"
  proof
    fix ni assume "ni \<in> set (ne_interfaces E u)"
    then obtain i where "2 \<le> i" "i < 256" "iface_at (nNet s) i ni" using at by (auto simp: rows)
    then show "\<exists>i. 0 \<le> i \<and> i < 256 \<and> iface_at (nNet (s\<lparr>nNet := start_provider, nTrace := t\<rparr>)) i ni"
      by (intro exI [of _ i]) (simp add: iface_at_base [OF base])
  qed
  moreover have "npNetworkAddr (nNet (s\<lparr>nNet := start_provider, nTrace := t\<rparr>)) = [192, 168, 100, 0]"
    "length (npAllocatedIPs (nNet (s\<lparr>nNet := start_provider, nTrace := t\<rparr>))) = 256"
    by (simp_all add: length_start_provider) (simp add: start_provider_def base_provider_def)
  ultimately obtain al where
    s': "s' = s\<lparr>nTrace := t, nNet := start_provider\<lparr>npAllocatedIPs := al\<rparr>\<rparr>" and len: "length al = 256"
    and al: "\<And>k. 0 \<le> k \<Longrightarrow> k < 256 \<Longrightarrow> al ! nat k =
       (if \<exists>ni \<in> ran (live_ifaces s). iface_at (nNet s) k ni then tap_name k else npAllocatedIPs start_provider ! nat k)"
    using claim_all_table [of "s\<lparr>nNet := start_provider, nTrace := t\<rparr>" "ne_interfaces E u"] c
    by (auto simp: rows iface_at_base [OF base])
  have "al = npAllocatedIPs (nNet s)"
  proof (rule list_eq_256)
    show "length al = 256" "length (npAllocatedIPs (nNet s)) = 256" using len base by (simp_all add: net_base_def)
    fix k :: int assume k: "0 \<le> k" "k < 256"
    show "al ! nat k = npAllocatedIPs (nNet s) ! nat k"
    proof (cases "2 \<le> k")
      case True
      have "(\<exists>ni \<in> ran (live_ifaces s). iface_at (nNet s) k ni) = (\<exists>a x. live_ifaces s a = Some x \<and> iface_at (nNet s) k x)"
        by (auto simp: ran_def)
      with al [OF k] live_at_slot [OF inv True k(2)] start_provider_free [OF True k(2)] show ?thesis by simp
    next
      case False
      have "\<not> iface_at (nNet s) k ni" if "ni \<in> ran (live_ifaces s)" for ni
        using at [OF that] False k by (auto simp: iface_at_def tap_name_inj)
      then have "al ! nat k = npAllocatedIPs start_provider ! nat k" using al [OF k] by auto
      moreover have "k = 0 \<or> k = 1" using k False by auto
      ultimately show ?thesis using base by (auto simp: net_base_def start_provider_def)
    qed
  qed
  then have "nNet s' = nNet s" using base_start [OF base] s' by simp
  then have "s' = s\<lparr>nTrace := t\<rparr>" using s' by simp
  then show ?thesis using inv by simp
qed

theorem restart_rebuilds_table_witness:
  "\<exists>s'. NetworkProvider_New quiet_env start_node = (Ok (), s') \<and> nNet s' = nNet start_node \<and> net_inv s'"
proof -
  have n: "netIP (npNetworkCIDR fresh_provider) = [192, 168, 100, 0]"
    by (simp add: fresh_provider_def default_cidr_def)
  have "fst (NetworkProvider_New quiet_env start_node) = Ok ()"
    by (simp add: NetworkProvider_New_def SetupBridge_def Let_def n gateway_of_default on_net_def start_claims
        applyBridgeFirewallRules_def upsertIptablesRule_def runCmd_def LocalNetworks_def call_cases call_val_cases
        quiet_env_def start_node_def empty_node_def)
  then obtain s' where s': "NetworkProvider_New quiet_env start_node = (Ok (), s')"
    by (cases "NetworkProvider_New quiet_env start_node") simp
  have "\<And>t. set (ne_interfaces quiet_env t) = ran (live_ifaces start_node)"
    by (simp add: quiet_env_def start_node_def empty_node_def live_ifaces_def ran_def)
  from restart_rebuilds_table [OF net_inv_start_node this s'] s' show ?thesis by blast
qed

text \<open>
  An allocation takes the lowest offset no interface in use has, and the new interface has
  the IP address, MAC address and name of that offset.
\<close>

theorem allocation_takes_lowest:
  assumes inv: "net_inv s" and r: "AllocateInterface E s = (Ok a, s')"
  shows "\<exists>i ni. 2 \<le> i \<and> i < 256 \<and> live_ifaces s' = (live_ifaces s)(a \<mapsto> ni) \<and> iface_at (nNet s) i ni \<and>
    (\<nexists>b x. live_ifaces s b = Some x \<and> iface_at (nNet s) i x) \<and>
    (\<forall>j. 2 \<le> j \<longrightarrow> j < i \<longrightarrow> (\<exists>b x. live_ifaces s b = Some x \<and> iface_at (nNet s) j x))"
proof -
  have base: "net_base (nNet s)" using inv by (simp add: net_inv_def)
  from AllocateInterface_Ok [OF base r] obtain i ni where i: "findAvailableOffset (nNet s) = i" "2 \<le> i" "i < 256"
    "npAllocatedIPs (nNet s) ! nat i = []" "a = nNext s" "iface_at (nNet s) i ni" "niReleasedAt ni = None"
    and s': "s' = s\<lparr>nTrace := nTrace s @ [GenID, Db (DbCreateInterface ni)],
      nNet := (nNet s)\<lparr>npAllocatedIPs := (npAllocatedIPs (nNet s))[nat i := tap_name i]\<rparr>,
      nIfaces := (nIfaces s)(nNext s \<mapsto> ni), nNext := Suc (nNext s)\<rparr>" .
  have "npAllocatedIPs (nNet s) ! nat j \<noteq> []" if "2 \<le> j" "j < i" for j
    using first_free_bounds [of 0 "npAllocatedIPs (nNet s)" i] i that by (simp add: findAvailableOffset_def)
  then have "\<exists>b x. live_ifaces s b = Some x \<and> iface_at (nNet s) j x" if "2 \<le> j" "j < i" for j
    using live_at_slot [OF inv, of j] that i by (auto split: if_splits)
  moreover have "\<nexists>b x. live_ifaces s b = Some x \<and> iface_at (nNet s) i x"
    using live_at_slot [OF inv i(2,3)] i(4) by (auto split: if_splits)
  ultimately show ?thesis
    using i net_inv_allocate(2) [OF inv i(2,3,4,6,7) s'] by blast
qed

theorem allocation_takes_lowest_witness:
  "\<exists>i ni. live_ifaces (snd (AllocateInterface quiet_env start_node)) 0 = Some ni \<and> iface_at (nNet start_node) i ni"
  using allocation_takes_lowest [OF net_inv_start_node first_allocation(1)] by auto

text \<open>
  An allocation reports that no address is left, touching neither memory nor database,
  exactly when each of the 254 offsets from 2 to 255 belongs to an interface in use.  The last
  of them is the broadcast address of the network.
\<close>

theorem allocation_exhausted:
  assumes inv: "net_inv s"
  shows "AllocateInterface E s = (Err (Errorf ''no available ip addresses in network 192.168.100.0/24''), s) \<longleftrightarrow>
    (\<forall>i. 2 \<le> i \<longrightarrow> i \<le> 255 \<longrightarrow> (\<exists>a x. live_ifaces s a = Some x \<and> iface_at (nNet s) i x))"
proof -
  have base: "net_base (nNet s)" using inv by (simp add: net_inv_def)
  have net: "ipnet_string (npNetworkCIDR (nNet s)) = ''192.168.100.0/24''"
    using base by (simp add: net_base_def ipnet_string_default)
  have "findAvailableOffset (nNet s) = -1 \<longleftrightarrow> (\<forall>k. 2 \<le> k \<longrightarrow> k < 256 \<longrightarrow> npAllocatedIPs (nNet s) ! nat k \<noteq> [])"
    by (rule no_offset_iff [OF base])
  then have full: "findAvailableOffset (nNet s) = -1 \<longleftrightarrow>
      (\<forall>i. 2 \<le> i \<longrightarrow> i \<le> 255 \<longrightarrow> (\<exists>a x. live_ifaces s a = Some x \<and> iface_at (nNet s) i x))"
    using live_at_slot [OF inv] by (auto split: if_splits)
  have "AllocateInterface E s = (Err (Errorf ''no available ip addresses in network 192.168.100.0/24''), s) \<longleftrightarrow>
      findAvailableOffset (nNet s) = -1"
  proof
    assume r: "AllocateInterface E s = (Err (Errorf ''no available ip addresses in network 192.168.100.0/24''), s)"
    show "findAvailableOffset (nNet s) = -1"
    proof (rule ccontr)
      assume "findAvailableOffset (nNet s) \<noteq> -1"
      then show False using AllocateInterface_trace [of s E] r by simp
    qed
  qed (simp add: AllocateInterface_def Let_def net)
  with full show ?thesis by simp
qed

theorem allocation_exhausted_witness:
  "AllocateInterface quiet_env start_node \<noteq> (Err (Errorf ''no available ip addresses in network 192.168.100.0/24''), start_node) \<and>
   (\<exists>i. 2 \<le> i \<and> i \<le> 255 \<and> (\<nexists>a x. live_ifaces start_node a = Some x \<and> iface_at (nNet start_node) i x))"
  using allocation_exhausted [OF net_inv_start_node, of quiet_env] first_allocation(1) by auto

text \<open>
  The link of an interface in use, read back by its MAC address, has the IP address the
  interface was given.
\<close>

theorem GetInterface_of_live:
  assumes inv: "net_inv s" and a: "live_ifaces s a = Some x"
    and link: "env_err E (nTrace s) (Net (LinkByName (niName x))) = None" "ne_link_hwaddr E (nTrace s) = niMacAddress x"
  shows "fst (GetInterface E (niName x) s) = Ok (niName x, niIPAddress x, niMacAddress x)"
proof -
  obtain i where i: "2 \<le> i" "i < 256" "iface_at (nNet s) i x" using live_offset [OF inv a] .
  have "length (npAllocatedIPs (nNet s)) = 256" using inv by (simp add: net_inv_def net_base_def)
  then have "calculateIndexFromHwAddr (nNet s) (niMacAddress x) = i"
    using i calculateIndexFromHwAddr_tap [of i "nNet s"] by (simp add: iface_at_def)
  then show ?thesis
    using i link by (simp add: GetInterface_def call_val_cases calculateIPFromOffset_def iface_at_def)
qed

theorem GetInterface_of_live_witness:
  "\<exists>x. live_ifaces (snd (AllocateInterface quiet_env start_node)) 0 = Some x \<and>
     fst (GetInterface (quiet_env\<lparr>ne_link_hwaddr := \<lambda>_. niMacAddress x\<rparr>) (niName x)
       (snd (AllocateInterface quiet_env start_node))) = Ok (niName x, niIPAddress x, niMacAddress x)"
proof -
  let ?s = "snd (AllocateInterface quiet_env start_node)"
  have inv: "net_inv ?s" using AllocateInterface_inv [OF net_inv_start_node first_allocation(1)] .
  obtain x where x: "live_ifaces ?s 0 = Some x" using first_allocation(2) by blast
  have "env_err (quiet_env\<lparr>ne_link_hwaddr := \<lambda>_. niMacAddress x\<rparr>) (nTrace ?s) (Net (LinkByName (niName x))) = None"
    "ne_link_hwaddr (quiet_env\<lparr>ne_link_hwaddr := \<lambda>_. niMacAddress x\<rparr>) (nTrace ?s) = niMacAddress x"
    by (simp_all add: quiet_env_def)
  from GetInterface_of_live [OF inv x this] x show ?thesis by blast
qed

definition appended :: "string \<Rightarrow> string \<Rightarrow> node_call list \<Rightarrow> string list list" where
  "appended tbl ch t = concat (map (\<lambda>c. case c of
      RunCmd prog args \<Rightarrow> if prog = ''iptables'' \<and> take 4 args = [''-t'', tbl, ''-A'', ch] then [drop 4 args] else []
    | _ \<Rightarrow> []) t)"

lemma upsert_absent:
  assumes "\<And>t args. env_err E t (RunCmd ''iptables'' args) = None \<longleftrightarrow> args ! 2 = ''-A''"
  shows "upsertIptablesRule E tbl ch r s = (Ok (), s\<lparr>nTrace := nTrace s @
    [RunCmd ''iptables'' ([''-t'', tbl, ''-C'', ch] @ r), RunCmd ''iptables'' ([''-t'', tbl, ''-A'', ch] @ r)]\<rparr>)"
proof -
  obtain e where "env_err E (nTrace s) (RunCmd ''iptables'' ([''-t'', tbl, ''-C'', ch] @ r)) = Some e"
    using assms [of "nTrace s" "[''-t'', tbl, ''-C'', ch] @ r"] by auto
  moreover have "env_err E t (RunCmd ''iptables'' ([''-t'', tbl, ''-A'', ch] @ r)) = None" for t
    using assms by simp
  ultimately show ?thesis by (simp add: upsertIptablesRule_def runCmd_def call_cases)
qed

text \<open>
  The rules that are to keep machines off the local networks never take effect for traffic
  that leaves through the external interface: when none of the rules is present yet, the rule
  that accepts all traffic from the bridge is appended before the rules that drop it, so a
  packet that matches both is accepted (iptables takes the first match; \<open>matches\<close> stands for
  its matching of one rule).
\<close>

theorem drop_rules_shadowed:
  assumes absent: "\<And>t args. env_err E t (RunCmd ''iptables'' args) = None \<longleftrightarrow> args ! 2 = ''-A''"
    and run: "applyBridgeFirewallRules E ext_if s = (Ok (), s')" and empty: "nTrace s = []"
    and narrower: "\<And>n. matches (drop_local_rule (nNet s) ext_if n) \<Longrightarrow> matches (accept_out_rule (nNet s) ext_if)"
  shows "find matches (appended ''filter'' ''FORWARD'' (nTrace s')) \<noteq> Some (drop_local_rule (nNet s) ext_if n)"
proof -
  have "appended ''filter'' ''FORWARD'' (nTrace s') = [accept_out_rule (nNet s) ext_if, accept_in_rule (nNet s) ext_if,
      drop_local_rule (nNet s) ext_if ''10.0.0.0/8'', drop_local_rule (nNet s) ext_if ''172.16.0.0/12'',
      drop_local_rule (nNet s) ext_if ''192.168.0.0/16'']"
    using run by (simp add: applyBridgeFirewallRules_def upsert_absent [OF absent] LocalNetworks_def appended_def empty
        split: if_splits) auto
  moreover have "accept_out_rule p x \<noteq> drop_local_rule p x m" "accept_in_rule p x \<noteq> drop_local_rule p x m" for p x m
    by (simp_all add: accept_out_rule_def accept_in_rule_def drop_local_rule_def)
  ultimately show ?thesis using narrower by (auto split: if_splits)
qed

theorem drop_rules_shadowed_witness:
  "\<exists>s'. applyBridgeFirewallRules (quiet_env\<lparr>env_err := \<lambda>_ c. case c of RunCmd prog args \<Rightarrow>
        if args ! 2 = ''-A'' then None else Some (External ''no such rule'') | _ \<Rightarrow> None\<rparr>) ''eth0'' start_node = (Ok (), s') \<and>
     find (\<lambda>r. take 4 r = [''-i'', ''br0'', ''-o'', ''eth0'']) (appended ''filter'' ''FORWARD'' (nTrace s')) \<noteq>
       Some (drop_local_rule start_provider ''eth0'' ''10.0.0.0/8'')"
proof -
  let ?E = "quiet_env\<lparr>env_err := \<lambda>_ c. case c of RunCmd prog args \<Rightarrow>
        if args ! 2 = ''-A'' then None else Some (External ''no such rule'') | _ \<Rightarrow> None\<rparr>"
  have a: "env_err ?E t (RunCmd ''iptables'' args) = None \<longleftrightarrow> args ! 2 = ''-A''" for t args by simp
  have n: "nNet start_node = start_provider" "nTrace start_node = []" by (simp_all add: start_node_def empty_node_def)
  have r: "applyBridgeFirewallRules ?E ''eth0'' start_node = (Ok (), snd (applyBridgeFirewallRules ?E ''eth0'' start_node))"
    by (simp add: applyBridgeFirewallRules_def upsert_absent [OF a] LocalNetworks_def)
  have m: "take 4 (accept_out_rule start_provider ''eth0'') = [''-i'', ''br0'', ''-o'', ''eth0'']"
    by (simp add: accept_out_rule_def start_provider_def base_provider_def)
  show ?thesis
    using drop_rules_shadowed [OF a r n(2), of "\<lambda>r. take 4 r = [''-i'', ''br0'', ''-o'', ''eth0'']" "''10.0.0.0/8''"] r n m
    by (intro exI [of _ "snd (applyBridgeFirewallRules ?E ''eth0'' start_node)"]) simp
qed

end
