(* ===== verification/VolumeProvider.thy ===== *)
theory VolumeProvider
  imports Interfaces
begin

text \<open>
  \<^verbatim>\<open>nodeagent/internal/volumeprovider\<close>: logical volumes.  A volume object is allocated (its path
  written, \<^verbatim>\<open>lvcreate\<close> run, the row saved) and released (\<^verbatim>\<open>lvremove\<close> run, the row saved).  A volume
  with a source becomes a snapshot of it and needs the source's path.
\<close>

definition Volume_runCmd :: "'e node_env_scheme \<Rightarrow> string \<Rightarrow> string list \<Rightarrow> 'm node_scheme \<Rightarrow>
    unit res \<times> 'm node_scheme" where
  "Volume_runCmd E name args s = call E (RunCmd name args) s"

definition put_volume :: "nat \<Rightarrow> volume \<Rightarrow> 'm node_scheme \<Rightarrow> 'm node_scheme" where
  "put_volume a v s = s\<lparr>nVolumes := (nVolumes s)(a \<mapsto> v)\<rparr>"

definition volume_path :: "string \<Rightarrow> volume \<Rightarrow> string" where
  "volume_path vg v = ''/dev/'' @ vg @ ''/'' @ voID v"

definition size_arg :: "volume \<Rightarrow> string" where
  "size_arg v = dec (unat (voSize v)) @ ''M''"

definition snapshot_args :: "volume \<Rightarrow> string \<Rightarrow> string list" where
  "snapshot_args v source = [''-y'', ''--size'', size_arg v, ''--snapshot'', ''--name'', voID v, source]"

definition thin_args :: "string \<Rightarrow> volume \<Rightarrow> string list" where
  "thin_args vg v = [''-y'', ''--virtualsize'', size_arg v, ''--thin'', ''--name'', voID v, vg @ ''/thinpool'']"

text \<open>The arguments of \<^verbatim>\<open>lvcreate\<close>, or the error for a source without a path.\<close>

definition lvcreate_args :: "string \<Rightarrow> volume \<Rightarrow> 'm node_scheme \<Rightarrow> string list res \<times> 'm node_scheme" where
  "lvcreate_args vg v s =
    (if voSource v \<noteq> None then
       tryE id (deref (nVolumes s) (voSource v) s) (\<lambda>src s.
         case voPath src of
           None \<Rightarrow> (Err (Errorf (''cannot allocate a volume from source '' @ voID src @
             '' with path a null path (source volume is probably not allocated)'')), s)
         | Some p \<Rightarrow> (Ok (snapshot_args v p), s))
     else (Ok (thin_args vg v), s))"

definition Volume_Allocate :: "string \<Rightarrow> 'e node_env_scheme \<Rightarrow> nat option \<Rightarrow> 'm node_scheme \<Rightarrow>
    unit res \<times> 'm node_scheme" where
  "Volume_Allocate vg E ptr s = tryE id (deref (nVolumes s) ptr s) (\<lambda>v s.
     if voAllocatedAt v \<noteq> None then (Err ErrVolumeAlreadyAllocated, s)
     else let v = v\<lparr>voPath := Some (volume_path vg v)\<rparr>; s = put_volume (the ptr) v s in
       tryE id (lvcreate_args vg v s) (\<lambda>args s.
       tryE (Wrap ''failed to create logical volume'') (Volume_runCmd E ''lvcreate'' args s) (\<lambda>_ s.
       let v = v\<lparr>voAllocatedAt := Some (now E s)\<rparr>; s = put_volume (the ptr) v s in
       tryE (Wrap ''failed to persist volume changes'')
         (call E (Db (DbSaveVolume [''Path'', ''AllocatedAt''] v)) s) (\<lambda>_ s. (Ok (), s)))))"

definition Volume_Release :: "string \<Rightarrow> 'e node_env_scheme \<Rightarrow> nat option \<Rightarrow> 'm node_scheme \<Rightarrow>
    unit res \<times> 'm node_scheme" where
  "Volume_Release vg E ptr s = tryE id (deref (nVolumes s) ptr s) (\<lambda>v s.
     if voReleasedAt v \<noteq> None then (Ok (), s)
     else
       tryE id
         (catchE (Volume_runCmd E ''lvremove'' [''-y'', vg @ ''/'' @ voID v] s)
            (\<lambda>_ s. (Ok (), s))
            (\<lambda>e s. if \<not> contains (to_lower (error_string e)) ''failed to find logical volume'' then (Err e, s)
               else (Ok (), s)))
         (\<lambda>_ s. let v = v\<lparr>voReleasedAt := Some (now E s)\<rparr>; s = put_volume (the ptr) v s in
            tryE (Wrap ''failed to persist volume changes'')
              (call E (Db (DbSaveVolume [''ReleasedAt''] v)) s) (\<lambda>_ s. (Ok (), s))))"

section \<open>The contract of \<^verbatim>\<open>types.VolumeProvider\<close>\<close>

lemma nVolumes_put [simp]: "nVolumes (put_volume a v s) = (nVolumes s)(a \<mapsto> v)"
  by (simp add: put_volume_def)

lemma Volume_Allocate_frame:
  "Volume_Allocate vg E (Some a) s = (r, s') \<Longrightarrow> b \<noteq> a \<Longrightarrow> nVolumes s' b = nVolumes s b"
  by (auto simp: Volume_Allocate_def lvcreate_args_def Volume_runCmd_def Let_def
      split: flow_asm if_splits option.splits)

lemma Volume_Allocate_Ok:
  "Volume_Allocate vg E (Some a) s = (Ok (), s') \<Longrightarrow>
    \<exists>v x. nVolumes s a = Some v \<and> voAllocatedAt v = None \<and>
      nVolumes s' = (nVolumes s)(a \<mapsto> v\<lparr>voPath := Some (volume_path vg v), voAllocatedAt := Some x\<rparr>)"
  by (auto simp: Volume_Allocate_def lvcreate_args_def Volume_runCmd_def Let_def
      split: flow_asm if_splits option.splits)

lemma Volume_Release_cases:
  assumes "Volume_Release vg E (Some a) s = (r, s')"
  shows "nVolumes s' = nVolumes s \<and> (r = Ok () \<longrightarrow> (\<exists>v. nVolumes s a = Some v \<and> voReleasedAt v \<noteq> None)) \<or>
    (\<exists>v x. nVolumes s a = Some v \<and> voReleasedAt v = None \<and>
      nVolumes s' = (nVolumes s)(a \<mapsto> v\<lparr>voReleasedAt := Some x\<rparr>))"
  using assms
  by (auto simp: Volume_Release_def Volume_runCmd_def Let_def split: flow_asm if_splits)

interpretation vol: volume_provider "Volume_Allocate vg E" "Volume_Release vg E" nVolumes for vg E
proof (unfold_locales, goal_cases)
  case (1 a s s')
  from Volume_Allocate_Ok [OF this] show ?case by force
next
  case (2 s a v)
  then show ?case by (simp add: Volume_Allocate_def deref_Some)
next
  case (3 a s r s' b)
  then show ?case by (rule Volume_Allocate_frame)
next
  case (4 a s s')
  from Volume_Release_cases [OF this] show ?case by force
next
  case (5 s a v)
  then show ?case by (simp add: Volume_Release_def deref_Some)
next
  case (6 a s r s' b)
  from Volume_Release_cases [OF this(1)] this(2) show ?case by force
next
  case (7 a s r s' b v)
  from Volume_Release_cases [OF this(1)] this(2,3) show ?case by force
qed

section \<open>Properties\<close>

text \<open>The volume a call creates, and how many successful creations of a volume a trace holds.\<close>

definition created_name :: "node_call \<Rightarrow> string option" where
  "created_name c = (case c of RunCmd prog args \<Rightarrow> if prog = ''lvcreate'' then Some (args ! 5) else None | _ \<Rightarrow> None)"

definition creations :: "'e node_env_scheme \<Rightarrow> string \<Rightarrow> node_call list \<Rightarrow> nat" where
  "creations E nm t = count_ok E (\<lambda>c. created_name c = Some nm) [] t"

lemma creations_append [simp]:
  "creations E nm (t @ cs) = creations E nm t + count_ok E (\<lambda>c. created_name c = Some nm) t cs"
  by (simp add: creations_def)

inductive vol_ops :: "string \<Rightarrow> 'e node_env_scheme \<Rightarrow> 'm node_scheme \<Rightarrow> 'm node_scheme \<Rightarrow> bool" for vg E s where
  vol_start: "vol_ops vg E s s"
| vol_allocate: "vol_ops vg E s s' \<Longrightarrow> Volume_Allocate vg E (Some a) s' = (r, s'') \<Longrightarrow> vol_ops vg E s s''"
| vol_release: "vol_ops vg E s s' \<Longrightarrow> Volume_Release vg E (Some a) s' = (r, s'') \<Longrightarrow> vol_ops vg E s s''"

definition vol_ids :: "'m node_scheme \<Rightarrow> bool" where
  "vol_ids s \<longleftrightarrow> (\<forall>a b v w. nVolumes s a = Some v \<longrightarrow> nVolumes s b = Some w \<longrightarrow> voID v = voID w \<longrightarrow> a = b)"

definition vol_counted :: "'e node_env_scheme \<Rightarrow> 'm node_scheme \<Rightarrow> bool" where
  "vol_counted E s \<longleftrightarrow> (\<forall>a v. nVolumes s a = Some v \<longrightarrow>
     creations E (voID v) (nTrace s) \<le> (if voAllocatedAt v = None then 0 else 1))"

lemma lvcreate_args_Ok:
  "lvcreate_args vg v s = (Ok args, s') \<Longrightarrow> s' = s \<and> args ! 5 = voID v"
  by (auto simp: lvcreate_args_def snapshot_args_def thin_args_def split: flow_asm if_splits option.splits)

lemma lvcreate_args_state: "lvcreate_args vg v s = (r, s') \<Longrightarrow> s' = s"
  by (auto simp: lvcreate_args_def split: flow_asm if_splits option.splits)

lemma Volume_Allocate_outcomes:
  assumes "Volume_Allocate vg E (Some a) s = (r, s')"
  obtains (unchanged) "nVolumes s' = nVolumes s" "nTrace s' = nTrace s"
  | (failed) v where "nVolumes s a = Some v" "nVolumes s' = (nVolumes s)(a \<mapsto> v\<lparr>voPath := Some (volume_path vg v)\<rparr>)"
      "\<And>nm. creations E nm (nTrace s') = creations E nm (nTrace s)"
  | (created) v x where "nVolumes s a = Some v" "voAllocatedAt v = None"
      "nVolumes s' = (nVolumes s)(a \<mapsto> v\<lparr>voPath := Some (volume_path vg v), voAllocatedAt := Some x\<rparr>)"
      "\<And>nm. creations E nm (nTrace s') = creations E nm (nTrace s) + (if nm = voID v then 1 else 0)"
proof (cases "nVolumes s a")
  case None
  with assms have "s' = s" by (auto simp: Volume_Allocate_def split: flow_asm)
  with unchanged show thesis by simp
next
  case (Some v)
  let ?v = "v\<lparr>voPath := Some (volume_path vg v)\<rparr>"
  let ?s = "put_volume a ?v s"
  obtain q s1 where l: "lvcreate_args vg ?v ?s = (q, s1)" by fastforce
  have s1: "s1 = ?s" by (rule lvcreate_args_state [OF l])
  have tr: "nTrace ?s = nTrace s" by (simp add: put_volume_def)
  show thesis
  proof (cases "voAllocatedAt v = None")
    case False
    with assms Some have "s' = s" by (auto simp: Volume_Allocate_def deref_Some)
    with unchanged show thesis by simp
  next
    case True
    have r: "tryE id (q, s1) (\<lambda>args s.
       tryE (Wrap ''failed to create logical volume'') (Volume_runCmd E ''lvcreate'' args s) (\<lambda>_ s.
       let v = ?v\<lparr>voAllocatedAt := Some (now E s)\<rparr>; s = put_volume a v s in
       tryE (Wrap ''failed to persist volume changes'')
         (call E (Db (DbSaveVolume [''Path'', ''AllocatedAt''] v)) s) (\<lambda>_ s. (Ok (), s)))) = (r, s')"
      using assms l True by (simp add: Volume_Allocate_def deref_Some [of "nVolumes s" a v, OF Some] Let_def)
    show thesis
    proof (cases q)
      case (Ok args)
      note a5 = lvcreate_args_Ok [OF l [unfolded Ok], THEN conjunct2]
      show thesis
      proof (cases "env_err E (nTrace s) (RunCmd ''lvcreate'' args)")
        case None
        then show thesis
          using r Ok s1 tr a5 Some True
          by (intro created [of v "now E (?s\<lparr>nTrace := nTrace s @ [RunCmd ''lvcreate'' args]\<rparr>)"])
             (auto simp: Volume_runCmd_def call_cases Let_def created_name_def put_volume_def split: option.splits)
      next
        case (Some e)
        then show thesis
          using r Ok s1 tr \<open>nVolumes s a = Some v\<close>
          by (intro failed [of v]) (auto simp: Volume_runCmd_def call_cases)
      qed
    next
      case (Err e)
      then show thesis using r s1 tr Some by (intro failed [of v]) auto
    next
      case (Panic m)
      then show thesis using r s1 tr Some by (intro failed [of v]) auto
    qed
  qed
qed

lemma Volume_Release_creations:
  "Volume_Release vg E (Some a) s = (r, s') \<Longrightarrow> creations E nm (nTrace s') = creations E nm (nTrace s)"
  by (auto simp: Volume_Release_def Volume_runCmd_def Let_def created_name_def put_volume_def split: flow_asm if_splits)

lemma vol_ids_upd:
  assumes "vol_ids s" "nVolumes s a = Some v" "nVolumes s' = (nVolumes s)(a \<mapsto> v')" "voID v' = voID v"
  shows "vol_ids s'"
  using assms unfolding vol_ids_def by (metis fun_upd_apply option.inject)

lemma vol_ops_inv:
  "vol_ops vg E s s' \<Longrightarrow> vol_ids s \<Longrightarrow> vol_counted E s \<Longrightarrow> vol_ids s' \<and> vol_counted E s'"
proof (induction rule: vol_ops.induct)
  case vol_start
  then show ?case by simp
next
  case (vol_allocate s' a r s'')
  then have ids: "vol_ids s'" and cnt: "vol_counted E s'" by blast+
  from vol_allocate.hyps(2) show ?case
  proof (cases rule: Volume_Allocate_outcomes)
    case unchanged
    with ids cnt show ?thesis by (simp add: vol_ids_def vol_counted_def)
  next
    case (failed v)
    have "vol_ids s''" using vol_ids_upd [OF ids failed(1,2)] by simp
    moreover have "vol_counted E s''" using cnt failed by (auto simp: vol_counted_def)
    ultimately show ?thesis ..
  next
    case (created v x)
    have "vol_ids s''" using vol_ids_upd [OF ids created(1,3)] by simp
    moreover have "voID w \<noteq> voID v" if "nVolumes s' b = Some w" "b \<noteq> a" for b w
      using ids created(1) that by (auto simp: vol_ids_def)
    then have "vol_counted E s''" using cnt created by (fastforce simp: vol_counted_def)
    ultimately show ?thesis ..
  qed
next
  case (vol_release s' a r s'')
  then have ids: "vol_ids s'" and cnt: "vol_counted E s'" by blast+
  note c = Volume_Release_creations [OF vol_release.hyps(2)]
  from Volume_Release_cases [OF vol_release.hyps(2)] show ?case
  proof
    assume "nVolumes s'' = nVolumes s' \<and> (r = Ok () \<longrightarrow> (\<exists>v. nVolumes s' a = Some v \<and> voReleasedAt v \<noteq> None))"
    with ids cnt c show ?thesis by (simp add: vol_ids_def vol_counted_def)
  next
    assume "\<exists>v x. nVolumes s' a = Some v \<and> voReleasedAt v = None \<and>
      nVolumes s'' = (nVolumes s')(a \<mapsto> v\<lparr>voReleasedAt := Some x\<rparr>)"
    then obtain v x where v: "nVolumes s' a = Some v" "nVolumes s'' = (nVolumes s')(a \<mapsto> v\<lparr>voReleasedAt := Some x\<rparr>)"
      by blast
    have "vol_ids s''" using vol_ids_upd [OF ids v] by simp
    moreover have "vol_counted E s''" using cnt v c by (auto simp: vol_counted_def)
    ultimately show ?thesis ..
  qed
qed

definition sample_volume :: volume where
  "sample_volume = \<lparr>voID = ''v1'', voSize = 512, voPath = Some ''/dev/vg/v1'', voSourceID = None, voSource = None,
     voAllocatedAt = None, voReleasedAt = None\<rparr>"

text \<open>
  C26: a logical volume is created at most once.  Whatever allocations and releases run, and
  wherever a command or the database fails, the successful \<^verbatim>\<open>lvcreate\<close> commands for a volume
  number at most one, and none as long as the volume does not count as allocated.
\<close>

theorem lvcreate_at_most_once:
  assumes "vol_ops vg E s s'" and "nTrace s = []" and "vol_ids s" and "nVolumes s' a = Some v"
  shows "creations E (voID v) (nTrace s') \<le> 1 \<and>
    (voAllocatedAt v = None \<longrightarrow> creations E (voID v) (nTrace s') = 0)"
proof -
  have "vol_counted E s" using assms(2) by (simp add: vol_counted_def creations_def)
  with vol_ops_inv [OF assms(1,3)] assms(4) show ?thesis by (fastforce simp: vol_counted_def split: if_splits)
qed

theorem lvcreate_at_most_once_witness:
  "\<exists>s'. vol_ops ''vg'' quiet_env (bare_node\<lparr>nVolumes := [0 \<mapsto> sample_volume]\<rparr>) s' \<and> nVolumes s' 0 \<noteq> None \<and>
     creations quiet_env ''v1'' (nTrace s') = 1"
proof -
  let ?s = "bare_node\<lparr>nVolumes := [0 \<mapsto> sample_volume]\<rparr>"
  obtain r s1 where 1: "Volume_Allocate ''vg'' quiet_env (Some 0) ?s = (r, s1)" by fastforce
  have o: "vol_ops ''vg'' quiet_env ?s s1" using vol_allocate [OF vol_start 1] .
  have v: "\<exists>v. nVolumes s1 0 = Some v \<and> voID v = ''v1''" and c: "1 \<le> creations quiet_env ''v1'' (nTrace s1)"
    using 1 by (auto simp: Volume_Allocate_def lvcreate_args_def Volume_runCmd_def call_cases quiet_env_def deref_def Let_def
        sample_volume_def put_volume_def creations_def bare_node_def created_name_def thin_args_def)
  then obtain v where "nVolumes s1 0 = Some v" "voID v = ''v1''" by blast
  moreover have "nTrace ?s = []" "vol_ids ?s" by (simp_all add: bare_node_def vol_ids_def)
  ultimately show ?thesis using lvcreate_at_most_once [OF o] c o by fastforce
qed

text \<open>
  A volume with a source becomes a snapshot of the source's device; while the source has no
  path, the allocation fails before any command runs.
\<close>

theorem snapshot_of_source:
  assumes v: "nVolumes s a = Some v" "voAllocatedAt v = None" and b: "voSource v = Some b" "b \<noteq> a" "nVolumes s b = Some src"
  shows "(\<forall>p s'. voPath src = Some p \<longrightarrow> Volume_Allocate vg E (Some a) s = (Ok (), s') \<longrightarrow>
      (\<exists>w. nTrace s' = nTrace s @ [RunCmd ''lvcreate'' (snapshot_args v p), Db (DbSaveVolume [''Path'', ''AllocatedAt''] w)] \<and>
         nVolumes s' a = Some w \<and> voPath w = Some (volume_path vg v))) \<and>
    (voPath src = None \<longrightarrow> (\<exists>m s'. Volume_Allocate vg E (Some a) s = (Err (Errorf m), s') \<and> nTrace s' = nTrace s))"
  using assms
  by (auto simp: Volume_Allocate_def deref_Some lvcreate_args_def Let_def Volume_runCmd_def put_volume_def
      snapshot_args_def size_arg_def volume_path_def split: flow_asm)

theorem snapshot_of_source_witness:
  "\<exists>m s'. Volume_Allocate ''vg'' quiet_env (Some 1) (bare_node\<lparr>nVolumes := [0 \<mapsto> sample_volume\<lparr>voPath := None\<rparr>,
     1 \<mapsto> sample_volume\<lparr>voID := ''v2'', voSource := Some 0\<rparr>]\<rparr>) = (Err (Errorf m), s') \<and> nTrace s' = []"
  using snapshot_of_source [of "bare_node\<lparr>nVolumes := [0 \<mapsto> sample_volume\<lparr>voPath := None\<rparr>,
     1 \<mapsto> sample_volume\<lparr>voID := ''v2'', voSource := Some 0\<rparr>]\<rparr>" 1 "sample_volume\<lparr>voID := ''v2'', voSource := Some 0\<rparr>" 0
     "sample_volume\<lparr>voPath := None\<rparr>" "''vg''" quiet_env]
  by (simp add: sample_volume_def bare_node_def)

end
