(* ===== verification/ImageProvider.thy ===== *)
theory ImageProvider
  imports VolumeProvider
begin

text \<open>
  \<^verbatim>\<open>nodeagent/internal/imageprovider\<close>: what an image is (\<^verbatim>\<open>FetchDetails\<close>) and how its files get onto
  the image's volume (\<^verbatim>\<open>Pull\<close>).  The registry library is outside the repository: its answers come
  from the environment.  The layers of an image are downloaded by up to four goroutines at a
  time; the model downloads them one after the other, and all of them whatever fails, as the
  pool does.
\<close>

definition wrap_v :: "string \<Rightarrow> gerror \<Rightarrow> gerror" where
  "wrap_v m e = Errorf (m @ '': '' @ error_string e)"

definition Image_runCmd :: "'e node_env_scheme \<Rightarrow> string \<Rightarrow> string list \<Rightarrow> 'm node_scheme \<Rightarrow>
    unit res \<times> 'm node_scheme" where
  "Image_runCmd E name args s = call E (RunCmd name args) s"

section \<open>\<^verbatim>\<open>fetch_details.go\<close>\<close>

text \<open>The loop over \<^verbatim>\<open>NAME=VALUE\<close> strings.\<close>

definition env_entry :: "string \<Rightarrow> string \<times> string" where
  "env_entry env = (case split_n2 (CHR ''='') env of
      [k] \<Rightarrow> (k, [])
    | k # v # _ \<Rightarrow> (k, v)
    | [] \<Rightarrow> ([], []))"

fun parse_env :: "string list \<Rightarrow> (string \<rightharpoonup> string) \<Rightarrow> (string \<rightharpoonup> string)" where
  "parse_env [] m = m"
| "parse_env (env # envs) m = parse_env envs (m(fst (env_entry env) \<mapsto> snd (env_entry env)))"

text \<open>Division of a signed integer, towards zero.\<close>

definition go_div :: "int \<Rightarrow> int \<Rightarrow> int" where
  "go_div a b = (if 0 \<le> a then a div b else - ((- a) div b))"

definition image_volume_size :: "int \<Rightarrow> 64 word" where
  "image_volume_size sz = of_int (go_div (go_div sz 1024) 1024 + 1024)"

definition put_image :: "nat \<Rightarrow> image \<Rightarrow> 'm node_scheme \<Rightarrow> 'm node_scheme" where
  "put_image a i s = s\<lparr>nImages := (nImages s)(a \<mapsto> i)\<rparr>"

text \<open>A new image object with its volume object; the result is the image's address.\<close>

definition new_image :: "image \<Rightarrow> volume \<Rightarrow> 'm node_scheme \<Rightarrow> nat res \<times> 'm node_scheme" where
  "new_image i v s = (let a = nNext s in
    (Ok (Suc a), put_image (Suc a) (i\<lparr>imVolume := Some a\<rparr>) (put_volume a v (s\<lparr>nNext := Suc (Suc a)\<rparr>))))"

definition image_of_config :: "string \<Rightarrow> string \<Rightarrow> string \<Rightarrow> remote_config \<Rightarrow> image" where
  "image_of_config newid digest ref c = \<lparr>imID = newid, imDigest = digest, imName = ref,
     imSpec = Some \<lparr>imsUser = rmUser c, imsWorkingDir = rmWorkingDir c, imsEnv = parse_env (rmEnv c) Map.empty,
       imsCommand = rmEntrypoint c @ rmCmd c\<rparr>,
     imVolumeID = [], imVolume = None, imPulledAt = None\<rparr>"

definition new_image_volume :: "string \<Rightarrow> int \<Rightarrow> volume" where
  "new_image_volume newid sz = \<lparr>voID = newid, voSize = image_volume_size sz, voPath = None,
     voSourceID = None, voSource = None, voAllocatedAt = None, voReleasedAt = None\<rparr>"

definition FetchDetails :: "'e node_env_scheme \<Rightarrow> string \<Rightarrow> 'm node_scheme \<Rightarrow> nat res \<times> 'm node_scheme" where
  "FetchDetails E image_name s =
    tryE (Wrap ''failed to parse image reference'') (call E (Registry (ParseReference image_name)) s) (\<lambda>_ s.
    tryE (Wrap ''failed to fetch remote image'') (call E (Registry (RemoteImage image_name)) s) (\<lambda>_ s.
    tryE (Wrap ''failed to get image digest'') (call_val E (Registry (RemoteDigest image_name)) (ne_digest E) s) (\<lambda>digest s.
    catchE (call_val E (Db (DbFirstImage digest)) (ne_image E) s)
      (\<lambda>row s. new_image (fst row) (snd row) s)
      (\<lambda>e s. if \<not> errors_is e ErrRecordNotFound then (Err (Wrap ''failed to find image in db'' e), s) else
        tryE (Wrap ''failed to fetch image config file'')
          (call_val E (Registry (RemoteConfigFile image_name)) (ne_config_file E) s) (\<lambda>config s.
        tryE (Wrap ''failed to get image size'')
          (call_val E (Registry (RemoteSize image_name)) (ne_size E) s) (\<lambda>sz s.
        let (i, s) = gen_id E s; (v, s) = gen_id E s in
        new_image (image_of_config i digest (ne_ref_string E image_name) config) (new_image_volume v sz) s))))))"

section \<open>\<^verbatim>\<open>pull.go\<close>\<close>

definition layer_path :: "string \<Rightarrow> nat \<Rightarrow> string" where
  "layer_path layersDir i = path_join [layersDir, ''layer_'' @ dec i @ ''.tar'']"

text \<open>The body of a download goroutine.\<close>

definition download_layer :: "'e node_env_scheme \<Rightarrow> string \<Rightarrow> nat \<Rightarrow> 'm node_scheme \<Rightarrow> unit res \<times> 'm node_scheme" where
  "download_layer E layersDir i s =
    tryE (wrap_v (''failed to get layer '' @ dec i)) (call E (Registry (LayerCompressed i)) s) (\<lambda>_ s.
    tryE (wrap_v (''failed to create layer file '' @ dec i)) (call E (Os (CreateFile (layer_path layersDir i))) s) (\<lambda>_ s.
    tryE (wrap_v (''failed to write layer '' @ dec i)) (call E (Os (CopyLayer i (layer_path layersDir i))) s) (\<lambda>_ s.
    (Ok (), s))))"

text \<open>\<^verbatim>\<open>wg.Go\<close> for every layer and \<^verbatim>\<open>wg.Wait\<close>: the errors of all of them.\<close>

fun download_all :: "'e node_env_scheme \<Rightarrow> string \<Rightarrow> nat list \<Rightarrow> gerror list \<Rightarrow> 'm node_scheme \<Rightarrow>
    unit res \<times> 'm node_scheme" where
  "download_all E layersDir [] errs s = (if errs = [] then Ok () else Err (Joined errs), s)"
| "download_all E layersDir (i # is) errs s =
    catchE (download_layer E layersDir i s)
      (\<lambda>_ s. download_all E layersDir is errs s)
      (\<lambda>e s. download_all E layersDir is (errs @ [e]) s)"

fun extract_layers :: "'e node_env_scheme \<Rightarrow> string \<Rightarrow> string \<Rightarrow> nat list \<Rightarrow> 'm node_scheme \<Rightarrow> unit res \<times> 'm node_scheme" where
  "extract_layers E layersDir outputDir [] s = (Ok (), s)"
| "extract_layers E layersDir outputDir (i # is) s =
    tryE (wrap_v (''failed to extract layer '' @ dec i))
      (call E (RunCmd ''tar'' [''-xf'', layer_path layersDir i, ''-C'', outputDir]) s)
      (\<lambda>_ s. extract_layers E layersDir outputDir is s)"

definition extractImage :: "'e node_env_scheme \<Rightarrow> string \<Rightarrow> string \<Rightarrow> string \<Rightarrow> 'm node_scheme \<Rightarrow> unit res \<times> 'm node_scheme" where
  "extractImage E image_name tmpDir outputDir s =
    tryE (wrap_v ''failed to get layers'') (call_val E (Registry (RemoteLayers image_name)) (ne_layers E) s) (\<lambda>n s.
    let layersDir = path_join [tmpDir, ''layers''] in
    tryE (wrap_v ''failed to create temp directory'') (call E (Os (Mkdir layersDir 420)) s) (\<lambda>_ s.
    tryE (wrap_v ''failed to download image layers'') (download_all E layersDir [0..<n] [] s) (\<lambda>_ s.
    extract_layers E layersDir outputDir [0..<n] s)))"

text \<open>The path of the image's volume, read again at each use: \<^verbatim>\<open>*image.Volume.Path\<close>.\<close>

definition image_volume_path :: "image \<Rightarrow> 'm node_scheme \<Rightarrow> string res \<times> 'm node_scheme" where
  "image_volume_path i s = tryE id (deref (nVolumes s) (imVolume i) s) (\<lambda>v s.
     case voPath v of None \<Rightarrow> (Panic ''nil pointer dereference'', s) | Some p \<Rightarrow> (Ok p, s))"

text \<open>\<^verbatim>\<open>Pull\<close> after the temporary directory exists; the deferred \<^verbatim>\<open>os.RemoveAll\<close> is added below.\<close>

definition pull_in_tmp :: "string \<Rightarrow> 'e node_env_scheme \<Rightarrow> nat \<Rightarrow> image \<Rightarrow> string \<Rightarrow> 'm node_scheme \<Rightarrow> unit res \<times> 'm node_scheme" where
  "pull_in_tmp vg E a img tmpDir s =
    tryE (Wrap ''failed to parse image reference'') (call E (Registry (ParseReference (imName img))) s) (\<lambda>_ s.
    tryE (Wrap ''failed to fetch remote image'') (call E (Registry (RemoteImage (imName img))) s) (\<lambda>_ s.
    tryE id
      (catchE (Volume_Allocate vg E (imVolume img) s)
        (\<lambda>_ s. (Ok (), s))
        (\<lambda>e s. if \<not> errors_is e ErrVolumeAlreadyAllocated
           then (Err (wrap_v (''failed to allocate volume '' @ imVolumeID img) e), s) else (Ok (), s))) (\<lambda>_ s.
    let outputDir = path_join [tmpDir, ''output''] in
    tryE (wrap_v ''failed to create temp directory'') (call E (Os (Mkdir outputDir 420)) s) (\<lambda>_ s.
    tryE id (image_volume_path img s) (\<lambda>path s.
    tryE (Wrap ''failed to create volume fs'') (Image_runCmd E ''mkfs.ext4'' [path] s) (\<lambda>_ s.
    tryE id (image_volume_path img s) (\<lambda>path s.
    tryE (Wrap ''failed to mount volume'') (call E (Os (Mount path outputDir ''ext4'')) s) (\<lambda>_ s.
    tryE (Wrap ''failed to extract image'') (extractImage E (imName img) tmpDir outputDir s) (\<lambda>_ s.
    tryE (Wrap ''failed to unmount volume'') (call E (Os (Unmount outputDir)) s) (\<lambda>_ s.
    let img = img\<lparr>imPulledAt := Some (now E s)\<rparr>; s = put_image a img s in
    tryE (Wrap ''failed to persist image changes'') (call E (Db (DbSaveImage [''PulledAt''] img)) s) (\<lambda>_ s.
    (Ok (), s))))))))))))"

definition Pull :: "string \<Rightarrow> 'e node_env_scheme \<Rightarrow> nat option \<Rightarrow> 'm node_scheme \<Rightarrow> unit res \<times> 'm node_scheme" where
  "Pull vg E ptr s = tryE id (deref (nImages s) ptr s) (\<lambda>img s.
    if imPulledAt img \<noteq> None then (Ok (), s) else
    tryE (Wrap ''failed to create tmp dir'') (call_val E (Os (MkdirTemp ''image-*'')) (ne_tmpdir E) s) (\<lambda>tmpDir s.
    deferE (pull_in_tmp vg E (the ptr) img tmpDir s) (\<lambda>_ s. snd (call E (Os (RemoveAll tmpDir)) s))))"

section \<open>Lemmas\<close>

text \<open>The last entry of a name wins.\<close>

lemma parse_env_map_of: "parse_env envs m = m ++ map_of (rev (map env_entry envs))"
  by (induction envs arbitrary: m) auto

lemma env_entry_pair: "CHR ''='' \<notin> set k \<Longrightarrow> env_entry (k @ CHR ''='' # v) = (k, v)"
proof -
  assume k: "CHR ''='' \<notin> set k"
  then have "takeWhile (\<lambda>x. x \<noteq> CHR ''='') (k @ CHR ''='' # v) = k"
    "dropWhile (\<lambda>x. x \<noteq> CHR ''='') (k @ CHR ''='' # v) = CHR ''='' # v"
    by (auto simp: takeWhile_append dropWhile_append)
  then show ?thesis by (simp add: env_entry_def split_n2_def)
qed

lemma env_entry_name: "CHR ''='' \<notin> set k \<Longrightarrow> env_entry k = (k, [])"
proof -
  assume k: "CHR ''='' \<notin> set k"
  then have w: "takeWhile (\<lambda>x. x \<noteq> CHR ''='') k = k" "dropWhile (\<lambda>x. x \<noteq> CHR ''='') k = []"
    by (auto simp: takeWhile_eq_all_conv dropWhile_eq_Nil_conv)
  show ?thesis unfolding env_entry_def split_n2_def Let_def w by simp
qed

text \<open>How often a directory is mounted after a trace.\<close>

definition mounts :: "'e node_env_scheme \<Rightarrow> string \<Rightarrow> node_call list \<Rightarrow> int" where
  "mounts E dir t = int (count_ok E (\<lambda>c. \<exists>d fs. c = Os (Mount d dir fs)) [] t) -
     int (count_ok E (\<lambda>c. c = Os (Unmount dir)) [] t)"

lemma mounts_append:
  "mounts E dir (t @ cs) = mounts E dir t + int (count_ok E (\<lambda>c. \<exists>d fs. c = Os (Mount d dir fs)) t cs) -
     int (count_ok E (\<lambda>c. c = Os (Unmount dir)) t cs)"
  by (simp add: mounts_def)

lemma mounts_other:
  "(\<And>d fs. c \<noteq> Os (Mount d dir fs)) \<Longrightarrow> c \<noteq> Os (Unmount dir) \<Longrightarrow> mounts E dir (t @ [c]) = mounts E dir t"
  by (simp add: mounts_append)

text \<open>An operation that neither mounts nor unmounts and keeps the images.\<close>

definition unmounting :: "'e node_env_scheme \<Rightarrow> 'm node_scheme \<Rightarrow> 'm node_scheme \<Rightarrow> bool" where
  "unmounting E s0 s \<longleftrightarrow> (\<forall>dir. mounts E dir (nTrace s) = mounts E dir (nTrace s0)) \<and> nImages s = nImages s0"

lemma unmounting_refl [simp]: "unmounting E s s"
  by (simp add: unmounting_def)

lemma unmounting_trans: "unmounting E s0 s1 \<Longrightarrow> unmounting E s1 s2 \<Longrightarrow> unmounting E s0 s2"
  by (simp add: unmounting_def)

lemma unmounting_call:
  "unmounting E s0 s \<Longrightarrow> (\<And>d dir fs. c \<noteq> Os (Mount d dir fs)) \<Longrightarrow> (\<And>dir. c \<noteq> Os (Unmount dir)) \<Longrightarrow>
    unmounting E s0 (s\<lparr>nTrace := nTrace s @ [c]\<rparr>)"
  by (simp add: unmounting_def mounts_other)

lemma unmounting_volume [simp]: "unmounting E s0 (put_volume a v s) = unmounting E s0 s"
  by (simp add: unmounting_def put_volume_def)

lemma download_layer_keeps [keeps_intros]:
  "unmounting E s0 s \<Longrightarrow> keeps (unmounting E s0) (download_layer E d i s)"
  by (auto simp: download_layer_def intro!: keeps_intros unmounting_call)

lemma download_all_keeps [keeps_intros]:
  "unmounting E s0 s \<Longrightarrow> keeps (unmounting E s0) (download_all E d is errs s)"
  by (induction "is" arbitrary: errs s) (auto intro!: keeps_intros)

lemma extract_layers_keeps [keeps_intros]:
  "unmounting E s0 s \<Longrightarrow> keeps (unmounting E s0) (extract_layers E d out is s)"
  by (induction "is" arbitrary: s) (auto intro!: keeps_intros unmounting_call)

lemma extractImage_keeps [keeps_intros]:
  "unmounting E s0 s \<Longrightarrow> keeps (unmounting E s0) (extractImage E n tmp out s)"
  by (auto simp: extractImage_def Let_def intro!: keeps_intros unmounting_call)

lemma lvcreate_args_keeps [keeps_intros]: "P s \<Longrightarrow> keeps P (lvcreate_args vg v s)"
  using lvcreate_args_state [of vg v s] by (cases "lvcreate_args vg v s") auto

lemma Volume_Allocate_keeps [keeps_intros]:
  "unmounting E s0 s \<Longrightarrow> keeps (unmounting E s0) (Volume_Allocate vg E p s)"
  by (auto simp: Volume_Allocate_def Volume_runCmd_def Let_def intro!: keeps_intros unmounting_call)

lemma image_volume_path_keeps [keeps_intros]: "P s \<Longrightarrow> keeps P (image_volume_path i s)"
  by (auto simp: image_volume_path_def intro!: keeps_intros split: option.splits)

lemma image_volume_path_state: "image_volume_path i s = (r, s') \<Longrightarrow> s' = s"
  by (auto simp: image_volume_path_def split: flow_asm option.splits)

lemma image_volume_path_no_Err [simp]: "image_volume_path i s \<noteq> (Err e, s')"
  by (auto simp: image_volume_path_def split: flow_asm option.splits)

lemmas unmounting_allocate = keepsD [OF Volume_Allocate_keeps [OF unmounting_refl]]
lemmas unmounting_extract = keepsD [OF extractImage_keeps [OF unmounting_refl]]

lemma pull_in_tmp_result:
  assumes "pull_in_tmp vg E a img tmp s = (r, s')"
  shows "r = Ok () \<Longrightarrow> \<exists>x. nImages s' = (nImages s)(a \<mapsto> img\<lparr>imPulledAt := Some x\<rparr>) \<and>
      mounts E (path_join [tmp, ''output'']) (nTrace s') = mounts E (path_join [tmp, ''output'']) (nTrace s)"
    and "r = Err (Wrap ''failed to extract image'' e) \<Longrightarrow> nImages s' = nImages s \<and>
      mounts E (path_join [tmp, ''output'']) (nTrace s') = mounts E (path_join [tmp, ''output'']) (nTrace s) + 1"
  using assms
  by (auto simp: pull_in_tmp_def Let_def Image_runCmd_def wrap_v_def put_image_def mounts_append unmounting_def
      split: flow_asm if_splits dest!: image_volume_path_state unmounting_allocate unmounting_extract)

lemma Pull_marks_pulled:
  assumes i: "nImages s p = Some i" and np: "imPulledAt i = None" and r: "Pull vg E (Some p) s = (Ok (), s')"
  shows "\<exists>x. nImages s' = (nImages s)(p \<mapsto> i\<lparr>imPulledAt := Some x\<rparr>)"
proof -
  let ?tmp = "ne_tmpdir E (nTrace s)" and ?s = "s\<lparr>nTrace := nTrace s @ [Os (MkdirTemp ''image-*'')]\<rparr>"
  obtain s2 where q: "pull_in_tmp vg E p i ?tmp ?s = (Ok (), s2)" "nImages s' = nImages s2"
    using i np r by (cases "pull_in_tmp vg E p i ?tmp ?s") (auto simp: Pull_def deref_Some call_def split: flow_asm)
  from pull_in_tmp_result(1) [OF q(1)] q(2) show ?thesis by auto
qed

section \<open>Properties\<close>

text \<open>
  Pulling an image either marks it as pulled with its volume unmounted again, or, when the
  extraction of the layers fails, ends with the volume still mounted below the temporary
  directory, which the deferred \<^verbatim>\<open>os.RemoveAll\<close> then deletes recursively.
\<close>

theorem Pull_and_mounts:
  assumes i: "nImages s p = Some i" and np: "imPulledAt i = None" and r: "Pull vg E (Some p) s = (r, s')"
    and tmp: "tmp = ne_tmpdir E (nTrace s)"
  shows "(r = Ok () \<longrightarrow> (\<exists>x. nImages s' = (nImages s)(p \<mapsto> i\<lparr>imPulledAt := Some x\<rparr>)) \<and>
      mounts E (path_join [tmp, ''output'']) (nTrace s') = mounts E (path_join [tmp, ''output'']) (nTrace s)) \<and>
    (\<forall>e. r = Err (Wrap ''failed to extract image'' e) \<longrightarrow> nImages s' = nImages s \<and>
      (\<exists>t. nTrace s' = t @ [Os (RemoveAll tmp)] \<and>
        mounts E (path_join [tmp, ''output'']) t = mounts E (path_join [tmp, ''output'']) (nTrace s) + 1))"
proof -
  let ?c = "Os (MkdirTemp ''image-*'')" and ?out = "path_join [tmp, ''output'']"
  let ?s = "s\<lparr>nTrace := nTrace s @ [?c]\<rparr>"
  have m: "mounts E ?out (nTrace ?s) = mounts E ?out (nTrace s)" by (simp add: mounts_append)
  have eq: "Pull vg E (Some p) s = tryE (Wrap ''failed to create tmp dir'') (call_val E ?c (ne_tmpdir E) s) (\<lambda>tmpDir s.
      deferE (pull_in_tmp vg E p i tmpDir s) (\<lambda>_ s. snd (call E (Os (RemoveAll tmpDir)) s)))"
    using i np by (simp add: Pull_def deref_Some)
  show ?thesis
  proof (cases "env_err E (nTrace s) ?c")
    case (Some e)
    with r show ?thesis by (auto simp: eq call_val_cases)
  next
    case None
    obtain q s1 where q: "pull_in_tmp vg E p i tmp ?s = (q, s1)" by fastforce
    have rs: "r = q" "s' = s1\<lparr>nTrace := nTrace s1 @ [Os (RemoveAll tmp)]\<rparr>"
      using r None q tmp by (auto simp: eq call_val_cases call_cases split: option.splits)
    note res = pull_in_tmp_result [OF q]
    show ?thesis
      using res(1) res(2) m unfolding rs by (auto simp: mounts_append)
  qed
qed

text \<open>A pull whose only failure is the extraction of a layer.\<close>

definition sample_image :: image where
  "sample_image = \<lparr>imID = ''i'', imDigest = ''d'', imName = ''n'', imSpec = None, imVolumeID = ''v1'',
     imVolume = Some 0, imPulledAt = None\<rparr>"

definition sample_images :: node where
  "sample_images = bare_node\<lparr>nVolumes := [0 \<mapsto> sample_volume], nImages := [1 \<mapsto> sample_image], nNext := 2\<rparr>"

definition no_tar_env :: node_env where
  "no_tar_env = quiet_env\<lparr>env_err := \<lambda>_ c. case c of RunCmd prog _ \<Rightarrow>
     if prog = ''tar'' then Some (External ''tar'') else None | _ \<Rightarrow> None, ne_layers := \<lambda>_. 1\<rparr>"

lemma Pull_no_tar:
  "fst (Pull ''vg'' no_tar_env (Some 1) sample_images) =
    Err (Wrap ''failed to extract image'' (wrap_v ''failed to extract layer 0'' (External ''tar'')))"
  by (simp add: Pull_def pull_in_tmp_def sample_images_def sample_image_def sample_volume_def bare_node_def
      no_tar_env_def quiet_env_def call_cases call_val_cases Volume_Allocate_def deref_def Volume_runCmd_def
      lvcreate_args_def Let_def put_volume_def image_volume_path_def Image_runCmd_def extractImage_def download_layer_def
      dec.simps digit_def)

theorem Pull_and_mounts_witness:
  "\<exists>t. nTrace (snd (Pull ''vg'' no_tar_env (Some 1) sample_images)) = t @ [Os (RemoveAll ''/tmp/x'')] \<and>
     mounts no_tar_env (path_join [''/tmp/x'', ''output'']) t = 1"
proof -
  have i: "nImages sample_images 1 = Some sample_image" "imPulledAt sample_image = None"
    "''/tmp/x'' = ne_tmpdir no_tar_env (nTrace sample_images)" "nTrace sample_images = []"
    by (simp_all add: sample_images_def sample_image_def no_tar_env_def quiet_env_def bare_node_def)
  obtain r s' where r: "Pull ''vg'' no_tar_env (Some 1) sample_images = (r, s')" by fastforce
  have m: "mounts no_tar_env d [] = 0" for d by (simp add: mounts_def)
  show ?thesis
    using Pull_and_mounts [OF i(1,2) r i(3)] Pull_no_tar r i(4) m by auto
qed

text \<open>
  The details of an image that the database does not know come from its configuration: the
  command is the entrypoint followed by the arguments, a variable has the value of its last
  \<^verbatim>\<open>NAME=VALUE\<close> entry (an empty one if the entry has no \<^verbatim>\<open>=\<close>), the volume is new, has no path yet and
  a size of the image in MiB plus 1024.  Nothing is written to the database.
\<close>

theorem FetchDetails_unknown_image:
  assumes r: "FetchDetails E name s = (Ok a, s')"
    and db: "\<And>t. env_err E t (Db (DbFirstImage (ne_digest E (nTrace s @ [Registry (ParseReference name), Registry (RemoteImage name)])))) =
      Some ErrRecordNotFound"
  shows "\<exists>i v b t1 t2. nImages s' a = Some i \<and> imVolume i = Some b \<and> nVolumes s' b = Some v \<and>
    map_option imsCommand (imSpec i) = Some (rmEntrypoint (ne_config_file E t1) @ rmCmd (ne_config_file E t1)) \<and>
    map_option imsEnv (imSpec i) = Some (map_of (rev (map env_entry (rmEnv (ne_config_file E t1))))) \<and>
    voPath v = None \<and> voSize v = of_int (go_div (go_div (ne_size E t2) 1024) 1024 + 1024) \<and>
    (\<forall>d. Db d \<in> set (nTrace s') \<longrightarrow> Db d \<in> set (nTrace s) \<or> (\<exists>x. d = DbFirstImage x))"
proof -
  let ?t = "nTrace s @ [Registry (ParseReference name), Registry (RemoteImage name)]"
  let ?d = "ne_digest E ?t"
  let ?t1 = "?t @ [Registry (RemoteDigest name), Db (DbFirstImage ?d)]"
  let ?t2 = "?t1 @ [Registry (RemoteConfigFile name)]"
  let ?t3 = "?t2 @ [Registry (RemoteSize name)]"
  let ?i = "(image_of_config (env_id E ?t3) ?d (ne_ref_string E name) (ne_config_file E ?t1))\<lparr>imVolume := Some (nNext s)\<rparr>"
  let ?v = "new_image_volume (env_id E (?t3 @ [GenID])) (ne_size E ?t2)"
  have "a = Suc (nNext s) \<and> nTrace s' = ?t3 @ [GenID, GenID] \<and> nImages s' = (nImages s)(a \<mapsto> ?i) \<and>
      nVolumes s' = (nVolumes s)(nNext s \<mapsto> ?v)"
    using r by (auto simp: FetchDetails_def db new_image_def gen_id_def put_image_def put_volume_def Let_def
        split: flow_asm if_splits)
  then show ?thesis
    by (intro exI [of _ ?i] exI [of _ ?v] exI [of _ "nNext s"] exI [of _ ?t1] exI [of _ ?t2])
       (auto simp: image_of_config_def new_image_volume_def image_volume_size_def parse_env_map_of)
qed

theorem FetchDetails_unknown_image_witness:
  "\<exists>a s' i t1. FetchDetails (quiet_env\<lparr>env_err := \<lambda>_ c. if c = Db (DbFirstImage ''d'') then Some ErrRecordNotFound else None\<rparr>)
     ''nginx'' bare_node = (Ok a, s') \<and> nImages s' a = Some i \<and> map_option imsCommand (imSpec i) = Some []"
proof -
  let ?E = "quiet_env\<lparr>env_err := \<lambda>_ c. if c = Db (DbFirstImage ''d'') then Some ErrRecordNotFound else None\<rparr>"
  obtain a s' where r: "FetchDetails ?E ''nginx'' bare_node = (Ok a, s')"
    by (simp add: FetchDetails_def call_cases call_val_cases quiet_env_def new_image_def gen_id_def Let_def)
  have "env_err ?E t (Db (DbFirstImage (ne_digest ?E u))) = Some ErrRecordNotFound" for t u by (simp add: quiet_env_def)
  from FetchDetails_unknown_image [OF r this] obtain i t1 where "nImages s' a = Some i"
    "map_option imsCommand (imSpec i) = Some (rmEntrypoint (ne_config_file ?E t1) @ rmCmd (ne_config_file ?E t1))"
    by blast
  with r show ?thesis by (auto simp: quiet_env_def)
qed

end
