(* ===== verification/RuntimeService.thy ===== *)
theory RuntimeService
  imports NodeTypes
begin

text \<open>
  \<^verbatim>\<open>nodeagent/internal/runtimeservice\<close>: the configuration file of a machine's runtime process,
  the start of the process and its termination.  The configuration completes each container's
  specification from the image: missing environment variables, working directory, user and
  command.  The specification's \<^verbatim>\<open>Env\<close> map is shared with the container object, so completing it
  changes the object.
\<close>

definition GetMachineDirectory :: "config \<Rightarrow> string \<Rightarrow> string" where
  "GetMachineDirectory cfg machineID = path_join [cfStorageDirectory cfg, ''runtimes'', machineID]"

definition getRuntimeConfigPath :: "config \<Rightarrow> string \<Rightarrow> string" where
  "getRuntimeConfigPath cfg machineID = path_join [GetMachineDirectory cfg machineID, ''runtimeconfig.json'']"

section \<open>The configuration file\<close>

text \<open>The loop over the image's variables: a variable the map does not have is added.\<close>

definition merge_env :: "(string \<rightharpoonup> string) \<Rightarrow> (string \<rightharpoonup> string) \<Rightarrow> (string \<rightharpoonup> string)" where
  "merge_env own from_image = (\<lambda>key. case own key of Some v \<Rightarrow> Some v | None \<Rightarrow> from_image key)"

text \<open>A nil or empty string is replaced by the image's, and that by a constant if it is empty.\<close>

definition default_string :: "string option \<Rightarrow> string \<Rightarrow> string \<Rightarrow> string option" where
  "default_string own from_image last_resort =
    (if own = None \<or> own = Some [] then Some (if from_image = [] then last_resort else from_image) else own)"

definition complete_spec :: "container_spec \<Rightarrow> image_spec \<Rightarrow> container_spec" where
  "complete_spec spec i = spec\<lparr>
     csEnv := Some (merge_env (Deref Map.empty (csEnv spec)) (imsEnv i)),
     csWorkingDir := default_string (csWorkingDir spec) (imsWorkingDir i) ''/'',
     csUser := default_string (csUser spec) (imsUser i) ''root'',
     csCommand := (if csCommand spec = None then Some (imsCommand i) else csCommand spec)\<rparr>"

fun container_volumes :: "machine_volume list \<Rightarrow> (string \<rightharpoonup> machine_volume) \<Rightarrow> (string \<rightharpoonup> machine_volume)" where
  "container_volumes [] m = m"
| "container_volumes (v # vs) m = container_volumes vs (m(mvContainerID v \<mapsto> v))"

text \<open>A pointer inside a record, followed or nil.\<close>

definition ptr :: "'a option \<Rightarrow> 's \<Rightarrow> 'a res \<times> 's" where
  "ptr p s = (case p of None \<Rightarrow> Panic ''nil pointer dereference'' | Some x \<Rightarrow> Ok x, s)"

definition share_env :: "nat \<Rightarrow> container \<Rightarrow> container_spec \<Rightarrow> image_spec \<Rightarrow> 'm node_scheme \<Rightarrow> 'm node_scheme" where
  "share_env a c spec i s = (case csEnv spec of
      None \<Rightarrow> s
    | Some env \<Rightarrow> s\<lparr>nContainers := (nContainers s)(a \<mapsto> c\<lparr>ctSpec := Some (spec\<lparr>csEnv := Some (merge_env env (imsEnv i))\<rparr>)\<rparr>)\<rparr>)"

fun container_configs :: "(string \<rightharpoonup> machine_volume) \<Rightarrow> nat list \<Rightarrow> 'm node_scheme \<Rightarrow>
    runtime_container_config list res \<times> 'm node_scheme" where
  "container_configs vols [] s = (Ok [], s)"
| "container_configs vols (a # as) s =
    tryE id (deref (nContainers s) (Some a) s) (\<lambda>c s.
    case vols (ctID c) of
      None \<Rightarrow> (Err (Errorf ''failed to find machine volume''), s)
    | Some mv \<Rightarrow>
        tryE id (deref (nImages s) (mvImage mv) s) (\<lambda>img s.
        tryE id (ptr (ctSpec c) s) (\<lambda>spec s.
        tryE id (ptr (imSpec img) s) (\<lambda>i s.
        let s = share_env a c spec i s in
        tryE id (deref (nVolumes s) (mvVolume mv) s) (\<lambda>v s.
        tryE id (ptr (voPath v) s) (\<lambda>path s.
        tryE id (container_configs vols as s) (\<lambda>rest s.
        (Ok (\<lparr>rcContainerID = ctID c, rcSpec = complete_spec spec i, rcVolumePath = path\<rparr> # rest), s))))))))"

definition network_config :: "network_interface \<Rightarrow> string \<Rightarrow> runtime_network_config" where
  "network_config ni hostname = \<lparr>rnInterfaceName = niName ni, rnIPAddress = niIPAddress ni,
     rnMacAddress = join '':'' (map hex2 (niMacAddress ni)), rnGatewayAddress = niGatewayAddress ni,
     rnNetworkCIDR = niNetworkCIDR ni, rnHostname = hostname\<rparr>"

definition createRuntimeConfigFile :: "config \<Rightarrow> 'e node_env_scheme \<Rightarrow> machine \<Rightarrow> 'm node_scheme \<Rightarrow> unit res \<times> 'm node_scheme" where
  "createRuntimeConfigFile cfg E m s =
    (let runtimeDir = GetMachineDirectory cfg (mID m) in
     ignoreE (call E (Os (MkdirAll runtimeDir 420)) s) (\<lambda>s.
     tryE id (ptr (mSpec m) s) (\<lambda>spec s.
     tryE id (deref (nIfaces s) (mNetworkInterface m) s) (\<lambda>ni s.
     tryE id (container_configs (container_volumes (mVolumes m) Map.empty) (mContainers m) s) (\<lambda>containers s.
     let initConfig = \<lparr>rtWorkingDir = runtimeDir, rtMachineID = mID m, rtCpus = msCpus spec, rtMemoryMB = msMemoryMB spec,
           rtNetwork = network_config ni (mID m), rtContainers = containers\<rparr>;
         configPath = getRuntimeConfigPath cfg (mID m) in
     tryE id (call E (Os (CreateFile configPath)) s) (\<lambda>_ s.
     tryE id (call E (Os (EncodeRuntimeConfig configPath initConfig)) s) (\<lambda>_ s. (Ok (), s))))))))"

section \<open>Start and termination\<close>

definition Runtime_Start :: "config \<Rightarrow> 'e node_env_scheme \<Rightarrow> machine \<Rightarrow> 'm node_scheme \<Rightarrow> unit res \<times> 'm node_scheme" where
  "Runtime_Start cfg E m s =
    tryE (Wrap ''failed to create runtime config file'') (createRuntimeConfigFile cfg E m s) (\<lambda>_ s.
    tryE (Wrap ''failed to create stdout pipe'') (call E (Rt CmdStdoutPipe) s) (\<lambda>_ s.
    tryE (Wrap ''failed to create stderr pipe'') (call E (Rt CmdStderrPipe) s) (\<lambda>_ s.
    tryE (Wrap ''failed to start runtime'')
      (call E (Rt (CmdStart (cfRuntimeBinary cfg) [getRuntimeConfigPath cfg (mID m)])) s) (\<lambda>_ s. (Ok (), s)))))"

text \<open>
  \<open>ne_exited\<close> says whether the process ends within the 30 seconds after the signal.  The
  process is then waited for; otherwise it is killed, whether that works or not.
\<close>

definition Terminate :: "'e node_env_scheme \<Rightarrow> string \<Rightarrow> 'm node_scheme \<Rightarrow> unit res \<times> 'm node_scheme" where
  "Terminate E machineID s =
    tryE (Wrap ''failed to get state'') (call_val E (Rt (RuntimeGetState machineID)) (ne_pid E) s) (\<lambda>pid s.
    tryE (Wrap (''failed to find process '' @ dec_int pid)) (call E (Rt (FindProcess pid)) s) (\<lambda>_ s.
    ignoreE (call E (Rt (SignalTerm pid)) s) (\<lambda>s.
    if ne_exited E (nTrace s) then (Ok (), s)
    else ignoreE (call E (Rt (ProcessKill pid)) s) (\<lambda>s. (Ok (), s)))))"

section \<open>Lemmas\<close>

lemma ptr_Ok [simp]: "(ptr p s = (Ok x, s')) = (p = Some x \<and> s' = s)"
  by (auto simp: ptr_def split: option.splits)

lemma ptr_Err [simp]: "ptr p s \<noteq> (Err e, s')"
  by (auto simp: ptr_def split: option.splits)

lemma keeps_ptr [keeps_intros]: "P s \<Longrightarrow> keeps P (ptr p s)"
  by (simp add: keeps_def ptr_def)

text \<open>
  What a container's entry is made of, as the pointers stand in a state.
\<close>

definition config_of :: "(string \<rightharpoonup> machine_volume) \<Rightarrow> 'm node_scheme \<Rightarrow> nat \<Rightarrow> runtime_container_config \<Rightarrow> bool" where
  "config_of vols s a rc \<longleftrightarrow> (\<exists>c mv ia img i spec va v path.
     nContainers s a = Some c \<and> vols (ctID c) = Some mv \<and> mvImage mv = Some ia \<and> nImages s ia = Some img \<and>
     imSpec img = Some i \<and> ctSpec c = Some spec \<and> mvVolume mv = Some va \<and> nVolumes s va = Some v \<and> voPath v = Some path \<and>
     rc = \<lparr>rcContainerID = ctID c, rcSpec = complete_spec spec i, rcVolumePath = path\<rparr>)"

lemma share_env_simps [simp]:
  "nImages (share_env a c spec i s) = nImages s" "nVolumes (share_env a c spec i s) = nVolumes s"
  "nTrace (share_env a c spec i s) = nTrace s" "nIfaces (share_env a c spec i s) = nIfaces s"
  "b \<noteq> a \<Longrightarrow> nContainers (share_env a c spec i s) b = nContainers s b"
  by (auto simp: share_env_def split: option.splits)

lemma config_of_share_env:
  "b \<noteq> a \<Longrightarrow> config_of vols (share_env a c spec i s) b rc = config_of vols s b rc"
  by (simp add: config_of_def)

lemma container_configs_Ok:
  assumes "container_configs vols as s = (Ok cs, s')" and "distinct as"
  shows "list_all2 (config_of vols s) as cs \<and> nTrace s' = nTrace s \<and> nImages s' = nImages s \<and> nVolumes s' = nVolumes s"
  using assms
proof (induction as arbitrary: s cs)
  case Nil
  then show ?case by simp
next
  case (Cons a as)
  then obtain c mv ia img i spec va v path rest where
    c: "nContainers s a = Some c" "vols (ctID c) = Some mv" "mvImage mv = Some ia" "nImages s ia = Some img"
      "imSpec img = Some i" "ctSpec c = Some spec" "mvVolume mv = Some va" "nVolumes s va = Some v" "voPath v = Some path"
    and rest: "container_configs vols as (share_env a c spec i s) = (Ok rest, s')"
    and cs: "cs = \<lparr>rcContainerID = ctID c, rcSpec = complete_spec spec i, rcVolumePath = path\<rparr> # rest"
    by (auto simp: Let_def split: flow_asm option.splits)
  have ih: "list_all2 (config_of vols (share_env a c spec i s)) as rest" "nTrace s' = nTrace s" "nImages s' = nImages s"
    "nVolumes s' = nVolumes s"
    using Cons.IH [OF rest] Cons.prems(2) by simp_all
  have "list_all2 (config_of vols s) as rest"
    using ih(1)
  proof (rule list.rel_mono_strong)
    fix b rc assume "b \<in> set as" "config_of vols (share_env a c spec i s) b rc"
    moreover from this Cons.prems(2) have "b \<noteq> a" by auto
    ultimately show "config_of vols s b rc" by (simp add: config_of_share_env)
  qed
  moreover have "config_of vols s a (hd cs)" using c by (auto simp: config_of_def cs)
  ultimately show ?case using ih by (simp add: cs)
qed

lemma container_configs_IDs:
  "container_configs vols as s = (Ok cs, s') \<Longrightarrow> length cs = length as"
  by (induction as arbitrary: s cs) (auto simp: Let_def split: flow_asm option.splits)

lemma merge_env_add: "merge_env own from_image = from_image ++ own"
  by (auto simp: merge_env_def map_add_def)

lemma complete_spec_facts:
  "csEnv (complete_spec spec i) = Some (imsEnv i ++ (case csEnv spec of None \<Rightarrow> Map.empty | Some e \<Rightarrow> e))"
  "csWorkingDir (complete_spec spec i) \<notin> {None, Some []}"
  "csUser (complete_spec spec i) \<notin> {None, Some []}"
  "csCommand (complete_spec spec i) = Some (case csCommand spec of Some cmd \<Rightarrow> cmd | None \<Rightarrow> imsCommand i)"
  by (simp_all add: complete_spec_def merge_env_add Deref_def default_string_def split: option.split)

text \<open>
  What the contract of a container's entry is: the container's own variables take precedence over
  the image's and no variable of either is lost, the working directory and the user are not empty,
  the command is the container's if it has one and else the image's, and the path is that of the
  volume assigned to the container.
\<close>

definition completed :: "(string \<rightharpoonup> machine_volume) \<Rightarrow> 'm node_scheme \<Rightarrow> nat \<Rightarrow> runtime_container_config \<Rightarrow> bool" where
  "completed vols s a rc \<longleftrightarrow> (\<exists>c spec img i mv v.
     nContainers s a = Some c \<and> ctSpec c = Some spec \<and> img \<in> ran (nImages s) \<and> imSpec img = Some i \<and>
     vols (ctID c) = Some mv \<and> Option.bind (mvVolume mv) (nVolumes s) = Some v \<and>
     rcContainerID rc = ctID c \<and> voPath v = Some (rcVolumePath rc) \<and>
     csEnv (rcSpec rc) = Some (imsEnv i ++ (case csEnv spec of None \<Rightarrow> Map.empty | Some e \<Rightarrow> e)) \<and>
     csWorkingDir (rcSpec rc) \<notin> {None, Some []} \<and> csUser (rcSpec rc) \<notin> {None, Some []} \<and>
     csCommand (rcSpec rc) = Some (case csCommand spec of Some cmd \<Rightarrow> cmd | None \<Rightarrow> imsCommand i))"

lemma config_of_complete:
  assumes "config_of vols s a rc"
  shows "completed vols s a rc"
proof -
  from assms obtain c mv ia img i spec va v path where
    *: "nContainers s a = Some c" "vols (ctID c) = Some mv" "mvImage mv = Some ia" "nImages s ia = Some img"
     "imSpec img = Some i" "ctSpec c = Some spec" "mvVolume mv = Some va" "nVolumes s va = Some v" "voPath v = Some path"
     "rc = \<lparr>rcContainerID = ctID c, rcSpec = complete_spec spec i, rcVolumePath = path\<rparr>"
    unfolding config_of_def by blast
  show ?thesis unfolding completed_def
    by (intro exI [of _ c] exI [of _ spec] exI [of _ img] exI [of _ i] exI [of _ mv] exI [of _ v])
       (use * complete_spec_facts [of spec i] ranI [of "nImages s" ia img] in simp)
qed

section \<open>Properties\<close>

definition sample_machine :: machine where
  "sample_machine = \<lparr>mID = ''m1'', mState = MachineStatePending, mDesiredState = MachineDesiredStateRunning,
     mSpec = Some \<lparr>msName = None, msCpus = 2, msMemoryMB = 512, msTimeout = None\<rparr>, mNetworkInterfaceID = Some ''n1'',
     mVolumes = [\<lparr>mvID = ''mv1'', mvPosition = 0, mvMachineID = ''m1'', mvContainerID = ''c1'', mvImageID = Some ''i1'',
       mvImage = Some 2, mvVolumeID = ''v1'', mvVolume = Some 1\<rparr>],
     mContainers = [3], mNetworkInterface = Some 0, mTerminatedAt = None\<rparr>"

definition sample_node :: node where
  "sample_node = bare_node\<lparr>
     nIfaces := [0 \<mapsto> \<lparr>niID = ''n1'', niName = ''tap2'', niIPAddress = [192, 168, 100, 2],
       niMacAddress = [82, 84, 0, 0, 0, 2], niGatewayAddress = [192, 168, 100, 1],
       niNetworkCIDR = \<lparr>netIP = [192, 168, 100, 0], netMask = [255, 255, 255, 0]\<rparr>, niAllocatedAt = Some 0, niReleasedAt = None\<rparr>],
     nVolumes := [1 \<mapsto> \<lparr>voID = ''v1'', voSize = 512, voPath = Some ''/dev/vg/v1'', voSourceID = None, voSource = None,
       voAllocatedAt = Some 0, voReleasedAt = None\<rparr>],
     nImages := [2 \<mapsto> \<lparr>imID = ''i1'', imDigest = ''d'', imName = ''nginx'',
       imSpec = Some \<lparr>imsUser = [], imsWorkingDir = [], imsEnv = [''PATH'' \<mapsto> ''/bin''], imsCommand = [''nginx'']\<rparr>,
       imVolumeID = ''v0'', imVolume = None, imPulledAt = Some 0\<rparr>],
     nContainers := [3 \<mapsto> \<lparr>ctID = ''c1'', ctMachineID = ''m1'', ctSpec = Some \<lparr>csName = None, csImage = ''nginx'',
       csEnv = Some [''A'' \<mapsto> ''1''], csCommand = None, csUser = None, csHealthcheck = None, csWorkingDir = None, csRestart = None\<rparr>\<rparr>],
     nNext := 4\<rparr>"

definition sample_config :: config where
  "sample_config = \<lparr>cfDebug = False, cfClusterID = ''c'', cfBootstrapToken = ''t'', cfIPAddr = ''10.0.0.1'', cfAPIAddr = '':3443'',
     cfGatewayAddr = '':2443'', cfStorageDirectory = ''/var/lib/baepo'', cfRuntimeBinary = ''/bin/vmruntime'', cfVolumeGroup = ''vg'',
     cfControlPlaneURL = ''http://cp''\<rparr>"



text \<open>
  Once the runtime has reported its process and the process is found, termination returns no
  error: the process gets the termination signal, and a kill exactly if it does not end in time.
  Before that, a failure changes nothing and signals nothing.
\<close>

theorem Terminate_signals:
  "((env_err E (nTrace s) (Rt (RuntimeGetState mid)) = None \<and>
      env_err E (nTrace s @ [Rt (RuntimeGetState mid)]) (Rt (FindProcess (ne_pid E (nTrace s)))) = None) \<longleftrightarrow>
      fst (Terminate E mid s) = Ok ()) \<and>
    nTrace (snd (Terminate E mid s)) = nTrace s @ [Rt (RuntimeGetState mid)] @
      (if env_err E (nTrace s) (Rt (RuntimeGetState mid)) \<noteq> None then []
       else [Rt (FindProcess (ne_pid E (nTrace s)))] @
        (if fst (Terminate E mid s) \<noteq> Ok () then []
         else [Rt (SignalTerm (ne_pid E (nTrace s)))] @
           (if ne_exited E (nTrace s @ [Rt (RuntimeGetState mid), Rt (FindProcess (ne_pid E (nTrace s))), Rt (SignalTerm (ne_pid E (nTrace s)))])
            then [] else [Rt (ProcessKill (ne_pid E (nTrace s)))])))"
  by (auto simp: Terminate_def call_cases call_val_cases split: option.splits)

end
