(* ===== verification/EventBus.thy ===== *)
theory EventBus
  imports Prelude "HOL-Library.AList" "HOL-Library.Multiset"
begin

text \<open>
  \<^verbatim>\<open>core/eventbus\<close>, and the contract of the handler maps that the bus, the log service of the init
  process and the log manager of the runtime have in common.

  \<^verbatim>\<open>PublishEvent\<close> starts a goroutine that sends the event on an unbuffered channel, so the events
  waiting to be dispatched have no order: the bus holds them in a list and the dispatcher's
  choice among the waiting senders is an argument.  A Go map from identifiers to handlers is an
  association list; the order in which it is traversed is the list's.
\<close>

section \<open>Maps of handlers\<close>

locale handler_registry =
  fixes subscribe :: "string \<Rightarrow> 'h \<Rightarrow> 'r \<Rightarrow> 'r"
    and unsubscribe :: "string \<Rightarrow> 'r \<Rightarrow> 'r"
    and handler :: "'r \<Rightarrow> string \<rightharpoonup> 'h"
    and notified :: "'r \<Rightarrow> 'h list"
    and wf :: "'r \<Rightarrow> bool"
  assumes subscribe_handler: "handler (subscribe i h r) = (handler r)(i \<mapsto> h)"
    and unsubscribe_handler: "handler (unsubscribe i r) = (handler r)(i := None)"
    and subscribe_wf: "wf r \<Longrightarrow> wf (subscribe i h r)"
    and unsubscribe_wf: "wf r \<Longrightarrow> wf (unsubscribe i r)"
    and fresh_notified: "wf r \<Longrightarrow> handler r i = None \<Longrightarrow>
          mset (notified (subscribe i h r)) = add_mset h (mset (notified r))"
    and handler_eq_notified: "wf r \<Longrightarrow> wf r' \<Longrightarrow> handler r = handler r' \<Longrightarrow> mset (notified r) = mset (notified r')"
begin

lemma subscribe_unsubscribe:
  assumes "wf r" "handler r i = None"
  shows "handler (unsubscribe i (subscribe i h r)) = handler r"
    and "mset (notified (unsubscribe i (subscribe i h r))) = mset (notified r)"
proof -
  show e: "handler (unsubscribe i (subscribe i h r)) = handler r"
    using assms by (auto simp: subscribe_handler unsubscribe_handler)
  show "mset (notified (unsubscribe i (subscribe i h r))) = mset (notified r)"
    using handler_eq_notified [OF unsubscribe_wf [OF subscribe_wf [OF assms(1)]] assms(1) e] .
qed

text \<open>A handler under a fresh identifier is called, those of others are called as before.\<close>

lemma unsubscribe_other:
  assumes "wf r" "handler r i = None" "j \<noteq> i"
  shows "mset (notified (unsubscribe j (subscribe i h r))) = add_mset h (mset (notified (unsubscribe j r)))"
proof -
  have f: "handler (unsubscribe j r) i = None" using assms by (simp add: unsubscribe_handler)
  have "handler (unsubscribe j (subscribe i h r)) = handler (subscribe i h (unsubscribe j r))"
    using assms by (auto simp: subscribe_handler unsubscribe_handler)
  from handler_eq_notified [OF _ _ this] fresh_notified [OF unsubscribe_wf [OF assms(1)] f] assms(1)
  show ?thesis by (simp add: subscribe_wf unsubscribe_wf)
qed

end

text \<open>The facts about association lists that the interpretations need.\<close>

definition alist_wf :: "(string \<times> 'h) list \<Rightarrow> bool" where
  "alist_wf al \<longleftrightarrow> distinct (map fst al)"

lemma alist_update_fresh: "map_of al i = None \<Longrightarrow> AList.update i h al = al @ [(i, h)]"
  by (induction al) (auto split: if_splits)

lemma alist_mset_eq:
  assumes "alist_wf al" "alist_wf bl" "map_of al = map_of bl"
  shows "mset (map snd al) = mset (map snd bl)"
proof -
  have "set al = set bl" using assms by (metis alist_wf_def map_of_is_SomeI map_of_SomeD subset_antisym subrelI)
  moreover have "distinct al" "distinct bl" using assms by (auto simp: alist_wf_def distinct_map)
  ultimately have "mset al = mset bl" by (simp add: set_eq_iff_mset_eq_distinct)
  then show ?thesis by (metis mset_map)
qed

lemma alist_wf_simps [simp]: "alist_wf al \<Longrightarrow> alist_wf (AList.update i h al)" "alist_wf al \<Longrightarrow> alist_wf (AList.delete i al)"
  by (simp_all add: alist_wf_def distinct_update distinct_delete)

lemma map_of_delete [simp]: "map_of (AList.delete i al) = (map_of al)(i := None)"
  by (rule AList.delete_conv')

lemma map_of_update [simp]: "map_of (AList.update i h al) = (map_of al)(i \<mapsto> h)"
  by (rule update_conv')

section \<open>The bus\<close>

record ('e, 'h) bus =
  busPending :: "'e list"
  busHandlers :: "(string \<times> 'h) list"

definition NewBus :: "('e, 'h) bus" where
  "NewBus = \<lparr>busPending = [], busHandlers = []\<rparr>"

definition PublishEvent :: "'e \<Rightarrow> ('e, 'h) bus \<Rightarrow> ('e, 'h) bus" where
  "PublishEvent event b = b\<lparr>busPending := busPending b @ [event]\<rparr>"

definition SubscribeToEvents :: "string \<Rightarrow> 'h \<Rightarrow> ('e, 'h) bus \<Rightarrow> ('e, 'h) bus" where
  "SubscribeToEvents subscriptionID handler b = b\<lparr>busHandlers := AList.update subscriptionID handler (busHandlers b)\<rparr>"

definition UnsubscribeFromEvents :: "string \<Rightarrow> ('e, 'h) bus \<Rightarrow> ('e, 'h) bus" where
  "UnsubscribeFromEvents subscriptionID b = b\<lparr>busHandlers := AList.delete subscriptionID (busHandlers b)\<rparr>"

text \<open>\<^verbatim>\<open>dispatchEvent\<close>: every handler gets the event; \<open>run\<close> is what a handler does to the state.\<close>

definition dispatchEvent :: "('h \<Rightarrow> 'e \<Rightarrow> 's \<Rightarrow> 's) \<Rightarrow> ('e, 'h) bus \<Rightarrow> 'e \<Rightarrow> 's \<Rightarrow> 's" where
  "dispatchEvent run b event s = fold (\<lambda>h. run (snd h) event) (busHandlers b) s"

text \<open>One turn of the dispatcher: a waiting sender \<open>i\<close> gets its event through.\<close>

definition receive_event :: "nat \<Rightarrow> ('e, 'h) bus \<Rightarrow> ('e \<times> ('e, 'h) bus) option" where
  "receive_event i b = (if i < length (busPending b)
     then Some (busPending b ! i, b\<lparr>busPending := take i (busPending b) @ drop (Suc i) (busPending b)\<rparr>) else None)"

text \<open>
  \<^verbatim>\<open>StartDispatcher\<close> for a list of choices; the loop ends with the list (the context is done) or
  when no sender waits.
\<close>

fun StartDispatcher :: "('h \<Rightarrow> 'e \<Rightarrow> 's \<Rightarrow> 's) \<Rightarrow> nat list \<Rightarrow> ('e, 'h) bus \<Rightarrow> 's \<Rightarrow> ('e, 'h) bus \<times> 's" where
  "StartDispatcher run [] b s = (b, s)"
| "StartDispatcher run (i # is) b s = (case receive_event i b of
      None \<Rightarrow> (b, s)
    | Some (event, b') \<Rightarrow> StartDispatcher run is b' (dispatchEvent run b event s))"

interpretation bus: handler_registry SubscribeToEvents UnsubscribeFromEvents
    "\<lambda>b. map_of (busHandlers b)" "\<lambda>b. map snd (busHandlers b)" "\<lambda>b. alist_wf (busHandlers b)"
proof (unfold_locales, goal_cases)
  case (5 r i h)
  then show ?case by (simp add: SubscribeToEvents_def alist_update_fresh)
next
  case (6 r r')
  then show ?case by (rule alist_mset_eq)
qed (simp_all add: SubscribeToEvents_def UnsubscribeFromEvents_def)

section \<open>What is delivered\<close>

text \<open>A handler that records what it gets: the sequence of deliveries of a run.\<close>

definition record_event :: "'h \<Rightarrow> 'e \<Rightarrow> ('h \<times> 'e) list \<Rightarrow> ('h \<times> 'e) list" where
  "record_event h e log = log @ [(h, e)]"

lemma fold_record: "fold (\<lambda>h. record_event (snd h) e) hs log = log @ map (\<lambda>h. (snd h, e)) hs"
  by (induction hs arbitrary: log) (auto simp: record_event_def)

lemma receive_event_mset:
  assumes "receive_event i b = Some (e, b')"
  shows "mset (busPending b) = add_mset e (mset (busPending b'))" and "busHandlers b' = busHandlers b"
    and "length (busPending b) = Suc (length (busPending b'))"
proof -
  from assms have i: "i < length (busPending b)" and e: "e = busPending b ! i"
    and b': "b' = b\<lparr>busPending := take i (busPending b) @ drop (Suc i) (busPending b)\<rparr>"
    by (auto simp: receive_event_def split: if_splits)
  have "busPending b = take i (busPending b) @ busPending b ! i # drop (Suc i) (busPending b)"
    using id_take_nth_drop [OF i] .
  then have "mset (busPending b) = mset (take i (busPending b) @ busPending b ! i # drop (Suc i) (busPending b))" by simp
  then show m: "mset (busPending b) = add_mset e (mset (busPending b'))" by (simp add: e b')
  show "busHandlers b' = busHandlers b" by (simp add: b')
  show "length (busPending b) = Suc (length (busPending b'))" using m by (metis size_add_mset size_mset)
qed

lemma StartDispatcher_log:
  "StartDispatcher record_event is b log = (b', log') \<Longrightarrow>
    \<exists>es. log' = log @ concat (map (\<lambda>e. map (\<lambda>h. (snd h, e)) (busHandlers b)) es) \<and>
      mset (busPending b) = mset es + mset (busPending b') \<and> busHandlers b' = busHandlers b"
proof (induction "is" arbitrary: b log)
  case Nil
  then show ?case by (intro exI [of _ "[]"]) simp
next
  case (Cons i "is")
  show ?case
  proof (cases "receive_event i b")
    case None
    with Cons.prems show ?thesis by (intro exI [of _ "[]"]) simp
  next
    case (Some p)
    obtain e b1 where p: "p = (e, b1)" by (cases p)
    note r = receive_event_mset [OF Some [unfolded p]]
    have "StartDispatcher record_event is b1 (log @ map (\<lambda>h. (snd h, e)) (busHandlers b)) = (b', log')"
      using Cons.prems Some p by (simp add: dispatchEvent_def fold_record)
    from Cons.IH [OF this] obtain es where
      "log' = log @ map (\<lambda>h. (snd h, e)) (busHandlers b) @ concat (map (\<lambda>e. map (\<lambda>h. (snd h, e)) (busHandlers b)) es)"
      "mset (busPending b1) = mset es + mset (busPending b')" "busHandlers b' = busHandlers b"
      using r(2) by auto
    with r show ?thesis by (intro exI [of _ "e # es"]) simp
  qed
qed

text \<open>
  C27: every published event reaches every subscribed handler exactly once, whatever order the
  dispatcher receives the events in: once nothing is waiting, the deliveries to a handler are the
  published events, as a multiset, for each identifier it is subscribed under.
\<close>

theorem every_event_delivered_once:
  assumes "StartDispatcher record_event is b [] = (b', log)" and "busPending b' = []"
  shows "image_mset snd (filter_mset (\<lambda>d. fst d = h) (mset log)) =
    repeat_mset (length (filter (\<lambda>x. snd x = h) (busHandlers b))) (mset (busPending b))"
proof -
  obtain es where es: "log = concat (map (\<lambda>e. map (\<lambda>x. (snd x, e)) (busHandlers b)) es)"
    "mset (busPending b) = mset es"
    using StartDispatcher_log [OF assms(1)] assms(2) by auto
  have one: "image_mset snd (filter_mset (\<lambda>d. fst d = h) (mset (map (\<lambda>x. (snd x, e)) hs))) =
      repeat_mset (length (filter (\<lambda>x. snd x = h) hs)) {#e#}" for e hs
    by (induction hs) auto
  have "image_mset snd (filter_mset (\<lambda>d. fst d = h) (mset (concat (map (\<lambda>e. map (\<lambda>x. (snd x, e)) (busHandlers b)) es)))) =
      repeat_mset (length (filter (\<lambda>x. snd x = h) (busHandlers b))) (mset es)"
  proof (induction es)
    case Nil
    then show ?case by simp
  next
    case (Cons e es)
    have "repeat_mset n (add_mset e (mset es)) = repeat_mset n {#e#} + repeat_mset n (mset es)" for n
      by (induction n) (simp_all add: ac_simps)
    with Cons one [of e "busHandlers b"] show ?case by simp
  qed
  with es show ?thesis by simp
qed

text \<open>
  The bus keeps no order.  For every permutation of the published events there is a schedule
  in which every handler gets them in the order of the permutation, so two state changes
  published one after the other may be handled the other way round.
\<close>

theorem any_delivery_order:
  assumes "mset es = mset (busPending b)"
  shows "\<exists>is b'. StartDispatcher record_event is b log =
      (b', log @ concat (map (\<lambda>e. map (\<lambda>h. (snd h, e)) (busHandlers b)) es)) \<and> busPending b' = []"
  using assms
proof (induction es arbitrary: b log)
  case Nil
  then show ?case by (intro exI [of _ "[]"]) simp
next
  case (Cons e es)
  then have "e \<in> set (busPending b)" by (metis list.set_intros(1) set_mset_mset)
  then obtain i where i: "i < length (busPending b)" "busPending b ! i = e" by (meson in_set_conv_nth)
  then obtain b1 where b1: "receive_event i b = Some (e, b1)" by (simp add: receive_event_def)
  note r = receive_event_mset [OF b1]
  have "mset es = mset (busPending b1)" using Cons.prems r(1) by simp
  from Cons.IH [OF this, of "log @ map (\<lambda>h. (snd h, e)) (busHandlers b)"] r(2)
  obtain "is" b' where "StartDispatcher record_event is b1 (log @ map (\<lambda>h. (snd h, e)) (busHandlers b)) =
      (b', (log @ map (\<lambda>h. (snd h, e)) (busHandlers b)) @ concat (map (\<lambda>e. map (\<lambda>h. (snd h, e)) (busHandlers b)) es))"
    "busPending b' = []" by auto
  then show ?case using b1 by (intro exI [of _ "i # is"] exI [of _ b']) (simp add: dispatchEvent_def fold_record)
qed

definition sample_bus :: "(nat, string) bus" where
  "sample_bus = PublishEvent 2 (PublishEvent 1 (SubscribeToEvents ''s'' ''h'' NewBus))"

lemma sample_bus_simps: "busPending sample_bus = [1, 2]" "busHandlers sample_bus = [(''s'', ''h'')]"
  by (simp_all add: sample_bus_def PublishEvent_def SubscribeToEvents_def NewBus_def)

theorem every_event_delivered_once_witness:
  "\<exists>b' log. StartDispatcher record_event [1, 0] sample_bus [] = (b', log) \<and>
     image_mset snd (filter_mset (\<lambda>d. fst d = ''h'') (mset log)) = {#1, 2#}"
proof -
  obtain b' log where r: "StartDispatcher record_event [1, 0] sample_bus [] = (b', log)" by fastforce
  then have "busPending b' = []"
    by (auto simp: receive_event_def sample_bus_simps)
  from every_event_delivered_once [OF r this, of "''h''"] r show ?thesis by (simp add: sample_bus_simps)
qed

theorem any_delivery_order_witness:
  "\<exists>is b'. StartDispatcher record_event is sample_bus [] = (b', [(''h'', 2), (''h'', 1)])"
proof -
  have "mset [2, 1] = mset (busPending sample_bus)" by (simp add: sample_bus_simps)
  from any_delivery_order [OF this, of "[]"] show ?thesis by (simp add: sample_bus_simps) blast
qed

end
