(* ===== verification/Controller.thy ===== *)
theory Controller
  imports NetworkProvider ImageProvider RuntimeService EventBus
begin

text \<open>
  \<^verbatim>\<open>nodeagent/internal/machineservice/machinecontroller\<close>: the controller that brings one machine
  to its desired state.  The controller's fields extend the node's memory.  Each handler of the
  dispatcher and the body of each goroutine is a function; the goroutines that are running
  appear as lists (\<open>coJobs\<close> the reconciliations to run, \<open>coEnding\<close> those whose deferred calls are
  left, \<open>coListeners\<close> the runtime listeners).  Contexts are
  numbers, a context is done when its number is in \<open>coCancelled\<close>.

  The updater passed to \<^verbatim>\<open>SetState\<close> gets a copy of the state that was read before the lock was
  taken: \<open>commit\<close> is the locked part, \<open>SetState\<close> both parts with nothing in between.
\<close>

section \<open>Data\<close>

datatype message =
    AssessStateMessage
  | DesiredStateChangedMessage machine_desired_state nat
  | StateChangedMessage machine_state nat
  | ReconciliationCompleteMessage bool "gerror option"
  | ContainerStateChangedMessage string pb_container_state_changed nat
  | RuntimeListenerConnectedMessage
  | RuntimeListenerDisconnectedMessage "gerror option"

record reconciliation =
  rnDesiredState :: machine_desired_state
  rnStartedAt :: nat
  rnCancel :: nat

record runtime_listener =
  rlCancel :: nat
  rlConsecutiveErrorCount :: int

record ctrl_state =
  stMachine :: machine
  stReconciliation :: "reconciliation option"
  stRuntimeListener :: "runtime_listener option"

text \<open>The handlers subscribed to a controller's bus; the last two are the machine service's.\<close>

datatype ctrl_handler =
    EventHandler
  | StorageHandler machine
  | TerminatedHandler machine

record job =
  jbDesired :: machine_desired_state
  jbMachine :: machine
  jbCtx :: nat

record ctrl_node = node +
  coState :: ctrl_state
  coBus :: "(message, ctrl_handler) bus"
  coStopping :: bool
  coJobs :: "job list"
  coEnding :: "job list"
  coListeners :: "nat list"
  coCancelled :: "nat list"
  coNextCtx :: nat

section \<open>\<^verbatim>\<open>controller.go\<close> and \<^verbatim>\<open>event.go\<close>\<close>

definition GetState :: "'m ctrl_node_scheme \<Rightarrow> ctrl_state" where
  "GetState s = coState s"

definition commit :: "(ctrl_state \<Rightarrow> 'm ctrl_node_scheme \<Rightarrow> ctrl_state res \<times> 'm ctrl_node_scheme) \<Rightarrow> ctrl_state \<Rightarrow>
    'm ctrl_node_scheme \<Rightarrow> unit res \<times> 'm ctrl_node_scheme" where
  "commit updater state s = tryE id (updater state s) (\<lambda>state s. (Ok (), s\<lparr>coState := state\<rparr>))"

definition SetState :: "(ctrl_state \<Rightarrow> 'm ctrl_node_scheme \<Rightarrow> ctrl_state res \<times> 'm ctrl_node_scheme) \<Rightarrow>
    'm ctrl_node_scheme \<Rightarrow> unit res \<times> 'm ctrl_node_scheme" where
  "SetState updater s = commit updater (GetState s) s"

definition publish :: "message \<Rightarrow> 'm ctrl_node_scheme \<Rightarrow> 'm ctrl_node_scheme" where
  "publish event s = s\<lparr>coBus := PublishEvent event (coBus s)\<rparr>"

definition NewDesiredStateChangedMessage :: "'e node_env_scheme \<Rightarrow> machine_desired_state \<Rightarrow> 'm ctrl_node_scheme \<Rightarrow> message" where
  "NewDesiredStateChangedMessage E desired s = DesiredStateChangedMessage desired (now E s)"

definition NewStateChangedMessage :: "'e node_env_scheme \<Rightarrow> machine_state \<Rightarrow> 'm ctrl_node_scheme \<Rightarrow> message" where
  "NewStateChangedMessage E st s = StateChangedMessage st (now E s)"

definition SetDesiredState :: "'e node_env_scheme \<Rightarrow> machine_desired_state \<Rightarrow> 'm ctrl_node_scheme \<Rightarrow> 'm ctrl_node_scheme" where
  "SetDesiredState E desired s = publish (NewDesiredStateChangedMessage E desired s) s"

definition cancel_ctx :: "nat \<Rightarrow> 'm ctrl_node_scheme \<Rightarrow> 'm ctrl_node_scheme" where
  "cancel_ctx c s = s\<lparr>coCancelled := c # coCancelled s\<rparr>"

definition new_ctx :: "'m ctrl_node_scheme \<Rightarrow> nat \<times> 'm ctrl_node_scheme" where
  "new_ctx s = (coNextCtx s, s\<lparr>coNextCtx := Suc (coNextCtx s)\<rparr>)"

text \<open>
  \<^verbatim>\<open>New\<close>: context 0 is the dispatcher's.  The node's memory is as it was; the bus has the
  controller's handler and the first message.
\<close>

definition Controller_New :: "string \<Rightarrow> machine \<Rightarrow> node \<Rightarrow> ctrl_node" where
  "Controller_New subscriptionID m n = node.extend n
     \<lparr>coState = \<lparr>stMachine = m, stReconciliation = None, stRuntimeListener = None\<rparr>,
      coBus = PublishEvent AssessStateMessage (SubscribeToEvents subscriptionID EventHandler NewBus),
      coStopping = False, coJobs = [], coEnding = [], coListeners = [], coCancelled = [], coNextCtx = 1\<rparr>"

text \<open>
  \<^verbatim>\<open>Stop\<close>, in the two parts between which it waits, at most ten seconds, for the goroutines of the
  controller to end.  The second part uses the state read before the wait.
\<close>

definition Stop_begin :: "'m ctrl_node_scheme \<Rightarrow> ctrl_state \<times> 'm ctrl_node_scheme" where
  "Stop_begin s = (let state = GetState s; s = s\<lparr>coStopping := True\<rparr> in
    (state, case stRuntimeListener state of None \<Rightarrow> s | Some l \<Rightarrow> cancel_ctx (rlCancel l) s))"

definition Stop_end :: "ctrl_state \<Rightarrow> 'm ctrl_node_scheme \<Rightarrow> unit res \<times> 'm ctrl_node_scheme" where
  "Stop_end state s = (Ok (), cancel_ctx 0 (case stReconciliation state of None \<Rightarrow> s | Some r \<Rightarrow> cancel_ctx (rnCancel r) s))"

section \<open>\<^verbatim>\<open>reconciliation.go\<close>\<close>

definition shouldReconcile :: "machine \<Rightarrow> bool" where
  "shouldReconcile m = (case mDesiredState m of
      MachineDesiredStatePending \<Rightarrow> mState m \<noteq> MachineStatePending
    | MachineDesiredStateRunning \<Rightarrow> mState m \<noteq> MachineStateRunning \<and> mState m \<noteq> MachineStateDegraded
    | MachineDesiredStateTerminated \<Rightarrow> mState m \<noteq> MachineStateTerminated
    | _ \<Rightarrow> False)"

text \<open>The part of \<^verbatim>\<open>reconcile\<close> that runs in the handler; the goroutine it starts is a new job.\<close>

definition reconcile :: "'e node_env_scheme \<Rightarrow> 'm ctrl_node_scheme \<Rightarrow> unit res \<times> 'm ctrl_node_scheme" where
  "reconcile E s = (let state = GetState s in
    if stReconciliation state \<noteq> None \<or> coStopping s then (Ok (), s)
    else let desired = mDesiredState (stMachine state); (ctx, s) = new_ctx s; startTime = now E s in
      ignoreE (SetState (\<lambda>st s. (Ok (st\<lparr>stReconciliation :=
          Some \<lparr>rnDesiredState = desired, rnStartedAt = startTime, rnCancel = ctx\<rparr>\<rparr>), s)) s)
        (\<lambda>s. (Ok (), s\<lparr>coJobs := coJobs s @ [\<lparr>jbDesired = desired, jbMachine = stMachine state, jbCtx = ctx\<rparr>]\<rparr>)))"

definition isMachineRuntimeStarted :: "'e node_env_scheme \<Rightarrow> machine \<Rightarrow> 'm node_scheme \<Rightarrow> bool res \<times> 'm node_scheme" where
  "isMachineRuntimeStarted E m s =
    catchE (call E (Rt (RuntimeGetState (mID m))) s) (\<lambda>_ s. (Ok True, s)) (\<lambda>_ s. (Ok False, s))"

fun containers_by_id :: "nat list \<Rightarrow> (string \<rightharpoonup> nat) \<Rightarrow> 'm node_scheme \<Rightarrow> (string \<rightharpoonup> nat) res \<times> 'm node_scheme" where
  "containers_by_id [] m s = (Ok m, s)"
| "containers_by_id (a # as) m s =
    tryE id (deref (nContainers s) (Some a) s) (\<lambda>c s. containers_by_id as (m(ctID c \<mapsto> a)) s)"

text \<open>The goroutine of one volume of the machine.\<close>

definition prepare_volume :: "string \<Rightarrow> 'e node_env_scheme \<Rightarrow> machine_volume \<Rightarrow> 'm node_scheme \<Rightarrow> unit res \<times> 'm node_scheme" where
  "prepare_volume vg E mv s =
    tryE (Wrap ''failed to pull image'') (if mvImage mv \<noteq> None then Pull vg E (mvImage mv) s else (Ok (), s)) (\<lambda>_ s.
    catchE (Volume_Allocate vg E (mvVolume mv) s)
      (\<lambda>_ s. (Ok (), s))
      (\<lambda>e s. if \<not> errors_is e ErrVolumeAlreadyAllocated
         then (Err (Wrap (''failed to allocate volume ('' @ mvVolumeID mv @ '')'') e), s) else (Ok (), s)))"

text \<open>
  The pool runs its goroutines concurrently and waits for all of them; the model runs each when
  it is added.  A volume of an unknown container ends the function without waiting.
\<close>

fun prepare_volumes :: "string \<Rightarrow> 'e node_env_scheme \<Rightarrow> (string \<rightharpoonup> nat) \<Rightarrow> machine_volume list \<Rightarrow> gerror list \<Rightarrow>
    'm node_scheme \<Rightarrow> unit res \<times> 'm node_scheme" where
  "prepare_volumes vg E byID [] errs s = (if errs = [] then Ok () else Err (Joined errs), s)"
| "prepare_volumes vg E byID (mv # mvs) errs s =
    (if byID (mvContainerID mv) = None then (Err (Errorf (''container '' @ mvContainerID mv @ '' not found'')), s)
     else catchE (prepare_volume vg E mv s)
       (\<lambda>_ s. prepare_volumes vg E byID mvs errs s)
       (\<lambda>e s. prepare_volumes vg E byID mvs (errs @ [e]) s))"

definition prepareMachine :: "string \<Rightarrow> 'e node_env_scheme \<Rightarrow> machine \<Rightarrow> 'm node_scheme \<Rightarrow> unit res \<times> 'm node_scheme" where
  "prepareMachine vg E m s =
    tryE id (containers_by_id (mContainers m) Map.empty s) (\<lambda>byID s.
    catchE (tryE (Wrap ''failed to set up network interface'') (SetupInterface E (mNetworkInterface m) s) (\<lambda>_ s. (Ok (), s)))
      (\<lambda>_ s. prepare_volumes vg E byID (mVolumes m) [] s)
      (\<lambda>e s. prepare_volumes vg E byID (mVolumes m) [e] s))"

text \<open>
  The reconciliations return a state and an error, both meaningful.  \<open>or_error\<close> is the return of
  \<^verbatim>\<open>MachineStateError\<close> with a wrapped error.
\<close>

definition or_error :: "(gerror \<Rightarrow> gerror) \<Rightarrow> 'a res \<times> 's \<Rightarrow> ('s \<Rightarrow> (machine_state \<times> gerror option) res \<times> 's) \<Rightarrow>
    (machine_state \<times> gerror option) res \<times> 's" where
  "or_error w m k = catchE m (\<lambda>_ s. k s) (\<lambda>e s. (Ok (MachineStateError, Some (w e)), s))"

text \<open>The first lines of the three: end a running runtime, announcing it unless already announced.\<close>

definition announce :: "'e node_env_scheme \<Rightarrow> machine \<Rightarrow> machine_state \<Rightarrow> 'm ctrl_node_scheme \<Rightarrow> 'm ctrl_node_scheme" where
  "announce E m st s = (if mState m \<noteq> st then publish (NewStateChangedMessage E st s) s else s)"

definition end_runtime :: "'e node_env_scheme \<Rightarrow> machine \<Rightarrow> ('m ctrl_node_scheme \<Rightarrow> (machine_state \<times> gerror option) res \<times> 'm ctrl_node_scheme) \<Rightarrow>
    'm ctrl_node_scheme \<Rightarrow> (machine_state \<times> gerror option) res \<times> 'm ctrl_node_scheme" where
  "end_runtime E m k s = tryE id (isMachineRuntimeStarted E m s) (\<lambda>started s.
     if started then
       or_error (Wrap ''failed to terminate runtime'') (Terminate E (mID m) (announce E m MachineStateTerminating s)) k
     else k s)"

definition reconcileToPending :: "string \<Rightarrow> 'e node_env_scheme \<Rightarrow> machine \<Rightarrow> 'm ctrl_node_scheme \<Rightarrow>
    (machine_state \<times> gerror option) res \<times> 'm ctrl_node_scheme" where
  "reconcileToPending vg E m s =
    end_runtime E m (\<lambda>s.
      or_error (Wrap ''failed to prepare resources'') (prepareMachine vg E m s) (\<lambda>s.
      (Ok (MachineStatePending, None), s))) s"

text \<open>The part of \<^verbatim>\<open>reconcileToRunning\<close> after the clean-up.\<close>

definition start_prepared :: "string \<Rightarrow> config \<Rightarrow> 'e node_env_scheme \<Rightarrow> nat \<Rightarrow> machine \<Rightarrow> 'm ctrl_node_scheme \<Rightarrow>
    (machine_state \<times> gerror option) res \<times> 'm ctrl_node_scheme" where
  "start_prepared vg cfg E ctx m s =
    or_error (Wrap ''failed to prepare resources'') (prepareMachine vg E m s) (\<lambda>s.
      tryE id (isMachineRuntimeStarted E m s) (\<lambda>started s.
      if started then (Ok (MachineStateRunning, None), s)
      else if ctx \<in> set (coCancelled s) then (Ok (MachineStateError, Some ErrCanceled), s)
      else or_error (Wrap ''failed to start runtime'') (Runtime_Start cfg E m s) (\<lambda>s.
        (Ok (MachineStateRunning, None), s))))"

definition reconcileToRunning :: "string \<Rightarrow> config \<Rightarrow> 'e node_env_scheme \<Rightarrow> nat \<Rightarrow> machine \<Rightarrow> 'm ctrl_node_scheme \<Rightarrow>
    (machine_state \<times> gerror option) res \<times> 'm ctrl_node_scheme" where
  "reconcileToRunning vg cfg E ctx m s =
    (let s = announce E m MachineStateStarting s in
     if mState m = MachineStateError then
       tryE id (isMachineRuntimeStarted E m s) (\<lambda>started s.
       if started then or_error (Wrap ''failed to cleanup error state'') (Terminate E (mID m) s) (start_prepared vg cfg E ctx m)
       else start_prepared vg cfg E ctx m s)
     else start_prepared vg cfg E ctx m s)"

fun release_volumes :: "string \<Rightarrow> 'e node_env_scheme \<Rightarrow> machine_volume list \<Rightarrow> 'm ctrl_node_scheme \<Rightarrow>
    (machine_state \<times> gerror option) res \<times> 'm ctrl_node_scheme" where
  "release_volumes vg E [] s = (Ok (MachineStateTerminated, None), s)"
| "release_volumes vg E (mv # mvs) s =
    or_error (Wrap (''failed to release volume ('' @ mvVolumeID mv @ '')'')) (Volume_Release vg E (mvVolume mv) s)
      (release_volumes vg E mvs)"

definition iface_id :: "'m node_scheme \<Rightarrow> nat option \<Rightarrow> string" where
  "iface_id s p = (case Option.bind p (nIfaces s) of None \<Rightarrow> [] | Some ni \<Rightarrow> niID ni)"

definition reconcileToTerminated :: "string \<Rightarrow> 'e node_env_scheme \<Rightarrow> machine \<Rightarrow> 'm ctrl_node_scheme \<Rightarrow>
    (machine_state \<times> gerror option) res \<times> 'm ctrl_node_scheme" where
  "reconcileToTerminated vg E m s =
    end_runtime E m (\<lambda>s.
      or_error (Wrap (''failed to release network interface ('' @ iface_id s (mNetworkInterface m) @ '')''))
        (ReleaseInterface E (mNetworkInterface m) s)
        (release_volumes vg E (mVolumes m))) s"

definition desired_string :: "machine_desired_state \<Rightarrow> string" where
  "desired_string d = (case d of
      MachineDesiredStatePending \<Rightarrow> ''pending''
    | MachineDesiredStateRunning \<Rightarrow> ''running''
    | MachineDesiredStateTerminated \<Rightarrow> ''terminated''
    | MachineDesiredStateUnknown \<Rightarrow> []
    | MachineDesiredStateOther x \<Rightarrow> x)"

text \<open>
  The body of the goroutine that \<^verbatim>\<open>reconcile\<close> starts, up to its deferred calls, and the deferred
  calls, after which the goroutine is gone.
\<close>

definition run_job :: "string \<Rightarrow> config \<Rightarrow> 'e node_env_scheme \<Rightarrow> job \<Rightarrow> 'm ctrl_node_scheme \<Rightarrow> unit res \<times> 'm ctrl_node_scheme" where
  "run_job vg cfg E j s =
    tryE id
      (case jbDesired j of
        MachineDesiredStatePending \<Rightarrow> reconcileToPending vg E (jbMachine j) s
      | MachineDesiredStateRunning \<Rightarrow> reconcileToRunning vg cfg E (jbCtx j) (jbMachine j) s
      | MachineDesiredStateTerminated \<Rightarrow> reconcileToTerminated vg E (jbMachine j) s
      | d \<Rightarrow> (Ok (MachineStateUnknown, Some (Errorf (''unknown desired state: '' @ desired_string d))), s))
      (\<lambda>(newState, err) s.
         let s = publish (NewStateChangedMessage E newState s) s;
             s = publish (ReconciliationCompleteMessage (err = None) err) s
         in (Ok (), s))"

definition clear_reconciliation :: "ctrl_state \<Rightarrow> 'm ctrl_node_scheme \<Rightarrow> ctrl_state res \<times> 'm ctrl_node_scheme" where
  "clear_reconciliation st s = (Ok (st\<lparr>stReconciliation := None\<rparr>), s)"

definition finish_job :: "job \<Rightarrow> 'm ctrl_node_scheme \<Rightarrow> unit res \<times> 'm ctrl_node_scheme" where
  "finish_job j s = ignoreE (SetState clear_reconciliation s) (\<lambda>s. (Ok (), s\<lparr>coEnding := remove1 j (coEnding s)\<rparr>))"

section \<open>\<^verbatim>\<open>runtime_listener.go\<close>\<close>

definition shouldStartRuntimeListener :: "machine \<Rightarrow> bool" where
  "shouldStartRuntimeListener m = Includes [MachineStateRunning, MachineStateDegraded] (mState m)"

definition startRuntimeListener :: "'m ctrl_node_scheme \<Rightarrow> unit res \<times> 'm ctrl_node_scheme" where
  "startRuntimeListener s = (let (ctx, s) = new_ctx s in
    ignoreE (SetState (\<lambda>st s. (Ok (st\<lparr>stRuntimeListener := Some \<lparr>rlCancel = ctx, rlConsecutiveErrorCount = 0\<rparr>\<rparr>), s)) s)
      (\<lambda>s. (Ok (), s\<lparr>coListeners := coListeners s @ [ctx]\<rparr>)))"

text \<open>
  \<^verbatim>\<open>connectToRuntimeListener\<close> for what the stream of the runtime gives: an error, or the messages
  received and the error the stream ends with.
\<close>

fun publish_received :: "runtime_events_response list \<Rightarrow> 'm ctrl_node_scheme \<Rightarrow> 'm ctrl_node_scheme" where
  "publish_received [] s = s"
| "publish_received (msg # msgs) s = publish_received msgs
    (case rerEvent msg of
       RuntimeEvent_ContainerStateChanged e \<Rightarrow> publish (ContainerStateChangedMessage (rerEventId msg) e (rerTimestamp msg)) s
     | _ \<Rightarrow> s)"

definition connectToRuntimeListener :: "(runtime_events_response list \<times> gerror option) res \<Rightarrow> 'm ctrl_node_scheme \<Rightarrow>
    gerror option \<times> 'm ctrl_node_scheme" where
  "connectToRuntimeListener events s = (case events of
      Ok (msgs, err) \<Rightarrow> (err, publish_received msgs (if msgs \<noteq> [] then publish RuntimeListenerConnectedMessage s else s))
    | Err e \<Rightarrow> (Some e, s)
    | Panic m \<Rightarrow> (Some (External m), s))"

text \<open>One turn of the listener's loop: the ticker's, and the end of its context.\<close>

definition listener_tick :: "(runtime_events_response list \<times> gerror option) res \<Rightarrow> 'm ctrl_node_scheme \<Rightarrow> 'm ctrl_node_scheme" where
  "listener_tick events s = (let (err, s) = connectToRuntimeListener events s;
      err = (case err of Some e \<Rightarrow> if errors_is e ErrCanceled then None else Some e | None \<Rightarrow> None)
    in publish (RuntimeListenerDisconnectedMessage err) s)"

definition listener_done :: "nat \<Rightarrow> 'm ctrl_node_scheme \<Rightarrow> unit res \<times> 'm ctrl_node_scheme" where
  "listener_done ctx s = ignoreE (SetState (\<lambda>st s. (Ok (st\<lparr>stRuntimeListener := None\<rparr>), s)) s)
     (\<lambda>s. (Ok (), s\<lparr>coListeners := remove1 ctx (coListeners s)\<rparr>))"

section \<open>\<^verbatim>\<open>event_handler.go\<close>\<close>

definition assess :: "'e node_env_scheme \<Rightarrow> 'm ctrl_node_scheme \<Rightarrow> unit res \<times> 'm ctrl_node_scheme" where
  "assess E s = (let state = GetState s in
    tryE id (if shouldReconcile (stMachine state) then reconcile E s else (Ok (), s)) (\<lambda>_ s.
    if shouldStartRuntimeListener (stMachine state) \<and> stRuntimeListener state = None then startRuntimeListener s
    else (case stRuntimeListener state of
        Some l \<Rightarrow> if \<not> shouldStartRuntimeListener (stMachine state) then (Ok (), cancel_ctx (rlCancel l) s) else (Ok (), s)
      | None \<Rightarrow> (Ok (), s))))"

definition save_desired_state :: "'e node_env_scheme \<Rightarrow> machine_desired_state \<Rightarrow> ctrl_state \<Rightarrow> 'm ctrl_node_scheme \<Rightarrow>
    ctrl_state res \<times> 'm ctrl_node_scheme" where
  "save_desired_state E d st s = (let m = (stMachine st)\<lparr>mDesiredState := d\<rparr> in
    tryE id (call E (Db (DbSaveMachine [''DesiredState''] m)) s) (\<lambda>_ s. (Ok (st\<lparr>stMachine := m\<rparr>), s)))"

definition save_state :: "'e node_env_scheme \<Rightarrow> machine_state \<Rightarrow> ctrl_state \<Rightarrow> 'm ctrl_node_scheme \<Rightarrow>
    ctrl_state res \<times> 'm ctrl_node_scheme" where
  "save_state E new st s = (let m = (stMachine st)\<lparr>mState := new,
      mTerminatedAt := (if new = MachineStateTerminated then Some (now E s) else None)\<rparr> in
    tryE id (call E (Db (DbSaveMachine [''State'', ''TerminatedAt''] m)) s) (\<lambda>_ s. (Ok (st\<lparr>stMachine := m\<rparr>), s)))"

definition reset_errors :: "ctrl_state \<Rightarrow> 'm ctrl_node_scheme \<Rightarrow> ctrl_state res \<times> 'm ctrl_node_scheme" where
  "reset_errors st s = (case stRuntimeListener st of
      None \<Rightarrow> (Panic ''nil pointer dereference'', s)
    | Some l \<Rightarrow> (Ok (st\<lparr>stRuntimeListener := Some (l\<lparr>rlConsecutiveErrorCount := 0\<rparr>)\<rparr>), s))"

definition count_error :: "ctrl_state \<Rightarrow> 'm ctrl_node_scheme \<Rightarrow> ctrl_state res \<times> 'm ctrl_node_scheme" where
  "count_error st s = (Ok (st\<lparr>stRuntimeListener := map_option (\<lambda>l. l\<lparr>rlConsecutiveErrorCount :=
     rlConsecutiveErrorCount l + 1\<rparr>) (stRuntimeListener st)\<rparr>), s)"

definition eventHandler :: "'e node_env_scheme \<Rightarrow> message \<Rightarrow> 'm ctrl_node_scheme \<Rightarrow> unit res \<times> 'm ctrl_node_scheme" where
  "eventHandler E event s = (case event of
      AssessStateMessage \<Rightarrow> assess E s
    | DesiredStateChangedMessage d _ \<Rightarrow>
        ignoreE (SetState (save_desired_state E d) s) (\<lambda>s. (Ok (), publish AssessStateMessage s))
    | StateChangedMessage st _ \<Rightarrow>
        ignoreE (SetState (save_state E st) s) (\<lambda>s. (Ok (), publish AssessStateMessage s))
    | RuntimeListenerConnectedMessage \<Rightarrow>
        let s = (if mState (stMachine (GetState s)) \<noteq> MachineStateRunning
                 then publish (NewStateChangedMessage E MachineStateRunning s) s else s)
        in ignoreE (SetState reset_errors s) (\<lambda>s. (Ok (), s))
    | RuntimeListenerDisconnectedMessage _ \<Rightarrow>
        ignoreE (SetState count_error s) (\<lambda>s.
          case stRuntimeListener (GetState s) of
            None \<Rightarrow> (Ok (), s)
          | Some l \<Rightarrow>
              if rlConsecutiveErrorCount l = 3 then (Ok (), publish (NewStateChangedMessage E MachineStateError s) s)
              else if rlConsecutiveErrorCount l = 1 then (Ok (), publish (NewStateChangedMessage E MachineStateDegraded s) s)
              else (Ok (), s))
    | _ \<Rightarrow> (Ok (), s))"

section \<open>Lemmas\<close>

text \<open>The network provider and the volumes do not see the controller's fields.\<close>

lemma net_ctrl_upd [simp]:
  "live_ifaces (s\<lparr>coBus := b\<rparr>) = live_ifaces s" "net_inv (s\<lparr>coBus := b\<rparr>) = net_inv s"
  by (auto simp: live_ifaces_def fun_eq_iff net_inv_def net_fresh_def net_live_def net_unique_def net_exact_def)

lemma publish_simps [simp]:
  "nVolumes (publish e s) = nVolumes s" "nImages (publish e s) = nImages s" "nTrace (publish e s) = nTrace s"
  "coState (publish e s) = coState s" "coJobs (publish e s) = coJobs s" "coEnding (publish e s) = coEnding s" "coListeners (publish e s) = coListeners s"
  "coStopping (publish e s) = coStopping s" "coCancelled (publish e s) = coCancelled s"
  "coNextCtx (publish e s) = coNextCtx s"
  "live_ifaces (publish e s) = live_ifaces s" "net_inv (publish e s) = net_inv s"
  "busPending (coBus (publish e s)) = busPending (coBus s) @ [e]" "busHandlers (coBus (publish e s)) = busHandlers (coBus s)"
  by (simp_all add: publish_def PublishEvent_def)

lemma isMachineRuntimeStarted_Ok:
  "isMachineRuntimeStarted E m s = (r, s') \<Longrightarrow> trace_only s s' \<and> (\<exists>b. r = Ok b)"
  by (auto simp: isMachineRuntimeStarted_def split: flow_asm)

lemma isMachineRuntimeStarted_no [simp]:
  "isMachineRuntimeStarted E m s \<noteq> (Err e, s')" "isMachineRuntimeStarted E m s \<noteq> (Panic p, s')"
  using isMachineRuntimeStarted_Ok by fastforce+

lemma Terminate_trace: "Terminate E i s = (r, s') \<Longrightarrow> trace_only s s'"
  by (auto simp: Terminate_def split: flow_asm if_splits)

text \<open>A release of volumes touches the volumes only, and each stays released.\<close>

definition volumes_only :: "'m node_scheme \<Rightarrow> 'm node_scheme \<Rightarrow> bool" where
  "volumes_only s s' \<longleftrightarrow> live_ifaces s' = live_ifaces s \<and> nImages s' = nImages s"

lemma Volume_Release_only: "Volume_Release vg E p s = (r, s') \<Longrightarrow> volumes_only s s'"
  by (auto simp: Volume_Release_def Volume_runCmd_def volumes_only_def put_volume_def Let_def live_ifaces_def fun_eq_iff
      split: flow_asm if_splits)

lemma Volume_Release_nil: "Volume_Release vg E None s = (Panic ''nil pointer dereference'', s)"
  by (simp add: Volume_Release_def deref_def)

lemma release_volumes_released:
  assumes "release_volumes vg E mvs s = (Ok (MachineStateTerminated, err), s')"
  shows "err = None \<and> live_ifaces s' = live_ifaces s \<and>
    (\<forall>mv \<in> set mvs. \<exists>a v. mvVolume mv = Some a \<and> nVolumes s' a = Some v \<and> voReleasedAt v \<noteq> None) \<and>
    (\<forall>b w. nVolumes s b = Some w \<longrightarrow> voReleasedAt w \<noteq> None \<longrightarrow> nVolumes s' b = Some w)"
  using assms
proof (induction mvs arbitrary: s)
  case Nil
  then show ?case by simp
next
  case (Cons mv mvs)
  then obtain s1 where 1: "Volume_Release vg E (mvVolume mv) s = (Ok (), s1)"
    and 2: "release_volumes vg E mvs s1 = (Ok (MachineStateTerminated, err), s')"
    by (auto simp: or_error_def split: flow_asm)
  obtain a where a: "mvVolume mv = Some a" using 1 by (cases "mvVolume mv") (auto simp: Volume_Release_nil)
  note ih = Cons.IH [OF 2]
  obtain v where v: "nVolumes s1 a = Some v" "voReleasedAt v \<noteq> None"
    using vol.release_ok [OF 1 [unfolded a]] by blast
  have "live_ifaces s1 = live_ifaces s" using Volume_Release_only [OF 1] by (simp add: volumes_only_def)
  moreover have "nVolumes s1 b = Some w" if "nVolumes s b = Some w" "voReleasedAt w \<noteq> None" for b w
    using vol.release_keeps [OF 1 [unfolded a] that] .
  ultimately show ?case using ih v a by auto
qed

lemma end_runtime_cases:
  assumes "end_runtime E m k s = (Ok (st, err), s')" "st \<noteq> MachineStateError"
  obtains s1 where "k s1 = (Ok (st, err), s')" "net_inv s1 = net_inv s" "live_ifaces s1 = live_ifaces s"
    "nVolumes s1 = nVolumes s" "nImages s1 = nImages s" "coState s1 = coState s"
proof -
  obtain b s0 where b: "isMachineRuntimeStarted E m s = (Ok b, s0)" "trace_only s s0"
    using isMachineRuntimeStarted_Ok by (metis surj_pair)
  show thesis
  proof (cases b)
    case False
    with assms b show thesis by (intro that [of s0]) (auto simp: end_runtime_def elim!: trace_onlyE)
  next
    case True
    obtain r s1 where t: "Terminate E (mID m) (announce E m MachineStateTerminating s0) = (r, s1)" by fastforce
    note tr = Terminate_trace [OF t]
    have "k s1 = (Ok (st, err), s')"
      using assms b True t by (cases r) (auto simp: end_runtime_def or_error_def)
    with tr b(2) show thesis
      by (intro that [of s1]) (auto simp: announce_def elim!: trace_onlyE split: if_splits)
  qed
qed

text \<open>What preparing a machine keeps and reaches: allocated volumes and pulled images.\<close>

definition allocated :: "'m node_scheme \<Rightarrow> nat option \<Rightarrow> bool" where
  "allocated s p \<longleftrightarrow> (\<exists>a v. p = Some a \<and> nVolumes s a = Some v \<and> voAllocatedAt v \<noteq> None)"

definition pulled :: "'m node_scheme \<Rightarrow> nat option \<Rightarrow> bool" where
  "pulled s p \<longleftrightarrow> (\<exists>a i. p = Some a \<and> nImages s a = Some i \<and> imPulledAt i \<noteq> None)"

definition grows :: "'m node_scheme \<Rightarrow> 'm node_scheme \<Rightarrow> bool" where
  "grows s0 s \<longleftrightarrow> (\<forall>p. allocated s0 p \<longrightarrow> allocated s p) \<and> (\<forall>p. pulled s0 p \<longrightarrow> pulled s p)"

lemma grows_refl [simp]: "grows s s"
  by (simp add: grows_def)

lemma grows_trans: "grows s0 s1 \<Longrightarrow> grows s1 s2 \<Longrightarrow> grows s0 s2"
  by (auto simp: grows_def)

lemma grows_trace_only: "trace_only s s' \<Longrightarrow> grows s s'"
  by (auto simp: grows_def allocated_def pulled_def elim!: trace_onlyE)

lemma grows_upd [simp]:
  "grows s0 (s\<lparr>nTrace := t\<rparr>) = grows s0 s" "grows s0 (s\<lparr>nContainers := c\<rparr>) = grows s0 s"
  by (simp_all add: grows_def allocated_def pulled_def)

lemma Volume_Allocate_grows: "Volume_Allocate vg E p s = (r, s') \<Longrightarrow> grows s s' \<and> nImages s' = nImages s"
proof -
  assume r: "Volume_Allocate vg E p s = (r, s')"
  have im: "nImages s' = nImages s"
    using keepsD [OF Volume_Allocate_keeps [OF unmounting_refl] r] by (simp add: unmounting_def)
  have "allocated s' q" if q: "allocated s q" for q
  proof -
    obtain b v where b: "q = Some b" "nVolumes s b = Some v" "voAllocatedAt v \<noteq> None" using q by (auto simp: allocated_def)
    have "nVolumes s' b = nVolumes s b"
    proof (cases "p = Some b")
      case True
      with vol.allocate_again [OF b(2,3), of vg E] r have "s' = s" by simp
      then show ?thesis by simp
    next
      case False
      then show ?thesis
        using r by (cases p) (auto simp: vol.allocate_frame Volume_Allocate_def deref_def)
    qed
    with b show ?thesis by (simp add: allocated_def)
  qed
  with im show ?thesis by (auto simp: grows_def pulled_def)
qed

lemma Volume_Allocate_Ok_allocated: "Volume_Allocate vg E p s = (Ok (), s') \<Longrightarrow> allocated s' p"
proof -
  assume r: "Volume_Allocate vg E p s = (Ok (), s')"
  then obtain a where a: "p = Some a" by (cases p) (auto simp: Volume_Allocate_def deref_def)
  from vol.allocate_ok [OF r [unfolded a]] show ?thesis by (auto simp: allocated_def a)
qed

text \<open>
  The sentinel is made by the volume provider only: no command and no database call returns it.
\<close>

definition no_sentinel :: "'e node_env_scheme \<Rightarrow> bool" where
  "no_sentinel E \<longleftrightarrow> (\<forall>t c e. env_err E t c = Some e \<longrightarrow> \<not> errors_is e ErrVolumeAlreadyAllocated)"

lemma Volume_Allocate_again_allocated:
  assumes r: "Volume_Allocate vg E p s = (Err e, s')" and is_e: "errors_is e ErrVolumeAlreadyAllocated" and n: "no_sentinel E"
  shows "allocated s' p"
proof -
  have ne: "\<not> errors_is x ErrVolumeAlreadyAllocated" if "env_err E t c = Some x" for t c x
    using n that by (auto simp: no_sentinel_def)
  obtain a where a: "p = Some a" using r by (cases p) (auto simp: Volume_Allocate_def deref_def)
  show ?thesis
    using r is_e unfolding a
    by (auto simp: Volume_Allocate_def allocated_def lvcreate_args_def Volume_runCmd_def Let_def ne
      split: flow_asm if_splits option.splits)
qed

lemma Volume_Allocate_keeps_grows [keeps_intros]:
  "grows s0 s \<Longrightarrow> keeps (grows s0) (Volume_Allocate vg E p s)"
  using Volume_Allocate_grows [of vg E p s] by (cases "Volume_Allocate vg E p s") (auto intro: grows_trans)

lemma extraction_keeps_grows [keeps_intros]:
  "grows s0 s \<Longrightarrow> keeps (grows s0) (download_layer E d i s)"
  "grows s0 s \<Longrightarrow> keeps (grows s0) (extract_layers E d out is s)"
proof -
  show "grows s0 s \<Longrightarrow> keeps (grows s0) (download_layer E d i s)"
    by (auto simp: download_layer_def intro!: keeps_intros)
  show "grows s0 s \<Longrightarrow> keeps (grows s0) (extract_layers E d out is s)"
    by (induction "is" arbitrary: s) (auto intro!: keeps_intros)
qed

lemma download_all_keeps_grows [keeps_intros]:
  "grows s0 s \<Longrightarrow> keeps (grows s0) (download_all E d is errs s)"
  by (induction "is" arbitrary: errs s) (auto intro!: keeps_intros)

lemma extractImage_keeps_grows [keeps_intros]:
  "grows s0 s \<Longrightarrow> keeps (grows s0) (extractImage E n tmp out s)"
  by (auto simp: extractImage_def Let_def intro!: keeps_intros)

lemma grows_put_image: "imPulledAt i \<noteq> None \<Longrightarrow> grows s0 s \<Longrightarrow> grows s0 (put_image a i s)"
proof -
  assume i: "imPulledAt i \<noteq> None" and g: "grows s0 s"
  have "pulled (put_image a i s) p" if "pulled s p" for p
    using that i by (cases "p = Some a") (auto simp: pulled_def put_image_def)
  moreover have "allocated (put_image a i s) p = allocated s p" for p by (simp add: allocated_def put_image_def)
  ultimately show ?thesis using g by (auto simp: grows_def)
qed

lemma pull_in_tmp_keeps_grows [keeps_intros]:
  "grows s0 s \<Longrightarrow> keeps (grows s0) (pull_in_tmp vg E a img tmp s)"
  unfolding pull_in_tmp_def Let_def Image_runCmd_def
  by (intro keeps_intros | simp add: grows_put_image)+

lemma Pull_grows:
  assumes r: "Pull vg E p s = (r, s')"
  shows "grows s s' \<and> (r = Ok () \<longrightarrow> pulled s' p)"
proof
  have "keeps (grows s) (Pull vg E p s)"
    by (auto simp: Pull_def call_def intro!: keeps_intros)
  then show "grows s s'" using r by simp
  show "r = Ok () \<longrightarrow> pulled s' p"
  proof
    assume ok: "r = Ok ()"
    obtain a where a: "p = Some a" using r ok by (cases p) (auto simp: Pull_def deref_def)
    obtain i where i: "nImages s a = Some i" using r ok a by (cases "nImages s a") (auto simp: Pull_def deref_def)
    show "pulled s' p"
    proof (cases "imPulledAt i = None")
      case True
      from Pull_marks_pulled [OF i True r [unfolded a ok]] show ?thesis by (auto simp: pulled_def a)
    next
      case False
      then have "s' = s" using r i a by (auto simp: Pull_def deref_def)
      with i False show ?thesis by (simp add: pulled_def a)
    qed
  qed
qed

lemma prepare_volume_grows: "prepare_volume vg E mv s = (r, s') \<Longrightarrow> grows s s'"
  by (auto simp: prepare_volume_def split: flow_asm if_splits dest!: Pull_grows Volume_Allocate_grows intro: grows_trans)

lemma prepare_volume_Ok:
  assumes r: "prepare_volume vg E mv s = (Ok (), s')" and n: "no_sentinel E"
  shows "allocated s' (mvVolume mv) \<and> (mvImage mv \<noteq> None \<longrightarrow> pulled s' (mvImage mv))"
proof -
  obtain s1 where 1: "(if mvImage mv \<noteq> None then Pull vg E (mvImage mv) s else (Ok (), s)) = (Ok (), s1)"
    using r by (auto simp: prepare_volume_def split: flow_asm)
  have p1: "mvImage mv \<noteq> None \<longrightarrow> pulled s1 (mvImage mv)"
    using 1 Pull_grows [of vg E "mvImage mv" s "Ok ()" s1] by (auto split: if_splits)
  obtain q s2 where 2: "Volume_Allocate vg E (mvVolume mv) s1 = (q, s2)" by fastforce
  have "s' = s2 \<and> (q = Ok () \<or> (\<exists>e. q = Err e \<and> errors_is e ErrVolumeAlreadyAllocated))"
    using r 1 2 by (cases q) (auto simp: prepare_volume_def split: if_splits)
  moreover have "grows s1 s2" using Volume_Allocate_grows [OF 2] by blast
  ultimately show ?thesis
    using p1 2 Volume_Allocate_Ok_allocated Volume_Allocate_again_allocated [OF _ _ n]
    by (auto simp: grows_def)
qed

lemma prepare_volumes_Ok:
  assumes "prepare_volumes vg E byID mvs errs s = (Ok (), s')" and n: "no_sentinel E"
  shows "errs = [] \<and> grows s s' \<and> (\<forall>mv \<in> set mvs. allocated s' (mvVolume mv) \<and>
    (mvImage mv \<noteq> None \<longrightarrow> pulled s' (mvImage mv)))"
  using assms(1)
proof (induction mvs arbitrary: errs s)
  case Nil
  then show ?case by (auto split: if_splits)
next
  case (Cons mv mvs)
  obtain q s1 where q: "prepare_volume vg E mv s = (q, s1)" by fastforce
  have id: "byID (mvContainerID mv) \<noteq> None" using Cons.prems by (auto split: if_splits)
  show ?case
  proof (cases q)
    case (Ok u)
    with Cons.prems q id have 2: "prepare_volumes vg E byID mvs errs s1 = (Ok (), s')" by simp
    from Cons.IH [OF 2] prepare_volume_Ok [OF _ n, of vg mv s s1] prepare_volume_grows [OF q] q Ok
    show ?thesis by (auto simp: grows_def)
  next
    case (Err e)
    with Cons.prems q id have "prepare_volumes vg E byID mvs (errs @ [e]) s1 = (Ok (), s')" by simp
    from Cons.IH [OF this] show ?thesis by simp
  next
    case (Panic m)
    with Cons.prems q id show ?thesis by simp
  qed
qed

lemma or_error_simps [simp]:
  "or_error w (Ok x, s) k = k s" "or_error w (Err e, s) k = (Ok (MachineStateError, Some (w e)), s)"
  "or_error w (Panic p, s) k = (Panic p, s)"
  by (simp_all add: or_error_def)

lemma containers_by_id_state: "containers_by_id as m s = (r, s') \<Longrightarrow> s' = s"
  by (induction as arbitrary: m s) (auto split: flow_asm)

lemma SetupInterface_trace: "SetupInterface E p s = (r, s') \<Longrightarrow> trace_only s s'"
  using keepsD [OF SetupInterface_keeps [OF trace_only_refl]] .

lemma prepareMachine_Ok:
  assumes r: "prepareMachine vg E m s = (Ok (), s')" and n: "no_sentinel E"
  shows "\<forall>mv \<in> set (mVolumes m). allocated s' (mvVolume mv) \<and> (mvImage mv \<noteq> None \<longrightarrow> pulled s' (mvImage mv))"
proof -
  obtain byID s1 where 1: "containers_by_id (mContainers m) Map.empty s = (Ok byID, s1)"
    using r by (auto simp: prepareMachine_def split: flow_asm)
  obtain q s2 where 2: "SetupInterface E (mNetworkInterface m) s1 = (q, s2)" by fastforce
  have "\<exists>errs. prepare_volumes vg E byID (mVolumes m) errs s2 = (Ok (), s')"
    using r 1 2 by (cases q) (auto simp: prepareMachine_def)
  then show ?thesis using prepare_volumes_Ok [OF _ n] by blast
qed

lemma share_env_grows [simp]: "grows s0 (share_env a c spec i s) = grows s0 s"
  by (simp add: grows_def allocated_def pulled_def)

lemma container_configs_keeps_grows [keeps_intros]:
  "grows s0 s \<Longrightarrow> keeps (grows s0) (container_configs vols as s)"
proof (induction as arbitrary: s)
  case Nil
  then show ?case by simp
next
  case (Cons a as)
  then show ?case
    by (auto simp: Let_def split: option.splits intro!: keeps_intros)
qed

lemma Runtime_Start_grows: "Runtime_Start cfg E m s = (r, s') \<Longrightarrow> grows s s'"
proof -
  have "keeps (grows s) (Runtime_Start cfg E m s)"
    by (auto simp: Runtime_Start_def createRuntimeConfigFile_def Let_def intro!: keeps_intros)
  then show "Runtime_Start cfg E m s = (r, s') \<Longrightarrow> grows s s'" by simp
qed

lemma Runtime_Start_last:
  "Runtime_Start cfg E m s = (Ok (), s') \<Longrightarrow> \<exists>t. nTrace s' = t @ [Rt (CmdStart (cfRuntimeBinary cfg) [getRuntimeConfigPath cfg (mID m)])] \<and>
    env_err E t (Rt (CmdStart (cfRuntimeBinary cfg) [getRuntimeConfigPath cfg (mID m)])) = None"
  by (auto simp: Runtime_Start_def split: flow_asm)

lemma isMachineRuntimeStarted_True:
  "isMachineRuntimeStarted E m s = (Ok True, s') \<Longrightarrow> \<exists>t. nTrace s' = t @ [Rt (RuntimeGetState (mID m))] \<and>
    env_err E t (Rt (RuntimeGetState (mID m))) = None"
  by (auto simp: isMachineRuntimeStarted_def split: flow_asm)

definition machine_prepared :: "machine \<Rightarrow> 'm node_scheme \<Rightarrow> bool" where
  "machine_prepared m s \<longleftrightarrow> (\<forall>mv \<in> set (mVolumes m). allocated s (mvVolume mv) \<and>
     (mvImage mv \<noteq> None \<longrightarrow> pulled s (mvImage mv)))"

lemma machine_prepared_grows: "machine_prepared m s \<Longrightarrow> grows s s' \<Longrightarrow> machine_prepared m s'"
  by (auto simp: machine_prepared_def grows_def)

lemma start_prepared_Running:
  assumes r: "start_prepared vg cfg E ctx m s = (Ok (MachineStateRunning, err), s')" and n: "no_sentinel E"
  shows "err = None \<and> machine_prepared m s' \<and> (\<exists>t c. nTrace s' = t @ [c] \<and> env_err E t c = None \<and>
    (c = Rt (RuntimeGetState (mID m)) \<or> c = Rt (CmdStart (cfRuntimeBinary cfg) [getRuntimeConfigPath cfg (mID m)])))"
proof -
  obtain s1 where 1: "prepareMachine vg E m s = (Ok (), s1)"
    using r by (auto simp: start_prepared_def or_error_def split: flow_asm)
  have p1: "machine_prepared m s1" using prepareMachine_Ok [OF 1 n] by (simp add: machine_prepared_def)
  obtain b s2 where 2: "isMachineRuntimeStarted E m s1 = (Ok b, s2)" "trace_only s1 s2"
    using isMachineRuntimeStarted_Ok by (metis surj_pair)
  have p2: "machine_prepared m s2" using machine_prepared_grows [OF p1 grows_trace_only [OF 2(2)]] .
  show ?thesis
  proof (cases b)
    case True
    with r 1 2 have "s' = s2" "err = None" by (auto simp: start_prepared_def or_error_def)
    moreover have "isMachineRuntimeStarted E m s1 = (Ok True, s2)" using 2(1) True by simp
    ultimately show ?thesis using p2 isMachineRuntimeStarted_True by blast
  next
    case False
    obtain q s3 where 3: "Runtime_Start cfg E m s2 = (q, s3)" by fastforce
    with r 1 2 False have "q = Ok () \<and> s' = s3 \<and> err = None"
      by (cases q) (auto simp: start_prepared_def or_error_def split: if_splits)
    with p2 3 Runtime_Start_last [of cfg E m s2 s3] machine_prepared_grows [OF p2 Runtime_Start_grows [OF 3]]
    show ?thesis by auto
  qed
qed

section \<open>Properties\<close>

text \<open>
  C9: a reconciliation that reports a machine as terminated has released everything the machine
  held: its interface is no longer in use, every one of its volumes is released.  It reports no
  error, and no volume released before has changed.
\<close>

theorem terminated_machine_holds_nothing:
  assumes inv: "net_inv s" and a: "mNetworkInterface m = Some a"
    and r: "reconcileToTerminated vg E m s = (Ok (MachineStateTerminated, err), s')"
  shows "err = None \<and> live_ifaces s' = (live_ifaces s)(a := None) \<and>
    (\<forall>mv \<in> set (mVolumes m). \<exists>b v. mvVolume mv = Some b \<and> nVolumes s' b = Some v \<and> voReleasedAt v \<noteq> None)"
proof -
  have ne: "MachineStateTerminated \<noteq> MachineStateError" by simp
  from r [unfolded reconcileToTerminated_def] ne obtain s1 where
    k: "or_error (Wrap (''failed to release network interface ('' @ iface_id s1 (mNetworkInterface m) @ '')''))
        (ReleaseInterface E (mNetworkInterface m) s1) (release_volumes vg E (mVolumes m)) =
      (Ok (MachineStateTerminated, err), s')"
    and s1: "net_inv s1 = net_inv s" "live_ifaces s1 = live_ifaces s"
    by (rule end_runtime_cases)
  obtain s2 where 2: "ReleaseInterface E (Some a) s1 = (Ok (), s2)" "release_volumes vg E (mVolumes m) s2 =
      (Ok (MachineStateTerminated, err), s')"
    using k by (auto simp: or_error_def a split: flow_asm)
  have "live_ifaces s2 = (live_ifaces s)(a := None)"
    using net.release_ok [OF _ 2(1)] inv s1 by simp
  with release_volumes_released [OF 2(2)] show ?thesis by simp
qed

text \<open>
  C15: a reconciliation that reports a machine as running has prepared it first: every volume of
  the machine is allocated and every image pulled, and the last thing it did was either to hear
  from the machine's runtime or to start it.
\<close>

theorem running_machine_is_prepared:
  assumes r: "reconcileToRunning vg cfg E ctx m s = (Ok (MachineStateRunning, err), s')" and n: "no_sentinel E"
  shows "err = None \<and>
    (\<forall>mv \<in> set (mVolumes m). allocated s' (mvVolume mv) \<and> (mvImage mv \<noteq> None \<longrightarrow> pulled s' (mvImage mv))) \<and>
    (\<exists>t c. nTrace s' = t @ [c] \<and> env_err E t c = None \<and>
      (c = Rt (RuntimeGetState (mID m)) \<or> c = Rt (CmdStart (cfRuntimeBinary cfg) [getRuntimeConfigPath cfg (mID m)])))"
proof -
  obtain s1 where "start_prepared vg cfg E ctx m s1 = (Ok (MachineStateRunning, err), s')"
    using r by (auto simp: reconcileToRunning_def Let_def or_error_def split: flow_asm if_splits)
  from start_prepared_Running [OF this n] show ?thesis by (simp add: machine_prepared_def)
qed


text \<open>
  The machine in memory follows the database.  A change of state is in memory exactly when its
  row was saved, with a time of termination exactly for a terminated machine; a change that could
  not be saved is lost, and in both cases the next assessment is on its way.
\<close>

theorem state_change_follows_database:
  "let m = (stMachine (coState s))\<lparr>mState := new,
     mTerminatedAt := (if new = MachineStateTerminated then Some (now E s) else None)\<rparr> in
    \<exists>s'. eventHandler E (StateChangedMessage new ts) s = (Ok (), s') \<and>
    nTrace s' = nTrace s @ [Db (DbSaveMachine [''State'', ''TerminatedAt''] m)] \<and>
    coState s' = (if env_err E (nTrace s) (Db (DbSaveMachine [''State'', ''TerminatedAt''] m)) = None
      then (coState s)\<lparr>stMachine := m\<rparr> else coState s) \<and>
    busPending (coBus s') = busPending (coBus s) @ [AssessStateMessage]"
  by (auto simp: eventHandler_def SetState_def commit_def save_state_def GetState_def Let_def call_cases
      split: option.splits)

text \<open>The events of a sequence handled one after the other, up to the first panic.\<close>

fun handle_all :: "'e node_env_scheme \<Rightarrow> message list \<Rightarrow> 'm ctrl_node_scheme \<Rightarrow> unit res \<times> 'm ctrl_node_scheme" where
  "handle_all E [] s = (Ok (), s)"
| "handle_all E (e # es) s = tryE id (eventHandler E e s) (\<lambda>_ s. handle_all E es s)"

lemma handle_all_append:
  "handle_all E (es @ fs) s = tryE id (handle_all E es s) (\<lambda>_ s. handle_all E fs s)"
proof (induction es arbitrary: s)
  case (Cons e es)
  show ?case
  proof (cases "eventHandler E e s")
    case (Pair r s1)
    then show ?thesis using Cons by (cases r) simp_all
  qed
qed simp

lemma handle_disconnected:
  assumes l: "stRuntimeListener (coState s) = Some l"
  shows "\<exists>s'. eventHandler E (RuntimeListenerDisconnectedMessage e) s = (Ok (), s') \<and> nTrace s' = nTrace s \<and>
    stRuntimeListener (coState s') = Some (l\<lparr>rlConsecutiveErrorCount := rlConsecutiveErrorCount l + 1\<rparr>) \<and>
    busPending (coBus s') = busPending (coBus s) @
      (if rlConsecutiveErrorCount l = 2 then [NewStateChangedMessage E MachineStateError s]
       else if rlConsecutiveErrorCount l = 0 then [NewStateChangedMessage E MachineStateDegraded s] else [])"
  using l by (auto simp: eventHandler_def SetState_def commit_def count_error_def GetState_def NewStateChangedMessage_def now_def)

text \<open>
  A runtime that cannot be listened to makes its machine degraded at the first failure and
  failed at the third, each announced once however many failures follow, until a connection
  succeeds and the count starts again.
\<close>

theorem disconnections_announced:
  assumes l: "stRuntimeListener (coState s) = Some l" and c: "rlConsecutiveErrorCount l = 0" and ev: "length errs = n"
  shows "\<exists>s'. handle_all E (map RuntimeListenerDisconnectedMessage errs) s = (Ok (), s') \<and> nTrace s' = nTrace s \<and>
    stRuntimeListener (coState s') = Some (l\<lparr>rlConsecutiveErrorCount := int n\<rparr>) \<and>
    busPending (coBus s') = busPending (coBus s) @
      (if 1 \<le> n then [NewStateChangedMessage E MachineStateDegraded s] else []) @
      (if 3 \<le> n then [NewStateChangedMessage E MachineStateError s] else [])"
  using ev
proof (induction errs arbitrary: n rule: rev_induct)
  case Nil
  then show ?case using l c by (cases l) simp
next
  case (snoc e errs)
  then obtain k where n: "n = Suc k" "length errs = k" by (cases n) auto
  from snoc.IH [OF n(2)] obtain s1 where s1: "handle_all E (map RuntimeListenerDisconnectedMessage errs) s = (Ok (), s1)"
    "nTrace s1 = nTrace s" "stRuntimeListener (coState s1) = Some (l\<lparr>rlConsecutiveErrorCount := int k\<rparr>)"
    "busPending (coBus s1) = busPending (coBus s) @
      (if 1 \<le> k then [NewStateChangedMessage E MachineStateDegraded s] else []) @
      (if 3 \<le> k then [NewStateChangedMessage E MachineStateError s] else [])"
    by blast
  have m: "NewStateChangedMessage E x s1 = NewStateChangedMessage E x s" for x
    using s1(2) by (simp add: NewStateChangedMessage_def now_def)
  from handle_disconnected [OF s1(3), of E e] obtain s2 where
    "eventHandler E (RuntimeListenerDisconnectedMessage e) s1 = (Ok (), s2)" "nTrace s2 = nTrace s1"
    "stRuntimeListener (coState s2) = Some (l\<lparr>rlConsecutiveErrorCount := int n\<rparr>)"
    "busPending (coBus s2) = busPending (coBus s1) @ (if k = 2 then [NewStateChangedMessage E MachineStateError s]
      else if k = 0 then [NewStateChangedMessage E MachineStateDegraded s] else [])"
    by (auto simp: n m ac_simps)
  with s1 show ?case by (intro exI [of _ s2]) (auto simp: handle_all_append n)
qed

section \<open>Instances\<close>

definition idle_machine :: machine where
  "idle_machine = \<lparr>mID = ''m1'', mState = MachineStatePending, mDesiredState = MachineDesiredStateRunning,
     mSpec = None, mNetworkInterfaceID = None, mVolumes = [], mContainers = [], mNetworkInterface = Some 0, mTerminatedAt = None\<rparr>"

definition start_ctrl :: ctrl_node where
  "start_ctrl = \<lparr>nIfaces = Map.empty, nVolumes = Map.empty, nImages = Map.empty, nContainers = Map.empty,
     nNet = start_provider, nTrace = [], nNext = 0,
     coState = \<lparr>stMachine = idle_machine, stReconciliation = None, stRuntimeListener = None\<rparr>,
     coBus = PublishEvent AssessStateMessage (SubscribeToEvents ''h'' EventHandler NewBus),
     coStopping = False, coJobs = [], coEnding = [], coListeners = [], coCancelled = [], coNextCtx = 1\<rparr>"

definition sample_iface :: network_interface where
  "sample_iface = \<lparr>niID = ''n1'', niName = tap_name 2, niIPAddress = calculateIPFromOffset start_provider (of_int 2),
     niMacAddress = tap_hwaddr (of_int 2), niGatewayAddress = [192, 168, 100, 1], niNetworkCIDR = default_cidr,
     niAllocatedAt = Some 0, niReleasedAt = None\<rparr>"

definition sample_ctrl :: ctrl_node where
  "sample_ctrl = start_ctrl\<lparr>nTrace := [], nNet := (nNet start_ctrl)\<lparr>npAllocatedIPs :=
     (npAllocatedIPs (nNet start_ctrl))[nat 2 := tap_name 2]\<rparr>,
     nIfaces := (nIfaces start_ctrl)(nNext start_ctrl \<mapsto> sample_iface), nNext := Suc (nNext start_ctrl)\<rparr>"

lemma net_inv_start_ctrl: "net_inv start_ctrl"
  using net_base_start start_provider_free
  by (auto simp: net_inv_def net_fresh_def net_live_def net_unique_def net_exact_def start_ctrl_def live_ifaces_def)

lemma sample_ctrl_net: "net_inv sample_ctrl" "live_ifaces sample_ctrl = [0 \<mapsto> sample_iface]"
proof -
  have n: "nNet start_ctrl = start_provider" "nNext start_ctrl = 0" by (simp_all add: start_ctrl_def)
  have a: "iface_at (nNet start_ctrl) 2 sample_iface" "niReleasedAt sample_iface = None"
    "npAllocatedIPs (nNet start_ctrl) ! nat 2 = []"
    using start_provider_free [of 2] by (simp_all add: iface_at_def sample_iface_def n)
  note i = net_inv_allocate [OF net_inv_start_ctrl _ _ a(3,1,2) sample_ctrl_def]
  show "net_inv sample_ctrl" using i(1) by simp
  have "live_ifaces start_ctrl = Map.empty" by (simp add: start_ctrl_def live_ifaces_def fun_eq_iff)
  with i(2) show "live_ifaces sample_ctrl = [0 \<mapsto> sample_iface]" by (simp add: n)
qed

lemma offset_loop_no_Err: "offset_loop xs ys off \<noteq> Err e"
  by (induction xs ys off rule: offset_loop.induct) simp_all

lemma sample_release:
  assumes "net_inv s" "live_ifaces s 0 = Some sample_iface"
  shows "fst (ReleaseInterface quiet_env (Some 0) s) = Ok ()"
proof -
  have q: "env_err quiet_env t c = None" for t c by (simp add: quiet_env_def)
  note l = live_ifaces_SomeD [OF assms(2)]
  obtain r s' where r: "ReleaseInterface quiet_env (Some 0) s = (r, s')" by fastforce
  have "r \<noteq> Panic m" for m using ReleaseInterface_no_Panic [OF assms(1), of 0] r assms(2) by auto
  moreover have "r \<noteq> Err e" for e
    using r l
    by (auto simp: ReleaseInterface_def deref_Some call_cases q applyTapFirewallRules_def runCmd_def Let_def
        release_address_def on_net_def claim_ip_def calculateOffsetFromIP_def claim_def offset_loop_no_Err
        split: flow_asm res.splits if_splits)
  ultimately show ?thesis using r by (cases r) auto
qed

theorem terminated_machine_holds_nothing_witness:
  "\<exists>s'. reconcileToTerminated ''vg'' quiet_env idle_machine sample_ctrl = (Ok (MachineStateTerminated, None), s') \<and>
     live_ifaces sample_ctrl 0 \<noteq> None \<and> live_ifaces s' = Map.empty"
proof -
  have m: "mNetworkInterface idle_machine = Some 0" "mVolumes idle_machine = []" by (simp_all add: idle_machine_def)
  have q: "env_err quiet_env t c = None" for t c by (simp add: quiet_env_def)
  obtain s0 where st: "isMachineRuntimeStarted quiet_env idle_machine sample_ctrl = (Ok True, s0)"
    by (simp add: isMachineRuntimeStarted_def call_cases q)
  have x: "ne_exited quiet_env t" for t by (simp add: quiet_env_def)
  obtain s1 where t: "Terminate quiet_env (mID idle_machine) (announce quiet_env idle_machine MachineStateTerminating s0) = (Ok (), s1)"
    by (simp add: Terminate_def call_cases call_val_cases q x)
  have k: "reconcileToTerminated ''vg'' quiet_env idle_machine sample_ctrl =
      or_error (Wrap (''failed to release network interface ('' @ iface_id s1 (Some 0) @ '')''))
        (ReleaseInterface quiet_env (Some 0) s1) (release_volumes ''vg'' quiet_env [])"
    unfolding reconcileToTerminated_def end_runtime_def m st by (simp only: tryE_simps if_True t or_error_simps)
  have s1: "net_inv s1" "live_ifaces s1 = live_ifaces sample_ctrl"
    using sample_ctrl_net Terminate_trace [OF t] conjunct1 [OF isMachineRuntimeStarted_Ok [OF st]]
    by (auto simp: announce_def elim!: trace_onlyE split: if_splits)
  have "fst (ReleaseInterface quiet_env (Some 0) s1) = Ok ()"
    using s1 sample_ctrl_net(2) by (intro sample_release) simp_all
  then have "\<exists>s'. reconcileToTerminated ''vg'' quiet_env idle_machine sample_ctrl = (Ok (MachineStateTerminated, None), s')"
    unfolding k by (cases "ReleaseInterface quiet_env (Some 0) s1") (simp add: or_error_def)
  then obtain s' where r: "reconcileToTerminated ''vg'' quiet_env idle_machine sample_ctrl = (Ok (MachineStateTerminated, None), s')" ..
  from terminated_machine_holds_nothing [OF sample_ctrl_net(1) m(1) r] r sample_ctrl_net(2) show ?thesis by auto
qed

theorem running_machine_is_prepared_witness:
  "\<exists>s' t c. reconcileToRunning ''vg'' sample_config quiet_env 1 idle_machine sample_ctrl = (Ok (MachineStateRunning, None), s') \<and>
     nTrace s' = t @ [c]"
proof -
  have q: "env_err quiet_env t c = None" for t c by (simp add: quiet_env_def)
  have n: "no_sentinel quiet_env" by (simp add: no_sentinel_def q)
  have d: "nIfaces sample_ctrl 0 = Some sample_iface" "niName sample_iface = tap_name 2"
    by (simp_all add: sample_ctrl_def start_ctrl_def sample_iface_def)
  have "fst (reconcileToRunning ''vg'' sample_config quiet_env 1 idle_machine sample_ctrl) = Ok (MachineStateRunning, None)"
    by (simp add: reconcileToRunning_def Let_def announce_def idle_machine_def start_prepared_def or_error_def prepareMachine_def
        SetupInterface_def deref_def publish_def d call_cases q applyTapFirewallRules_def runCmd_def isMachineRuntimeStarted_def)
  then obtain s' where r: "reconcileToRunning ''vg'' sample_config quiet_env 1 idle_machine sample_ctrl = (Ok (MachineStateRunning, None), s')"
    by (cases "reconcileToRunning ''vg'' sample_config quiet_env 1 idle_machine sample_ctrl") simp
  from running_machine_is_prepared [OF r n] r show ?thesis by blast
qed

theorem disconnections_announced_witness:
  "\<exists>s'. handle_all quiet_env [RuntimeListenerDisconnectedMessage None, RuntimeListenerDisconnectedMessage None,
       RuntimeListenerDisconnectedMessage (Some ErrEOF), RuntimeListenerDisconnectedMessage None]
      (sample_ctrl\<lparr>coState := (coState sample_ctrl)\<lparr>stRuntimeListener := Some \<lparr>rlCancel = 1, rlConsecutiveErrorCount = 0\<rparr>\<rparr>\<rparr>) =
      (Ok (), s') \<and>
    busPending (coBus s') = [AssessStateMessage, StateChangedMessage MachineStateDegraded 0, StateChangedMessage MachineStateError 0]"
proof -
  let ?s = "sample_ctrl\<lparr>coState := (coState sample_ctrl)\<lparr>stRuntimeListener := Some \<lparr>rlCancel = 1, rlConsecutiveErrorCount = 0\<rparr>\<rparr>\<rparr>"
  have l: "stRuntimeListener (coState ?s) = Some \<lparr>rlCancel = 1, rlConsecutiveErrorCount = 0\<rparr>"
    "rlConsecutiveErrorCount \<lparr>rlCancel = 1, rlConsecutiveErrorCount = 0\<rparr> = 0"
    "length [None, None, Some ErrEOF, None] = 4" by simp_all
  have b: "busPending (coBus ?s) = [AssessStateMessage]" "nTrace ?s = []"
    by (simp_all add: sample_ctrl_def start_ctrl_def PublishEvent_def SubscribeToEvents_def NewBus_def)
  have w: "NewStateChangedMessage quiet_env x ?s = StateChangedMessage x 0" for x
    by (simp only: NewStateChangedMessage_def now_def b) (simp add: quiet_env_def)
  from disconnections_announced [OF l, of quiet_env] obtain s' where
    "handle_all quiet_env (map RuntimeListenerDisconnectedMessage [None, None, Some ErrEOF, None]) ?s = (Ok (), s')"
    "busPending (coBus s') = [AssessStateMessage, StateChangedMessage MachineStateDegraded 0, StateChangedMessage MachineStateError 0]"
    unfolding b w by auto
  then show ?thesis by (simp only: list.map) blast
qed

end
