(* ===== verification/ControllerSteps.thy ===== *)
theory ControllerSteps
  imports Controller
begin

text \<open>
  The controller as a transition system: the dispatcher handles one waiting event, a
  reconciliation's body runs, its deferred calls run, a listener's loop turns or ends, the
  machine service asks for a desired state or stops the controller, and other parts of the agent
  change the shared memory.  Each step of this relation is one of the code's functions; an update
  of the state (\<^verbatim>\<open>SetState\<close>) happens without interruption.  The last section drops that.
\<close>

section \<open>Steps\<close>

definition begin_ending :: "job \<Rightarrow> 'm ctrl_node_scheme \<Rightarrow> 'm ctrl_node_scheme" where
  "begin_ending j s = s\<lparr>coJobs := remove1 j (coJobs s), coEnding := j # coEnding s\<rparr>"

text \<open>The memory of the agent changes under a controller, the controller's own fields do not.\<close>

definition same_ctrl :: "ctrl_node \<Rightarrow> ctrl_node \<Rightarrow> bool" where
  "same_ctrl s s' \<longleftrightarrow> node.more s' = node.more s"

inductive ctrl_step :: "string \<Rightarrow> config \<Rightarrow> 'e node_env_scheme \<Rightarrow> ctrl_node \<Rightarrow> ctrl_node \<Rightarrow> bool" for vg cfg E where
  step_dispatch: "receive_event i (coBus s) = Some (event, b) \<Longrightarrow>
    eventHandler E event (s\<lparr>coBus := b\<rparr>) = (Ok (), s') \<Longrightarrow> ctrl_step vg cfg E s s'"
| step_run: "j \<in> set (coJobs s) \<Longrightarrow> run_job vg cfg E j s = (Ok (), s') \<Longrightarrow> ctrl_step vg cfg E s (begin_ending j s')"
| step_finish: "j \<in> set (coEnding s) \<Longrightarrow> finish_job j s = (Ok (), s') \<Longrightarrow> ctrl_step vg cfg E s s'"
| step_tick: "l \<in> set (coListeners s) \<Longrightarrow> l \<notin> set (coCancelled s) \<Longrightarrow> ctrl_step vg cfg E s (listener_tick events s)"
| step_done: "l \<in> set (coListeners s) \<Longrightarrow> l \<in> set (coCancelled s) \<Longrightarrow> listener_done l s = (Ok (), s') \<Longrightarrow> ctrl_step vg cfg E s s'"
| step_desired: "ctrl_step vg cfg E s (SetDesiredState E d s)"
| step_stop: "ctrl_step vg cfg E s (snd (Stop_begin s))"
| step_stopped: "ctrl_step vg cfg E s (snd (Stop_end st s))"
| step_others: "same_ctrl s s' \<Longrightarrow> ctrl_step vg cfg E s s'"

inductive ctrl_reach :: "string \<Rightarrow> config \<Rightarrow> 'e node_env_scheme \<Rightarrow> ctrl_node \<Rightarrow> ctrl_node \<Rightarrow> bool" for vg cfg E s where
  reach_start: "ctrl_reach vg cfg E s s"
| reach_step: "ctrl_reach vg cfg E s s' \<Longrightarrow> ctrl_step vg cfg E s' s'' \<Longrightarrow> ctrl_reach vg cfg E s s''"

section \<open>The providers leave the controller's fields alone\<close>

abbreviation more_is :: "'m \<Rightarrow> 'm node_scheme \<Rightarrow> bool" where
  "more_is x s \<equiv> node.more s = x"

lemma more_upd [simp]:
  "node.more (s\<lparr>nIfaces := a\<rparr>) = node.more s" "node.more (s\<lparr>nVolumes := b\<rparr>) = node.more s"
  "node.more (s\<lparr>nImages := c\<rparr>) = node.more s" "node.more (s\<lparr>nContainers := d\<rparr>) = node.more s"
  "node.more (s\<lparr>nNet := e\<rparr>) = node.more s" "node.more (s\<lparr>nTrace := f\<rparr>) = node.more s" "node.more (s\<lparr>nNext := g\<rparr>) = node.more s"
  by (cases s; simp)+

lemma more_trace_only: "trace_only s s' \<Longrightarrow> node.more s' = node.more s"
  by (auto elim!: trace_onlyE)

lemma SetupInterface_more: "SetupInterface E p s = (r, s') \<Longrightarrow> node.more s' = node.more s"
  by (rule more_trace_only [OF SetupInterface_trace])

lemma on_net_more [keeps_intros]: "more_is x s \<Longrightarrow> keeps (more_is x) (on_net r s)"
  by (auto simp: on_net_def split: res.splits)

lemma release_address_more [keeps_intros]: "more_is x s \<Longrightarrow> keeps (more_is x) (release_address E a ni s)"
  by (auto simp: release_address_def Let_def intro!: keeps_intros)

lemma applyTap_more [keeps_intros]: "more_is x s \<Longrightarrow> keeps (more_is x) (applyTapFirewallRules E ni b s)"
  by (auto simp: applyTapFirewallRules_def runCmd_def Let_def intro!: keeps_intros)

lemma ReleaseInterface_more [keeps_intros]: "more_is x s \<Longrightarrow> keeps (more_is x) (ReleaseInterface E p s)"
  by (auto simp: ReleaseInterface_def intro!: keeps_intros)

lemma put_more [simp]: "node.more (put_volume a v s) = node.more s" "node.more (put_image a i s) = node.more s"
  "node.more (share_env a' c spec im s) = node.more s"
  by (simp_all add: put_volume_def put_image_def share_env_def split: option.split)

lemma Volume_more [keeps_intros]:
  "more_is x s \<Longrightarrow> keeps (more_is x) (Volume_Allocate vg E p s)"
  "more_is x s \<Longrightarrow> keeps (more_is x) (Volume_Release vg E p s)"
  by (auto simp: Volume_Allocate_def Volume_Release_def Volume_runCmd_def Let_def intro!: keeps_intros)

lemma download_more [keeps_intros]:
  "more_is x s \<Longrightarrow> keeps (more_is x) (download_layer E d i s)"
  by (auto simp: download_layer_def intro!: keeps_intros)

lemma download_all_more [keeps_intros]: "more_is x s \<Longrightarrow> keeps (more_is x) (download_all E d is errs s)"
  by (induction "is" arbitrary: errs s) (auto intro!: keeps_intros)

lemma extract_layers_more [keeps_intros]: "more_is x s \<Longrightarrow> keeps (more_is x) (extract_layers E d out is s)"
  by (induction "is" arbitrary: s) (auto intro!: keeps_intros)

lemma extractImage_more [keeps_intros]: "more_is x s \<Longrightarrow> keeps (more_is x) (extractImage E n tmp out s)"
  by (auto simp: extractImage_def Let_def intro!: keeps_intros)

lemma pull_in_tmp_more [keeps_intros]: "more_is x s \<Longrightarrow> keeps (more_is x) (pull_in_tmp vg E a img tmp s)"
  unfolding pull_in_tmp_def Let_def Image_runCmd_def by (intro keeps_intros | simp)+

lemma Pull_more [keeps_intros]: "more_is x s \<Longrightarrow> keeps (more_is x) (Pull vg E p s)"
  by (auto simp: Pull_def call_def intro!: keeps_intros)

lemma prepare_volume_more [keeps_intros]: "more_is x s \<Longrightarrow> keeps (more_is x) (prepare_volume vg E mv s)"
  by (auto simp: prepare_volume_def intro!: keeps_intros)

lemma prepare_volumes_more [keeps_intros]: "more_is x s \<Longrightarrow> keeps (more_is x) (prepare_volumes vg E byID mvs errs s)"
  by (induction mvs arbitrary: errs s) (auto intro!: keeps_intros)

lemma containers_by_id_more [keeps_intros]: "more_is x s \<Longrightarrow> keeps (more_is x) (containers_by_id as m s)"
  using containers_by_id_state [of as m s] by (cases "containers_by_id as m s") auto

lemma keeps_SetupInterface_more [keeps_intros]: "more_is x s \<Longrightarrow> keeps (more_is x) (SetupInterface E p s)"
  using SetupInterface_more [of E p s] by (cases "SetupInterface E p s") auto

lemma prepareMachine_more [keeps_intros]: "more_is x s \<Longrightarrow> keeps (more_is x) (prepareMachine vg E m s)"
  by (auto simp: prepareMachine_def intro!: keeps_intros)

lemma runtime_more [keeps_intros]:
  "more_is x s \<Longrightarrow> keeps (more_is x) (isMachineRuntimeStarted E m s)"
  "more_is x s \<Longrightarrow> keeps (more_is x) (Terminate E i s)"
  by (auto simp: isMachineRuntimeStarted_def Terminate_def intro!: keeps_intros)

lemma container_configs_more [keeps_intros]: "more_is x s \<Longrightarrow> keeps (more_is x) (container_configs vols as s)"
proof (induction as arbitrary: s)
  case (Cons a as)
  then show ?case by (auto simp: Let_def split: option.splits intro!: keeps_intros)
qed simp

lemma Runtime_Start_more [keeps_intros]: "more_is x s \<Longrightarrow> keeps (more_is x) (Runtime_Start cfg E m s)"
  by (auto simp: Runtime_Start_def createRuntimeConfigFile_def Let_def intro!: keeps_intros)

section \<open>A reconciliation keeps the controller's state\<close>

text \<open>What a reconciliation's body cannot change: everything of the controller but its bus.\<close>

definition ctrl_frame :: "ctrl_node \<Rightarrow> ctrl_node \<Rightarrow> bool" where
  "ctrl_frame s0 s \<longleftrightarrow> coState s = coState s0 \<and> coStopping s = coStopping s0 \<and> coJobs s = coJobs s0 \<and>
     coEnding s = coEnding s0 \<and> coListeners s = coListeners s0 \<and> coCancelled s = coCancelled s0 \<and> coNextCtx s = coNextCtx s0"

lemma same_ctrl_frame: "node.more s' = node.more s \<Longrightarrow> ctrl_frame s0 s' = ctrl_frame s0 s"
  by (cases s; cases s') (simp add: ctrl_frame_def)

lemma ctrl_frame_refl [simp]: "ctrl_frame s s"
  by (simp add: ctrl_frame_def)

lemma frame_of_more: "(\<And>x. more_is x s \<Longrightarrow> keeps (more_is x) m) \<Longrightarrow> ctrl_frame s0 s \<Longrightarrow> keeps (ctrl_frame s0) m"
proof -
  assume "\<And>x. more_is x s \<Longrightarrow> keeps (more_is x) m" and f: "ctrl_frame s0 s"
  then have "node.more (snd m) = node.more s" by (simp add: keeps_def)
  with same_ctrl_frame [OF this, of s0] f show ?thesis by (simp add: keeps_def)
qed

lemma keeps_or_error [keeps_intros]:
  "keeps P m \<Longrightarrow> (\<And>s. P s \<Longrightarrow> keeps P (k s)) \<Longrightarrow> keeps P (or_error w m k)"
  by (auto simp: or_error_def intro!: keeps_intros)

lemma ctrl_frame_publish [simp]: "ctrl_frame s0 (publish e s) = ctrl_frame s0 s" "ctrl_frame s0 (announce E m st s) = ctrl_frame s0 s"
  by (simp_all add: ctrl_frame_def announce_def publish_def)

lemma frames [keeps_intros]:
  "ctrl_frame s0 s \<Longrightarrow> keeps (ctrl_frame s0) (prepareMachine vg E m s)"
  "ctrl_frame s0 s \<Longrightarrow> keeps (ctrl_frame s0) (isMachineRuntimeStarted E m s)"
  "ctrl_frame s0 s \<Longrightarrow> keeps (ctrl_frame s0) (Terminate E i s)"
  "ctrl_frame s0 s \<Longrightarrow> keeps (ctrl_frame s0) (Runtime_Start cfg E m s)"
  "ctrl_frame s0 s \<Longrightarrow> keeps (ctrl_frame s0) (ReleaseInterface E p s)"
  "ctrl_frame s0 s \<Longrightarrow> keeps (ctrl_frame s0) (Volume_Release vg E p s)"
  by (auto intro!: frame_of_more keeps_intros)

lemma end_runtime_frame:
  "(\<And>s. ctrl_frame s0 s \<Longrightarrow> keeps (ctrl_frame s0) (k s)) \<Longrightarrow> ctrl_frame s0 s \<Longrightarrow> keeps (ctrl_frame s0) (end_runtime E m k s)"
  by (auto simp: end_runtime_def intro!: keeps_intros)

lemma release_volumes_frame [keeps_intros]:
  "ctrl_frame s0 s \<Longrightarrow> keeps (ctrl_frame s0) (release_volumes vg E mvs s)"
  by (induction mvs arbitrary: s) (auto intro!: keeps_intros)

lemma start_prepared_frame [keeps_intros]:
  "ctrl_frame s0 s \<Longrightarrow> keeps (ctrl_frame s0) (start_prepared vg cfg E ctx m s)"
  by (auto simp: start_prepared_def intro!: keeps_intros)

lemma reconcileTo_frame [keeps_intros]:
  "ctrl_frame s0 s \<Longrightarrow> keeps (ctrl_frame s0) (reconcileToPending vg E m s)"
  "ctrl_frame s0 s \<Longrightarrow> keeps (ctrl_frame s0) (reconcileToRunning vg cfg E ctx m s)"
  "ctrl_frame s0 s \<Longrightarrow> keeps (ctrl_frame s0) (reconcileToTerminated vg E m s)"
  by (auto simp: reconcileToPending_def reconcileToRunning_def reconcileToTerminated_def Let_def
      intro!: keeps_intros end_runtime_frame)

lemma run_job_frame: "run_job vg cfg E j s = (r, s') \<Longrightarrow> ctrl_frame s s'"
proof -
  have "keeps (ctrl_frame s) (run_job vg cfg E j s)"
    by (cases "jbDesired j") (auto simp: run_job_def Let_def intro!: keeps_intros)
  then show "run_job vg cfg E j s = (r, s') \<Longrightarrow> ctrl_frame s s'" by simp
qed

lemma publish_received_frame: "ctrl_frame s0 (publish_received msgs s) = ctrl_frame s0 s"
  by (induction msgs arbitrary: s) (auto split: runtime_event.splits)

lemma listener_tick_frame: "ctrl_frame s (listener_tick events s)"
proof -
  obtain err s1 where c: "connectToRuntimeListener events s = (err, s1)" by fastforce
  have "ctrl_frame s s1"
    using c by (cases events) (auto simp: connectToRuntimeListener_def publish_received_frame)
  then show ?thesis by (simp add: listener_tick_def c)
qed

section \<open>At most one reconciliation\<close>

definition jobs :: "ctrl_node \<Rightarrow> nat" where
  "jobs s = length (coJobs s) + length (coEnding s)"

definition one_reconciliation :: "ctrl_node \<Rightarrow> bool" where
  "one_reconciliation s \<longleftrightarrow> jobs s = (if stReconciliation (coState s) = None then 0 else 1)"

lemma one_reconciliation_frame:
  "ctrl_frame s s' \<Longrightarrow> one_reconciliation s' = one_reconciliation s"
  by (simp add: ctrl_frame_def one_reconciliation_def jobs_def)

lemma one_reconciliation_eq:
  "coJobs s' = coJobs s \<Longrightarrow> coEnding s' = coEnding s \<Longrightarrow> stReconciliation (coState s') = stReconciliation (coState s) \<Longrightarrow>
    one_reconciliation s' = one_reconciliation s"
  by (simp add: one_reconciliation_def jobs_def)

lemma reconcile_one:
  "one_reconciliation s \<Longrightarrow> reconcile E s = (r, s') \<Longrightarrow> one_reconciliation s'"
  by (auto simp: reconcile_def GetState_def SetState_def commit_def new_ctx_def Let_def one_reconciliation_def jobs_def
      split: if_splits)

lemma startRuntimeListener_one:
  "startRuntimeListener s = (r, s') \<Longrightarrow> one_reconciliation s' = one_reconciliation s"
  by (auto simp: startRuntimeListener_def new_ctx_def SetState_def commit_def GetState_def Let_def one_reconciliation_def jobs_def)

lemma cancel_one [simp]: "one_reconciliation (cancel_ctx c s) = one_reconciliation s"
  by (rule one_reconciliation_eq) (simp_all add: cancel_ctx_def)

lemma assess_one: "one_reconciliation s \<Longrightarrow> assess E s = (r, s') \<Longrightarrow> one_reconciliation s'"
  using reconcile_one [of s E]
  by (auto simp: assess_def Let_def startRuntimeListener_one split: flow_asm if_splits option.splits)

lemma publish_one [simp]: "one_reconciliation (publish e s) = one_reconciliation s"
  by (rule one_reconciliation_eq) simp_all

text \<open>An updater that changes neither the reconciliation nor the lists of goroutines.\<close>

definition harmless :: "(ctrl_state \<Rightarrow> ctrl_node \<Rightarrow> ctrl_state res \<times> ctrl_node) \<Rightarrow> bool" where
  "harmless u \<longleftrightarrow> (\<forall>st s r s'. u st s = (r, s') \<longrightarrow> ctrl_frame s s' \<and>
     (\<forall>st'. r = Ok st' \<longrightarrow> stReconciliation st' = stReconciliation st))"

lemma harmless_updaters [simp]:
  "harmless (save_desired_state E d)" "harmless (save_state E new)" "harmless reset_errors" "harmless count_error"
  by (auto simp: harmless_def save_desired_state_def save_state_def reset_errors_def count_error_def ctrl_frame_def Let_def
      split: flow_asm option.splits)

lemma set_machine_one:
  assumes r: "SetState u s = (r, s')" and h: "harmless u"
  shows "one_reconciliation s' = one_reconciliation s"
proof -
  obtain q s1 where q: "u (coState s) s = (q, s1)" by fastforce
  have eq: "SetState u s = tryE id (q, s1) (\<lambda>state s. (Ok (), s\<lparr>coState := state\<rparr>))"
    by (simp add: SetState_def commit_def GetState_def q)
  have f: "ctrl_frame s s1" "\<And>st'. q = Ok st' \<Longrightarrow> stReconciliation st' = stReconciliation (coState s)"
    using h q by (auto simp: harmless_def)
  show ?thesis
    using r f unfolding eq by (cases q) (auto simp: one_reconciliation_def jobs_def ctrl_frame_def)
qed

lemma eventHandler_one:
  assumes one: "one_reconciliation s" and r: "eventHandler E event s = (r, s')"
  shows "one_reconciliation s'"
proof -
  have u: "one_reconciliation s2" if "SetState u s1 = (q, s2)" "harmless u" "one_reconciliation s1" for u s1 q s2
    using set_machine_one [OF that(1,2)] that(3) by simp
  show ?thesis
    using r one assess_one [OF one, of E]
    by (cases event) (auto simp: eventHandler_def Let_def dest!: u split: flow_asm if_splits option.splits)
qed

lemma finish_job_one:
  assumes "one_reconciliation s" "j \<in> set (coEnding s)" "finish_job j s = (r, s')"
  shows "one_reconciliation s'"
proof -
  have "length (coEnding s) \<noteq> 0" using assms(2) by auto
  then have "coJobs s = [] \<and> coEnding s = [j]"
    using assms(1,2) by (cases "coJobs s"; cases "coEnding s") (auto simp: one_reconciliation_def jobs_def split: if_splits)
  with assms(2,3) show ?thesis
    by (auto simp: finish_job_def SetState_def commit_def GetState_def clear_reconciliation_def one_reconciliation_def jobs_def
        length_remove1)
qed

lemma step_one:
  assumes "ctrl_step vg cfg E s s'" "one_reconciliation s"
  shows "one_reconciliation s'"
  using assms
proof cases
  case (step_dispatch i event b)
  have "one_reconciliation (s\<lparr>coBus := b\<rparr>)" using assms(2) by (simp add: one_reconciliation_def jobs_def)
  from eventHandler_one [OF this step_dispatch(2)] show ?thesis .
next
  case (step_run j s1)
  have "one_reconciliation s1" using one_reconciliation_frame [OF run_job_frame [OF step_run(3)]] assms(2) by simp
  moreover have "j \<in> set (coJobs s1)" using step_run(2) run_job_frame [OF step_run(3)] by (simp add: ctrl_frame_def)
  then have "length (coJobs s1) > 0" by auto
  ultimately show ?thesis
    using \<open>j \<in> set (coJobs s1)\<close> unfolding step_run(1)
    by (cases "coEnding s1"; cases "coJobs s1") (auto simp: one_reconciliation_def jobs_def begin_ending_def length_remove1 split: if_splits)
next
  case (step_finish j)
  from finish_job_one [OF assms(2) step_finish(1,2)] show ?thesis .
next
  case (step_tick l events)
  with one_reconciliation_frame [OF listener_tick_frame] assms(2) show ?thesis by simp
next
  case (step_done l)
  with assms(2) show ?thesis
    by (auto simp: listener_done_def SetState_def commit_def GetState_def one_reconciliation_def jobs_def)
next
  case (step_desired d)
  with assms(2) show ?thesis by (simp add: SetDesiredState_def)
next
  case step_stop
  with assms(2) show ?thesis
    by (auto simp: Stop_begin_def Let_def GetState_def cancel_ctx_def one_reconciliation_def jobs_def split: option.split)
next
  case (step_stopped st)
  with assms(2) show ?thesis by (simp add: Stop_end_def split: option.split)
next
  case step_others
  then have "ctrl_frame s s'" using same_ctrl_frame [of s' s s] by (simp add: same_ctrl_def)
  with one_reconciliation_frame assms(2) show ?thesis by blast
qed

lemma reach_one: "ctrl_reach vg cfg E s s' \<Longrightarrow> one_reconciliation s \<Longrightarrow> one_reconciliation s'"
  by (induction rule: ctrl_reach.induct) (auto intro: step_one)

section \<open>Properties\<close>

text \<open>
  C2: as long as updates of the state are not interrupted, a machine has at most one
  reconciliation at any time, running or about to clear its mark, and the mark in the state is
  set exactly while there is one.  This holds however events, ticks, stops and reconciliations
  interleave and whatever the outside world answers.
\<close>

theorem at_most_one_reconciliation:
  assumes "ctrl_reach vg cfg E (Controller_New i m n) s"
  shows "length (coJobs s) + length (coEnding s) \<le> 1 \<and>
    (stReconciliation (coState s) \<noteq> None \<longleftrightarrow> length (coJobs s) + length (coEnding s) = 1)"
proof -
  have "one_reconciliation (Controller_New i m n)"
    by (simp add: Controller_New_def node.extend_def one_reconciliation_def jobs_def)
  from reach_one [OF assms this] show ?thesis by (auto simp: one_reconciliation_def jobs_def split: if_splits)
qed

text \<open>
  The same updates with the read and the write apart.  \<open>stale_update\<close> is an update whose copy of
  the state was taken in an earlier state \<open>s0\<close>, which \<^verbatim>\<open>SetState\<close> allows: it reads before it locks.
\<close>

definition stale_update :: "(ctrl_state \<Rightarrow> ctrl_node \<Rightarrow> ctrl_state res \<times> ctrl_node) \<Rightarrow> ctrl_node \<Rightarrow> ctrl_node \<Rightarrow>
    unit res \<times> ctrl_node" where
  "stale_update u s0 s = commit u (GetState s0) s"

definition stuck :: "ctrl_node \<Rightarrow> bool" where
  "stuck s \<longleftrightarrow> stReconciliation (coState s) \<noteq> None \<and> coJobs s = [] \<and> coEnding s = []"

lemma stuck_eq:
  "coJobs s' = coJobs s \<Longrightarrow> coEnding s' = coEnding s \<Longrightarrow> stReconciliation (coState s') = stReconciliation (coState s) \<Longrightarrow>
    stuck s' = stuck s"
  by (simp add: stuck_def)

lemma stuck_frame: "ctrl_frame s s' \<Longrightarrow> stuck s' = stuck s"
  by (simp add: ctrl_frame_def stuck_def)

lemma stuck_simps [simp]:
  "stuck (publish e s) = stuck s" "stuck (cancel_ctx c s) = stuck s" "stuck (s\<lparr>coBus := b\<rparr>) = stuck s"
  "stuck (s\<lparr>coStopping := x\<rparr>) = stuck s"
  by (simp_all add: stuck_def cancel_ctx_def)

lemma stuck_SetState: "SetState u s = (r, s') \<Longrightarrow> harmless u \<Longrightarrow> stuck s \<Longrightarrow> stuck s'"
proof -
  assume r: "SetState u s = (r, s')" and h: "harmless u" and st: "stuck s"
  obtain q s1 where q: "u (coState s) s = (q, s1)" by fastforce
  have eq: "SetState u s = tryE id (q, s1) (\<lambda>state s. (Ok (), s\<lparr>coState := state\<rparr>))"
    by (simp add: SetState_def commit_def GetState_def q)
  have f: "ctrl_frame s s1" "\<And>st'. q = Ok st' \<Longrightarrow> stReconciliation st' = stReconciliation (coState s)"
    using h q by (auto simp: harmless_def)
  show "stuck s'"
    using r f st unfolding eq by (cases q) (auto simp: stuck_def ctrl_frame_def)
qed

lemma assess_stuck: "stuck s \<Longrightarrow> assess E s = (r, s') \<Longrightarrow> stuck s'"
  by (auto simp: assess_def Let_def GetState_def reconcile_def startRuntimeListener_def new_ctx_def SetState_def commit_def
      split: flow_asm if_splits option.splits) (auto simp: stuck_def)

lemma eventHandler_stuck: "stuck s \<Longrightarrow> eventHandler E event s = (r, s') \<Longrightarrow> stuck s'"
  using assess_stuck [of s E]
  by (cases event) (auto simp: eventHandler_def Let_def dest!: stuck_SetState split: flow_asm if_splits option.splits)

lemma step_stuck:
  assumes "ctrl_step vg cfg E s s'" "stuck s"
  shows "stuck s'"
  using assms
proof cases
  case (step_dispatch i event b)
  with eventHandler_stuck [of "s\<lparr>coBus := b\<rparr>"] assms(2) show ?thesis by simp
next
  case (step_run j s1)
  with assms(2) show ?thesis by (simp add: stuck_def)
next
  case (step_finish j)
  with assms(2) show ?thesis by (simp add: stuck_def)
next
  case (step_tick l events)
  with stuck_frame [OF listener_tick_frame] assms(2) show ?thesis by simp
next
  case (step_done l)
  with assms(2) show ?thesis by (auto simp: listener_done_def SetState_def commit_def GetState_def stuck_def)
next
  case (step_desired d)
  with assms(2) show ?thesis by (simp add: SetDesiredState_def)
next
  case step_stop
  with assms(2) show ?thesis by (simp add: Stop_begin_def Let_def split: option.split)
next
  case (step_stopped st)
  with assms(2) show ?thesis by (simp add: Stop_end_def split: option.split)
next
  case step_others
  then have "ctrl_frame s s'" using same_ctrl_frame [of s' s s] by (simp add: same_ctrl_def)
  with stuck_frame assms(2) show ?thesis by blast
qed

lemma reach_stuck: "ctrl_reach vg cfg E s s' \<Longrightarrow> stuck s \<Longrightarrow> stuck s'"
  by (induction rule: ctrl_reach.induct) (auto intro: step_stuck)

text \<open>
  C19: the read outside the lock loses updates.  If the dispatcher copies the state to record a new
  machine state, the reconciliation that is ending then clears its mark, and the dispatcher
  writes its copy back, the mark is set with no reconciliation behind it, and no later event,
  tick or request ever clears it: the machine is never reconciled again.
\<close>

theorem lost_update_blocks_reconciliation:
  assumes "stReconciliation (coState s0) \<noteq> None" and "coJobs s0 = []" and "coEnding s0 = [j]"
    and "finish_job j s0 = (Ok (), s1)" and "stale_update (save_state E new) s0 s1 = (Ok (), s2)"
    and "ctrl_reach vg cfg E s2 s"
  shows "stReconciliation (coState s) \<noteq> None \<and> coJobs s = [] \<and> coEnding s = []"
proof -
  have "stuck s2"
    using assms(1-5)
    by (auto simp: finish_job_def SetState_def commit_def GetState_def clear_reconciliation_def stale_update_def save_state_def
        stuck_def Let_def split: flow_asm)
  from reach_stuck [OF assms(6) this] show ?thesis by (simp add: stuck_def)
qed

definition ending_ctrl :: ctrl_node where
  "ending_ctrl = start_ctrl\<lparr>coState := (coState start_ctrl)\<lparr>stReconciliation :=
      Some \<lparr>rnDesiredState = MachineDesiredStateRunning, rnStartedAt = 0, rnCancel = 1\<rparr>\<rparr>,
     coEnding := [\<lparr>jbDesired = MachineDesiredStateRunning, jbMachine = idle_machine, jbCtx = 1\<rparr>]\<rparr>"

theorem at_most_one_reconciliation_witness:
  "\<exists>s. ctrl_reach ''vg'' sample_config quiet_env (Controller_New ''h'' idle_machine bare_node) s \<and> length (coJobs s) = 1 \<and>
     stReconciliation (coState s) \<noteq> None"
proof -
  let ?s = "Controller_New ''h'' idle_machine bare_node"
  obtain b where b: "receive_event 0 (coBus ?s) = Some (AssessStateMessage, b)"
    by (simp add: receive_event_def Controller_New_def node.extend_def PublishEvent_def SubscribeToEvents_def NewBus_def)
  let ?s1 = "snd (eventHandler quiet_env AssessStateMessage (?s\<lparr>coBus := b\<rparr>))"
  have e: "eventHandler quiet_env AssessStateMessage (?s\<lparr>coBus := b\<rparr>) = (Ok (), ?s1)" and j: "length (coJobs ?s1) = 1"
    by (simp_all add: eventHandler_def assess_def Let_def GetState_def Controller_New_def node.extend_def reconcile_def SetState_def
        commit_def new_ctx_def shouldReconcile_def idle_machine_def shouldStartRuntimeListener_def)
  have r: "ctrl_reach ''vg'' sample_config quiet_env ?s ?s1"
    by (rule reach_step [OF reach_start step_dispatch [OF b e]])
  from at_most_one_reconciliation [OF r] r j show ?thesis by (intro exI [of _ ?s1]) auto
qed

theorem lost_update_blocks_reconciliation_witness:
  "\<exists>s1 s2. finish_job (hd (coEnding ending_ctrl)) ending_ctrl = (Ok (), s1) \<and>
     stale_update (save_state quiet_env MachineStateStarting) ending_ctrl s1 = (Ok (), s2) \<and>
     shouldReconcile (stMachine (coState s2)) \<and> stReconciliation (coState s2) \<noteq> None \<and> coJobs s2 = []"
proof -
  have e: "stReconciliation (coState ending_ctrl) \<noteq> None" "coJobs ending_ctrl = []"
    "coEnding ending_ctrl = [hd (coEnding ending_ctrl)]"
    by (simp_all add: ending_ctrl_def start_ctrl_def)
  obtain s1 where 1: "finish_job (hd (coEnding ending_ctrl)) ending_ctrl = (Ok (), s1)"
    by (simp add: finish_job_def SetState_def commit_def clear_reconciliation_def)
  obtain s2 where 2: "stale_update (save_state quiet_env MachineStateStarting) ending_ctrl s1 = (Ok (), s2)"
    "shouldReconcile (stMachine (coState s2))"
    by (simp add: stale_update_def commit_def save_state_def call_cases quiet_env_def GetState_def ending_ctrl_def start_ctrl_def
        idle_machine_def shouldReconcile_def Let_def)
  from lost_update_blocks_reconciliation [OF e 1 2(1) reach_start] 1 2 show ?thesis by blast
qed

end
