(* ===== verification/MachineService.thy ===== *)
theory MachineService
  imports ControllerSteps
begin

text \<open>
  \<^verbatim>\<open>nodeagent/internal/machineservice\<close>: the machines of the node, one controller each, and what the
  service adds to a controller's bus: storing its events and dropping the controller of a
  terminated machine.  The service's fields extend the node's memory; a controller is held as the
  fields that \<^verbatim>\<open>Controller\<close> has beyond it (\<open>ctrl_rest\<close>) and works on the node's memory and its own
  fields together (\<open>ctrl_at\<close>).  The map of controllers is an association list.
\<close>

section \<open>State\<close>

type_synonym ctrl_rest = "unit ctrl_node_ext"

text \<open>
  A subscription of \<^verbatim>\<open>SubscribeToEvents\<close>: the goroutines that have not looked at the context yet,
  those that wait on the channel, whether the context is done and whether the channel is closed.
\<close>

record subscription =
  sbStarted :: "machine_event list"
  sbWaiting :: "machine_event list"
  sbDone :: bool
  sbClosed :: bool

text \<open>A worker is not started (\<open>None\<close>), running or cancelled.\<close>

record ms_node = node +
  msControllers :: "(string \<times> ctrl_rest) list"
  msEvents :: "(machine_event, string) bus"
  msSubs :: "(string \<times> subscription) list"
  msDispatcher :: "bool option"
  msGCWorker :: "bool option"

definition ctrl_at :: "ctrl_rest \<Rightarrow> 'm node_scheme \<Rightarrow> ctrl_node" where
  "ctrl_at c s = node.extend (node.truncate s) c"

definition on_ctrl :: "string \<Rightarrow> ctrl_rest \<Rightarrow> (ctrl_node \<Rightarrow> 'a \<times> ctrl_node) \<Rightarrow> 'm ms_node_scheme \<Rightarrow> 'a \<times> 'm ms_node_scheme" where
  "on_ctrl i c f s = (let (x, c') = f (ctrl_at c s); s = node.extend (node.truncate c') (node.more s)
     in (x, s\<lparr>msControllers := AList.update i (node.more c') (msControllers s)\<rparr>))"

definition controller :: "string \<Rightarrow> 'm ms_node_scheme \<Rightarrow> ctrl_node option" where
  "controller i s = map_option (\<lambda>c. ctrl_at c s) (map_of (msControllers s) i)"

section \<open>\<^verbatim>\<open>service.go\<close>\<close>

definition MachineService_New :: "node \<Rightarrow> ms_node" where
  "MachineService_New n = node.extend n \<lparr>msControllers = [], msEvents = NewBus, msSubs = [],
     msDispatcher = None, msGCWorker = None\<rparr>"

text \<open>A new controller with its three handlers, each under an identifier of its own.\<close>

definition newMachineController :: "'e node_env_scheme \<Rightarrow> machine \<Rightarrow> 'm node_scheme \<Rightarrow> ctrl_rest \<times> 'm node_scheme" where
  "newMachineController E m s =
    (let (i0, s) = gen_id E s; ctrl = Controller_New i0 m (node.truncate s);
         (i1, s) = gen_id E s; ctrl = ctrl\<lparr>coBus := SubscribeToEvents i1 (StorageHandler m) (coBus ctrl)\<rparr>;
         (i2, s) = gen_id E s; ctrl = ctrl\<lparr>coBus := SubscribeToEvents i2 (TerminatedHandler m) (coBus ctrl)\<rparr>
     in (node.more ctrl, s))"

definition set_controller :: "'e node_env_scheme \<Rightarrow> machine \<Rightarrow> 'm ms_node_scheme \<Rightarrow> 'm ms_node_scheme" where
  "set_controller E m s = (let (c, s) = newMachineController E m s
     in s\<lparr>msControllers := AList.update (mID m) c (msControllers s)\<rparr>)"

text \<open>
  The rows that the query answers, with the objects it preloads placed in memory.  The source of
  a volume is not among the preloaded associations.
\<close>

definition place :: "nat \<Rightarrow> (nat \<times> 'a) list \<Rightarrow> (nat \<rightharpoonup> 'a) \<Rightarrow> nat \<rightharpoonup> 'a" where
  "place base xs h = h ++ map_of (map (\<lambda>(a, x). (base + a, x)) xs)"

definition place_machine :: "nat \<Rightarrow> machine \<Rightarrow> machine" where
  "place_machine base m = m\<lparr>mVolumes := map (\<lambda>mv. mv\<lparr>mvImage := map_option ((+) base) (mvImage mv),
       mvVolume := map_option ((+) base) (mvVolume mv)\<rparr>) (mVolumes m),
     mContainers := map ((+) base) (mContainers m), mNetworkInterface := map_option ((+) base) (mNetworkInterface m)\<rparr>"

definition place_loaded :: "loaded \<Rightarrow> 'm node_scheme \<Rightarrow> machine list \<times> 'm node_scheme" where
  "place_loaded ld s = (let base = nNext s in
    (map (place_machine base) (filter (\<lambda>m. mState m \<noteq> MachineStateTerminated) (ldMachines ld)),
     s\<lparr>nIfaces := place base (ldIfaces ld) (nIfaces s),
       nVolumes := place base (map (\<lambda>(a, v). (a, v\<lparr>voSource := None\<rparr>)) (ldVolumes ld)) (nVolumes s),
       nImages := place base (map (\<lambda>(a, i). (a, i\<lparr>imVolume := map_option ((+) base) (imVolume i)\<rparr>)) (ldImages ld)) (nImages s),
       nContainers := place base (ldContainers ld) (nContainers s),
       nNext := base + ldCount ld\<rparr>))"

definition loadMachines :: "'e node_env_scheme \<Rightarrow> 'm ms_node_scheme \<Rightarrow> unit res \<times> 'm ms_node_scheme" where
  "loadMachines E s =
    tryE (Wrap ''failed to retrieve machines'') (call_val E (Db DbFindMachines) (ne_machines E) s) (\<lambda>ld s.
    let (machines, s) = place_loaded ld s in (Ok (), fold (set_controller E) machines s))"

definition MachineService_Start :: "'e node_env_scheme \<Rightarrow> 'm ms_node_scheme \<Rightarrow> unit res \<times> 'm ms_node_scheme" where
  "MachineService_Start E s = (let s = s\<lparr>msDispatcher := Some True\<rparr> in
    tryE (Wrap ''failed to load machines'') (loadMachines E s) (\<lambda>_ s.
    (Ok (), s\<lparr>msGCWorker := Some True\<rparr>)))"

definition MachineService_Stop :: "'m ms_node_scheme \<Rightarrow> unit res \<times> 'm ms_node_scheme" where
  "MachineService_Stop s = (let s = s\<lparr>msGCWorker := map_option (\<lambda>_. False) (msGCWorker s)\<rparr> in
    (Ok (), s\<lparr>msDispatcher := map_option (\<lambda>_. False) (msDispatcher s)\<rparr>))"

section \<open>\<^verbatim>\<open>create.go\<close>\<close>

definition machine_volume_of :: "string \<Rightarrow> nat \<Rightarrow> string \<Rightarrow> string \<Rightarrow> nat \<Rightarrow> image \<Rightarrow> nat \<Rightarrow> string \<Rightarrow> machine_volume" where
  "machine_volume_of mvid position machineID containerID ia im va vid =
    \<lparr>mvID = mvid, mvPosition = position, mvMachineID = machineID, mvContainerID = containerID,
     mvImageID = Some (imID im), mvImage = Some ia, mvVolumeID = vid, mvVolume = Some va\<rparr>"

definition container_volume :: "string \<Rightarrow> image \<Rightarrow> volume \<Rightarrow> volume" where
  "container_volume vid im source = \<lparr>voID = vid, voSize = 1024, voPath = None, voSourceID = Some (voID source),
     voSource = imVolume im, voAllocatedAt = None, voReleasedAt = None\<rparr>"

fun add_containers :: "'e node_env_scheme \<Rightarrow> machine_create_container_options list \<Rightarrow> machine \<Rightarrow> 'm node_scheme \<Rightarrow>
    machine res \<times> 'm node_scheme" where
  "add_containers E [] m s = (Ok m, s)"
| "add_containers E (opt # opts) m s = (case mccSpec opt of
      None \<Rightarrow> (Panic ''nil pointer dereference'', s)
    | Some spec \<Rightarrow>
        tryE (wrap_v (''failed ot fetch container image details ('' @ csImage spec @ '')'')) (FetchDetails E (csImage spec) s) (\<lambda>ia s.
        tryE id (deref (nImages s) (Some ia) s) (\<lambda>im s.
        let (vid, s) = gen_id E s in
        tryE id (deref (nVolumes s) (imVolume im) s) (\<lambda>source s.
        let (mvid, s) = gen_id E s; ca = nNext s; va = Suc ca;
            s = s\<lparr>nContainers := (nContainers s)(ca \<mapsto> \<lparr>ctID = mccContainerID opt, ctMachineID = mID m, ctSpec = Some spec\<rparr>),
                  nVolumes := (nVolumes s)(va \<mapsto> container_volume vid im source), nNext := Suc va\<rparr>
        in add_containers E opts
             (m\<lparr>mContainers := mContainers m @ [ca], mVolumes := mVolumes m @
                [machine_volume_of mvid (length (mVolumes m)) (mID m) (mccContainerID opt) ia im va vid]\<rparr>) s))))"

definition new_machine :: "machine_create_options \<Rightarrow> machine" where
  "new_machine opts = \<lparr>mID = mcoMachineID opts, mState = MachineStatePending, mDesiredState = mcoDesiredState opts,
     mSpec = mcoSpec opts, mNetworkInterfaceID = None, mVolumes = [], mContainers = [], mNetworkInterface = None,
     mTerminatedAt = None\<rparr>"

definition Create :: "'e node_env_scheme \<Rightarrow> machine_create_options \<Rightarrow> 'm ms_node_scheme \<Rightarrow> machine res \<times> 'm ms_node_scheme" where
  "Create E opts s =
    tryE id (add_containers E (mcoContainers opts) (new_machine opts) s) (\<lambda>m s.
    tryE (Wrap ''failed to allocate network interface'') (AllocateInterface E s) (\<lambda>a s.
    tryE id (deref (nIfaces s) (Some a) s) (\<lambda>ni s.
    let m = m\<lparr>mNetworkInterfaceID := Some (niID ni), mNetworkInterface := Some a\<rparr> in
    deferE
      (tryE (Wrap ''failed to create machine'') (call E (Db (DbCreateMachine m)) s) (\<lambda>_ s.
         (Ok m, set_controller E m s)))
      (\<lambda>r s. case r of Err _ \<Rightarrow> snd (ReleaseInterface E (Some a) s) | _ \<Rightarrow> s))))"

section \<open>\<^verbatim>\<open>find_by_id.go\<close>, \<^verbatim>\<open>list.go\<close>, \<^verbatim>\<open>update_desired_state.go\<close>\<close>

definition FindByID :: "string \<Rightarrow> 'm ms_node_scheme \<Rightarrow> machine res \<times> 'm ms_node_scheme" where
  "FindByID machineID s = (case map_of (msControllers s) machineID of
      None \<Rightarrow> (Err ErrMachineNotFound, s)
    | Some c \<Rightarrow> (Ok (stMachine (GetState (ctrl_at c s))), s))"

definition List :: "'m ms_node_scheme \<Rightarrow> machine list res \<times> 'm ms_node_scheme" where
  "List s = (Ok (map (\<lambda>(_, c). stMachine (GetState (ctrl_at c s))) (msControllers s)), s)"

definition UpdateDesiredState :: "'e node_env_scheme \<Rightarrow> string \<Rightarrow> machine_desired_state \<Rightarrow> 'm ms_node_scheme \<Rightarrow>
    machine res \<times> 'm ms_node_scheme" where
  "UpdateDesiredState E machineID d s = (case map_of (msControllers s) machineID of
      None \<Rightarrow> (Err ErrMachineNotFound, s)
    | Some c \<Rightarrow> on_ctrl machineID c (\<lambda>ctrl. let ctrl = SetDesiredState E d ctrl in (Ok (stMachine (GetState ctrl)), ctrl)) s)"

section \<open>\<^verbatim>\<open>events.go\<close>\<close>

text \<open>The container of the machine with an identifier.\<close>

fun find_container :: "nat list \<Rightarrow> string \<Rightarrow> 'm node_scheme \<Rightarrow> container option res \<times> 'm node_scheme" where
  "find_container [] cid s = (Ok None, s)"
| "find_container (a # as) cid s = tryE id (deref (nContainers s) (Some a) s) (\<lambda>current s.
     if ctID current = cid then (Ok (Some current), s) else find_container as cid s)"

text \<open>The last part of the storage handler: marshal, insert, publish.\<close>

definition store_event :: "'e node_env_scheme \<Rightarrow> machine_event \<Rightarrow> 8 word list res \<Rightarrow> 'm ms_node_scheme \<Rightarrow> unit res \<times> 'm ms_node_scheme" where
  "store_event E mev payload s =
    catchE (payload, s)
      (\<lambda>bytes s. let mev = mev\<lparr>mevPayload := bytes\<rparr> in
         catchE (call E (Db (DbCreateEvent mev)) s)
           (\<lambda>_ s. (Ok (), s\<lparr>msEvents := PublishEvent mev (msEvents s)\<rparr>))
           (\<lambda>_ s. (Ok (), s)))
      (\<lambda>_ s. (Ok (), s))"

definition handleMachineEventsStorage :: "'e node_env_scheme \<Rightarrow> machine \<Rightarrow> message \<Rightarrow> 'm ms_node_scheme \<Rightarrow> unit res \<times> 'm ms_node_scheme" where
  "handleMachineEventsStorage E m anyEvent s = (case anyEvent of
      DesiredStateChangedMessage d t \<Rightarrow> let (i, s) = gen_id E s in
        store_event E \<lparr>mevID = i, mevType = MachineEventTypeDesiredStateChanged, mevMachineID = mID m, mevContainerID = None,
            mevPayload = [], mevTimestamp = t\<rparr>
          (ne_marshal_machine E \<lparr>pmeEventId = i, pmeMachineId = mID m, pmeTimestamp = t,
            pmeEvent = MachineEvent_DesiredStateChanged (FromMachineDesiredState d)\<rparr>) s
    | StateChangedMessage st t \<Rightarrow> let (i, s) = gen_id E s in
        store_event E \<lparr>mevID = i, mevType = MachineEventTypeStateChanged, mevMachineID = mID m, mevContainerID = None,
            mevPayload = [], mevTimestamp = t\<rparr>
          (ne_marshal_machine E \<lparr>pmeEventId = i, pmeMachineId = mID m, pmeTimestamp = t,
            pmeEvent = MachineEvent_StateChanged (FromMachineState st)\<rparr>) s
    | ContainerStateChangedMessage i ev t \<Rightarrow>
        tryE id (find_container (mContainers m) (pceContainerId ev) s) (\<lambda>found s. case found of
          None \<Rightarrow> (Ok (), s)
        | Some ct \<Rightarrow>
            store_event E \<lparr>mevID = i, mevType = MachineEventTypeContainerStateChanged, mevMachineID = mID m,
                mevContainerID = Some (ctID ct), mevPayload = [], mevTimestamp = t\<rparr>
              (ne_marshal_container E \<lparr>pcnEventId = i, pcnContainerId = ctID ct, pcnTimestamp = t,
                pcnStateChanged = ev\<lparr>pceContainerId := []\<rparr>\<rparr>) s)
    | _ \<Rightarrow> (Ok (), s))"

text \<open>
  \<^verbatim>\<open>Stop\<close> of a controller as one call; while it waits, the rest of the agent goes on.  A removed
  controller is not modelled further.
\<close>

definition Controller_Stop :: "'m ctrl_node_scheme \<Rightarrow> unit res \<times> 'm ctrl_node_scheme" where
  "Controller_Stop s = (let (state, s) = Stop_begin s in Stop_end state s)"

definition handleMachineTerminated :: "machine \<Rightarrow> message \<Rightarrow> 'm ms_node_scheme \<Rightarrow> unit res \<times> 'm ms_node_scheme" where
  "handleMachineTerminated m anyEvent s = (case anyEvent of
      StateChangedMessage st _ \<Rightarrow>
        if st \<noteq> MachineStateTerminated then (Ok (), s) else
        (case map_of (msControllers s) (mID m) of
           None \<Rightarrow> (Ok (), s)
         | Some c \<Rightarrow> catchE (on_ctrl (mID m) c Controller_Stop s)
             (\<lambda>_ s. (Ok (), s\<lparr>msControllers := AList.delete (mID m) (msControllers s)\<rparr>))
             (\<lambda>_ s. (Ok (), s)))
    | _ \<Rightarrow> (Ok (), s))"

text \<open>
  One turn of a controller's dispatcher with the handlers of the service: an event that waits on
  the bus of controller \<open>i\<close> goes to each of its handlers.
\<close>

definition run_handler :: "'e node_env_scheme \<Rightarrow> string \<Rightarrow> ctrl_handler \<Rightarrow> message \<Rightarrow> 'm ms_node_scheme \<Rightarrow> unit res \<times> 'm ms_node_scheme" where
  "run_handler E i h event s = (case h of
      EventHandler \<Rightarrow> (case map_of (msControllers s) i of
          None \<Rightarrow> (Ok (), s)
        | Some c \<Rightarrow> on_ctrl i c (eventHandler E event) s)
    | StorageHandler m \<Rightarrow> handleMachineEventsStorage E m event s
    | TerminatedHandler m \<Rightarrow> handleMachineTerminated m event s)"

fun run_handlers :: "'e node_env_scheme \<Rightarrow> string \<Rightarrow> ctrl_handler list \<Rightarrow> message \<Rightarrow> 'm ms_node_scheme \<Rightarrow> unit res \<times> 'm ms_node_scheme" where
  "run_handlers E i [] event s = (Ok (), s)"
| "run_handlers E i (h # hs) event s = tryE id (run_handler E i h event s) (\<lambda>_ s. run_handlers E i hs event s)"

definition dispatch :: "'e node_env_scheme \<Rightarrow> string \<Rightarrow> nat \<Rightarrow> 'm ms_node_scheme \<Rightarrow> unit res \<times> 'm ms_node_scheme" where
  "dispatch E i k s = (case map_of (msControllers s) i of
      None \<Rightarrow> (Ok (), s)
    | Some c \<Rightarrow> (case receive_event k (coBus (ctrl_at c s)) of
        None \<Rightarrow> (Ok (), s)
      | Some (event, b) \<Rightarrow> run_handlers E i (map snd (busHandlers b)) event
          (snd (on_ctrl i c (\<lambda>ctrl. ((), ctrl\<lparr>coBus := b\<rparr>)) s))))"

definition ListEvents :: "'e node_env_scheme \<Rightarrow> string \<Rightarrow> 'm node_scheme \<Rightarrow> machine_event list res \<times> 'm node_scheme" where
  "ListEvents E machineID s = tryE (Wrap ''could not list machine events'')
     (call_val E (Db (DbFindEvents machineID)) (ne_events E) s) (\<lambda>events s. (Ok events, s))"

text \<open>
  \<^verbatim>\<open>SubscribeToEvents\<close>, the handler it subscribes (a new goroutine per event), that goroutine's look
  at the context, the receiver's side of the channel, and the goroutine that waits for the
  context's end.  Closing a channel panics the goroutines that wait to send on it.
\<close>

definition MachineService_SubscribeToEvents :: "'e node_env_scheme \<Rightarrow> 'm ms_node_scheme \<Rightarrow> string \<times> 'm ms_node_scheme" where
  "MachineService_SubscribeToEvents E s = (let (i, s) = gen_id E s in
    (i, s\<lparr>msEvents := SubscribeToEvents i i (msEvents s),
         msSubs := AList.update i \<lparr>sbStarted = [], sbWaiting = [], sbDone = False, sbClosed = False\<rparr> (msSubs s)\<rparr>))"

definition event_subscriber :: "machine_event \<Rightarrow> subscription \<Rightarrow> subscription" where
  "event_subscriber event b = b\<lparr>sbStarted := event # sbStarted b\<rparr>"

definition event_sender :: "machine_event \<Rightarrow> subscription \<Rightarrow> subscription" where
  "event_sender event b = (let b = b\<lparr>sbStarted := remove1 event (sbStarted b)\<rparr>
     in if sbDone b then b else b\<lparr>sbWaiting := event # sbWaiting b\<rparr>)"

definition event_received :: "machine_event \<Rightarrow> subscription \<Rightarrow> subscription" where
  "event_received event b = b\<lparr>sbWaiting := remove1 event (sbWaiting b)\<rparr>"

definition subscription_end :: "string \<Rightarrow> 'm ms_node_scheme \<Rightarrow> unit res \<times> 'm ms_node_scheme" where
  "subscription_end i s = (let s = s\<lparr>msEvents := UnsubscribeFromEvents i (msEvents s)\<rparr> in
    case map_of (msSubs s) i of
      None \<Rightarrow> (Ok (), s)
    | Some b \<Rightarrow> (if sbWaiting b \<noteq> [] then Panic ''send on closed channel'' else Ok (),
         s\<lparr>msSubs := AList.update i (b\<lparr>sbDone := True, sbClosed := True\<rparr>) (msSubs s)\<rparr>))"

text \<open>\<^verbatim>\<open>MachineEvent.ProtoPayload\<close> of \<^verbatim>\<open>types/machine.go\<close>.\<close>

datatype proto_payload = MachineProto pb_machine_event | ContainerProto pb_container_event

definition event_type_string :: "machine_event_type \<Rightarrow> string" where
  "event_type_string t = (case t of
      MachineEventTypeStateChanged \<Rightarrow> ''state_changed''
    | MachineEventTypeDesiredStateChanged \<Rightarrow> ''desired_state_changed''
    | MachineEventTypeContainerStateChanged \<Rightarrow> ''container_state_changed''
    | MachineEventTypeOther x \<Rightarrow> x)"

definition ProtoPayload :: "'e node_env_scheme \<Rightarrow> machine_event \<Rightarrow> proto_payload res" where
  "ProtoPayload E e = (case mevType e of
      MachineEventTypeContainerStateChanged \<Rightarrow> fst (tryE id (ne_unmarshal_container E (mevPayload e), ()) (\<lambda>p u. (Ok (ContainerProto p), u)))
    | MachineEventTypeOther x \<Rightarrow> Err (Errorf (''unknown proto type: '' @ x))
    | _ \<Rightarrow> fst (tryE id (ne_unmarshal_machine E (mevPayload e), ()) (\<lambda>p u. (Ok (MachineProto p), u))))"

section \<open>\<^verbatim>\<open>get_machine_logs.go\<close>, \<^verbatim>\<open>get_container_logs.go\<close>, \<^verbatim>\<open>gc.go\<close>\<close>

text \<open>What a channel carries over its life, and whether its sender closes it.\<close>

record 'a channel =
  chSent :: "'a list"
  chClosed :: bool

record machine_log =
  mlContent :: string
  mlTimestamp :: nat

record container_log =
  clContainerID :: string
  clError :: bool
  clContent :: string
  clTimestamp :: nat

fun machine_log_entries :: "log_entry list \<Rightarrow> machine_log list" where
  "machine_log_entries [] = []"
| "machine_log_entries (log # logs) = (if leSource log \<noteq> MachineLogEntrySource then machine_log_entries logs
     else \<lparr>mlContent = leMessage log, mlTimestamp = leTimestamp log\<rparr> # machine_log_entries logs)"

fun container_log_entries :: "log_entry list \<Rightarrow> container_log list res" where
  "container_log_entries [] = Ok []"
| "container_log_entries (log # logs) = (if leSource log \<noteq> ContainerLogEntrySource then container_log_entries logs
     else (case leContainerID log of
         None \<Rightarrow> Panic ''nil pointer dereference''
       | Some cid \<Rightarrow> fst (tryE id (container_log_entries logs, ()) (\<lambda>ls u. (Ok (\<lparr>clContainerID = cid, clError = leStderr log,
            clContent = leMessage log, clTimestamp = leTimestamp log\<rparr> # ls), u)))))"

definition log_path :: "config \<Rightarrow> string \<Rightarrow> string" where
  "log_path cfg machineID = path_join [GetMachineDirectory cfg machineID, ''logs.json'']"

definition read_log_file :: "config \<Rightarrow> 'e node_env_scheme \<Rightarrow> nat \<Rightarrow> string \<Rightarrow> 'm node_scheme \<Rightarrow> log_entry list res \<times> 'm node_scheme" where
  "read_log_file cfg E turns machineID s =
    tryE (Wrap ''failed to read logs'')
      (let (opened, s) = call_val E (Os (OpenFile (log_path cfg machineID))) (ne_log_file E) s in (ReadLogs opened turns, s))
      (\<lambda>entries s. (Ok entries, s))"

definition readMachineLogsFromFile :: "config \<Rightarrow> 'e node_env_scheme \<Rightarrow> nat \<Rightarrow> string \<Rightarrow> 'm node_scheme \<Rightarrow>
    machine_log channel res \<times> 'm node_scheme" where
  "readMachineLogsFromFile cfg E turns machineID s = tryE id (read_log_file cfg E turns machineID s) (\<lambda>entries s.
     (Ok \<lparr>chSent = machine_log_entries entries, chClosed = True\<rparr>, s))"

definition GetMachineLogs :: "config \<Rightarrow> 'e node_env_scheme \<Rightarrow> nat \<Rightarrow> string \<Rightarrow> bool \<Rightarrow> 'm ms_node_scheme \<Rightarrow>
    machine_log channel res \<times> 'm ms_node_scheme" where
  "GetMachineLogs cfg E turns machineID follow s =
    (if map_of (msControllers s) machineID = None then readMachineLogsFromFile cfg E turns machineID s
     else tryE id (call_val E (Rt (RuntimeGetLogs machineID follow)) (ne_log_stream E) s) (\<lambda>logs s.
       (Ok \<lparr>chSent = map (\<lambda>log. \<lparr>mlContent = rlgContent log, mlTimestamp = rlgTimestamp log\<rparr>) logs, chClosed = False\<rparr>, s)))"

definition readContainerLogsFromFile :: "config \<Rightarrow> 'e node_env_scheme \<Rightarrow> nat \<Rightarrow> string \<Rightarrow> 'm node_scheme \<Rightarrow>
    container_log channel res \<times> 'm node_scheme" where
  "readContainerLogsFromFile cfg E turns machineID s = tryE id (read_log_file cfg E turns machineID s) (\<lambda>entries s.
     tryE id (container_log_entries entries, s) (\<lambda>logs s. (Ok \<lparr>chSent = logs, chClosed = True\<rparr>, s)))"

definition GetContainerLogs :: "config \<Rightarrow> 'e node_env_scheme \<Rightarrow> nat \<Rightarrow> string \<Rightarrow> string \<Rightarrow> bool \<Rightarrow> 'm ms_node_scheme \<Rightarrow>
    container_log channel res \<times> 'm ms_node_scheme" where
  "GetContainerLogs cfg E turns machineID containerID follow s =
    (if map_of (msControllers s) machineID = None then readContainerLogsFromFile cfg E turns machineID s
     else tryE id (call_val E (Rt (RuntimeGetContainerLogs machineID containerID follow)) (ne_log_stream E) s) (\<lambda>logs s.
       (Ok \<lparr>chSent = map (\<lambda>log. \<lparr>clContainerID = rlgContainerID log, clError = rlgError log, clContent = rlgContent log,
          clTimestamp = rlgTimestamp log\<rparr>) logs, chClosed = False\<rparr>, s)))"

definition performGC :: "'m ms_node_scheme \<Rightarrow> 'm ms_node_scheme" where
  "performGC s = s"

end
