(* ===== verification/ServiceInterface.thy ===== *)
theory ServiceInterface
  imports NodeTypes
begin

text \<open>
  \<^verbatim>\<open>types.MachineService\<close>, the interface between the machine service and its clients (the
  connection to the control plane, the API server, the gateway): the operations as a record of
  functions, as a Go interface value is, and their contract as a locale.

  \<open>known s i\<close>: machine \<open>i\<close> has a controller.  \<open>asked s i d\<close>: the controller of \<open>i\<close> has been asked for
  the desired state \<open>d\<close> and has not handled the request yet.
\<close>

record 's service_ops =
  svList :: "'s \<Rightarrow> machine list res \<times> 's"
  svFindByID :: "string \<Rightarrow> 's \<Rightarrow> machine res \<times> 's"
  svCreate :: "machine_create_options \<Rightarrow> 's \<Rightarrow> machine res \<times> 's"
  svUpdateDesiredState :: "string \<Rightarrow> machine_desired_state \<Rightarrow> 's \<Rightarrow> machine res \<times> 's"
  svListEvents :: "string \<Rightarrow> 's \<Rightarrow> machine_event list res \<times> 's"

locale machine_service =
  fixes sv :: "'m node_scheme service_ops"
    and known :: "'m node_scheme \<Rightarrow> string \<Rightarrow> bool"
    and asked :: "'m node_scheme \<Rightarrow> string \<Rightarrow> machine_desired_state \<Rightarrow> bool"
    and inv :: "'m node_scheme \<Rightarrow> bool"
  assumes list_ok: "inv s \<Longrightarrow> \<exists>ms. svList sv s = (Ok ms, s) \<and> mID ` set ms = {i. known s i}"
    and find_known: "inv s \<Longrightarrow> known s i \<Longrightarrow> \<exists>m. svFindByID sv i s = (Ok m, s) \<and> mID m = i"
    and find_unknown: "\<not> known s i \<Longrightarrow> svFindByID sv i s = (Err ErrMachineNotFound, s)"
    and update_known: "inv s \<Longrightarrow> known s i \<Longrightarrow> svUpdateDesiredState sv i d s = (r, s') \<Longrightarrow>
          (\<exists>m. r = Ok m) \<and> inv s' \<and> known s' = known s \<and>
          asked s' i d \<and> (\<forall>j e. asked s j e \<longrightarrow> asked s' j e)"
    and update_unknown: "\<not> known s i \<Longrightarrow> svUpdateDesiredState sv i d s = (Err ErrMachineNotFound, s)"
    and create_known: "inv s \<Longrightarrow> svCreate sv opts s = (r, s') \<Longrightarrow>
          inv s' \<and> (\<forall>j. known s' j \<longleftrightarrow> known s j \<or> is_ok r \<and> j = mcoMachineID opts) \<and>
          (\<forall>m. r = Ok m \<longrightarrow> mID m = mcoMachineID opts)"
    and create_asked: "inv s \<Longrightarrow> svCreate sv opts s = (r, s') \<Longrightarrow> j \<noteq> mcoMachineID opts \<Longrightarrow> asked s j e \<Longrightarrow> asked s' j e"
    and events_trace: "svListEvents sv i s = (evs, s') \<Longrightarrow> trace_only s s'"
    and trace_free: "known (s\<lparr>nTrace := t\<rparr>) = known s" "asked (s\<lparr>nTrace := t\<rparr>) = asked s" "inv (s\<lparr>nTrace := t\<rparr>) = inv s"
begin

lemma trace_only_free: "trace_only s s' \<Longrightarrow> known s' = known s \<and> asked s' = asked s \<and> inv s' = inv s"
  by (auto elim!: trace_onlyE simp: trace_free)

text \<open>An update of any machine, with the sentinel error accepted, succeeds and keeps the rest.\<close>

lemma update_any:
  assumes "inv s" "svUpdateDesiredState sv i d s = (r, s')"
  shows "((\<exists>m. r = Ok m) \<or> r = Err ErrMachineNotFound) \<and> inv s' \<and> known s' = known s \<and>
    (known s i \<longrightarrow> asked s' i d) \<and> (\<forall>j e. asked s j e \<longrightarrow> asked s' j e)"
proof (cases "known s i")
  case True
  from update_known [OF assms(1) True assms(2)] show ?thesis by blast
next
  case False
  with assms(2) update_unknown [OF False] have "r = Err ErrMachineNotFound" "s' = s" by auto
  with False assms(1) show ?thesis by simp
qed

end

end
