(* ===== verification/MachineServiceProps.thy ===== *)
theory MachineServiceProps
  imports MachineService ServiceInterface
begin

text \<open>
  What the machine service promises: the contract of \<^verbatim>\<open>types.MachineService\<close> and its interpretation,
  creation on every path, the fate of a terminated machine's controller, stored events.
\<close>

section \<open>Controllers as data\<close>

definition state_of :: "ctrl_rest \<Rightarrow> ctrl_state" where
  "state_of c = coState (ctrl_at c bare_node)"

definition bus_of :: "ctrl_rest \<Rightarrow> (message, ctrl_handler) bus" where
  "bus_of c = coBus (ctrl_at c bare_node)"

lemma restE: obtains s0 :: ctrl_node where "c = node.more s0"
  by (rule that [of "node.extend bare_node c"]) (simp add: node.defs)

lemma ctrl_at_fields [simp]: "coState (ctrl_at c s) = state_of c" "coBus (ctrl_at c s) = bus_of c"
  by (rule restE [of c], rename_tac s0, case_tac s0, simp add: ctrl_at_def node.defs state_of_def bus_of_def)+

lemma of_more [simp]: "state_of (node.more s) = coState s" "bus_of (node.more s) = coBus s"
  for s :: ctrl_node
  by (cases s, simp add: state_of_def bus_of_def ctrl_at_def node.defs)+

lemma ctrl_at_node [simp]: "nIfaces (ctrl_at c s) = nIfaces s" "nVolumes (ctrl_at c s) = nVolumes s"
  "nImages (ctrl_at c s) = nImages s" "nContainers (ctrl_at c s) = nContainers s" "nNet (ctrl_at c s) = nNet s"
  "nTrace (ctrl_at c s) = nTrace s" "nNext (ctrl_at c s) = nNext s" "node.more (ctrl_at c s) = c"
  by (simp_all add: ctrl_at_def node.defs)

text \<open>The service's fields are those of the extension, whatever happens to the node's.\<close>

lemma ms_more:
  "node.more s' = node.more s \<Longrightarrow> msControllers s' = msControllers s \<and> msEvents s' = msEvents s \<and> msSubs s' = msSubs s"
  by (cases s; cases s') simp

lemma extend_fields [simp]:
  "msControllers (node.extend n (node.more s)) = msControllers s" "msEvents (node.extend n (node.more s)) = msEvents s"
  "msSubs (node.extend n (node.more s)) = msSubs s" "nTrace (node.extend n x) = nTrace n" "nNet (node.extend n x) = nNet n"
  "nIfaces (node.extend n x) = nIfaces n" "nVolumes (node.extend n x) = nVolumes n" "nNext (node.extend n x) = nNext n"
  "nContainers (node.extend n x) = nContainers n" "nImages (node.extend n x) = nImages n"
  by (cases s; simp add: node.defs)+

lemma on_ctrl_fields:
  assumes "on_ctrl i c f s = (x, s')" and "f (ctrl_at c s) = (y, c')"
  shows "x = y" "msControllers s' = AList.update i (node.more c') (msControllers s)" "msEvents s' = msEvents s"
    "nTrace s' = nTrace c'" "msSubs s' = msSubs s"
  using assms by (auto simp: on_ctrl_def Let_def) (simp add: node.defs)+

definition ms_known :: "'m ms_node_scheme \<Rightarrow> string \<Rightarrow> bool" where
  "ms_known s i \<longleftrightarrow> map_of (msControllers s) i \<noteq> None"

definition ms_asked :: "'m ms_node_scheme \<Rightarrow> string \<Rightarrow> machine_desired_state \<Rightarrow> bool" where
  "ms_asked s i d \<longleftrightarrow> (\<exists>c t. map_of (msControllers s) i = Some c \<and> DesiredStateChangedMessage d t \<in> set (busPending (bus_of c)))"

definition ms_inv :: "'m ms_node_scheme \<Rightarrow> bool" where
  "ms_inv s \<longleftrightarrow> alist_wf (msControllers s) \<and>
     (\<forall>i c. map_of (msControllers s) i = Some c \<longrightarrow> mID (stMachine (state_of c)) = i)"

lemma ms_defs_more: "node.more s' = node.more s \<Longrightarrow> ms_known s' = ms_known s \<and> ms_asked s' = ms_asked s \<and> ms_inv s' = ms_inv s"
  using ms_more [of s' s] by (simp add: ms_known_def ms_asked_def ms_inv_def fun_eq_iff)

section \<open>What creation does not touch\<close>

lemma gen_id_more: "gen_id E s = (i, s') \<Longrightarrow> node.more s' = node.more s"
  by (auto simp: gen_id_def)

lemma new_image_more [keeps_intros]: "more_is x s \<Longrightarrow> keeps (more_is x) (new_image i v s)"
  by (simp add: new_image_def Let_def)

lemma FetchDetails_more [keeps_intros]: "more_is x s \<Longrightarrow> keeps (more_is x) (FetchDetails E n s)"
  by (auto simp: FetchDetails_def gen_id_def Let_def intro!: keeps_intros)

lemma AllocateInterface_more [keeps_intros]: "more_is x s \<Longrightarrow> keeps (more_is x) (AllocateInterface E s)"
  by (auto simp: AllocateInterface_def gen_id_def Let_def intro!: keeps_intros)

lemma add_containers_more [keeps_intros]: "more_is x s \<Longrightarrow> keeps (more_is x) (add_containers E opts m s)"
proof (induction opts arbitrary: m s)
  case Nil
  then show ?case by simp
next
  case (Cons opt opts)
  then show ?case by (auto simp: Let_def gen_id_def split: option.split intro!: keeps_intros)
qed

text \<open>Building the containers and volumes leaves the interfaces and their table alone.\<close>

definition net_same :: "'m node_scheme \<Rightarrow> 'm node_scheme \<Rightarrow> bool" where
  "net_same s0 s \<longleftrightarrow> nIfaces s = nIfaces s0 \<and> nNet s = nNet s0 \<and> nNext s0 \<le> nNext s"

lemma net_same_refl [simp]: "net_same s s"
  by (simp add: net_same_def)

lemma net_same_upd [simp]: "net_same s0 (s\<lparr>nTrace := t\<rparr>) = net_same s0 s"
  "net_same s0 (s\<lparr>nVolumes := v\<rparr>) = net_same s0 s" "net_same s0 (s\<lparr>nImages := im\<rparr>) = net_same s0 s"
  "net_same s0 (s\<lparr>nContainers := c\<rparr>) = net_same s0 s"
  by (simp_all add: net_same_def)

lemma net_same_inv: "net_same s s' \<Longrightarrow> live_ifaces s' = live_ifaces s \<and> (net_inv s \<longrightarrow> net_inv s')"
proof -
  assume a: "net_same s s'"
  then have l: "live_ifaces s' = live_ifaces s" by (auto simp: net_same_def live_ifaces_def fun_eq_iff)
  with a show ?thesis by (auto simp: net_same_def net_inv_def net_fresh_def net_live_def net_unique_def net_exact_def)
qed

lemma FetchDetails_net [keeps_intros]: "net_same s0 s \<Longrightarrow> keeps (net_same s0) (FetchDetails E n s)"
  by (auto simp: FetchDetails_def gen_id_def new_image_def put_image_def put_volume_def Let_def net_same_def intro!: keeps_intros)

lemma add_containers_net: "net_same s0 s \<Longrightarrow> keeps (net_same s0) (add_containers E opts m s)"
proof (induction opts arbitrary: m s)
  case Nil
  then show ?case by simp
next
  case (Cons opt opts)
  show ?case
    by (auto simp: Let_def gen_id_def split: option.split intro!: keeps_intros Cons.IH)
       (use Cons.prems in \<open>auto simp: net_same_def\<close>)
qed

section \<open>The contract of \<^verbatim>\<open>types.MachineService\<close>\<close>

definition MachineService_of :: "'e node_env_scheme \<Rightarrow> 'm ms_node_scheme service_ops" where
  "MachineService_of E = \<lparr>svList = List, svFindByID = FindByID, svCreate = Create E,
     svUpdateDesiredState = UpdateDesiredState E, svListEvents = ListEvents E\<rparr>"

definition initial_state :: "machine \<Rightarrow> ctrl_state" where
  "initial_state m = \<lparr>stMachine = m, stReconciliation = None, stRuntimeListener = None\<rparr>"

lemma newMachineController_fields:
  assumes "newMachineController E m s = (c, s')"
  shows "state_of c = initial_state m" "busPending (bus_of c) = [AssessStateMessage]" "s' = s\<lparr>nTrace := nTrace s @ [GenID, GenID, GenID]\<rparr>"
  using assms by (auto simp: newMachineController_def gen_id_def Let_def Controller_New_def initial_state_def
      SubscribeToEvents_def PublishEvent_def NewBus_def node.defs state_of_def bus_of_def ctrl_at_def)

lemma newMachineController_handlers:
  assumes "newMachineController E m s = (c, s')"
  shows "busHandlers (bus_of c) = AList.update (env_id E (nTrace s @ [GenID, GenID])) (TerminatedHandler m)
    (AList.update (env_id E (nTrace s @ [GenID])) (StorageHandler m) [(env_id E (nTrace s), EventHandler)])"
  using assms by (auto simp: newMachineController_def gen_id_def Let_def Controller_New_def
      SubscribeToEvents_def PublishEvent_def NewBus_def node.defs bus_of_def ctrl_at_def)

lemma set_controller_fields:
  "\<exists>c. msControllers (set_controller E m s) = AList.update (mID m) c (msControllers s) \<and> state_of c = initial_state m \<and>
     busPending (bus_of c) = [AssessStateMessage] \<and> trace_only s (set_controller E m s\<lparr>msControllers := msControllers s\<rparr>)"
proof -
  obtain c s' where c: "newMachineController E m s = (c, s')" by fastforce
  note f = newMachineController_fields [OF c]
  have "trace_only s (s'\<lparr>msControllers := msControllers s\<rparr>)" unfolding f(3) trace_only_def by simp
  then show ?thesis using f by (intro exI [of _ c]) (simp add: set_controller_def c)
qed

lemma set_controller_inv: "ms_inv s \<Longrightarrow> ms_inv (set_controller E m s)"
  using set_controller_fields [of E m s] by (auto simp: ms_inv_def initial_state_def split: if_splits)

lemma set_controller_known: "ms_known (set_controller E m s) i \<longleftrightarrow> ms_known s i \<or> i = mID m"
  using set_controller_fields [of E m s] by (auto simp: ms_known_def)

lemma set_controller_asked: "j \<noteq> mID m \<Longrightarrow> ms_asked (set_controller E m s) j d = ms_asked s j d"
  using set_controller_fields [of E m s] by (auto simp: ms_asked_def)

lemma List_known:
  assumes "ms_inv s"
  shows "\<exists>ms. List s = (Ok ms, s) \<and> mID ` set ms = {i. ms_known s i}"
proof -
  have d: "distinct (map fst (msControllers s))" using assms by (simp add: ms_inv_def alist_wf_def)
  have "mID (stMachine (state_of c)) = i" if "(i, c) \<in> set (msControllers s)" for i c
    using assms that d by (simp add: ms_inv_def)
  then have "(\<lambda>(i, c). mID (stMachine (state_of c))) ` set (msControllers s) = fst ` set (msControllers s)"
    by (intro image_cong) auto
  also have "\<dots> = {i. ms_known s i}" by (auto simp: ms_known_def map_of_eq_None_iff)
  finally show ?thesis by (simp add: List_def GetState_def image_image case_prod_unfold)
qed

lemma UpdateDesiredState_known:
  assumes "ms_inv s" "ms_known s i" "UpdateDesiredState E i d s = (r, s')"
  shows "(\<exists>m. r = Ok m) \<and> ms_inv s' \<and> ms_known s' = ms_known s \<and> ms_asked s' i d \<and> (\<forall>j e. ms_asked s j e \<longrightarrow> ms_asked s' j e)"
proof -
  obtain c where c: "map_of (msControllers s) i = Some c" using assms(2) by (auto simp: ms_known_def)
  let ?c = "SetDesiredState E d (ctrl_at c s)"
  have o: "on_ctrl i c (\<lambda>ctrl. let ctrl = SetDesiredState E d ctrl in (Ok (stMachine (GetState ctrl)), ctrl)) s = (r, s')"
    using assms(3) c by (simp add: UpdateDesiredState_def)
  note f = on_ctrl_fields [OF o, of "Ok (stMachine (GetState ?c))" ?c, unfolded Let_def, OF refl]
  have st: "state_of (node.more ?c) = state_of c"
    and b: "busPending (bus_of (node.more ?c)) = busPending (bus_of c) @ [NewDesiredStateChangedMessage E d (ctrl_at c s)]"
    by (simp_all add: SetDesiredState_def)
  show ?thesis
    using f assms(1) c st b
    by (auto simp: ms_inv_def ms_known_def ms_asked_def fun_eq_iff NewDesiredStateChangedMessage_def)
qed

text \<open>The machine that the containers are added to, and what is added.\<close>

lemma add_containers_id: "add_containers E opts m s = (Ok m', s') \<Longrightarrow> mID m' = mID m \<and> mState m' = mState m \<and>
    mDesiredState m' = mDesiredState m \<and> mSpec m' = mSpec m \<and> mTerminatedAt m' = mTerminatedAt m"
proof (induction opts arbitrary: m s)
  case (Cons opt opts)
  then show ?case by (fastforce simp: Let_def split: option.splits flow_asm prod.splits)
qed simp

text \<open>
  How a creation ends: without an interface; at the database, after which the interface is
  released; or with a controller.
\<close>

lemma Create_cases:
  assumes r: "Create E opts s = (r, s')" and inv: "net_inv s"
  obtains (no_interface) "\<not> is_ok r" "live_ifaces s' = live_ifaces s" "net_inv s'" "node.more s' = node.more s"
  | (no_row) a s1 s2 ni m e u where "net_same s s1" "AllocateInterface E s1 = (Ok a, s2)" "nIfaces s2 a = Some ni"
      "ReleaseInterface E (Some a) (s2\<lparr>nTrace := nTrace s2 @ [Db (DbCreateMachine m)]\<rparr>) = (u, s')" "r = Err e" "node.more s' = node.more s"
  | (created) a s1 s2 ni m where "add_containers E (mcoContainers opts) (new_machine opts) s = (Ok m, s1)"
      "AllocateInterface E s1 = (Ok a, s2)" "nIfaces s2 a = Some ni" "node.more s2 = node.more s"
      "r = Ok (m\<lparr>mNetworkInterfaceID := Some (niID ni), mNetworkInterface := Some a\<rparr>)"
      "s' = set_controller E (m\<lparr>mNetworkInterfaceID := Some (niID ni), mNetworkInterface := Some a\<rparr>)
         (s2\<lparr>nTrace := nTrace s2 @ [Db (DbCreateMachine (m\<lparr>mNetworkInterfaceID := Some (niID ni), mNetworkInterface := Some a\<rparr>))]\<rparr>)"
proof -
  obtain r1 s1 where a: "add_containers E (mcoContainers opts) (new_machine opts) s = (r1, s1)" by fastforce
  have n1: "net_same s s1" using keepsD [OF add_containers_net [OF net_same_refl] a] .
  have m1: "node.more s1 = node.more s" using keepsD [OF add_containers_more [OF refl] a] .
  have i1: "net_inv s1" "live_ifaces s1 = live_ifaces s" using net_same_inv [OF n1] inv by auto
  show thesis
  proof (cases "is_ok r1")
    case False
    then show thesis using no_interface r a i1 m1 by (cases r1) (auto simp: Create_def)
  next
    case True
    then obtain m where m: "r1 = Ok m" by (cases r1) auto
    obtain r2 s2 where al: "AllocateInterface E s1 = (r2, s2)" by fastforce
    have m2: "node.more s2 = node.more s" using keepsD [OF AllocateInterface_more [OF refl] al] m1 by simp
    show thesis
    proof (cases r2)
      case (Ok ia)
      obtain x where "live_ifaces s2 ia = Some x" using net.allocate_ok [OF i1(1) al [unfolded Ok]] by auto
      then have ni: "nIfaces s2 ia = Some x" by (auto simp: live_ifaces_def split: option.splits if_splits)
      let ?m = "m\<lparr>mNetworkInterfaceID := Some (niID x), mNetworkInterface := Some ia\<rparr>"
      let ?t = "s2\<lparr>nTrace := nTrace s2 @ [Db (DbCreateMachine ?m)]\<rparr>"
      show thesis
      proof (cases "env_err E (nTrace s2) (Db (DbCreateMachine ?m))")
        case None
        then show thesis using created [OF a [unfolded m] al [unfolded Ok] ni m2] r a m al Ok ni
          by (auto simp: Create_def deref_Some call_cases Let_def)
      next
        case (Some e)
        obtain u s3 where re: "ReleaseInterface E (Some ia) ?t = (u, s3)" by fastforce
        have "r = Err (Wrap ''failed to create machine'' e)" "s' = s3"
          using r a m al Ok ni Some re by (auto simp: Create_def deref_Some call_cases Let_def)
        moreover have "node.more s3 = node.more s"
          using keepsD [OF ReleaseInterface_more [OF refl] re] m2 by simp
        ultimately show thesis using no_row [OF n1 al [unfolded Ok] ni] re by blast
      qed
    next
      case (Err e)
      then show thesis using no_interface r a m al m2 net.allocate_failed [OF i1(1) al [unfolded Err]]
          net.allocate_inv [OF i1(1) al] i1 by (auto simp: Create_def)
    next
      case (Panic p)
      then show thesis using net.allocate_no_panic [OF i1(1)] al by blast
    qed
  qed
qed

lemma UpdateDesiredState_net: "UpdateDesiredState E i d s = (r, s') \<Longrightarrow> net_same s s'"
  by (auto simp: UpdateDesiredState_def on_ctrl_def SetDesiredState_def publish_def Let_def net_same_def node.defs
      split: option.splits)

lemma Create_inv:
  assumes "ms_inv s" "net_inv s" "Create E opts s = (r, s')"
  shows "ms_inv s' \<and> net_inv s'"
  using assms(3,2)
proof (cases rule: Create_cases)
  case no_interface
  with assms(1) ms_defs_more [of s' s] show ?thesis by simp
next
  case (no_row a s1 s2 ni m e u)
  have "net_inv s1" using net_same_inv [OF no_row(1)] assms(2) by simp
  then have "net_inv s2" using net.allocate_inv no_row(2) by blast
  then have "net_inv s'" using net.release_inv [OF _ no_row(4)] by simp
  with assms(1) no_row(6) ms_defs_more [of s' s] show ?thesis by simp
next
  case (created a s1 s2 ni m)
  let ?m = "m\<lparr>mNetworkInterfaceID := Some (niID ni), mNetworkInterface := Some a\<rparr>"
  let ?t = "s2\<lparr>nTrace := nTrace s2 @ [Db (DbCreateMachine ?m)]\<rparr>"
  have "net_same s s1" using keepsD [OF add_containers_net [OF net_same_refl] created(1)] .
  then have "net_inv s1" using net_same_inv assms(2) by blast
  then have n2: "net_inv s2" using net.allocate_inv created(2) by blast
  have "ms_inv ?t" using ms_defs_more [of ?t s] created(4) assms(1) by simp
  moreover have "net_same ?t (set_controller E ?m ?t)"
    by (auto simp: set_controller_def newMachineController_def gen_id_def Let_def net_same_def)
  ultimately show ?thesis using created(6) set_controller_inv net_same_inv n2 net_inv_upd by metis
qed

lemma Create_known:
  assumes "ms_inv s" "net_inv s" "Create E opts s = (r, s')"
  shows "(\<forall>j. ms_known s' j \<longleftrightarrow> ms_known s j \<or> is_ok r \<and> j = mcoMachineID opts) \<and>
    (\<forall>m. r = Ok m \<longrightarrow> mID m = mcoMachineID opts) \<and>
    (\<forall>j e. j \<noteq> mcoMachineID opts \<longrightarrow> ms_asked s j e \<longrightarrow> ms_asked s' j e)"
  using assms(3,2)
proof (cases rule: Create_cases)
  case no_interface
  with ms_defs_more [of s' s] show ?thesis by (cases r) simp_all
next
  case (no_row a s1 s2 ni m e u)
  with ms_defs_more [of s' s] show ?thesis by simp
next
  case (created a s1 s2 ni m)
  have id: "mID m = mcoMachineID opts" using add_containers_id [OF created(1)] by (simp add: new_machine_def)
  let ?m = "m\<lparr>mNetworkInterfaceID := Some (niID ni), mNetworkInterface := Some a\<rparr>"
  let ?t = "s2\<lparr>nTrace := nTrace s2 @ [Db (DbCreateMachine ?m)]\<rparr>"
  have "ms_known ?t = ms_known s \<and> ms_asked ?t = ms_asked s" using ms_defs_more [of ?t s] created(4) by simp
  with created(5,6) id set_controller_known [of E ?m ?t] set_controller_asked [of _ ?m E ?t]
  show ?thesis by auto
qed

interpretation svc: machine_service "MachineService_of E" ms_known ms_asked "\<lambda>s. ms_inv s \<and> net_inv s" for E
proof (unfold_locales, goal_cases)
  case (1 s)
  then show ?case using List_known [of s] by (simp add: MachineService_of_def)
next
  case (2 s i)
  then show ?case by (auto simp: MachineService_of_def FindByID_def ms_known_def ms_inv_def GetState_def)
next
  case (3 s i)
  then show ?case by (simp add: MachineService_of_def FindByID_def ms_known_def)
next
  case (4 s i d r s')
  then show ?case
    using UpdateDesiredState_known [of s i E d r s'] net_same_inv [OF UpdateDesiredState_net [of E i d s r s']]
    by (auto simp: MachineService_of_def)
next
  case (5 s i d)
  then show ?case by (simp add: MachineService_of_def UpdateDesiredState_def ms_known_def)
next
  case (6 s opts r s')
  then show ?case using Create_inv [of s E opts r s'] Create_known [of s E opts r s'] by (simp add: MachineService_of_def)
next
  case (7 s opts r s' j e)
  then show ?case using Create_known [of s E opts r s'] by (simp add: MachineService_of_def)
next
  case (8 i s evs s')
  then show ?case by (auto simp: MachineService_of_def ListEvents_def split: flow_asm)
next
  case (9 t s)
  then show ?case using ms_defs_more [of "s\<lparr>nTrace := t\<rparr>" s] by simp
next
  case (10 t s)
  then show ?case using ms_defs_more [of "s\<lparr>nTrace := t\<rparr>" s] by simp
next
  case (11 t s)
  then show ?case using ms_defs_more [of "s\<lparr>nTrace := t\<rparr>" s] by simp
qed

section \<open>Creation\<close>

text \<open>What the containers of a new machine need: objects that exist are not touched again.\<close>

definition store_grows :: "'m node_scheme \<Rightarrow> 'm node_scheme \<Rightarrow> bool" where
  "store_grows s0 s \<longleftrightarrow> nNext s0 \<le> nNext s \<and> (\<forall>a < nNext s0. nVolumes s a = nVolumes s0 a \<and> nImages s a = nImages s0 a \<and>
     nContainers s a = nContainers s0 a)"

lemma store_grows_refl [simp]: "store_grows s s"
  by (simp add: store_grows_def)

lemma store_grows_trans: "store_grows s0 s1 \<Longrightarrow> store_grows s1 s2 \<Longrightarrow> store_grows s0 s2"
  by (auto simp: store_grows_def)

lemma store_grows_trace [simp]: "store_grows s0 (s\<lparr>nTrace := t\<rparr>) = store_grows s0 s"
  by (simp add: store_grows_def)

lemma FetchDetails_grows: "store_grows s0 s \<Longrightarrow> keeps (store_grows s0) (FetchDetails E n s)"
  by (auto simp: FetchDetails_def gen_id_def new_image_def put_image_def put_volume_def Let_def store_grows_def intro!: keeps_intros)

lemma FetchDetails_address: "FetchDetails E n s = (Ok a, s') \<Longrightarrow> a < nNext s'"
  by (auto simp: FetchDetails_def gen_id_def new_image_def put_image_def put_volume_def Let_def split: flow_asm if_splits)

text \<open>The volume of a container: blank, and to become a snapshot of its image's volume.\<close>

definition volume_ready :: "'m node_scheme \<Rightarrow> machine_create_container_options \<Rightarrow> nat \<Rightarrow> machine_volume \<Rightarrow> bool" where
  "volume_ready s opt k mv \<longleftrightarrow> mvContainerID mv = mccContainerID opt \<and> mvPosition mv = k \<and>
     (\<exists>va v ia im. mvVolume mv = Some va \<and> nVolumes s va = Some v \<and> mvImage mv = Some ia \<and> nImages s ia = Some im \<and>
        va < nNext s \<and> ia < nNext s \<and>
        voSource v = imVolume im \<and> voSource v \<noteq> None \<and> voSize v = 1024 \<and> voAllocatedAt v = None \<and> voID v = mvVolumeID mv)"

lemma volume_ready_grows: "volume_ready s opt k mv \<Longrightarrow> store_grows s s' \<Longrightarrow> volume_ready s' opt k mv"
  by (force simp: volume_ready_def store_grows_def)

lemma AllocateInterface_grows: "store_grows s0 s \<Longrightarrow> keeps (store_grows s0) (AllocateInterface E s)"
  by (auto simp: AllocateInterface_def gen_id_def Let_def on_net_def store_grows_def split: res.split intro!: keeps_intros)

lemma add_container_step:
  assumes r: "add_containers E (opt # opts) m s = (Ok m', s')"
  obtains ca mv s1 where "store_grows s s1" "volume_ready s1 opt (length (mVolumes m)) mv"
    "add_containers E opts (m\<lparr>mContainers := mContainers m @ [ca], mVolumes := mVolumes m @ [mv]\<rparr>) s1 = (Ok m', s')"
proof -
  obtain spec where sp: "mccSpec opt = Some spec" using r by (cases "mccSpec opt") auto
  obtain r0 s0 where f: "FetchDetails E (csImage spec) s = (r0, s0)" by fastforce
  with r sp obtain ia where ia: "r0 = Ok ia" by (cases r0) auto
  have g0: "store_grows s s0" using keepsD [OF FetchDetails_grows [OF store_grows_refl] f] .
  have lt: "ia < nNext s0" using FetchDetails_address f ia by blast
  obtain im where im: "nImages s0 ia = Some im"
    using r sp f ia by (auto simp: Let_def split: flow_asm)
  obtain src where src: "Option.bind (imVolume im) (nVolumes s0) = Some src"
    using r sp f ia im by (cases "Option.bind (imVolume im) (nVolumes s0)") (auto simp: Let_def deref_def gen_id_def split: flow_asm)
  let ?va = "Suc (nNext s0)"
  define vid where "vid = env_id E (nTrace s0)"
  define mvid where "mvid = env_id E (nTrace s0 @ [GenID])"
  define mv where "mv = machine_volume_of mvid (length (mVolumes m)) (mID m) (mccContainerID opt) ia im ?va vid"
  define s1 where "s1 = s0\<lparr>nTrace := nTrace s0 @ [GenID, GenID],
     nContainers := (nContainers s0)(nNext s0 \<mapsto> \<lparr>ctID = mccContainerID opt, ctMachineID = mID m, ctSpec = Some spec\<rparr>),
     nVolumes := (nVolumes s0)(?va \<mapsto> container_volume vid im src), nNext := Suc ?va\<rparr>"
  have "add_containers E opts (m\<lparr>mContainers := mContainers m @ [nNext s0], mVolumes := mVolumes m @ [mv]\<rparr>) s1 = (Ok m', s')"
    using r sp f ia im src by (simp add: deref_def gen_id_def Let_def s1_def mv_def vid_def mvid_def)
  moreover have "store_grows s s1" using g0 by (auto simp: store_grows_def s1_def)
  moreover have "volume_ready s1 opt (length (mVolumes m)) mv"
    using im src lt by (cases "imVolume im") (auto simp: volume_ready_def s1_def mv_def machine_volume_of_def container_volume_def)
  ultimately show thesis by (rule that [rotated 2])
qed

lemma add_containers_ready:
  "add_containers E opts m s = (Ok m', s') \<Longrightarrow> store_grows s s' \<and>
    (\<exists>mvs. mVolumes m' = mVolumes m @ mvs \<and> length mvs = length opts \<and> length (mContainers m') = length (mContainers m) + length opts \<and>
      (\<forall>k < length opts. volume_ready s' (opts ! k) (length (mVolumes m) + k) (mvs ! k)))"
proof (induction opts arbitrary: m s)
  case Nil
  then show ?case by simp
next
  case (Cons opt opts)
  then obtain ca mv s1 where g: "store_grows s s1" and v: "volume_ready s1 opt (length (mVolumes m)) mv"
    and r: "add_containers E opts (m\<lparr>mContainers := mContainers m @ [ca], mVolumes := mVolumes m @ [mv]\<rparr>) s1 = (Ok m', s')"
    using add_container_step by metis
  from Cons.IH [OF r] obtain mvs where g': "store_grows s1 s'" and mvs: "mVolumes m' = mVolumes m @ mv # mvs"
    "length mvs = length opts" "length (mContainers m') = Suc (length (mContainers m)) + length opts"
    "\<forall>k < length opts. volume_ready s' (opts ! k) (Suc (length (mVolumes m)) + k) (mvs ! k)" by auto
  have "volume_ready s' ((opt # opts) ! k) (length (mVolumes m) + k) ((mv # mvs) ! k)" if "k < length (opt # opts)" for k
    using that mvs(4) volume_ready_grows [OF v g'] by (cases k) auto
  with mvs store_grows_trans [OF g g'] show ?case by (intro conjI exI [of _ "mv # mvs"]) auto
qed

text \<open>
  C3: a creation that fails leaves no trace in the service: no controller, and the interface it
  had taken is given back, unless releasing it fails as well.
\<close>

theorem failed_creation_undone:
  assumes "net_inv s" "Create E opts s = (Err e, s')"
  shows "msControllers s' = msControllers s \<and> (live_ifaces s' = live_ifaces s \<or>
    (\<exists>a ni s1 e'. ReleaseInterface E (Some a) s1 = (Err e', s') \<and> live_ifaces s1 = (live_ifaces s)(a \<mapsto> ni)))"
  using assms(2,1)
proof (cases rule: Create_cases)
  case no_interface
  with ms_more [of s' s] show ?thesis by simp
next
  case (no_row a s1 s2 ni m e0 u)
  let ?t = "s2\<lparr>nTrace := nTrace s2 @ [Db (DbCreateMachine m)]\<rparr>"
  from net_same_inv [OF no_row(1)] assms(1) have i1: "net_inv s1" and l1: "live_ifaces s1 = live_ifaces s" by auto
  have i2: "net_inv ?t" using net.allocate_inv [OF i1 no_row(2)] by simp
  obtain x where al: "live_ifaces s1 a = None" "live_ifaces s2 = (live_ifaces s1)(a \<mapsto> x)"
    using net.allocate_ok [OF i1 no_row(2)] by blast
  show ?thesis
  proof (cases u)
    case (Ok v)
    then have "live_ifaces s' = live_ifaces s1"
      using net.allocate_then_release [OF i1 no_row(2) _ i2, of s'] no_row(4) by simp
    with l1 ms_more [OF no_row(6)] show ?thesis by simp
  next
    case (Err x')
    then show ?thesis using no_row(4) al l1 ms_more [OF no_row(6)]
      by (intro conjI disjI2 exI [of _ a] exI [of _ x] exI [of _ ?t] exI [of _ x']) auto
  next
    case (Panic p)
    then show ?thesis using net.release_no_panic [OF i2, of a] al no_row(4) by auto
  qed
next
  case (created a s1 s2 ni m)
  then show ?thesis by simp
qed

text \<open>
  C21: a created machine is ready to be reconciled: one blank volume per container, in order, that
  will be a snapshot of the container's image; an interface in use whose address no other has;
  and a controller that holds the machine and has its first assessment waiting.
\<close>

theorem created_machine_ready:
  assumes inv: "net_inv s" and r: "Create E opts s = (Ok m, s')"
  shows "mState m = MachineStatePending \<and> mDesiredState m = mcoDesiredState opts \<and>
    length (mVolumes m) = length (mcoContainers opts) \<and>
    (\<forall>k < length (mcoContainers opts). volume_ready s' (mcoContainers opts ! k) k (mVolumes m ! k)) \<and>
    (\<exists>a ni. mNetworkInterface m = Some a \<and> live_ifaces s a = None \<and> live_ifaces s' = (live_ifaces s)(a \<mapsto> ni) \<and>
       (\<forall>b x. live_ifaces s b = Some x \<longrightarrow> niIPAddress x \<noteq> niIPAddress ni)) \<and>
    (\<exists>c. map_of (msControllers s') (mcoMachineID opts) = Some c \<and> state_of c = initial_state m \<and>
       busPending (bus_of c) = [AssessStateMessage])"
  using r inv
proof (cases rule: Create_cases)
  case (created a s1 s2 ni m0)
  let ?m = "m0\<lparr>mNetworkInterfaceID := Some (niID ni), mNetworkInterface := Some a\<rparr>"
  let ?t = "s2\<lparr>nTrace := nTrace s2 @ [Db (DbCreateMachine ?m)]\<rparr>"
  have m: "m = ?m" using created(5) by simp
  have ns: "net_same s s1" using keepsD [OF add_containers_net [OF net_same_refl] created(1)] .
  note n1 = net_same_inv [OF ns]
  then have i1: "net_inv s1" and l1: "live_ifaces s1 = live_ifaces s" using inv by auto
  obtain x where x: "live_ifaces s1 a = None" "live_ifaces s2 = (live_ifaces s1)(a \<mapsto> x)"
    using net.allocate_ok [OF i1 created(2)] by blast
  have fresh: "niIPAddress y \<noteq> niIPAddress x" if "live_ifaces s b = Some y" for b y
    using net.allocate_fresh_ip [OF i1 created(2), of x b y] x that l1 by auto
  obtain c where c: "msControllers s' = AList.update (mID ?m) c (msControllers ?t)" "state_of c = initial_state ?m"
      "busPending (bus_of c) = [AssessStateMessage]"
      "trace_only ?t (s'\<lparr>msControllers := msControllers ?t\<rparr>)"
    using set_controller_fields [of E ?m ?t] created(6) by auto
  note id = add_containers_id [OF created(1)]
  have ls: "live_ifaces s' = live_ifaces s2" and same: "store_grows s2 s'"
    using created(6) by (auto simp: set_controller_def newMachineController_def gen_id_def Let_def live_ifaces_def fun_eq_iff store_grows_def)
  have g12: "store_grows s1 s2"
    using keepsD [OF AllocateInterface_grows [OF store_grows_refl] created(2)] .
  from add_containers_ready [OF created(1)] obtain mvs where
    mvs: "mVolumes m0 = mvs" "length mvs = length (mcoContainers opts)"
      "\<forall>k < length (mcoContainers opts). volume_ready s1 (mcoContainers opts ! k) k (mvs ! k)"
    by (auto simp: new_machine_def)
  have "volume_ready s' (mcoContainers opts ! k) k (mVolumes m ! k)" if "k < length (mcoContainers opts)" for k
    using volume_ready_grows [OF mvs(3) [rule_format, OF that] store_grows_trans [OF g12 same]] m mvs(1) by simp
  then show ?thesis
    using id m mvs(1,2) x ls l1 fresh c by (auto simp: new_machine_def)
qed auto

section \<open>The end of a machine\<close>

text \<open>The handlers of a machine's controller.\<close>

definition own_handler :: "string \<Rightarrow> ctrl_handler \<Rightarrow> bool" where
  "own_handler i h = (case h of EventHandler \<Rightarrow> True | StorageHandler m \<Rightarrow> True | TerminatedHandler m \<Rightarrow> mID m = i)"

definition ends_machine :: "ctrl_handler list \<Rightarrow> message \<Rightarrow> bool" where
  "ends_machine hs event \<longleftrightarrow> (\<exists>m. TerminatedHandler m \<in> set hs) \<and> (\<exists>t. event = StateChangedMessage MachineStateTerminated t)"

lemma on_ctrl_known: "on_ctrl i c f s = (x, s') \<Longrightarrow> ms_known s' j \<longleftrightarrow> ms_known s j \<or> j = i"
  using on_ctrl_fields(2) [of i c f s x s' "fst (f (ctrl_at c s))" "snd (f (ctrl_at c s))"] by (auto simp: ms_known_def)

lemma store_event_known: "store_event E mev payload s = (r, s') \<Longrightarrow> msControllers s' = msControllers s"
  by (cases payload) (auto simp: store_event_def Let_def split: flow_asm)

lemma find_container_id: "find_container as cid s = (r, s') \<Longrightarrow> s' = s"
  by (induction as) (auto split: flow_asm if_splits)

lemma storage_known: "handleMachineEventsStorage E m event s = (r, s') \<Longrightarrow> ms_known s' = ms_known s"
proof -
  assume "handleMachineEventsStorage E m event s = (r, s')"
  then have "msControllers s' = msControllers s"
    by (cases event) (auto simp: handleMachineEventsStorage_def Let_def gen_id_def
        split: flow_asm option.splits dest!: store_event_known find_container_id)
  then show ?thesis by (simp add: ms_known_def fun_eq_iff)
qed

lemma terminated_known:
  assumes "handleMachineTerminated m event s = (Ok (), s')"
  shows "ms_known s' j \<longleftrightarrow> ms_known s j \<and> \<not> (j = mID m \<and> (\<exists>t. event = StateChangedMessage MachineStateTerminated t))"
proof (cases "\<exists>t c. event = StateChangedMessage MachineStateTerminated t \<and> map_of (msControllers s) (mID m) = Some c")
  case False
  then show ?thesis using assms
    by (auto simp: handleMachineTerminated_def ms_known_def split: message.splits if_splits option.splits)
next
  case True
  then obtain t c where e: "event = StateChangedMessage MachineStateTerminated t" and c: "map_of (msControllers s) (mID m) = Some c"
    by blast
  obtain x s1 where o: "on_ctrl (mID m) c Controller_Stop s = (x, s1)" by fastforce
  have x: "x = Ok ()" using on_ctrl_fields(1) [OF o]
    by (cases "Stop_begin (ctrl_at c s)") (simp add: Controller_Stop_def Stop_end_def)
  have "s' = s1\<lparr>msControllers := AList.delete (mID m) (msControllers s1)\<rparr>"
    using assms e c o x by (simp add: handleMachineTerminated_def)
  then show ?thesis using on_ctrl_known [OF o] e by (auto simp: ms_known_def)
qed

lemma run_handler_known:
  assumes "run_handler E i h event s = (Ok (), s')" "own_handler i h"
  shows "ms_known s' j \<longleftrightarrow> ms_known s j \<and> \<not> (j = i \<and> ends_machine [h] event)"
  using assms on_ctrl_known [of i _ "eventHandler E event" s _ s' j] storage_known [of E _ event s _ s']
    terminated_known [of _ event s s' j]
  by (cases h) (auto simp: run_handler_def own_handler_def ends_machine_def ms_known_def split: option.splits)

lemma run_handlers_known:
  assumes "run_handlers E i hs event s = (Ok (), s')" "\<forall>h \<in> set hs. own_handler i h"
  shows "ms_known s' j \<longleftrightarrow> ms_known s j \<and> \<not> (j = i \<and> ends_machine hs event)"
  using assms
proof (induction hs arbitrary: s)
  case Nil
  then show ?case by (simp add: ends_machine_def)
next
  case (Cons h hs)
  then obtain s1 where 1: "run_handler E i h event s = (Ok (), s1)" "run_handlers E i hs event s1 = (Ok (), s')"
    by (auto split: flow_asm)
  with Cons.IH [OF 1(2)] Cons.prems(2) run_handler_known [OF 1(1), of j] show ?case
    by (auto simp: ends_machine_def)
qed

text \<open>
  C22: the service forgets a machine exactly when its controller dispatches the message that the
  machine is terminated; no other dispatch changes which machines it knows.
\<close>

theorem only_terminated_forgotten:
  assumes c: "map_of (msControllers s) i = Some c" and e: "receive_event k (bus_of c) = Some (event, b)"
    and h: "\<forall>h \<in> set (map snd (busHandlers (bus_of c))). own_handler i h"
    and t: "\<exists>m. TerminatedHandler m \<in> set (map snd (busHandlers (bus_of c)))"
    and r: "dispatch E i k s = (Ok (), s')"
  shows "ms_known s' j \<longleftrightarrow> ms_known s j \<and> \<not> (j = i \<and> (\<exists>t. event = StateChangedMessage MachineStateTerminated t))"
proof -
  have b: "busHandlers b = busHandlers (bus_of c)" using receive_event_mset(2) [OF e] .
  define s1 where "s1 = snd (on_ctrl i c (\<lambda>ctrl. ((), ctrl\<lparr>coBus := b\<rparr>)) s)"
  have o: "on_ctrl i c (\<lambda>ctrl. ((), ctrl\<lparr>coBus := b\<rparr>)) s = ((), s1)" by (simp add: s1_def prod_eq_iff)
  have "run_handlers E i (map snd (busHandlers b)) event s1 = (Ok (), s')" using r c e o by (simp add: dispatch_def)
  from run_handlers_known [OF this, of j] h b on_ctrl_known [OF o, of j] c t
  show ?thesis by (auto simp: ends_machine_def ms_known_def)
qed

section \<open>Stored events\<close>

text \<open>The protobuf library decodes what it encoded.\<close>

definition codec :: "'e node_env_scheme \<Rightarrow> bool" where
  "codec E \<longleftrightarrow> (\<forall>p bytes. ne_marshal_machine E p = Ok bytes \<longrightarrow> ne_unmarshal_machine E bytes = Ok p) \<and>
     (\<forall>p bytes. ne_marshal_container E p = Ok bytes \<longrightarrow> ne_unmarshal_container E bytes = Ok p)"

text \<open>What the control plane is to be told about a message of a controller.\<close>

definition told :: "machine \<Rightarrow> message \<Rightarrow> string \<Rightarrow> proto_payload \<Rightarrow> bool" where
  "told m event i p = (case event of
      DesiredStateChangedMessage d t \<Rightarrow> p = MachineProto \<lparr>pmeEventId = i, pmeMachineId = mID m, pmeTimestamp = t,
         pmeEvent = MachineEvent_DesiredStateChanged (FromMachineDesiredState d)\<rparr>
    | StateChangedMessage st t \<Rightarrow> p = MachineProto \<lparr>pmeEventId = i, pmeMachineId = mID m, pmeTimestamp = t,
         pmeEvent = MachineEvent_StateChanged (FromMachineState st)\<rparr>
    | ContainerStateChangedMessage cid ev t \<Rightarrow> i = cid \<and> p = ContainerProto \<lparr>pcnEventId = cid,
         pcnContainerId = pceContainerId ev, pcnTimestamp = t, pcnStateChanged = ev\<lparr>pceContainerId := []\<rparr>\<rparr>
    | _ \<Rightarrow> False)"

definition stored :: "'e node_env_scheme \<Rightarrow> 'm ms_node_scheme \<Rightarrow> 'm ms_node_scheme \<Rightarrow> (machine_event \<Rightarrow> bool) \<Rightarrow> bool" where
  "stored E s s' P \<longleftrightarrow> busPending (msEvents s') = busPending (msEvents s) \<or>
     (\<exists>e. busPending (msEvents s') = busPending (msEvents s) @ [e] \<and> P e \<and> last (nTrace s') = Db (DbCreateEvent e) \<and>
        env_err E (butlast (nTrace s')) (Db (DbCreateEvent e)) = None)"

lemma store_event_stored:
  assumes "store_event E mev payload s = (r, s')" "\<And>bytes. payload = Ok bytes \<Longrightarrow> P (mev\<lparr>mevPayload := bytes\<rparr>)"
  shows "stored E s s' P"
  using assms by (cases payload) (auto simp: store_event_def stored_def PublishEvent_def Let_def split: flow_asm)

lemma find_container_Some: "find_container as cid s = (Ok (Some ct), s') \<Longrightarrow> ctID ct = cid"
  by (induction as) (auto split: flow_asm if_splits)

lemma stored_trace: "stored E (s\<lparr>nTrace := t\<rparr>) s' P = stored E s s' P"
  by (simp add: stored_def)

text \<open>
  C30: an event that reaches the subscribers of the service is in the database, and its payload
  decodes to the message that the controller published: the machine, the time and the state
  under their wire names; for a container, the event of the runtime unchanged.
\<close>

theorem stored_events_decode:
  assumes "codec E" and "handleMachineEventsStorage E m event s = (r, s')"
  shows "busPending (msEvents s') = busPending (msEvents s) \<or>
    (\<exists>e p. busPending (msEvents s') = busPending (msEvents s) @ [e] \<and> mevMachineID e = mID m \<and>
       last (nTrace s') = Db (DbCreateEvent e) \<and> env_err E (butlast (nTrace s')) (Db (DbCreateEvent e)) = None \<and>
       ProtoPayload E e = Ok p \<and> told m event (mevID e) p)"
proof -
  let ?P = "\<lambda>e. mevMachineID e = mID m \<and> (\<exists>p. ProtoPayload E e = Ok p \<and> told m event (mevID e) p)"
  have "stored E s s' ?P"
  proof (cases event)
    case (DesiredStateChangedMessage d t)
    with assms show ?thesis
      by (auto simp: handleMachineEventsStorage_def Let_def gen_id_def codec_def ProtoPayload_def told_def stored_trace
          intro!: store_event_stored [where s = "s\<lparr>nTrace := nTrace s @ [GenID]\<rparr>", unfolded stored_trace])
  next
    case (StateChangedMessage st t)
    with assms show ?thesis
      by (auto simp: handleMachineEventsStorage_def Let_def gen_id_def codec_def ProtoPayload_def told_def
          intro!: store_event_stored [where s = "s\<lparr>nTrace := nTrace s @ [GenID]\<rparr>", unfolded stored_trace])
  next
    case (ContainerStateChangedMessage i ev t)
    obtain r0 s0 where f: "find_container (mContainers m) (pceContainerId ev) s = (r0, s0)" by fastforce
    have s0: "s0 = s" using find_container_id [OF f] .
    show ?thesis
    proof (cases "\<exists>ct. r0 = Ok (Some ct)")
      case True
      then obtain ct where ct: "r0 = Ok (Some ct)" by blast
      with find_container_Some f have "ctID ct = pceContainerId ev" by metis
      with ContainerStateChangedMessage assms f ct s0 show ?thesis
        by (auto simp: handleMachineEventsStorage_def codec_def ProtoPayload_def told_def intro!: store_event_stored)
    next
      case False
      with ContainerStateChangedMessage assms f s0 show ?thesis
        by (cases r0) (auto simp: handleMachineEventsStorage_def stored_def split: option.splits)
    qed
  qed (use assms in \<open>auto simp: handleMachineEventsStorage_def stored_def\<close>)
  then show ?thesis by (auto simp: stored_def)
qed

section \<open>Logs and subscriptions\<close>

text \<open>
  The log file of a machine that is gone gives the messages of all its containers, whichever
  container was asked for.
\<close>

lemma container_logs_of_all:
  "map_of (msControllers s) i = None \<Longrightarrow> GetContainerLogs cfg E turns i c1 f1 s = GetContainerLogs cfg E turns i c2 f2 s"
  by (simp add: GetContainerLogs_def)

text \<open>A stream of the runtime that ends does not close the channel of its reader.\<close>

lemma stream_not_closed: "map_of (msControllers s) i \<noteq> None \<Longrightarrow> GetMachineLogs cfg E turns i follow s = (Ok ch, s') \<Longrightarrow> \<not> chClosed ch"
  by (auto simp: GetMachineLogs_def split: flow_asm)

text \<open>An event that waits for its receiver when the subscription's context ends panics the agent.\<close>

lemma waiting_event_panics:
  assumes "map_of (msSubs s) i = Some b" "\<not> sbDone b"
  shows "fst (subscription_end i (s\<lparr>msSubs := AList.update i (event_sender e (event_subscriber e b)) (msSubs s)\<rparr>)) =
    Panic ''send on closed channel''"
  using assms by (simp add: subscription_end_def event_sender_def event_subscriber_def Let_def)

section \<open>Instances\<close>

lemma net_inv_extend: "net_inv n \<Longrightarrow> net_inv (node.extend n x)"
  by (auto simp: net_inv_def net_fresh_def net_live_def net_unique_def net_exact_def live_ifaces_def)

definition start_service :: ms_node where
  "start_service = MachineService_New start_node"

lemma start_service_simps [simp]: "net_inv start_service" "nTrace start_service = []" "nNet start_service = start_provider"
  "msControllers start_service = []" "busPending (msEvents start_service) = []" "nNext start_service = 0" "ms_inv start_service"
  by (simp_all add: start_service_def MachineService_New_def net_inv_extend net_inv_start_node)
     (simp_all add: node.defs start_node_def empty_node_def ms_inv_def alist_wf_def NewBus_def)

lemma first_offset: "findAvailableOffset start_provider = 2"
  by (simp add: findAvailableOffset_def start_provider_def numeral_eq_Suc)

lemma AllocateInterface_quiet:
  assumes "nNet s = start_provider" "\<And>t c. (\<nexists>m. c = Db (DbCreateMachine m)) \<Longrightarrow> env_err E t c = None"
  shows "\<exists>s'. AllocateInterface E s = (Ok (nNext s), s') \<and> (\<exists>ni. nIfaces s' (nNext s) = Some ni)"
  using assms
  by (simp add: AllocateInterface_def Let_def first_offset gen_id_def call_cases claim_def on_net_def length_start_provider)

definition no_rows_env :: node_env where
  "no_rows_env = quiet_env\<lparr>env_err := \<lambda>_ c. case c of Db (DbCreateMachine _) \<Rightarrow> Some (External ''disk full'') | _ \<Rightarrow> None\<rparr>"

definition sample_options :: machine_create_options where
  "sample_options = \<lparr>mcoMachineID = ''m1'', mcoDesiredState = MachineDesiredStateRunning, mcoSpec = None,
     mcoContainers = [\<lparr>mccContainerID = ''c1'', mccSpec = Some \<lparr>csName = None, csImage = ''nginx'', csEnv = None, csCommand = None,
       csUser = None, csHealthcheck = None, csWorkingDir = None, csRestart = None\<rparr>\<rparr>]\<rparr>"

lemma add_containers_sample:
  assumes "\<And>t c. (\<nexists>m. c = Db (DbCreateMachine m)) \<Longrightarrow> env_err E t c = None" "ne_image E = ne_image quiet_env"
  shows "\<exists>m s'. add_containers E (mcoContainers sample_options) (new_machine sample_options) s = (Ok m, s')"
  using assms
  by (simp add: sample_options_def FetchDetails_def call_cases call_val_cases quiet_env_def new_image_def put_image_def
      put_volume_def gen_id_def Let_def deref_Some)

lemma Create_sample:
  fixes s :: "'m ms_node_scheme"
  assumes e: "\<And>t c. (\<nexists>m. c = Db (DbCreateMachine m)) \<Longrightarrow> env_err E t c = None" and i: "ne_image E = ne_image quiet_env"
    and n: "nNet s = start_provider"
  obtains m t where "fst (Create E sample_options s) = (case env_err E t (Db (DbCreateMachine m)) of
     None \<Rightarrow> Ok m | Some x \<Rightarrow> Err (Wrap ''failed to create machine'' x))"
proof -
  obtain m s1 where 1: "add_containers E (mcoContainers sample_options) (new_machine sample_options) s = (Ok m, s1)"
    using add_containers_sample [of E s] e i by blast
  have "net_same s s1" using keepsD [OF add_containers_net [OF net_same_refl] 1] .
  then have "nNet s1 = start_provider" using n by (simp add: net_same_def)
  from AllocateInterface_quiet [OF this, of E] e obtain s2 ni where
    "AllocateInterface E s1 = (Ok (nNext s1), s2)" "nIfaces s2 (nNext s1) = Some ni" by blast
  with 1 have "fst (Create E sample_options s) = (case env_err E (nTrace s2) (Db (DbCreateMachine
      (m\<lparr>mNetworkInterfaceID := Some (niID ni), mNetworkInterface := Some (nNext s1)\<rparr>))) of
     None \<Rightarrow> Ok (m\<lparr>mNetworkInterfaceID := Some (niID ni), mNetworkInterface := Some (nNext s1)\<rparr>)
   | Some x \<Rightarrow> Err (Wrap ''failed to create machine'' x))"
    by (simp add: Create_def deref_Some call_cases Let_def split: option.split)
  then show thesis by (rule that)
qed

theorem failed_creation_undone_witness:
  "\<exists>e s'. Create no_rows_env sample_options start_service = (Err e, s') \<and> msControllers s' = []"
proof -
  obtain m t where "fst (Create no_rows_env sample_options start_service) =
      (case env_err no_rows_env t (Db (DbCreateMachine m)) of None \<Rightarrow> Ok m | Some x \<Rightarrow> Err (Wrap ''failed to create machine'' x))"
    by (rule Create_sample [of no_rows_env start_service])
       (auto simp: no_rows_env_def quiet_env_def split: node_call.splits db_call.splits)
  then obtain e s' where r: "Create no_rows_env sample_options start_service = (Err e, s')"
    by (cases "Create no_rows_env sample_options start_service") (auto simp: no_rows_env_def)
  from failed_creation_undone [OF _ r] r show ?thesis by simp
qed

theorem created_machine_ready_witness:
  "\<exists>m s'. Create quiet_env sample_options start_service = (Ok m, s') \<and> length (mVolumes m) = 1 \<and>
     (\<exists>a ni. mNetworkInterface m = Some a \<and> live_ifaces s' a = Some ni)"
proof -
  obtain m t where "fst (Create quiet_env sample_options start_service) =
      (case env_err quiet_env t (Db (DbCreateMachine m)) of None \<Rightarrow> Ok m | Some x \<Rightarrow> Err (Wrap ''failed to create machine'' x))"
    by (rule Create_sample [of quiet_env start_service]) (auto simp: quiet_env_def)
  then obtain m s' where r: "Create quiet_env sample_options start_service = (Ok m, s')"
    by (cases "Create quiet_env sample_options start_service") (auto simp: quiet_env_def)
  from created_machine_ready [OF _ r] r show ?thesis by (auto simp: sample_options_def)
qed

text \<open>A service with one machine whose controller has an event waiting.\<close>

definition one_machine :: "message list \<Rightarrow> ms_node" where
  "one_machine events = start_service\<lparr>msControllers := [(''m1'', node.more (start_ctrl\<lparr>coBus := \<lparr>busPending = events,
     busHandlers = [(''a'', EventHandler), (''b'', StorageHandler idle_machine), (''c'', TerminatedHandler idle_machine)]\<rparr>\<rparr>))]\<rparr>"

lemma on_ctrl_fst: "fst (on_ctrl i c f s) = fst (f (ctrl_at c s))"
  by (simp add: on_ctrl_def split: prod.split)

lemma run_handler_ok: "fst (run_handler quiet_env i h (StateChangedMessage st t) s) = Ok ()"
proof (cases h)
  case EventHandler
  have "fst (eventHandler quiet_env (StateChangedMessage st t) x) = Ok ()" for x :: ctrl_node
    by (simp add: eventHandler_def SetState_def commit_def save_state_def call_cases Let_def quiet_env_def)
  then show ?thesis using EventHandler by (simp add: run_handler_def on_ctrl_fst split: option.split)
next
  case (StorageHandler m)
  then show ?thesis
    by (simp add: run_handler_def handleMachineEventsStorage_def gen_id_def store_event_def call_cases Let_def quiet_env_def)
next
  case (TerminatedHandler m)
  have "fst (Controller_Stop x) = Ok ()" for x :: ctrl_node
    by (simp add: Controller_Stop_def Stop_end_def split: prod.split)
  then have "fst (on_ctrl j c Controller_Stop s) = Ok ()" for j c by (simp add: on_ctrl_fst)
  then show ?thesis using TerminatedHandler
    by (simp add: run_handler_def handleMachineTerminated_def catchE_def split: option.split)
qed

lemma run_handlers_ok: "fst (run_handlers quiet_env i hs (StateChangedMessage st t) s) = Ok ()"
proof (induction hs arbitrary: s)
  case (Cons h hs)
  then show ?case using run_handler_ok [of i h st t s]
    by (cases "run_handler quiet_env i h (StateChangedMessage st t) s") simp
qed simp

theorem only_terminated_forgotten_witness:
  "\<exists>s'. dispatch quiet_env ''m1'' 0 (one_machine [StateChangedMessage MachineStateTerminated 5]) = (Ok (), s') \<and>
     \<not> ms_known s' ''m1''"
proof -
  let ?s = "one_machine [StateChangedMessage MachineStateTerminated 5]"
  define c where "c = node.more (start_ctrl\<lparr>coBus := \<lparr>busPending = [StateChangedMessage MachineStateTerminated 5],
     busHandlers = [(''a'', EventHandler), (''b'', StorageHandler idle_machine), (''c'', TerminatedHandler idle_machine)]\<rparr>\<rparr>)"
  have c: "map_of (msControllers ?s) ''m1'' = Some c" by (simp add: one_machine_def c_def)
  have b: "bus_of c = \<lparr>busPending = [StateChangedMessage MachineStateTerminated 5],
     busHandlers = [(''a'', EventHandler), (''b'', StorageHandler idle_machine), (''c'', TerminatedHandler idle_machine)]\<rparr>"
    by (simp add: c_def)
  have e: "receive_event 0 (bus_of c) = Some (StateChangedMessage MachineStateTerminated 5, (bus_of c)\<lparr>busPending := []\<rparr>)"
    by (simp add: receive_event_def b)
  have h: "\<forall>h \<in> set (map snd (busHandlers (bus_of c))). own_handler ''m1'' h"
    "\<exists>m. TerminatedHandler m \<in> set (map snd (busHandlers (bus_of c)))"
    by (auto simp: b own_handler_def idle_machine_def)
  have "fst (dispatch quiet_env ''m1'' 0 ?s) = Ok ()"
    unfolding dispatch_def c option.case ctrl_at_fields e prod.case receive_event_mset(2) [OF e, symmetric]
    by (rule run_handlers_ok)
  then obtain s' where r: "dispatch quiet_env ''m1'' 0 ?s = (Ok (), s')" by (cases "dispatch quiet_env ''m1'' 0 ?s") simp
  from only_terminated_forgotten [OF c e h r, of "''m1''"] r show ?thesis by simp
qed

definition one_message :: pb_machine_event where
  "one_message = \<lparr>pmeEventId = ''0'', pmeMachineId = ''m1'', pmeTimestamp = 5,
     pmeEvent = MachineEvent_StateChanged MachineState_Running\<rparr>"

definition one_message_env :: node_env where
  "one_message_env = quiet_env\<lparr>ne_marshal_machine := \<lambda>p. if p = one_message then Ok [1] else Err (External ''marshal''),
     ne_unmarshal_machine := \<lambda>_. Ok one_message, ne_marshal_container := \<lambda>_. Err (External ''marshal''),
     ne_unmarshal_container := \<lambda>_. Err (External ''decode'')\<rparr>"

theorem stored_events_decode_witness:
  "\<exists>s' e. handleMachineEventsStorage one_message_env idle_machine (StateChangedMessage MachineStateRunning 5) start_service = (Ok (), s') \<and>
     busPending (msEvents s') = [e] \<and> ProtoPayload one_message_env e = Ok (MachineProto one_message)"
proof -
  have co: "codec one_message_env" by (simp add: codec_def one_message_env_def)
  obtain r s' where r: "handleMachineEventsStorage one_message_env idle_machine (StateChangedMessage MachineStateRunning 5) start_service = (r, s')"
    by fastforce
  then have ok: "r = Ok ()" "busPending (msEvents s') \<noteq> []"
    by (auto simp: handleMachineEventsStorage_def gen_id_def store_event_def one_message_env_def quiet_env_def one_message_def
        idle_machine_def dec.simps digit_def call_cases PublishEvent_def Let_def)
  from stored_events_decode [OF co r] ok(2) obtain e p where e: "busPending (msEvents s') = [e]" "ProtoPayload one_message_env e = Ok p"
    "told idle_machine (StateChangedMessage MachineStateRunning 5) (mevID e) p" by auto
  then have "p = MachineProto one_message"
    by (auto simp: ProtoPayload_def one_message_env_def told_def split: machine_event_type.splits)
  with r ok e show ?thesis by blast
qed

end
