(* ===== verification/Registration.thy ===== *)
theory Registration
  imports MachineServiceProps
begin

text \<open>
  \<^verbatim>\<open>nodeagent/internal/registrationservice\<close>: the connection to the control plane.  It uses the machine
  service through its interface only, a record of functions \<open>sv\<close>, as the code does.  The answers
  of the control plane come from the environment; the events that the dispatch loop selects are
  an argument.  PEM, X.509 and key-pair parsing are parameters of the environment.
\<close>

type_synonym certificate = "8 word list"
type_synonym key_pair = "8 word list \<times> 8 word list"

record reg_node = ms_node +
  rgAuthorityCert :: "certificate option"
  rgTlsCert :: "key_pair option"
  rgNodeID :: string
  rgWorker :: "bool option"

section \<open>\<^verbatim>\<open>certificates.go\<close> and \<^verbatim>\<open>service.go\<close>\<close>

definition parseCertificate :: "'e node_env_scheme \<Rightarrow> 8 word list \<Rightarrow> certificate res" where
  "parseCertificate E value = (case ne_pem E value of
      None \<Rightarrow> Err (Errorf ''failed to decode PEM block containing certificate'')
    | Some (type, bytes) \<Rightarrow>
        if type \<noteq> ''CA CERTIFICATE'' then Err (Errorf ''failed to decode PEM block containing certificate'')
        else (case ne_parse_cert E bytes of
            Some e \<Rightarrow> Err (Wrap ''failed to parse CA certificate'' e)
          | None \<Rightarrow> Ok bytes))"

definition AuthorityCertificate :: "'m reg_node_scheme \<Rightarrow> certificate option" where
  "AuthorityCertificate s = rgAuthorityCert s"

definition TLSCertificate :: "'m reg_node_scheme \<Rightarrow> key_pair option" where
  "TLSCertificate s = rgTlsCert s"

definition RegistrationService_New :: "ms_node \<Rightarrow> reg_node" where
  "RegistrationService_New n = ms_node.extend n \<lparr>rgAuthorityCert = None, rgTlsCert = None, rgNodeID = [], rgWorker = None\<rparr>"

definition RegistrationService_Start :: "'m reg_node_scheme \<Rightarrow> unit res \<times> 'm reg_node_scheme" where
  "RegistrationService_Start s = (Ok (), s\<lparr>rgWorker := Some True\<rparr>)"

definition RegistrationService_Stop :: "'m reg_node_scheme \<Rightarrow> unit res \<times> 'm reg_node_scheme" where
  "RegistrationService_Stop s = (Ok (), s\<lparr>rgWorker := map_option (\<lambda>_. False) (rgWorker s)\<rparr>)"

text \<open>An address that does not split has an empty host and an empty port.\<close>

definition getEndpoint :: "config \<Rightarrow> string \<Rightarrow> string" where
  "getEndpoint cfg addr = (let (host, port) = (case SplitHostPort addr of Ok hp \<Rightarrow> hp | _ \<Rightarrow> ([], []));
     host = (if host = [] then cfIPAddr cfg else host) in JoinHostPort host port)"

section \<open>\<^verbatim>\<open>connection_stats.go\<close>\<close>

fun reserved_memory :: "machine list \<Rightarrow> 64 word \<Rightarrow> 64 word res" where
  "reserved_memory [] reservedMB = Ok reservedMB"
| "reserved_memory (m # ms) reservedMB = (case mSpec m of
      None \<Rightarrow> Panic ''nil pointer dereference''
    | Some spec \<Rightarrow> reserved_memory ms (reservedMB + msMemoryMB spec))"

definition newStatsProto :: "'m node_scheme service_ops \<Rightarrow> 'e node_env_scheme \<Rightarrow> 'm node_scheme \<Rightarrow> pb_stats res \<times> 'm node_scheme" where
  "newStatsProto sv E s =
    tryE id (call_val E VirtualMemory (ne_memory E) s) (\<lambda>mem s.
    tryE id (call_val E CpuInfo (ne_cpus E) s) (\<lambda>cpus s.
    tryE (Wrap ''failed to list machines'') (svList sv s) (\<lambda>machines s.
    tryE id (reserved_memory machines 0, s) (\<lambda>reserved s.
    (Ok \<lparr>pbsTotalMemoryMb = fst mem div 1024 div 1024, pbsUsedMemoryMb = snd mem div 1024 div 1024,
        pbsReservedMemoryMb = reserved, pbsCpuCount = of_nat cpus\<rparr>, s)))))"

definition sendStatsEvent :: "'m node_scheme service_ops \<Rightarrow> 'e node_env_scheme \<Rightarrow> 'm node_scheme \<Rightarrow> unit res \<times> 'm node_scheme" where
  "sendStatsEvent sv E s =
    tryE (Wrap ''failed to create new stats event'') (newStatsProto sv E s) (\<lambda>stats s.
    call E (StreamSend (ClientEvent_Stats stats)) s)"

section \<open>\<^verbatim>\<open>connection_registration.go\<close>\<close>

definition token_path :: "config \<Rightarrow> string" where
  "token_path cfg = path_join [cfStorageDirectory cfg, ''token'']"

definition sendRegistrationEvent :: "config \<Rightarrow> 'm reg_node_scheme service_ops \<Rightarrow> 'e node_env_scheme \<Rightarrow> 'm reg_node_scheme \<Rightarrow>
    pb_registration_completed res \<times> 'm reg_node_scheme" where
  "sendRegistrationEvent cfg sv E s =
    (let (file, s) = call_val E (Os (ReadFile (token_path cfg))) (ne_file E) s;
         nodeToken = (case file of Ok b \<Rightarrow> Some b | _ \<Rightarrow> None) in
    tryE id (newStatsProto sv E s) (\<lambda>stats s.
    tryE (Wrap ''failed to send registration request'')
      (call E (StreamSend (ClientEvent_Register \<lparr>pbrClusterId = cfClusterID cfg, pbrBootstrapToken = cfBootstrapToken cfg,
         pbrNodeToken = nodeToken, pbrIpAddress = cfIPAddr cfg, pbrApiEndpoint = getEndpoint cfg (cfAPIAddr cfg),
         pbrGatewayEndpoint = getEndpoint cfg (cfGatewayAddr cfg), pbrStats = stats\<rparr>)) s) (\<lambda>_ s.
    tryE (Wrap ''failed to receive registration response'') (call_val E StreamReceive (ne_received E) s) (\<lambda>event s.
    case event of
      ServerEvent_RegistrationCompleted rc \<Rightarrow>
        tryE (Wrap ''failed to parse authority certificate'') (parseCertificate E (prcAuthorityCert rc), s) (\<lambda>cert s.
        let s = s\<lparr>rgAuthorityCert := Some cert\<rparr> in
        case ne_key_pair E (prcServerCert rc) (prcServerKey rc) of
          Some e \<Rightarrow> (Err (Wrap ''failed to load server tls certificate'' e), s)
        | None \<Rightarrow>
            let s = s\<lparr>rgTlsCert := Some (prcServerCert rc, prcServerKey rc)\<rparr> in
            tryE (Wrap ''failed to store node token'') (call E (Os (WriteFile (token_path cfg) (prcNodeToken rc) 420)) s) (\<lambda>_ s.
            (Ok rc, s)))
    | _ \<Rightarrow> (Err (Errorf ''received registration response is not valid''), s)))))"

section \<open>\<^verbatim>\<open>connection_machines.go\<close>\<close>

definition create_options :: "pb_machine \<Rightarrow> machine_spec \<Rightarrow> machine_create_options" where
  "create_options pm spec = \<lparr>mcoMachineID = pbmaMachineId pm, mcoDesiredState = ToMachineDesiredState (pbmaDesiredState pm),
     mcoSpec = Some spec, mcoContainers = map (\<lambda>ct. \<lparr>mccContainerID = pbctContainerId ct, mccSpec = ToContainerSpec (pbctSpec ct)\<rparr>)
       (pbmaContainers pm)\<rparr>"

definition createMachine :: "'s service_ops \<Rightarrow> pb_machine \<Rightarrow> 's \<Rightarrow> machine res \<times> 's" where
  "createMachine sv pm s = tryE id (ToMachineSpec (pbmaSpec pm), s) (\<lambda>spec s. svCreate sv (create_options pm spec) s)"

definition sendMachineEvent :: "'e node_env_scheme \<Rightarrow> machine_event \<Rightarrow> 'm node_scheme \<Rightarrow> unit res \<times> 'm node_scheme" where
  "sendMachineEvent E event s = tryE id (ProtoPayload E event, s) (\<lambda>p s. case p of
      MachineProto m \<Rightarrow> call E (StreamSend (ClientEvent_Machine m)) s
    | ContainerProto c \<Rightarrow> call E (StreamSend (ClientEvent_Container c)) s)"

fun send_previous :: "'e node_env_scheme \<Rightarrow> machine_event list \<Rightarrow> 'm node_scheme \<Rightarrow> unit res \<times> 'm node_scheme" where
  "send_previous E [] s = (Ok (), s)"
| "send_previous E (event # events) s =
    tryE (Wrap ''failed to send machine event'') (sendMachineEvent E event s) (\<lambda>_ s. send_previous E events s)"

text \<open>The two events that tell the control plane that a machine it wants terminated is.\<close>

definition send_fake :: "'e node_env_scheme \<Rightarrow> string \<Rightarrow> 'm node_scheme \<Rightarrow> unit res \<times> 'm node_scheme" where
  "send_fake E machineID s =
    (let (i, s) = gen_id E s in
    tryE (Wrap ''failed to send desired state machine event'') (call E (StreamSend (ClientEvent_Machine
      \<lparr>pmeEventId = i, pmeMachineId = machineID, pmeTimestamp = now E s,
       pmeEvent = MachineEvent_DesiredStateChanged MachineDesiredState_Terminated\<rparr>)) s) (\<lambda>_ s.
    let (i, s) = gen_id E s in
    tryE (Wrap ''failed to send state changed machine event'') (call E (StreamSend (ClientEvent_Machine
      \<lparr>pmeEventId = i, pmeMachineId = machineID, pmeTimestamp = now E s,
       pmeEvent = MachineEvent_StateChanged MachineState_Terminated\<rparr>)) s) (\<lambda>_ s. (Ok (), s))))"

text \<open>The first part finds, creates or updates; its second result asks for the two events above.\<close>

definition sync_machine :: "'s service_ops \<Rightarrow> pb_machine \<Rightarrow> 's \<Rightarrow> (machine option \<times> bool) res \<times> 's" where
  "sync_machine sv spec s = (let desired = ToMachineDesiredState (pbmaDesiredState spec) in
    catchE (svFindByID sv (pbmaMachineId spec) s)
      (\<lambda>m s. if mDesiredState m \<noteq> desired then
          tryE (Wrap ''failed to update machine desired state'')
            (svUpdateDesiredState sv (pbmaMachineId spec) desired s) (\<lambda>m s. (Ok (Some m, False), s))
        else (Ok (Some m, False), s))
      (\<lambda>e s. if errors_is e ErrMachineNotFound then
          if pbmaDesiredState spec = MachineDesiredState_Terminated then (Ok (None, True), s)
          else tryE (Wrap ''failed to create machine'') (createMachine sv spec s) (\<lambda>m s. (Ok (Some m, False), s))
        else (Err (Wrap ''failed to find machine'' e), s)))"

definition syncMachineFromSpec :: "'m node_scheme service_ops \<Rightarrow> 'e node_env_scheme \<Rightarrow> pb_machine \<Rightarrow> 'm node_scheme \<Rightarrow>
    machine option res \<times> 'm node_scheme" where
  "syncMachineFromSpec sv E spec s =
    tryE id (sync_machine sv spec s) (\<lambda>(machine, shouldSendFakeTerminationEvents) s.
    tryE (Wrap ''failed to list previous machine events'') (svListEvents sv (pbmaMachineId spec) s) (\<lambda>previousEvents s.
    tryE id (send_previous E previousEvents s) (\<lambda>_ s.
    tryE id (if shouldSendFakeTerminationEvents then send_fake E (pbmaMachineId spec) s else (Ok (), s)) (\<lambda>_ s.
    (Ok machine, s)))))"

fun sync_expected :: "'m node_scheme service_ops \<Rightarrow> 'e node_env_scheme \<Rightarrow> pb_machine list \<Rightarrow> (string \<Rightarrow> bool) \<Rightarrow> 'm node_scheme \<Rightarrow>
    (string \<Rightarrow> bool) res \<times> 'm node_scheme" where
  "sync_expected sv E [] expected s = (Ok expected, s)"
| "sync_expected sv E (spec # specs) expected s =
    tryE (Wrap ''failed to reconcile machine'') (syncMachineFromSpec sv E spec s) (\<lambda>machine s.
    sync_expected sv E specs (expected(pbmaMachineId spec := machine \<noteq> None)) s)"

fun terminate_unexpected :: "'s service_ops \<Rightarrow> (string \<Rightarrow> bool) \<Rightarrow> machine list \<Rightarrow> 's \<Rightarrow> unit res \<times> 's" where
  "terminate_unexpected sv expected [] s = (Ok (), s)"
| "terminate_unexpected sv expected (m # ms) s =
    (if expected (mID m) then terminate_unexpected sv expected ms s
     else catchE (svUpdateDesiredState sv (mID m) MachineDesiredStateTerminated s)
       (\<lambda>_ s. terminate_unexpected sv expected ms s)
       (\<lambda>e s. if \<not> errors_is e ErrMachineNotFound then (Err (Wrap ''failed to terminate machine'' e), s)
          else terminate_unexpected sv expected ms s))"

definition syncMachines :: "'m node_scheme service_ops \<Rightarrow> 'e node_env_scheme \<Rightarrow> pb_machine list \<Rightarrow> 'm node_scheme \<Rightarrow>
    unit res \<times> 'm node_scheme" where
  "syncMachines sv E machines s =
    tryE id (sync_expected sv E machines (\<lambda>_. False) s) (\<lambda>expected s.
    tryE (Wrap ''failed to list machines'') (svList sv s) (\<lambda>current s.
    terminate_unexpected sv expected current s))"

section \<open>\<^verbatim>\<open>connection.go\<close> and \<^verbatim>\<open>worker.go\<close>\<close>

text \<open>An event read from the closed channel is nil.\<close>

definition handleIncomingEvent :: "'s service_ops \<Rightarrow> server_event option \<Rightarrow> 's \<Rightarrow> unit res \<times> 's" where
  "handleIncomingEvent sv anyEvent s = (case anyEvent of
      None \<Rightarrow> (Panic ''nil pointer dereference'', s)
    | Some (ServerEvent_CreateMachine m) \<Rightarrow> tryE id (createMachine sv m s) (\<lambda>_ s. (Ok (), s))
    | Some (ServerEvent_UpdateMachineDesiredState i d) \<Rightarrow>
        tryE id (svUpdateDesiredState sv i (ToMachineDesiredState d) s) (\<lambda>_ s. (Ok (), s))
    | Some ServerEvent_Ping \<Rightarrow> (Ok (), s)
    | _ \<Rightarrow> (Err (Errorf ''unknown event''), s))"

text \<open>
  The receiving goroutine: what it sends on the channel for what the stream gives, and whether it
  has closed the channel.  Errors other than the end of the stream are skipped.
\<close>

fun receiver :: "server_event res list \<Rightarrow> server_event list \<times> bool" where
  "receiver [] = ([], False)"
| "receiver (Ok event # rest) = (let (es, c) = receiver rest in (event # es, c))"
| "receiver (Err e # rest) = (if errors_is e ErrEOF then ([], True) else receiver rest)"
| "receiver (Panic p # rest) = ([], False)"

datatype loop_input = LoopDone | LoopIncoming "server_event option" | LoopTick

fun dispatchLoop :: "'m node_scheme service_ops \<Rightarrow> 'e node_env_scheme \<Rightarrow> loop_input list \<Rightarrow> 'm node_scheme \<Rightarrow>
    unit res \<times> 'm node_scheme" where
  "dispatchLoop sv E [] s = (Ok (), s)"
| "dispatchLoop sv E (LoopDone # rest) s = (Ok (), s)"
| "dispatchLoop sv E (LoopIncoming event # rest) s =
    tryE (Wrap ''failed to handle incoming event'') (handleIncomingEvent sv event s) (\<lambda>_ s. dispatchLoop sv E rest s)"
| "dispatchLoop sv E (LoopTick # rest) s =
    tryE (Wrap ''failed to send stats event'') (sendStatsEvent sv E s) (\<lambda>_ s. dispatchLoop sv E rest s)"

text \<open>
  \<^verbatim>\<open>startMachineEventListener\<close> subscribes; its goroutine sends every event it receives and drops the
  ones that fail, for the events it receives in a run.
\<close>

definition startMachineEventListener :: "'e node_env_scheme \<Rightarrow> 'm ms_node_scheme \<Rightarrow> string \<times> 'm ms_node_scheme" where
  "startMachineEventListener E s = MachineService_SubscribeToEvents E s"

fun event_listener :: "'e node_env_scheme \<Rightarrow> machine_event list \<Rightarrow> 'm node_scheme \<Rightarrow> unit res \<times> 'm node_scheme" where
  "event_listener E [] s = (Ok (), s)"
| "event_listener E (event # events) s = ignoreE (sendMachineEvent E event s) (\<lambda>s. event_listener E events s)"

definition openConnection :: "config \<Rightarrow> 'm reg_node_scheme service_ops \<Rightarrow> 'e node_env_scheme \<Rightarrow> loop_input list \<Rightarrow>
    'm reg_node_scheme \<Rightarrow> unit res \<times> 'm reg_node_scheme" where
  "openConnection cfg sv E inputs s =
    tryE (Wrap ''failed to send registration event'') (sendRegistrationEvent cfg sv E s) (\<lambda>registration s.
    let s = s\<lparr>rgNodeID := prcNodeId registration\<rparr>; (_, s) = startMachineEventListener E s in
    tryE (Wrap ''failed to sync machines'') (syncMachines sv E (prcExpectedMachines registration) s) (\<lambda>_ s.
    dispatchLoop sv E inputs s))"

text \<open>The worker: one list of inputs per connection; the context ends with the list.\<close>

fun startRegistrationWorker :: "config \<Rightarrow> 'm reg_node_scheme service_ops \<Rightarrow> 'e node_env_scheme \<Rightarrow> loop_input list list \<Rightarrow>
    'm reg_node_scheme \<Rightarrow> unit res \<times> 'm reg_node_scheme" where
  "startRegistrationWorker cfg sv E [] s = (Ok (), s)"
| "startRegistrationWorker cfg sv E (inputs # conns) s =
    ignoreE (openConnection cfg sv E inputs s) (\<lambda>s. startRegistrationWorker cfg sv E conns s)"

end
