(* ===== verification/RegistrationProps.thy ===== *)
theory RegistrationProps
  imports Registration
begin

text \<open>
  What the connection achieves, proved against the contract of the machine service and applied to
  the service's model: after a synchronisation the node has the machines the control plane expects
  and is ending all others; endpoints and statistics; what the end of the stream does.
\<close>

section \<open>Synchronisation\<close>

lemma call_trace_only: "call E c s = (r, s') \<Longrightarrow> trace_only s s'"
  by (cases r) auto

lemma sendMachineEvent_trace: "sendMachineEvent E e s = (r, s') \<Longrightarrow> trace_only s s'"
  by (auto simp: sendMachineEvent_def split: flow_asm proto_payload.splits dest: call_trace_only)

lemma send_previous_trace: "send_previous E events s = (r, s') \<Longrightarrow> trace_only s s'"
proof (induction events arbitrary: s)
  case (Cons e events)
  then show ?case
    by (auto split: flow_asm dest!: sendMachineEvent_trace intro: trace_only_trans)
qed simp

lemma send_fake_trace: "send_fake E i s = (r, s') \<Longrightarrow> trace_only s s'"
  by (auto simp: send_fake_def gen_id_def Let_def split: flow_asm)

context machine_service begin

lemma createMachine_known:
  assumes "inv s" "createMachine sv pm s = (r, s')"
  shows "inv s' \<and> (\<forall>j. known s' j \<longleftrightarrow> known s j \<or> is_ok r \<and> j = pbmaMachineId pm)"
proof (cases "ToMachineSpec (pbmaSpec pm)")
  case (Ok spec)
  then have "svCreate sv (create_options pm spec) s = (r, s')" using assms(2) by (simp add: createMachine_def)
  from create_known [OF assms(1) this] show ?thesis by (simp add: create_options_def)
qed (use assms in \<open>auto simp: createMachine_def\<close>)

lemma sync_machine_known:
  assumes "inv s" "sync_machine sv spec s = (Ok (mo, fake), s')"
  shows "inv s' \<and> (\<forall>j. known s' j \<longleftrightarrow> known s j \<or> mo \<noteq> None \<and> j = pbmaMachineId spec) \<and>
    (mo = None \<longleftrightarrow> fake) \<and> (fake \<longleftrightarrow> \<not> known s (pbmaMachineId spec) \<and> pbmaDesiredState spec = MachineDesiredState_Terminated)"
proof (cases "known s (pbmaMachineId spec)")
  case True
  obtain m where m: "svFindByID sv (pbmaMachineId spec) s = (Ok m, s)" using find_known [OF assms(1) True] by blast
  show ?thesis
  proof (cases "mDesiredState m = ToMachineDesiredState (pbmaDesiredState spec)")
    case eq: True
    with assms m True show ?thesis by (auto simp: sync_machine_def)
  next
    case False
    obtain r s1 where u: "svUpdateDesiredState sv (pbmaMachineId spec) (ToMachineDesiredState (pbmaDesiredState spec)) s = (r, s1)"
      by fastforce
    from update_known [OF assms(1) True u] obtain m' where "r = Ok m'" "inv s1" "known s1 = known s" by blast
    with assms m u False True show ?thesis by (auto simp: sync_machine_def)
  qed
next
  case False
  note f = find_unknown [OF False]
  show ?thesis
  proof (cases "pbmaDesiredState spec = MachineDesiredState_Terminated")
    case True
    with assms f False show ?thesis by (auto simp: sync_machine_def)
  next
    case nt: False
    obtain r s1 where c: "createMachine sv spec s = (r, s1)" by fastforce
    with assms(2) f nt have ok: "\<exists>m. r = Ok m" "mo \<noteq> None" "\<not> fake" "s' = s1"
      by (cases r; auto simp: sync_machine_def)+
    with createMachine_known [OF assms(1) c] nt show ?thesis by auto
  qed
qed

lemma syncMachineFromSpec_known:
  assumes "inv s" "syncMachineFromSpec sv E spec s = (Ok mo, s')"
  shows "inv s' \<and> (\<forall>j. known s' j \<longleftrightarrow> known s j \<or> mo \<noteq> None \<and> j = pbmaMachineId spec) \<and>
    (mo = None \<longleftrightarrow> \<not> known s (pbmaMachineId spec) \<and> pbmaDesiredState spec = MachineDesiredState_Terminated)"
proof -
  obtain mo' fake s1 where 1: "sync_machine sv spec s = (Ok (mo', fake), s1)"
    using assms(2) by (auto simp: syncMachineFromSpec_def split: flow_asm)
  have "trace_only s1 s' \<and> mo' = mo"
    using assms(2) 1
    by (auto simp: syncMachineFromSpec_def split: flow_asm if_splits
        dest!: events_trace send_previous_trace send_fake_trace intro: trace_only_trans)
  with trace_only_free [of s1 s'] sync_machine_known [OF assms(1) 1] show ?thesis by (cases mo) auto
qed

lemma sync_expected_known:
  "inv s \<Longrightarrow> sync_expected sv E specs expected s = (Ok expected', s') \<Longrightarrow>
    inv s' \<and> (\<forall>i. known s i \<longrightarrow> known s' i) \<and>
    (\<forall>spec \<in> set specs. pbmaDesiredState spec \<noteq> MachineDesiredState_Terminated \<longrightarrow> known s' (pbmaMachineId spec)) \<and>
    (\<forall>i. expected' i \<longrightarrow> expected i \<or> i \<in> pbmaMachineId ` set specs)"
proof (induction specs arbitrary: s expected)
  case Nil
  then show ?case by simp
next
  case (Cons spec specs)
  then obtain mo s1 where 1: "syncMachineFromSpec sv E spec s = (Ok mo, s1)"
    and 2: "sync_expected sv E specs (expected(pbmaMachineId spec := mo \<noteq> None)) s1 = (Ok expected', s')"
    by (auto split: flow_asm)
  note k = syncMachineFromSpec_known [OF Cons.prems(1) 1]
  note ih = Cons.IH [OF _ 2]
  show ?case
  proof (intro conjI ballI impI allI)
    fix sp assume "sp \<in> set (spec # specs)" "pbmaDesiredState sp \<noteq> MachineDesiredState_Terminated"
    then show "known s' (pbmaMachineId sp)" using ih k by auto
  next
    fix i assume "expected' i"
    with ih k have "(expected(pbmaMachineId spec := mo \<noteq> None)) i \<or> i \<in> pbmaMachineId ` set specs" by blast
    then show "expected i \<or> i \<in> pbmaMachineId ` set (spec # specs)" by (auto split: if_splits)
  qed (use ih k in auto)
qed

lemma terminate_unexpected_asked:
  "inv s \<Longrightarrow> terminate_unexpected sv expected ms s = (r, s') \<Longrightarrow>
    r = Ok () \<and> inv s' \<and> known s' = known s \<and> (\<forall>j e. asked s j e \<longrightarrow> asked s' j e) \<and>
    (\<forall>m \<in> set ms. known s (mID m) \<longrightarrow> \<not> expected (mID m) \<longrightarrow> asked s' (mID m) MachineDesiredStateTerminated)"
proof (induction ms arbitrary: s)
  case Nil
  then show ?case by simp
next
  case (Cons m ms)
  show ?case
  proof (cases "expected (mID m)")
    case True
    with Cons show ?thesis by auto
  next
    case False
    obtain r1 s1 where u: "svUpdateDesiredState sv (mID m) MachineDesiredStateTerminated s = (r1, s1)" by fastforce
    note a = update_any [OF Cons.prems(1) u]
    then have t: "terminate_unexpected sv expected ms s1 = (r, s')"
      using Cons.prems(2) u False by (cases r1) auto
    have "inv s1" using a by blast
    from Cons.IH [OF this t] a False show ?thesis by auto
  qed
qed

text \<open>
  A synchronisation that succeeds: every machine the control plane wants alive is known, and
  every known machine it does not name has been asked to terminate.
\<close>

lemma syncMachines_converges:
  assumes "inv s" "syncMachines sv E specs s = (Ok (), s')"
  shows "inv s' \<and> (\<forall>i. known s i \<longrightarrow> known s' i) \<and>
    (\<forall>spec \<in> set specs. pbmaDesiredState spec \<noteq> MachineDesiredState_Terminated \<longrightarrow> known s' (pbmaMachineId spec)) \<and>
    (\<forall>i. known s' i \<longrightarrow> i \<notin> pbmaMachineId ` set specs \<longrightarrow> asked s' i MachineDesiredStateTerminated)"
proof -
  obtain expected s1 where 1: "sync_expected sv E specs (\<lambda>_. False) s = (Ok expected, s1)"
    using assms(2) by (auto simp: syncMachines_def split: flow_asm)
  note k = sync_expected_known [OF assms(1) 1]
  then obtain ms where l: "svList sv s1 = (Ok ms, s1)" "mID ` set ms = {i. known s1 i}" using list_ok by blast
  have t: "terminate_unexpected sv expected ms s1 = (Ok (), s')"
    using assms(2) 1 l by (simp add: syncMachines_def)
  note a = terminate_unexpected_asked [OF _ t]
  have "asked s' i MachineDesiredStateTerminated" if "known s' i" "i \<notin> pbmaMachineId ` set specs" for i
  proof -
    have "known s1 i" using that a k by simp
    then obtain m where "m \<in> set ms" "mID m = i" using l(2) by (metis imageE mem_Collect_eq)
    with a k that \<open>known s1 i\<close> show ?thesis by blast
  qed
  with a k show ?thesis by simp
qed

text \<open>A loop of the connection neither forgets machines nor breaks the service.\<close>

lemma handleIncomingEvent_inv:
  assumes "inv s" "handleIncomingEvent sv ev s = (r, s')"
  shows "inv s' \<and> (\<forall>i. known s i \<longrightarrow> known s' i)"
proof (cases ev)
  case None
  with assms show ?thesis by (simp add: handleIncomingEvent_def)
next
  case (Some e)
  show ?thesis
  proof (cases e)
    case (ServerEvent_CreateMachine pm)
    obtain r1 s1 where c: "createMachine sv pm s = (r1, s1)" by fastforce
    from createMachine_known [OF assms(1) c] assms(2) Some ServerEvent_CreateMachine c show ?thesis
      by (cases r1) (auto simp: handleIncomingEvent_def)
  next
    case (ServerEvent_UpdateMachineDesiredState i d)
    obtain r1 s1 where c: "svUpdateDesiredState sv i (ToMachineDesiredState d) s = (r1, s1)" by fastforce
    from update_any [OF assms(1) c] assms(2) Some ServerEvent_UpdateMachineDesiredState c show ?thesis
      by (cases r1) (auto simp: handleIncomingEvent_def)
  qed (use assms Some in \<open>auto simp: handleIncomingEvent_def\<close>)
qed

end

text \<open>
  C14: a successful synchronisation with the control plane leaves the service with a controller for
  every machine that is expected and not to be terminated, and with a request to terminate waiting
  at the controller of every machine that is not expected; no machine is forgotten.
\<close>

theorem sync_converges:
  assumes "ms_inv s" "net_inv s" "syncMachines (MachineService_of E) E specs s = (Ok (), s')"
  shows "(\<forall>i. ms_known s i \<longrightarrow> ms_known s' i) \<and>
    (\<forall>spec \<in> set specs. pbmaDesiredState spec \<noteq> MachineDesiredState_Terminated \<longrightarrow> ms_known s' (pbmaMachineId spec)) \<and>
    (\<forall>i. ms_known s' i \<longrightarrow> i \<notin> pbmaMachineId ` set specs \<longrightarrow> ms_asked s' i MachineDesiredStateTerminated)"
  using svc.syncMachines_converges [OF _ assms(3)] assms(1,2) by blast

text \<open>
  A machine that the control plane wants terminated and the node does not know is not created:
  the control plane is told, as the last two messages, that its desired state and its state are
  terminated.
\<close>

theorem unknown_terminated_acknowledged:
  assumes k: "\<not> ms_known s (pbmaMachineId spec)" and d: "pbmaDesiredState spec = MachineDesiredState_Terminated"
    and r: "syncMachineFromSpec (MachineService_of E) E spec s = (Ok mo, s')"
  shows "mo = None \<and> ms_known s' = ms_known s \<and> (\<exists>t i j.
    nTrace s' = t @ [StreamSend (ClientEvent_Machine \<lparr>pmeEventId = i, pmeMachineId = pbmaMachineId spec,
        pmeTimestamp = env_now E t, pmeEvent = MachineEvent_DesiredStateChanged MachineDesiredState_Terminated\<rparr>), GenID,
      StreamSend (ClientEvent_Machine \<lparr>pmeEventId = j, pmeMachineId = pbmaMachineId spec,
        pmeTimestamp = env_now E (butlast (nTrace s')), pmeEvent = MachineEvent_StateChanged MachineState_Terminated\<rparr>)])"
proof -
  have 1: "sync_machine (MachineService_of E) spec s = (Ok (None, True), s)"
    using svc.find_unknown [OF k, of E] d by (simp add: sync_machine_def)
  obtain evs s1 where l: "svListEvents (MachineService_of E) (pbmaMachineId spec) s = (Ok evs, s1)"
    using r 1 by (auto simp: syncMachineFromSpec_def split: flow_asm)
  obtain s2 where p: "send_previous E evs s1 = (Ok (), s2)"
    using r 1 l by (auto simp: syncMachineFromSpec_def split: flow_asm)
  have f: "send_fake E (pbmaMachineId spec) s2 = (Ok (), s')" and mo: "mo = None"
    using r 1 l p by (auto simp: syncMachineFromSpec_def split: flow_asm)
  have "trace_only s s'"
    using svc.events_trace [OF l] send_previous_trace [OF p] send_fake_trace [OF f] trace_only_trans by blast
  then have kn: "ms_known s' = ms_known s" by (auto elim!: trace_onlyE simp: ms_known_def fun_eq_iff)
  have "\<exists>i j. nTrace s' = (nTrace s2 @ [GenID]) @ [StreamSend (ClientEvent_Machine \<lparr>pmeEventId = i, pmeMachineId = pbmaMachineId spec,
        pmeTimestamp = env_now E (nTrace s2 @ [GenID]), pmeEvent = MachineEvent_DesiredStateChanged MachineDesiredState_Terminated\<rparr>), GenID,
      StreamSend (ClientEvent_Machine \<lparr>pmeEventId = j, pmeMachineId = pbmaMachineId spec,
        pmeTimestamp = env_now E (butlast (nTrace s')), pmeEvent = MachineEvent_StateChanged MachineState_Terminated\<rparr>)]"
    using f by (auto simp: send_fake_def gen_id_def now_def Let_def butlast_append split: flow_asm)
  with mo kn show ?thesis by blast
qed

section \<open>Endpoints and statistics\<close>

definition plain :: "string \<Rightarrow> bool" where
  "plain x \<longleftrightarrow> set x \<inter> {CHR '':'', CHR ''['', CHR '']''} = {}"

text \<open>
  The endpoint announced for a listening address has the address's port, and its host or, when
  the address has none, the node's IP address.
\<close>

theorem endpoint_reachable:
  assumes "plain host" "plain port" "plain (cfIPAddr cfg)"
  shows "SplitHostPort (getEndpoint cfg (host @ '':'' @ port)) = Ok (if host = [] then cfIPAddr cfg else host, port)"
proof -
  have no: "CHR '':'' \<notin> set host" using assms(1) by (auto simp: plain_def)
  then have "SplitHostPort (host @ '':'' @ port) = Ok (host, port)"
    using SplitHostPort_JoinHostPort [of host port] assms by (simp add: plain_def JoinHostPort_def)
  then show ?thesis
    using assms SplitHostPort_JoinHostPort [of _ port] by (auto simp: getEndpoint_def plain_def)
qed

theorem endpoint_reachable_witness:
  "SplitHostPort (getEndpoint (sample_config\<lparr>cfIPAddr := ''10.0.0.7''\<rparr>) '':3443'') = Ok (''10.0.0.7'', ''3443'')"
  using endpoint_reachable [of "[]" "''3443''" "sample_config\<lparr>cfIPAddr := ''10.0.0.7''\<rparr>"] by (simp add: plain_def)

lemma reserved_memory_sum:
  "reserved_memory ms acc = Ok r \<Longrightarrow> (\<forall>m \<in> set ms. mSpec m \<noteq> None) \<and>
    unat r = (unat acc + (\<Sum>m \<leftarrow> ms. unat (msMemoryMB (the (mSpec m))))) mod 2 ^ 64"
proof (induction ms arbitrary: acc)
  case Nil
  have "unat acc < 2 ^ 64" using unsigned_less [of acc] by simp
  with Nil show ?case by simp
next
  case (Cons m ms)
  then obtain spec where spec: "mSpec m = Some spec" by (cases "mSpec m") auto
  with Cons have "(\<forall>m \<in> set ms. mSpec m \<noteq> None) \<and>
    unat r = (unat (acc + msMemoryMB spec) + (\<Sum>m \<leftarrow> ms. unat (msMemoryMB (the (mSpec m))))) mod 2 ^ 64" by simp
  with spec show ?case by (simp add: unat_word_ariths mod_simps add.assoc)
qed

text \<open>
  C39: the statistics are those of the machine list: the reserved memory is the sum of the machines'
  memory, reduced to 64 bits, so it is exact while the sum fits; the totals are the host's bytes
  in whole mebibytes, which cannot wrap.
\<close>

theorem stats_of_machines:
  assumes "newStatsProto (MachineService_of E) E s = (Ok p, s')"
  shows "\<exists>ms m. List s = (Ok ms, s) \<and> (\<forall>x \<in> set ms. mSpec x \<noteq> None) \<and>
    unat (pbsReservedMemoryMb p) = (\<Sum>x \<leftarrow> ms. unat (msMemoryMB (the (mSpec x)))) mod 2 ^ 64 \<and>
    unat (pbsTotalMemoryMb p) = unat (fst m) div 2 ^ 20 \<and> unat (pbsUsedMemoryMb p) = unat (snd m) div 2 ^ 20 \<and>
    m = ne_memory E (nTrace s)"
proof -
  obtain ms where l: "List s = (Ok ms, s)" by (simp add: List_def)
  have l': "svList (MachineService_of E) (s\<lparr>nTrace := t\<rparr>) = (Ok ms, s\<lparr>nTrace := t\<rparr>)" for t
    using l by (simp add: MachineService_of_def List_def GetState_def)
  obtain r where r: "reserved_memory ms 0 = Ok r" "pbsReservedMemoryMb p = r"
    "pbsTotalMemoryMb p = fst (ne_memory E (nTrace s)) div 1024 div 1024"
    "pbsUsedMemoryMb p = snd (ne_memory E (nTrace s)) div 1024 div 1024"
    using assms l' by (auto simp: newStatsProto_def split: flow_asm)
  have "unat ((x :: 64 word) div 1024 div 1024) = unat x div 2 ^ 20" for x
    by (simp add: unat_div div_mult2_eq [symmetric])
  with r l reserved_memory_sum [OF r(1)] show ?thesis
    by (intro exI [of _ ms] exI [of _ "ne_memory E (nTrace s)"]) simp
qed

section \<open>The end of the stream\<close>

lemma dispatchLoop_append:
  "LoopDone \<notin> set xs \<Longrightarrow> dispatchLoop sv E xs s = (Ok (), s') \<Longrightarrow> dispatchLoop sv E (xs @ ys) s = dispatchLoop sv E ys s'"
proof (induction xs arbitrary: s)
  case (Cons x xs)
  then show ?case by (cases x) (auto split: flow_asm)
qed simp

text \<open>
  When the control plane ends the stream, the agent panics: the receiving goroutine closes its
  channel and the loop, after the events received before, handles the nil event that the closed
  channel gives, whatever it would select later.
\<close>

theorem stream_end_panics:
  assumes "receiver results = (es, True)"
    and "dispatchLoop sv E (map (\<lambda>e. LoopIncoming (Some e)) es) s = (Ok (), s')"
  shows "dispatchLoop sv E (map (\<lambda>e. LoopIncoming (Some e)) es @ LoopIncoming None # later) s =
    (Panic ''nil pointer dereference'', s')"
proof -
  have "LoopDone \<notin> set (map (\<lambda>e. LoopIncoming (Some e)) es)" by auto
  from dispatchLoop_append [OF this assms(2)] show ?thesis by (simp add: handleIncomingEvent_def)
qed

theorem stream_end_panics_witness:
  "dispatchLoop (MachineService_of quiet_env) quiet_env [LoopIncoming (Some ServerEvent_Ping), LoopIncoming None, LoopDone] start_service =
     (Panic ''nil pointer dereference'', start_service)"
  using stream_end_panics [of "[Ok ServerEvent_Ping, Err ErrEOF]" "[ServerEvent_Ping]" "MachineService_of quiet_env" quiet_env
      start_service start_service "[LoopDone]"]
  by (simp add: handleIncomingEvent_def)

text \<open>A stream that fails otherwise is polled for ever: nothing is received and the channel stays open.\<close>

lemma failed_stream_spins: "\<forall>e \<in> set es. \<not> errors_is e ErrEOF \<Longrightarrow> receiver (map Err es) = ([], False)"
  by (induction es) auto

section \<open>Instances\<close>

lemma one_machine_inv: "ms_inv (one_machine events)" "net_inv (one_machine events)"
proof -
  show "ms_inv (one_machine events)"
    by (simp add: one_machine_def ms_inv_def alist_wf_def start_ctrl_def idle_machine_def state_of_def ctrl_at_def node.defs)
  have "net_same start_service (one_machine events)" by (simp add: net_same_def one_machine_def)
  then show "net_inv (one_machine events)" using net_same_inv by fastforce
qed

theorem sync_converges_witness:
  "\<exists>s'. syncMachines (MachineService_of quiet_env) quiet_env [] (one_machine []) = (Ok (), s') \<and>
     ms_asked s' ''m1'' MachineDesiredStateTerminated"
proof -
  note inv = one_machine_inv [of "[]"]
  obtain ms where l: "List (one_machine []) = (Ok ms, one_machine [])" by (simp add: List_def)
  obtain r s' where t: "terminate_unexpected (MachineService_of quiet_env) (\<lambda>_. False) ms (one_machine []) = (r, s')" by fastforce
  have r: "r = Ok ()" and k: "ms_known s' = ms_known (one_machine [])"
    using svc.terminate_unexpected_asked [OF _ t] inv by blast+
  have "syncMachines (MachineService_of quiet_env) quiet_env [] (one_machine []) = (Ok (), s')"
    using l t r by (simp add: syncMachines_def MachineService_of_def)
  with sync_converges [OF inv this] k show ?thesis by (auto simp: ms_known_def one_machine_def)
qed

definition gone_machine :: pb_machine where
  "gone_machine = \<lparr>pbmaMachineId = ''m9'', pbmaDesiredState = MachineDesiredState_Terminated, pbmaSpec = None, pbmaContainers = []\<rparr>"

theorem unknown_terminated_acknowledged_witness:
  "\<exists>s'. syncMachineFromSpec (MachineService_of quiet_env) quiet_env gone_machine start_service = (Ok None, s') \<and>
     length (filter (\<lambda>c. case c of StreamSend _ \<Rightarrow> True | _ \<Rightarrow> False) (nTrace s')) = 2"
proof -
  have k: "\<not> ms_known start_service (pbmaMachineId gone_machine)" by (simp add: ms_known_def)
  obtain mo s' where r: "syncMachineFromSpec (MachineService_of quiet_env) quiet_env gone_machine start_service = (Ok mo, s')"
      and l: "length (filter (\<lambda>c. case c of StreamSend _ \<Rightarrow> True | _ \<Rightarrow> False) (nTrace s')) = 2"
    by (simp add: syncMachineFromSpec_def sync_machine_def MachineService_of_def FindByID_def gone_machine_def ListEvents_def
        call_val_cases call_cases quiet_env_def send_fake_def gen_id_def Let_def)
  have "pbmaDesiredState gone_machine = MachineDesiredState_Terminated" by (simp add: gone_machine_def)
  from unknown_terminated_acknowledged [OF k this r] r l show ?thesis by auto
qed

definition big_machine :: ms_node where
  "big_machine = start_service\<lparr>msControllers := [(''m1'', node.more (start_ctrl\<lparr>coState := initial_state (idle_machine\<lparr>mSpec :=
     Some \<lparr>msName = None, msCpus = 2, msMemoryMB = 512, msTimeout = None\<rparr>\<rparr>)\<rparr>))]\<rparr>"

theorem stats_of_machines_witness:
  "\<exists>p s'. newStatsProto (MachineService_of quiet_env) quiet_env big_machine = (Ok p, s') \<and> unat (pbsReservedMemoryMb p) = 512"
proof -
  obtain p s' where r: "newStatsProto (MachineService_of quiet_env) quiet_env big_machine = (Ok p, s')"
    by (simp add: newStatsProto_def MachineService_of_def List_def GetState_def call_val_cases quiet_env_def big_machine_def initial_state_def)
  have "List big_machine = (Ok ms, big_machine) \<Longrightarrow> (\<Sum>x \<leftarrow> ms. unat (msMemoryMB (the (mSpec x)))) = 512" for ms
    by (auto simp: List_def GetState_def big_machine_def initial_state_def)
  with stats_of_machines [OF r] r show ?thesis by fastforce
qed

end
