(* ===== verification/IpText.thy ===== *)
theory IpText
  imports NetworkProvider
begin

text \<open>
  Addresses as text: \<^verbatim>\<open>net.ParseIP\<close> and \<^verbatim>\<open>net.ParseCIDR\<close> for IPv4, their inverses, and the database
  column of a network (\<^verbatim>\<open>GormNetIPNet\<close> in \<^verbatim>\<open>nodeagent/internal/types/network.go\<close>).
\<close>

section \<open>\<^verbatim>\<open>net.ParseIP\<close>\<close>

text \<open>Four numbers up to 255 without leading zeros.\<close>

definition parse_octet :: "string \<Rightarrow> 8 word option" where
  "parse_octet s = (if s \<noteq> [] \<and> list_all is_digit s \<and> length s \<le> 3 \<and> (1 < length s \<longrightarrow> hd s \<noteq> CHR ''0'') \<and> undec s \<le> 255
     then Some (of_nat (undec s)) else None)"

definition parse_ip4 :: "string \<Rightarrow> ip option" where
  "parse_ip4 s = (case map parse_octet (split_on (CHR ''.'') s) of
       [Some a, Some b, Some c, Some d] \<Rightarrow> Some [a, b, c, d]
     | _ \<Rightarrow> None)"

text \<open>\<^verbatim>\<open>ParseIP\<close> gives the 16-byte form; what it makes of a text with a colon is a parameter.\<close>

definition ipv4_prefix :: ip where
  "ipv4_prefix = replicate 10 0 @ [0xFF, 0xFF]"

definition ParseIP :: "(string \<Rightarrow> ip) \<Rightarrow> string \<Rightarrow> ip" where
  "ParseIP parse_ip6 s = (if CHR '':'' \<in> set s then parse_ip6 s
     else (case parse_ip4 s of Some a \<Rightarrow> ipv4_prefix @ a | None \<Rightarrow> []))"

lemma digit_zero: "n < 10 \<Longrightarrow> digit n = CHR ''0'' \<longleftrightarrow> n = 0"
  by (drule less_10_cases) (auto simp: digit_def)

lemma dec_short: "n < 256 \<Longrightarrow> length (dec n) \<le> 3 \<and> (1 < length (dec n) \<longrightarrow> hd (dec n) \<noteq> CHR ''0'')"
proof -
  assume n: "n < 256"
  consider "n < 10" | "10 \<le> n" "n < 100" | "100 \<le> n" by linarith
  then show ?thesis
  proof cases
    case 1
    then show ?thesis by (simp add: dec.simps [of n])
  next
    case 2
    then have "dec n = [digit (n div 10), digit (n mod 10)]" by (simp add: dec.simps [of n] dec.simps [of "n div 10"])
    with 2 show ?thesis by (simp add: digit_zero)
  next
    case 3
    have d: "n div 10 div 10 < 10" "\<not> n div 10 < 10" "n div 10 div 10 \<noteq> 0" using 3 n by simp_all
    have "dec n = [digit (n div 10 div 10), digit (n div 10 mod 10), digit (n mod 10)]"
      using 3 d(1,2) dec.simps [of "n div 10 div 10"] by (simp add: dec.simps [of n] dec.simps [of "n div 10"])
    with d show ?thesis by (simp add: digit_zero)
  qed
qed

lemma dec_chars: "\<not> is_digit c \<Longrightarrow> c \<notin> set (dec n)"
  using dec_digits by blast

lemma octet_dec: "parse_octet (dec (unat b)) = Some b" "CHR ''.'' \<notin> set (dec (unat b))" "CHR '':'' \<notin> set (dec (unat b))"
    "CHR ''/'' \<notin> set (dec (unat b))" for b :: "8 word"
proof -
  have "unat b \<le> 255" using unat_byte_bound [of b] by linarith
  then show "parse_octet (dec (unat b)) = Some b"
    using dec_short [of "unat b"] by (simp add: parse_octet_def list_all_iff dec_digits)
qed (auto simp: is_digit_def intro!: dec_chars)

lemma ip_string4: "To4 a = Some b \<Longrightarrow> ip_string a = join ''.'' (map (\<lambda>x. dec (unat x)) b)"
  by (simp add: ip_string_def)

lemma To4_length: "To4 a = Some b \<Longrightarrow> length b = 4"
  by (auto simp: To4_def split: if_splits)

lemma set_join: "set (join sep xs) \<subseteq> set sep \<union> \<Union> (set ` set xs)"
  by (induction sep xs rule: join.induct) auto

lemma ip_string_chars: "To4 a = Some b \<Longrightarrow> c \<in> set (ip_string a) \<Longrightarrow> c = CHR ''.'' \<or> is_digit c"
proof -
  assume a: "To4 a = Some b" "c \<in> set (ip_string a)"
  then have "c \<in> set ''.'' \<union> \<Union> (set ` set (map (\<lambda>x. dec (unat x)) b))"
    using set_join [of "''.''" "map (\<lambda>x. dec (unat x)) b"] by (auto simp only: ip_string4 [OF a(1)])
  then show ?thesis using dec_digits by auto
qed

lemma no_digits: "\<not> is_digit (CHR '':'')" "\<not> is_digit (CHR ''['')" "\<not> is_digit (CHR '']'')"
  by (simp_all add: is_digit_def)

lemma parse_ip4_string:
  assumes "To4 a = Some b"
  shows "parse_ip4 (ip_string a) = Some b \<and> CHR '':'' \<notin> set (ip_string a) \<and> CHR ''/'' \<notin> set (ip_string a)"
proof -
  obtain w x y z where b: "b = [w, x, y, z]" using To4_length [OF assms] list4 by blast
  have "split_on (CHR ''.'') (ip_string a) = map (\<lambda>x. dec (unat x)) b"
    unfolding ip_string4 [OF assms] using b by (intro split_on_join) (simp_all add: octet_dec)
  then show ?thesis
    using set_join [of "''.''" "map (\<lambda>x. dec (unat x)) b"]
    by (auto simp: parse_ip4_def b octet_dec ip_string4 [OF assms])
qed

lemma ParseIP_string: "To4 a = Some b \<Longrightarrow> ParseIP p (ip_string a) = ipv4_prefix @ b"
  using parse_ip4_string by (simp add: ParseIP_def)

section \<open>\<^verbatim>\<open>net.ParseCIDR\<close> and the column of a network\<close>

text \<open>\<^verbatim>\<open>net.CIDRMask\<close> of 32 bits, and an address under a mask.\<close>

definition cidr_mask :: "nat \<Rightarrow> 8 word list" where
  "cidr_mask n = map (\<lambda>k. of_nat (256 - 2 ^ (8 - min 8 (n - 8 * k)))) [0..<4]"

definition mask_ip :: "ip \<Rightarrow> 8 word list \<Rightarrow> ip" where
  "mask_ip a m = map2 (AND) a m"

text \<open>For texts without a colon.\<close>

definition ParseCIDR4 :: "string \<Rightarrow> ipnet res" where
  "ParseCIDR4 s = (case split_n2 (CHR ''/'') s of
      [host, bits] \<Rightarrow> (case parse_ip4 host of
          Some a \<Rightarrow> if bits \<noteq> [] \<and> list_all is_digit bits \<and> undec bits \<le> 32
            then Ok \<lparr>netIP = mask_ip a (cidr_mask (undec bits)), netMask = cidr_mask (undec bits)\<rparr>
            else Err (External (''invalid CIDR address: '' @ s))
        | None \<Rightarrow> Err (External (''invalid CIDR address: '' @ s)))
    | _ \<Rightarrow> Err (External (''invalid CIDR address: '' @ s)))"

text \<open>A column holds text, which is read for the tables the program writes, or another value, which panics.\<close>

datatype column = TextColumn string | OtherColumn

definition GormNetIPNet_Value :: "ipnet \<Rightarrow> column" where
  "GormNetIPNet_Value v = TextColumn (ipnet_string v)"

definition GormNetIPNet_Scan :: "column \<Rightarrow> ipnet res" where
  "GormNetIPNet_Scan value = (case value of
      TextColumn s \<Rightarrow> ParseCIDR4 s
    | OtherColumn \<Rightarrow> Panic ''interface conversion'')"

lemma split_n2_at: "c \<notin> set x \<Longrightarrow> split_n2 c (x @ c # y) = [x, y]"
proof -
  assume "c \<notin> set x"
  then have "takeWhile (\<lambda>z. z \<noteq> c) (x @ c # y) = x" "dropWhile (\<lambda>z. z \<noteq> c) (x @ c # y) = c # y"
    by (auto simp: takeWhile_append dropWhile_append)
  then show ?thesis by (simp add: split_n2_def Let_def)
qed

text \<open>
  A network read back from its column is the network that was stored, if its mask is the one of its
  prefix length; the program's network is such.
\<close>

lemma network_column_roundtrip:
  assumes "n \<le> 32" "length a = 4" "mask_ip a (cidr_mask n) = a" "mask_size (cidr_mask n) = (n, 32)"
  shows "GormNetIPNet_Scan (GormNetIPNet_Value \<lparr>netIP = a, netMask = cidr_mask n\<rparr>) = Ok \<lparr>netIP = a, netMask = cidr_mask n\<rparr>"
proof -
  have "To4 a = Some a" using assms(2) by (simp add: To4_def)
  note p = parse_ip4_string [OF this]
  have "split_n2 (CHR ''/'') (ip_string a @ CHR ''/'' # dec n) = [ip_string a, dec n]"
    using p by (intro split_n2_at) simp
  with p assms show ?thesis
    by (simp add: GormNetIPNet_Value_def GormNetIPNet_Scan_def ParseCIDR4_def ipnet_string_def list_all_iff dec_digits)
qed

lemma default_network_column: "GormNetIPNet_Scan (GormNetIPNet_Value default_cidr) = Ok default_cidr"
proof -
  have d: "default_cidr = \<lparr>netIP = [192, 168, 100, 0], netMask = cidr_mask 24\<rparr>" by (simp add: default_cidr_def cidr_mask_def upt_conv_Cons)
  have "mask_size (cidr_mask 24) = (24, 32)" by (simp add: mask_size_def cidr_mask_def byte_bits_def upt_conv_Cons)
  then show ?thesis
    using network_column_roundtrip [of 24 "[192, 168, 100, 0]"] by (simp add: d mask_ip_def cidr_mask_def upt_conv_Cons)
qed

end
