(* ===== verification/NodeServers.thy ===== *)
theory NodeServers
  imports Registration IpText
begin

text \<open>
  The servers of the node agent: the gateway to the machines (\<^verbatim>\<open>gatewayserver\<close>), the API server
  (\<^verbatim>\<open>apiserver\<close>), the configuration of the agent (\<^verbatim>\<open>main.go\<close>) and its command line client
  (\<^verbatim>\<open>nodeagentctl\<close>).  Both servers use the machine service through its interface.
\<close>

section \<open>The certificates of both servers\<close>

datatype client_auth = NoClientCert | RequireAndVerifyClientCert

record tls_config =
  tcClientAuth :: client_auth
  tcMinVersion :: nat
  tcCertificates :: "key_pair list"
  tcClientCAs :: "certificate list option"

text \<open>\<^verbatim>\<open>GetConfigForClient\<close>; \<^verbatim>\<open>VersionTLS12\<close> is 0x303.\<close>

definition GetConfigForClient :: "'m reg_node_scheme \<Rightarrow> tls_config" where
  "GetConfigForClient s = \<lparr>tcClientAuth = RequireAndVerifyClientCert, tcMinVersion = 0x303,
     tcCertificates = (case TLSCertificate s of Some cert \<Rightarrow> [cert] | None \<Rightarrow> []),
     tcClientCAs = map_option (\<lambda>cert. [cert]) (AuthorityCertificate s)\<rparr>"

section \<open>\<^verbatim>\<open>gatewayserver\<close>\<close>

text \<open>A request: its host as the client named it, and the parts of its URL that are passed on.\<close>

record gw_request =
  rqHost :: string
  rqPath :: string
  rqRawQuery :: string

record gw_url =
  gtHost :: string
  gtPath :: string
  gtRawQuery :: string

datatype gw_answer = GwStatus nat | Proxied gw_url

text \<open>
  \<^verbatim>\<open>httputil.NewSingleHostReverseProxy\<close> of the standard library: the URL of the proxied request, made of
  the target and the request.  Paths are those whose escaped form is the default one.
\<close>

definition has_suffix :: "string \<Rightarrow> string \<Rightarrow> bool" where
  "has_suffix s p \<longleftrightarrow> length p \<le> length s \<and> drop (length s - length p) s = p"

definition singleJoiningSlash :: "string \<Rightarrow> string \<Rightarrow> string" where
  "singleJoiningSlash a b = (let aslash = has_suffix a ''/''; bslash = has_prefix b ''/'' in
     if aslash \<and> bslash then a @ drop 1 b else if \<not> aslash \<and> \<not> bslash then a @ ''/'' @ b else a @ b)"

definition reverse_proxy :: "gw_url \<Rightarrow> gw_request \<Rightarrow> gw_url" where
  "reverse_proxy target r = \<lparr>gtHost = gtHost target, gtPath = singleJoiningSlash (gtPath target) (rqPath r),
     gtRawQuery = (if gtRawQuery target = [] \<or> rqRawQuery r = [] then gtRawQuery target @ rqRawQuery r
       else gtRawQuery target @ ''&'' @ rqRawQuery r)\<rparr>"

text \<open>The target is the URL of the request itself, with another host.\<close>

definition gateway_handler :: "'m node_scheme service_ops \<Rightarrow> gw_request \<Rightarrow> 'm node_scheme \<Rightarrow> gw_answer res \<times> 'm node_scheme" where
  "gateway_handler sv r s = (case SplitHostPort (rqHost r) of
      Ok (machineID, port) \<Rightarrow> catchE (svFindByID sv machineID s) (\<lambda>m s.
          if mNetworkInterface m = None \<or> mState m \<noteq> MachineStateRunning then (Ok (GwStatus 502), s)
          else tryE id (deref (nIfaces s) (mNetworkInterface m) s) (\<lambda>ni s.
            let targetURL = \<lparr>gtHost = JoinHostPort (ip_string (niIPAddress ni)) port, gtPath = rqPath r, gtRawQuery = rqRawQuery r\<rparr> in
            (Ok (Proxied (reverse_proxy targetURL r)), s)))
        (\<lambda>err s. if errors_is err ErrMachineNotFound then (Ok (GwStatus 404), s) else (Ok (GwStatus 500), s))
    | _ \<Rightarrow> (Ok (GwStatus 500), s))"

text \<open>A server that listens, by the addresses it listens on; before it is started there is none.\<close>

definition Gateway_Start :: "config \<Rightarrow> gerror option \<Rightarrow> string list option res" where
  "Gateway_Start cfg listen_err = (case listen_err of
      Some e \<Rightarrow> Err (Wrap ''failed to setup listener for gateway server'' e)
    | None \<Rightarrow> Ok (Some [cfGatewayAddr cfg]))"

definition Server_Stop :: "gerror option \<Rightarrow> string list option \<Rightarrow> unit res" where
  "Server_Stop shutdown_err server = (case server of
      None \<Rightarrow> Panic ''nil pointer dereference''
    | Some _ \<Rightarrow> (case shutdown_err of Some e \<Rightarrow> Err e | None \<Rightarrow> Ok ()))"

section \<open>\<^verbatim>\<open>apiserver\<close>\<close>

record api_machine =
  apMachineId :: string
  apState :: pb_machine_state
  apDesiredState :: pb_machine_desired_state

definition adaptMachine :: "machine \<Rightarrow> api_machine" where
  "adaptMachine m = \<lparr>apMachineId = mID m, apState = FromMachineState (mState m), apDesiredState = FromMachineDesiredState (mDesiredState m)\<rparr>"

definition ListMachines :: "'s service_ops \<Rightarrow> 's \<Rightarrow> api_machine list res \<times> 's" where
  "ListMachines sv s = tryE id (svList sv s) (\<lambda>machines s. (Ok (map adaptMachine machines), s))"

definition GetMachine :: "'s service_ops \<Rightarrow> string \<Rightarrow> 's \<Rightarrow> api_machine res \<times> 's" where
  "GetMachine sv machineId s = tryE id (svFindByID sv machineId s) (\<lambda>m s. (Ok (adaptMachine m), s))"

text \<open>
  The loop of both log calls: messages are sent as the channel gives them.  \<open>over\<close> is the number of
  messages received before the client's context ends, with its error.  Without a result the loop
  waits.
\<close>

definition forward_channel :: "(nat \<Rightarrow> gerror option) \<Rightarrow> (nat \<times> gerror) option \<Rightarrow> ('a \<Rightarrow> 'b) \<Rightarrow> 'a channel \<Rightarrow> unit res option \<times> 'b list" where
  "forward_channel send over msg ch = (let n = (case over of Some (n, _) \<Rightarrow> min n (length (chSent ch)) | None \<Rightarrow> length (chSent ch)) in
     case send_all send (map msg (take n (chSent ch))) [] of
       (Some e, sent) \<Rightarrow> (Some (Err e), sent)
     | (None, sent) \<Rightarrow> (case over of
         Some (k, e) \<Rightarrow> if n < k \<and> chClosed ch then (Some (Ok ()), sent) else (Some (Err e), sent)
       | None \<Rightarrow> if chClosed ch then (Some (Ok ()), sent) else (None, sent)))"

text \<open>The message of a machine's log has its content only.\<close>

record api_machine_log =
  amlContent :: string

definition Api_GetMachineLogs :: "config \<Rightarrow> 'e node_env_scheme \<Rightarrow> nat \<Rightarrow> (nat \<Rightarrow> gerror option) \<Rightarrow> (nat \<times> gerror) option \<Rightarrow>
    string \<Rightarrow> bool \<Rightarrow> 'm ms_node_scheme \<Rightarrow> unit res option \<times> api_machine_log list" where
  "Api_GetMachineLogs cfg E turns send over machineId follow s = (case fst (GetMachineLogs cfg E turns machineId follow s) of
      Ok ch \<Rightarrow> forward_channel send over (\<lambda>log. \<lparr>amlContent = mlContent log\<rparr>) ch
    | Err e \<Rightarrow> (Some (Err e), [])
    | Panic p \<Rightarrow> (Some (Panic p), []))"

definition Api_GetContainerLogs :: "config \<Rightarrow> 'e node_env_scheme \<Rightarrow> nat \<Rightarrow> (nat \<Rightarrow> gerror option) \<Rightarrow> (nat \<times> gerror) option \<Rightarrow>
    string \<Rightarrow> string \<Rightarrow> bool \<Rightarrow> 'm ms_node_scheme \<Rightarrow> unit res option \<times> container_log list" where
  "Api_GetContainerLogs cfg E turns send over machineId containerId follow s =
    (case fst (GetContainerLogs cfg E turns machineId containerId follow s) of
      Ok ch \<Rightarrow> forward_channel send over (\<lambda>log. log) ch
    | Err e \<Rightarrow> (Some (Err e), [])
    | Panic p \<Rightarrow> (Some (Panic p), []))"

definition agent_socket :: "config \<Rightarrow> string" where
  "agent_socket cfg = path_join [cfStorageDirectory cfg, ''agent.sock'']"

definition Api_Start :: "config \<Rightarrow> gerror option \<Rightarrow> gerror option \<Rightarrow> string list option res" where
  "Api_Start cfg unix_err tcp_err = (case unix_err of
      Some e \<Rightarrow> Err (Wrap ''failed to setup unix socket'' e)
    | None \<Rightarrow> (case tcp_err of
        Some e \<Rightarrow> Err (Wrap ''failed to setup listener for api server'' e)
      | None \<Rightarrow> Ok (Some [cfAPIAddr cfg, agent_socket cfg])))"

section \<open>\<^verbatim>\<open>main.go\<close>: the configuration\<close>

text \<open>\<^verbatim>\<open>filepath.Abs\<close> in a working directory, which the system may fail to give.\<close>

definition filepath_Abs :: "string res \<Rightarrow> string \<Rightarrow> string res" where
  "filepath_Abs cwd p = (if has_prefix p ''/'' then Ok (path_clean p)
     else (case cwd of Ok wd \<Rightarrow> Ok (path_join [wd, p]) | Err e \<Rightarrow> Err e | Panic m \<Rightarrow> Panic m))"

definition or_default :: "string \<Rightarrow> string \<Rightarrow> string" where
  "or_default value d = (if value = [] then d else value)"

definition config_from_env :: "(string \<Rightarrow> string) \<Rightarrow> config" where
  "config_from_env getenv = \<lparr>cfDebug = (getenv ''DEBUG'' = ''true''), cfClusterID = getenv ''NODE_CLUSTER_ID'',
     cfBootstrapToken = getenv ''NODE_BOOTSTRAP_TOKEN'', cfIPAddr = getenv ''NODE_IP_ADDR'',
     cfAPIAddr = or_default (getenv ''NODE_API_ADDR'') '':3443'',
     cfGatewayAddr = or_default (getenv ''NODE_GATEWAY_ADDR'') '':8443'',
     cfStorageDirectory = or_default (getenv ''NODE_STORAGE_DIRECTORY'') ''/var/lib/baepo'',
     cfRuntimeBinary = getenv ''NODE_RUNTIME_BINARY'',
     cfVolumeGroup = or_default (getenv ''NODE_VOLUME_GROUP'') ''vg_baepo'',
     cfControlPlaneURL = or_default (getenv ''NODE_CONTROL_PLANE_URL'') ''https://api.baepo.cloud''\<rparr>"

definition provideConfig :: "(string \<Rightarrow> string) \<Rightarrow> string res \<Rightarrow> config res" where
  "provideConfig getenv cwd = (let cfg = config_from_env getenv in
     if cfClusterID cfg = [] then Err (Errorf ''NODE_CLUSTER_ID env variable required'')
     else if cfBootstrapToken cfg = [] then Err (Errorf ''NODE_BOOTSTRAP_TOKEN env variable required'')
     else if cfRuntimeBinary cfg = [] then Err (Errorf ''NODE_RUNTIME_BINARY env variable required'')
     else if \<not> has_prefix (cfStorageDirectory cfg) ''/'' then
       (case filepath_Abs cwd (cfStorageDirectory cfg) of
          Ok p \<Rightarrow> Ok (cfg\<lparr>cfStorageDirectory := p\<rparr>)
        | Err e \<Rightarrow> Err (Wrap ''failed to get absolute path of the storage directory'' e)
        | Panic m \<Rightarrow> Panic m)
     else Ok cfg)"

section \<open>\<^verbatim>\<open>runtimeservice/get_client.go\<close> and \<^verbatim>\<open>nodeagentctl\<close>\<close>

definition runtime_socket :: "config \<Rightarrow> string \<Rightarrow> string" where
  "runtime_socket cfg machineID = path_join [GetMachineDirectory cfg machineID, ''runtime.sock'']"

definition ctl_socket :: "(string \<Rightarrow> string) \<Rightarrow> string" where
  "ctl_socket getenv = path_join [or_default (getenv ''NODE_STORAGE_DIRECTORY'') ''/var/lib/baepo'', ''agent.sock'']"

text \<open>\<^verbatim>\<open>logs\<close>: the request; without an argument there is none.\<close>

record ctl_logs_request =
  clrMachineId :: string
  clrFollow :: bool
  clrContainerName :: "string option"

definition ctl_logs_request_of :: "string list \<Rightarrow> bool \<Rightarrow> string \<Rightarrow> ctl_logs_request option" where
  "ctl_logs_request_of args follow container = (case args of
      [] \<Rightarrow> None
    | a # _ \<Rightarrow> Some \<lparr>clrMachineId = a, clrFollow = follow, clrContainerName = (if container \<noteq> [] then Some container else None)\<rparr>)"

section \<open>Routing\<close>

text \<open>A path that starts with a slash and does not end with one is doubled.\<close>

lemma singleJoiningSlash_same: "has_prefix p ''/'' \<Longrightarrow> \<not> has_suffix p ''/'' \<Longrightarrow> singleJoiningSlash p p = p @ p"
  by (simp add: singleJoiningSlash_def)

lemma singleJoiningSlash_root: "singleJoiningSlash ''/'' ''/'' = ''/''"
  by (simp add: singleJoiningSlash_def has_suffix_def has_prefix_def)

context machine_service
begin

lemma gateway_unknown:
  assumes "SplitHostPort (rqHost r) = Ok (i, port)" "\<not> known s i"
  shows "gateway_handler sv r s = (Ok (GwStatus 404), s)"
  using assms find_unknown [OF assms(2)] by (simp add: gateway_handler_def)

lemma gateway_known:
  assumes "SplitHostPort (rqHost r) = Ok (i, port)" "inv s" "known s i"
  shows "\<exists>m. svFindByID sv i s = (Ok m, s) \<and> mID m = i \<and>
    (mNetworkInterface m = None \<or> mState m \<noteq> MachineStateRunning \<longrightarrow> gateway_handler sv r s = (Ok (GwStatus 502), s)) \<and>
    (\<forall>a ni. mNetworkInterface m = Some a \<and> mState m = MachineStateRunning \<and> nIfaces s a = Some ni \<longrightarrow>
       gateway_handler sv r s = (Ok (Proxied (reverse_proxy
         \<lparr>gtHost = JoinHostPort (ip_string (niIPAddress ni)) port, gtPath = rqPath r, gtRawQuery = rqRawQuery r\<rparr> r)), s))"
  using find_known [OF assms(2,3)] assms(1) by (auto simp: gateway_handler_def deref_Some)

end


text \<open>The proxied path is the client's path twice, because the target already contains it.\<close>

lemma gateway_doubles_path:
  assumes "has_prefix (rqPath r) ''/''" "\<not> has_suffix (rqPath r) ''/''"
  shows "gtPath (reverse_proxy \<lparr>gtHost = h, gtPath = rqPath r, gtRawQuery = rqRawQuery r\<rparr> r) = rqPath r @ rqPath r"
  using assms by (simp add: reverse_proxy_def singleJoiningSlash_same)

text \<open>A host without a port, as browsers send for the default port, is an internal error.\<close>

lemma gateway_needs_port: "CHR '':'' \<notin> set (rqHost r) \<Longrightarrow> gateway_handler sv r s = (Ok (GwStatus 500), s)"
proof -
  assume "CHR '':'' \<notin> set (rqHost r)"
  from last_index_append_no [OF this, of "[]" 0 None] have n: "last_index (CHR '':'') (rqHost r) 0 None = None" by simp
  have "SplitHostPort (rqHost r) = Err (Errorf ''missing port in address'')" unfolding SplitHostPort_def n by simp
  then show "gateway_handler sv r s = (Ok (GwStatus 500), s)" unfolding gateway_handler_def by simp
qed

section \<open>Configuration and sockets\<close>

lemma provideConfig_Ok:
  assumes "provideConfig getenv cwd = Ok cfg"
  shows "\<exists>d. cfg = (config_from_env getenv)\<lparr>cfStorageDirectory := d\<rparr> \<and> cfClusterID cfg \<noteq> [] \<and> cfBootstrapToken cfg \<noteq> [] \<and>
    cfRuntimeBinary cfg \<noteq> [] \<and> (has_prefix (cfStorageDirectory (config_from_env getenv)) ''/'' \<longrightarrow> cfg = config_from_env getenv)"
  using assms by (cases "filepath_Abs cwd (cfStorageDirectory (config_from_env getenv))")
    (auto simp: provideConfig_def Let_def split: if_splits intro: exI [of _ "cfStorageDirectory cfg"])

text \<open>With an absolute directory, the default one in particular, the client and the agent meet at the same socket.\<close>

lemma sockets_meet:
  assumes "provideConfig getenv cwd = Ok cfg" "has_prefix (cfStorageDirectory (config_from_env getenv)) ''/''"
  shows "ctl_socket getenv = agent_socket cfg"
proof -
  have "cfg = config_from_env getenv" using provideConfig_Ok [OF assms(1)] assms(2) by blast
  then show ?thesis by (simp add: ctl_socket_def agent_socket_def config_from_env_def)
qed

section \<open>Instances\<close>

text \<open>A node with one running machine whose interface has been allocated.\<close>

definition serving_node :: ms_node where
  "serving_node = (snd (AllocateInterface quiet_env start_service))\<lparr>msControllers :=
     [(''m1'', node.more (start_ctrl\<lparr>coState := initial_state (idle_machine\<lparr>mState := MachineStateRunning\<rparr>)\<rparr>))]\<rparr>"


end
