(* ===== verification/NodeMain.thy ===== *)
theory NodeMain
  imports NodeServers
begin

text \<open>
  What holds the node agent together: \<^verbatim>\<open>nodeagent/main.go\<close> (the parts, the database, the hooks that start
  the services), \<^verbatim>\<open>core/fxlog\<close>, the client of a runtime (\<^verbatim>\<open>runtimeservice/get_client.go\<close>) and the commands
  of \<^verbatim>\<open>nodeagentctl\<close>.
\<close>

section \<open>\<^verbatim>\<open>fxlog\<close>\<close>

datatype fx_event =
    OnStartExecuting | OnStopExecuting | Supplied | Provided | Decorated
  | Invoked "gerror option"
  | Started "gerror option"
  | Stopped "gerror option"
  | OtherEvent

text \<open>What is logged: a message and the error.\<close>

definition LogEvent :: "fx_event \<Rightarrow> (string \<times> gerror) option" where
  "LogEvent event = (case event of
      Invoked err \<Rightarrow> map_option (Pair ''invoke failed'') err
    | Started err \<Rightarrow> map_option (Pair ''start failed'') err
    | Stopped err \<Rightarrow> map_option (Pair ''stop failed'') err
    | _ \<Rightarrow> None)"

section \<open>The database\<close>

text \<open>The file, with the options of the driver, and the tables that are brought up to date.\<close>

definition db_source :: "config \<Rightarrow> string" where
  "db_source cfg = path_join [cfStorageDirectory cfg, ''node.db?_busy_timeout=5000&_journal_mode=WAL&_synchronous=NORMAL'']"

definition db_tables :: "string list" where
  "db_tables = [''Volume'', ''Image'', ''NetworkInterface'', ''Machine'', ''MachineEvent'', ''MachineVolume'', ''Container'']"

definition provideGORM :: "(string \<Rightarrow> gerror option) \<Rightarrow> (string list \<Rightarrow> gerror option) \<Rightarrow> config \<Rightarrow> string res" where
  "provideGORM open_err migrate_err cfg = (case open_err (db_source cfg) of
      Some e \<Rightarrow> Err e
    | None \<Rightarrow> (case migrate_err db_tables of Some e \<Rightarrow> Err e | None \<Rightarrow> Ok (db_source cfg)))"

section \<open>The parts of the agent\<close>

text \<open>
  The constructors that \<^verbatim>\<open>main\<close> registers with the fx package and its two invocations.  \<open>MachineHooks\<close> and
  \<open>RegistrationHooks\<close> provide the interfaces of the two services and append their hooks.
\<close>

datatype part =
    ConfigPart | GORMPart | NetworkProviderPart | ImageProviderPart | RuntimeServicePart | VolumeProviderPart | ControlPlaneClientPart
  | MachineServicePart | RegistrationServicePart | ApiServerPart | GatewayServerPart
  | MachineHooks | RegistrationHooks | InvokeApiServer | InvokeGatewayServer

text \<open>The parameters of the constructors, as far as \<^verbatim>\<open>main\<close> provides them.\<close>

fun needs :: "part \<Rightarrow> part list" where
  "needs ConfigPart = []"
| "needs GORMPart = [ConfigPart]"
| "needs NetworkProviderPart = [GORMPart]"
| "needs ImageProviderPart = [GORMPart, VolumeProviderPart]"
| "needs RuntimeServicePart = [ConfigPart]"
| "needs VolumeProviderPart = [GORMPart, ConfigPart]"
| "needs ControlPlaneClientPart = [ConfigPart]"
| "needs MachineServicePart = [GORMPart, VolumeProviderPart, NetworkProviderPart, RuntimeServicePart, ImageProviderPart, ConfigPart]"
| "needs MachineHooks = [MachineServicePart]"
| "needs RegistrationServicePart = [GORMPart, ControlPlaneClientPart, ConfigPart, MachineHooks]"
| "needs RegistrationHooks = [RegistrationServicePart]"
| "needs ApiServerPart = [RegistrationHooks, MachineHooks, ConfigPart]"
| "needs GatewayServerPart = [RegistrationHooks, MachineHooks, ConfigPart]"
| "needs InvokeApiServer = [ApiServerPart]"
| "needs InvokeGatewayServer = [GatewayServerPart]"

datatype node_service = MachineServiceHook | RegistrationServiceHook | ApiServerHook | GatewayServerHook

definition hook_of :: "part \<Rightarrow> node_service option" where
  "hook_of p = (case p of
      MachineHooks \<Rightarrow> Some MachineServiceHook
    | RegistrationHooks \<Rightarrow> Some RegistrationServiceHook
    | InvokeApiServer \<Rightarrow> Some ApiServerHook
    | InvokeGatewayServer \<Rightarrow> Some GatewayServerHook
    | _ \<Rightarrow> None)"

text \<open>
  An order in which the fx package may build the parts: each once, after what it needs, and the
  invocations one after the other.  The hooks are run in the order in which they were appended.
\<close>

fun after_needs :: "part list \<Rightarrow> part list \<Rightarrow> bool" where
  "after_needs built [] = True"
| "after_needs built (p # ps) \<longleftrightarrow> set (needs p) \<subseteq> set built \<and> after_needs (p # built) ps"

definition fx_order :: "part list \<Rightarrow> bool" where
  "fx_order ps \<longleftrightarrow> distinct ps \<and> after_needs [] ps \<and> filter (\<lambda>p. p \<in> {InvokeApiServer, InvokeGatewayServer}) ps = [InvokeApiServer, InvokeGatewayServer]"

lemma after_needs_split: "after_needs built (xs @ p # ys) \<Longrightarrow> set (needs p) \<subseteq> set built \<union> set xs"
  by (induction xs arbitrary: built) fastforce+

lemma needs_split:
  assumes "after_needs [] ps" "ps = xs @ p # ys" "q \<in> set (needs p)"
  shows "\<exists>as bs. xs = as @ q # bs"
  using after_needs_split [of "[]" xs p ys] assms by (auto dest: split_list)

lemma no_hooks: "set xs \<inter> {MachineHooks, RegistrationHooks, InvokeApiServer, InvokeGatewayServer} = {} \<Longrightarrow> List.map_filter hook_of xs = []"
  by (induction xs) (auto simp: map_filter_simps hook_of_def split: part.splits)

text \<open>
  However the parts are built, the services are started in one order: the machines are loaded before
  the agent connects to the control plane, and both servers start after that.
\<close>

theorem services_start_in_order:
  assumes "fx_order ps"
  shows "List.map_filter hook_of ps = [MachineServiceHook, RegistrationServiceHook, ApiServerHook, GatewayServerHook]"
proof -
  have d: "distinct ps" and n: "after_needs [] ps"
    and i: "filter (\<lambda>p. p \<in> {InvokeApiServer, InvokeGatewayServer}) ps = [InvokeApiServer, InvokeGatewayServer]"
    using assms by (auto simp: fx_order_def)
  from filter_eq_ConsD [OF i] obtain xs ys where s: "ps = xs @ InvokeApiServer # ys"
      "filter (\<lambda>p. p \<in> {InvokeApiServer, InvokeGatewayServer}) ys = [InvokeGatewayServer]"
    by metis
  from filter_eq_ConsD [OF s(2)] obtain ys1 ys2 where y: "ys = ys1 @ InvokeGatewayServer # ys2" by blast
  obtain as bs where x: "xs = as @ ApiServerPart # bs" using needs_split [OF n s(1), of ApiServerPart] by auto
  obtain cs ds where a: "as = cs @ RegistrationHooks # ds"
    using needs_split [OF n, of as ApiServerPart "bs @ InvokeApiServer # ys" RegistrationHooks] s(1) x by auto
  obtain es fs where c: "cs = es @ RegistrationServicePart # fs"
    using needs_split [OF n, of cs RegistrationHooks "ds @ ApiServerPart # bs @ InvokeApiServer # ys" RegistrationServicePart] s(1) x a by auto
  obtain gs hs where e: "es = gs @ MachineHooks # hs"
    using needs_split [OF n, of es RegistrationServicePart "fs @ RegistrationHooks # ds @ ApiServerPart # bs @ InvokeApiServer # ys" MachineHooks]
      s(1) x a c by auto
  have ps: "ps = gs @ MachineHooks # (hs @ RegistrationServicePart # fs) @ RegistrationHooks # (ds @ ApiServerPart # bs) @ InvokeApiServer # ys1 @ InvokeGatewayServer # ys2"
    using s(1) x a c e y by simp
  have "set gs \<inter> {MachineHooks, RegistrationHooks, InvokeApiServer, InvokeGatewayServer} = {}"
    "set (hs @ RegistrationServicePart # fs) \<inter> {MachineHooks, RegistrationHooks, InvokeApiServer, InvokeGatewayServer} = {}"
    "set (ds @ ApiServerPart # bs) \<inter> {MachineHooks, RegistrationHooks, InvokeApiServer, InvokeGatewayServer} = {}"
    "set ys1 \<inter> {MachineHooks, RegistrationHooks, InvokeApiServer, InvokeGatewayServer} = {}"
    "set ys2 \<inter> {MachineHooks, RegistrationHooks, InvokeApiServer, InvokeGatewayServer} = {}"
    using d unfolding ps by auto
  from this [THEN no_hooks] show ?thesis
    unfolding ps by (simp add: map_filter_append map_filter_simps hook_of_def)
qed

section \<open>The client of a runtime\<close>

text \<open>
  A client over a socket: the URL, the socket it dials and the timeouts in seconds; and the connections
  that it closes in the end, which are those whose dial succeeded.
\<close>

record unix_client =
  ucURL :: string
  ucSocket :: string
  ucIdleConnTimeout :: "nat option"
  ucResponseHeaderTimeout :: "nat option"

fun dialled :: "'c res list \<Rightarrow> 'c list" where
  "dialled [] = []"
| "dialled (Ok conn # rs) = conn # dialled rs"
| "dialled (_ # rs) = dialled rs"

definition GetClient :: "config \<Rightarrow> string \<Rightarrow> unix_client \<times> ('c res list \<Rightarrow> 'c list)" where
  "GetClient cfg machineID = (\<lparr>ucURL = ''http://runtime'', ucSocket = runtime_socket cfg machineID,
     ucIdleConnTimeout = Some 10, ucResponseHeaderTimeout = Some 5\<rparr>, dialled)"

section \<open>\<^verbatim>\<open>nodeagentctl\<close>\<close>

definition newClient :: "(string \<Rightarrow> string) \<Rightarrow> unix_client" where
  "newClient getenv = \<lparr>ucURL = ''http://agent'', ucSocket = ctl_socket getenv, ucIdleConnTimeout = None, ucResponseHeaderTimeout = None\<rparr>"

text \<open>\<^verbatim>\<open>list\<close>: the rows of the table; the names of the states belong to the messages.\<close>

definition ctl_list :: "(pb_machine_state \<Rightarrow> string) \<Rightarrow> (pb_machine_desired_state \<Rightarrow> string) \<Rightarrow> api_machine list res \<Rightarrow> string list list res" where
  "ctl_list state_name desired_name answer = (case answer of
      Err e \<Rightarrow> Err e
    | Panic p \<Rightarrow> Panic p
    | Ok machines \<Rightarrow> Ok ([''ID'', ''State'', ''Desired State''] #
        map (\<lambda>obj. [apMachineId obj, state_name (apState obj), desired_name (apDesiredState obj)]) machines))"

text \<open>
  \<^verbatim>\<open>logs\<close>: \<open>answer\<close> is the stream that the server gives, of messages with their error flags, or an error.
  How the stream ends is not looked at.
\<close>

datatype ctl_output = ErrorLine string | Stdout string | Stderr string

definition ctl_logs :: "(ctl_logs_request \<Rightarrow> (bool \<times> string) list res) \<Rightarrow> string list \<Rightarrow> bool \<Rightarrow> string \<Rightarrow> unit res \<times> ctl_output list" where
  "ctl_logs answer args follow container = (case ctl_logs_request_of args follow container of
      None \<Rightarrow> (Ok (), [ErrorLine ''You must provide a machine ID.''])
    | Some req \<Rightarrow> (case answer req of
        Err e \<Rightarrow> (Err e, [])
      | Panic p \<Rightarrow> (Panic p, [])
      | Ok msgs \<Rightarrow> (Ok (), map (\<lambda>(error, content). if error then Stderr content else Stdout content) msgs)))"

text \<open>The table against the agent's machine service: a row per machine, with the states of its row in the database.\<close>

lemma ctl_list_of_machines:
  assumes "svList sv s = (Ok machines, s')"
  shows "ctl_list f g (fst (ListMachines sv s)) = Ok ([''ID'', ''State'', ''Desired State''] #
    map (\<lambda>m. [mID m, f (FromMachineState (mState m)), g (FromMachineDesiredState (mDesiredState m))]) machines)"
  using assms by (simp add: ctl_list_def ListMachines_def adaptMachine_def)

text \<open>The agent's answer carries no error flag, so everything is printed to the standard output, whatever container is named.\<close>

definition agent_answer :: "config \<Rightarrow> 'e node_env_scheme \<Rightarrow> nat \<Rightarrow> (nat \<Rightarrow> gerror option) \<Rightarrow> (nat \<times> gerror) option \<Rightarrow> 'm ms_node_scheme \<Rightarrow>
    ctl_logs_request \<Rightarrow> (bool \<times> string) list res" where
  "agent_answer cfg E turns send over s req =
    Ok (map (\<lambda>m. (False, amlContent m)) (snd (Api_GetMachineLogs cfg E turns send over (clrMachineId req) (clrFollow req) s)))"

lemma ctl_logs_prints_all:
  "ctl_logs (agent_answer cfg E turns send over s) (i # args) follow container =
    (Ok (), map (Stdout \<circ> amlContent) (snd (Api_GetMachineLogs cfg E turns send over i follow s)))"
  by (simp add: ctl_logs_def ctl_logs_request_of_def agent_answer_def comp_def)

end
