(* ===== verification/InitLogs.thy ===== *)
theory InitLogs
  imports GoLib EventBus
begin

text \<open>
  \<^verbatim>\<open>init/internal/logservice\<close>: the output of the containers inside the virtual machine, cut into
  lines, kept in a file and handed to the subscribed handlers.  The outcome and the time of each
  write of an entry are functions of the number of writes before it.
\<close>

section \<open>\<^verbatim>\<open>types/log.go\<close> and \<^verbatim>\<open>service.go\<close>\<close>

record init_entry =
  ieContainerID :: string
  ieContainerName :: "string option"
  ieTimestamp :: nat
  ieError :: bool
  ieContent :: string

text \<open>
  The file holds the entries that decode and, as \<open>None\<close>, what does not; \<open>lsCalls\<close> are the calls of
  the handlers, by identifier; \<open>lsConsole\<close> is what went to the console (true: standard error).
\<close>

record 'h log_service =
  lsDirectory :: string
  lsFile :: "init_entry option list"
  lsEncErr :: "gerror option"
  lsConsole :: "(bool \<times> string) list"
  lsHandlers :: "(string \<times> 'h) list"
  lsCalls :: "('h \<times> init_entry) list"
  lsWrites :: nat

record write_env =
  we_err :: "nat \<Rightarrow> gerror option"
  we_now :: "nat \<Rightarrow> nat"

definition LogService_New :: "string \<Rightarrow> gerror option \<Rightarrow> gerror option \<Rightarrow> 'h log_service res" where
  "LogService_New storageDirectory mkdir create = (case mkdir of
      Some e \<Rightarrow> Err (Wrap ''failed to create log manager storage directory'' e)
    | None \<Rightarrow> (case create of
        Some e \<Rightarrow> Err (Wrap ''failed to create log file'' e)
      | None \<Rightarrow> Ok \<lparr>lsDirectory = storageDirectory, lsFile = [], lsEncErr = None, lsConsole = [], lsHandlers = [],
          lsCalls = [], lsWrites = 0\<rparr>))"

text \<open>\<^verbatim>\<open>json.Encoder.Encode\<close>: an error stays.\<close>

definition encode_entry :: "write_env \<Rightarrow> init_entry \<Rightarrow> 'h log_service \<Rightarrow> unit res \<times> 'h log_service" where
  "encode_entry W entry s = (case lsEncErr s of
      Some e \<Rightarrow> (Err e, s)
    | None \<Rightarrow> (let n = lsWrites s; s = s\<lparr>lsWrites := Suc n\<rparr> in
        case we_err W n of
          Some e \<Rightarrow> (Err e, s\<lparr>lsEncErr := Some e, lsFile := lsFile s @ [None]\<rparr>)
        | None \<Rightarrow> (Ok (), s\<lparr>lsFile := lsFile s @ [Some entry]\<rparr>)))"

definition LogService_Write :: "write_env \<Rightarrow> init_entry \<Rightarrow> 'h log_service \<Rightarrow> unit res \<times> 'h log_service" where
  "LogService_Write W entry s = tryE id (encode_entry W entry s) (\<lambda>_ s.
     (Ok (), s\<lparr>lsConsole := lsConsole s @ [(ieError entry, ieContent entry)],
        lsCalls := lsCalls s @ map (\<lambda>h. (snd h, entry)) (lsHandlers s)\<rparr>))"

definition AddHandler :: "string \<Rightarrow> 'h \<Rightarrow> 'h log_service \<Rightarrow> 'h log_service" where
  "AddHandler handlerID handler s = s\<lparr>lsHandlers := AList.update handlerID handler (lsHandlers s)\<rparr>"

definition RemoveHandler :: "string \<Rightarrow> 'h log_service \<Rightarrow> 'h log_service" where
  "RemoveHandler handlerID s = s\<lparr>lsHandlers := AList.delete handlerID (lsHandlers s)\<rparr>"

interpretation loghandlers: handler_registry AddHandler RemoveHandler
    "\<lambda>s. map_of (lsHandlers s)" "\<lambda>s. map snd (lsHandlers s)" "\<lambda>s. alist_wf (lsHandlers s)"
proof (unfold_locales, goal_cases)
  case (5 r i h)
  then show ?case by (simp add: AddHandler_def alist_update_fresh)
next
  case (6 r r')
  then show ?case by (rule alist_mset_eq)
qed (simp_all add: AddHandler_def RemoveHandler_def)

section \<open>\<^verbatim>\<open>log_writer.go\<close>\<close>

record log_writer =
  lwContainerID :: string
  lwContainerName :: "string option"
  lwError :: bool
  lwBuf :: string

definition NewContainerLogWriter :: "string \<Rightarrow> string option \<Rightarrow> log_writer \<times> log_writer" where
  "NewContainerLogWriter containerID containerName =
    (\<lparr>lwContainerID = containerID, lwContainerName = containerName, lwError = False, lwBuf = []\<rparr>,
     \<lparr>lwContainerID = containerID, lwContainerName = containerName, lwError = True, lwBuf = []\<rparr>)"

text \<open>\<^verbatim>\<open>bytes.Buffer.ReadString\<close>: up to and with the delimiter, or all of the buffer and the end.\<close>

definition ReadString :: "char \<Rightarrow> string \<Rightarrow> string \<times> bool \<times> string" where
  "ReadString c buf = (case dropWhile (\<lambda>x. x \<noteq> c) buf of
      [] \<Rightarrow> (buf, False, [])
    | _ # rest \<Rightarrow> (takeWhile (\<lambda>x. x \<noteq> c) buf @ [c], True, rest))"

lemma ReadString_rest: "ReadString c buf = (line, True, rest) \<Longrightarrow> buf = line @ rest \<and> length rest < length buf"
proof -
  assume r: "ReadString c buf = (line, True, rest)"
  then obtain x where d: "dropWhile (\<lambda>x. x \<noteq> c) buf = x # rest" and l: "line = takeWhile (\<lambda>x. x \<noteq> c) buf @ [c]"
    by (auto simp: ReadString_def split: list.splits)
  then have "x = c" using hd_dropWhile [of "\<lambda>x. x \<noteq> c" buf] by simp
  with d l takeWhile_dropWhile_id [of "\<lambda>x. x \<noteq> c" buf] have "buf = line @ rest" by simp
  moreover have "line \<noteq> []" using l by (metis snoc_eq_iff_butlast)
  ultimately show ?thesis by simp
qed

definition line_entry :: "write_env \<Rightarrow> log_writer \<Rightarrow> string \<Rightarrow> 'h log_service \<Rightarrow> init_entry" where
  "line_entry W w line s = \<lparr>ieContainerID = lwContainerID w, ieContainerName = lwContainerName w,
     ieTimestamp = we_now W (lsWrites s), ieError = lwError w, ieContent = line\<rparr>"

text \<open>The loop: one entry per complete line; what is left goes back to the buffer.\<close>

function write_lines :: "write_env \<Rightarrow> log_writer \<Rightarrow> 'h log_service \<Rightarrow> unit res \<times> log_writer \<times> 'h log_service" where
  "write_lines W w s = (case ReadString (CHR 0x0A) (lwBuf w) of
      (line, False, rest) \<Rightarrow> (Ok (), w\<lparr>lwBuf := line\<rparr>, s)
    | (line, True, rest) \<Rightarrow> (let w = w\<lparr>lwBuf := rest\<rparr> in
        case LogService_Write W (line_entry W w line s) s of
          (Ok _, s) \<Rightarrow> write_lines W w s
        | (Err e, s) \<Rightarrow> (Err e, w, s)
        | (Panic p, s) \<Rightarrow> (Panic p, w, s)))"
  by pat_completeness auto

termination
  by (relation "measure (\<lambda>(W, w, s). length (lwBuf w))") (auto dest: ReadString_rest [OF sym])

declare write_lines.simps [simp del]

definition logWriter_Write :: "write_env \<Rightarrow> string \<Rightarrow> log_writer \<Rightarrow> 'h log_service \<Rightarrow> nat res \<times> log_writer \<times> 'h log_service" where
  "logWriter_Write W p w s = (case write_lines W (w\<lparr>lwBuf := lwBuf w @ p\<rparr>) s of
      (Ok _, r) \<Rightarrow> (Ok (length p), r)
    | (Err e, r) \<Rightarrow> (Err e, r)
    | (Panic m, r) \<Rightarrow> (Panic m, r))"

section \<open>\<^verbatim>\<open>read.go\<close>\<close>

text \<open>
  The history for \<open>n\<close> turns of the loop (the context ends before the next): the entries sent, and
  how it ends.
\<close>

fun readHistoricalLogs :: "nat \<Rightarrow> init_entry option list \<Rightarrow> init_entry list \<times> gerror option" where
  "readHistoricalLogs 0 items = ([], Some ErrCanceled)"
| "readHistoricalLogs (Suc n) [] = ([], None)"
| "readHistoricalLogs (Suc n) (None # items) = ([], Some (Wrap ''failed to decode log entry'' (External ''syntax error'')))"
| "readHistoricalLogs (Suc n) (Some e # items) = (let (es, r) = readHistoricalLogs n items in (e # es, r))"

text \<open>The file may be missing; other errors of opening it are returned.\<close>

definition open_history :: "nat \<Rightarrow> gerror option \<Rightarrow> bool \<Rightarrow> 'h log_service \<Rightarrow> init_entry list \<times> gerror option" where
  "open_history n err notExist s = (case err of
      Some e \<Rightarrow> if notExist then ([], None) else ([], Some (Wrap ''failed to open log file'' e))
    | None \<Rightarrow> readHistoricalLogs n (lsFile s))"

text \<open>
  \<^verbatim>\<open>Read\<close>: the history, then a handler that forwards.  Other writers run between the two: \<open>between\<close> is
  what they do.  The result is the history sent and the service with the handler.
\<close>

definition LogService_Read :: "nat \<Rightarrow> string \<Rightarrow> 'h \<Rightarrow> ('h log_service \<Rightarrow> 'h log_service) \<Rightarrow> 'h log_service \<Rightarrow>
    init_entry list \<times> 'h log_service" where
  "LogService_Read n handlerID handler between s = (case open_history n None False s of
      (es, None) \<Rightarrow> (es, AddHandler handlerID handler (between s))
    | (es, Some e) \<Rightarrow> (es, between s))"

section \<open>Lines\<close>

text \<open>A reference: the complete lines of a text, each with its newline, and what follows them.\<close>

fun lines_of :: "string \<Rightarrow> string list \<times> string" where
  "lines_of [] = ([], [])"
| "lines_of (c # s) = (let (ls, rest) = lines_of s in
     if c = CHR 0x0A then ([c] # ls, rest)
     else (case ls of [] \<Rightarrow> ([], c # rest) | l # ls' \<Rightarrow> ((c # l) # ls', rest)))"

lemma lines_of_concat: "concat (fst (lines_of s)) @ snd (lines_of s) = s"
  by (induction s) (auto split: prod.splits list.splits)

lemma lines_of_no_newline: "CHR 0x0A \<notin> set s \<Longrightarrow> lines_of s = ([], s)"
  by (induction s) auto

lemma lines_of_line: "CHR 0x0A \<notin> set l \<Longrightarrow> lines_of (l @ CHR 0x0A # s) = ((l @ [CHR 0x0A]) # fst (lines_of s), snd (lines_of s))"
  by (induction l) (auto split: prod.splits)

lemma lines_of_append: "lines_of (s @ t) = (fst (lines_of s) @ fst (lines_of (snd (lines_of s) @ t)), snd (lines_of (snd (lines_of s) @ t)))"
proof (induction s rule: length_induct)
  case (1 s)
  show ?case
  proof (cases "CHR 0x0A \<in> set s")
    case False
    then show ?thesis by (simp add: lines_of_no_newline)
  next
    case True
    then obtain l r where s: "s = l @ CHR 0x0A # r" "CHR 0x0A \<notin> set l" using split_list_first by metis
    have "lines_of (r @ t) = (fst (lines_of r) @ fst (lines_of (snd (lines_of r) @ t)), snd (lines_of (snd (lines_of r) @ t)))"
      using 1 s by simp
    with s show ?thesis by (simp add: lines_of_line)
  qed
qed

lemma lines_of_rest: "CHR 0x0A \<notin> set (snd (lines_of s))"
  by (induction s) (auto split: prod.splits list.splits)

text \<open>What the writer has put in the file.\<close>

definition contents :: "'h log_service \<Rightarrow> string list" where
  "contents s = map ieContent (List.map_filter id (lsFile s))"

lemma LogService_Write_ok:
  assumes "lsEncErr s = None" "\<And>n. we_err W n = None"
  shows "\<exists>s'. LogService_Write W e s = (Ok (), s') \<and> lsEncErr s' = None \<and> lsFile s' = lsFile s @ [Some e] \<and>
    lsHandlers s' = lsHandlers s \<and> lsCalls s' = lsCalls s @ map (\<lambda>h. (snd h, e)) (lsHandlers s)"
  using assms by (simp add: LogService_Write_def encode_entry_def Let_def)

lemma ReadString_cases:
  "(CHR 0x0A \<notin> set buf \<and> ReadString (CHR 0x0A) buf = (buf, False, [])) \<or>
   (\<exists>l rest. buf = l @ CHR 0x0A # rest \<and> CHR 0x0A \<notin> set l \<and> ReadString (CHR 0x0A) buf = (l @ [CHR 0x0A], True, rest))"
proof (cases "CHR 0x0A \<in> set buf")
  case False
  then have "dropWhile (\<lambda>x. x \<noteq> CHR 0x0A) buf = []" unfolding dropWhile_eq_Nil_conv by metis
  with False show ?thesis by (simp add: ReadString_def del: dropWhile_eq_Nil_conv)
next
  case True
  then obtain l rest where s: "buf = l @ CHR 0x0A # rest" "CHR 0x0A \<notin> set l" using split_list_first by metis
  then have "\<forall>x \<in> set l. x \<noteq> CHR 0x0A" by auto
  with s have "dropWhile (\<lambda>x. x \<noteq> CHR 0x0A) buf = CHR 0x0A # rest" "takeWhile (\<lambda>x. x \<noteq> CHR 0x0A) buf = l"
    by (simp_all add: dropWhile_append2 takeWhile_append2)
  with s show ?thesis by (auto simp: ReadString_def)
qed

text \<open>The entries a writer adds: one per complete line, with the writer's container and stream.\<close>

definition entries_for :: "log_writer \<Rightarrow> string list \<Rightarrow> init_entry list \<Rightarrow> bool" where
  "entries_for w ls es \<longleftrightarrow> map ieContent es = ls \<and>
     (\<forall>e \<in> set es. ieContainerID e = lwContainerID w \<and> ieError e = lwError w)"

lemma write_lines_entries:
  assumes "lsEncErr s = None" "\<And>n. we_err W n = None"
  shows "\<exists>w' s' es. write_lines W w s = (Ok (), w', s') \<and> lsEncErr s' = None \<and> w' = w\<lparr>lwBuf := snd (lines_of (lwBuf w))\<rparr> \<and>
    lsFile s' = lsFile s @ map Some es \<and> entries_for w (fst (lines_of (lwBuf w))) es"
  using assms
proof (induction W w s rule: write_lines.induct)
  case (1 W w s)
  from ReadString_cases [of "lwBuf w"] show ?case
  proof (elim disjE exE conjE)
    assume "CHR 0x0A \<notin> set (lwBuf w)" "ReadString (CHR 0x0A) (lwBuf w) = (lwBuf w, False, [])"
    with 1 show ?thesis by (simp add: write_lines.simps [of W w s] lines_of_no_newline entries_for_def)
  next
    fix l rest assume b: "lwBuf w = l @ CHR 0x0A # rest" "CHR 0x0A \<notin> set l"
      and r: "ReadString (CHR 0x0A) (lwBuf w) = (l @ [CHR 0x0A], True, rest)"
    let ?w = "w\<lparr>lwBuf := rest\<rparr>" and ?e = "line_entry W (w\<lparr>lwBuf := rest\<rparr>) (l @ [CHR 0x0A]) s"
    obtain s1 where s1: "LogService_Write W ?e s = (Ok (), s1)" "lsEncErr s1 = None" "lsFile s1 = lsFile s @ [Some ?e]"
      using LogService_Write_ok [OF 1(2,3), where e = ?e] by blast
    obtain w' s' es where ih: "write_lines W ?w s1 = (Ok (), w', s')" "lsEncErr s' = None" "w' = ?w\<lparr>lwBuf := snd (lines_of rest)\<rparr>"
      "lsFile s' = lsFile s1 @ map Some es" "entries_for ?w (fst (lines_of rest)) es"
      using 1(1) [OF r [symmetric] refl refl refl s1(1) [symmetric] refl s1(2) 1(3)] by auto
    have "entries_for w ((l @ [CHR 0x0A]) # fst (lines_of rest)) (?e # es)"
      using ih(5) by (simp add: entries_for_def line_entry_def)
    with ih b r s1 show ?thesis by (auto simp: write_lines.simps [of W w s] lines_of_line intro!: exI [of _ "?e # es"])
  qed
qed

lemma write_lines_ok:
  assumes "lsEncErr s = None" "\<And>n. we_err W n = None"
  shows "\<exists>w' s'. write_lines W w s = (Ok (), w', s') \<and> lsEncErr s' = None \<and> lwBuf w' = snd (lines_of (lwBuf w)) \<and>
    contents s' = contents s @ fst (lines_of (lwBuf w))"
  using write_lines_entries [OF assms, of w]
  by (auto simp: contents_def map_filter_append List.map_filter_def comp_def entries_for_def)

text \<open>The writes of a container, one after the other.\<close>

fun write_chunks :: "write_env \<Rightarrow> string list \<Rightarrow> log_writer \<Rightarrow> 'h log_service \<Rightarrow> log_writer \<times> 'h log_service" where
  "write_chunks W [] w s = (w, s)"
| "write_chunks W (p # ps) w s = (case logWriter_Write W p w s of (_, w, s) \<Rightarrow> write_chunks W ps w s)"

lemma write_lines_logWriter: "write_lines W (w\<lparr>lwBuf := lwBuf w @ p\<rparr>) s = (Ok (), r) \<Longrightarrow> logWriter_Write W p w s = (Ok (length p), r)"
  by (simp add: logWriter_Write_def)

text \<open>
  However the output of a container is cut into writes, the log gets the same entries: the
  complete lines of the whole output, in order and nothing else; what follows the last newline
  waits in the buffer, so no byte is lost or repeated.
\<close>

theorem log_independent_of_chunks:
  assumes "lsEncErr s = None" and W: "\<And>n. we_err W n = None" and "CHR 0x0A \<notin> set (lwBuf w)"
    and "write_chunks W ps w s = (w', s')"
  shows "contents s' = contents s @ fst (lines_of (lwBuf w @ concat ps)) \<and> lwBuf w' = snd (lines_of (lwBuf w @ concat ps)) \<and>
    concat (fst (lines_of (lwBuf w @ concat ps))) @ lwBuf w' = lwBuf w @ concat ps"
proof -
  have "contents s' = contents s @ fst (lines_of (lwBuf w @ concat ps)) \<and> lwBuf w' = snd (lines_of (lwBuf w @ concat ps))"
    using assms(1,3,4)
  proof (induction ps arbitrary: w s)
    case Nil
    then show ?case by (simp add: lines_of_no_newline)
  next
    case (Cons p ps)
    obtain w1 s1 where 1: "write_lines W (w\<lparr>lwBuf := lwBuf w @ p\<rparr>) s = (Ok (), w1, s1)" "lsEncErr s1 = None"
      "lwBuf w1 = snd (lines_of (lwBuf w @ p))" "contents s1 = contents s @ fst (lines_of (lwBuf w @ p))"
      using write_lines_ok [OF Cons.prems(1) W, of "w\<lparr>lwBuf := lwBuf w @ p\<rparr>"] by auto
    have "write_chunks W ps w1 s1 = (w', s')" using Cons.prems(3) write_lines_logWriter [OF 1(1)] by simp
    from Cons.IH [OF 1(2) _ this] 1(3,4) lines_of_rest [of "lwBuf w @ p"] lines_of_append [of "lwBuf w @ p" "concat ps"]
    show ?case by simp
  qed
  with lines_of_concat [of "lwBuf w @ concat ps"] show ?thesis by simp
qed

text \<open>Entries written after the history was read and before the handler is added reach no one.\<close>

lemma entry_between_is_lost:
  assumes "readHistoricalLogs n (lsFile s) = (es, None)" "LogService_Write W e s = (Ok (), s1)"
    and "LogService_Read n i h (\<lambda>s. snd (LogService_Write W e s)) s = (es', s')"
  shows "es' = es \<and> lsCalls s' = lsCalls s1"
  using assms by (auto simp: LogService_Read_def open_history_def AddHandler_def)

definition fresh_log :: "string log_service" where
  "fresh_log = \<lparr>lsDirectory = ''/logs'', lsFile = [], lsEncErr = None, lsConsole = [], lsHandlers = [], lsCalls = [], lsWrites = 0\<rparr>"

definition clock_env :: write_env where
  "clock_env = \<lparr>we_err = \<lambda>_. None, we_now = id\<rparr>"

theorem log_independent_of_chunks_witness:
  "\<exists>w' s'. write_chunks clock_env [''he'', ''llo'' @ [CHR 0x0A] @ ''wor'', ''ld''] (fst (NewContainerLogWriter ''c1'' None)) fresh_log = (w', s') \<and>
     contents s' = [''hello'' @ [CHR 0x0A]] \<and> lwBuf w' = ''world''"
proof -
  obtain w' s' where r: "write_chunks clock_env [''he'', ''llo'' @ [CHR 0x0A] @ ''wor'', ''ld''] (fst (NewContainerLogWriter ''c1'' None)) fresh_log = (w', s')"
    by fastforce
  have "lsEncErr fresh_log = None" "we_err clock_env n = None" "CHR 0x0A \<notin> set (lwBuf (fst (NewContainerLogWriter ''c1'' None)))" for n
    by (simp_all add: fresh_log_def clock_env_def NewContainerLogWriter_def)
  from log_independent_of_chunks [OF this r] r show ?thesis
    by (simp add: contents_def fresh_log_def NewContainerLogWriter_def List.map_filter_simps)
qed

end
