(* ===== verification/InitContainers.thy ===== *)
theory InitContainers
  imports Messages InitLogs
begin

text \<open>
  \<^verbatim>\<open>init/internal/containerservice\<close>: the containers inside the virtual machine.  Each has a loop that
  starts its process, waits for its end and decides whether to start it again, and for each start a
  worker that checks its health; both report to the service's bus.  Loop and workers are goroutines,
  so a container is a step relation whose steps are their atomic parts; times, identifiers and the
  outcomes of the process and of the checks are arguments of the steps.
\<close>

section \<open>\<^verbatim>\<open>types/container.go\<close>\<close>

record ctr_event =
  ceEventID :: string
  ceContainerID :: string
  ceHealthy :: bool
  ceHealthcheckError :: "gerror option"
  ceRestartCount :: "32 word"
  ceStartedAt :: "nat option"
  ceExitError :: "gerror option"
  ceExitCode :: "32 word option"
  ceExitedAt :: "nat option"
  ceTimestamp :: nat

text \<open>The bus carries values of any type.\<close>

datatype any_event = ContainerStateChangedEvent ctr_event | OtherEvent

section \<open>\<^verbatim>\<open>container.go\<close>\<close>

text \<open>
  \<open>ccCmd\<close>: the command, if there is one, with the exit code of its process once that has ended.
  \<open>ccExitError\<close> and \<open>ccHealthcheckError\<close> are pointers to an error that may itself be nil.  The last
  three fields say where the loop is, which workers run and which of them have been cancelled, and
  how often the loop has made a command.
\<close>

datatype phase = Looping | Waiting | Ended

record init_ctr =
  ccConfig :: init_container_config
  ccStdout :: log_writer
  ccStderr :: log_writer
  ccCmd :: "int option option"
  ccStartedAt :: "nat option"
  ccExitError :: "gerror option option"
  ccExitedAt :: "nat option"
  ccRestartCount :: "32 word"
  ccHealthy :: bool
  ccHealthcheckError :: "gerror option option"
  ccPhase :: phase
  ccWorkers :: "bool list"
  ccIterations :: nat

definition new_ctr :: "init_container_config \<Rightarrow> init_ctr" where
  "new_ctr config = (let (stdout, stderr) = NewContainerLogWriter (icContainerID config) (csName (icSpec config)) in
    \<lparr>ccConfig = config, ccStdout = stdout, ccStderr = stderr, ccCmd = None, ccStartedAt = None, ccExitError = None,
     ccExitedAt = None, ccRestartCount = 0, ccHealthy = False, ccHealthcheckError = None,
     ccPhase = Looping, ccWorkers = [], ccIterations = 0\<rparr>)"

definition newContainerStateChangedEvent :: "string \<Rightarrow> nat \<Rightarrow> init_ctr \<Rightarrow> ctr_event" where
  "newContainerStateChangedEvent eventID now c =
    \<lparr>ceEventID = eventID, ceContainerID = icContainerID (ccConfig c), ceHealthy = ccHealthy c,
     ceHealthcheckError = Option.bind (ccHealthcheckError c) id, ceRestartCount = ccRestartCount c,
     ceStartedAt = ccStartedAt c, ceExitError = Option.bind (ccExitError c) id,
     ceExitCode = (case ccCmd c of Some (Some code) \<Rightarrow> if code \<noteq> -1 then Some (word_of_int code) else None | _ \<Rightarrow> None),
     ceExitedAt = ccExitedAt c, ceTimestamp = now\<rparr>"

text \<open>The exit code of a process that never started is -1.\<close>

definition exit_code :: "init_ctr \<Rightarrow> int" where
  "exit_code c = (case ccCmd c of Some (Some code) \<Rightarrow> code | _ \<Rightarrow> -1)"

definition restart_of :: "init_ctr \<Rightarrow> restart_spec option" where
  "restart_of c = csRestart (icSpec (ccConfig c))"

text \<open>The end of an iteration of \<^verbatim>\<open>run\<close>: return, or count a restart and loop.\<close>

definition decide_restart :: "init_ctr \<Rightarrow> init_ctr" where
  "decide_restart c = (case restart_of c of
      None \<Rightarrow> c\<lparr>ccPhase := Ended\<rparr>
    | Some r \<Rightarrow>
        if rsPolicy r = ContainerRestartPolicyNo then c\<lparr>ccPhase := Ended\<rparr>
        else if rsPolicy r = ContainerRestartPolicyOnFailure \<and> (exit_code c = 0 \<or>
            (0 < sint (rsMaxRetries r) \<and> sint (rsMaxRetries r) \<le> sint (ccRestartCount c))) then c\<lparr>ccPhase := Ended\<rparr>
        else c\<lparr>ccRestartCount := ccRestartCount c + 1, ccPhase := Looping\<rparr>)"

text \<open>The beginning of an iteration, up to the command; then the three ways on.\<close>

definition run_begin :: "nat \<Rightarrow> init_ctr \<Rightarrow> init_ctr" where
  "run_begin now c = c\<lparr>ccExitError := None, ccStartedAt := Some now, ccExitedAt := None, ccCmd := Some None,
     ccIterations := Suc (ccIterations c)\<rparr>"

definition run_started :: "nat \<Rightarrow> init_ctr \<Rightarrow> init_ctr" where
  "run_started now c = (let c = run_begin now c in c\<lparr>ccPhase := Waiting, ccWorkers := ccWorkers c @ [False]\<rparr>)"

definition run_start_failed :: "nat \<Rightarrow> gerror \<Rightarrow> string \<Rightarrow> nat \<Rightarrow> init_ctr \<Rightarrow> ctr_event list \<times> init_ctr" where
  "run_start_failed now err eventID now' c =
    (let c = (run_begin now c)\<lparr>ccExitError := Some (Some err)\<rparr> in ([newContainerStateChangedEvent eventID now' c], decide_restart c))"

definition cancel_worker :: "bool list \<Rightarrow> bool list" where
  "cancel_worker ws = map (\<lambda>_. True) ws"

definition run_exited :: "int \<Rightarrow> gerror option \<Rightarrow> nat \<Rightarrow> string \<Rightarrow> nat \<Rightarrow> init_ctr \<Rightarrow> ctr_event list \<times> init_ctr" where
  "run_exited code err now eventID now' c =
    (let c = c\<lparr>ccCmd := Some (Some code), ccExitError := Some err, ccExitedAt := Some now, ccWorkers := cancel_worker (ccWorkers c)\<rparr> in
     ([newContainerStateChangedEvent eventID now' c], decide_restart c))"

subsection \<open>Health checks\<close>

record health_request =
  hrMethod :: string
  hrURL :: string
  hrHeaders :: "(string \<rightharpoonup> string) option"

text \<open>What becomes of a request: it cannot be made, it fails, or it is answered with a status.\<close>

datatype http_outcome = BadRequest gerror | RequestFailed gerror | Answered int

definition performHealthcheck :: "(health_request \<Rightarrow> http_outcome) \<Rightarrow> healthcheck_spec \<Rightarrow> gerror option" where
  "performHealthcheck http hc = (case hcHttp hc of
      None \<Rightarrow> None
    | Some spec \<Rightarrow> (case http \<lparr>hrMethod = hhMethod spec,
          hrURL = ''http://127.0.0.1:'' @ dec_int (sint (hhPort spec)) @ hhPath spec, hrHeaders = hhHeaders spec\<rparr> of
        BadRequest e \<Rightarrow> Some e
      | RequestFailed e \<Rightarrow> Some e
      | Answered status \<Rightarrow> if status < 200 \<or> 300 \<le> status then Some (Errorf (''invalid status code: '' @ dec_int status)) else None))"

definition remove_worker :: "nat \<Rightarrow> init_ctr \<Rightarrow> init_ctr" where
  "remove_worker i c = c\<lparr>ccWorkers := take i (ccWorkers c) @ drop (Suc i) (ccWorkers c)\<rparr>"

text \<open>\<^verbatim>\<open>healthcheckWorker\<close>: without a health check, and one turn of its loop otherwise.\<close>

definition worker_without_check :: "nat \<Rightarrow> string \<Rightarrow> nat \<Rightarrow> init_ctr \<Rightarrow> ctr_event list \<times> init_ctr" where
  "worker_without_check i eventID now c =
    (let c = remove_worker i (c\<lparr>ccHealthy := True\<rparr>) in ([newContainerStateChangedEvent eventID now c], c))"

definition worker_check :: "(health_request \<Rightarrow> http_outcome) \<Rightarrow> healthcheck_spec \<Rightarrow> string \<Rightarrow> nat \<Rightarrow> init_ctr \<Rightarrow>
    ctr_event list \<times> init_ctr" where
  "worker_check http hc eventID now c =
    (let err = performHealthcheck http hc; healthy = (err = None); wasHealthy = ccHealthy c;
         c = c\<lparr>ccHealthy := healthy, ccHealthcheckError := Some err\<rparr> in
     (if wasHealthy \<noteq> healthy then [newContainerStateChangedEvent eventID now c] else [], c))"

subsection \<open>The steps of a container\<close>

text \<open>
  The last argument is what is published.  A worker may still check once or more after it was
  cancelled: \<^verbatim>\<open>select\<close> chooses freely between a ready timer and the end of the context.
\<close>

inductive ctr_step :: "init_ctr \<Rightarrow> ctr_event list \<Rightarrow> init_ctr \<Rightarrow> bool" where
  started: "ccPhase c = Looping \<Longrightarrow> ctr_step c [] (run_started now c)"
| start_failed: "ccPhase c = Looping \<Longrightarrow> run_start_failed now err i now' c = (es, c') \<Longrightarrow> ctr_step c es c'"
| exited: "ccPhase c = Waiting \<Longrightarrow> run_exited code err now i now' c = (es, c') \<Longrightarrow> ctr_step c es c'"
| no_check: "n < length (ccWorkers c) \<Longrightarrow> csHealthcheck (icSpec (ccConfig c)) = None \<Longrightarrow>
    worker_without_check n i now c = (es, c') \<Longrightarrow> ctr_step c es c'"
| check: "n < length (ccWorkers c) \<Longrightarrow> csHealthcheck (icSpec (ccConfig c)) = Some hc \<Longrightarrow>
    worker_check http hc i now c = (es, c') \<Longrightarrow> ctr_step c es c'"
| worker_ends: "n < length (ccWorkers c) \<Longrightarrow> ccWorkers c ! n \<Longrightarrow> csHealthcheck (icSpec (ccConfig c)) \<noteq> None \<Longrightarrow>
    ctr_step c [] (remove_worker n c)"

inductive_cases ctr_stepE: "ctr_step c es c'"

inductive ctr_run :: "init_ctr \<Rightarrow> ctr_event list \<Rightarrow> init_ctr \<Rightarrow> bool" where
  nil: "ctr_run c [] c"
| step: "ctr_run c es c' \<Longrightarrow> ctr_step c' fs c'' \<Longrightarrow> ctr_run c (es @ fs) c''"

section \<open>\<^verbatim>\<open>service.go\<close>\<close>

text \<open>
  A handler of the bus is the one that keeps the events or one that forwards them to a stream.
  \<open>csStreams\<close> is what was sent on each stream.
\<close>

datatype svc_handler = StorePrevious | ForwardTo nat

record container_service =
  csContainers :: "(string \<times> init_ctr) list"
  csBus :: "(any_event, svc_handler) bus"
  csDispatching :: bool
  csPrevious :: "any_event list"
  csStreams :: "nat \<Rightarrow> any_event list"

definition ContainerService_New :: "string \<Rightarrow> container_service" where
  "ContainerService_New subscriptionID = \<lparr>csContainers = [], csBus = SubscribeToEvents subscriptionID StorePrevious NewBus,
     csDispatching = False, csPrevious = [], csStreams = \<lambda>_. []\<rparr>"

definition ContainerService_Start :: "container_service \<Rightarrow> container_service" where
  "ContainerService_Start s = s\<lparr>csDispatching := True\<rparr>"

definition ContainerService_Stop :: "container_service \<Rightarrow> container_service" where
  "ContainerService_Stop s = s\<lparr>csDispatching := False\<rparr>"

definition StartContainer :: "gerror option \<Rightarrow> init_container_config \<Rightarrow> container_service \<Rightarrow> unit res \<times> container_service" where
  "StartContainer marshal_err config s = (case marshal_err of
      Some e \<Rightarrow> (Err e, s)
    | None \<Rightarrow> (Ok (), s\<lparr>csContainers := AList.update (icContainerID config) (new_ctr config) (csContainers s)\<rparr>))"

text \<open>What a step of a container publishes goes to the bus.\<close>

definition publish_all :: "ctr_event list \<Rightarrow> container_service \<Rightarrow> container_service" where
  "publish_all es s = s\<lparr>csBus := fold (\<lambda>e. PublishEvent (ContainerStateChangedEvent e)) es (csBus s)\<rparr>"

definition run_handler :: "svc_handler \<Rightarrow> any_event \<Rightarrow> container_service \<Rightarrow> container_service" where
  "run_handler h event s = (case h of
      StorePrevious \<Rightarrow> s\<lparr>csPrevious := csPrevious s @ [event]\<rparr>
    | ForwardTo n \<Rightarrow> s\<lparr>csStreams := (csStreams s)(n := csStreams s n @ [event])\<rparr>)"

text \<open>A turn of the dispatcher, for the waiting event \<open>i\<close>.\<close>

definition dispatch_turn :: "nat \<Rightarrow> container_service \<Rightarrow> container_service" where
  "dispatch_turn i s = (if \<not> csDispatching s then s else (case receive_event i (csBus s) of
      None \<Rightarrow> s
    | Some (event, b) \<Rightarrow> dispatchEvent run_handler b event (s\<lparr>csBus := b\<rparr>)))"

text \<open>
  \<^verbatim>\<open>Events\<close>: a handler that forwards, and a goroutine that sends the events kept so far, here from \<open>j\<close>
  to \<open>k\<close>: while it holds the lock of the kept events no event is stored, but one that the
  dispatcher forwards first may come in between.
\<close>

definition Events_subscribe :: "string \<Rightarrow> nat \<Rightarrow> container_service \<Rightarrow> container_service" where
  "Events_subscribe subscriptionID n s = s\<lparr>csBus := SubscribeToEvents subscriptionID (ForwardTo n) (csBus s)\<rparr>"

definition Events_previous :: "nat \<Rightarrow> nat \<Rightarrow> nat \<Rightarrow> container_service \<Rightarrow> container_service" where
  "Events_previous n j k s = s\<lparr>csStreams := (csStreams s)(n := csStreams s n @ drop j (take k (csPrevious s)))\<rparr>"

definition Events_end :: "string \<Rightarrow> container_service \<Rightarrow> container_service" where
  "Events_end subscriptionID s = s\<lparr>csBus := UnsubscribeFromEvents subscriptionID (csBus s)\<rparr>"

section \<open>The restart policy\<close>

text \<open>
  How many iterations the policy allows: one without a restart policy, one more than the retries
  if failures are retried a limited number of times, and no bound otherwise.
\<close>

definition start_budget :: "init_container_config \<Rightarrow> nat option" where
  "start_budget config = (case csRestart (icSpec config) of
      None \<Rightarrow> Some 1
    | Some r \<Rightarrow> if rsPolicy r = ContainerRestartPolicyNo then Some 1
        else if rsPolicy r = ContainerRestartPolicyOnFailure \<and> 0 < sint (rsMaxRetries r)
          then Some (Suc (nat (sint (rsMaxRetries r))))
        else None)"

text \<open>The invariant of a container: the counter counts, and a loop that goes on has budget left.\<close>

definition restart_inv :: "init_container_config \<Rightarrow> init_ctr \<Rightarrow> bool" where
  "restart_inv config c \<longleftrightarrow> ccConfig c = config \<and>
     ccRestartCount c = of_nat (ccIterations c - (if ccPhase c = Looping then 0 else 1)) \<and>
     (ccPhase c \<noteq> Looping \<longrightarrow> 0 < ccIterations c) \<and> (ccPhase c = Waiting \<longrightarrow> ccCmd c = Some None) \<and>
     (\<forall>b. start_budget config = Some b \<longrightarrow> (if ccPhase c = Looping then ccIterations c < b else ccIterations c \<le> b)) \<and>
     (ccPhase c = Ended \<longrightarrow> start_budget config = Some (ccIterations c) \<or>
        (\<exists>r. csRestart (icSpec config) = Some r \<and> rsPolicy r = ContainerRestartPolicyOnFailure \<and> exit_code c = 0))"

lemma restart_inv_new: "restart_inv config (new_ctr config)"
  by (auto simp: restart_inv_def new_ctr_def start_budget_def NewContainerLogWriter_def split: option.splits)

lemma sint_of_nat: "n < 2 ^ 31 \<Longrightarrow> sint (of_nat n :: 32 word) = int n"
  by (simp add: signed_of_nat signed_take_bit_int_eq_self_iff)

lemma sint_less_31: "sint (x :: 32 word) < 2 ^ 31"
  using sint_lt [of x] by simp

definition iteration_done :: "init_container_config \<Rightarrow> init_ctr \<Rightarrow> bool" where
  "iteration_done config c \<longleftrightarrow> ccConfig c = config \<and> 0 < ccIterations c \<and> ccRestartCount c = of_nat (ccIterations c - 1) \<and>
     (\<forall>b. start_budget config = Some b \<longrightarrow> ccIterations c \<le> b)"

lemma decide_restart_inv:
  assumes "iteration_done config c"
  shows "restart_inv config (decide_restart c)"
proof -
  have c: "ccConfig c = config" "0 < ccIterations c" "ccRestartCount c = of_nat (ccIterations c - 1)"
    "\<And>b. start_budget config = Some b \<Longrightarrow> ccIterations c \<le> b"
    using assms by (auto simp: iteration_done_def)
  have nextc: "of_nat (ccIterations c - 1) + 1 = (of_nat (ccIterations c) :: 32 word)"
    using c(2) by (simp add: of_nat_diff)
  show ?thesis
  proof (cases "csRestart (icSpec config)")
    case None
    with c show ?thesis by (auto simp: decide_restart_def restart_of_def restart_inv_def start_budget_def)
  next
    case (Some r)
    show ?thesis
    proof (cases "rsPolicy r = ContainerRestartPolicyOnFailure \<and> 0 < sint (rsMaxRetries r)")
      case True
      then have b: "start_budget config = Some (Suc (nat (sint (rsMaxRetries r))))" using Some by (simp add: start_budget_def)
      have "nat (sint (rsMaxRetries r)) < 2 ^ 31" using sint_less_31 [of "rsMaxRetries r"] True by (simp add: nat_less_iff)
      then have "ccIterations c - 1 < 2 ^ 31" using c(4) [OF b] by simp
      then have "sint (ccRestartCount c) = int (ccIterations c - 1)" unfolding c(3) by (rule sint_of_nat)
      with Some True b c nextc show ?thesis
        by (auto simp: decide_restart_def restart_of_def restart_inv_def exit_code_def)
    next
      case False
      with Some c nextc show ?thesis
        by (auto simp: decide_restart_def restart_of_def restart_inv_def start_budget_def exit_code_def)
    qed
  qed
qed

lemma restart_inv_begin:
  assumes "restart_inv config c" "ccPhase c = Looping"
  shows "iteration_done config (run_begin now c)"
  using assms by (auto simp: restart_inv_def iteration_done_def run_begin_def)

lemma iteration_done_upd [simp]:
  "iteration_done config (c\<lparr>ccExitError := a\<rparr>) = iteration_done config c"
  "iteration_done config (c\<lparr>ccExitedAt := b\<rparr>) = iteration_done config c"
  "iteration_done config (c\<lparr>ccCmd := d\<rparr>) = iteration_done config c"
  "iteration_done config (c\<lparr>ccWorkers := ws\<rparr>) = iteration_done config c"
  by (simp_all add: iteration_done_def)

lemma restart_inv_upd [simp]:
  "restart_inv config (c\<lparr>ccHealthy := h\<rparr>) = restart_inv config c"
  "restart_inv config (c\<lparr>ccHealthcheckError := e\<rparr>) = restart_inv config c"
  "restart_inv config (c\<lparr>ccWorkers := ws\<rparr>) = restart_inv config c"
  by (simp_all add: restart_inv_def exit_code_def)

lemma ctr_step_inv:
  assumes "ctr_step c es c'" "restart_inv config c"
  shows "restart_inv config c'"
  using assms
proof (cases rule: ctr_step.cases)
  case (started now)
  with restart_inv_begin [OF assms(2) started(3), of now] show ?thesis
    by (simp add: run_started_def Let_def restart_inv_def iteration_done_def run_begin_def)
next
  case (start_failed now err i now')
  with restart_inv_begin [OF assms(2) start_failed(1), of now] show ?thesis
    by (auto simp: run_start_failed_def Let_def intro!: decide_restart_inv)
next
  case (exited code err now i now')
  have "iteration_done config c" using assms(2) exited(1) by (auto simp: restart_inv_def iteration_done_def)
  with exited show ?thesis by (auto simp: run_exited_def Let_def intro!: decide_restart_inv)
qed (use assms(2) in \<open>auto simp: worker_without_check_def worker_check_def remove_worker_def Let_def\<close>)

lemma ctr_run_inv: "ctr_run c es c' \<Longrightarrow> restart_inv config c \<Longrightarrow> restart_inv config c'"
  by (induction rule: ctr_run.induct) (auto intro: ctr_step_inv)

text \<open>
  C12: a container is started at most as often as its restart policy allows, once without a
  policy and once more than the retries for a limited number of retries, and its loop ends only
  when that budget is used up or a process ended well whose failures only are retried; the restart
  count it reports is the number of starts before the current one.
\<close>

theorem restart_budget:
  assumes "ctr_run (new_ctr config) es c"
  shows "(\<forall>b. start_budget config = Some b \<longrightarrow> ccIterations c \<le> b) \<and>
    (ccPhase c = Ended \<longrightarrow> start_budget config = Some (ccIterations c) \<or>
       (\<exists>r. csRestart (icSpec config) = Some r \<and> rsPolicy r = ContainerRestartPolicyOnFailure \<and> exit_code c = 0)) \<and>
    (ccPhase c \<noteq> Looping \<longrightarrow> 0 < ccIterations c \<and> ccRestartCount c = of_nat (ccIterations c - 1))"
  using ctr_run_inv [OF assms restart_inv_new [of config]] by (auto simp: restart_inv_def split: if_splits)

text \<open>The witness: a failing container with one retry is started twice and then given up.\<close>

definition failing_config :: init_container_config where
  "failing_config = \<lparr>icSpec = \<lparr>csName = None, csImage = ''app'', csEnv = None, csCommand = Some [''false''], csUser = None, csHealthcheck = None,
     csWorkingDir = None, csRestart = Some \<lparr>rsPolicy = ContainerRestartPolicyOnFailure, rsMaxRetries = 1\<rparr>\<rparr>,
     icContainerID = ''c1'', icVolume = ''/dev/vda''\<rparr>"

definition twice_failed :: init_ctr where
  "twice_failed = snd (run_exited 1 (Some (External ''exit status 1'')) 4 ''e2'' 4
     (run_started 3 (snd (run_exited 1 (Some (External ''exit status 1'')) 2 ''e1'' 2 (run_started 1 (new_ctr failing_config))))))"

theorem restart_budget_witness:
  "\<exists>es. ctr_run (new_ctr failing_config) es twice_failed \<and> ccPhase twice_failed = Ended \<and>
     start_budget failing_config = Some 2 \<and> ccIterations twice_failed \<le> 2 \<and> ccRestartCount twice_failed = 1"
proof -
  let ?e = "Some (External ''exit status 1'')"
  define a where "a = run_started 1 (new_ctr failing_config)"
  define b where "b = snd (run_exited 1 ?e 2 ''e1'' 2 a)"
  define c where "c = run_started 3 b"
  note defs = a_def b_def c_def twice_failed_def run_started_def run_exited_def run_begin_def Let_def decide_restart_def restart_of_def
    failing_config_def new_ctr_def NewContainerLogWriter_def exit_code_def
  have p: "ccPhase (new_ctr failing_config) = Looping" "ccPhase a = Waiting" "ccPhase b = Looping" "ccPhase c = Waiting"
    "ccPhase twice_failed = Ended" "ccRestartCount twice_failed = 1"
    by (simp_all add: defs)
  have s: "ctr_step (new_ctr failing_config) [] a" "ctr_step a (fst (run_exited 1 ?e 2 ''e1'' 2 a)) b" "ctr_step b [] c"
      "ctr_step c (fst (run_exited 1 ?e 4 ''e2'' 4 c)) twice_failed"
    using p ctr_step.started [of "new_ctr failing_config" 1] ctr_step.started [of b 3] ctr_step.exited [of a 1 ?e 2 "''e1''" 2]
      ctr_step.exited [of c 1 ?e 4 "''e2''" 4] by (simp_all add: a_def b_def c_def twice_failed_def)
  then have "\<exists>es. ctr_run (new_ctr failing_config) es twice_failed"
    using ctr_run.step [OF ctr_run.step [OF ctr_run.step [OF ctr_run.step [OF ctr_run.nil s(1)] s(2)] s(3)] s(4)] by blast
  then obtain es where r: "ctr_run (new_ctr failing_config) es twice_failed" by blast
  have "start_budget failing_config = Some 2" by (simp add: start_budget_def failing_config_def)
  with restart_budget [OF r] r p show ?thesis by auto
qed

text \<open>
  A process that could not be started has no time of exit, so it is reported with the same fields
  as one that runs; a container that has ended keeps the health of its last check.
\<close>

lemma failed_start_without_exit:
  "run_start_failed now err i now' c = (es, c') \<Longrightarrow>
    \<exists>e. es = [e] \<and> ceExitedAt e = None \<and> ceStartedAt e = Some now \<and> ceExitCode e = None \<and> ceExitError e = Some err"
  by (auto simp: run_start_failed_def Let_def newContainerStateChangedEvent_def run_begin_def)

lemma exit_keeps_health:
  "run_exited code err now i now' c = (es, c') \<Longrightarrow> \<exists>e. es = [e] \<and> ceExitedAt e = Some now \<and> ceHealthy e = ccHealthy c"
  by (auto simp: run_exited_def Let_def newContainerStateChangedEvent_def)

section \<open>What is reported\<close>

text \<open>
  An event of a container names it, has a time of start, an exit code only with a time of exit, and
  a restart count below the start budget.
\<close>

definition event_ok :: "init_container_config \<Rightarrow> ctr_event \<Rightarrow> bool" where
  "event_ok config e \<longleftrightarrow> ceContainerID e = icContainerID config \<and> ceStartedAt e \<noteq> None \<and>
     (ceExitCode e \<noteq> None \<longrightarrow> ceExitedAt e \<noteq> None) \<and> (\<forall>b. start_budget config = Some b \<longrightarrow> unat (ceRestartCount e) < b)"

definition report_inv :: "init_ctr \<Rightarrow> bool" where
  "report_inv c \<longleftrightarrow> (ccWorkers c \<noteq> [] \<or> ccPhase c \<noteq> Looping \<longrightarrow> ccStartedAt c \<noteq> None) \<and>
     (\<forall>code. ccCmd c = Some (Some code) \<longrightarrow> ccExitedAt c \<noteq> None)"

lemma unat_of_nat_le: "unat (of_nat k :: 32 word) \<le> k"
  by (simp add: unat_of_nat)

text \<open>The restart count is below the budget in every state, and at the end of every iteration.\<close>

lemma restart_count_less:
  "restart_inv config c \<Longrightarrow> start_budget config = Some b \<Longrightarrow> unat (ccRestartCount c) < b"
  "iteration_done config c \<Longrightarrow> start_budget config = Some b \<Longrightarrow> unat (ccRestartCount c) < b"
  using unat_of_nat_le [of "ccIterations c - (if ccPhase c = Looping then 0 else 1)"] unat_of_nat_le [of "ccIterations c - 1"]
  by (auto simp: restart_inv_def iteration_done_def split: if_splits)

lemma event_ok_new:
  assumes "ccConfig c = config" "ccStartedAt c \<noteq> None" "\<And>code. ccCmd c = Some (Some code) \<Longrightarrow> ccExitedAt c \<noteq> None"
    and "\<And>b. start_budget config = Some b \<Longrightarrow> unat (ccRestartCount c) < b"
  shows "event_ok config (newContainerStateChangedEvent i now c)"
  using assms by (auto simp: event_ok_def newContainerStateChangedEvent_def split: option.splits)

lemma restart_inv_config: "restart_inv config c \<Longrightarrow> ccConfig c = config"
  by (simp add: restart_inv_def)

lemma report_inv_workers:
  assumes "report_inv c" "ccWorkers c \<noteq> []" "ccStartedAt c' = ccStartedAt c" "ccCmd c' = ccCmd c" "ccExitedAt c' = ccExitedAt c"
  shows "report_inv c'"
  using assms by (simp add: report_inv_def)

lemma decide_restart_fields:
  "ccStartedAt (decide_restart c) = ccStartedAt c" "ccCmd (decide_restart c) = ccCmd c"
  "ccExitedAt (decide_restart c) = ccExitedAt c" "ccWorkers (decide_restart c) = ccWorkers c"
  by (simp_all add: decide_restart_def split: option.split)

lemma ctr_step_reports:
  assumes "ctr_step c es c'" "restart_inv config c" "report_inv c"
  shows "report_inv c' \<and> (\<forall>e \<in> set es. event_ok config e)"
  using assms(1)
proof (cases rule: ctr_step.cases)
  case (started now)
  with assms(3) show ?thesis by (simp add: run_started_def run_begin_def report_inv_def Let_def)
next
  case (start_failed now err i now')
  have d: "iteration_done config (run_begin now c)" by (rule restart_inv_begin [OF assms(2) start_failed(1)])
  have "event_ok config (newContainerStateChangedEvent i now' ((run_begin now c)\<lparr>ccExitError := Some (Some err)\<rparr>))"
    using restart_count_less(2) [OF d] d by (intro event_ok_new) (auto simp: run_begin_def iteration_done_def)
  with start_failed show ?thesis
    by (auto simp: run_start_failed_def Let_def report_inv_def decide_restart_fields run_begin_def)
next
  case (exited code err now i now')
  have d: "iteration_done config c" using assms(2) exited(1) by (auto simp: restart_inv_def iteration_done_def)
  let ?c = "c\<lparr>ccCmd := Some (Some code), ccExitError := Some err, ccExitedAt := Some now, ccWorkers := cancel_worker (ccWorkers c)\<rparr>"
  have "event_ok config (newContainerStateChangedEvent i now' ?c)"
    using restart_count_less(2) [OF d] d assms(3) exited(1) by (intro event_ok_new) (auto simp: report_inv_def iteration_done_def)
  with exited assms(3) show ?thesis
    by (auto simp: run_exited_def Let_def report_inv_def decide_restart_fields)
next
  case (no_check n i now)
  let ?c = "remove_worker n (c\<lparr>ccHealthy := True\<rparr>)"
  have "ccWorkers c \<noteq> []" using no_check(1) by auto
  then have e: "event_ok config (newContainerStateChangedEvent i now ?c)"
    using assms(3) restart_count_less(1) [OF assms(2)] restart_inv_config [OF assms(2)]
    by (intro event_ok_new) (simp_all add: remove_worker_def report_inv_def)
  have r: "report_inv ?c" by (rule report_inv_workers) (simp_all add: remove_worker_def assms(3) \<open>ccWorkers c \<noteq> []\<close>)
  from no_check(3) have "es = [newContainerStateChangedEvent i now ?c]" "c' = ?c"
    by (auto simp: worker_without_check_def Let_def)
  with e r show ?thesis by simp
next
  case (check n hc http i now)
  let ?err = "performHealthcheck http hc"
  let ?c = "c\<lparr>ccHealthy := (?err = None), ccHealthcheckError := Some ?err\<rparr>"
  have w: "ccWorkers c \<noteq> []" using check(1) by auto
  then have e: "event_ok config (newContainerStateChangedEvent i now ?c)"
    using assms(3) restart_count_less(1) [OF assms(2)] restart_inv_config [OF assms(2)]
    by (intro event_ok_new) (simp_all add: report_inv_def)
  have r: "report_inv ?c" by (rule report_inv_workers) (simp_all add: assms(3) w)
  have "worker_check http hc i now c = (if ccHealthy c \<noteq> (?err = None) then [newContainerStateChangedEvent i now ?c] else [], ?c)"
    by (simp only: worker_check_def Let_def)
  from check(3) [unfolded this] have es: "(if ccHealthy c \<noteq> (?err = None) then [newContainerStateChangedEvent i now ?c] else []) = es"
    and c': "?c = c'" unfolding prod.inject by (rule conjunct1, rule conjunct2)
  have "\<forall>x \<in> set (if b then [newContainerStateChangedEvent i now ?c] else []). event_ok config x" for b
    using e by (cases b) simp_all
  with r show ?thesis unfolding es [symmetric] c' [symmetric] by blast
next
  case (worker_ends n)
  have "ccWorkers c \<noteq> []" using worker_ends(3) by auto
  from report_inv_workers [OF assms(3) this, of c'] have "report_inv c'" by (simp add: worker_ends(2) remove_worker_def)
  with worker_ends(1) show ?thesis by simp
qed

lemma ctr_run_reports:
  assumes "ctr_run c es c'" "restart_inv config c" "report_inv c"
  shows "\<forall>e \<in> set es. event_ok config e"
proof -
  have "report_inv c' \<and> (\<forall>e \<in> set es. event_ok config e)"
    using assms
  proof (induction rule: ctr_run.induct)
    case (step c es c' fs c'')
    from ctr_step_reports [OF step(2) ctr_run_inv [OF step(1,4)]] step show ?case by auto
  qed simp
  then show ?thesis by blast
qed

lemma report_inv_new: "report_inv (new_ctr config)"
  by (simp add: report_inv_def new_ctr_def NewContainerLogWriter_def)

lemma container_reports: "ctr_run (new_ctr config) es c \<Longrightarrow> e \<in> set es \<Longrightarrow> event_ok config e"
  using ctr_run_reports [OF _ restart_inv_new report_inv_new] by blast

end
