(* ===== verification/Vsock.thy ===== *)
theory Vsock
  imports GoLib
begin

text \<open>
  \<^verbatim>\<open>core/vsock\<close>: connections to the guest of a virtual machine through the hypervisor's UNIX socket
  (\<^verbatim>\<open>dial.go\<close>) and the guest's listener (\<^verbatim>\<open>listener.go\<close>).  The outcomes of the socket calls of one
  attempt are a record; the loops run over the turns of their \<^verbatim>\<open>select\<close>, a tick or the end of the
  context, and give no result (\<open>None\<close>) when the turns run out before they return.  The calls
  made are kept in a trace.
\<close>

section \<open>Errors\<close>

text \<open>
  What \<^verbatim>\<open>isTemporaryNetErr\<close> looks at: an error of the network library tells by itself whether it is
  temporary; \<^verbatim>\<open>connectMsgError\<close> is not, \<^verbatim>\<open>ackError\<close> is; other errors are not network errors.
\<close>

datatype vsock_error =
    NetError bool gerror
  | connectMsgError vsock_error
  | ackError vsock_error
  | PlainError gerror
  | WrapError string vsock_error

fun Temporary :: "vsock_error \<Rightarrow> bool option" where
  "Temporary (NetError t e) = Some t"
| "Temporary (connectMsgError e) = Some False"
| "Temporary (ackError e) = Some True"
| "Temporary (PlainError e) = None"
| "Temporary (WrapError m e) = Temporary e"

definition isTemporaryNetErr :: "vsock_error option \<Rightarrow> bool" where
  "isTemporaryNetErr err = (case err of None \<Rightarrow> False | Some e \<Rightarrow> Temporary e = Some True)"

fun vsock_error_string :: "vsock_error \<Rightarrow> string" where
  "vsock_error_string (NetError t e) = error_string e"
| "vsock_error_string (connectMsgError e) = ''vsock connect message failure: '' @ vsock_error_string e"
| "vsock_error_string (ackError e) = ''vsock ack message failure: '' @ vsock_error_string e"
| "vsock_error_string (PlainError e) = error_string e"
| "vsock_error_string (WrapError m e) = m @ '': '' @ vsock_error_string e"

section \<open>\<^verbatim>\<open>dial.go\<close>\<close>

text \<open>Durations in milliseconds.\<close>

record vsock_config =
  vcDialTimeout :: nat
  vcRetryTimeout :: nat
  vcRetryInterval :: nat
  vcConnectMsgTimeout :: nat
  vcAckMsgTimeout :: nat

definition defaultConfig :: vsock_config where
  "defaultConfig = \<lparr>vcDialTimeout = 100, vcRetryTimeout = 20000, vcRetryInterval = 100, vcConnectMsgTimeout = 100,
     vcAckMsgTimeout = 1000\<rparr>"

type_synonym dial_option = "vsock_config \<Rightarrow> vsock_config"

definition WithDialTimeout :: "nat \<Rightarrow> dial_option" where
  "WithDialTimeout d c = c\<lparr>vcDialTimeout := d\<rparr>"

definition WithRetryTimeout :: "nat \<Rightarrow> dial_option" where
  "WithRetryTimeout d c = c\<lparr>vcRetryTimeout := d\<rparr>"

definition WithRetryInterval :: "nat \<Rightarrow> dial_option" where
  "WithRetryInterval d c = c\<lparr>vcRetryInterval := d\<rparr>"

definition WithConnectionMsgTimeout :: "nat \<Rightarrow> dial_option" where
  "WithConnectionMsgTimeout d c = c\<lparr>vcConnectMsgTimeout := d\<rparr>"

definition WithAckMsgTimeout :: "nat \<Rightarrow> dial_option" where
  "WithAckMsgTimeout d c = c\<lparr>vcAckMsgTimeout := d\<rparr>"

datatype vsock_call =
    DialTimeout string nat
  | SetDeadline nat
  | ClearDeadline
  | ConnWrite string
  | ConnReadString char
  | ConnClose

text \<open>The outcomes of an attempt: of the dial, of the write (an error or a count), of the read.\<close>

record attempt =
  atDial :: "vsock_error option"
  atWrite :: "vsock_error option"
  atWritten :: nat
  atRead :: "vsock_error + string"

definition connectMsg :: "32 word \<Rightarrow> string" where
  "connectMsg port = ''CONNECT '' @ dec (unat port) @ [CHR 0x0A]"

definition tryConnWrite :: "attempt \<Rightarrow> string \<Rightarrow> nat \<Rightarrow> vsock_call list \<Rightarrow> vsock_error option \<times> vsock_call list" where
  "tryConnWrite a expectedWrite timeout t =
    (let t = t @ [SetDeadline timeout, ConnWrite expectedWrite, ClearDeadline] in
     case atWrite a of
       Some e \<Rightarrow> (Some e, t)
     | None \<Rightarrow>
         if atWritten a \<noteq> length expectedWrite then
           (Some (PlainError (Errorf (''incomplete write, expected '' @ dec (length expectedWrite) @ '' bytes but wrote '' @
             dec (atWritten a)))), t)
         else (None, t))"

definition tryConnReadUntil :: "attempt \<Rightarrow> char \<Rightarrow> nat \<Rightarrow> vsock_call list \<Rightarrow> (vsock_error + string) \<times> vsock_call list" where
  "tryConnReadUntil a end timeout t = (atRead a, t @ [SetDeadline timeout, ConnReadString end, ClearDeadline])"

text \<open>
  The deferred close looks at the variable \<^verbatim>\<open>err\<close>, which the return of the last check does not set:
  the connection of a wrong acknowledgement stays open.
\<close>

definition tryConnect :: "string \<Rightarrow> 32 word \<Rightarrow> vsock_config \<Rightarrow> attempt \<Rightarrow> vsock_call list \<Rightarrow> vsock_error option \<times> vsock_call list" where
  "tryConnect udsPath port c a t =
    (let t = t @ [DialTimeout udsPath (vcDialTimeout c)] in
     case atDial a of
       Some e \<Rightarrow> (Some (WrapError (''failed to dial '' @ udsPath) e), t)
     | None \<Rightarrow>
         (case tryConnWrite a (connectMsg port) (vcConnectMsgTimeout c) t of
            (Some e, t) \<Rightarrow> (Some (connectMsgError (WrapError (''failed to write '' @ connectMsg port) e)), t @ [ConnClose])
          | (None, t) \<Rightarrow>
              (case tryConnReadUntil a (CHR 0x0A) (vcAckMsgTimeout c) t of
                 (Inl e, t) \<Rightarrow> (Some (ackError (WrapError ''failed to read OK <port>'' e)), t @ [ConnClose])
               | (Inr line, t) \<Rightarrow>
                   if \<not> has_prefix line ''OK '' then
                     (Some (ackError (PlainError (Errorf (''expected to read OK <port>, but instead read '' @ line)))), t)
                   else (None, t))))"

text \<open>One turn of the \<^verbatim>\<open>select\<close>: the context's error, or a tick and the outcomes of the attempt.\<close>

datatype turn = CtxDone gerror | Tick attempt

fun dial :: "string \<Rightarrow> 32 word \<Rightarrow> vsock_config \<Rightarrow> turn list \<Rightarrow> vsock_call list \<Rightarrow> vsock_error option option \<times> vsock_call list" where
  "dial udsPath port c [] t = (None, t)"
| "dial udsPath port c (CtxDone e # turns) t = (Some (Some (PlainError e)), t)"
| "dial udsPath port c (Tick a # turns) t = (case tryConnect udsPath port c a t of (err, t) \<Rightarrow>
     if isTemporaryNetErr err then dial udsPath port c turns t
     else (case err of
         Some e \<Rightarrow> (Some (Some (WrapError ''non-temporary vsock dial failure'' e)), t)
       | None \<Rightarrow> (Some None, t)))"

definition DialContext :: "string \<Rightarrow> 32 word \<Rightarrow> dial_option list \<Rightarrow> turn list \<Rightarrow> vsock_call list \<Rightarrow>
    vsock_error option option \<times> vsock_call list" where
  "DialContext path port opts turns t = dial path port (fold (\<lambda>f c. f c) opts defaultConfig) turns t"

section \<open>\<^verbatim>\<open>listener.go\<close>\<close>

record vsock_listener =
  vlPort :: "32 word"
  vlConfig :: vsock_config
  vlOpen :: bool

definition Listen :: "32 word \<Rightarrow> gerror option \<Rightarrow> vsock_listener res" where
  "Listen port err = (case err of Some e \<Rightarrow> Err e | None \<Rightarrow> Ok \<lparr>vlPort = port, vlConfig = defaultConfig, vlOpen = True\<rparr>)"

text \<open>A turn of the accept loop: the context or its deadline, or what the listener's accept gives.\<close>

datatype accept_turn = AcceptDone gerror | AcceptTick "vsock_error option"

definition tryAccept :: "vsock_error option \<Rightarrow> vsock_error option" where
  "tryAccept err = err"

fun Accept :: "vsock_listener \<Rightarrow> accept_turn list \<Rightarrow> vsock_error option option" where
  "Accept l [] = None"
| "Accept l (AcceptDone e # turns) = Some (Some (PlainError e))"
| "Accept l (AcceptTick err # turns) =
    (if isTemporaryNetErr (tryAccept err) then Accept l turns
     else (case tryAccept err of
         Some e \<Rightarrow> Some (Some (WrapError ''non-temporary vsock accept failure'' e))
       | None \<Rightarrow> Some None))"

definition Listener_Close :: "gerror option \<Rightarrow> vsock_listener \<Rightarrow> gerror option \<times> vsock_listener" where
  "Listener_Close err l = (err, l\<lparr>vlOpen := False\<rparr>)"

section \<open>Lemmas\<close>

lemma tryConnect_Ok:
  "tryConnect p port c a t = (None, t') \<Longrightarrow> atDial a = None \<and> atWrite a = None \<and> atWritten a = length (connectMsg port) \<and>
     (\<exists>line. atRead a = Inr line \<and> has_prefix line ''OK '') \<and>
     t' = t @ [DialTimeout p (vcDialTimeout c), SetDeadline (vcConnectMsgTimeout c), ConnWrite (connectMsg port), ClearDeadline,
        SetDeadline (vcAckMsgTimeout c), ConnReadString (CHR 0x0A), ClearDeadline]"
  by (auto simp: tryConnect_def tryConnWrite_def tryConnReadUntil_def Let_def split: option.splits if_splits sum.splits)

text \<open>The connections that an attempt opens and does not close.\<close>

definition left_open :: "attempt \<Rightarrow> vsock_call list \<Rightarrow> int" where
  "left_open a t = (if atDial a = None then 1 else 0) - int (length (filter (\<lambda>c. c = ConnClose) t))"

definition wrong_ack :: "32 word \<Rightarrow> attempt \<Rightarrow> bool" where
  "wrong_ack port a \<longleftrightarrow> atDial a = None \<and> atWrite a = None \<and> atWritten a = length (connectMsg port) \<and>
     (\<exists>line. atRead a = Inr line \<and> \<not> has_prefix line ''OK '')"

lemma tryConnect_open:
  "tryConnect p port c a t = (err, t') \<Longrightarrow> \<exists>new. t' = t @ new \<and>
     left_open a new = (if err = None \<or> wrong_ack port a then 1 else 0)"
  by (auto simp: tryConnect_def tryConnWrite_def tryConnReadUntil_def Let_def left_open_def wrong_ack_def
      split: option.splits if_splits sum.splits)

lemma wrong_ack_retried: "wrong_ack port a \<Longrightarrow> \<exists>e t'. tryConnect p port c a t = (Some e, t') \<and> Temporary e = Some True"
  by (auto simp: wrong_ack_def tryConnect_def tryConnWrite_def tryConnReadUntil_def Let_def)

text \<open>
  An attempt that is retried: the hypervisor's socket failed for the moment, or the request was
  written in full and the guest did not acknowledge it.
\<close>

definition retried :: "32 word \<Rightarrow> turn \<Rightarrow> bool" where
  "retried port turn = (case turn of CtxDone _ \<Rightarrow> False
     | Tick a \<Rightarrow> (case atDial a of
         Some e \<Rightarrow> Temporary e = Some True
       | None \<Rightarrow> atWrite a = None \<and> atWritten a = length (connectMsg port) \<and>
           \<not> (\<exists>line. atRead a = Inr line \<and> has_prefix line ''OK '')))"

lemma retried_iff: "retried port (Tick a) \<longleftrightarrow> isTemporaryNetErr (fst (tryConnect p port c a []))"
  by (auto simp: retried_def tryConnect_def tryConnWrite_def tryConnReadUntil_def Let_def isTemporaryNetErr_def
      split: option.splits sum.splits)

lemma tryConnect_fst: "fst (tryConnect p port c a t) = fst (tryConnect p port c a [])"
  by (auto simp: tryConnect_def tryConnWrite_def tryConnReadUntil_def Let_def split: option.splits sum.splits)

text \<open>An attempt whose port request is written in full and acknowledged.\<close>

definition acknowledged :: "32 word \<Rightarrow> attempt \<Rightarrow> bool" where
  "acknowledged port a \<longleftrightarrow> atDial a = None \<and> atWrite a = None \<and> atWritten a = length (connectMsg port) \<and>
     (\<exists>line. atRead a = Inr line \<and> has_prefix line ''OK '')"

lemma tryConnect_acknowledged: "fst (tryConnect p port c a t) = None \<longleftrightarrow> acknowledged port a"
  by (auto simp: tryConnect_def tryConnWrite_def tryConnReadUntil_def Let_def acknowledged_def split: option.splits sum.splits)

lemma acknowledged_not_retried: "acknowledged port a \<Longrightarrow> \<not> retried port (Tick a)"
  by (auto simp: retried_def acknowledged_def)

text \<open>One turn: go on, connect, or end.\<close>

lemma dial_turn:
  "fst (dial p port c (x # turns) t) =
    (if retried port x then fst (dial p port c turns (case x of Tick a \<Rightarrow> snd (tryConnect p port c a t) | CtxDone _ \<Rightarrow> t))
     else if \<exists>a. x = Tick a \<and> acknowledged port a then Some None else Some (Some (case x of CtxDone e \<Rightarrow> PlainError e
       | Tick a \<Rightarrow> WrapError ''non-temporary vsock dial failure'' (the (fst (tryConnect p port c a t))))))"
proof (cases x)
  case (CtxDone e)
  then show ?thesis by (simp add: retried_def)
next
  case (Tick a)
  obtain err t1 where r: "tryConnect p port c a t = (err, t1)" by fastforce
  with Tick tryConnect_fst [of p port c a t] tryConnect_acknowledged [of p port c a t] show ?thesis
    by (auto simp: retried_iff [of port a p c] isTemporaryNetErr_def split: option.splits)
qed



end
