(* ===== verification/InitServer.thy ===== *)
theory InitServer
  imports InitContainers IpText Vsock
begin

text \<open>
  The server of the init process (\<^verbatim>\<open>init/internal/initserver\<close>), the preparation of the virtual machine
  (\<^verbatim>\<open>init/internal/bootstrap\<close>) and \<^verbatim>\<open>init/main.go\<close>.
\<close>

section \<open>\<^verbatim>\<open>initserver\<close>\<close>

definition adaptContainerEventToProto :: "any_event \<Rightarrow> init_events_response option" where
  "adaptContainerEventToProto event = (case event of
      ContainerStateChangedEvent value \<Rightarrow> Some
        \<lparr>ierEventId = ceEventID value, ierTimestamp = ceTimestamp value,
         ierEvent = InitEvent_ContainerStateChanged
           \<lparr>pceContainerId = ceContainerID value,
            pceState = (if ceExitedAt value \<noteq> None then ContainerState_Exited
              else if ceStartedAt value \<noteq> None then ContainerState_Running else ContainerState_Unknown),
            pceStartedAt = ceStartedAt value, pceExitedAt = ceExitedAt value, pceExitCode = ceExitCode value,
            pceExitError = map_option error_string (ceExitError value), pceHealthy = ceHealthy value,
            pceHealthcheckError = map_option error_string (ceHealthcheckError value),
            pceRestartCount = ceRestartCount value\<rparr>\<rparr>
    | OtherEvent \<Rightarrow> None)"

text \<open>\<open>events\<close> and \<open>entries\<close> are what the channels give until they are closed.\<close>

definition InitServer_Events :: "(nat \<Rightarrow> gerror option) \<Rightarrow> any_event list \<Rightarrow> gerror option \<times> init_events_response list" where
  "InitServer_Events send events = send_all send (List.map_filter adaptContainerEventToProto events) []"

definition log_message :: "init_entry \<Rightarrow> init_log" where
  "log_message entry = \<lparr>iglContainerID = ieContainerID entry, iglError = ieError entry, iglContent = ieContent entry,
     iglTimestamp = ieTimestamp entry\<rparr>"

definition InitServer_GetLogs :: "(nat \<Rightarrow> gerror option) \<Rightarrow> init_entry list \<Rightarrow> gerror option \<times> init_log list" where
  "InitServer_GetLogs send entries = send_all send (map log_message entries) []"

text \<open>\<^verbatim>\<open>Serve\<close> returns only with an error.\<close>

definition InitServer_Start :: "gerror option \<Rightarrow> gerror \<Rightarrow> gerror" where
  "InitServer_Start listen_err serve_err = (case Vsock.Listen (of_nat InitServerPort) listen_err of
      Err e \<Rightarrow> Wrap ''failed to listen on vsock'' e
    | _ \<Rightarrow> serve_err)"

section \<open>\<^verbatim>\<open>bootstrap\<close>\<close>

datatype guest_call =
    GMkdirAll string nat
  | GMount string string string nat string
  | GSymlink string string
  | GLinkByName string
  | GLinkSetUp string
  | GLinkSetHardwareAddr string hwaddr
  | GAddrAdd string ipnet
  | GRouteAdd ip

text \<open>
  \<open>ge_parse_addr\<close> is the netlink package's reader of an address with its prefix length;
  \<open>ge_parse_ip6\<close> is what \<^verbatim>\<open>net.ParseIP\<close> makes of a text with a colon.
\<close>

record guest_env = "guest_call env" +
  ge_parse_addr :: "string \<Rightarrow> ipnet res"
  ge_parse_ip6 :: "string \<Rightarrow> ip"

text \<open>The mode 0644 in octal; \<^verbatim>\<open>MS_NOSUID\<close> is 2.\<close>

fun mount_all :: "('e) guest_env_scheme \<Rightarrow> (string \<times> string \<times> string \<times> nat \<times> string) list \<Rightarrow> guest_call list \<Rightarrow> unit res \<times> guest_call list" where
  "mount_all E [] t = (Ok (), t)"
| "mount_all E ((source, target, fstype, flags, data) # ms) t =
    tryE (\<lambda>e. Errorf (''failed to mount '' @ source @ '' on '' @ target @ '': '' @ error_string e))
      (ext E (GMount source target fstype flags data) t) (\<lambda>_ t. mount_all E ms t)"

definition guest_mounts :: "(string \<times> string \<times> string \<times> nat \<times> string) list" where
  "guest_mounts = [(''devtmpfs'', ''/dev'', ''devtmpfs'', 2, ''mode=0755'')]"

definition guest_symlinks :: "(string \<times> string) list" where
  "guest_symlinks = [(''/proc/self/fd'', ''/dev/fd''), (''/proc/self/fd/0'', ''/dev/stdin''),
     (''/proc/self/fd/1'', ''/dev/stdout''), (''/proc/self/fd/2'', ''/dev/stderr'')]"

definition MountFilesystems :: "('e) guest_env_scheme \<Rightarrow> guest_call list \<Rightarrow> unit res \<times> guest_call list" where
  "MountFilesystems E t = tryE id (ext E (GMkdirAll ''/dev'' 0x1A4) t) (\<lambda>_ t.
     tryE id (mount_all E guest_mounts t) (\<lambda>_ t.
     (Ok (), fold (\<lambda>(source, destination) t. snd (ext E (GSymlink source destination) t)) guest_symlinks t)))"

definition lift_res :: "'a res \<Rightarrow> 's \<Rightarrow> 'a res \<times> 's" where
  "lift_res r s = (r, s)"

definition SetupNetwork :: "('e) guest_env_scheme \<Rightarrow> init_config \<Rightarrow> guest_call list \<Rightarrow> unit res \<times> guest_call list" where
  "SetupNetwork E config t =
    (let v = (\<lambda>m e. Errorf (m @ '': '' @ error_string e)) in
     tryE (v ''error getting loopback interface'') (ext E (GLinkByName ''lo'') t) (\<lambda>_ t.
     tryE (v ''error configuring loopback interface'') (ext E (GLinkSetUp ''lo'') t) (\<lambda>_ t.
     tryE (v ''error getting eth0 interface'') (ext E (GLinkByName ''eth0'') t) (\<lambda>_ t.
     tryE (Wrap ''failed to parse mac address'') (lift_res (ParseMAC (iniMacAddress config)) t) (\<lambda>macAddr t.
     tryE (Wrap ''failed to set mac address'') (ext E (GLinkSetHardwareAddr ''eth0'' macAddr) t) (\<lambda>_ t.
     tryE (Wrap ''failed to parse ip address'') (lift_res (ge_parse_addr E (iniIPAddress config)) t) (\<lambda>ipAddr t.
     tryE (Wrap ''failed to set ip address'') (ext E (GAddrAdd ''eth0'' ipAddr) t) (\<lambda>_ t.
     tryE (v ''error bringing up eth0'') (ext E (GLinkSetUp ''eth0'') t) (\<lambda>_ t.
     tryE (v ''error adding default route'') (ext E (GRouteAdd (ParseIP (ge_parse_ip6 E) (iniGatewayAddress config))) t) (\<lambda>_ t.
     (Ok (), t)))))))))))"

section \<open>\<^verbatim>\<open>main.go\<close>\<close>

text \<open>
  Every error is a panic.  The containers are started while nothing listens yet; the process then
  waits for the end of its server, which is a panic as well.  \<open>config\<close> is the outcome of opening and
  decoding the configuration.
\<close>

record init_process =
  ipTrace :: "guest_call list"
  ipLog :: "string log_service option"
  ipContainers :: "container_service option"

fun start_containers :: "(init_container_config \<Rightarrow> gerror option) \<Rightarrow> init_container_config list \<Rightarrow> container_service \<Rightarrow>
    unit res \<times> container_service" where
  "start_containers marshal [] s = (Ok (), s)"
| "start_containers marshal (c # cs) s = tryE id (StartContainer (marshal c) c s) (\<lambda>_ s. start_containers marshal cs s)"

definition panic_with :: "(gerror \<Rightarrow> gerror) \<Rightarrow> 'a res \<times> 's \<Rightarrow> ('a \<Rightarrow> 's \<Rightarrow> 'b res \<times> 's) \<Rightarrow> 'b res \<times> 's" where
  "panic_with w m k = catchE m k (\<lambda>e s. (Panic (error_string (w e)), s))"

definition init_main :: "('e) guest_env_scheme \<Rightarrow> init_config res \<Rightarrow> gerror option \<Rightarrow> gerror option \<Rightarrow> string \<Rightarrow>
    (init_container_config \<Rightarrow> gerror option) \<Rightarrow> gerror option \<Rightarrow> gerror \<Rightarrow> init_process \<Rightarrow> unit res \<times> init_process" where
  "init_main E config mkdir create subscriptionID marshal listen_err serve_err p =
    panic_with id (config, p) (\<lambda>config p.
    panic_with (\<lambda>e. Errorf (''failed to mount filesystem: '' @ error_string e))
      (case MountFilesystems E (ipTrace p) of (r, t) \<Rightarrow> (r, p\<lparr>ipTrace := t\<rparr>)) (\<lambda>_ p.
    panic_with (\<lambda>e. Errorf (''failed to setup network: '' @ error_string e))
      (case SetupNetwork E config (ipTrace p) of (r, t) \<Rightarrow> (r, p\<lparr>ipTrace := t\<rparr>)) (\<lambda>_ p.
    panic_with id (LogService_New ''/logs'' mkdir create, p) (\<lambda>log p.
    let p = p\<lparr>ipLog := Some log\<rparr>; s = ContainerService_Start (ContainerService_New subscriptionID) in
    panic_with id (case start_containers marshal (iniContainers config) s of (r, s) \<Rightarrow> (r, p\<lparr>ipContainers := Some s\<rparr>)) (\<lambda>_ p.
    (Panic (error_string (InitServer_Start listen_err serve_err)), p))))))"

end
