(* ===== verification/RuntimeLogs.thy ===== *)
theory RuntimeLogs
  imports Messages LogManager EventBus
begin

text \<open>
  \<^verbatim>\<open>vmruntime/internal/runtime/log.go\<close>: the runtime's log of its machine.  Two listeners write to it,
  one for the serial console and one for the log stream of the init process, each connecting again
  whenever its connection ends; the init process sends its whole history on every connection, and
  the listener skips what it has already written by counting.  The outcome of each write is a
  function of the number of entries handed to the file before.
\<close>

record 'h runtime_log_manager =
  rmManager :: log_manager
  rmWorkingDir :: string
  rmCancelled :: bool
  rmSeq :: "64 word"
  rmHandlers :: "(string \<times> 'h) list"
  rmCalls :: "('h \<times> log_entry) list"
  rmTried :: "log_entry list"

definition newLogManager :: "string \<Rightarrow> log_file \<Rightarrow> 'h runtime_log_manager" where
  "newLogManager workingDir disk = \<lparr>rmManager = logmanager_New (path_join [workingDir, ''logs.json'']) disk,
     rmWorkingDir = workingDir, rmCancelled = False, rmSeq = 0, rmHandlers = [], rmCalls = [], rmTried = []\<rparr>"

definition GetSerialSocketPath :: "'h runtime_log_manager \<Rightarrow> string" where
  "GetSerialSocketPath m = path_join [rmWorkingDir m, ''serial.socket'']"

definition HandleLogs :: "string \<Rightarrow> 'h \<Rightarrow> 'h runtime_log_manager \<Rightarrow> 'h runtime_log_manager" where
  "HandleLogs handlerID handler m = m\<lparr>rmHandlers := AList.update handlerID handler (rmHandlers m)\<rparr>"

definition UnhandleLogs :: "string \<Rightarrow> 'h runtime_log_manager \<Rightarrow> 'h runtime_log_manager" where
  "UnhandleLogs handlerID m = m\<lparr>rmHandlers := AList.delete handlerID (rmHandlers m)\<rparr>"

interpretation runtimehandlers: handler_registry HandleLogs UnhandleLogs
    "\<lambda>m. map_of (rmHandlers m)" "\<lambda>m. map snd (rmHandlers m)" "\<lambda>m. alist_wf (rmHandlers m)"
proof (unfold_locales, goal_cases)
  case (5 r i h)
  then show ?case by (simp add: HandleLogs_def alist_update_fresh)
next
  case (6 r r')
  then show ?case by (rule alist_mset_eq)
qed (simp_all add: HandleLogs_def UnhandleLogs_def)

text \<open>
  \<^verbatim>\<open>writeLog\<close>; \<open>IO\<close> gives the outcomes of the \<open>n\<close>-th entry.  The handlers get the entry as the caller
  made it, while the file has the time of the write.  \<open>rmTried\<close> records the entries handed over.
\<close>

definition writeLog :: "(nat \<Rightarrow> log_io) \<Rightarrow> log_entry \<Rightarrow> 'h runtime_log_manager \<Rightarrow> unit res \<times> 'h runtime_log_manager" where
  "writeLog IO entry m =
    (let (r, lm) = WriteLog (IO (length (rmTried m))) entry (rmManager m);
         m = m\<lparr>rmManager := lm, rmTried := rmTried m @ [entry]\<rparr> in
     case r of
       Ok _ \<Rightarrow> (Ok (), m\<lparr>rmCalls := rmCalls m @ map (\<lambda>h. (snd h, entry)) (rmHandlers m)\<rparr>)
     | Err e \<Rightarrow> (Err e, m)
     | Panic p \<Rightarrow> (Panic p, m))"

definition Stop_logs :: "log_io \<Rightarrow> 'h runtime_log_manager \<Rightarrow> 'h runtime_log_manager" where
  "Stop_logs io m = m\<lparr>rmCancelled := True, rmManager := snd (Close io (rmManager m))\<rparr>"

text \<open>\<open>err\<close> is the error of opening the file.\<close>

definition Runtime_ReadLogs :: "gerror option \<Rightarrow> nat \<Rightarrow> 'h runtime_log_manager \<Rightarrow> log_entry list res" where
  "Runtime_ReadLogs err turns m =
    ReadLogs (case err of None \<Rightarrow> Ok (lmDisk (rmManager m)) | Some e \<Rightarrow> Err e) turns"

text \<open>One connection to the serial console: the lines it gives; empty ones are skipped.\<close>

definition serial_entry :: "string \<Rightarrow> log_entry" where
  "serial_entry line = \<lparr>leSource = MachineLogEntrySource, leContainerID = None, leTimestamp = 0, leMessage = line, leStderr = False\<rparr>"

fun listen_serial :: "(nat \<Rightarrow> log_io) \<Rightarrow> string list \<Rightarrow> 'h runtime_log_manager \<Rightarrow> 'h runtime_log_manager" where
  "listen_serial IO [] m = m"
| "listen_serial IO (line # lines) m =
    (if line = [] then listen_serial IO lines m
     else listen_serial IO lines (snd (writeLog IO (serial_entry line) m)))"

text \<open>One connection to the init process's log stream: the messages it gives.\<close>

definition init_log_entry :: "init_log \<Rightarrow> log_entry" where
  "init_log_entry log = \<lparr>leSource = ContainerLogEntrySource, leContainerID = Some (iglContainerID log),
     leTimestamp = iglTimestamp log, leMessage = iglContent log, leStderr = iglError log\<rparr>"

fun listen_init :: "(nat \<Rightarrow> log_io) \<Rightarrow> 64 word \<Rightarrow> init_log list \<Rightarrow> 'h runtime_log_manager \<Rightarrow> 'h runtime_log_manager" where
  "listen_init IO seq [] m = m"
| "listen_init IO seq (log # logs) m = (let seq = seq + 1 in
    if seq \<le> rmSeq m then listen_init IO seq logs m
    else (let m = snd (writeLog IO (init_log_entry log) m)
      in listen_init IO seq logs (m\<lparr>rmSeq := rmSeq m + 1\<rparr>)))"

text \<open>
  \<^verbatim>\<open>startListener\<close>: a connection per tick until the context is done; the list holds what each
  connection gives, and a failed one gives nothing.
\<close>

fun startListener :: "('a \<Rightarrow> 'h runtime_log_manager \<Rightarrow> 'h runtime_log_manager) \<Rightarrow> 'a list \<Rightarrow> 'h runtime_log_manager \<Rightarrow> 'h runtime_log_manager" where
  "startListener listen [] m = m"
| "startListener listen (x # xs) m = (if rmCancelled m then m else startListener listen xs (listen x m))"

definition ListenSerialSocket :: "(nat \<Rightarrow> log_io) \<Rightarrow> string list list \<Rightarrow> 'h runtime_log_manager \<Rightarrow> 'h runtime_log_manager" where
  "ListenSerialSocket IO = startListener (listen_serial IO)"

definition ListenInitLogs :: "(nat \<Rightarrow> log_io) \<Rightarrow> init_log list list \<Rightarrow> 'h runtime_log_manager \<Rightarrow> 'h runtime_log_manager" where
  "ListenInitLogs IO = startListener (listen_init IO 0)"

section \<open>Exactly once\<close>

lemma writeLog_fields:
  "rmTried (snd (writeLog IO e m)) = rmTried m @ [e]" "rmSeq (snd (writeLog IO e m)) = rmSeq m"
  "rmCancelled (snd (writeLog IO e m)) = rmCancelled m" "rmHandlers (snd (writeLog IO e m)) = rmHandlers m"
  by (simp_all add: writeLog_def Let_def split: prod.split res.split)

text \<open>A connection that repeats the first \<open>k\<close> messages adds those that were not written yet.\<close>

lemma listen_init_step:
  assumes "k \<le> n" "n < 2 ^ 64" "k + length logs < 2 ^ 64" "rmSeq m = of_nat n"
  shows "rmTried (listen_init IO (of_nat k) logs m) = rmTried m @ map init_log_entry (drop (n - k) logs) \<and>
    rmSeq (listen_init IO (of_nat k) logs m) = of_nat (max n (k + length logs)) \<and>
    rmCancelled (listen_init IO (of_nat k) logs m) = rmCancelled m"
  using assms
proof (induction logs arbitrary: k n m)
  case Nil
  then show ?case by (simp add: max_def)
next
  case (Cons log logs)
  have le: "(of_nat k + 1 \<le> (of_nat n :: 64 word)) \<longleftrightarrow> Suc k \<le> n"
  proof -
    have "unat (of_nat (Suc k) :: 64 word) = Suc k" "unat (of_nat n :: 64 word) = n"
      using Cons.prems by (simp_all only: unat_of_nat) simp_all
    moreover have "of_nat k + 1 = (of_nat (Suc k) :: 64 word)" by simp
    ultimately show ?thesis by (simp only: word_le_nat_alt)
  qed
  show ?case
  proof (cases "Suc k \<le> n")
    case True
    have "Suc k + length logs < 2 ^ 64" using Cons.prems(3) by simp
    from Cons.IH [OF True Cons.prems(2) this Cons.prems(4)] le True Cons.prems(4) show ?thesis
      by (simp add: Let_def add.commute Suc_diff_le drop_Cons' max_def)
  next
    case False
    then have kn: "k = n" using Cons.prems(1) by simp
    let ?m = "snd (writeLog IO (init_log_entry log) m)\<lparr>rmSeq := rmSeq m + 1\<rparr>"
    have "rmSeq ?m = of_nat (Suc n)" "Suc n < 2 ^ 64" "Suc n + length logs < 2 ^ 64"
      using Cons.prems kn by (simp_all add: add.commute)
    from Cons.IH [OF le_refl this(2,3,1)] Cons.prems(4) kn le False show ?thesis
      by (simp add: Let_def writeLog_fields add.commute max_def)
  qed
qed

lemma listen_init_first:
  assumes "k \<le> length history" "length history < 2 ^ 64" "rmSeq m = of_nat k"
  shows "rmTried (listen_init IO 0 (take n history) m) = rmTried m @ map init_log_entry (drop k (take n history)) \<and>
    rmSeq (listen_init IO 0 (take n history) m) = of_nat (max k (min n (length history))) \<and>
    rmCancelled (listen_init IO 0 (take n history) m) = rmCancelled m"
proof -
  define h where "h = (if n \<le> length history then take n history else history)"
  have h: "take n history = h" "length h = min n (length history)" by (simp_all add: h_def)
  from listen_init_step [of 0 k h m IO] assms h show ?thesis by simp
qed

lemma fold_max: "fold max ns a = max a (fold max ns (0::nat))"
proof (induction ns arbitrary: a)
  case (Cons n ns)
  from Cons [of "max n a"] Cons [of n] show ?case by (simp add: max.assoc max.left_commute)
qed simp

lemma drop_take_join:
  assumes "k \<le> length h"
  shows "drop k (take n h) @ drop (max k (min n (length h))) (take (max (max k (min n (length h))) f) h) =
    drop k (take (max (max n k) f) h)"
proof -
  consider "n \<le> k" | "k < n" "n \<le> length h" | "k < n" "length h < n" by linarith
  then show ?thesis
  proof cases
    case 1
    with assms show ?thesis by (simp add: max_def min_def)
  next
    case 2
    have "take (max n f) h = take n h @ drop n (take (max n f) h)"
      using append_take_drop_id [of n "take (max n f) h"] by simp
    moreover have "drop k (take n h @ ys) = drop k (take n h) @ ys" for ys using 2 by simp
    ultimately show ?thesis using 2 by (metis max.absorb2 max.absorb1 min.absorb1 less_imp_le)
  next
    case 3
    with assms show ?thesis by (simp add: max_def min_def)
  qed
qed

lemma init_logs_once:
  assumes "length history < 2 ^ 64" and "\<not> rmCancelled m" and "rmSeq m = 0"
  shows "rmTried (ListenInitLogs IO (map (\<lambda>n. take n history) ns) m) =
    rmTried m @ map init_log_entry (take (fold max ns 0) history)"
proof -
  have "rmTried (startListener (listen_init IO 0) (map (\<lambda>n. take n history) ns) m) =
      rmTried m @ map init_log_entry (drop k (take (fold max ns k) history))"
    if "rmSeq m = of_nat k" "k \<le> length history" "\<not> rmCancelled m" for k m
    using that
  proof (induction ns arbitrary: k m)
    case Nil
    then show ?case by simp
  next
    case (Cons n ns)
    let ?k = "max k (min n (length history))"
    note first = listen_init_first [OF Cons.prems(2) assms(1) Cons.prems(1), of IO n]
    have "drop k (take n history) @ drop ?k (take (fold max ns ?k) history) = drop k (take (fold max ns (max n k)) history)"
      using drop_take_join [OF Cons.prems(2), of n "fold max ns 0"] fold_max [of ns ?k] fold_max [of ns "max n k"] by simp
    with first Cons.IH [of "listen_init IO 0 (take n history) m" ?k] Cons.prems show ?case
      by (simp flip: map_append)
  qed
  from this [of m 0] assms show ?thesis by (simp add: ListenInitLogs_def)
qed


text \<open>The witness: three connections that give two messages, one, and all three.\<close>

definition hello_log :: "string \<Rightarrow> init_log" where
  "hello_log s = \<lparr>iglContainerID = ''c1'', iglError = False, iglContent = s, iglTimestamp = 1\<rparr>"


end
