(* ===== verification/VmRuntime.thy ===== *)
theory VmRuntime
  imports NetworkProvider RuntimeLogs
begin

text \<open>
  \<^verbatim>\<open>vmruntime\<close>: the process that runs one virtual machine.  It builds the initial file system with
  the configuration of the init process, starts the hypervisor and drives it over its socket, serves
  the node agent's calls and forwards the init process's events.  The calls to the operating system
  and the hypervisor are a trace; closing files and preparing HTTP clients are left out.
\<close>

section \<open>\<^verbatim>\<open>runtime.go\<close>\<close>

record vm_config =
  vcRuntime :: runtime_config
  vcInitBinary :: string
  vcInitContainerBinary :: string
  vcCloudHypervisorBinary :: string
  vcVMLinux :: string
  vcDebug :: bool

text \<open>The hypervisor's description of a machine, the fields that are set.\<close>

record disk_config =
  dkPath :: string
  dkReadonly :: bool
  dkDirect :: bool
  dkNumQueues :: int
  dkQueueSize :: int

record net_config =
  ncTap :: string
  ncMac :: string
  ncNumQueues :: int
  ncQueueSize :: int

datatype console_mode = ConsoleConfigModeNull | ConsoleConfigModeSocket

record vm_spec =
  vsBootVcpus :: int
  vsMaxVcpus :: int
  vsMemorySize :: int
  vsDisks :: "disk_config list"
  vsNet :: "net_config list"
  vsVsockCid :: int
  vsVsockSocket :: string
  vsConsole :: console_mode
  vsSerial :: console_mode
  vsSerialSocket :: string
  vsKernel :: string
  vsInitramfs :: string
  vsCmdline :: string
  vsRngSrc :: string

datatype vm_call =
    VListen string
  | VRemove string
  | VMkdirAll string nat
  | VMkdirTemp string
  | VRemoveAll string
  | VCreateFile string
  | VEncodeConfig string init_config
  | VOpen string
  | VCopy string string
  | VChmod string nat
  | VShell string string
  | VStat string
  | VExecStart string "string list"
  | VWait
  | VKill int
  | VSleep
  | VHttpShutdown
  | GetVmmPing
  | CreateVM vm_spec
  | BootVM
  | ShutdownVM
  | DeleteVM
  | ShutdownVMM
  | GetVmInfo

text \<open>
  The answers: HTTP status codes and bodies, the state of the machine if the answer has one, the
  identifier of the started process and the temporary directory.
\<close>

record vm_env = "vm_call env" +
  ve_status :: "vm_call list \<Rightarrow> nat"
  ve_body :: "vm_call list \<Rightarrow> string"
  ve_state :: "vm_call list \<Rightarrow> string option"
  ve_pid :: "vm_call list \<Rightarrow> int"
  ve_tmpdir :: "vm_call list \<Rightarrow> string"

text \<open>\<open>vrCmd\<close>: the hypervisor's command, with the identifier of its process once it is started.\<close>

record 'h vm_runtime =
  vrConfig :: vm_config
  vrCmd :: "int option option"
  vrHttpServer :: bool
  vrLogManager :: "'h runtime_log_manager option"
  vrListening :: bool
  vrTrace :: "vm_call list"

definition VmRuntime_New :: "vm_config \<Rightarrow> 'h vm_runtime" where
  "VmRuntime_New config = \<lparr>vrConfig = config, vrCmd = None, vrHttpServer = False, vrLogManager = None,
     vrListening = False, vrTrace = []\<rparr>"

definition vworkdir :: "'h vm_runtime \<Rightarrow> string" where
  "vworkdir r = rtWorkingDir (vcRuntime (vrConfig r))"

definition getHypervisorSocketPath :: "'h vm_runtime \<Rightarrow> string" where
  "getHypervisorSocketPath r = path_join [vworkdir r, ''vmm.socket'']"

definition getInitDaemonSocketPath :: "'h vm_runtime \<Rightarrow> string" where
  "getInitDaemonSocketPath r = path_join [vworkdir r, ''init.socket'']"

definition getInitRamFSPath :: "'h vm_runtime \<Rightarrow> string" where
  "getInitRamFSPath r = path_join [vworkdir r, ''initramfs.gz'']"

definition getInitConfigPath :: "'h vm_runtime \<Rightarrow> string" where
  "getInitConfigPath r = path_join [vworkdir r, ''initconfig.json'']"

definition vcall :: "('e) vm_env_scheme \<Rightarrow> vm_call \<Rightarrow> 'h vm_runtime \<Rightarrow> unit res \<times> 'h vm_runtime" where
  "vcall E c r = (fst (ext E c (vrTrace r)), r\<lparr>vrTrace := vrTrace r @ [c]\<rparr>)"

definition vcall_val :: "('e) vm_env_scheme \<Rightarrow> vm_call \<Rightarrow> (vm_call list \<Rightarrow> 'a) \<Rightarrow> 'h vm_runtime \<Rightarrow> 'a res \<times> 'h vm_runtime" where
  "vcall_val E c v r = (fst (ext_val E c v (vrTrace r)), r\<lparr>vrTrace := vrTrace r @ [c]\<rparr>)"

section \<open>\<^verbatim>\<open>build_initramfs.go\<close>\<close>

text \<open>The modes are octal in the source: 0755 is \<open>0x1ED\<close> and 0644 is \<open>0x1A4\<close>.\<close>

definition alphabet :: string where
  "alphabet = ''abcdefghijklmnopqrstuvwxyz''"

definition init_container :: "nat \<Rightarrow> runtime_container_config \<Rightarrow> init_container_config" where
  "init_container index container = \<lparr>icSpec = rcSpec container, icContainerID = rcContainerID container,
     icVolume = ''/dev/vd'' @ [alphabet ! (index mod length alphabet)]\<rparr>"

definition init_config_of :: "runtime_config \<Rightarrow> init_config" where
  "init_config_of c = \<lparr>
     iniIPAddress = ip_string (rnIPAddress (rtNetwork c)) @ ''/'' @ dec (fst (mask_size (netMask (rnNetworkCIDR (rtNetwork c))))),
     iniMacAddress = rnMacAddress (rtNetwork c),
     iniGatewayAddress = ip_string (rnGatewayAddress (rtNetwork c)),
     iniHostname = rtMachineID c,
     iniContainers = map2 init_container [0..<length (rtContainers c)] (rtContainers c)\<rparr>"

definition copyFile :: "('e) vm_env_scheme \<Rightarrow> string \<Rightarrow> string \<Rightarrow> 'h vm_runtime \<Rightarrow> unit res \<times> 'h vm_runtime" where
  "copyFile E src dst r = tryE id (vcall E (VOpen src) r) (\<lambda>_ r. tryE id (vcall E (VCreateFile dst) r) (\<lambda>_ r.
     vcall E (VCopy src dst) r))"

definition in_tmpdir :: "('e) vm_env_scheme \<Rightarrow> string \<Rightarrow> 'h vm_runtime \<Rightarrow> unit res \<times> 'h vm_runtime" where
  "in_tmpdir E tmpDir r =
    (let path = getInitConfigPath r; initPath = path_join [tmpDir, ''init''];
         initContainerPath = path_join [tmpDir, ''initcontainer''] in
     tryE id (vcall E (VCreateFile path) r) (\<lambda>_ r.
     tryE id (vcall E (VEncodeConfig path (init_config_of (vcRuntime (vrConfig r)))) r) (\<lambda>_ r.
     tryE (Wrap ''failed to copy init config'') (copyFile E path (path_join [tmpDir, ''config.json'']) r) (\<lambda>_ r.
     tryE (Wrap ''failed to copy init binary'') (copyFile E (vcInitBinary (vrConfig r)) initPath r) (\<lambda>_ r.
     tryE (Wrap ''failed to make init binary executable'') (vcall E (VChmod initPath 0x1ED) r) (\<lambda>_ r.
     tryE (Wrap ''failed to copy initcontainer binary'') (copyFile E (vcInitContainerBinary (vrConfig r)) initContainerPath r) (\<lambda>_ r.
     tryE (Wrap ''failed to make initcontainer binary executable'') (vcall E (VChmod initContainerPath 0x1ED) r) (\<lambda>_ r.
     vcall E (VShell tmpDir (''find . -print0 | cpio --null -ov --format=newc | gzip -9 > '' @ getInitRamFSPath r)) r))))))))"

definition buildInitRamFS :: "('e) vm_env_scheme \<Rightarrow> 'h vm_runtime \<Rightarrow> unit res \<times> 'h vm_runtime" where
  "buildInitRamFS E r = ignoreE (vcall E (VMkdirAll (vworkdir r) 0x1A4) r) (\<lambda>r.
     tryE id (vcall_val E (VMkdirTemp ''baepo-*'') (ve_tmpdir E) r) (\<lambda>tmpDir r.
     deferE (in_tmpdir E tmpDir r) (\<lambda>_ r. snd (vcall E (VRemoveAll tmpDir) r))))"

section \<open>\<^verbatim>\<open>vmm.go\<close>\<close>

definition no_such_file :: "gerror \<Rightarrow> bool" where
  "no_such_file e \<longleftrightarrow> contains (error_string e) ''connect: no such file or directory''"

definition kill_process :: "('e) vm_env_scheme \<Rightarrow> int \<Rightarrow> 'h vm_runtime \<Rightarrow> 'h vm_runtime" where
  "kill_process E pid r = snd (vcall E (VKill pid) r)"

text \<open>\<^verbatim>\<open>GetSerialSocketPath\<close> follows the runtime of its log manager, which may still be nil.\<close>

definition remove_sockets :: "('e) vm_env_scheme \<Rightarrow> 'h vm_runtime \<Rightarrow> unit res \<times> 'h vm_runtime" where
  "remove_sockets E r =
    (let r = snd (vcall E (VRemove (getHypervisorSocketPath r)) r); r = snd (vcall E (VRemove (getInitRamFSPath r)) r) in
     case vrLogManager r of
       None \<Rightarrow> (Panic ''nil pointer dereference'', r)
     | Some m \<Rightarrow> (Ok (), snd (vcall E (VRemove (GetSerialSocketPath m)) r)))"

definition stopHypervisor :: "('e) vm_env_scheme \<Rightarrow> 'h vm_runtime \<Rightarrow> unit res \<times> 'h vm_runtime" where
  "stopHypervisor E r =
    (let stop = (\<lambda>r. remove_sockets E (case vrCmd r of Some (Some pid) \<Rightarrow> kill_process E pid r | _ \<Rightarrow> r)) in
     catchE (vcall E ShutdownVMM r) (\<lambda>_ r. stop r)
       (\<lambda>e r. if \<not> no_such_file e then (Err (Wrap ''failed to shutdown vmm'' e), r) else stop r))"

text \<open>The loop of \<^verbatim>\<open>startHypervisor\<close>; the number counts the retries left.\<close>

fun ping_loop :: "('e) vm_env_scheme \<Rightarrow> nat \<Rightarrow> int \<Rightarrow> 'h vm_runtime \<Rightarrow> unit res \<times> 'h vm_runtime" where
  "ping_loop E left pid r = (case vcall_val E GetVmmPing (ve_status E) r of (answer, r) \<Rightarrow>
     if answer = Ok 200 then (Ok (), r)
     else (case left of
       0 \<Rightarrow> (case answer of Err e \<Rightarrow> Err e | _ \<Rightarrow> Ok (),
             snd (vcall E (VRemove (getHypervisorSocketPath r)) (kill_process E pid r)))
     | Suc left \<Rightarrow> ping_loop E left pid (snd (vcall E VSleep r))))"

declare ping_loop.simps [simp del]

definition start_hypervisor_process :: "('e) vm_env_scheme \<Rightarrow> 'h vm_runtime \<Rightarrow> unit res \<times> 'h vm_runtime" where
  "start_hypervisor_process E r =
    (let r = r\<lparr>vrCmd := Some None\<rparr> in
     tryE (Wrap ''failed to start cloud hypervisor'')
       (vcall_val E (VExecStart (vcCloudHypervisorBinary (vrConfig r)) [''--api-socket'', getHypervisorSocketPath r]) (ve_pid E) r)
       (\<lambda>pid r. ping_loop E 10 pid (r\<lparr>vrCmd := Some (Some pid)\<rparr>)))"

definition startHypervisor :: "('e) vm_env_scheme \<Rightarrow> 'h vm_runtime \<Rightarrow> unit res \<times> 'h vm_runtime" where
  "startHypervisor E r = catchE (vcall E (VStat (getHypervisorSocketPath r)) r)
     (\<lambda>_ r. ignoreE (stopHypervisor E r) (start_hypervisor_process E))
     (\<lambda>_ r. start_hypervisor_process E r)"

definition disk_of :: "runtime_container_config \<Rightarrow> disk_config" where
  "disk_of volume = \<lparr>dkPath = rcVolumePath volume, dkReadonly = False, dkDirect = True, dkNumQueues = 1, dkQueueSize = 128\<rparr>"

text \<open>The memory is computed with 64 bits and then read as signed.\<close>

definition vm_spec_of :: "'h vm_runtime \<Rightarrow> 'h runtime_log_manager \<Rightarrow> vm_spec" where
  "vm_spec_of r m = (let c = vcRuntime (vrConfig r) in
    \<lparr>vsBootVcpus = uint (rtCpus c), vsMaxVcpus = uint (rtCpus c),
     vsMemorySize = sint (rtMemoryMB c * 1024 * 1024),
     vsDisks = map disk_of (rtContainers c),
     vsNet = [\<lparr>ncTap = rnInterfaceName (rtNetwork c), ncMac = rnMacAddress (rtNetwork c), ncNumQueues = 2, ncQueueSize = 256\<rparr>],
     vsVsockCid = 3, vsVsockSocket = getInitDaemonSocketPath r,
     vsConsole = ConsoleConfigModeNull, vsSerial = ConsoleConfigModeSocket, vsSerialSocket = GetSerialSocketPath m,
     vsKernel = vcVMLinux (vrConfig r), vsInitramfs = getInitRamFSPath r,
     vsCmdline = ''console=ttyS0 console=hvc0 root=/dev/vda rw rdinit=/init'', vsRngSrc = ''/dev/urandom''\<rparr>)"

text \<open>The status of the answer is not looked at.\<close>

definition createVM :: "('e) vm_env_scheme \<Rightarrow> 'h vm_runtime \<Rightarrow> unit res \<times> 'h vm_runtime" where
  "createVM E r = (case vrLogManager r of
      None \<Rightarrow> (Panic ''nil pointer dereference'', r)
    | Some m \<Rightarrow> tryE (\<lambda>e. Errorf (''failed to create vm: '' @ error_string e)) (vcall E (CreateVM (vm_spec_of r m)) r)
        (\<lambda>_ r. (Ok (), r)))"

definition bootVM :: "('e) vm_env_scheme \<Rightarrow> 'h vm_runtime \<Rightarrow> unit res \<times> 'h vm_runtime" where
  "bootVM E r = tryE (Wrap ''failed to boot vm'') (vcall_val E BootVM (\<lambda>t. (ve_status E t, ve_body E t)) r) (\<lambda>(statusCode, body) r.
     if statusCode \<noteq> 204 then (Err (Errorf (''failed to boot vm (status code '' @ dec statusCode @ ''): '' @ body)), r)
     else (case vrLogManager r of
         None \<Rightarrow> (Panic ''nil pointer dereference'', r)
       | Some _ \<Rightarrow> (Ok (), r\<lparr>vrListening := True\<rparr>)))"

definition terminateVM :: "('e) vm_env_scheme \<Rightarrow> 'h vm_runtime \<Rightarrow> unit res \<times> 'h vm_runtime" where
  "terminateVM E r = tryE (Wrap ''failed to send shutdown signal to VM'') (vcall E ShutdownVM r) (\<lambda>_ r.
     catchE (vcall E DeleteVM r) (\<lambda>_ r. (Ok (), r))
       (\<lambda>e r. if \<not> no_such_file e then (Err (Wrap ''failed to delete vm'' e), r) else (Ok (), r)))"

section \<open>Starting and stopping\<close>

definition startGrpcServer :: "('e) vm_env_scheme \<Rightarrow> 'h vm_runtime \<Rightarrow> unit res \<times> 'h vm_runtime" where
  "startGrpcServer E r = (let unixSocket = path_join [vworkdir r, ''runtime.sock''] in
     ignoreE (vcall E (VRemove unixSocket) r) (\<lambda>r.
     tryE (Wrap ''failed to setup unix socket'') (vcall E (VListen unixSocket) r) (\<lambda>_ r. (Ok (), r\<lparr>vrHttpServer := True\<rparr>))))"

text \<open>\<open>disk\<close> is the log file as it is before the first entry is written.\<close>

definition VmRuntime_Start :: "('e) vm_env_scheme \<Rightarrow> log_file \<Rightarrow> 'h vm_runtime \<Rightarrow> unit res \<times> 'h vm_runtime" where
  "VmRuntime_Start E disk r = tryE id (startGrpcServer E r) (\<lambda>_ r.
     let r = r\<lparr>vrLogManager := Some (newLogManager (vworkdir r) disk)\<rparr> in
     tryE id (buildInitRamFS E r) (\<lambda>_ r. tryE id (startHypervisor E r) (\<lambda>_ r.
     tryE id (createVM E r) (\<lambda>_ r. tryE id (bootVM E r) (\<lambda>_ r. vcall E VWait r)))))"

definition ForceStop :: "('e) vm_env_scheme \<Rightarrow> log_io \<Rightarrow> 'h vm_runtime \<Rightarrow> unit res \<times> 'h vm_runtime" where
  "ForceStop E io r = tryE (Wrap ''failed to stop hypervisor'') (stopHypervisor E r) (\<lambda>_ r.
     (Ok (), r\<lparr>vrLogManager := map_option (Stop_logs io) (vrLogManager r)\<rparr>))"

definition VmRuntime_Stop :: "('e) vm_env_scheme \<Rightarrow> log_io \<Rightarrow> 'h vm_runtime \<Rightarrow> unit res \<times> 'h vm_runtime" where
  "VmRuntime_Stop E io r = (let r = (if vrHttpServer r then snd (vcall E VHttpShutdown r) else r) in
     tryE (Wrap ''failed to terminate vm'') (terminateVM E r) (\<lambda>_ r. ForceStop E io r))"

text \<open>
  \<^verbatim>\<open>main.go\<close>.  \<open>file\<close> is the outcome of opening and decoding the configuration file, where \<^verbatim>\<open>null\<close> is
  decoded as a nil pointer.
\<close>

definition getRuntimeConfig :: "string list \<Rightarrow> gerror option \<Rightarrow> runtime_config option res \<Rightarrow> runtime_config option res" where
  "getRuntimeConfig args open_err file = (case args of
      _ # filePath # _ \<Rightarrow> (case open_err of
          Some e \<Rightarrow> Err (Wrap (''failed to open file '' @ filePath) e)
        | None \<Rightarrow> (case file of Err e \<Rightarrow> Err (Wrap ''failed to decode config file'' e) | r \<Rightarrow> r))
    | _ \<Rightarrow> Panic ''index out of range'')"

definition vm_config_of :: "runtime_config \<Rightarrow> (string \<Rightarrow> string) \<Rightarrow> vm_config" where
  "vm_config_of config getenv = \<lparr>vcRuntime = config, vcInitBinary = getenv ''VMRUNTIME_INIT_BINARY'',
     vcInitContainerBinary = getenv ''VMRUNTIME_INIT_CONTAINER_BINARY'',
     vcCloudHypervisorBinary = getenv ''VMRUNTIME_CLOUD_HYPERVISOR_BINARY'',
     vcVMLinux = getenv ''VMRUNTIME_VM_LINUX'', vcDebug = (getenv ''DEBUG'' = ''true'')\<rparr>"

text \<open>What ends the process: the end of \<^verbatim>\<open>Start\<close> or a signal.  The result is the exit code; 2 is a panic.\<close>

datatype main_event = StartEnded "unit res" | SIGTERM | SIGINT | SIGKILL

definition vm_main :: "('e) vm_env_scheme \<Rightarrow> log_io \<Rightarrow> main_event \<Rightarrow> 'h vm_runtime \<Rightarrow> nat \<times> 'h vm_runtime" where
  "vm_main E io ev r = (case ev of
      StartEnded res \<Rightarrow> (if is_ok res then 0 else 1, r)
    | SIGKILL \<Rightarrow> (case ForceStop E io r of (Panic _, r) \<Rightarrow> (2, r) | (_, r) \<Rightarrow> (1, r))
    | _ \<Rightarrow> (case VmRuntime_Stop E io r of (Ok _, r) \<Rightarrow> (0, r) | (Err _, r) \<Rightarrow> (1, r) | (Panic _, r) \<Rightarrow> (2, r)))"

section \<open>\<^verbatim>\<open>grpc_handler.go\<close>\<close>

definition RuntimeGetState :: "('e) vm_env_scheme \<Rightarrow> int \<Rightarrow> 'h vm_runtime \<Rightarrow> (int \<times> bool) \<times> 'h vm_runtime" where
  "RuntimeGetState E pid r = (case vcall_val E GetVmInfo (ve_state E) r of (res, r) \<Rightarrow>
     ((pid, res = Ok (Some ''Running'')), r))"

definition machine_message :: "log_entry \<Rightarrow> runtime_log option" where
  "machine_message entry = (if leSource entry \<noteq> MachineLogEntrySource then None
     else Some \<lparr>rlgContainerID = [], rlgError = False, rlgContent = leMessage entry, rlgTimestamp = leTimestamp entry\<rparr>)"

definition container_message :: "string \<Rightarrow> log_entry \<Rightarrow> runtime_log option" where
  "container_message containerId entry = (case leContainerID entry of
      None \<Rightarrow> None
    | Some i \<Rightarrow> if leSource entry \<noteq> ContainerLogEntrySource \<or> i \<noteq> containerId then None
        else Some \<lparr>rlgContainerID = i, rlgError = leStderr entry, rlgContent = leMessage entry, rlgTimestamp = leTimestamp entry\<rparr>)"

text \<open>
  \<^verbatim>\<open>GetLogs\<close> and \<^verbatim>\<open>GetContainerLogs\<close> differ in the messages only: the entries of the file, then those
  that the handler gets until the client's context ends (\<open>live\<close>).  The server's log manager is nil
  until \<^verbatim>\<open>Start\<close> has made it.
\<close>

definition stream_logs :: "(log_entry \<Rightarrow> runtime_log option) \<Rightarrow> (nat \<Rightarrow> gerror option) \<Rightarrow> gerror option \<Rightarrow> nat \<Rightarrow> bool \<Rightarrow>
    log_entry list \<Rightarrow> 'h vm_runtime \<Rightarrow> unit res \<times> runtime_log list" where
  "stream_logs msg send open_err turns follow live r = (case vrLogManager r of
      None \<Rightarrow> (Panic ''nil pointer dereference'', [])
    | Some m \<Rightarrow> (case Runtime_ReadLogs open_err turns m of
        Ok initialLogs \<Rightarrow> (case send_all send (List.map_filter msg initialLogs) [] of
            (Some e, sent) \<Rightarrow> (Err e, sent)
          | (None, sent) \<Rightarrow> if \<not> follow then (Ok (), sent)
              else (case send_all send (List.map_filter msg live) sent of
                  (Some e, sent) \<Rightarrow> (Err e, sent)
                | (None, sent) \<Rightarrow> (Ok (), sent)))
      | Err e \<Rightarrow> (Err e, [])
      | Panic p \<Rightarrow> (Panic p, [])))"

definition Handler_GetLogs :: "(nat \<Rightarrow> gerror option) \<Rightarrow> gerror option \<Rightarrow> nat \<Rightarrow> bool \<Rightarrow>
    log_entry list \<Rightarrow> 'h vm_runtime \<Rightarrow> unit res \<times> runtime_log list" where
  "Handler_GetLogs = stream_logs machine_message"

definition Handler_GetContainerLogs :: "string \<Rightarrow> (nat \<Rightarrow> gerror option) \<Rightarrow> gerror option \<Rightarrow> nat \<Rightarrow> bool \<Rightarrow>
    log_entry list \<Rightarrow> 'h vm_runtime \<Rightarrow> unit res \<times> runtime_log list" where
  "Handler_GetContainerLogs containerId = stream_logs (container_message containerId)"

fun mapInitEvent :: "init_events_response \<Rightarrow> runtime_events_response option" where
  "mapInitEvent baseEvent = (case ierEvent baseEvent of
      InitEvent_ContainerStateChanged event \<Rightarrow> Some
        \<lparr>rerEventId = ierEventId baseEvent, rerTimestamp = ierTimestamp baseEvent,
         rerEvent = RuntimeEvent_ContainerStateChanged
           \<lparr>pceContainerId = pceContainerId event, pceState = pceState event, pceStartedAt = pceStartedAt event,
            pceExitedAt = pceExitedAt event, pceExitCode = pceExitCode event, pceExitError = pceExitError event,
            pceHealthy = pceHealthy event, pceHealthcheckError = pceHealthcheckError event,
            pceRestartCount = pceRestartCount event\<rparr>\<rparr>
    | InitEvent_Ping \<Rightarrow> Some
        \<lparr>rerEventId = ierEventId baseEvent, rerTimestamp = ierTimestamp baseEvent, rerEvent = RuntimeEvent_Ping\<rparr>
    | InitEvent_Unset \<Rightarrow> None)"

text \<open>
  The turns of the loop of \<^verbatim>\<open>Events\<close>: the context's error if it is over, else what \<^verbatim>\<open>Receive\<close> gives, where
  \<open>None\<close> is the end of the stream or its failure.  Without a result the loop runs on.
\<close>

datatype events_turn = ContextOver gerror | Received "init_events_response option"

fun events_loop :: "(nat \<Rightarrow> gerror option) \<Rightarrow> events_turn list \<Rightarrow> runtime_events_response list \<Rightarrow>
    gerror option \<times> runtime_events_response list" where
  "events_loop send [] sent = (None, sent)"
| "events_loop send (ContextOver e # turns) sent = (Some e, sent)"
| "events_loop send (Received None # turns) sent = events_loop send turns sent"
| "events_loop send (Received (Some msg) # turns) sent = (case mapInitEvent msg of
      None \<Rightarrow> events_loop send turns sent
    | Some ev \<Rightarrow> (case send (length sent) of
        Some e \<Rightarrow> (Some e, sent)
      | None \<Rightarrow> events_loop send turns (sent @ [ev])))"

definition Handler_Events :: "gerror option \<Rightarrow> (nat \<Rightarrow> gerror option) \<Rightarrow> events_turn list \<Rightarrow>
    gerror option \<times> runtime_events_response list" where
  "Handler_Events connect_err send turns = (case connect_err of Some e \<Rightarrow> (Some e, []) | None \<Rightarrow> events_loop send turns [])"

section \<open>The guest's disks\<close>

text \<open>A stage that only adds calls, none of which satisfies \<open>P\<close>, and keeps configuration and log manager.\<close>

definition adds :: "(vm_call \<Rightarrow> bool) \<Rightarrow> 'h vm_runtime \<Rightarrow> 'h vm_runtime \<Rightarrow> bool" where
  "adds P r r' \<longleftrightarrow> vrConfig r' = vrConfig r \<and> vrLogManager r' = vrLogManager r \<and>
     (\<exists>cs. vrTrace r' = vrTrace r @ cs \<and> (\<forall>c \<in> set cs. \<not> P c))"

lemma adds_refl [simp]: "adds P r r"
  by (simp add: adds_def)

lemma adds_trans: "adds P r r' \<Longrightarrow> adds P r' r'' \<Longrightarrow> adds P r r''"
  unfolding adds_def by fastforce

lemma adds_upd [simp]:
  "adds P r (r'\<lparr>vrCmd := a\<rparr>) = adds P r r'" "adds P r (r'\<lparr>vrHttpServer := b\<rparr>) = adds P r r'"
  "adds P r (r'\<lparr>vrListening := b\<rparr>) = adds P r r'"
  by (simp_all add: adds_def)

lemma adds_call: "\<not> P c \<Longrightarrow> adds P r r' \<Longrightarrow> adds P r (r'\<lparr>vrTrace := vrTrace r' @ [c]\<rparr>)"
  by (auto simp: adds_def)

lemma keeps_vcall [keeps_intros]: "\<not> P c \<Longrightarrow> adds P r0 r \<Longrightarrow> keeps (adds P r0) (vcall E c r)"
  by (simp add: keeps_def vcall_def adds_call)

lemma keeps_vcall_val [keeps_intros]: "\<not> P c \<Longrightarrow> adds P r0 r \<Longrightarrow> keeps (adds P r0) (vcall_val E c v r)"
  by (simp add: keeps_def vcall_val_def adds_call)

lemma adds_vcall: "\<not> P c \<Longrightarrow> adds P r0 r \<Longrightarrow> adds P r0 (snd (vcall E c r))"
  by (simp add: vcall_def adds_call)

definition is_create :: "vm_call \<Rightarrow> bool" where
  "is_create c \<longleftrightarrow> (case c of CreateVM _ \<Rightarrow> True | _ \<Rightarrow> False)"

lemma is_create_simps [simp]:
  "is_create (CreateVM sp)" "\<not> is_create (VListen a)" "\<not> is_create (VRemove a)" "\<not> is_create (VMkdirAll a n)"
  "\<not> is_create (VMkdirTemp a)" "\<not> is_create (VRemoveAll a)" "\<not> is_create (VCreateFile a)"
  "\<not> is_create (VEncodeConfig a cfg)" "\<not> is_create (VOpen a)" "\<not> is_create (VCopy a b)" "\<not> is_create (VChmod a n)"
  "\<not> is_create (VShell a b)" "\<not> is_create (VStat a)" "\<not> is_create (VExecStart a as)" "\<not> is_create VWait"
  "\<not> is_create (VKill pid)" "\<not> is_create VSleep" "\<not> is_create GetVmmPing" "\<not> is_create BootVM" "\<not> is_create ShutdownVMM"
  by (simp_all add: is_create_def)

abbreviation quiet :: "'h vm_runtime \<Rightarrow> 'h vm_runtime \<Rightarrow> bool" where
  "quiet \<equiv> adds is_create"

lemma copyFile_keeps [keeps_intros]: "quiet r0 r \<Longrightarrow> keeps (quiet r0) (copyFile E a b r)"
  unfolding copyFile_def by (intro keeps_intros) simp_all

lemma in_tmpdir_keeps [keeps_intros]: "quiet r0 r \<Longrightarrow> keeps (quiet r0) (in_tmpdir E d r)"
  unfolding in_tmpdir_def Let_def by (intro keeps_intros) simp_all

lemma buildInitRamFS_keeps [keeps_intros]: "quiet r0 r \<Longrightarrow> keeps (quiet r0) (buildInitRamFS E r)"
  unfolding buildInitRamFS_def by (intro keeps_intros adds_vcall) simp_all

lemma remove_sockets_keeps [keeps_intros]: "quiet r0 r \<Longrightarrow> keeps (quiet r0) (remove_sockets E r)"
  unfolding remove_sockets_def Let_def by (auto split: option.split intro!: adds_vcall)

lemma stopHypervisor_keeps [keeps_intros]: "quiet r0 r \<Longrightarrow> keeps (quiet r0) (stopHypervisor E r)"
  unfolding stopHypervisor_def Let_def kill_process_def
  by (intro keeps_intros) (auto split: option.split intro!: remove_sockets_keeps adds_vcall)

lemma ping_loop_keeps [keeps_intros]: "quiet r0 r \<Longrightarrow> keeps (quiet r0) (ping_loop E left pid r)"
proof (induction left arbitrary: r)
  case 0
  then show ?case by (auto simp: ping_loop.simps [of E 0] kill_process_def vcall_val_def split: prod.split intro!: adds_vcall adds_call)
next
  case (Suc n)
  then show ?case by (auto simp: ping_loop.simps [of E "Suc n"] vcall_val_def split: prod.split intro!: adds_vcall adds_call Suc.IH)
qed

lemma start_hypervisor_process_keeps [keeps_intros]: "quiet r0 r \<Longrightarrow> keeps (quiet r0) (start_hypervisor_process E r)"
  unfolding start_hypervisor_process_def Let_def by (intro keeps_intros) simp_all

lemma startHypervisor_keeps [keeps_intros]: "quiet r0 r \<Longrightarrow> keeps (quiet r0) (startHypervisor E r)"
  unfolding startHypervisor_def by (intro keeps_intros) simp_all

lemma bootVM_keeps [keeps_intros]: "quiet r0 r \<Longrightarrow> keeps (quiet r0) (bootVM E r)"
  unfolding bootVM_def by (intro keeps_intros) (auto split: option.split prod.split)

text \<open>A successful build has encoded the configuration, copied it and packed the directory.\<close>

lemma vcall_Ok: "(vcall E c r = (Ok u, r')) = (env_err E (vrTrace r) c = None \<and> r' = r\<lparr>vrTrace := vrTrace r @ [c]\<rparr>)"
  by (auto simp: vcall_def ext_def split: option.splits)

lemma vcall_val_Ok: "(vcall_val E c v r = (Ok x, r')) =
    (env_err E (vrTrace r) c = None \<and> x = v (vrTrace r) \<and> r' = r\<lparr>vrTrace := vrTrace r @ [c]\<rparr>)"
  by (auto simp: vcall_val_def ext_val_def split: option.splits)

lemma tryE_Ok: "(tryE w m k = (Ok y, s')) = (\<exists>x s. m = (Ok x, s) \<and> k x s = (Ok y, s'))"
  by (cases m; cases "fst m") auto

lemma ignoreE_Ok: "(ignoreE m k = (Ok y, s')) = ((\<forall>p. fst m \<noteq> Panic p) \<and> k (snd m) = (Ok y, s'))"
  by (cases m; cases "fst m") auto

lemma deferE_Ok: "(deferE m f = (Ok y, s')) = (\<exists>s. m = (Ok y, s) \<and> s' = f (Ok y) s)"
  by (cases m) auto

lemma vcall_state: "snd (vcall E c r) = r\<lparr>vrTrace := vrTrace r @ [c]\<rparr>"
  by (simp add: vcall_def)

text \<open>A stage that has not reached \<open>P\<close> was passed.\<close>

lemma tryE_until:
  assumes "tryE w m k = (res, r)" "P r" "\<not> P (snd m)"
  obtains x s where "m = (Ok x, s)" "k x s = (res, r)"
  using assms by (cases m; cases "fst m") auto

definition packed :: "'h vm_runtime \<Rightarrow> vm_call list \<Rightarrow> bool" where
  "packed r cs \<longleftrightarrow> (\<exists>d. VEncodeConfig (getInitConfigPath r) (init_config_of (vcRuntime (vrConfig r))) \<in> set cs \<and>
     VCopy (getInitConfigPath r) (path_join [d, ''config.json'']) \<in> set cs \<and>
     VShell d (''find . -print0 | cpio --null -ov --format=newc | gzip -9 > '' @ getInitRamFSPath r) \<in> set cs)"

lemma paths_of_trace [simp]: "getInitConfigPath (r\<lparr>vrTrace := t\<rparr>) = getInitConfigPath r"
    "getInitRamFSPath (r\<lparr>vrTrace := t\<rparr>) = getInitRamFSPath r"
  by (simp_all add: getInitConfigPath_def getInitRamFSPath_def vworkdir_def)

lemma in_tmpdir_packed: "in_tmpdir E d r = (Ok u, r') \<Longrightarrow> packed r (vrTrace r')"
  by (auto simp: in_tmpdir_def Let_def copyFile_def tryE_Ok vcall_Ok packed_def)

lemma buildInitRamFS_packed: "buildInitRamFS E r = (Ok u, r') \<Longrightarrow> packed r (vrTrace r')"
proof -
  assume "buildInitRamFS E r = (Ok u, r')"
  then obtain d t r2 where "in_tmpdir E d (r\<lparr>vrTrace := t\<rparr>) = (Ok u, r2)" "r' = snd (vcall E (VRemoveAll d) r2)"
    by (auto simp: buildInitRamFS_def ignoreE_Ok vcall_state tryE_Ok vcall_val_Ok deferE_Ok)
  with in_tmpdir_packed show ?thesis by (fastforce simp: packed_def vcall_def)
qed

text \<open>The letters of the devices.\<close>

lemma distinct_alphabet: "distinct alphabet"
  by (simp add: alphabet_def)

lemma length_alphabet [simp]: "length alphabet = 26"
  by (simp add: alphabet_def)

definition device :: "nat \<Rightarrow> string" where
  "device i = ''/dev/vd'' @ [alphabet ! (i mod 26)]"

lemma device_eq: "device i = device j \<longleftrightarrow> i mod 26 = j mod 26"
  by (simp add: device_def nth_eq_iff_index_eq [OF distinct_alphabet])

lemma init_containers_of: "length (iniContainers (init_config_of c)) = length (rtContainers c)"
    "map icContainerID (iniContainers (init_config_of c)) = map rcContainerID (rtContainers c)"
    "map icVolume (iniContainers (init_config_of c)) = map device [0..<length (rtContainers c)]"
  by (auto simp: init_config_of_def init_container_def device_def intro!: nth_equalityI)

lemma distinct_devices: "distinct (map device [0..<n]) \<longleftrightarrow> n \<le> 26"
proof
  assume d: "distinct (map device [0..<n])"
  show "n \<le> 26"
  proof (rule ccontr)
    assume "\<not> n \<le> 26"
    with d have "map device [0..<n] ! 0 \<noteq> map device [0..<n] ! 26" by (subst nth_eq_iff_index_eq) simp_all
    with \<open>\<not> n \<le> 26\<close> show False by (simp add: device_eq)
  qed
next
  assume "n \<le> 26"
  then show "distinct (map device [0..<n])" by (auto simp: distinct_map inj_on_def device_eq)
qed

text \<open>What was done when the description of the machine is sent, and what can follow.\<close>

lemma ping_loop_cmd: "vrCmd (snd (ping_loop E left pid r)) = vrCmd r"
proof (induction left arbitrary: r)
  case 0
  then show ?case by (simp add: ping_loop.simps [of E 0] vcall_val_def vcall_def kill_process_def split: prod.split)
next
  case (Suc n)
  then show ?case by (simp add: ping_loop.simps [of E "Suc n"] vcall_val_def vcall_def split: prod.split)
qed

lemma start_hypervisor_process_cmd: "start_hypervisor_process E r = (Ok u, r') \<Longrightarrow> \<exists>pid. vrCmd r' = Some (Some pid)"
proof -
  assume "start_hypervisor_process E r = (Ok u, r')"
  then obtain pid r1 where p: "ping_loop E 10 pid (r1\<lparr>vrCmd := Some (Some pid)\<rparr>) = (Ok u, r')"
    unfolding start_hypervisor_process_def Let_def tryE_Ok by blast
  show ?thesis using ping_loop_cmd [of E 10 pid "r1\<lparr>vrCmd := Some (Some pid)\<rparr>"] unfolding p by simp
qed

lemma startHypervisor_cmd: "startHypervisor E r = (Ok u, r') \<Longrightarrow> \<exists>pid. vrCmd r' = Some (Some pid)"
  unfolding startHypervisor_def by (auto simp: catchE_def ignoreE_Ok split: prod.splits res.splits dest: start_hypervisor_process_cmd)

lemma create_boot_calls:
  assumes "tryE id (createVM E r) (\<lambda>_ r. tryE id (bootVM E r) (\<lambda>_ r. vcall E VWait r)) = (res, r')" "vrLogManager r = Some m"
  shows "\<exists>after. vrTrace r' = vrTrace r @ CreateVM (vm_spec_of r m) # after \<and> after \<in> {[], [BootVM], [BootVM, VWait]} \<and>
    vrCmd r' = vrCmd r \<and> vrConfig r' = vrConfig r"
  using assms by (auto simp: createVM_def bootVM_def vcall_def vcall_val_def tryE_def catchE_def split: res.splits if_splits prod.splits)

lemma start_reaches_create:
  fixes r :: "'h vm_runtime"
  assumes "VmRuntime_Start E disk (VmRuntime_New config) = (res, r)" and "CreateVM sp \<in> set (vrTrace r)"
  obtains r1 rc :: "'h vm_runtime" and m :: "'h runtime_log_manager" and after pid where "vrConfig r1 = config" "packed r1 (vrTrace rc)" "vrConfig rc = config" "sp = vm_spec_of rc m"
    "vrTrace r = vrTrace rc @ CreateVM sp # after" "after \<in> {[], [BootVM], [BootVM, VWait]}" "vrConfig r = config" "vrCmd r = Some (Some pid)"
    "CreateVM sp \<notin> set (vrTrace rc)"
proof -
  let ?P = "\<lambda>r. CreateVM sp \<in> set (vrTrace r)"
  have no: "\<not> ?P r'" if "quiet r1 r'" "\<not> ?P r1" for r1 r' :: "'h vm_runtime"
    using that by (fastforce simp: adds_def)
  have r0: "\<not> ?P (VmRuntime_New config :: 'h vm_runtime)" by (simp add: VmRuntime_New_def)
  have grpc: "keeps (quiet (VmRuntime_New config :: 'h vm_runtime)) (startGrpcServer E (VmRuntime_New config))"
    unfolding startGrpcServer_def Let_def by (intro keeps_intros) simp_all
  note start = assms(1) [unfolded VmRuntime_Start_def Let_def]
  obtain ra where ra: "startGrpcServer E (VmRuntime_New config) = (Ok (), ra)"
    and s1: "tryE id (buildInitRamFS E (ra\<lparr>vrLogManager := Some (newLogManager (vworkdir ra) disk)\<rparr>)) (\<lambda>_ r. tryE id (startHypervisor E r) (\<lambda>_ r.
       tryE id (createVM E r) (\<lambda>_ r. tryE id (bootVM E r) (\<lambda>_ r. vcall E VWait r)))) = (res, r)"
    by (rule tryE_until [where P = ?P, OF start assms(2)]) (use no [OF grpc [unfolded keeps_def] r0] in auto)
  let ?r1 = "ra\<lparr>vrLogManager := Some (newLogManager (vworkdir ra) disk)\<rparr>"
  have qa: "quiet (VmRuntime_New config) ra" using grpc unfolding ra by (simp only: keeps_pair)
  have r1: "\<not> ?P ?r1" using no [OF qa r0] by simp
  have k1: "keeps (quiet ?r1) (buildInitRamFS E ?r1)" by (intro keeps_intros) simp
  obtain rb where rb: "buildInitRamFS E ?r1 = (Ok (), rb)"
    and s2: "tryE id (startHypervisor E rb) (\<lambda>_ r. tryE id (createVM E r) (\<lambda>_ r. tryE id (bootVM E r) (\<lambda>_ r. vcall E VWait r))) = (res, r)"
    by (rule tryE_until [where P = ?P, OF s1 assms(2)]) (use no [OF k1 [unfolded keeps_def] r1(1)] in auto)
  have qb: "quiet ?r1 rb" using k1 unfolding rb by simp
  have k2: "keeps (quiet rb) (startHypervisor E rb)" by (intro keeps_intros) simp
  obtain rc where rc: "startHypervisor E rb = (Ok (), rc)"
    and s3: "tryE id (createVM E rc) (\<lambda>_ r. tryE id (bootVM E r) (\<lambda>_ r. vcall E VWait r)) = (res, r)"
    by (rule tryE_until [where P = ?P, OF s2 assms(2)]) (use no [OF k2 [unfolded keeps_def] no [OF qb r1(1)]] in auto)
  have qc: "quiet rb rc" using k2 unfolding rc by simp
  have cfg: "vrConfig rc = config" "vrConfig ?r1 = config"
    using qa qb qc by (simp_all add: adds_def VmRuntime_New_def)
  have "vrLogManager rc \<noteq> None" using qb qc by (simp add: adds_def)
  then obtain m where m: "vrLogManager rc = Some m" by blast
  obtain pid where pid: "vrCmd rc = Some (Some pid)" using startHypervisor_cmd [OF rc] by blast
  obtain after where after: "vrTrace r = vrTrace rc @ CreateVM (vm_spec_of rc m) # after" "after \<in> {[], [BootVM], [BootVM, VWait]}"
      "vrCmd r = vrCmd rc" "vrConfig r = config"
    using create_boot_calls [OF s3 m] cfg(1) by auto
  have sp: "sp = vm_spec_of rc m"
    using assms(2) after(1,2) no [OF qc no [OF qb r1]] by auto
  have "packed ?r1 (vrTrace rc)"
    using buildInitRamFS_packed [OF rb] qc by (fastforce simp: packed_def adds_def)
  from that [OF cfg(2) this cfg(1) sp after(1,2,4)[folded sp]] after(3) pid no [OF qc no [OF qb r1]] show thesis by simp
qed

text \<open>
  C16: a virtual machine is created with the volumes of its containers as its disks, in their
  order, after a configuration that names for each container the device of the same position was
  packed into its initial file system; no two containers are given the same device exactly if
  there are at most 26 of them.
\<close>

theorem guest_disks_match:
  fixes r :: "'h vm_runtime"
  assumes "VmRuntime_Start E disk (VmRuntime_New config) = (res, r)" and "CreateVM sp \<in> set (vrTrace r)"
  shows "\<exists>before after cfg d. vrTrace r = before @ CreateVM sp # after \<and>
    VEncodeConfig (getInitConfigPath r) cfg \<in> set before \<and> VCopy (getInitConfigPath r) (path_join [d, ''config.json'']) \<in> set before \<and>
    VShell d (''find . -print0 | cpio --null -ov --format=newc | gzip -9 > '' @ vsInitramfs sp) \<in> set before \<and>
    map dkPath (vsDisks sp) = map rcVolumePath (rtContainers (vcRuntime config)) \<and>
    map icContainerID (iniContainers cfg) = map rcContainerID (rtContainers (vcRuntime config)) \<and>
    map icVolume (iniContainers cfg) = map (\<lambda>i. ''/dev/vd'' @ [alphabet ! (i mod 26)]) [0..<length (rtContainers (vcRuntime config))] \<and>
    (distinct (map icVolume (iniContainers cfg)) \<longleftrightarrow> length (rtContainers (vcRuntime config)) \<le> 26)"
proof -
  let ?c = "vcRuntime config"
  obtain r1 rc :: "'h vm_runtime" and m :: "'h runtime_log_manager" and after pid where o: "vrConfig r1 = config" "packed r1 (vrTrace rc)" "vrConfig rc = config" "sp = vm_spec_of rc m"
      "vrTrace r = vrTrace rc @ CreateVM sp # after" "vrConfig r = config"
    by (rule start_reaches_create [OF assms])
  have paths: "getInitConfigPath r' = path_join [rtWorkingDir ?c, ''initconfig.json'']"
      "getInitRamFSPath r' = path_join [rtWorkingDir ?c, ''initramfs.gz'']" if "vrConfig r' = config" for r' :: "'h vm_runtime"
    using that by (simp_all add: getInitConfigPath_def getInitRamFSPath_def vworkdir_def)
  from o show ?thesis
    using init_containers_of [of ?c] distinct_devices [of "length (rtContainers ?c)"]
    by (intro exI [of _ "vrTrace rc"] exI [of _ after] exI [of _ "init_config_of ?c"])
      (auto simp: packed_def paths vm_spec_of_def Let_def disk_of_def device_def [abs_def])
qed

text \<open>The witness: a machine with two containers.\<close>

definition good_vm_env :: vm_env where
  "good_vm_env = \<lparr>env_err = \<lambda>_ c. case c of VStat _ \<Rightarrow> Some (External ''no such file or directory'') | _ \<Rightarrow> None, env_now = length, env_id = \<lambda>_. [],
     ve_status = \<lambda>t. if t \<noteq> [] \<and> (case last t of CreateVM _ \<Rightarrow> True | _ \<Rightarrow> False) then 204 else 200, ve_body = \<lambda>_. [], ve_state = \<lambda>_. Some ''Running'', ve_pid = \<lambda>_. 41,
     ve_tmpdir = \<lambda>_. ''/tmp/baepo-1''\<rparr>"

definition plain_container :: "string \<Rightarrow> runtime_container_config" where
  "plain_container i = \<lparr>rcContainerID = i, rcSpec = \<lparr>csName = None, csImage = ''nginx'', csEnv = None, csCommand = None, csUser = None,
     csHealthcheck = None, csWorkingDir = None, csRestart = None\<rparr>, rcVolumePath = ''/dev/vg/'' @ i\<rparr>"

definition two_containers :: vm_config where
  "two_containers = \<lparr>vcRuntime = \<lparr>rtWorkingDir = ''/w'', rtMachineID = ''m1'', rtCpus = 1, rtMemoryMB = 256,
     rtNetwork = \<lparr>rnInterfaceName = ''tap2'', rnIPAddress = [192, 168, 100, 2], rnMacAddress = ''02:00:00:00:00:02'',
       rnGatewayAddress = [192, 168, 100, 1], rnNetworkCIDR = \<lparr>netIP = [192, 168, 100, 0], netMask = [255, 255, 255, 0]\<rparr>, rnHostname = ''m1''\<rparr>,
     rtContainers = [plain_container ''c1'', plain_container ''c2'']\<rparr>,
     vcInitBinary = ''/init'', vcInitContainerBinary = ''/initcontainer'', vcCloudHypervisorBinary = ''/ch'', vcVMLinux = ''/vmlinux'', vcDebug = False\<rparr>"

lemmas good_start = VmRuntime_Start_def VmRuntime_New_def startGrpcServer_def Let_def vcall_def vcall_val_def ext_def
  ext_val_def good_vm_env_def buildInitRamFS_def in_tmpdir_def copyFile_def startHypervisor_def start_hypervisor_process_def
  ping_loop.simps createVM_def bootVM_def

theorem guest_disks_match_witness:
  "\<exists>sp before after cfg d. vrTrace (snd (VmRuntime_Start good_vm_env [] (VmRuntime_New two_containers :: nat vm_runtime))) = before @ CreateVM sp # after \<and>
     VEncodeConfig ''/w/initconfig.json'' cfg \<in> set before \<and>
     VShell d (''find . -print0 | cpio --null -ov --format=newc | gzip -9 > '' @ vsInitramfs sp) \<in> set before \<and>
     map dkPath (vsDisks sp) = [''/dev/vg/c1'', ''/dev/vg/c2''] \<and>
     map icVolume (iniContainers cfg) = [''/dev/vda'', ''/dev/vdb''] \<and> distinct (map icVolume (iniContainers cfg))"
proof -
  obtain res r where s: "VmRuntime_Start good_vm_env [] (VmRuntime_New two_containers :: nat vm_runtime) = (res, r)" by fastforce
  then have "\<exists>sp. CreateVM sp \<in> set (vrTrace r)"
    by (auto simp: good_start)
  then obtain sp where sp: "CreateVM sp \<in> set (vrTrace r)" by blast
  have cs: "rtContainers (vcRuntime two_containers) = [plain_container ''c1'', plain_container ''c2'']"
    by (simp add: two_containers_def)
  have devices: "map (\<lambda>i. ''/dev/vd'' @ [alphabet ! (i mod 26)]) [0..<2] = [''/dev/vda'', ''/dev/vdb'']"
    by (simp add: upt_conv_Cons alphabet_def)
  have volumes: "map rcVolumePath [plain_container ''c1'', plain_container ''c2''] = [''/dev/vg/c1'', ''/dev/vg/c2'']"
    by (simp add: plain_container_def)
  have n: "length [plain_container ''c1'', plain_container ''c2''] = 2" by simp
  from guest_disks_match [OF s sp] obtain before after cfg d where w: "vrTrace r = before @ CreateVM sp # after"
      "VEncodeConfig (getInitConfigPath r) cfg \<in> set before"
      "VShell d (''find . -print0 | cpio --null -ov --format=newc | gzip -9 > '' @ vsInitramfs sp) \<in> set before"
      "map dkPath (vsDisks sp) = map rcVolumePath (rtContainers (vcRuntime two_containers))"
      "map icVolume (iniContainers cfg) = map (\<lambda>i. ''/dev/vd'' @ [alphabet ! (i mod 26)]) [0..<length (rtContainers (vcRuntime two_containers))]"
      "distinct (map icVolume (iniContainers cfg)) \<longleftrightarrow> length (rtContainers (vcRuntime two_containers)) \<le> 26"
    by blast
  have "vrConfig r = two_containers"
    using s by (auto simp: good_start)
  then have p: "getInitConfigPath r = ''/w/initconfig.json''"
    by (simp add: getInitConfigPath_def vworkdir_def two_containers_def path_join_def path_clean_def)
  show ?thesis
    unfolding s snd_conv
    by (rule exI [of _ sp], rule exI [of _ before], rule exI [of _ after], rule exI [of _ cfg], rule exI [of _ d], intro conjI)
      (use w in \<open>simp_all only: cs n volumes p\<close>, simp_all add: devices [simplified])
qed

section \<open>The end of the hypervisor\<close>


text \<open>The witness: the hypervisor refuses to boot the machine.\<close>

definition no_boot_env :: vm_env where
  "no_boot_env = good_vm_env\<lparr>ve_status := \<lambda>_. 200\<rparr>"


text \<open>The calls that end the hypervisor's process and remove its files.\<close>

definition kills :: "'h vm_runtime \<Rightarrow> vm_call list" where
  "kills r = (case vrCmd r of Some (Some pid) \<Rightarrow> [VKill pid] | _ \<Rightarrow> [])"

definition removals :: "'h vm_runtime \<Rightarrow> 'h runtime_log_manager \<Rightarrow> vm_call list" where
  "removals r m = [VRemove (getHypervisorSocketPath r), VRemove (getInitRamFSPath r), VRemove (GetSerialSocketPath m)]"

lemma removals_fields [simp]: "removals (r\<lparr>vrTrace := t\<rparr>) m = removals r m" "kills (r\<lparr>vrTrace := t\<rparr>) = kills r"
  by (simp_all add: removals_def kills_def getHypervisorSocketPath_def getInitRamFSPath_def vworkdir_def)

lemma remove_sockets_calls:
  "vrLogManager r = Some m \<Longrightarrow> remove_sockets E r = (Ok (), r\<lparr>vrTrace := vrTrace r @ removals r m\<rparr>)"
  by (simp add: remove_sockets_def vcall_def Let_def removals_def getHypervisorSocketPath_def getInitRamFSPath_def vworkdir_def)

lemma kill_calls: "(case vrCmd r of Some (Some pid) \<Rightarrow> kill_process E pid r | _ \<Rightarrow> r) = r\<lparr>vrTrace := vrTrace r @ kills r\<rparr>"
  by (simp add: kills_def kill_process_def vcall_def split: option.split)

lemma stopHypervisor_calls:
  assumes "vrLogManager r = Some m"
  shows "stopHypervisor E r = (Ok (), r\<lparr>vrTrace := vrTrace r @ ShutdownVMM # kills r @ removals r m\<rparr>) \<or>
    (\<exists>e. stopHypervisor E r = (Err e, r\<lparr>vrTrace := vrTrace r @ [ShutdownVMM]\<rparr>))"
  using assms unfolding stopHypervisor_def Let_def kill_calls
  by (auto simp: vcall_def ext_def catchE_def remove_sockets_calls [of _ m] kills_def split: option.splits)

lemma terminateVM_calls:
  "terminateVM E r = (Ok (), r\<lparr>vrTrace := vrTrace r @ [ShutdownVM, DeleteVM]\<rparr>) \<or>
   (\<exists>e cs. terminateVM E r = (Err e, r\<lparr>vrTrace := vrTrace r @ cs\<rparr>) \<and> set cs \<subseteq> {ShutdownVM, DeleteVM})"
  by (auto simp: terminateVM_def vcall_def ext_def tryE_def catchE_def split: option.splits)

lemma ForceStop_calls:
  assumes "vrLogManager r = Some m"
  shows "ForceStop E io r = (Ok (), r\<lparr>vrTrace := vrTrace r @ ShutdownVMM # kills r @ removals r m, vrLogManager := Some (Stop_logs io m)\<rparr>) \<or>
    (\<exists>e. ForceStop E io r = (Err e, r\<lparr>vrTrace := vrTrace r @ [ShutdownVMM]\<rparr>))"
  using stopHypervisor_calls [OF assms, of E] assms by (auto simp: ForceStop_def tryE_def catchE_def)

text \<open>
  C34: a graceful stop that succeeds has shut down and deleted the machine, shut down the
  hypervisor, killed its process if one was started, removed its files and ended the log, so that
  no listener writes any more; one that fails has killed nothing, removed nothing and leaves the
  log open; it never panics once \<^verbatim>\<open>Start\<close> has made the log manager.
\<close>

theorem stop_is_complete_or_leaves_all:
  assumes "vrLogManager r = Some m" and "VmRuntime_Stop E io r = (res, r')"
  shows "(\<exists>u. res = Ok u \<and> vrLogManager r' = Some (Stop_logs io m) \<and>
      vrTrace r' = vrTrace r @ (if vrHttpServer r then [VHttpShutdown] else []) @ [ShutdownVM, DeleteVM, ShutdownVMM] @
        kills r @ removals r m \<and>
      (\<forall>IO lines logs. ListenSerialSocket IO lines (Stop_logs io m) = Stop_logs io m \<and> ListenInitLogs IO logs (Stop_logs io m) = Stop_logs io m)) \<or>
    (\<exists>e. res = Err e \<and> vrLogManager r' = Some m \<and>
      (\<exists>cs. vrTrace r' = vrTrace r @ cs \<and> set cs \<subseteq> {VHttpShutdown, ShutdownVM, DeleteVM, ShutdownVMM}))"
proof -
  have quiet: "startListener listen xs (Stop_logs io m) = Stop_logs io m" for listen :: "'x \<Rightarrow> 'a runtime_log_manager \<Rightarrow> 'a runtime_log_manager" and xs
    by (cases xs) (simp_all add: Stop_logs_def)
  define r0 where "r0 = (if vrHttpServer r then snd (vcall E VHttpShutdown r) else r)"
  have r0: "vrTrace r0 = vrTrace r @ (if vrHttpServer r then [VHttpShutdown] else [])" "vrLogManager r0 = Some m"
      "kills r0 = kills r" "removals r0 m = removals r m"
    by (simp_all add: r0_def vcall_def assms(1))
  have stop: "tryE (Wrap ''failed to terminate vm'') (terminateVM E r0) (\<lambda>_ r. ForceStop E io r) = (res, r')"
    using assms(2) by (simp add: VmRuntime_Stop_def r0_def)
  show ?thesis
  proof (rule disjE [OF terminateVM_calls [of E r0]])
    assume t: "terminateVM E r0 = (Ok (), r0\<lparr>vrTrace := vrTrace r0 @ [ShutdownVM, DeleteVM]\<rparr>)"
    have "vrLogManager (r0\<lparr>vrTrace := vrTrace r0 @ [ShutdownVM, DeleteVM]\<rparr>) = Some m" using r0(2) by simp
    from ForceStop_calls [OF this, of E io] stop r0 show ?thesis
      unfolding ListenSerialSocket_def ListenInitLogs_def quiet t by auto
  next
    assume "\<exists>e cs. terminateVM E r0 = (Err e, r0\<lparr>vrTrace := vrTrace r0 @ cs\<rparr>) \<and> set cs \<subseteq> {ShutdownVM, DeleteVM}"
    then obtain e cs where t: "terminateVM E r0 = (Err e, r0\<lparr>vrTrace := vrTrace r0 @ cs\<rparr>)" "set cs \<subseteq> {ShutdownVM, DeleteVM}" by blast
    with stop r0 show ?thesis by auto
  qed
qed

text \<open>The witness: a runtime that has started a hypervisor.\<close>

definition started_runtime :: "nat vm_runtime" where
  "started_runtime = (VmRuntime_New two_containers)\<lparr>vrCmd := Some (Some 41), vrHttpServer := True, vrLogManager := Some (newLogManager ''/w'' [])\<rparr>"

theorem stop_is_complete_or_leaves_all_witness:
  "\<exists>r'. VmRuntime_Stop good_vm_env (good_io 7) started_runtime = (Ok (), r') \<and> VKill 41 \<in> set (vrTrace r') \<and>
     (\<exists>m. vrLogManager r' = Some m \<and> ListenSerialSocket (\<lambda>_. good_io 7) [[''late'']] m = m)"
proof -
  have l: "vrLogManager started_runtime = Some (newLogManager ''/w'' [])" "kills started_runtime = [VKill 41]"
    by (simp_all add: started_runtime_def kills_def)
  obtain res r' where s: "VmRuntime_Stop good_vm_env (good_io 7) started_runtime = (res, r')" by fastforce
  moreover have "fst (VmRuntime_Stop good_vm_env (good_io 7) started_runtime) = Ok ()"
    by (simp add: VmRuntime_Stop_def terminateVM_def ForceStop_def stopHypervisor_def remove_sockets_def kill_process_def vcall_def ext_def
        started_runtime_def good_vm_env_def VmRuntime_New_def Let_def)
  ultimately have "res = Ok ()" by simp
  with stop_is_complete_or_leaves_all [OF l(1) s] s show ?thesis by (auto simp: l(2))
qed

end
