(* ===== verification/LogPipeline.thy ===== *)
theory LogPipeline
  imports InitServer VmRuntime
begin

text \<open>
  The way of a container's output: the writers in the init process cut it into lines, the log of the
  init process keeps the lines, its server sends the log to the runtime on every connection, the
  runtime appends what it has not had yet to the machine's log, and its own server sends the lines
  of one container to the node agent.
\<close>

section \<open>Writers side by side\<close>

text \<open>
  The writers of all containers, by number, write chunks to the same log.  A write of several lines
  may be interrupted by other writers after each line; this is a schedule in which its lines are
  chunks of their own, and how a writer's output is cut into chunks does not matter.
\<close>

fun write_interleaved :: "write_env \<Rightarrow> (nat \<times> string) list \<Rightarrow> (nat \<Rightarrow> log_writer) \<Rightarrow> 'h log_service \<Rightarrow>
    (nat \<Rightarrow> log_writer) \<times> 'h log_service" where
  "write_interleaved W [] ws s = (ws, s)"
| "write_interleaved W ((j, p) # ps) ws s = (case logWriter_Write W p (ws j) s of
      (_, w, s) \<Rightarrow> write_interleaved W ps (ws(j := w)) s)"

definition written_by :: "nat \<Rightarrow> (nat \<times> string) list \<Rightarrow> string" where
  "written_by j ps = concat (map snd (filter (\<lambda>(k, _). k = j) ps))"

definition stream_lines :: "log_writer \<Rightarrow> init_entry list \<Rightarrow> string list" where
  "stream_lines w es = map ieContent (filter (\<lambda>e. ieContainerID e = lwContainerID w \<and> ieError e = lwError w) es)"

definition same_stream :: "log_writer \<Rightarrow> log_writer \<Rightarrow> bool" where
  "same_stream v w \<longleftrightarrow> lwContainerID v = lwContainerID w \<and> lwError v = lwError w"

lemma same_stream_buf [simp]: "same_stream (v\<lparr>lwBuf := b\<rparr>) w = same_stream v w" "same_stream v (w\<lparr>lwBuf := b\<rparr>) = same_stream v w"
  by (simp_all add: same_stream_def)

lemma stream_lines_append: "stream_lines w (es @ es') = stream_lines w es @ stream_lines w es'"
  by (simp add: stream_lines_def)

lemma stream_lines_buf [simp]: "stream_lines (w\<lparr>lwBuf := b\<rparr>) es = stream_lines w es"
  by (simp add: stream_lines_def)

lemma stream_lines_entries:
  assumes "entries_for v ls es"
  shows "stream_lines w es = (if same_stream v w then ls else [])"
proof -
  have "filter (\<lambda>e. ieContainerID e = lwContainerID w \<and> ieError e = lwError w) es = (if same_stream v w then es else [])"
    using assms by (auto simp: entries_for_def same_stream_def filter_id_conv filter_empty_conv)
  with assms show ?thesis by (auto simp: stream_lines_def entries_for_def)
qed

lemma logWriter_Write_entries:
  assumes "lsEncErr s = None" "\<And>n. we_err W n = None"
  shows "\<exists>s' es. logWriter_Write W p w s = (Ok (length p), w\<lparr>lwBuf := snd (lines_of (lwBuf w @ p))\<rparr>, s') \<and> lsEncErr s' = None \<and>
    lsFile s' = lsFile s @ map Some es \<and> entries_for w (fst (lines_of (lwBuf w @ p))) es"
proof -
  obtain s' es where w: "write_lines W (w\<lparr>lwBuf := lwBuf w @ p\<rparr>) s = (Ok (), w\<lparr>lwBuf := snd (lines_of (lwBuf w @ p))\<rparr>, s')"
      "lsEncErr s' = None" "lsFile s' = lsFile s @ map Some es" "entries_for (w\<lparr>lwBuf := lwBuf w @ p\<rparr>) (fst (lines_of (lwBuf w @ p))) es"
    using write_lines_entries [OF assms, of "w\<lparr>lwBuf := lwBuf w @ p\<rparr>"] by auto
  then have "entries_for w (fst (lines_of (lwBuf w @ p))) es" by (simp add: entries_for_def)
  with w write_lines_logWriter [OF w(1)] show ?thesis by blast
qed

lemma logWriter_Write_count:
  assumes "lsEncErr s = None" "\<And>n. we_err W n = None" "lsFile s = map Some old"
  shows "\<exists>s' es. logWriter_Write W p w s = (Ok (length p), w\<lparr>lwBuf := snd (lines_of (lwBuf w @ p))\<rparr>, s') \<and> lsEncErr s' = None \<and>
    lsFile s' = map Some es \<and> length es = length old + length (fst (lines_of (lwBuf w @ p)))"
proof -
  obtain s' es where s': "logWriter_Write W p w s = (Ok (length p), w\<lparr>lwBuf := snd (lines_of (lwBuf w @ p))\<rparr>, s')" "lsEncErr s' = None"
      "lsFile s' = lsFile s @ map Some es" "map ieContent es = fst (lines_of (lwBuf w @ p))"
    using logWriter_Write_entries [OF assms(1,2), of p w] unfolding entries_for_def by blast
  then have "length es = length (fst (lines_of (lwBuf w @ p)))" using length_map [of ieContent es] by simp
  with s' show ?thesis by (auto simp: assms(3) intro!: exI [of _ "old @ es"])
qed

lemma write_interleaved_lines:
  assumes "lsEncErr s = None" and W: "\<And>n. we_err W n = None" and "lsFile s = map Some old" and "CHR 0x0A \<notin> set (lwBuf (ws j))"
    and "\<forall>k \<in> fst ` set ps. k \<noteq> j \<longrightarrow> \<not> same_stream (ws k) (ws j)" and "write_interleaved W ps ws s = (ws', s')"
  shows "\<exists>es. lsFile s' = map Some es \<and> stream_lines (ws j) es = stream_lines (ws j) old @ fst (lines_of (lwBuf (ws j) @ written_by j ps)) \<and>
    lwBuf (ws' j) = snd (lines_of (lwBuf (ws j) @ written_by j ps))"
  using assms(1,3-)
proof (induction ps arbitrary: ws s old)
  case Nil
  then show ?case by (simp add: written_by_def lines_of_no_newline)
next
  case (Cons kp ps)
  obtain k p where kp: "kp = (k, p)" by (cases kp)
  let ?out = "lines_of (lwBuf (ws k) @ p)"
  obtain s1 es where s1: "logWriter_Write W p (ws k) s = (Ok (length p), (ws k)\<lparr>lwBuf := snd ?out\<rparr>, s1)" "lsEncErr s1 = None"
      "lsFile s1 = map Some (old @ es)" "entries_for (ws k) (fst ?out) es"
    using logWriter_Write_entries [OF Cons.prems(1) W, of p "ws k"] Cons.prems(2) by auto
  let ?ws = "ws(k := (ws k)\<lparr>lwBuf := snd ?out\<rparr>)"
  have stream: "stream_lines (?ws j) = stream_lines (ws j)" by (auto simp: fun_eq_iff)
  have distinct: "\<forall>i \<in> fst ` set ps. i \<noteq> j \<longrightarrow> \<not> same_stream (?ws i) (?ws j)" using Cons.prems(4) by auto
  have "CHR 0x0A \<notin> set (lwBuf (?ws j))" using Cons.prems(3) lines_of_rest by simp
  moreover have "write_interleaved W ps ?ws s1 = (ws', s')" using Cons.prems(5) kp s1(1) by simp
  ultimately obtain es' where ih: "lsFile s' = map Some es'"
      "stream_lines (ws j) es' = stream_lines (ws j) (old @ es) @ fst (lines_of (lwBuf (?ws j) @ written_by j ps))"
      "lwBuf (ws' j) = snd (lines_of (lwBuf (?ws j) @ written_by j ps))"
    using Cons.IH [OF s1(2,3) _ distinct] unfolding stream by blast
  have new: "stream_lines (ws j) es = (if k = j then fst ?out else [])"
    using stream_lines_entries [OF s1(4), of "ws j"] Cons.prems(4) kp by (auto simp: same_stream_def)
  from ih new show ?case
    using lines_of_append [of "lwBuf (ws j) @ p" "written_by j ps"]
    by (cases "k = j") (simp_all add: kp written_by_def stream_lines_append)
qed

section \<open>The machine's log\<close>

text \<open>The log of the machine holds what was handed to it; only the times are the log's own.\<close>

abbreviation untimed :: "log_entry \<Rightarrow> log_entry" where
  "untimed e \<equiv> e\<lparr>leTimestamp := 0\<rparr>"

definition log_complete :: "'h runtime_log_manager \<Rightarrow> bool" where
  "log_complete m \<longleftrightarrow> lmEncErr (rmManager m) = None \<and> \<not> lmClosed (rmManager m) \<and>
     (\<exists>es. lmDisk (rmManager m) = map Some es \<and> map untimed es = map untimed (rmTried m))"

definition writes_succeed :: "(nat \<Rightarrow> log_io) \<Rightarrow> bool" where
  "writes_succeed IO \<longleftrightarrow> (\<forall>n. io_open (IO n) = None \<and> io_write (IO n) = None)"

lemma log_complete_seq [simp]: "log_complete (m\<lparr>rmSeq := q\<rparr>) = log_complete m"
  by (simp add: log_complete_def)

lemma writeLog_complete:
  assumes "writes_succeed IO" "log_complete m"
  shows "log_complete (snd (writeLog IO e m))"
proof -
  have io: "io_open (IO n) = None" "io_write (IO n) = None" for n using assms(1) by (simp_all add: writes_succeed_def)
  obtain es where "lmDisk (rmManager m) = map Some es" "map untimed es = map untimed (rmTried m)"
    using assms(2) by (auto simp: log_complete_def)
  moreover have "writeLog IO e m = (Ok (), snd (writeLog IO e m)) \<and> lmEncErr (rmManager (snd (writeLog IO e m))) = None \<and>
      \<not> lmClosed (rmManager (snd (writeLog IO e m))) \<and> rmTried (snd (writeLog IO e m)) = rmTried m @ [e] \<and>
      lmDisk (rmManager (snd (writeLog IO e m))) = lmDisk (rmManager m) @ [Some (e\<lparr>leTimestamp := io_now (IO (length (rmTried m)))\<rparr>)]"
    using assms(2) io by (simp add: log_complete_def writeLog_def WriteLog_def Encode_def Let_def)
  ultimately show ?thesis
    by (auto simp: log_complete_def intro!: exI [of _ "es @ [e\<lparr>leTimestamp := io_now (IO (length (rmTried m)))\<rparr>]"])
qed

lemma listen_init_complete: "writes_succeed IO \<Longrightarrow> log_complete m \<Longrightarrow> log_complete (listen_init IO q logs m)"
  by (induction IO q logs m rule: listen_init.induct) (simp_all add: Let_def writeLog_complete)

lemma startListener_keeps:
  assumes "\<And>x m. P m \<Longrightarrow> P (listen x m)" "P m"
  shows "P (startListener listen xs m)"
  using assms(2) by (induction xs arbitrary: m) (simp_all add: assms(1))

lemma ListenInitLogs_complete:
  assumes "writes_succeed IO" "log_complete m"
  shows "log_complete (ListenInitLogs IO connections m)"
  unfolding ListenInitLogs_def
  by (rule startListener_keeps [where P = log_complete]) (use assms listen_init_complete in auto)

text \<open>What the runtime answers to a request for the log of one container.\<close>

lemma container_message_untimed:
  "leSource e = ContainerLogEntrySource \<Longrightarrow> leContainerID e = Some c \<Longrightarrow>
   container_message i e = (if c = i then Some \<lparr>rlgContainerID = c, rlgError = leStderr e, rlgContent = leMessage e, rlgTimestamp = leTimestamp e\<rparr> else None)"
  by (simp add: container_message_def)

lemma answers_of_log:
  assumes "map untimed es = map (\<lambda>e. untimed (init_log_entry (log_message e))) items"
  shows "map rlgContent (filter (\<lambda>g. rlgError g = lwError w) (List.map_filter (container_message (lwContainerID w)) es)) = stream_lines w items"
  using assms
proof (induction es arbitrary: items)
  case Nil
  then show ?case by (simp add: stream_lines_def List.map_filter_simps)
next
  case (Cons e es)
  then obtain i rest where items: "items = i # rest" "untimed e = untimed (init_log_entry (log_message i))"
      "map untimed es = map (\<lambda>e. untimed (init_log_entry (log_message e))) rest"
    by (cases items) auto
  have "leSource e = leSource (untimed e)" "leContainerID e = leContainerID (untimed e)" "leStderr e = leStderr (untimed e)"
      "leMessage e = leMessage (untimed e)" by simp_all
  then have e: "leSource e = ContainerLogEntrySource" "leContainerID e = Some (ieContainerID i)" "leStderr e = ieError i" "leMessage e = ieContent i"
    unfolding items(2) by (simp_all add: init_log_entry_def log_message_def)
  show ?case
    using Cons.IH [OF items(3)] e by (auto simp: items(1) stream_lines_def List.map_filter_simps container_message_untimed [OF e(1,2)])
qed

lemma read_history_whole: "readHistoricalLogs n (map Some es) = (items, None) \<Longrightarrow> items = es"
  by (induction n "map Some es" arbitrary: es items rule: readHistoricalLogs.induct) (auto split: prod.splits)

lemma readHistoricalLogs_all: "length es < n \<Longrightarrow> readHistoricalLogs n (map Some es) = (es, None)"
  by (induction es arbitrary: n) (auto simp: gr0_conv_Suc less_Suc_eq_0_disj Suc_less_eq2)


text \<open>The witness: two streams of a container, one line cut by a chunk of the other stream.\<close>

definition two_writers :: "nat \<Rightarrow> log_writer" where
  "two_writers k = (if k = 0 then fst else snd) (NewContainerLogWriter ''c1'' None)"

definition two_outputs :: "(nat \<times> string) list" where
  "two_outputs = [(0, ''he''), (1, ''oh'' @ [CHR 0x0A]), (0, ''llo'' @ [CHR 0x0A] @ ''wor'')]"

lemma two_outputs_written:
  assumes "LogService_New ''/logs'' None None = Ok s"
  shows "\<exists>ws' s' items. write_interleaved clock_env two_outputs two_writers s = (ws', s') \<and> lsFile s' = map Some items \<and> length items = 2"
proof -
  have W: "we_err clock_env n = None" for n by (simp add: clock_env_def)
  have s: "lsEncErr s = None" "lsFile s = map Some []" using assms by (auto simp: LogService_New_def)
  note count = logWriter_Write_count [OF _ W]
  have w: "lwBuf (two_writers k) = []" for k by (simp add: two_writers_def NewContainerLogWriter_def)
  obtain s1 es1 where 1: "logWriter_Write clock_env ''he'' (two_writers 0) s = (Ok (length ''he''), (two_writers 0)\<lparr>lwBuf := ''he''\<rparr>, s1)"
      "lsEncErr s1 = None" "lsFile s1 = map Some es1" "length es1 = 0"
    using count [OF s, of "''he''" "two_writers 0"] by (simp add: w) blast
  obtain s2 es2 where 2: "logWriter_Write clock_env (''oh'' @ [CHR 0x0A]) (two_writers 1) s1 =
      (Ok (length (''oh'' @ [CHR 0x0A])), (two_writers 1)\<lparr>lwBuf := []\<rparr>, s2)" "lsEncErr s2 = None" "lsFile s2 = map Some es2" "length es2 = 1"
    using count [OF 1(2,3), of "''oh'' @ [CHR 0x0A]" "two_writers 1"] 1(4) by (simp add: w) blast
  let ?p = "''llo'' @ [CHR 0x0A] @ ''wor''"
  obtain s3 es3 where 3: "logWriter_Write clock_env ?p ((two_writers 0)\<lparr>lwBuf := ''he''\<rparr>) s2 = (Ok (length ?p), (two_writers 0)\<lparr>lwBuf := ''wor''\<rparr>, s3)"
      "lsFile s3 = map Some es3" "length es3 = 2"
    using count [OF 2(2,3), of ?p "(two_writers 0)\<lparr>lwBuf := ''he''\<rparr>"] 2(4) by (simp add: numeral_2_eq_2) blast
  from 1(1) 2(1) 3 show ?thesis by (auto simp: two_outputs_def)
qed


section \<open>A missed line\<close>

definition write_entries :: "write_env \<Rightarrow> init_entry list \<Rightarrow> 'h log_service \<Rightarrow> 'h log_service" where
  "write_entries W es s = fold (\<lambda>e s. snd (LogService_Write W e s)) es s"

lemma write_entries_ok:
  assumes "lsEncErr s = None" "\<And>n. we_err W n = None"
  shows "lsEncErr (write_entries W es s) = None \<and> lsFile (write_entries W es s) = lsFile s @ map Some es \<and>
    lsHandlers (write_entries W es s) = lsHandlers s \<and>
    lsCalls (write_entries W es s) = lsCalls s @ concat (map (\<lambda>e. map (\<lambda>h. (snd h, e)) (lsHandlers s)) es)"
  using assms(1)
proof (induction es arbitrary: s)
  case Nil
  then show ?case by (simp add: write_entries_def)
next
  case (Cons e es)
  obtain s' where s': "LogService_Write W e s = (Ok (), s')" "lsEncErr s' = None" "lsFile s' = lsFile s @ [Some e]" "lsHandlers s' = lsHandlers s"
      "lsCalls s' = lsCalls s @ map (\<lambda>h. (snd h, e)) (lsHandlers s)"
    using LogService_Write_ok [OF Cons.prems assms(2)] by blast
  with Cons.IH [OF s'(2)] show ?case by (simp add: write_entries_def)
qed

text \<open>
  C33: an entry written between the reading of the history and the subscription of a connection never
  reaches the machine's log, and once the connection was renewed the last entry it gave is there
  twice: the runtime has counted one entry less than the history holds.
\<close>

theorem missed_entry_repeats_last:
  fixes m :: "'h runtime_log_manager"
  assumes "lsEncErr s = None" and "\<And>k. we_err W k = None" and "lsHandlers s = []" and "lsCalls s = []" and "lsFile s = map Some old"
    and "length old < n" and "LogService_Read n hid h (write_entries W [e]) s = (history, s1)"
    and "write_entries W es s1 = s2" and "es \<noteq> []" and "open_history n' None False s2 = (all, None)"
    and "InitServer_GetLogs (\<lambda>_. None) (history @ map snd (lsCalls s2)) = (err, sent)" and "InitServer_GetLogs (\<lambda>_. None) all = (err', sent')"
    and "\<not> rmCancelled m" and "rmSeq m = 0" and "length old + length es + 1 < 2 ^ 64"
  shows "rmTried (ListenInitLogs IO [sent, sent'] m) = rmTried m @ map (\<lambda>e. init_log_entry (log_message e)) (old @ es @ [last es])"
proof -
  note writes = write_entries_ok [OF _ assms(2)]
  have s1: "history = old" "s1 = AddHandler hid h (write_entries W [e] s)"
    using assms(7) readHistoricalLogs_all [OF assms(6)] by (simp_all add: LogService_Read_def open_history_def assms(5))
  have "lsEncErr s1 = None" "lsFile s1 = map Some (old @ [e])" "lsHandlers s1 = [(hid, h)]" "lsCalls s1 = []"
    using writes [OF assms(1), of "[e]"] assms(3,4,5) by (simp_all add: s1(2) AddHandler_def)
  then have s2: "lsFile s2 = map Some (old @ e # es)" "map snd (lsCalls s2) = es"
    using writes [of s1 es] assms(8) by (auto simp: comp_def concat_map_singleton)
  have "all = old @ e # es"
    by (rule read_history_whole [of n']) (use assms(10) in \<open>simp add: open_history_def s2(1)\<close>)
  then have sent: "sent = map log_message (old @ es)" "sent' = map log_message (old @ e # es)"
    using assms(11,12) by (simp_all add: InitServer_GetLogs_def send_all_ok s1(1) s2(2))
  let ?m = "listen_init IO 0 sent m" and ?k = "length old + length es"
  have first: "rmTried ?m = rmTried m @ map init_log_entry sent" "rmSeq ?m = of_nat ?k" "\<not> rmCancelled ?m"
    using listen_init_step [of 0 0 sent m IO] assms(13-15) sent(1) by simp_all
  have "drop ?k sent' = [log_message (last es)]"
  proof -
    obtain xs x where "es = xs @ [x]" using assms(9) by (cases es rule: rev_cases) auto
    then show ?thesis by (simp add: sent(2))
  qed
  then have "rmTried (listen_init IO 0 sent' ?m) = rmTried ?m @ [init_log_entry (log_message (last es))]"
    using listen_init_step [of 0 ?k sent' ?m IO] first(2) assms(15) sent(2) by simp
  with first(1,3) assms(13) show ?thesis by (simp add: ListenInitLogs_def sent(1))
qed

definition said :: "string \<Rightarrow> init_entry" where
  "said text = \<lparr>ieContainerID = ''c1'', ieContainerName = None, ieTimestamp = 0, ieError = False, ieContent = text\<rparr>"

theorem missed_entry_repeats_last_witness:
  "\<exists>history s1 all sent sent'. LogService_Read 2 ''h1'' ''h1'' (write_entries clock_env [said ''b'']) (write_entries clock_env [said ''a''] fresh_log) = (history, s1) \<and>
     open_history 4 None False (write_entries clock_env [said ''c''] s1) = (all, None) \<and> map ieContent all = [''a'', ''b'', ''c''] \<and>
     InitServer_GetLogs (\<lambda>_. None) (history @ map snd (lsCalls (write_entries clock_env [said ''c''] s1))) = (None, sent) \<and>
     InitServer_GetLogs (\<lambda>_. None) all = (None, sent') \<and>
     map leMessage (rmTried (ListenInitLogs (\<lambda>_. good_io 7) [sent, sent'] (newLogManager ''/w'' [] :: nat runtime_log_manager))) = [''a'', ''c'', ''c'']"
proof -
  let ?s = "write_entries clock_env [said ''a''] fresh_log" and ?m = "newLogManager ''/w'' [] :: nat runtime_log_manager"
  have W: "we_err clock_env k = None" for k by (simp add: clock_env_def)
  have "lsEncErr fresh_log = None" by (simp add: fresh_log_def)
  note writes = write_entries_ok [OF _ W] and fresh = write_entries_ok [OF this W, of "[said ''a'']"]
  have s: "lsEncErr ?s = None" "lsHandlers ?s = []" "lsCalls ?s = []" "lsFile ?s = map Some [said ''a'']"
    using fresh by (simp_all add: fresh_log_def)
  obtain history s1 where r: "LogService_Read 2 ''h1'' ''h1'' (write_entries clock_env [said ''b'']) ?s = (history, s1)" by fastforce
  then have s1: "history = [said ''a'']" "s1 = AddHandler ''h1'' ''h1'' (write_entries clock_env [said ''b''] ?s)"
    using readHistoricalLogs_all [of "[said ''a'']" 2] by (auto simp: LogService_Read_def open_history_def s(4))
  have e1: "lsEncErr s1 = None" "lsFile s1 = map Some [said ''a'', said ''b'']"
    using writes [OF s(1), of "[said ''b'']"] s(4) by (simp_all add: s1(2) AddHandler_def)
  have all: "open_history 4 None False (write_entries clock_env [said ''c''] s1) = ([said ''a'', said ''b'', said ''c''], None)"
    using writes [OF e1(1), of "[said ''c'']"] e1(2) readHistoricalLogs_all [of "[said ''a'', said ''b'', said ''c'']" 4]
    by (simp add: open_history_def)
  obtain err sent where g: "InitServer_GetLogs (\<lambda>_. None) (history @ map snd (lsCalls (write_entries clock_env [said ''c''] s1))) = (err, sent)" by fastforce
  obtain err' sent' where g': "InitServer_GetLogs (\<lambda>_. None) [said ''a'', said ''b'', said ''c''] = (err', sent')" by fastforce
  have err: "err = None" "err' = None" using g g' by (auto simp: InitServer_GetLogs_def send_all_ok)
  have m: "\<not> rmCancelled ?m" "rmSeq ?m = 0" "rmTried ?m = []" by (simp_all add: newLogManager_def)
  have "rmTried (ListenInitLogs (\<lambda>_. good_io 7) [sent, sent'] ?m) =
      rmTried ?m @ map (\<lambda>e. init_log_entry (log_message e)) ([said ''a''] @ [said ''c''] @ [last [said ''c'']])"
    by (rule missed_entry_repeats_last [OF s(1) W s(2,3,4) _ r refl _ all g g' m(1,2)]) simp_all
  with r all g g' err show ?thesis by (auto simp: m(3) said_def init_log_entry_def log_message_def)
qed

end
