(* ===== verification/ContainerLauncher.thy ===== *)
theory ContainerLauncher
  imports CoreTypes
begin

text \<open>
  \<^verbatim>\<open>initcontainer\<close>: the program the init process runs for each start of a container.  It mounts the
  container's volume, changes the root directory, writes the network files and runs the command as
  the container's user.  Its calls are a trace; what the user database gives is the environment's.
\<close>

datatype namespace_flag = CLONE_NEWNS | CLONE_NEWPID | CLONE_NEWUTS

record exec_spec =
  exCommand :: "string list"
  exEnv :: "string \<rightharpoonup> string"
  exCloneflags :: "namespace_flag list"
  exUid :: "32 word"
  exGid :: "32 word"
  exGroups :: "32 word list"
  exNoSetGroups :: bool

datatype launch_call =
    LStat string
  | LMkdirAll string nat
  | LMount string string string nat string
  | LChroot string
  | LSethostname string
  | LWriteFile string string nat
  | LChdir string
  | LLookup string
  | LRun exec_spec

record user =
  usUid :: string
  usGid :: string
  usUsername :: string
  usName :: string
  usHomeDir :: string

text \<open>\<open>le_not_exist\<close> is \<^verbatim>\<open>os.IsNotExist\<close>, \<open>le_user\<close> the user found.\<close>

record launch_env = "launch_call env" +
  le_not_exist :: "gerror \<Rightarrow> bool"
  le_user :: "launch_call list \<Rightarrow> user"

definition rootDir :: "init_container_config \<Rightarrow> string" where
  "rootDir config = ''/mnt/'' @ icContainerID config"

section \<open>\<^verbatim>\<open>fs.go\<close>\<close>

text \<open>\<^verbatim>\<open>MS_RELATIME\<close> is 2097152 and \<^verbatim>\<open>MS_NOSUID\<close> 2; the mode 0644 is octal.\<close>

definition container_mounts :: "init_container_config \<Rightarrow> (string \<times> string \<times> string \<times> nat \<times> string) list" where
  "container_mounts config = (let root = rootDir config in
    [(icVolume config, root, ''ext4'', 2097152, []),
     (''devtmpfs'', root @ ''/dev'', ''devtmpfs'', 2, ''mode=0755''),
     (''proc'', root @ ''/proc'', ''proc'', 0, []),
     (''sysfs'', root @ ''/sys'', ''sysfs'', 0, []),
     (''tmpfs'', root @ ''/tmp'', ''tmpfs'', 0, ''mode=1777''),
     (''tmpfs'', root @ ''/run'', ''tmpfs'', 0, [])])"

fun mount_list :: "('e) launch_env_scheme \<Rightarrow> (string \<times> string \<times> string \<times> nat \<times> string) list \<Rightarrow> launch_call list \<Rightarrow>
    unit res \<times> launch_call list" where
  "mount_list E [] t = (Ok (), t)"
| "mount_list E ((source, target, fstype, flags, data) # ms) t =
    ignoreE (ext E (LMkdirAll target 0x1A4) t) (\<lambda>t.
    tryE (\<lambda>e. Errorf (''failed to mount '' @ source @ '' on '' @ target @ '': '' @ error_string e))
      (ext E (LMount source target fstype flags data) t) (\<lambda>_ t. mount_list E ms t))"

definition setupFilesystem :: "('e) launch_env_scheme \<Rightarrow> init_container_config \<Rightarrow> launch_call list \<Rightarrow> unit res \<times> launch_call list" where
  "setupFilesystem E config t =
    tryE (Wrap ''failed to create root directory'') (ext E (LMkdirAll (rootDir config) 0x1A4) t) (\<lambda>_ t.
    tryE id (mount_list E (container_mounts config) t) (\<lambda>_ t.
    tryE (Wrap ''failed to change the root directory'') (ext E (LChroot (rootDir config)) t) (\<lambda>_ t. (Ok (), t))))"

section \<open>\<^verbatim>\<open>networking.go\<close>\<close>

definition dnsServers :: "string list" where
  "dnsServers = [''1.1.1.1'', ''1.0.0.1'', ''2606:4700:4700::1111'', ''2606:4700:4700::1001'']"

definition defaultHosts :: "string list" where
  "defaultHosts = [''127.0.0.1 localhost.localdomain localhost'', ''::1 ip6-localhost ip6-loopback'',
     ''fe00::0 ip6-localnet'', ''ff00::0 ip6-mcastprefix'']"

text \<open>The modes are written in hexadecimal in the source.\<close>

definition setupNetworking :: "('e) launch_env_scheme \<Rightarrow> init_container_config \<Rightarrow> launch_call list \<Rightarrow> unit res \<times> launch_call list" where
  "setupNetworking E config t =
    (let hostname = (case csName (icSpec config) of None \<Rightarrow> icContainerID config | Some name \<Rightarrow> name);
         resolvEntries = map (\<lambda>server. ''nameserver '' @ server) dnsServers in
     tryE (Wrap ''failed to set hostname'') (ext E (LSethostname hostname) t) (\<lambda>_ t.
     tryE (Wrap ''failed to write /etc/hostname'') (ext E (LWriteFile ''/etc/hostname'' (hostname @ [CHR 0x0A]) 0x755) t) (\<lambda>_ t.
     tryE (Wrap ''failed to write /etc/resolv.conf'')
       (ext E (LWriteFile ''/etc/resolv.conf'' (join [CHR 0x0A] resolvEntries @ [CHR 0x0A]) 0x755) t) (\<lambda>_ t.
     tryE (Wrap ''failed to write /etc/hosts'')
       (ext E (LWriteFile ''/etc/hosts'' (join [CHR 0x0A] defaultHosts @ [CHR 0x0A]) 0x755) t) (\<lambda>_ t. (Ok (), t))))))"

section \<open>\<^verbatim>\<open>container.go\<close>\<close>

text \<open>\<^verbatim>\<open>strconv.Atoi\<close> for 64-bit integers.\<close>

definition Atoi :: "string \<Rightarrow> int res" where
  "Atoi s = (let (neg, digits) = (case s of
        c # cs \<Rightarrow> if c = CHR ''-'' then (True, cs) else if c = CHR ''+'' then (False, cs) else (False, s)
      | [] \<Rightarrow> (False, []));
      n = (if neg then - int (undec digits) else int (undec digits)) in
    if digits = [] \<or> \<not> list_all is_digit digits then Err (External (''strconv.Atoi: parsing \"'' @ s @ ''\": invalid syntax''))
    else if n < - (2 ^ 63) \<or> 2 ^ 63 \<le> n then Err (External (''strconv.Atoi: parsing \"'' @ s @ ''\": value out of range''))
    else Ok n)"

definition default_user :: user where
  "default_user = \<lparr>usUid = ''0'', usGid = ''0'', usUsername = ''root'', usName = ''root'', usHomeDir = ''/root''\<rparr>"

definition target_user :: "('e) launch_env_scheme \<Rightarrow> string \<Rightarrow> launch_call list \<Rightarrow> user res \<times> launch_call list" where
  "target_user E username t = catchE (ext_val E (LLookup username) (le_user E) t) (\<lambda>u t. (Ok u, t))
     (\<lambda>e t. if username \<noteq> ''root'' then (Err (Errorf (''failed to lookup user '' @ username @ '': '' @ error_string e)), t)
       else (Ok default_user, t))"

text \<open>The command, once root directory, host and working directory are set.\<close>

definition exec_command :: "('e) launch_env_scheme \<Rightarrow> init_container_config \<Rightarrow> user \<Rightarrow> launch_call list \<Rightarrow> unit res \<times> launch_call list" where
  "exec_command E config u t = (case csEnv (icSpec config) of
      None \<Rightarrow> (Panic ''assignment to entry in nil map'', t)
    | Some env0 \<Rightarrow> (let env = env0(''HOME'' \<mapsto> usHomeDir u) in
        tryE (\<lambda>e. Errorf (''failed to convert user id to int: '' @ error_string e)) (Atoi (usUid u), t) (\<lambda>uid t.
        tryE (\<lambda>e. Errorf (''failed to convert user group id to int: '' @ error_string e)) (Atoi (usGid u), t) (\<lambda>gid t.
        (case csCommand (icSpec config) of
          Some (c # args) \<Rightarrow>
            tryE (Wrap (''failed to execute '' @ join '' '' (c # args)))
              (ext E (LRun \<lparr>exCommand = c # args, exEnv = env, exCloneflags = [CLONE_NEWNS, CLONE_NEWPID, CLONE_NEWUTS],
                 exUid = of_int uid, exGid = of_int gid, exGroups = [of_int gid], exNoSetGroups = True\<rparr>) t)
              (\<lambda>_ t. (Ok (), t))
        | _ \<Rightarrow> (Panic ''index out of range'', t))))))"

definition start_command :: "('e) launch_env_scheme \<Rightarrow> init_container_config \<Rightarrow> launch_call list \<Rightarrow> unit res \<times> launch_call list" where
  "start_command E config t =
    tryE (Wrap ''failed to setup networking'') (setupNetworking E config t) (\<lambda>_ t.
    let workingDir = (case csWorkingDir (icSpec config) of None \<Rightarrow> ''/'' | Some d \<Rightarrow> d) in
    tryE (Wrap (''failed to change directory to '' @ workingDir)) (ext E (LChdir workingDir) t) (\<lambda>_ t.
    let username = (case csUser (icSpec config) of None \<Rightarrow> ''root'' | Some u \<Rightarrow> u) in
    tryE id (target_user E username t) (\<lambda>u t. exec_command E config u t)))"

definition Launcher_Start :: "('e) launch_env_scheme \<Rightarrow> init_container_config \<Rightarrow> launch_call list \<Rightarrow> unit res \<times> launch_call list" where
  "Launcher_Start E config t = catchE (ext E (LStat (rootDir config)) t) (\<lambda>_ t. start_command E config t)
     (\<lambda>e t. if le_not_exist E e then tryE (Wrap ''failed to setup filesystem'') (setupFilesystem E config t) (\<lambda>_ t. start_command E config t)
       else start_command E config t)"

text \<open>\<^verbatim>\<open>main.go\<close>: the configuration is the first argument; every error is a panic.\<close>

definition launcher_main :: "('e) launch_env_scheme \<Rightarrow> string list \<Rightarrow> (string \<Rightarrow> init_container_config res) \<Rightarrow> launch_call list \<Rightarrow>
    unit res \<times> launch_call list" where
  "launcher_main E args unmarshal t = (case args of
      _ # arg # _ \<Rightarrow> (case unmarshal arg of
          Ok config \<Rightarrow> catchE (Launcher_Start E config t) (\<lambda>_ t. (Ok (), t)) (\<lambda>e t. (Panic (error_string e), t))
        | Err e \<Rightarrow> (Panic (error_string e), t)
        | Panic p \<Rightarrow> (Panic p, t))
    | _ \<Rightarrow> (Panic ''index out of range'', t))"

section \<open>Isolation\<close>

definition is_run :: "launch_call \<Rightarrow> bool" where
  "is_run c \<longleftrightarrow> (case c of LRun _ \<Rightarrow> True | _ \<Rightarrow> False)"

definition is_chroot :: "launch_call \<Rightarrow> bool" where
  "is_chroot c \<longleftrightarrow> (case c of LChroot _ \<Rightarrow> True | _ \<Rightarrow> False)"

lemma is_run_simps [simp]: "is_run (LRun ex)" "\<not> is_run (LStat a)" "\<not> is_run (LMkdirAll a n)" "\<not> is_run (LMount a b c n d)"
    "\<not> is_run (LChroot a)" "\<not> is_run (LSethostname a)" "\<not> is_run (LWriteFile a b n)" "\<not> is_run (LChdir a)" "\<not> is_run (LLookup a)"
  by (simp_all add: is_run_def)

lemma is_chroot_simps [simp]: "is_chroot (LChroot a)" "\<not> is_chroot (LStat a)" "\<not> is_chroot (LMkdirAll a n)" "\<not> is_chroot (LMount a b c n d)"
    "\<not> is_chroot (LRun ex)" "\<not> is_chroot (LSethostname a)" "\<not> is_chroot (LWriteFile a b n)" "\<not> is_chroot (LChdir a)" "\<not> is_chroot (LLookup a)"
  by (simp_all add: is_chroot_def)

text \<open>Calls made in addition, none of which satisfies \<open>P\<close>.\<close>

definition adds_no :: "(launch_call \<Rightarrow> bool) \<Rightarrow> launch_call list \<Rightarrow> launch_call list \<Rightarrow> bool" where
  "adds_no P t t' \<longleftrightarrow> (\<exists>cs. t' = t @ cs \<and> (\<forall>c \<in> set cs. \<not> P c))"

lemma adds_no_refl [simp]: "adds_no P t t"
  by (simp add: adds_no_def)

lemma adds_no_snoc: "\<not> P c \<Longrightarrow> adds_no P t t' \<Longrightarrow> adds_no P t (t' @ [c])"
  by (auto simp: adds_no_def)

lemma keeps_ext [keeps_intros]: "\<not> P c \<Longrightarrow> adds_no P t0 t \<Longrightarrow> keeps (adds_no P t0) (ext E c t)"
  by (simp add: keeps_def adds_no_snoc)

lemma keeps_ext_val [keeps_intros]: "\<not> P c \<Longrightarrow> adds_no P t0 t \<Longrightarrow> keeps (adds_no P t0) (ext_val E c v t)"
  by (simp add: keeps_def adds_no_snoc)

lemma mount_list_keeps [keeps_intros]: "adds_no is_run t0 t \<Longrightarrow> keeps (adds_no is_run t0) (mount_list E ms t)"
proof (induction ms arbitrary: t)
  case (Cons m ms)
  obtain a b c n d where m: "m = (a, b, c, n, d)" by (cases m)
  show ?case unfolding m mount_list.simps by (intro keeps_intros Cons.IH) (simp_all add: Cons.prems)
qed simp

lemma setupFilesystem_keeps [keeps_intros]: "adds_no is_run t0 t \<Longrightarrow> keeps (adds_no is_run t0) (setupFilesystem E config t)"
  unfolding setupFilesystem_def by (intro keeps_intros) simp_all

text \<open>The calls of a file system that was set up.\<close>

definition mount_calls :: "(string \<times> string \<times> string \<times> nat \<times> string) list \<Rightarrow> launch_call list" where
  "mount_calls ms = concat (map (\<lambda>(source, target, fstype, flags, data). [LMkdirAll target 0x1A4, LMount source target fstype flags data]) ms)"

lemma mount_list_Ok: "mount_list E ms t = (Ok u, t') \<Longrightarrow> t' = t @ mount_calls ms"
proof (induction ms arbitrary: t)
  case Nil
  then show ?case by (simp add: mount_calls_def)
next
  case (Cons m ms)
  obtain a b c n d where m: "m = (a, b, c, n, d)" by (cases m)
  from Cons.prems have "mount_list E ms (t @ [LMkdirAll b 0x1A4, LMount a b c n d]) = (Ok u, t')"
    unfolding m mount_list.simps by (auto split: flow_asm)
  from Cons.IH [OF this] show ?case by (simp add: m mount_calls_def)
qed

lemma setupFilesystem_Ok: "setupFilesystem E config t = (Ok u, t') \<Longrightarrow>
    t' = t @ [LMkdirAll (rootDir config) 0x1A4] @ mount_calls (container_mounts config) @ [LChroot (rootDir config)]"
  unfolding setupFilesystem_def by (auto split: flow_asm dest!: mount_list_Ok)

text \<open>The command: nothing but it is run, as the user found and with that user's home.\<close>

definition runs_as :: "init_container_config \<Rightarrow> user \<Rightarrow> exec_spec \<Rightarrow> bool" where
  "runs_as config u ex \<longleftrightarrow> csCommand (icSpec config) = Some (exCommand ex) \<and>
     (\<exists>env uid gid. csEnv (icSpec config) = Some env \<and> exEnv ex = env(''HOME'' \<mapsto> usHomeDir u) \<and>
        Atoi (usUid u) = Ok uid \<and> Atoi (usGid u) = Ok gid \<and> exUid ex = of_int uid \<and> exGid ex = of_int gid \<and> exGroups ex = [of_int gid])"

lemma exec_command_run:
  assumes "exec_command E config u t = (r, t')" "t' \<noteq> t"
  shows "\<exists>ex. t' = t @ [LRun ex] \<and> runs_as config u ex"
  using assms by (auto simp: exec_command_def runs_as_def Let_def split: flow_asm option.splits list.splits)

lemma before_command_keeps:
  assumes "\<not> P (LSethostname h)" "\<And>a b n. \<not> P (LWriteFile a b n)" "adds_no P t0 t" "h = (case csName (icSpec config) of None \<Rightarrow> icContainerID config | Some n \<Rightarrow> n)"
  shows "keeps (adds_no P t0) (setupNetworking E config t)"
  unfolding setupNetworking_def Let_def using assms by (intro keeps_intros) simp_all

text \<open>The user the command should run as, found or the built-in root.\<close>

definition found_user :: "('e) launch_env_scheme \<Rightarrow> init_container_config \<Rightarrow> launch_call list \<Rightarrow> user \<Rightarrow> bool" where
  "found_user E config t u \<longleftrightarrow> (let name = (case csUser (icSpec config) of None \<Rightarrow> ''root'' | Some n \<Rightarrow> n) in
     u = le_user E t \<and> env_err E t (LLookup name) = None \<or> name = ''root'' \<and> u = default_user \<and> env_err E t (LLookup name) \<noteq> None)"

abbreviation harmless :: "launch_call list \<Rightarrow> bool" where
  "harmless cs \<equiv> \<forall>c \<in> set cs. \<not> is_run c \<and> \<not> is_chroot c"

lemma target_user_cases:
  assumes "target_user E name t = (r, t')"
  shows "t' = t @ [LLookup name] \<and> (\<forall>u. r = Ok u \<longrightarrow> u = le_user E t \<and> env_err E t (LLookup name) = None \<or>
    name = ''root'' \<and> u = default_user \<and> env_err E t (LLookup name) \<noteq> None) \<and> (\<forall>p. r \<noteq> Panic p)"
  using assms by (auto simp: target_user_def split: flow_asm if_splits)

lemma start_command_run:
  assumes "start_command E config t = (r, t')"
  shows "\<exists>cs. harmless cs \<and> (t' = t @ cs \<or>
    (\<exists>ex u. t' = t @ cs @ [LRun ex] \<and> runs_as config u ex \<and> found_user E config (t @ butlast cs) u))"
proof -
  let ?P = "\<lambda>c. is_run c \<or> is_chroot c"
  let ?d = "case csWorkingDir (icSpec config) of None \<Rightarrow> ''/'' | Some d \<Rightarrow> d"
  let ?n = "case csUser (icSpec config) of None \<Rightarrow> ''root'' | Some u \<Rightarrow> u"
  obtain r1 t1 where 1: "setupNetworking E config t = (r1, t1)" by fastforce
  have "keeps (adds_no ?P t) (setupNetworking E config t)" by (rule before_command_keeps) simp_all
  then obtain c1 where c1: "t1 = t @ c1" "harmless c1" by (auto simp: 1 adds_no_def)
  show ?thesis
  proof (cases "\<exists>u. r1 = Ok u \<and> env_err E t1 (LChdir ?d) = None")
    case False
    then have "t' = t1 \<or> t' = t1 @ [LChdir ?d]"
      using assms 1 by (auto simp: start_command_def Let_def split: flow_asm)
    with c1 show ?thesis by (intro exI [of _ "drop (length t) t'"]) auto
  next
    case True
    let ?t2 = "t1 @ [LChdir ?d]" and ?cs = "c1 @ [LChdir ?d, LLookup ?n]"
    obtain r3 t3 where 3: "target_user E ?n ?t2 = (r3, t3)" by fastforce
    note u = target_user_cases [OF 3]
    have rest: "tryE id (r3, t3) (\<lambda>u t. exec_command E config u t) = (r, t')"
      using assms 1 3 True by (auto simp: start_command_def Let_def tryE_def catchE_def [of "ext E _ _"] ext_def split: res.splits)
    have t3: "t3 = t @ ?cs" "harmless ?cs" using u c1 by simp_all
    show ?thesis
    proof (cases "t' = t3")
      case True
      with t3 show ?thesis by blast
    next
      case False
      then obtain user where x: "r3 = Ok user" "exec_command E config user t3 = (r, t')"
        using rest by (cases r3) auto
      from exec_command_run [OF x(2) False] obtain ex where ex: "t' = t3 @ [LRun ex]" "runs_as config user ex" by blast
      have "found_user E config (t @ butlast ?cs) user"
        using u x(1) c1 by (auto simp: found_user_def Let_def butlast_append)
      with ex t3 show ?thesis by (intro exI [of _ ?cs]) (auto simp del: butlast.simps)
    qed
  qed
qed

text \<open>
  C13: a container's command is run last, as the user found for it, with the command and
  environment of its configuration; it runs in a root directory of its own, with the six file
  systems mounted before, exactly if that directory did not exist when the program looked: a
  container that is started again runs in the root file system of the virtual machine.
\<close>

theorem command_isolated:
  assumes "Launcher_Start E config [] = (r, t)" and "\<exists>c \<in> set t. is_run c"
  shows "\<exists>ex u root cs. t = [LStat (rootDir config)] @ root @ cs @ [LRun ex] \<and> harmless cs \<and> runs_as config u ex \<and>
    found_user E config ([LStat (rootDir config)] @ root @ butlast cs) u \<and>
    root = (if \<exists>e. env_err E [] (LStat (rootDir config)) = Some e \<and> le_not_exist E e
      then [LMkdirAll (rootDir config) 0x1A4] @ mount_calls (container_mounts config) @ [LChroot (rootDir config)] else [])"
proof -
  let ?stat = "[LStat (rootDir config)]"
  show ?thesis
  proof (cases "\<exists>e. env_err E [] (LStat (rootDir config)) = Some e \<and> le_not_exist E e")
    case False
    then have "start_command E config ?stat = (r, t)"
      using assms(1) by (auto simp: Launcher_Start_def catchE_def ext_def split: option.splits)
    from start_command_run [OF this] assms(2) False show ?thesis by fastforce
  next
    case True
    then have s: "tryE (Wrap ''failed to setup filesystem'') (setupFilesystem E config ?stat) (\<lambda>_ t. start_command E config t) = (r, t)"
      using assms(1) by (auto simp: Launcher_Start_def catchE_def [of "ext E _ _"] ext_def)
    have "keeps (adds_no is_run ?stat) (setupFilesystem E config ?stat)" by (intro keeps_intros) simp
    then have "\<not> (\<exists>c \<in> set (snd (setupFilesystem E config ?stat)). is_run c)" by (auto simp: keeps_def adds_no_def)
    with s assms(2) obtain t1 where 1: "setupFilesystem E config ?stat = (Ok (), t1)" "start_command E config t1 = (r, t)"
      by (cases "setupFilesystem E config ?stat"; cases "fst (setupFilesystem E config ?stat)") auto
    from start_command_run [OF 1(2)] setupFilesystem_Ok [OF 1(1)] assms(2) True show ?thesis
      by (fastforce simp: mount_calls_def)
  qed
qed

text \<open>The witness: a first start.\<close>

definition first_start_env :: launch_env where
  "first_start_env = \<lparr>env_err = \<lambda>_ c. case c of LStat _ \<Rightarrow> Some (External ''no such file or directory'') | _ \<Rightarrow> None,
     env_now = length, env_id = \<lambda>_. [], le_not_exist = \<lambda>_. True, le_user = \<lambda>_. default_user\<rparr>"

definition echo_config :: init_container_config where
  "echo_config = \<lparr>icSpec = \<lparr>csName = None, csImage = ''app'', csEnv = Some Map.empty, csCommand = Some [''echo'', ''hi''], csUser = None,
     csHealthcheck = None, csWorkingDir = None, csRestart = None\<rparr>, icContainerID = ''c1'', icVolume = ''/dev/vda''\<rparr>"

theorem command_isolated_witness:
  "\<exists>ex u cs. snd (Launcher_Start first_start_env echo_config []) =
     [LStat ''/mnt/c1'', LMkdirAll ''/mnt/c1'' 0x1A4] @ mount_calls (container_mounts echo_config) @ [LChroot ''/mnt/c1''] @ cs @ [LRun ex] \<and>
     runs_as echo_config u ex"
proof -
  have a: "Atoi ''0'' = Ok 0" by (simp add: Atoi_def is_digit_def undec_def digit_val_def)
  obtain r t where s: "Launcher_Start first_start_env echo_config [] = (r, t)" by fastforce
  have "\<exists>c \<in> set t. is_run c"
    using s by (auto simp: Launcher_Start_def first_start_env_def ext_def ext_val_def setupFilesystem_def container_mounts_def Let_def
        start_command_def setupNetworking_def target_user_def exec_command_def echo_config_def default_user_def a)
  from command_isolated [OF s this] s show ?thesis
    by (auto simp: first_start_env_def rootDir_def echo_config_def)
qed

text \<open>When the directory is there, as on every further start, the root directory is not changed.\<close>

lemma later_starts_not_isolated:
  assumes "Launcher_Start E config [] = (r, t)" "env_err E [] (LStat (rootDir config)) = None"
  shows "\<not> (\<exists>c \<in> set t. is_chroot c)"
proof -
  have "start_command E config [LStat (rootDir config)] = (r, t)"
    using assms by (simp add: Launcher_Start_def catchE_def ext_def)
  from start_command_run [OF this] show ?thesis by auto
qed

end
