(* ===== verification/Json.thy ===== *)
theory Json
  imports GoLib "HOL-Library.Char_ord" "HOL-Library.List_Lexorder"
begin

text \<open>
  \<^verbatim>\<open>encoding/json\<close> as the programs use it: Go values of the types that occur are written as JSON values
  and read back into a Go value, which may already hold something.  A codec is the pair of the two
  with the zero value of the type.  Strings are byte strings; bytes that are not UTF-8 are replaced
  when a string is written.  The text of a JSON value, its spaces and escapes, is not modelled.
\<close>

section \<open>Values and codecs\<close>

text \<open>\<open>JFrac\<close> is a number that is not an integer, as it is written.\<close>

datatype json =
    JNull
  | JBool bool
  | JNum int
  | JFrac string
  | JStr string
  | JArr "json list"
  | JObj "(string \<times> json) list"

record 'a codec =
  enc_json :: "'a \<Rightarrow> json res"
  dec_json :: "json \<Rightarrow> 'a \<Rightarrow> 'a res"
  zero_of :: 'a

definition unmarshal_type_error :: gerror where
  "unmarshal_type_error = External ''json: cannot unmarshal value''"

fun res_map :: "('a \<Rightarrow> 'b) \<Rightarrow> 'a res \<Rightarrow> 'b res" where
  "res_map f (Ok x) = Ok (f x)"
| "res_map f (Err e) = Err e"
| "res_map f (Panic p) = Panic p"

fun res_bind :: "'a res \<Rightarrow> ('a \<Rightarrow> 'b res) \<Rightarrow> 'b res" where
  "res_bind (Ok x) f = f x"
| "res_bind (Err e) f = Err e"
| "res_bind (Panic p) f = Panic p"

fun res_list :: "('a \<Rightarrow> 'b res) \<Rightarrow> 'a list \<Rightarrow> 'b list res" where
  "res_list f [] = Ok []"
| "res_list f (x # xs) = res_bind (f x) (\<lambda>y. res_map ((#) y) (res_list f xs))"

lemma res_map_Ok [simp]: "res_map f r = Ok y \<longleftrightarrow> (\<exists>x. r = Ok x \<and> y = f x)"
  by (cases r) auto

lemma res_bind_Ok [simp]: "res_bind r f = Ok y \<longleftrightarrow> (\<exists>x. r = Ok x \<and> f x = Ok y)"
  by (cases r) auto

lemma res_list_Ok: "res_list f xs = Ok ys \<longleftrightarrow> list_all2 (\<lambda>x y. f x = Ok y) xs ys"
  by (induction xs arbitrary: ys) (auto simp: list_all2_Cons1)

text \<open>A value written by one program is read by another into a fresh variable as \<open>y\<close>.\<close>

definition transports :: "'a codec \<Rightarrow> 'a \<Rightarrow> 'a \<Rightarrow> bool" where
  "transports c x y \<longleftrightarrow> (\<exists>j. enc_json c x = Ok j \<and> dec_json c j (zero_of c) = Ok y)"

lemma transports_determined: "transports c x y \<Longrightarrow> transports c x z \<Longrightarrow> y = z"
  by (auto simp: transports_def)

text \<open>
  The contract of a codec: the valid values come back as \<open>norm\<close> says, and are never written as \<^verbatim>\<open>null\<close>,
  so that pointers, slices and maps of them can be told from nil.
\<close>

locale json_law =
  fixes c :: "'a codec" and valid :: "'a \<Rightarrow> bool" and norm :: "'a \<Rightarrow> 'a"
  assumes transported: "valid x \<Longrightarrow> transports c x (norm x)"

locale json_element =
  fixes c :: "'a codec" and valid :: "'a \<Rightarrow> bool" and norm :: "'a \<Rightarrow> 'a"
  assumes arrives: "valid x \<Longrightarrow> transports c x (norm x)"
    and not_null: "valid x \<Longrightarrow> enc_json c x \<noteq> Ok JNull"

section \<open>Basic types\<close>

text \<open>The length of the character that \<^verbatim>\<open>utf8.DecodeRune\<close> finds at the start, if there is one.\<close>

abbreviation byte_in :: "nat \<Rightarrow> nat \<Rightarrow> char \<Rightarrow> bool" where
  "byte_in a b c \<equiv> a \<le> of_char c \<and> of_char c \<le> b"

definition rune_length :: "string \<Rightarrow> nat option" where
  "rune_length s = (case s of
      [] \<Rightarrow> None
    | c # t \<Rightarrow>
        if byte_in 0 0x7F c then Some 1
        else if byte_in 0xC2 0xDF c \<and> t \<noteq> [] \<and> byte_in 0x80 0xBF (t ! 0) then Some 2
        else if byte_in 0xE0 0xEF c \<and> 2 \<le> length t \<and> byte_in (if of_char c = (0xE0 :: nat) then 0xA0 else 0x80)
          (if of_char c = (0xED :: nat) then 0x9F else 0xBF) (t ! 0) \<and> byte_in 0x80 0xBF (t ! 1) then Some 3
        else if byte_in 0xF0 0xF4 c \<and> 3 \<le> length t \<and> byte_in (if of_char c = (0xF0 :: nat) then 0x90 else 0x80)
          (if of_char c = (0xF4 :: nat) then 0x8F else 0xBF) (t ! 0) \<and> byte_in 0x80 0xBF (t ! 1) \<and> byte_in 0x80 0xBF (t ! 2) then Some 4
        else None)"

lemma rune_length_pos: "rune_length s = Some n \<Longrightarrow> 0 < n \<and> s \<noteq> []"
  by (auto simp: rune_length_def split: list.splits if_splits)

function utf8_coerce :: "string \<Rightarrow> string" where
  "utf8_coerce s = (if s = [] then [] else (case rune_length s of
      Some n \<Rightarrow> take n s @ utf8_coerce (drop n s)
    | None \<Rightarrow> [CHR 0xEF, CHR 0xBF, CHR 0xBD] @ utf8_coerce (tl s)))"
  by pat_completeness auto

termination
  by (relation "measure length") (auto dest: rune_length_pos)

declare utf8_coerce.simps [simp del]

definition utf8 :: "string \<Rightarrow> bool" where
  "utf8 s \<longleftrightarrow> utf8_coerce s = s"

lemma utf8_ascii: "list_all (\<lambda>c. of_char c < (128 :: nat)) s \<Longrightarrow> utf8 s"
  unfolding utf8_def
  by (induction s) (simp_all add: utf8_coerce.simps [of "_ # _"] utf8_coerce.simps [of "[]"] rune_length_def)

definition json_string :: "string codec" where
  "json_string = \<lparr>enc_json = \<lambda>s. Ok (JStr (utf8_coerce s)),
     dec_json = \<lambda>j old. (case j of JStr s \<Rightarrow> Ok s | JNull \<Rightarrow> Ok old | _ \<Rightarrow> Err unmarshal_type_error), zero_of = []\<rparr>"

interpretation string: json_element json_string utf8 id
  by unfold_locales (simp_all add: json_string_def transports_def utf8_def)

definition json_bool :: "bool codec" where
  "json_bool = \<lparr>enc_json = \<lambda>b. Ok (JBool b),
     dec_json = \<lambda>j old. (case j of JBool b \<Rightarrow> Ok b | JNull \<Rightarrow> Ok old | _ \<Rightarrow> Err unmarshal_type_error), zero_of = False\<rparr>"

interpretation bool: json_element json_bool "\<lambda>_. True" id
  by unfold_locales (simp_all add: json_bool_def transports_def)

text \<open>Unsigned and signed integers of the width of the type; a number out of its range is an error.\<close>

definition json_uint :: "'w::len word codec" where
  "json_uint = \<lparr>enc_json = \<lambda>n. Ok (JNum (uint n)),
     dec_json = \<lambda>j old. (case j of
        JNum n \<Rightarrow> if 0 \<le> n \<and> n < 2 ^ LENGTH('w) then Ok (word_of_int n) else Err unmarshal_type_error
      | JNull \<Rightarrow> Ok old
      | _ \<Rightarrow> Err unmarshal_type_error), zero_of = 0\<rparr>"

interpretation uint: json_element json_uint "\<lambda>_. True" id
  by unfold_locales (simp_all add: json_uint_def transports_def)

definition json_int :: "'w::len word codec" where
  "json_int = \<lparr>enc_json = \<lambda>n. Ok (JNum (sint n)),
     dec_json = \<lambda>j old. (case j of
        JNum n \<Rightarrow> if - (2 ^ (LENGTH('w) - 1)) \<le> n \<and> n < 2 ^ (LENGTH('w) - 1) then Ok (word_of_int n) else Err unmarshal_type_error
      | JNull \<Rightarrow> Ok old
      | _ \<Rightarrow> Err unmarshal_type_error), zero_of = 0\<rparr>"

interpretation int: json_element json_int "\<lambda>_. True" id
  by unfold_locales (simp_all add: json_int_def transports_def sint_greater_eq sint_less)

section \<open>Pointers, slices, maps\<close>

text \<open>A pointer: \<^verbatim>\<open>null\<close> makes it nil, another value is read into what it points to.\<close>

definition json_ptr :: "'a codec \<Rightarrow> 'a option codec" where
  "json_ptr c = \<lparr>enc_json = \<lambda>p. (case p of None \<Rightarrow> Ok JNull | Some x \<Rightarrow> enc_json c x),
     dec_json = \<lambda>j old. (if j = JNull then Ok None
       else res_map Some (dec_json c j (case old of None \<Rightarrow> zero_of c | Some x \<Rightarrow> x))), zero_of = None\<rparr>"

text \<open>A slice, whose elements are read anew; nil is \<^verbatim>\<open>null\<close>.\<close>

definition json_slice :: "'a codec \<Rightarrow> 'a list option codec" where
  "json_slice c = \<lparr>enc_json = \<lambda>l. (case l of None \<Rightarrow> Ok JNull | Some xs \<Rightarrow> res_map JArr (res_list (enc_json c) xs)),
     dec_json = \<lambda>j old. (case j of
        JNull \<Rightarrow> Ok None
      | JArr js \<Rightarrow> res_map Some (res_list (\<lambda>j. dec_json c j (zero_of c)) js)
      | _ \<Rightarrow> Err unmarshal_type_error), zero_of = None\<rparr>"

text \<open>A map with string keys, written in the order of the keys; entries are added to the map that is there.\<close>

fun map_entries :: "'a codec \<Rightarrow> (string \<times> json) list \<Rightarrow> (string \<rightharpoonup> 'a) \<Rightarrow> (string \<rightharpoonup> 'a) res" where
  "map_entries c [] m = Ok m"
| "map_entries c ((k, j) # kvs) m = res_bind (dec_json c j (zero_of c)) (\<lambda>x. map_entries c kvs (m(k \<mapsto> x)))"

definition json_map :: "'a codec \<Rightarrow> (string \<rightharpoonup> 'a) option codec" where
  "json_map c = \<lparr>enc_json = \<lambda>m. (case m of
        None \<Rightarrow> Ok JNull
      | Some m \<Rightarrow> res_map JObj (res_list (\<lambda>k. res_map (Pair (utf8_coerce k)) (enc_json c (the (m k)))) (sorted_list_of_set (dom m)))),
     dec_json = \<lambda>j old. (case j of
        JNull \<Rightarrow> Ok None
      | JObj kvs \<Rightarrow> res_map Some (map_entries c kvs (case old of None \<Rightarrow> Map.empty | Some m \<Rightarrow> m))
      | _ \<Rightarrow> Err unmarshal_type_error), zero_of = None\<rparr>"

definition valid_map :: "('a \<Rightarrow> bool) \<Rightarrow> (string \<rightharpoonup> 'a) \<Rightarrow> bool" where
  "valid_map P m \<longleftrightarrow> finite (dom m) \<and> (\<forall>k \<in> dom m. utf8 k) \<and> (\<forall>x \<in> ran m. P x)"

lemma map_entries_all:
  assumes "list_all2 (\<lambda>k e. \<exists>j. e = (k, j) \<and> dec_json c j (zero_of c) = Ok (v k)) ks es"
  shows "map_entries c es m = Ok (\<lambda>k. if k \<in> set ks then Some (v k) else m k)"
  using assms by (induction ks es arbitrary: m rule: list_all2_induct) (auto simp: fun_eq_iff)

context json_element begin

lemma ptr_transports: "pred_option valid p \<Longrightarrow> transports (json_ptr c) p (map_option norm p)"
proof (cases p)
  case (Some x)
  moreover assume "pred_option valid p"
  ultimately obtain j where "enc_json c x = Ok j" "dec_json c j (zero_of c) = Ok (norm x)" "j \<noteq> JNull"
    using arrives [of x] not_null [of x] by (auto simp: transports_def)
  then show ?thesis by (simp add: Some transports_def json_ptr_def)
qed (simp add: transports_def json_ptr_def)

lemma slice_transports: "pred_option (list_all valid) l \<Longrightarrow> transports (json_slice c) l (map_option (map norm) l)"
proof (cases l)
  case (Some xs)
  moreover assume "pred_option (list_all valid) l"
  ultimately have "\<forall>x \<in> set xs. \<exists>j. enc_json c x = Ok j \<and> dec_json c j (zero_of c) = Ok (norm x)"
    using arrives by (auto simp: transports_def list_all_iff)
  then obtain j where "\<forall>x \<in> set xs. enc_json c x = Ok (j x) \<and> dec_json c (j x) (zero_of c) = Ok (norm x)" by metis
  then have "res_list (enc_json c) xs = Ok (map j xs)" "res_list (\<lambda>j. dec_json c j (zero_of c)) (map j xs) = Ok (map norm xs)"
    by (simp_all add: res_list_Ok list_all2_conv_all_nth)
  then show ?thesis by (simp add: Some transports_def json_slice_def)
qed (simp add: transports_def json_slice_def)

lemma map_transports: "pred_option (valid_map valid) m \<Longrightarrow> transports (json_map c) m (map_option (\<lambda>m. map_option norm \<circ> m) m)"
proof (cases m)
  case (Some f)
  moreover assume "pred_option (valid_map valid) m"
  ultimately have f: "finite (dom f)" "\<And>k. k \<in> dom f \<Longrightarrow> utf8 k" "\<And>k. k \<in> dom f \<Longrightarrow> valid (the (f k))"
    by (auto simp: valid_map_def ran_def)
  let ?ks = "sorted_list_of_set (dom f)" and ?v = "\<lambda>k. the (f k)"
  have "\<forall>k \<in> dom f. \<exists>j. enc_json c (?v k) = Ok j \<and> dec_json c j (zero_of c) = Ok (norm (?v k))"
    using arrives f(3) by (auto simp: transports_def)
  then obtain j where j: "\<forall>k \<in> dom f. enc_json c (?v k) = Ok (j k) \<and> dec_json c (j k) (zero_of c) = Ok (norm (?v k))" by metis
  have ks: "set ?ks = dom f" using f(1) by simp
  have "\<forall>k \<in> set ?ks. res_map (Pair (utf8_coerce k)) (enc_json c (?v k)) = Ok (k, j k)"
    using j f(2) ks by (auto simp: utf8_def)
  then have e: "res_list (\<lambda>k. res_map (Pair (utf8_coerce k)) (enc_json c (?v k))) ?ks = Ok (map (\<lambda>k. (k, j k)) ?ks)"
    by (simp add: res_list_Ok list_all2_conv_all_nth)
  have "list_all2 (\<lambda>k e. \<exists>j. e = (k, j) \<and> dec_json c j (zero_of c) = Ok (norm (?v k))) ?ks (map (\<lambda>k. (k, j k)) ?ks)"
    using j ks nth_mem [of _ ?ks] by (auto simp: list_all2_conv_all_nth simp del: length_sorted_list_of_set)
  from map_entries_all [OF this, of Map.empty]
  have "map_entries c (map (\<lambda>k. (k, j k)) ?ks) Map.empty = Ok (map_option norm \<circ> f)"
    by (auto simp: ks fun_eq_iff domIff)
  with e show ?thesis by (simp add: Some transports_def json_map_def)
qed (simp add: transports_def json_map_def)

end

sublocale json_element \<subseteq> ptr: json_law "json_ptr c" "pred_option valid" "map_option norm"
  by unfold_locales (rule ptr_transports)

sublocale json_element \<subseteq> slice: json_law "json_slice c" "pred_option (list_all valid)" "map_option (map norm)"
  by unfold_locales (rule slice_transports)

sublocale json_element \<subseteq> map: json_law "json_map c" "pred_option (valid_map valid)" "map_option (\<lambda>m. map_option norm \<circ> m)"
  by unfold_locales (rule map_transports)

sublocale json_element \<subseteq> plain: json_law c valid norm
  by unfold_locales (rule arrives)

text \<open>A named type that is another one in disguise, and a slice whose nil is not told from the empty one.\<close>

definition json_via :: "('a \<Rightarrow> 'b) \<Rightarrow> ('b \<Rightarrow> 'a) \<Rightarrow> 'b codec \<Rightarrow> 'a codec" where
  "json_via f g c = \<lparr>enc_json = \<lambda>x. enc_json c (f x), dec_json = \<lambda>j old. res_map g (dec_json c j (f old)), zero_of = g (zero_of c)\<rparr>"

definition json_list :: "'a codec \<Rightarrow> 'a list codec" where
  "json_list c = json_via Some (\<lambda>l. case l of None \<Rightarrow> [] | Some xs \<Rightarrow> xs) (json_slice c)"

definition json_dict :: "'a codec \<Rightarrow> (string \<rightharpoonup> 'a) codec" where
  "json_dict c = json_via Some (\<lambda>m. case m of None \<Rightarrow> Map.empty | Some m \<Rightarrow> m) (json_map c)"

lemma json_via_transports:
  assumes "transports c (f x) y" "f (g (zero_of c)) = zero_of c"
  shows "transports (json_via f g c) x (g y)"
  using assms by (auto simp: transports_def json_via_def)

context json_element begin

lemma list_transports: "list_all valid xs \<Longrightarrow> transports (json_list c) xs (map norm xs)"
  using slice_transports [of "Some xs"] by (auto simp: transports_def json_list_def json_via_def json_slice_def split: json.splits)

lemma list_not_null: "enc_json (json_list c) xs \<noteq> Ok JNull"
  by (simp add: json_list_def json_via_def json_slice_def)

lemma list_element: "json_element (json_list c) (list_all valid) (map norm)"
  by (rule json_element.intro) (simp_all add: list_transports list_not_null)

lemma dict_element: "json_element (json_dict c) (valid_map valid) (\<lambda>m. map_option norm \<circ> m)"
proof (rule json_element.intro)
  fix m assume "valid_map valid m"
  then show "transports (json_dict c) m (map_option norm \<circ> m)"
    using map_transports [of "Some m"] by (auto simp: transports_def json_dict_def json_via_def json_map_def split: json.splits)
qed (simp add: json_dict_def json_via_def json_map_def)

end

text \<open>A value of any kind.\<close>

definition json_any :: "json codec" where
  "json_any = \<lparr>enc_json = Ok, dec_json = \<lambda>j old. Ok j, zero_of = JNull\<rparr>"

interpretation any: json_element json_any "\<lambda>j. j \<noteq> JNull" id
  by unfold_locales (simp_all add: json_any_def transports_def)

lemma id_maps: "map_option ((\<circ>) (map_option id)) = id" "map_option (\<lambda>m. m) = id" "map_option id = id"
    "map_option (map id) = id" "(\<lambda>m. map_option id \<circ> m) = id" "map id = id"
  by (auto simp: fun_eq_iff map_option_case option.map_id list.map_id comp_def split: option.splits)

section \<open>Structs\<close>

text \<open>
  A field knows its key, how its value is written (not at all if it is left out) and how a value for
  its key is read into the struct.  \<open>optional\<close> is a pointer with the option \<^verbatim>\<open>omitempty\<close>, \<open>promoted\<close> a
  field of an embedded struct.
\<close>

record 'r field =
  fdName :: string
  fdEnc :: "'r \<Rightarrow> json option res"
  fdDec :: "json \<Rightarrow> 'r \<Rightarrow> 'r res"

definition field :: "string \<Rightarrow> ('r \<Rightarrow> 'a) \<Rightarrow> (('a \<Rightarrow> 'a) \<Rightarrow> 'r \<Rightarrow> 'r) \<Rightarrow> 'a codec \<Rightarrow> 'r field" where
  "field name get upd c = \<lparr>fdName = name, fdEnc = \<lambda>r. res_map Some (enc_json c (get r)),
     fdDec = \<lambda>j r. res_map (\<lambda>x. upd (\<lambda>_. x) r) (dec_json c j (get r))\<rparr>"

definition optional :: "string \<Rightarrow> ('r \<Rightarrow> 'a option) \<Rightarrow> (('a option \<Rightarrow> 'a option) \<Rightarrow> 'r \<Rightarrow> 'r) \<Rightarrow> 'a codec \<Rightarrow> 'r field" where
  "optional name get upd c = (field name get upd (json_ptr c))\<lparr>fdEnc := \<lambda>r. (case get r of
     None \<Rightarrow> Ok None | Some x \<Rightarrow> res_map Some (enc_json c x))\<rparr>"

definition promoted :: "('r \<Rightarrow> 'a) \<Rightarrow> (('a \<Rightarrow> 'a) \<Rightarrow> 'r \<Rightarrow> 'r) \<Rightarrow> 'a field \<Rightarrow> 'r field" where
  "promoted get upd f = \<lparr>fdName = fdName f, fdEnc = \<lambda>r. fdEnc f (get r),
     fdDec = \<lambda>j r. res_map (\<lambda>x. upd (\<lambda>_. x) r) (fdDec f j (get r))\<rparr>"

text \<open>Keys are compared without regard to case when none is equal; two other characters fold to letters.\<close>

fun fold_name :: "string \<Rightarrow> string" where
  "fold_name [] = []"
| "fold_name (c # s) =
    (if c = CHR 0xE2 \<and> take 2 s = [CHR 0x84, CHR 0xAA] then CHR ''K'' # fold_name (drop 2 s)
     else if c = CHR 0xC5 \<and> take 1 s = [CHR 0xBF] then CHR ''S'' # fold_name (drop 1 s)
     else (if byte_in 0x61 0x7A c then char_of (of_char c - 32 :: nat) else c) # fold_name s)"

definition find_field :: "'r field list \<Rightarrow> string \<Rightarrow> 'r field option" where
  "find_field fs k = (case find (\<lambda>f. fdName f = k) fs of
      Some f \<Rightarrow> Some f
    | None \<Rightarrow> find (\<lambda>f. fold_name (fdName f) = fold_name k) fs)"

fun enc_fields :: "'r field list \<Rightarrow> 'r \<Rightarrow> (string \<times> json) list res" where
  "enc_fields [] r = Ok []"
| "enc_fields (f # fs) r = res_bind (fdEnc f r) (\<lambda>v. res_map (\<lambda>kvs. (case v of None \<Rightarrow> [] | Some j \<Rightarrow> [(fdName f, j)]) @ kvs) (enc_fields fs r))"

fun dec_entries :: "'r field list \<Rightarrow> (string \<times> json) list \<Rightarrow> 'r \<Rightarrow> 'r res" where
  "dec_entries fs [] r = Ok r"
| "dec_entries fs ((k, j) # kvs) r = (case find_field fs k of
      None \<Rightarrow> dec_entries fs kvs r
    | Some f \<Rightarrow> res_bind (fdDec f j r) (dec_entries fs kvs))"

definition json_struct :: "'r field list \<Rightarrow> 'r \<Rightarrow> 'r codec" where
  "json_struct fs zero = \<lparr>enc_json = \<lambda>r. res_map JObj (enc_fields fs r),
     dec_json = \<lambda>j r. (case j of JObj kvs \<Rightarrow> dec_entries fs kvs r | JNull \<Rightarrow> Ok r | _ \<Rightarrow> Err unmarshal_type_error), zero_of = zero\<rparr>"

text \<open>
  The fields one after the other: each is written from one struct and read at once into the other.  A
  struct is transported if its fields are, since their keys differ.
\<close>

fun copy_fields :: "'r field list \<Rightarrow> 'r \<Rightarrow> 'r \<Rightarrow> 'r res" where
  "copy_fields [] x r = Ok r"
| "copy_fields (f # fs) x r = res_bind (fdEnc f x) (\<lambda>v. res_bind (case v of None \<Rightarrow> Ok r | Some j \<Rightarrow> fdDec f j r) (copy_fields fs x))"

lemma copy_fields_dec:
  assumes "copy_fields gs x r = Ok y" "\<And>g. g \<in> set gs \<Longrightarrow> find_field fs (fdName g) = Some g"
  shows "\<exists>kvs. enc_fields gs x = Ok kvs \<and> dec_entries fs kvs r = Ok y"
  using assms
proof (induction gs arbitrary: r)
  case (Cons g gs)
  then obtain v r1 where v: "fdEnc g x = Ok v" "(case v of None \<Rightarrow> Ok r | Some j \<Rightarrow> fdDec g j r) = Ok r1" "copy_fields gs x r1 = Ok y"
    by auto
  with Cons.IH [of r1] Cons.prems(2) obtain kvs where "enc_fields gs x = Ok kvs" "dec_entries fs kvs r1 = Ok y" by auto
  with v Cons.prems(2) show ?case by (cases v) auto
qed simp

lemma find_field_distinct: "distinct (map fdName fs) \<Longrightarrow> f \<in> set fs \<Longrightarrow> find_field fs (fdName f) = Some f"
proof (induction fs)
  case (Cons g fs)
  then have "f = g \<or> fdName g \<noteq> fdName f" "f \<in> set fs \<Longrightarrow> find (\<lambda>h. fdName h = fdName f) fs \<noteq> None"
    by (force simp: find_None_iff)+
  with Cons show ?case by (auto simp: find_field_def split: option.splits)
qed simp

lemma struct_transports:
  assumes "copy_fields fs x z = Ok y" "distinct (map fdName fs)"
  shows "transports (json_struct fs z) x y"
  using copy_fields_dec [OF assms(1), of fs] find_field_distinct [OF assms(2)] by (auto simp: transports_def json_struct_def)

lemma struct_not_null: "enc_json (json_struct fs z) x \<noteq> Ok JNull"
  by (simp add: json_struct_def)

lemma zero_of_struct [simp]: "zero_of (json_struct fs z) = z"
  by (simp add: json_struct_def)

lemma zero_of_simps [simp]:
  "zero_of json_string = []" "zero_of json_bool = False" "zero_of json_uint = 0" "zero_of json_int = 0"
  "zero_of (json_list c) = []" "zero_of (json_dict c) = Map.empty" "zero_of json_any = JNull" "zero_of (json_via f g d) = g (zero_of d)" "zero_of (json_ptr c) = None" "zero_of (json_slice c) = None" "zero_of (json_map c) = None"
  by (simp_all add: json_string_def json_bool_def json_uint_def json_int_def json_ptr_def json_slice_def json_map_def
      json_list_def json_dict_def json_any_def json_via_def)

lemma field_names [simp]: "fdName (field n get upd c) = n" "fdName (optional n get' upd' c) = n" "fdName (promoted g u f) = fdName f"
  by (simp_all add: field_def optional_def promoted_def)

text \<open>One field at a time.\<close>

lemma copy_field:
  assumes "transports c (get x) v" "get r = zero_of c"
  shows "copy_fields (field n get upd c # fs) x r = copy_fields fs x (upd (\<lambda>_. v) r)"
  using assms by (auto simp: field_def transports_def)

lemma copy_optional:
  assumes "json_element c valid norm" "pred_option valid (get x)" "get r = None" "upd (\<lambda>_. None) r = r"
  shows "copy_fields (optional n get upd c # fs) x r = copy_fields fs x (upd (\<lambda>_. map_option norm (get x)) r)"
proof (cases "get x")
  case (Some v)
  with assms json_element.arrives [of c valid norm v] json_element.not_null [of c valid norm v]
  show ?thesis by (auto simp: optional_def field_def transports_def json_ptr_def)
qed (use assms in \<open>simp add: optional_def\<close>)

lemma copy_promoted:
  assumes "copy_fields gs (get x) (get r) = Ok v" "\<And>a b r. upd (\<lambda>_. a) (upd (\<lambda>_. b) r) = upd (\<lambda>_. a) r"
    "\<And>a r. get (upd (\<lambda>_. a) r) = a" "upd (\<lambda>_. get r) r = r"
  shows "copy_fields (map (promoted get upd) gs @ fs) x r = copy_fields fs x (upd (\<lambda>_. v) r)"
  using assms(1,4)
proof (induction gs arbitrary: r)
  case Nil
  then show ?case by simp
next
  case (Cons g gs)
  from Cons.prems obtain w b where w: "fdEnc g (get x) = Ok w" "(case w of None \<Rightarrow> Ok (get r) | Some j \<Rightarrow> fdDec g j (get r)) = Ok b"
      "copy_fields gs (get x) b = Ok v"
    by auto
  let ?r = "upd (\<lambda>_. b) r"
  have "copy_fields (map (promoted get upd) gs @ fs) x ?r = copy_fields fs x (upd (\<lambda>_. v) ?r)"
    by (rule Cons.IH) (simp_all add: assms(2,3) w(3))
  moreover have "fdEnc (promoted get upd g) x = fdEnc g (get x)"
      "fdDec (promoted get upd g) j r = res_map (\<lambda>x. upd (\<lambda>_. x) r) (fdDec g j (get r))" for j
    by (simp_all add: promoted_def)
  ultimately show ?case using w by (cases w) (auto simp: assms(2) Cons.prems(2))
qed

declare copy_fields.simps(2) [simp del]

end
