(* ===== verification/ConfigJson.thy ===== *)
theory ConfigJson
  imports Json IpText
begin

text \<open>
  The configurations that the programs hand to each other as JSON files and arguments
  (\<^verbatim>\<open>core/types\<close>: the node agent's to the runtime, the runtime's to the init process, the init
  process's to the launcher), with the codecs that \<^verbatim>\<open>encoding/json\<close> derives from the Go types.
\<close>

section \<open>Bytes\<close>

text \<open>A byte slice is written in base 64; a reader skips line ends.\<close>

definition b64_char :: "nat \<Rightarrow> char" where
  "b64_char n = (if n < 26 then char_of (65 + n) else if n < 52 then char_of (71 + n) else if n < 62 then char_of (n - 4)
     else if n = 62 then CHR ''+'' else CHR ''/'')"

definition b64_digit :: "char \<Rightarrow> nat option" where
  "b64_digit c = (if byte_in 65 90 c then Some (of_char c - 65) else if byte_in 97 122 c then Some (of_char c - 71)
     else if byte_in 48 57 c then Some (of_char c + 4) else if byte_in 43 43 c then Some 62 else if byte_in 47 47 c then Some 63 else None)"

text \<open>The four digits of three bytes, and the bytes of the digits.\<close>

definition sextet1 :: "8 word \<Rightarrow> nat" where
  "sextet1 a = unat a div 4"

definition sextet2 :: "8 word \<Rightarrow> 8 word \<Rightarrow> nat" where
  "sextet2 a b = unat a mod 4 * 16 + unat b div 16"

definition sextet3 :: "8 word \<Rightarrow> 8 word \<Rightarrow> nat" where
  "sextet3 b c = unat b mod 16 * 4 + unat c div 64"

definition sextet4 :: "8 word \<Rightarrow> nat" where
  "sextet4 c = unat c mod 64"

definition octet1 :: "nat \<Rightarrow> nat \<Rightarrow> 8 word" where
  "octet1 i j = of_nat (i * 4 + j div 16)"

definition octet2 :: "nat \<Rightarrow> nat \<Rightarrow> 8 word" where
  "octet2 j k = of_nat (j mod 16 * 16 + k div 4)"

definition octet3 :: "nat \<Rightarrow> nat \<Rightarrow> 8 word" where
  "octet3 k l = of_nat (k mod 4 * 64 + l)"

fun b64_enc :: "8 word list \<Rightarrow> string" where
  "b64_enc [] = []"
| "b64_enc [a] = [b64_char (sextet1 a), b64_char (sextet2 a 0), CHR ''='', CHR ''='']"
| "b64_enc [a, b] = [b64_char (sextet1 a), b64_char (sextet2 a b), b64_char (sextet3 b 0), CHR ''='']"
| "b64_enc (a # b # c # bs) = [b64_char (sextet1 a), b64_char (sextet2 a b), b64_char (sextet3 b c), b64_char (sextet4 c)] @ b64_enc bs"

fun b64_groups :: "string \<Rightarrow> 8 word list option" where
  "b64_groups [] = Some []"
| "b64_groups (w # x # y # z # s) = (case (b64_digit w, b64_digit x) of
      (Some i, Some j) \<Rightarrow>
        if z = CHR ''='' then
          if s \<noteq> [] then None
          else if y = CHR ''='' then Some [octet1 i j]
          else map_option (\<lambda>k. [octet1 i j, octet2 j k]) (b64_digit y)
        else (case (b64_digit y, b64_digit z, b64_groups s) of
          (Some k, Some l, Some bs) \<Rightarrow> Some (octet1 i j # octet2 j k # octet3 k l # bs)
        | _ \<Rightarrow> None)
    | _ \<Rightarrow> None)"
| "b64_groups _ = None"

definition b64_dec :: "string \<Rightarrow> 8 word list option" where
  "b64_dec s = b64_groups (filter (\<lambda>c. c \<noteq> CHR 0x0A \<and> c \<noteq> CHR 0x0D) s)"

lemma b64_char_code: "n < 64 \<Longrightarrow> of_char (b64_char n) =
    (if n < 26 then 65 + n else if n < 52 then 71 + n else if n < 62 then n - 4 else if n = 62 then 43 else 47)"
  by (simp add: b64_char_def)

lemma b64_digit_char [simp]: "n < 64 \<Longrightarrow> b64_digit (b64_char n) = Some n"
  by (simp add: b64_digit_def b64_char_code) linarith

lemma b64_char_plain: "n < 64 \<Longrightarrow> b64_char n \<noteq> CHR ''='' \<and> b64_char n \<noteq> CHR 0x0A \<and> b64_char n \<noteq> CHR 0x0D \<and> of_char (b64_char n) < (128 :: nat)"
proof -
  assume n: "n < 64"
  then have c: "of_char (b64_char n) \<in> {43, 47} \<union> {48..57} \<union> {65..90} \<union> {97..122 :: nat}"
    by (auto simp: b64_char_code)
  have "b64_char n \<noteq> d" if "of_char d \<notin> {43, 47} \<union> {48..57} \<union> {65..90} \<union> {97..122 :: nat}" for d
    using c that by auto
  from this [of "CHR ''=''"] this [of "CHR 0x0A"] this [of "CHR 0x0D"] c show ?thesis by auto
qed

lemma byte_quotients: "unat a div 4 < 64" "unat a div 16 < 16" "unat a div 64 < 4" for a :: "8 word"
  using unat_byte_bound [of a] by (simp_all add: less_mult_imp_div_less)

lemma digits_less [simp]: "sextet1 a < 64" "sextet2 a b < 64" "sextet3 b c < 64" "sextet4 c < 64"
proof -
  have "unat a mod 4 < 4" "unat b mod 16 < 16" by simp_all
  then show "sextet1 a < 64" "sextet2 a b < 64" "sextet3 b c < 64" "sextet4 c < 64"
    using byte_quotients(1) [of a] byte_quotients(2) [of b] byte_quotients(3) [of c]
    unfolding sextet1_def sextet2_def sextet3_def sextet4_def by linarith+
qed

lemma bytes_of_digits [simp]: "octet1 (sextet1 a) (sextet2 a b) = a" "octet2 (sextet2 a b) (sextet3 b c) = b" "octet3 (sextet3 b c) (sextet4 c) = c"
proof -
  have q: "sextet2 a b div 16 = unat a mod 4" "sextet2 a b mod 16 = unat b div 16" "sextet3 b c div 4 = unat b mod 16" "sextet3 b c mod 4 = unat c div 64"
    using byte_quotients(2) [of b] byte_quotients(3) [of c] by (simp_all add: sextet2_def sextet3_def)
  have "sextet1 a * 4 + sextet2 a b div 16 = unat a" "sextet2 a b mod 16 * 16 + sextet3 b c div 4 = unat b" "sextet3 b c mod 4 * 64 + sextet4 c = unat c"
    unfolding q by (simp_all add: sextet1_def sextet4_def)
  then show "octet1 (sextet1 a) (sextet2 a b) = a" "octet2 (sextet2 a b) (sextet3 b c) = b" "octet3 (sextet3 b c) (sextet4 c) = c"
    by (simp_all only: octet1_def octet2_def octet3_def of_nat_unat ucast_id)
qed

lemma b64_groups_enc: "b64_groups (b64_enc bs) = Some bs"
  by (induction bs rule: b64_enc.induct) (simp_all add: b64_char_plain)

lemma b64_enc_plain: "list_all (\<lambda>c. c \<noteq> CHR 0x0A \<and> c \<noteq> CHR 0x0D \<and> of_char c < (128 :: nat)) (b64_enc bs)"
  by (induction bs rule: b64_enc.induct) (simp_all add: b64_char_plain)

lemma b64_dec_enc: "b64_dec (b64_enc bs) = Some bs"
proof -
  have "filter (\<lambda>c. c \<noteq> CHR 0x0A \<and> c \<noteq> CHR 0x0D) (b64_enc bs) = b64_enc bs"
    using b64_enc_plain [of bs] by (auto simp: list_all_iff filter_id_conv)
  then show ?thesis by (simp add: b64_dec_def b64_groups_enc)
qed

text \<open>A nil slice is the empty list.\<close>

definition json_bytes :: "8 word list codec" where
  "json_bytes = \<lparr>enc_json = \<lambda>b. Ok (if b = [] then JNull else JStr (b64_enc b)),
     dec_json = \<lambda>j old. (case j of
        JNull \<Rightarrow> Ok []
      | JStr s \<Rightarrow> (case b64_dec s of Some b \<Rightarrow> Ok b | None \<Rightarrow> Err (External ''illegal base64 data''))
      | _ \<Rightarrow> Err unmarshal_type_error), zero_of = []\<rparr>"

interpretation bytes: json_law json_bytes "\<lambda>_. True" id
  by unfold_locales (simp add: transports_def json_bytes_def b64_dec_enc)

section \<open>Addresses\<close>

text \<open>
  \<^verbatim>\<open>net.IP\<close> is written as its text and read by \<^verbatim>\<open>ParseIP\<close>, which gives the form of 16 bytes; the texts
  of IPv6 addresses are parameters.  A network has no text form and is a struct.
\<close>

definition json_ip :: "(ip \<Rightarrow> string) \<Rightarrow> (string \<Rightarrow> ip) \<Rightarrow> ip codec" where
  "json_ip ip6_text parse_ip6 = \<lparr>
     enc_json = \<lambda>a. (if a = [] then Ok (JStr []) else if To4 a \<noteq> None then Ok (JStr (ip_string a))
       else if length a = 16 then Ok (JStr (ip6_text a)) else Err (External ''invalid IP address'')),
     dec_json = \<lambda>j old. (case j of
        JNull \<Rightarrow> Ok []
      | JStr s \<Rightarrow> if s = [] then Ok [] else (case ParseIP parse_ip6 s of [] \<Rightarrow> Err (External ''invalid IP address'') | a \<Rightarrow> Ok a)
      | _ \<Rightarrow> Err unmarshal_type_error), zero_of = []\<rparr>"

definition to16 :: "ip \<Rightarrow> ip" where
  "to16 a = (case To4 a of Some b \<Rightarrow> ipv4_prefix @ b | None \<Rightarrow> a)"

definition ip4_or_nil :: "ip \<Rightarrow> bool" where
  "ip4_or_nil a \<longleftrightarrow> a = [] \<or> To4 a \<noteq> None"

lemma json_ip_element: "json_element (json_ip t p) ip4_or_nil to16"
proof
  fix a
  assume a: "ip4_or_nil a"
  show "transports (json_ip t p) a (to16 a)"
  proof (cases "a = []")
    case True
    then show ?thesis by (simp add: transports_def json_ip_def to16_def To4_def)
  next
    case False
    with a obtain b where b: "To4 a = Some b" by (auto simp: ip4_or_nil_def)
    have "ip_string a \<noteq> []" using parse_ip4_string [OF b] by (auto simp: parse_ip4_def parse_octet_def)
    moreover have "(case ipv4_prefix @ b of [] \<Rightarrow> Err e | x # xs \<Rightarrow> Ok (x # xs)) = Ok (ipv4_prefix @ b)" for e
      by (simp add: ipv4_prefix_def split: list.split)
    ultimately show ?thesis using b False by (simp add: transports_def json_ip_def to16_def ParseIP_string)
  qed
qed (simp add: json_ip_def)

section \<open>\<^verbatim>\<open>core/types/container.go\<close>\<close>

fun policy_string :: "restart_policy \<Rightarrow> string" where
  "policy_string ContainerRestartPolicyUnknown = []"
| "policy_string ContainerRestartPolicyNo = ''no''"
| "policy_string ContainerRestartPolicyOnFailure = ''on_failure''"
| "policy_string ContainerRestartPolicyAlways = ''always''"
| "policy_string (ContainerRestartPolicyOther s) = s"

definition policy_of_string :: "string \<Rightarrow> restart_policy" where
  "policy_of_string s = (if s = [] then ContainerRestartPolicyUnknown else if s = ''no'' then ContainerRestartPolicyNo
     else if s = ''on_failure'' then ContainerRestartPolicyOnFailure else if s = ''always'' then ContainerRestartPolicyAlways
     else ContainerRestartPolicyOther s)"

definition restart_spec_fields :: "restart_spec field list" where
  "restart_spec_fields =
    [field ''Policy'' rsPolicy rsPolicy_update (json_via policy_string policy_of_string json_string),
     field ''MaxRetries'' rsMaxRetries rsMaxRetries_update json_int]"

definition json_restart_spec :: "restart_spec codec" where
  "json_restart_spec = json_struct restart_spec_fields \<lparr>rsPolicy = ContainerRestartPolicyUnknown, rsMaxRetries = 0\<rparr>"

definition http_healthcheck_fields :: "http_healthcheck_spec field list" where
  "http_healthcheck_fields =
    [field ''Method'' hhMethod hhMethod_update json_string,
     field ''Path'' hhPath hhPath_update json_string,
     field ''Port'' hhPort hhPort_update json_int,
     field ''Headers'' hhHeaders hhHeaders_update (json_map json_string)]"

definition json_http_healthcheck :: "http_healthcheck_spec codec" where
  "json_http_healthcheck = json_struct http_healthcheck_fields \<lparr>hhMethod = [], hhPath = [], hhPort = 0, hhHeaders = None\<rparr>"

definition healthcheck_fields :: "healthcheck_spec field list" where
  "healthcheck_fields =
    [field ''InitialDelaySeconds'' hcInitialDelaySeconds hcInitialDelaySeconds_update json_int,
     field ''PeriodSeconds'' hcPeriodSeconds hcPeriodSeconds_update json_int,
     field ''Http'' hcHttp hcHttp_update (json_ptr json_http_healthcheck)]"

definition json_healthcheck :: "healthcheck_spec codec" where
  "json_healthcheck = json_struct healthcheck_fields \<lparr>hcInitialDelaySeconds = 0, hcPeriodSeconds = 0, hcHttp = None\<rparr>"

definition container_spec_fields :: "container_spec field list" where
  "container_spec_fields =
    [field ''Name'' csName csName_update (json_ptr json_string),
     field ''Image'' csImage csImage_update json_string,
     field ''Env'' csEnv csEnv_update (json_map json_string),
     field ''Command'' csCommand csCommand_update (json_slice json_string),
     field ''User'' csUser csUser_update (json_ptr json_string),
     field ''Healthcheck'' csHealthcheck csHealthcheck_update (json_ptr json_healthcheck),
     field ''WorkingDir'' csWorkingDir csWorkingDir_update (json_ptr json_string),
     field ''Restart'' csRestart csRestart_update (json_ptr json_restart_spec)]"

definition zero_container_spec :: container_spec where
  "zero_container_spec = \<lparr>csName = None, csImage = [], csEnv = None, csCommand = None, csUser = None, csHealthcheck = None,
     csWorkingDir = None, csRestart = None\<rparr>"

definition json_container_spec :: "container_spec codec" where
  "json_container_spec = json_struct container_spec_fields zero_container_spec"

text \<open>
  The values that arrive unchanged: their strings are UTF-8, their maps finite, and a policy is not
  one of the named ones in disguise.
\<close>

definition valid_restart_spec :: "restart_spec \<Rightarrow> bool" where
  "valid_restart_spec r \<longleftrightarrow> utf8 (policy_string (rsPolicy r)) \<and> policy_of_string (policy_string (rsPolicy r)) = rsPolicy r"

definition valid_http_healthcheck :: "http_healthcheck_spec \<Rightarrow> bool" where
  "valid_http_healthcheck h \<longleftrightarrow> utf8 (hhMethod h) \<and> utf8 (hhPath h) \<and> pred_option (valid_map utf8) (hhHeaders h)"

definition valid_healthcheck :: "healthcheck_spec \<Rightarrow> bool" where
  "valid_healthcheck h \<longleftrightarrow> pred_option valid_http_healthcheck (hcHttp h)"

definition valid_container_spec :: "container_spec \<Rightarrow> bool" where
  "valid_container_spec s \<longleftrightarrow> pred_option utf8 (csName s) \<and> utf8 (csImage s) \<and> pred_option (valid_map utf8) (csEnv s) \<and>
     pred_option (list_all utf8) (csCommand s) \<and> pred_option utf8 (csUser s) \<and> pred_option valid_healthcheck (csHealthcheck s) \<and>
     pred_option utf8 (csWorkingDir s) \<and> pred_option valid_restart_spec (csRestart s)"

lemmas string_fields = id_maps copy_field [OF string.arrives] copy_field [OF string.ptr_transports] copy_field [OF string.map_transports]
  copy_field [OF string.slice_transports] copy_field [OF int.arrives] copy_field [OF uint.arrives]

lemma policy_of_Nil [simp]: "policy_of_string [] = ContainerRestartPolicyUnknown"
  by (simp add: policy_of_string_def)

lemma policy_transports: "utf8 (policy_string p) \<Longrightarrow> transports (json_via policy_string policy_of_string json_string) p (policy_of_string (policy_string p))"
  using json_via_transports [OF string.arrives, of policy_string p policy_of_string] by simp

interpretation restart: json_element json_restart_spec valid_restart_spec id
proof
  fix r assume r: "valid_restart_spec r"
  show "transports json_restart_spec r (id r)"
    unfolding json_restart_spec_def
    by (rule struct_transports)
      (use r in \<open>simp_all add: restart_spec_fields_def valid_restart_spec_def string_fields copy_field [OF policy_transports]\<close>)
qed (simp add: json_restart_spec_def struct_not_null)

interpretation http: json_element json_http_healthcheck valid_http_healthcheck id
proof
  fix h assume h: "valid_http_healthcheck h"
  show "transports json_http_healthcheck h (id h)"
    unfolding json_http_healthcheck_def
    by (rule struct_transports) (use h in \<open>simp_all add: http_healthcheck_fields_def valid_http_healthcheck_def string_fields\<close>)
qed (simp add: json_http_healthcheck_def struct_not_null)

interpretation healthcheck: json_element json_healthcheck valid_healthcheck id
proof
  fix h assume h: "valid_healthcheck h"
  show "transports json_healthcheck h (id h)"
    unfolding json_healthcheck_def
    by (rule struct_transports) (use h in \<open>simp_all add: healthcheck_fields_def valid_healthcheck_def string_fields copy_field [OF http.ptr_transports]\<close>)
qed (simp add: json_healthcheck_def struct_not_null)

lemma copy_container_spec: "valid_container_spec s \<Longrightarrow> copy_fields container_spec_fields s zero_container_spec = Ok s"
  by (simp add: container_spec_fields_def valid_container_spec_def zero_container_spec_def string_fields
      copy_field [OF healthcheck.ptr_transports] copy_field [OF restart.ptr_transports])

interpretation spec: json_element json_container_spec valid_container_spec id
proof
  fix s assume s: "valid_container_spec s"
  show "transports json_container_spec s (id s)"
    unfolding json_container_spec_def
    by (rule struct_transports) (simp_all add: copy_container_spec [OF s], simp add: container_spec_fields_def)
qed (simp add: json_container_spec_def struct_not_null)

section \<open>\<^verbatim>\<open>core/types/init.go\<close>\<close>

text \<open>The specification is an embedded struct: its fields are fields of the configuration.\<close>

definition init_container_fields :: "init_container_config field list" where
  "init_container_fields = map (promoted icSpec icSpec_update) container_spec_fields @
    [field ''ContainerID'' icContainerID icContainerID_update json_string,
     field ''Volume'' icVolume icVolume_update json_string]"

definition json_init_container :: "init_container_config codec" where
  "json_init_container = json_struct init_container_fields \<lparr>icSpec = zero_container_spec, icContainerID = [], icVolume = []\<rparr>"

definition init_config_fields :: "init_config field list" where
  "init_config_fields =
    [field ''IPAddress'' iniIPAddress iniIPAddress_update json_string,
     field ''MacAddress'' iniMacAddress iniMacAddress_update json_string,
     field ''GatewayAddress'' iniGatewayAddress iniGatewayAddress_update json_string,
     field ''Hostname'' iniHostname iniHostname_update json_string,
     field ''Containers'' iniContainers iniContainers_update (json_list json_init_container)]"

definition json_init_config :: "init_config codec" where
  "json_init_config = json_struct init_config_fields
     \<lparr>iniIPAddress = [], iniMacAddress = [], iniGatewayAddress = [], iniHostname = [], iniContainers = []\<rparr>"

definition valid_init_container :: "init_container_config \<Rightarrow> bool" where
  "valid_init_container c \<longleftrightarrow> valid_container_spec (icSpec c) \<and> utf8 (icContainerID c) \<and> utf8 (icVolume c)"

definition valid_init_config :: "init_config \<Rightarrow> bool" where
  "valid_init_config c \<longleftrightarrow> utf8 (iniIPAddress c) \<and> utf8 (iniMacAddress c) \<and> utf8 (iniGatewayAddress c) \<and> utf8 (iniHostname c) \<and>
     list_all valid_init_container (iniContainers c)"

interpretation init_container: json_element json_init_container valid_init_container id
proof
  fix c assume c: "valid_init_container c"
  have "copy_fields init_container_fields c \<lparr>icSpec = zero_container_spec, icContainerID = [], icVolume = []\<rparr> = Ok c"
    unfolding init_container_fields_def
    by (subst copy_promoted [where v = "icSpec c"]) (use c in \<open>simp_all add: valid_init_container_def copy_container_spec string_fields\<close>)
  moreover have "distinct (map fdName init_container_fields)"
    by (simp add: init_container_fields_def container_spec_fields_def)
  ultimately show "transports json_init_container c (id c)"
    unfolding json_init_container_def by (simp add: struct_transports)
qed (simp add: json_init_container_def struct_not_null)

lemma init_config_transports: "valid_init_config c \<Longrightarrow> transports json_init_config c c"
  unfolding json_init_config_def
  by (rule struct_transports) (simp_all add: init_config_fields_def valid_init_config_def string_fields copy_field [OF init_container.list_transports])

section \<open>\<^verbatim>\<open>core/types/runtime.go\<close>\<close>

text \<open>The text and the reader of IPv6 addresses are parameters.\<close>

definition runtime_container_fields :: "runtime_container_config field list" where
  "runtime_container_fields = map (promoted rcSpec rcSpec_update) container_spec_fields @
    [field ''ContainerID'' rcContainerID rcContainerID_update json_string,
     field ''VolumePath'' rcVolumePath rcVolumePath_update json_string]"

definition json_runtime_container :: "runtime_container_config codec" where
  "json_runtime_container = json_struct runtime_container_fields \<lparr>rcContainerID = [], rcSpec = zero_container_spec, rcVolumePath = []\<rparr>"

definition json_ipnet :: "(ip \<Rightarrow> string) \<Rightarrow> (string \<Rightarrow> ip) \<Rightarrow> ipnet codec" where
  "json_ipnet t p = json_struct
     [field ''IP'' netIP netIP_update (json_ip t p), field ''Mask'' netMask netMask_update json_bytes] \<lparr>netIP = [], netMask = []\<rparr>"

definition runtime_network_fields :: "(ip \<Rightarrow> string) \<Rightarrow> (string \<Rightarrow> ip) \<Rightarrow> runtime_network_config field list" where
  "runtime_network_fields t p =
    [field ''InterfaceName'' rnInterfaceName rnInterfaceName_update json_string,
     field ''IPAddress'' rnIPAddress rnIPAddress_update (json_ip t p),
     field ''MacAddress'' rnMacAddress rnMacAddress_update json_string,
     field ''GatewayAddress'' rnGatewayAddress rnGatewayAddress_update (json_ip t p),
     field ''NetworkCIDR'' rnNetworkCIDR rnNetworkCIDR_update (json_ipnet t p),
     field ''Hostname'' rnHostname rnHostname_update json_string]"

definition zero_runtime_network :: runtime_network_config where
  "zero_runtime_network = \<lparr>rnInterfaceName = [], rnIPAddress = [], rnMacAddress = [], rnGatewayAddress = [],
     rnNetworkCIDR = \<lparr>netIP = [], netMask = []\<rparr>, rnHostname = []\<rparr>"

definition json_runtime_network :: "(ip \<Rightarrow> string) \<Rightarrow> (string \<Rightarrow> ip) \<Rightarrow> runtime_network_config codec" where
  "json_runtime_network t p = json_struct (runtime_network_fields t p) zero_runtime_network"

definition runtime_config_fields :: "(ip \<Rightarrow> string) \<Rightarrow> (string \<Rightarrow> ip) \<Rightarrow> runtime_config field list" where
  "runtime_config_fields t p =
    [field ''WorkingDir'' rtWorkingDir rtWorkingDir_update json_string,
     field ''MachineID'' rtMachineID rtMachineID_update json_string,
     field ''Cpus'' rtCpus rtCpus_update json_uint,
     field ''MemoryMB'' rtMemoryMB rtMemoryMB_update json_uint,
     field ''Network'' rtNetwork rtNetwork_update (json_runtime_network t p),
     field ''Containers'' rtContainers rtContainers_update (json_list json_runtime_container)]"

definition json_runtime_config :: "(ip \<Rightarrow> string) \<Rightarrow> (string \<Rightarrow> ip) \<Rightarrow> runtime_config codec" where
  "json_runtime_config t p = json_struct (runtime_config_fields t p)
     \<lparr>rtWorkingDir = [], rtMachineID = [], rtCpus = 0, rtMemoryMB = 0, rtNetwork = zero_runtime_network, rtContainers = []\<rparr>"

text \<open>The valid values, and how addresses come back.\<close>

definition valid_runtime_container :: "runtime_container_config \<Rightarrow> bool" where
  "valid_runtime_container c \<longleftrightarrow> valid_container_spec (rcSpec c) \<and> utf8 (rcContainerID c) \<and> utf8 (rcVolumePath c)"

definition valid_runtime_network :: "runtime_network_config \<Rightarrow> bool" where
  "valid_runtime_network n \<longleftrightarrow> utf8 (rnInterfaceName n) \<and> ip4_or_nil (rnIPAddress n) \<and> utf8 (rnMacAddress n) \<and>
     ip4_or_nil (rnGatewayAddress n) \<and> ip4_or_nil (netIP (rnNetworkCIDR n)) \<and> utf8 (rnHostname n)"

definition valid_runtime_config :: "runtime_config \<Rightarrow> bool" where
  "valid_runtime_config c \<longleftrightarrow> utf8 (rtWorkingDir c) \<and> utf8 (rtMachineID c) \<and> valid_runtime_network (rtNetwork c) \<and>
     list_all valid_runtime_container (rtContainers c)"

definition wide_network :: "runtime_network_config \<Rightarrow> runtime_network_config" where
  "wide_network n = n\<lparr>rnIPAddress := to16 (rnIPAddress n), rnGatewayAddress := to16 (rnGatewayAddress n),
     rnNetworkCIDR := (rnNetworkCIDR n)\<lparr>netIP := to16 (netIP (rnNetworkCIDR n))\<rparr>\<rparr>"

definition wide_config :: "runtime_config \<Rightarrow> runtime_config" where
  "wide_config c = c\<lparr>rtNetwork := wide_network (rtNetwork c)\<rparr>"

interpretation runtime_container: json_element json_runtime_container valid_runtime_container id
proof
  fix c assume c: "valid_runtime_container c"
  have "copy_fields runtime_container_fields c \<lparr>rcContainerID = [], rcSpec = zero_container_spec, rcVolumePath = []\<rparr> = Ok c"
    unfolding runtime_container_fields_def
    by (subst copy_promoted [where v = "rcSpec c"]) (use c in \<open>simp_all add: valid_runtime_container_def copy_container_spec string_fields\<close>)
  moreover have "distinct (map fdName runtime_container_fields)"
    by (simp add: runtime_container_fields_def container_spec_fields_def)
  ultimately show "transports json_runtime_container c (id c)"
    unfolding json_runtime_container_def by (simp add: struct_transports)
qed (simp add: json_runtime_container_def struct_not_null)

lemma zero_of_network [simp]: "zero_of (json_ip t p) = []" "zero_of json_bytes = []"
    "zero_of (json_ipnet t p) = \<lparr>netIP = [], netMask = []\<rparr>" "zero_of (json_runtime_network t p) = zero_runtime_network"
  by (simp_all add: json_ip_def json_bytes_def json_ipnet_def json_runtime_network_def)

lemma ipnet_transports: "ip4_or_nil (netIP n) \<Longrightarrow> transports (json_ipnet t p) n (n\<lparr>netIP := to16 (netIP n)\<rparr>)"
  unfolding json_ipnet_def
  by (rule struct_transports)
    (simp_all add: copy_field [OF json_element.arrives [OF json_ip_element]] copy_field [OF bytes.transported])

lemma runtime_network_transports: "valid_runtime_network n \<Longrightarrow> transports (json_runtime_network t p) n (wide_network n)"
  unfolding json_runtime_network_def
  by (rule struct_transports)
    (simp_all add: runtime_network_fields_def valid_runtime_network_def wide_network_def zero_runtime_network_def string_fields
      copy_field [OF json_element.arrives [OF json_ip_element]] copy_field [OF ipnet_transports])

lemma runtime_config_transports: "valid_runtime_config c \<Longrightarrow> transports (json_runtime_config t p) c (wide_config c)"
  unfolding json_runtime_config_def
  by (rule struct_transports)
    (simp_all add: runtime_config_fields_def valid_runtime_config_def wide_config_def string_fields
      copy_field [OF runtime_network_transports] copy_field [OF runtime_container.list_transports])

lemma runtime_config_element: "json_element (json_runtime_config t p) valid_runtime_config wide_config"
  by (rule json_element.intro, rule runtime_config_transports) (simp_all add: json_runtime_config_def struct_not_null)

end
