(* ===== verification/Columns.thy ===== *)
theory Columns
  imports ConfigJson NodeTypes
begin

text \<open>
  The specifications in the columns of the node agent's database (\<^verbatim>\<open>nodeagent/internal/types\<close>): the
  methods \<^verbatim>\<open>Value\<close> and \<^verbatim>\<open>Scan\<close> write and read them as JSON.
\<close>

text \<open>A column holds bytes, \<open>None\<close> if they are not JSON, or a value of another kind.\<close>

datatype json_column = BytesColumn "json option" | OtherKind

text \<open>A nil pointer is stored as \<^verbatim>\<open>null\<close>.\<close>

definition column_value :: "'a codec \<Rightarrow> 'a option \<Rightarrow> json_column res" where
  "column_value c s = res_map (\<lambda>j. BytesColumn (Some j)) (enc_json (json_ptr c) s)"

text \<open>
  The value is read through a pointer to the receiver, so \<^verbatim>\<open>null\<close> changes only that pointer and leaves
  what the receiver points to; a value that is not bytes panics.
\<close>

definition column_scan :: "'a codec \<Rightarrow> json_column \<Rightarrow> 'a \<Rightarrow> 'a res" where
  "column_scan c col s = (case col of
      OtherKind \<Rightarrow> Panic ''interface conversion''
    | BytesColumn None \<Rightarrow> Err (External ''invalid character'')
    | BytesColumn (Some j) \<Rightarrow> res_map (\<lambda>r. case r of None \<Rightarrow> s | Some x \<Rightarrow> x) (dec_json (json_ptr c) j (Some s)))"

lemma column_roundtrip:
  assumes "json_element c valid norm" "valid x"
  shows "\<exists>col. column_value c (Some x) = Ok col \<and> column_scan c col (zero_of c) = Ok (norm x)"
proof -
  obtain j where "enc_json c x = Ok j" "dec_json c j (zero_of c) = Ok (norm x)" "j \<noteq> JNull"
    using json_element.arrives [OF assms] json_element.not_null [OF assms] by (auto simp: transports_def)
  then show ?thesis by (simp add: column_value_def column_scan_def json_ptr_def)
qed

lemma null_column: "column_value c None = Ok (BytesColumn (Some JNull)) \<and> column_scan c (BytesColumn (Some JNull)) s = Ok s"
  by (simp add: column_value_def column_scan_def json_ptr_def)

section \<open>The specifications\<close>

definition machine_spec_fields :: "machine_spec field list" where
  "machine_spec_fields =
    [field ''Name'' msName msName_update (json_ptr json_string),
     field ''Cpus'' msCpus msCpus_update json_uint,
     field ''MemoryMB'' msMemoryMB msMemoryMB_update json_uint,
     field ''Timeout'' msTimeout msTimeout_update (json_ptr json_uint)]"

definition json_machine_spec :: "machine_spec codec" where
  "json_machine_spec = json_struct machine_spec_fields \<lparr>msName = None, msCpus = 0, msMemoryMB = 0, msTimeout = None\<rparr>"

definition MachineSpec_Value :: "machine_spec option \<Rightarrow> json_column res" where
  "MachineSpec_Value = column_value json_machine_spec"

definition MachineSpec_Scan :: "json_column \<Rightarrow> machine_spec \<Rightarrow> machine_spec res" where
  "MachineSpec_Scan = column_scan json_machine_spec"

definition ContainerSpec_Value :: "container_spec option \<Rightarrow> json_column res" where
  "ContainerSpec_Value = column_value json_container_spec"

definition ContainerSpec_Scan :: "json_column \<Rightarrow> container_spec \<Rightarrow> container_spec res" where
  "ContainerSpec_Scan = column_scan json_container_spec"

text \<open>In an image's specification the model does not tell nil from empty.\<close>

definition image_spec_fields :: "image_spec field list" where
  "image_spec_fields =
    [field ''User'' imsUser imsUser_update json_string,
     field ''WorkingDir'' imsWorkingDir imsWorkingDir_update json_string,
     field ''Env'' imsEnv imsEnv_update (json_dict json_string),
     field ''Command'' imsCommand imsCommand_update (json_list json_string)]"

definition zero_image_spec :: image_spec where
  "zero_image_spec = \<lparr>imsUser = [], imsWorkingDir = [], imsEnv = Map.empty, imsCommand = []\<rparr>"

definition json_image_spec :: "image_spec codec" where
  "json_image_spec = json_struct image_spec_fields zero_image_spec"

definition ImageSpec_Value :: "image_spec option \<Rightarrow> json_column res" where
  "ImageSpec_Value = column_value json_image_spec"

definition ImageSpec_Scan :: "json_column \<Rightarrow> image_spec \<Rightarrow> image_spec res" where
  "ImageSpec_Scan = column_scan json_image_spec"

definition valid_machine_spec :: "machine_spec \<Rightarrow> bool" where
  "valid_machine_spec s \<longleftrightarrow> pred_option utf8 (msName s)"

definition valid_image_spec :: "image_spec \<Rightarrow> bool" where
  "valid_image_spec s \<longleftrightarrow> utf8 (imsUser s) \<and> utf8 (imsWorkingDir s) \<and> valid_map utf8 (imsEnv s) \<and> list_all utf8 (imsCommand s)"

interpretation machine_spec: json_element json_machine_spec valid_machine_spec id
proof
  fix s assume s: "valid_machine_spec s"
  show "transports json_machine_spec s (id s)"
    unfolding json_machine_spec_def
    by (rule struct_transports)
      (use s in \<open>simp_all add: machine_spec_fields_def valid_machine_spec_def string_fields copy_field [OF uint.ptr_transports] pred_option_def\<close>)
qed (simp add: json_machine_spec_def struct_not_null)

interpretation image_spec: json_element json_image_spec valid_image_spec id
proof
  fix s assume s: "valid_image_spec s"
  show "transports json_image_spec s (id s)"
    unfolding json_image_spec_def
    by (rule struct_transports)
      (use s in \<open>simp_all add: image_spec_fields_def zero_image_spec_def valid_image_spec_def string_fields copy_field [OF json_element.arrives [OF string.dict_element]] 
        copy_field [OF string.list_transports]\<close>)
qed (simp add: json_image_spec_def struct_not_null)

text \<open>
  C31: the specifications of machines, containers and images read back from the database are the ones
  that were stored, provided their strings are UTF-8 and their maps finite; a missing one is stored
  as null and leaves the receiver as it is.
\<close>

theorem specifications_survive_database:
  assumes "valid_machine_spec m" and "valid_container_spec c" and "valid_image_spec i"
  shows "(\<exists>col. MachineSpec_Value (Some m) = Ok col \<and> MachineSpec_Scan col (zero_of json_machine_spec) = Ok m) \<and>
    (\<exists>col. ContainerSpec_Value (Some c) = Ok col \<and> ContainerSpec_Scan col zero_container_spec = Ok c) \<and>
    (\<exists>col. ImageSpec_Value (Some i) = Ok col \<and> ImageSpec_Scan col zero_image_spec = Ok i) \<and>
    (\<exists>col. MachineSpec_Value None = Ok col \<and> MachineSpec_Scan col m = Ok m)"
  using column_roundtrip [OF machine_spec.json_element_axioms assms(1)] column_roundtrip [OF spec.json_element_axioms assms(2)]
    column_roundtrip [OF image_spec.json_element_axioms assms(3)] null_column [of json_machine_spec m]
  by (simp add: MachineSpec_Value_def MachineSpec_Scan_def ContainerSpec_Value_def ContainerSpec_Scan_def ImageSpec_Value_def ImageSpec_Scan_def
      json_container_spec_def json_image_spec_def)

text \<open>The witness: a container with an environment, a command and a policy.\<close>

definition stored_container :: container_spec where
  "stored_container = zero_container_spec\<lparr>csImage := ''nginx'', csEnv := Some [''PORT'' \<mapsto> ''80''], csCommand := Some [''run''],
     csRestart := Some \<lparr>rsPolicy = ContainerRestartPolicyOnFailure, rsMaxRetries = 3\<rparr>\<rparr>"

theorem specifications_survive_database_witness:
  "\<exists>col. ContainerSpec_Value (Some stored_container) = Ok col \<and> ContainerSpec_Scan col zero_container_spec = Ok stored_container"
proof -
  have "valid_container_spec stored_container"
    by (simp add: stored_container_def valid_container_spec_def zero_container_spec_def valid_map_def valid_restart_spec_def policy_of_string_def utf8_ascii)
  moreover have "valid_machine_spec \<lparr>msName = None, msCpus = 1, msMemoryMB = 256, msTimeout = None\<rparr>" by (simp add: valid_machine_spec_def)
  moreover have "valid_image_spec zero_image_spec" by (simp add: valid_image_spec_def zero_image_spec_def valid_map_def utf8_ascii)
  ultimately show ?thesis using specifications_survive_database by blast
qed

end
