(* ===== verification/ConfigPath.thy ===== *)
theory ConfigPath
  imports ConfigJson VmRuntime
begin

text \<open>
  The way of a machine's configuration: the node agent writes it to a file, the runtime reads the
  file, derives the hypervisor's description and the init process's configuration and writes the
  latter into the initial file system, the init process reads it and hands each container's part to
  a launcher as an argument.
\<close>

lemma To4_prefix: "length b = 4 \<Longrightarrow> To4 (ipv4_prefix @ b) = Some b"
proof -
  assume "length b = 4"
  then obtain w x y z where "b = [w, x, y, z]" using list4 by blast
  moreover have "ipv4_prefix = [0, 0, 0, 0, 0, 0, 0, 0, 0, 0, 0xFF, 0xFF]" by (simp add: ipv4_prefix_def eval_nat_numeral)
  ultimately have "ipv4_prefix @ b = [0, 0, 0, 0, 0, 0, 0, 0, 0, 0, 0xFF, 0xFF, w, x, y, z]" "b = [w, x, y, z]" by simp_all
  then show ?thesis by (simp only: To4_def) (simp add: eval_nat_numeral)
qed

lemma To4_to16 [simp]: "To4 (to16 a) = To4 a"
  using To4_prefix [OF To4_length] by (auto simp: to16_def split: option.split)

lemma ip_string_to16 [simp]: "ip_string (to16 a) = ip_string a"
proof (cases "To4 a")
  case None
  then show ?thesis by (simp add: to16_def)
next
  case (Some b)
  then show ?thesis by (simp add: ip_string_def)
qed

lemma wide_same: "init_config_of (wide_config c) = init_config_of c"
    "vm_spec_of (r\<lparr>vrConfig := k\<lparr>vcRuntime := wide_config c\<rparr>\<rparr>) m = vm_spec_of (r\<lparr>vrConfig := k\<lparr>vcRuntime := c\<rparr>\<rparr>) m"
  by (simp_all add: init_config_of_def wide_config_def wide_network_def vm_spec_of_def getInitDaemonSocketPath_def getInitRamFSPath_def vworkdir_def)

text \<open>What the runtime derives from a valid configuration is valid.\<close>

abbreviation ascii :: "string \<Rightarrow> bool" where
  "ascii s \<equiv> list_all (\<lambda>c. of_char c < (128 :: nat)) s"

lemma digit_ascii: "is_digit c \<Longrightarrow> of_char c < (128 :: nat)"
  by (auto simp: is_digit_def)

lemma ascii_dec: "ascii (dec n)"
  unfolding list_all_iff using dec_digits digit_ascii by blast

lemma ascii_ip_string: "ip4_or_nil a \<Longrightarrow> ascii (ip_string a)"
proof (cases "a = []")
  case True
  then show ?thesis by (simp add: ip_string_def To4_def)
next
  case False
  moreover assume "ip4_or_nil a"
  ultimately obtain b where "To4 a = Some b" by (auto simp: ip4_or_nil_def)
  from ip_string_chars [OF this] digit_ascii show ?thesis unfolding list_all_iff by fastforce
qed

lemma valid_device: "utf8 (''/dev/vd'' @ [alphabet ! (i mod length alphabet)])"
proof -
  have "alphabet ! (i mod length alphabet) \<in> set alphabet" by (rule nth_mem) simp
  moreover have "ascii alphabet" by (simp add: alphabet_def)
  ultimately show ?thesis by (intro utf8_ascii) (auto simp: list_all_iff)
qed

lemma valid_init_config_of:
  assumes "valid_runtime_config c"
  shows "valid_init_config (init_config_of c)"
proof -
  have n: "ip4_or_nil (rnIPAddress (rtNetwork c))" "ip4_or_nil (rnGatewayAddress (rtNetwork c))" "utf8 (rnMacAddress (rtNetwork c))" "utf8 (rtMachineID c)"
    using assms by (auto simp: valid_runtime_config_def valid_runtime_network_def)
  have "valid_init_container (init_container i k)" if "k \<in> set (rtContainers c)" for i k
    using assms that valid_device [of i]
    by (auto simp: valid_runtime_config_def list_all_iff valid_runtime_container_def valid_init_container_def init_container_def)
  then have "list_all valid_init_container (map2 init_container [0..<length (rtContainers c)] (rtContainers c))"
    by (auto simp: list_all_iff dest: set_zip_rightD)
  moreover have "utf8 (ip_string (rnIPAddress (rtNetwork c)) @ ''/'' @ dec n)" "utf8 (ip_string (rnGatewayAddress (rtNetwork c)))" for n
    using ascii_ip_string [OF n(1)] ascii_ip_string [OF n(2)] ascii_dec [of n] by (auto intro!: utf8_ascii)
  ultimately show ?thesis using n by (simp add: valid_init_config_def init_config_of_def)
qed

text \<open>
  C7: a machine's configuration reaches the guest: the runtime reads from the file the agent's
  configuration with its addresses in the long form, derives from it the same description and the
  same guest configuration as from the agent's own, and the init process and each launcher read
  exactly what was derived.
\<close>

theorem configuration_reaches_guest:
  assumes "valid_runtime_config c"
  shows "transports (json_ptr (json_runtime_config t p)) (Some c) (Some (wide_config c)) \<and>
    (\<forall>r k m. vm_spec_of (r\<lparr>vrConfig := k\<lparr>vcRuntime := wide_config c\<rparr>\<rparr>) m = vm_spec_of (r\<lparr>vrConfig := k\<lparr>vcRuntime := c\<rparr>\<rparr>) m) \<and>
    transports json_init_config (init_config_of (wide_config c)) (init_config_of c) \<and>
    list_all (\<lambda>i. transports json_init_container i i) (iniContainers (init_config_of c))"
proof -
  have "transports (json_ptr (json_runtime_config t p)) (Some c) (Some (wide_config c))"
    using json_element.ptr_transports [OF runtime_config_element, of "Some c" t p] assms by simp
  moreover have "transports json_init_config (init_config_of c) (init_config_of c)"
    by (rule init_config_transports [OF valid_init_config_of [OF assms]])
  moreover have "list_all (\<lambda>i. transports json_init_container i i) (iniContainers (init_config_of c))"
    using valid_init_config_of [OF assms] init_container.arrives by (auto simp: valid_init_config_def list_all_iff)
  ultimately show ?thesis by (simp add: wide_same)
qed

text \<open>The witness: the machine with two containers.\<close>

theorem configuration_reaches_guest_witness:
  "transports (json_ptr (json_runtime_config (\<lambda>_. []) (\<lambda>_. []))) (Some (vcRuntime two_containers)) (Some (wide_config (vcRuntime two_containers))) \<and>
   rnIPAddress (rtNetwork (wide_config (vcRuntime two_containers))) = ipv4_prefix @ [192, 168, 100, 2] \<and>
   transports json_init_config (init_config_of (wide_config (vcRuntime two_containers))) (init_config_of (vcRuntime two_containers))"
proof -
  have "valid_runtime_config (vcRuntime two_containers)"
    by (simp add: two_containers_def plain_container_def valid_runtime_config_def valid_runtime_network_def valid_runtime_container_def
        valid_container_spec_def ip4_or_nil_def To4_def utf8_ascii)
  moreover have "rnIPAddress (rtNetwork (wide_config (vcRuntime two_containers))) = ipv4_prefix @ [192, 168, 100, 2]"
    by (simp add: two_containers_def wide_config_def wide_network_def to16_def To4_def)
  ultimately show ?thesis using configuration_reaches_guest by blast
qed

end
