(* ===== verification/ChModels.thy ===== *)
theory ChModels
  imports Json
begin

text \<open>
  The data of the hypervisor's API (\<^verbatim>\<open>vmruntime/internal/chclient/models.gen.go\<close>): a record for each
  struct, the keys of its fields, and its codec.  A pointer with the option \<^verbatim>\<open>omitempty\<close> is left
  out when it is nil; a slice behind a pointer is not told from the empty one when it is nil; the
  enumerations are strings.  Each codec is an element of the contract: what is valid is read back as it was.
\<close>

lemma pred_option_True: "pred_option (\<lambda>_. True) x"
  by (cases x) simp_all

lemma list_all_True: "list_all (\<lambda>_. True) xs"
  by (simp add: list_all_iff)

lemmas ch_simps = id_maps pred_option_True list_all_True

record BalloonConfig =
  BalloonConfig_DeflateOnOom :: "bool option"
  BalloonConfig_FreePageReporting :: "bool option"
  BalloonConfig_Size :: "64 word"

definition BalloonConfig_fields :: "BalloonConfig field list" where
  "BalloonConfig_fields =
    [optional ''deflate_on_oom'' BalloonConfig_DeflateOnOom BalloonConfig_DeflateOnOom_update json_bool,
     optional ''free_page_reporting'' BalloonConfig_FreePageReporting BalloonConfig_FreePageReporting_update json_bool,
     field ''size'' BalloonConfig_Size BalloonConfig_Size_update json_int]"

definition zero_BalloonConfig :: BalloonConfig where
  "zero_BalloonConfig = \<lparr>BalloonConfig_DeflateOnOom = None, BalloonConfig_FreePageReporting = None, BalloonConfig_Size = 0\<rparr>"

definition json_BalloonConfig :: "BalloonConfig codec" where
  "json_BalloonConfig = json_struct BalloonConfig_fields zero_BalloonConfig"

definition valid_BalloonConfig :: "BalloonConfig \<Rightarrow> bool" where
  "valid_BalloonConfig s \<longleftrightarrow> True"

interpretation ch_BalloonConfig: json_element json_BalloonConfig valid_BalloonConfig id
proof
  fix s assume s: "valid_BalloonConfig s"
  show "transports json_BalloonConfig s (id s)"
    unfolding json_BalloonConfig_def
    by (rule struct_transports)
      (use s in \<open>simp_all add: BalloonConfig_fields_def zero_BalloonConfig_def valid_BalloonConfig_def ch_simps
        copy_optional [OF bool.json_element_axioms]
        copy_field [OF json_element.arrives [OF int.json_element_axioms]]\<close>)
qed (simp add: json_BalloonConfig_def struct_not_null)

lemma zero_of_BalloonConfig [simp]: "zero_of json_BalloonConfig = zero_BalloonConfig"
  by (simp add: json_BalloonConfig_def)

record ConsoleConfig =
  ConsoleConfig_File :: "string option"
  ConsoleConfig_Iommu :: "bool option"
  ConsoleConfig_Mode :: string
  ConsoleConfig_Socket :: "string option"

definition ConsoleConfig_fields :: "ConsoleConfig field list" where
  "ConsoleConfig_fields =
    [optional ''file'' ConsoleConfig_File ConsoleConfig_File_update json_string,
     optional ''iommu'' ConsoleConfig_Iommu ConsoleConfig_Iommu_update json_bool,
     field ''mode'' ConsoleConfig_Mode ConsoleConfig_Mode_update json_string,
     optional ''socket'' ConsoleConfig_Socket ConsoleConfig_Socket_update json_string]"

definition zero_ConsoleConfig :: ConsoleConfig where
  "zero_ConsoleConfig = \<lparr>ConsoleConfig_File = None, ConsoleConfig_Iommu = None, ConsoleConfig_Mode = [], ConsoleConfig_Socket = None\<rparr>"

definition json_ConsoleConfig :: "ConsoleConfig codec" where
  "json_ConsoleConfig = json_struct ConsoleConfig_fields zero_ConsoleConfig"

definition valid_ConsoleConfig :: "ConsoleConfig \<Rightarrow> bool" where
  "valid_ConsoleConfig s \<longleftrightarrow> pred_option utf8 (ConsoleConfig_File s) \<and> utf8 (ConsoleConfig_Mode s) \<and> pred_option utf8 (ConsoleConfig_Socket s)"

interpretation ch_ConsoleConfig: json_element json_ConsoleConfig valid_ConsoleConfig id
proof
  fix s assume s: "valid_ConsoleConfig s"
  show "transports json_ConsoleConfig s (id s)"
    unfolding json_ConsoleConfig_def
    by (rule struct_transports)
      (use s in \<open>simp_all add: ConsoleConfig_fields_def zero_ConsoleConfig_def valid_ConsoleConfig_def ch_simps
        copy_optional [OF string.json_element_axioms]
        copy_optional [OF bool.json_element_axioms]
        copy_field [OF json_element.arrives [OF string.json_element_axioms]]\<close>)
qed (simp add: json_ConsoleConfig_def struct_not_null)

lemma zero_of_ConsoleConfig [simp]: "zero_of json_ConsoleConfig = zero_ConsoleConfig"
  by (simp add: json_ConsoleConfig_def)

record CpuAffinity =
  CpuAffinity_HostCpus :: "(64 word) list"
  CpuAffinity_Vcpu :: "64 word"

definition CpuAffinity_fields :: "CpuAffinity field list" where
  "CpuAffinity_fields =
    [field ''host_cpus'' CpuAffinity_HostCpus CpuAffinity_HostCpus_update (json_list json_int),
     field ''vcpu'' CpuAffinity_Vcpu CpuAffinity_Vcpu_update json_int]"

definition zero_CpuAffinity :: CpuAffinity where
  "zero_CpuAffinity = \<lparr>CpuAffinity_HostCpus = [], CpuAffinity_Vcpu = 0\<rparr>"

definition json_CpuAffinity :: "CpuAffinity codec" where
  "json_CpuAffinity = json_struct CpuAffinity_fields zero_CpuAffinity"

definition valid_CpuAffinity :: "CpuAffinity \<Rightarrow> bool" where
  "valid_CpuAffinity s \<longleftrightarrow> (list_all (\<lambda>_. True)) (CpuAffinity_HostCpus s)"

interpretation ch_CpuAffinity: json_element json_CpuAffinity valid_CpuAffinity id
proof
  fix s assume s: "valid_CpuAffinity s"
  show "transports json_CpuAffinity s (id s)"
    unfolding json_CpuAffinity_def
    by (rule struct_transports)
      (use s in \<open>simp_all add: CpuAffinity_fields_def zero_CpuAffinity_def valid_CpuAffinity_def ch_simps
        copy_field [OF json_element.arrives [OF int.list_element]]
        copy_field [OF json_element.arrives [OF int.json_element_axioms]]\<close>)
qed (simp add: json_CpuAffinity_def struct_not_null)

lemma zero_of_CpuAffinity [simp]: "zero_of json_CpuAffinity = zero_CpuAffinity"
  by (simp add: json_CpuAffinity_def)

record CpuFeatures =
  CpuFeatures_Amx :: "bool option"

definition CpuFeatures_fields :: "CpuFeatures field list" where
  "CpuFeatures_fields =
    [optional ''amx'' CpuFeatures_Amx CpuFeatures_Amx_update json_bool]"

definition zero_CpuFeatures :: CpuFeatures where
  "zero_CpuFeatures = \<lparr>CpuFeatures_Amx = None\<rparr>"

definition json_CpuFeatures :: "CpuFeatures codec" where
  "json_CpuFeatures = json_struct CpuFeatures_fields zero_CpuFeatures"

definition valid_CpuFeatures :: "CpuFeatures \<Rightarrow> bool" where
  "valid_CpuFeatures s \<longleftrightarrow> True"

interpretation ch_CpuFeatures: json_element json_CpuFeatures valid_CpuFeatures id
proof
  fix s assume s: "valid_CpuFeatures s"
  show "transports json_CpuFeatures s (id s)"
    unfolding json_CpuFeatures_def
    by (rule struct_transports)
      (use s in \<open>simp_all add: CpuFeatures_fields_def zero_CpuFeatures_def valid_CpuFeatures_def ch_simps
        copy_optional [OF bool.json_element_axioms]\<close>)
qed (simp add: json_CpuFeatures_def struct_not_null)

lemma zero_of_CpuFeatures [simp]: "zero_of json_CpuFeatures = zero_CpuFeatures"
  by (simp add: json_CpuFeatures_def)

record CpuTopology =
  CpuTopology_CoresPerDie :: "(64 word) option"
  CpuTopology_DiesPerPackage :: "(64 word) option"
  CpuTopology_Packages :: "(64 word) option"
  CpuTopology_ThreadsPerCore :: "(64 word) option"

definition CpuTopology_fields :: "CpuTopology field list" where
  "CpuTopology_fields =
    [optional ''cores_per_die'' CpuTopology_CoresPerDie CpuTopology_CoresPerDie_update json_int,
     optional ''dies_per_package'' CpuTopology_DiesPerPackage CpuTopology_DiesPerPackage_update json_int,
     optional ''packages'' CpuTopology_Packages CpuTopology_Packages_update json_int,
     optional ''threads_per_core'' CpuTopology_ThreadsPerCore CpuTopology_ThreadsPerCore_update json_int]"

definition zero_CpuTopology :: CpuTopology where
  "zero_CpuTopology = \<lparr>CpuTopology_CoresPerDie = None, CpuTopology_DiesPerPackage = None, CpuTopology_Packages = None, CpuTopology_ThreadsPerCore = None\<rparr>"

definition json_CpuTopology :: "CpuTopology codec" where
  "json_CpuTopology = json_struct CpuTopology_fields zero_CpuTopology"

definition valid_CpuTopology :: "CpuTopology \<Rightarrow> bool" where
  "valid_CpuTopology s \<longleftrightarrow> True"

interpretation ch_CpuTopology: json_element json_CpuTopology valid_CpuTopology id
proof
  fix s assume s: "valid_CpuTopology s"
  show "transports json_CpuTopology s (id s)"
    unfolding json_CpuTopology_def
    by (rule struct_transports)
      (use s in \<open>simp_all add: CpuTopology_fields_def zero_CpuTopology_def valid_CpuTopology_def ch_simps
        copy_optional [OF int.json_element_axioms]\<close>)
qed (simp add: json_CpuTopology_def struct_not_null)

lemma zero_of_CpuTopology [simp]: "zero_of json_CpuTopology = zero_CpuTopology"
  by (simp add: json_CpuTopology_def)

record CpusConfig =
  CpusConfig_Affinity :: "(CpuAffinity list) option"
  CpusConfig_BootVcpus :: "64 word"
  CpusConfig_Features :: "CpuFeatures option"
  CpusConfig_KvmHyperv :: "bool option"
  CpusConfig_MaxPhysBits :: "(64 word) option"
  CpusConfig_MaxVcpus :: "64 word"
  CpusConfig_Topology :: "CpuTopology option"

definition CpusConfig_fields :: "CpusConfig field list" where
  "CpusConfig_fields =
    [optional ''affinity'' CpusConfig_Affinity CpusConfig_Affinity_update (json_list json_CpuAffinity),
     field ''boot_vcpus'' CpusConfig_BootVcpus CpusConfig_BootVcpus_update json_int,
     optional ''features'' CpusConfig_Features CpusConfig_Features_update json_CpuFeatures,
     optional ''kvm_hyperv'' CpusConfig_KvmHyperv CpusConfig_KvmHyperv_update json_bool,
     optional ''max_phys_bits'' CpusConfig_MaxPhysBits CpusConfig_MaxPhysBits_update json_int,
     field ''max_vcpus'' CpusConfig_MaxVcpus CpusConfig_MaxVcpus_update json_int,
     optional ''topology'' CpusConfig_Topology CpusConfig_Topology_update json_CpuTopology]"

definition zero_CpusConfig :: CpusConfig where
  "zero_CpusConfig = \<lparr>CpusConfig_Affinity = None, CpusConfig_BootVcpus = 0, CpusConfig_Features = None, CpusConfig_KvmHyperv = None,
     CpusConfig_MaxPhysBits = None, CpusConfig_MaxVcpus = 0, CpusConfig_Topology = None\<rparr>"

definition json_CpusConfig :: "CpusConfig codec" where
  "json_CpusConfig = json_struct CpusConfig_fields zero_CpusConfig"

definition valid_CpusConfig :: "CpusConfig \<Rightarrow> bool" where
  "valid_CpusConfig s \<longleftrightarrow> pred_option (list_all valid_CpuAffinity) (CpusConfig_Affinity s) \<and> pred_option valid_CpuFeatures (CpusConfig_Features s) \<and> pred_option valid_CpuTopology (CpusConfig_Topology s)"

interpretation ch_CpusConfig: json_element json_CpusConfig valid_CpusConfig id
proof
  fix s assume s: "valid_CpusConfig s"
  show "transports json_CpusConfig s (id s)"
    unfolding json_CpusConfig_def
    by (rule struct_transports)
      (use s in \<open>simp_all add: CpusConfig_fields_def zero_CpusConfig_def valid_CpusConfig_def ch_simps
        copy_optional [OF ch_CpuAffinity.list_element]
        copy_field [OF json_element.arrives [OF int.json_element_axioms]]
        copy_optional [OF ch_CpuFeatures.json_element_axioms]
        copy_optional [OF bool.json_element_axioms]
        copy_optional [OF int.json_element_axioms]
        copy_optional [OF ch_CpuTopology.json_element_axioms]\<close>)
qed (simp add: json_CpusConfig_def struct_not_null)

lemma zero_of_CpusConfig [simp]: "zero_of json_CpusConfig = zero_CpusConfig"
  by (simp add: json_CpusConfig_def)

record DebugConsoleConfig =
  DebugConsoleConfig_File :: "string option"
  DebugConsoleConfig_Iobase :: "(64 word) option"
  DebugConsoleConfig_Mode :: string

definition DebugConsoleConfig_fields :: "DebugConsoleConfig field list" where
  "DebugConsoleConfig_fields =
    [optional ''file'' DebugConsoleConfig_File DebugConsoleConfig_File_update json_string,
     optional ''iobase'' DebugConsoleConfig_Iobase DebugConsoleConfig_Iobase_update json_int,
     field ''mode'' DebugConsoleConfig_Mode DebugConsoleConfig_Mode_update json_string]"

definition zero_DebugConsoleConfig :: DebugConsoleConfig where
  "zero_DebugConsoleConfig = \<lparr>DebugConsoleConfig_File = None, DebugConsoleConfig_Iobase = None, DebugConsoleConfig_Mode = []\<rparr>"

definition json_DebugConsoleConfig :: "DebugConsoleConfig codec" where
  "json_DebugConsoleConfig = json_struct DebugConsoleConfig_fields zero_DebugConsoleConfig"

definition valid_DebugConsoleConfig :: "DebugConsoleConfig \<Rightarrow> bool" where
  "valid_DebugConsoleConfig s \<longleftrightarrow> pred_option utf8 (DebugConsoleConfig_File s) \<and> utf8 (DebugConsoleConfig_Mode s)"

interpretation ch_DebugConsoleConfig: json_element json_DebugConsoleConfig valid_DebugConsoleConfig id
proof
  fix s assume s: "valid_DebugConsoleConfig s"
  show "transports json_DebugConsoleConfig s (id s)"
    unfolding json_DebugConsoleConfig_def
    by (rule struct_transports)
      (use s in \<open>simp_all add: DebugConsoleConfig_fields_def zero_DebugConsoleConfig_def valid_DebugConsoleConfig_def ch_simps
        copy_optional [OF string.json_element_axioms]
        copy_optional [OF int.json_element_axioms]
        copy_field [OF json_element.arrives [OF string.json_element_axioms]]\<close>)
qed (simp add: json_DebugConsoleConfig_def struct_not_null)

lemma zero_of_DebugConsoleConfig [simp]: "zero_of json_DebugConsoleConfig = zero_DebugConsoleConfig"
  by (simp add: json_DebugConsoleConfig_def)

record DeviceConfig =
  DeviceConfig_Id :: "string option"
  DeviceConfig_Iommu :: "bool option"
  DeviceConfig_Path :: string
  DeviceConfig_PciSegment :: "(16 word) option"
  DeviceConfig_XNvGpudirectClique :: "(8 word) option"

definition DeviceConfig_fields :: "DeviceConfig field list" where
  "DeviceConfig_fields =
    [optional ''id'' DeviceConfig_Id DeviceConfig_Id_update json_string,
     optional ''iommu'' DeviceConfig_Iommu DeviceConfig_Iommu_update json_bool,
     field ''path'' DeviceConfig_Path DeviceConfig_Path_update json_string,
     optional ''pci_segment'' DeviceConfig_PciSegment DeviceConfig_PciSegment_update json_int,
     optional ''x_nv_gpudirect_clique'' DeviceConfig_XNvGpudirectClique DeviceConfig_XNvGpudirectClique_update json_int]"

definition zero_DeviceConfig :: DeviceConfig where
  "zero_DeviceConfig = \<lparr>DeviceConfig_Id = None, DeviceConfig_Iommu = None, DeviceConfig_Path = [], DeviceConfig_PciSegment = None,
     DeviceConfig_XNvGpudirectClique = None\<rparr>"

definition json_DeviceConfig :: "DeviceConfig codec" where
  "json_DeviceConfig = json_struct DeviceConfig_fields zero_DeviceConfig"

definition valid_DeviceConfig :: "DeviceConfig \<Rightarrow> bool" where
  "valid_DeviceConfig s \<longleftrightarrow> pred_option utf8 (DeviceConfig_Id s) \<and> utf8 (DeviceConfig_Path s)"

interpretation ch_DeviceConfig: json_element json_DeviceConfig valid_DeviceConfig id
proof
  fix s assume s: "valid_DeviceConfig s"
  show "transports json_DeviceConfig s (id s)"
    unfolding json_DeviceConfig_def
    by (rule struct_transports)
      (use s in \<open>simp_all add: DeviceConfig_fields_def zero_DeviceConfig_def valid_DeviceConfig_def ch_simps
        copy_optional [OF string.json_element_axioms]
        copy_optional [OF bool.json_element_axioms]
        copy_field [OF json_element.arrives [OF string.json_element_axioms]]
        copy_optional [OF int.json_element_axioms]\<close>)
qed (simp add: json_DeviceConfig_def struct_not_null)

lemma zero_of_DeviceConfig [simp]: "zero_of json_DeviceConfig = zero_DeviceConfig"
  by (simp add: json_DeviceConfig_def)

record DeviceNode =
  DeviceNode_Children :: "(string list) option"
  DeviceNode_Id :: "string option"
  DeviceNode_PciBdf :: "string option"
  DeviceNode_Resources :: "(string \<rightharpoonup> json) list option"

definition DeviceNode_fields :: "DeviceNode field list" where
  "DeviceNode_fields =
    [optional ''children'' DeviceNode_Children DeviceNode_Children_update (json_list json_string),
     optional ''id'' DeviceNode_Id DeviceNode_Id_update json_string,
     optional ''pci_bdf'' DeviceNode_PciBdf DeviceNode_PciBdf_update json_string,
     optional ''resources'' DeviceNode_Resources DeviceNode_Resources_update (json_list (json_dict json_any))]"

definition zero_DeviceNode :: DeviceNode where
  "zero_DeviceNode = \<lparr>DeviceNode_Children = None, DeviceNode_Id = None, DeviceNode_PciBdf = None, DeviceNode_Resources = None\<rparr>"

definition json_DeviceNode :: "DeviceNode codec" where
  "json_DeviceNode = json_struct DeviceNode_fields zero_DeviceNode"

definition valid_DeviceNode :: "DeviceNode \<Rightarrow> bool" where
  "valid_DeviceNode s \<longleftrightarrow> pred_option (list_all utf8) (DeviceNode_Children s) \<and> pred_option utf8 (DeviceNode_Id s) \<and> pred_option utf8 (DeviceNode_PciBdf s) \<and>
     pred_option (list_all (valid_map (\<lambda>j. j \<noteq> JNull))) (DeviceNode_Resources s)"

interpretation ch_DeviceNode: json_element json_DeviceNode valid_DeviceNode id
proof
  fix s assume s: "valid_DeviceNode s"
  show "transports json_DeviceNode s (id s)"
    unfolding json_DeviceNode_def
    by (rule struct_transports)
      (use s in \<open>simp_all add: DeviceNode_fields_def zero_DeviceNode_def valid_DeviceNode_def ch_simps
        copy_optional [OF string.list_element]
        copy_optional [OF string.json_element_axioms]
        copy_optional [OF json_element.list_element [OF any.dict_element]]\<close>)
qed (simp add: json_DeviceNode_def struct_not_null)

lemma zero_of_DeviceNode [simp]: "zero_of json_DeviceNode = zero_DeviceNode"
  by (simp add: json_DeviceNode_def)

record VirtQueueAffinity =
  VirtQueueAffinity_HostCpus :: "(64 word) list"
  VirtQueueAffinity_QueueIndex :: "64 word"

definition VirtQueueAffinity_fields :: "VirtQueueAffinity field list" where
  "VirtQueueAffinity_fields =
    [field ''host_cpus'' VirtQueueAffinity_HostCpus VirtQueueAffinity_HostCpus_update (json_list json_int),
     field ''queue_index'' VirtQueueAffinity_QueueIndex VirtQueueAffinity_QueueIndex_update json_int]"

definition zero_VirtQueueAffinity :: VirtQueueAffinity where
  "zero_VirtQueueAffinity = \<lparr>VirtQueueAffinity_HostCpus = [], VirtQueueAffinity_QueueIndex = 0\<rparr>"

definition json_VirtQueueAffinity :: "VirtQueueAffinity codec" where
  "json_VirtQueueAffinity = json_struct VirtQueueAffinity_fields zero_VirtQueueAffinity"

definition valid_VirtQueueAffinity :: "VirtQueueAffinity \<Rightarrow> bool" where
  "valid_VirtQueueAffinity s \<longleftrightarrow> (list_all (\<lambda>_. True)) (VirtQueueAffinity_HostCpus s)"

interpretation ch_VirtQueueAffinity: json_element json_VirtQueueAffinity valid_VirtQueueAffinity id
proof
  fix s assume s: "valid_VirtQueueAffinity s"
  show "transports json_VirtQueueAffinity s (id s)"
    unfolding json_VirtQueueAffinity_def
    by (rule struct_transports)
      (use s in \<open>simp_all add: VirtQueueAffinity_fields_def zero_VirtQueueAffinity_def valid_VirtQueueAffinity_def ch_simps
        copy_field [OF json_element.arrives [OF int.list_element]]
        copy_field [OF json_element.arrives [OF int.json_element_axioms]]\<close>)
qed (simp add: json_VirtQueueAffinity_def struct_not_null)

lemma zero_of_VirtQueueAffinity [simp]: "zero_of json_VirtQueueAffinity = zero_VirtQueueAffinity"
  by (simp add: json_VirtQueueAffinity_def)

record TokenBucket =
  TokenBucket_OneTimeBurst :: "(64 word) option"
  TokenBucket_RefillTime :: "64 word"
  TokenBucket_Size :: "64 word"

definition TokenBucket_fields :: "TokenBucket field list" where
  "TokenBucket_fields =
    [optional ''one_time_burst'' TokenBucket_OneTimeBurst TokenBucket_OneTimeBurst_update json_int,
     field ''refill_time'' TokenBucket_RefillTime TokenBucket_RefillTime_update json_int,
     field ''size'' TokenBucket_Size TokenBucket_Size_update json_int]"

definition zero_TokenBucket :: TokenBucket where
  "zero_TokenBucket = \<lparr>TokenBucket_OneTimeBurst = None, TokenBucket_RefillTime = 0, TokenBucket_Size = 0\<rparr>"

definition json_TokenBucket :: "TokenBucket codec" where
  "json_TokenBucket = json_struct TokenBucket_fields zero_TokenBucket"

definition valid_TokenBucket :: "TokenBucket \<Rightarrow> bool" where
  "valid_TokenBucket s \<longleftrightarrow> True"

interpretation ch_TokenBucket: json_element json_TokenBucket valid_TokenBucket id
proof
  fix s assume s: "valid_TokenBucket s"
  show "transports json_TokenBucket s (id s)"
    unfolding json_TokenBucket_def
    by (rule struct_transports)
      (use s in \<open>simp_all add: TokenBucket_fields_def zero_TokenBucket_def valid_TokenBucket_def ch_simps
        copy_optional [OF int.json_element_axioms]
        copy_field [OF json_element.arrives [OF int.json_element_axioms]]\<close>)
qed (simp add: json_TokenBucket_def struct_not_null)

lemma zero_of_TokenBucket [simp]: "zero_of json_TokenBucket = zero_TokenBucket"
  by (simp add: json_TokenBucket_def)

record RateLimiterConfig =
  RateLimiterConfig_Bandwidth :: "TokenBucket option"
  RateLimiterConfig_Ops :: "TokenBucket option"

definition RateLimiterConfig_fields :: "RateLimiterConfig field list" where
  "RateLimiterConfig_fields =
    [optional ''bandwidth'' RateLimiterConfig_Bandwidth RateLimiterConfig_Bandwidth_update json_TokenBucket,
     optional ''ops'' RateLimiterConfig_Ops RateLimiterConfig_Ops_update json_TokenBucket]"

definition zero_RateLimiterConfig :: RateLimiterConfig where
  "zero_RateLimiterConfig = \<lparr>RateLimiterConfig_Bandwidth = None, RateLimiterConfig_Ops = None\<rparr>"

definition json_RateLimiterConfig :: "RateLimiterConfig codec" where
  "json_RateLimiterConfig = json_struct RateLimiterConfig_fields zero_RateLimiterConfig"

definition valid_RateLimiterConfig :: "RateLimiterConfig \<Rightarrow> bool" where
  "valid_RateLimiterConfig s \<longleftrightarrow> pred_option valid_TokenBucket (RateLimiterConfig_Bandwidth s) \<and> pred_option valid_TokenBucket (RateLimiterConfig_Ops s)"

interpretation ch_RateLimiterConfig: json_element json_RateLimiterConfig valid_RateLimiterConfig id
proof
  fix s assume s: "valid_RateLimiterConfig s"
  show "transports json_RateLimiterConfig s (id s)"
    unfolding json_RateLimiterConfig_def
    by (rule struct_transports)
      (use s in \<open>simp_all add: RateLimiterConfig_fields_def zero_RateLimiterConfig_def valid_RateLimiterConfig_def ch_simps
        copy_optional [OF ch_TokenBucket.json_element_axioms]\<close>)
qed (simp add: json_RateLimiterConfig_def struct_not_null)

lemma zero_of_RateLimiterConfig [simp]: "zero_of json_RateLimiterConfig = zero_RateLimiterConfig"
  by (simp add: json_RateLimiterConfig_def)

record DiskConfig =
  DiskConfig_Direct :: "bool option"
  DiskConfig_Id :: "string option"
  DiskConfig_Iommu :: "bool option"
  DiskConfig_NumQueues :: "(64 word) option"
  DiskConfig_Path :: string
  DiskConfig_PciSegment :: "(16 word) option"
  DiskConfig_QueueAffinity :: "(VirtQueueAffinity list) option"
  DiskConfig_QueueSize :: "(64 word) option"
  DiskConfig_RateLimitGroup :: "string option"
  DiskConfig_RateLimiterConfig :: "RateLimiterConfig option"
  DiskConfig_Readonly :: "bool option"
  DiskConfig_Serial :: "string option"
  DiskConfig_VhostSocket :: "string option"
  DiskConfig_VhostUser :: "bool option"

definition DiskConfig_fields :: "DiskConfig field list" where
  "DiskConfig_fields =
    [optional ''direct'' DiskConfig_Direct DiskConfig_Direct_update json_bool,
     optional ''id'' DiskConfig_Id DiskConfig_Id_update json_string,
     optional ''iommu'' DiskConfig_Iommu DiskConfig_Iommu_update json_bool,
     optional ''num_queues'' DiskConfig_NumQueues DiskConfig_NumQueues_update json_int,
     field ''path'' DiskConfig_Path DiskConfig_Path_update json_string,
     optional ''pci_segment'' DiskConfig_PciSegment DiskConfig_PciSegment_update json_int,
     optional ''queue_affinity'' DiskConfig_QueueAffinity DiskConfig_QueueAffinity_update (json_list json_VirtQueueAffinity),
     optional ''queue_size'' DiskConfig_QueueSize DiskConfig_QueueSize_update json_int,
     optional ''rate_limit_group'' DiskConfig_RateLimitGroup DiskConfig_RateLimitGroup_update json_string,
     optional ''rate_limiter_config'' DiskConfig_RateLimiterConfig DiskConfig_RateLimiterConfig_update json_RateLimiterConfig,
     optional ''readonly'' DiskConfig_Readonly DiskConfig_Readonly_update json_bool,
     optional ''serial'' DiskConfig_Serial DiskConfig_Serial_update json_string,
     optional ''vhost_socket'' DiskConfig_VhostSocket DiskConfig_VhostSocket_update json_string,
     optional ''vhost_user'' DiskConfig_VhostUser DiskConfig_VhostUser_update json_bool]"

definition zero_DiskConfig :: DiskConfig where
  "zero_DiskConfig = \<lparr>DiskConfig_Direct = None, DiskConfig_Id = None, DiskConfig_Iommu = None, DiskConfig_NumQueues = None,
     DiskConfig_Path = [], DiskConfig_PciSegment = None, DiskConfig_QueueAffinity = None, DiskConfig_QueueSize = None,
     DiskConfig_RateLimitGroup = None, DiskConfig_RateLimiterConfig = None, DiskConfig_Readonly = None, DiskConfig_Serial = None,
     DiskConfig_VhostSocket = None, DiskConfig_VhostUser = None\<rparr>"

definition json_DiskConfig :: "DiskConfig codec" where
  "json_DiskConfig = json_struct DiskConfig_fields zero_DiskConfig"

definition valid_DiskConfig :: "DiskConfig \<Rightarrow> bool" where
  "valid_DiskConfig s \<longleftrightarrow> pred_option utf8 (DiskConfig_Id s) \<and> utf8 (DiskConfig_Path s) \<and> pred_option (list_all valid_VirtQueueAffinity) (DiskConfig_QueueAffinity s) \<and>
     pred_option utf8 (DiskConfig_RateLimitGroup s) \<and> pred_option valid_RateLimiterConfig (DiskConfig_RateLimiterConfig s) \<and> pred_option utf8 (DiskConfig_Serial s) \<and>
     pred_option utf8 (DiskConfig_VhostSocket s)"

interpretation ch_DiskConfig: json_element json_DiskConfig valid_DiskConfig id
proof
  fix s assume s: "valid_DiskConfig s"
  show "transports json_DiskConfig s (id s)"
    unfolding json_DiskConfig_def
    by (rule struct_transports)
      (use s in \<open>simp_all add: DiskConfig_fields_def zero_DiskConfig_def valid_DiskConfig_def ch_simps
        copy_optional [OF bool.json_element_axioms]
        copy_optional [OF string.json_element_axioms]
        copy_optional [OF int.json_element_axioms]
        copy_field [OF json_element.arrives [OF string.json_element_axioms]]
        copy_optional [OF ch_VirtQueueAffinity.list_element]
        copy_optional [OF ch_RateLimiterConfig.json_element_axioms]\<close>)
qed (simp add: json_DiskConfig_def struct_not_null)

lemma zero_of_DiskConfig [simp]: "zero_of json_DiskConfig = zero_DiskConfig"
  by (simp add: json_DiskConfig_def)

record FsConfig =
  FsConfig_Id :: "string option"
  FsConfig_NumQueues :: "64 word"
  FsConfig_PciSegment :: "(16 word) option"
  FsConfig_QueueSize :: "64 word"
  FsConfig_Socket :: string
  FsConfig_Tag :: string

definition FsConfig_fields :: "FsConfig field list" where
  "FsConfig_fields =
    [optional ''id'' FsConfig_Id FsConfig_Id_update json_string,
     field ''num_queues'' FsConfig_NumQueues FsConfig_NumQueues_update json_int,
     optional ''pci_segment'' FsConfig_PciSegment FsConfig_PciSegment_update json_int,
     field ''queue_size'' FsConfig_QueueSize FsConfig_QueueSize_update json_int,
     field ''socket'' FsConfig_Socket FsConfig_Socket_update json_string,
     field ''tag'' FsConfig_Tag FsConfig_Tag_update json_string]"

definition zero_FsConfig :: FsConfig where
  "zero_FsConfig = \<lparr>FsConfig_Id = None, FsConfig_NumQueues = 0, FsConfig_PciSegment = None, FsConfig_QueueSize = 0,
     FsConfig_Socket = [], FsConfig_Tag = []\<rparr>"

definition json_FsConfig :: "FsConfig codec" where
  "json_FsConfig = json_struct FsConfig_fields zero_FsConfig"

definition valid_FsConfig :: "FsConfig \<Rightarrow> bool" where
  "valid_FsConfig s \<longleftrightarrow> pred_option utf8 (FsConfig_Id s) \<and> utf8 (FsConfig_Socket s) \<and> utf8 (FsConfig_Tag s)"

interpretation ch_FsConfig: json_element json_FsConfig valid_FsConfig id
proof
  fix s assume s: "valid_FsConfig s"
  show "transports json_FsConfig s (id s)"
    unfolding json_FsConfig_def
    by (rule struct_transports)
      (use s in \<open>simp_all add: FsConfig_fields_def zero_FsConfig_def valid_FsConfig_def ch_simps
        copy_optional [OF string.json_element_axioms]
        copy_field [OF json_element.arrives [OF int.json_element_axioms]]
        copy_optional [OF int.json_element_axioms]
        copy_field [OF json_element.arrives [OF string.json_element_axioms]]\<close>)
qed (simp add: json_FsConfig_def struct_not_null)

lemma zero_of_FsConfig [simp]: "zero_of json_FsConfig = zero_FsConfig"
  by (simp add: json_FsConfig_def)

record LandlockConfig =
  LandlockConfig_Access :: string
  LandlockConfig_Path :: string

definition LandlockConfig_fields :: "LandlockConfig field list" where
  "LandlockConfig_fields =
    [field ''access'' LandlockConfig_Access LandlockConfig_Access_update json_string,
     field ''path'' LandlockConfig_Path LandlockConfig_Path_update json_string]"

definition zero_LandlockConfig :: LandlockConfig where
  "zero_LandlockConfig = \<lparr>LandlockConfig_Access = [], LandlockConfig_Path = []\<rparr>"

definition json_LandlockConfig :: "LandlockConfig codec" where
  "json_LandlockConfig = json_struct LandlockConfig_fields zero_LandlockConfig"

definition valid_LandlockConfig :: "LandlockConfig \<Rightarrow> bool" where
  "valid_LandlockConfig s \<longleftrightarrow> utf8 (LandlockConfig_Access s) \<and> utf8 (LandlockConfig_Path s)"

interpretation ch_LandlockConfig: json_element json_LandlockConfig valid_LandlockConfig id
proof
  fix s assume s: "valid_LandlockConfig s"
  show "transports json_LandlockConfig s (id s)"
    unfolding json_LandlockConfig_def
    by (rule struct_transports)
      (use s in \<open>simp_all add: LandlockConfig_fields_def zero_LandlockConfig_def valid_LandlockConfig_def ch_simps
        copy_field [OF json_element.arrives [OF string.json_element_axioms]]\<close>)
qed (simp add: json_LandlockConfig_def struct_not_null)

lemma zero_of_LandlockConfig [simp]: "zero_of json_LandlockConfig = zero_LandlockConfig"
  by (simp add: json_LandlockConfig_def)

record MemoryZoneConfig =
  MemoryZoneConfig_File :: "string option"
  MemoryZoneConfig_HostNumaNode :: "(32 word) option"
  MemoryZoneConfig_HotplugSize :: "(64 word) option"
  MemoryZoneConfig_HotpluggedSize :: "(64 word) option"
  MemoryZoneConfig_HugepageSize :: "(64 word) option"
  MemoryZoneConfig_Hugepages :: "bool option"
  MemoryZoneConfig_Id :: string
  MemoryZoneConfig_Mergeable :: "bool option"
  MemoryZoneConfig_Prefault :: "bool option"
  MemoryZoneConfig_Shared :: "bool option"
  MemoryZoneConfig_Size :: "64 word"

definition MemoryZoneConfig_fields :: "MemoryZoneConfig field list" where
  "MemoryZoneConfig_fields =
    [optional ''file'' MemoryZoneConfig_File MemoryZoneConfig_File_update json_string,
     optional ''host_numa_node'' MemoryZoneConfig_HostNumaNode MemoryZoneConfig_HostNumaNode_update json_int,
     optional ''hotplug_size'' MemoryZoneConfig_HotplugSize MemoryZoneConfig_HotplugSize_update json_int,
     optional ''hotplugged_size'' MemoryZoneConfig_HotpluggedSize MemoryZoneConfig_HotpluggedSize_update json_int,
     optional ''hugepage_size'' MemoryZoneConfig_HugepageSize MemoryZoneConfig_HugepageSize_update json_int,
     optional ''hugepages'' MemoryZoneConfig_Hugepages MemoryZoneConfig_Hugepages_update json_bool,
     field ''id'' MemoryZoneConfig_Id MemoryZoneConfig_Id_update json_string,
     optional ''mergeable'' MemoryZoneConfig_Mergeable MemoryZoneConfig_Mergeable_update json_bool,
     optional ''prefault'' MemoryZoneConfig_Prefault MemoryZoneConfig_Prefault_update json_bool,
     optional ''shared'' MemoryZoneConfig_Shared MemoryZoneConfig_Shared_update json_bool,
     field ''size'' MemoryZoneConfig_Size MemoryZoneConfig_Size_update json_int]"

definition zero_MemoryZoneConfig :: MemoryZoneConfig where
  "zero_MemoryZoneConfig = \<lparr>MemoryZoneConfig_File = None, MemoryZoneConfig_HostNumaNode = None, MemoryZoneConfig_HotplugSize = None, MemoryZoneConfig_HotpluggedSize = None,
     MemoryZoneConfig_HugepageSize = None, MemoryZoneConfig_Hugepages = None, MemoryZoneConfig_Id = [], MemoryZoneConfig_Mergeable = None,
     MemoryZoneConfig_Prefault = None, MemoryZoneConfig_Shared = None, MemoryZoneConfig_Size = 0\<rparr>"

definition json_MemoryZoneConfig :: "MemoryZoneConfig codec" where
  "json_MemoryZoneConfig = json_struct MemoryZoneConfig_fields zero_MemoryZoneConfig"

definition valid_MemoryZoneConfig :: "MemoryZoneConfig \<Rightarrow> bool" where
  "valid_MemoryZoneConfig s \<longleftrightarrow> pred_option utf8 (MemoryZoneConfig_File s) \<and> utf8 (MemoryZoneConfig_Id s)"

interpretation ch_MemoryZoneConfig: json_element json_MemoryZoneConfig valid_MemoryZoneConfig id
proof
  fix s assume s: "valid_MemoryZoneConfig s"
  show "transports json_MemoryZoneConfig s (id s)"
    unfolding json_MemoryZoneConfig_def
    by (rule struct_transports)
      (use s in \<open>simp_all add: MemoryZoneConfig_fields_def zero_MemoryZoneConfig_def valid_MemoryZoneConfig_def ch_simps
        copy_optional [OF string.json_element_axioms]
        copy_optional [OF int.json_element_axioms]
        copy_optional [OF bool.json_element_axioms]
        copy_field [OF json_element.arrives [OF string.json_element_axioms]]
        copy_field [OF json_element.arrives [OF int.json_element_axioms]]\<close>)
qed (simp add: json_MemoryZoneConfig_def struct_not_null)

lemma zero_of_MemoryZoneConfig [simp]: "zero_of json_MemoryZoneConfig = zero_MemoryZoneConfig"
  by (simp add: json_MemoryZoneConfig_def)

record MemoryConfig =
  MemoryConfig_HotplugMethod :: "string option"
  MemoryConfig_HotplugSize :: "(64 word) option"
  MemoryConfig_HotpluggedSize :: "(64 word) option"
  MemoryConfig_HugepageSize :: "(64 word) option"
  MemoryConfig_Hugepages :: "bool option"
  MemoryConfig_Mergeable :: "bool option"
  MemoryConfig_Prefault :: "bool option"
  MemoryConfig_Shared :: "bool option"
  MemoryConfig_Size :: "64 word"
  MemoryConfig_Thp :: "bool option"
  MemoryConfig_Zones :: "(MemoryZoneConfig list) option"

definition MemoryConfig_fields :: "MemoryConfig field list" where
  "MemoryConfig_fields =
    [optional ''hotplug_method'' MemoryConfig_HotplugMethod MemoryConfig_HotplugMethod_update json_string,
     optional ''hotplug_size'' MemoryConfig_HotplugSize MemoryConfig_HotplugSize_update json_int,
     optional ''hotplugged_size'' MemoryConfig_HotpluggedSize MemoryConfig_HotpluggedSize_update json_int,
     optional ''hugepage_size'' MemoryConfig_HugepageSize MemoryConfig_HugepageSize_update json_int,
     optional ''hugepages'' MemoryConfig_Hugepages MemoryConfig_Hugepages_update json_bool,
     optional ''mergeable'' MemoryConfig_Mergeable MemoryConfig_Mergeable_update json_bool,
     optional ''prefault'' MemoryConfig_Prefault MemoryConfig_Prefault_update json_bool,
     optional ''shared'' MemoryConfig_Shared MemoryConfig_Shared_update json_bool,
     field ''size'' MemoryConfig_Size MemoryConfig_Size_update json_int,
     optional ''thp'' MemoryConfig_Thp MemoryConfig_Thp_update json_bool,
     optional ''zones'' MemoryConfig_Zones MemoryConfig_Zones_update (json_list json_MemoryZoneConfig)]"

definition zero_MemoryConfig :: MemoryConfig where
  "zero_MemoryConfig = \<lparr>MemoryConfig_HotplugMethod = None, MemoryConfig_HotplugSize = None, MemoryConfig_HotpluggedSize = None, MemoryConfig_HugepageSize = None,
     MemoryConfig_Hugepages = None, MemoryConfig_Mergeable = None, MemoryConfig_Prefault = None, MemoryConfig_Shared = None,
     MemoryConfig_Size = 0, MemoryConfig_Thp = None, MemoryConfig_Zones = None\<rparr>"

definition json_MemoryConfig :: "MemoryConfig codec" where
  "json_MemoryConfig = json_struct MemoryConfig_fields zero_MemoryConfig"

definition valid_MemoryConfig :: "MemoryConfig \<Rightarrow> bool" where
  "valid_MemoryConfig s \<longleftrightarrow> pred_option utf8 (MemoryConfig_HotplugMethod s) \<and> pred_option (list_all valid_MemoryZoneConfig) (MemoryConfig_Zones s)"

interpretation ch_MemoryConfig: json_element json_MemoryConfig valid_MemoryConfig id
proof
  fix s assume s: "valid_MemoryConfig s"
  show "transports json_MemoryConfig s (id s)"
    unfolding json_MemoryConfig_def
    by (rule struct_transports)
      (use s in \<open>simp_all add: MemoryConfig_fields_def zero_MemoryConfig_def valid_MemoryConfig_def ch_simps
        copy_optional [OF string.json_element_axioms]
        copy_optional [OF int.json_element_axioms]
        copy_optional [OF bool.json_element_axioms]
        copy_field [OF json_element.arrives [OF int.json_element_axioms]]
        copy_optional [OF ch_MemoryZoneConfig.list_element]\<close>)
qed (simp add: json_MemoryConfig_def struct_not_null)

lemma zero_of_MemoryConfig [simp]: "zero_of json_MemoryConfig = zero_MemoryConfig"
  by (simp add: json_MemoryConfig_def)

record NetConfig =
  NetConfig_HostMac :: "string option"
  NetConfig_Id :: "string option"
  NetConfig_Iommu :: "bool option"
  NetConfig_Ip :: "string option"
  NetConfig_Mac :: "string option"
  NetConfig_Mask :: "string option"
  NetConfig_Mtu :: "(64 word) option"
  NetConfig_NumQueues :: "(64 word) option"
  NetConfig_PciSegment :: "(16 word) option"
  NetConfig_QueueSize :: "(64 word) option"
  NetConfig_RateLimiterConfig :: "RateLimiterConfig option"
  NetConfig_Tap :: "string option"
  NetConfig_VhostMode :: "string option"
  NetConfig_VhostSocket :: "string option"
  NetConfig_VhostUser :: "bool option"

definition NetConfig_fields :: "NetConfig field list" where
  "NetConfig_fields =
    [optional ''host_mac'' NetConfig_HostMac NetConfig_HostMac_update json_string,
     optional ''id'' NetConfig_Id NetConfig_Id_update json_string,
     optional ''iommu'' NetConfig_Iommu NetConfig_Iommu_update json_bool,
     optional ''ip'' NetConfig_Ip NetConfig_Ip_update json_string,
     optional ''mac'' NetConfig_Mac NetConfig_Mac_update json_string,
     optional ''mask'' NetConfig_Mask NetConfig_Mask_update json_string,
     optional ''mtu'' NetConfig_Mtu NetConfig_Mtu_update json_int,
     optional ''num_queues'' NetConfig_NumQueues NetConfig_NumQueues_update json_int,
     optional ''pci_segment'' NetConfig_PciSegment NetConfig_PciSegment_update json_int,
     optional ''queue_size'' NetConfig_QueueSize NetConfig_QueueSize_update json_int,
     optional ''rate_limiter_config'' NetConfig_RateLimiterConfig NetConfig_RateLimiterConfig_update json_RateLimiterConfig,
     optional ''tap'' NetConfig_Tap NetConfig_Tap_update json_string,
     optional ''vhost_mode'' NetConfig_VhostMode NetConfig_VhostMode_update json_string,
     optional ''vhost_socket'' NetConfig_VhostSocket NetConfig_VhostSocket_update json_string,
     optional ''vhost_user'' NetConfig_VhostUser NetConfig_VhostUser_update json_bool]"

definition zero_NetConfig :: NetConfig where
  "zero_NetConfig = \<lparr>NetConfig_HostMac = None, NetConfig_Id = None, NetConfig_Iommu = None, NetConfig_Ip = None,
     NetConfig_Mac = None, NetConfig_Mask = None, NetConfig_Mtu = None, NetConfig_NumQueues = None,
     NetConfig_PciSegment = None, NetConfig_QueueSize = None, NetConfig_RateLimiterConfig = None, NetConfig_Tap = None,
     NetConfig_VhostMode = None, NetConfig_VhostSocket = None, NetConfig_VhostUser = None\<rparr>"

definition json_NetConfig :: "NetConfig codec" where
  "json_NetConfig = json_struct NetConfig_fields zero_NetConfig"

definition valid_NetConfig :: "NetConfig \<Rightarrow> bool" where
  "valid_NetConfig s \<longleftrightarrow> pred_option utf8 (NetConfig_HostMac s) \<and> pred_option utf8 (NetConfig_Id s) \<and> pred_option utf8 (NetConfig_Ip s) \<and>
     pred_option utf8 (NetConfig_Mac s) \<and> pred_option utf8 (NetConfig_Mask s) \<and> pred_option valid_RateLimiterConfig (NetConfig_RateLimiterConfig s) \<and>
     pred_option utf8 (NetConfig_Tap s) \<and> pred_option utf8 (NetConfig_VhostMode s) \<and> pred_option utf8 (NetConfig_VhostSocket s)"

interpretation ch_NetConfig: json_element json_NetConfig valid_NetConfig id
proof
  fix s assume s: "valid_NetConfig s"
  show "transports json_NetConfig s (id s)"
    unfolding json_NetConfig_def
    by (rule struct_transports)
      (use s in \<open>simp_all add: NetConfig_fields_def zero_NetConfig_def valid_NetConfig_def ch_simps
        copy_optional [OF string.json_element_axioms]
        copy_optional [OF bool.json_element_axioms]
        copy_optional [OF int.json_element_axioms]
        copy_optional [OF ch_RateLimiterConfig.json_element_axioms]\<close>)
qed (simp add: json_NetConfig_def struct_not_null)

lemma zero_of_NetConfig [simp]: "zero_of json_NetConfig = zero_NetConfig"
  by (simp add: json_NetConfig_def)

record NumaDistance =
  NumaDistance_Destination :: "32 word"
  NumaDistance_Distance :: "32 word"

definition NumaDistance_fields :: "NumaDistance field list" where
  "NumaDistance_fields =
    [field ''destination'' NumaDistance_Destination NumaDistance_Destination_update json_int,
     field ''distance'' NumaDistance_Distance NumaDistance_Distance_update json_int]"

definition zero_NumaDistance :: NumaDistance where
  "zero_NumaDistance = \<lparr>NumaDistance_Destination = 0, NumaDistance_Distance = 0\<rparr>"

definition json_NumaDistance :: "NumaDistance codec" where
  "json_NumaDistance = json_struct NumaDistance_fields zero_NumaDistance"

definition valid_NumaDistance :: "NumaDistance \<Rightarrow> bool" where
  "valid_NumaDistance s \<longleftrightarrow> True"

interpretation ch_NumaDistance: json_element json_NumaDistance valid_NumaDistance id
proof
  fix s assume s: "valid_NumaDistance s"
  show "transports json_NumaDistance s (id s)"
    unfolding json_NumaDistance_def
    by (rule struct_transports)
      (use s in \<open>simp_all add: NumaDistance_fields_def zero_NumaDistance_def valid_NumaDistance_def ch_simps
        copy_field [OF json_element.arrives [OF int.json_element_axioms]]\<close>)
qed (simp add: json_NumaDistance_def struct_not_null)

lemma zero_of_NumaDistance [simp]: "zero_of json_NumaDistance = zero_NumaDistance"
  by (simp add: json_NumaDistance_def)

record NumaConfig =
  NumaConfig_Cpus :: "(32 word) list option"
  NumaConfig_Distances :: "(NumaDistance list) option"
  NumaConfig_GuestNumaId :: "32 word"
  NumaConfig_MemoryZones :: "(string list) option"
  NumaConfig_PciSegments :: "(32 word) list option"
  NumaConfig_SgxEpcSections :: "(string list) option"

definition NumaConfig_fields :: "NumaConfig field list" where
  "NumaConfig_fields =
    [optional ''cpus'' NumaConfig_Cpus NumaConfig_Cpus_update (json_list json_int),
     optional ''distances'' NumaConfig_Distances NumaConfig_Distances_update (json_list json_NumaDistance),
     field ''guest_numa_id'' NumaConfig_GuestNumaId NumaConfig_GuestNumaId_update json_int,
     optional ''memory_zones'' NumaConfig_MemoryZones NumaConfig_MemoryZones_update (json_list json_string),
     optional ''pci_segments'' NumaConfig_PciSegments NumaConfig_PciSegments_update (json_list json_int),
     optional ''sgx_epc_sections'' NumaConfig_SgxEpcSections NumaConfig_SgxEpcSections_update (json_list json_string)]"

definition zero_NumaConfig :: NumaConfig where
  "zero_NumaConfig = \<lparr>NumaConfig_Cpus = None, NumaConfig_Distances = None, NumaConfig_GuestNumaId = 0, NumaConfig_MemoryZones = None,
     NumaConfig_PciSegments = None, NumaConfig_SgxEpcSections = None\<rparr>"

definition json_NumaConfig :: "NumaConfig codec" where
  "json_NumaConfig = json_struct NumaConfig_fields zero_NumaConfig"

definition valid_NumaConfig :: "NumaConfig \<Rightarrow> bool" where
  "valid_NumaConfig s \<longleftrightarrow> pred_option (list_all (\<lambda>_. True)) (NumaConfig_Cpus s) \<and> pred_option (list_all valid_NumaDistance) (NumaConfig_Distances s) \<and> pred_option (list_all utf8) (NumaConfig_MemoryZones s) \<and>
     pred_option (list_all (\<lambda>_. True)) (NumaConfig_PciSegments s) \<and> pred_option (list_all utf8) (NumaConfig_SgxEpcSections s)"

interpretation ch_NumaConfig: json_element json_NumaConfig valid_NumaConfig id
proof
  fix s assume s: "valid_NumaConfig s"
  show "transports json_NumaConfig s (id s)"
    unfolding json_NumaConfig_def
    by (rule struct_transports)
      (use s in \<open>simp_all add: NumaConfig_fields_def zero_NumaConfig_def valid_NumaConfig_def ch_simps
        copy_optional [OF int.list_element]
        copy_optional [OF ch_NumaDistance.list_element]
        copy_field [OF json_element.arrives [OF int.json_element_axioms]]
        copy_optional [OF string.list_element]\<close>)
qed (simp add: json_NumaConfig_def struct_not_null)

lemma zero_of_NumaConfig [simp]: "zero_of json_NumaConfig = zero_NumaConfig"
  by (simp add: json_NumaConfig_def)

record PayloadConfig =
  PayloadConfig_Cmdline :: "string option"
  PayloadConfig_Firmware :: "string option"
  PayloadConfig_HostData :: "string option"
  PayloadConfig_Igvm :: "string option"
  PayloadConfig_Initramfs :: "string option"
  PayloadConfig_Kernel :: "string option"

definition PayloadConfig_fields :: "PayloadConfig field list" where
  "PayloadConfig_fields =
    [optional ''cmdline'' PayloadConfig_Cmdline PayloadConfig_Cmdline_update json_string,
     optional ''firmware'' PayloadConfig_Firmware PayloadConfig_Firmware_update json_string,
     optional ''host_data'' PayloadConfig_HostData PayloadConfig_HostData_update json_string,
     optional ''igvm'' PayloadConfig_Igvm PayloadConfig_Igvm_update json_string,
     optional ''initramfs'' PayloadConfig_Initramfs PayloadConfig_Initramfs_update json_string,
     optional ''kernel'' PayloadConfig_Kernel PayloadConfig_Kernel_update json_string]"

definition zero_PayloadConfig :: PayloadConfig where
  "zero_PayloadConfig = \<lparr>PayloadConfig_Cmdline = None, PayloadConfig_Firmware = None, PayloadConfig_HostData = None, PayloadConfig_Igvm = None,
     PayloadConfig_Initramfs = None, PayloadConfig_Kernel = None\<rparr>"

definition json_PayloadConfig :: "PayloadConfig codec" where
  "json_PayloadConfig = json_struct PayloadConfig_fields zero_PayloadConfig"

definition valid_PayloadConfig :: "PayloadConfig \<Rightarrow> bool" where
  "valid_PayloadConfig s \<longleftrightarrow> pred_option utf8 (PayloadConfig_Cmdline s) \<and> pred_option utf8 (PayloadConfig_Firmware s) \<and> pred_option utf8 (PayloadConfig_HostData s) \<and>
     pred_option utf8 (PayloadConfig_Igvm s) \<and> pred_option utf8 (PayloadConfig_Initramfs s) \<and> pred_option utf8 (PayloadConfig_Kernel s)"

interpretation ch_PayloadConfig: json_element json_PayloadConfig valid_PayloadConfig id
proof
  fix s assume s: "valid_PayloadConfig s"
  show "transports json_PayloadConfig s (id s)"
    unfolding json_PayloadConfig_def
    by (rule struct_transports)
      (use s in \<open>simp_all add: PayloadConfig_fields_def zero_PayloadConfig_def valid_PayloadConfig_def ch_simps
        copy_optional [OF string.json_element_axioms]\<close>)
qed (simp add: json_PayloadConfig_def struct_not_null)

lemma zero_of_PayloadConfig [simp]: "zero_of json_PayloadConfig = zero_PayloadConfig"
  by (simp add: json_PayloadConfig_def)

record PciDeviceInfo =
  PciDeviceInfo_Bdf :: string
  PciDeviceInfo_Id :: string

definition PciDeviceInfo_fields :: "PciDeviceInfo field list" where
  "PciDeviceInfo_fields =
    [field ''bdf'' PciDeviceInfo_Bdf PciDeviceInfo_Bdf_update json_string,
     field ''id'' PciDeviceInfo_Id PciDeviceInfo_Id_update json_string]"

definition zero_PciDeviceInfo :: PciDeviceInfo where
  "zero_PciDeviceInfo = \<lparr>PciDeviceInfo_Bdf = [], PciDeviceInfo_Id = []\<rparr>"

definition json_PciDeviceInfo :: "PciDeviceInfo codec" where
  "json_PciDeviceInfo = json_struct PciDeviceInfo_fields zero_PciDeviceInfo"

definition valid_PciDeviceInfo :: "PciDeviceInfo \<Rightarrow> bool" where
  "valid_PciDeviceInfo s \<longleftrightarrow> utf8 (PciDeviceInfo_Bdf s) \<and> utf8 (PciDeviceInfo_Id s)"

interpretation ch_PciDeviceInfo: json_element json_PciDeviceInfo valid_PciDeviceInfo id
proof
  fix s assume s: "valid_PciDeviceInfo s"
  show "transports json_PciDeviceInfo s (id s)"
    unfolding json_PciDeviceInfo_def
    by (rule struct_transports)
      (use s in \<open>simp_all add: PciDeviceInfo_fields_def zero_PciDeviceInfo_def valid_PciDeviceInfo_def ch_simps
        copy_field [OF json_element.arrives [OF string.json_element_axioms]]\<close>)
qed (simp add: json_PciDeviceInfo_def struct_not_null)

lemma zero_of_PciDeviceInfo [simp]: "zero_of json_PciDeviceInfo = zero_PciDeviceInfo"
  by (simp add: json_PciDeviceInfo_def)

record PciSegmentConfig =
  PciSegmentConfig_Mmio32ApertureWeight :: "(32 word) option"
  PciSegmentConfig_Mmio64ApertureWeight :: "(32 word) option"
  PciSegmentConfig_PciSegment :: "16 word"

definition PciSegmentConfig_fields :: "PciSegmentConfig field list" where
  "PciSegmentConfig_fields =
    [optional ''mmio32_aperture_weight'' PciSegmentConfig_Mmio32ApertureWeight PciSegmentConfig_Mmio32ApertureWeight_update json_int,
     optional ''mmio64_aperture_weight'' PciSegmentConfig_Mmio64ApertureWeight PciSegmentConfig_Mmio64ApertureWeight_update json_int,
     field ''pci_segment'' PciSegmentConfig_PciSegment PciSegmentConfig_PciSegment_update json_int]"

definition zero_PciSegmentConfig :: PciSegmentConfig where
  "zero_PciSegmentConfig = \<lparr>PciSegmentConfig_Mmio32ApertureWeight = None, PciSegmentConfig_Mmio64ApertureWeight = None, PciSegmentConfig_PciSegment = 0\<rparr>"

definition json_PciSegmentConfig :: "PciSegmentConfig codec" where
  "json_PciSegmentConfig = json_struct PciSegmentConfig_fields zero_PciSegmentConfig"

definition valid_PciSegmentConfig :: "PciSegmentConfig \<Rightarrow> bool" where
  "valid_PciSegmentConfig s \<longleftrightarrow> True"

interpretation ch_PciSegmentConfig: json_element json_PciSegmentConfig valid_PciSegmentConfig id
proof
  fix s assume s: "valid_PciSegmentConfig s"
  show "transports json_PciSegmentConfig s (id s)"
    unfolding json_PciSegmentConfig_def
    by (rule struct_transports)
      (use s in \<open>simp_all add: PciSegmentConfig_fields_def zero_PciSegmentConfig_def valid_PciSegmentConfig_def ch_simps
        copy_optional [OF int.json_element_axioms]
        copy_field [OF json_element.arrives [OF int.json_element_axioms]]\<close>)
qed (simp add: json_PciSegmentConfig_def struct_not_null)

lemma zero_of_PciSegmentConfig [simp]: "zero_of json_PciSegmentConfig = zero_PciSegmentConfig"
  by (simp add: json_PciSegmentConfig_def)

record PlatformConfig =
  PlatformConfig_IommuAddressWidth :: "(8 word) option"
  PlatformConfig_IommuSegments :: "(16 word) list option"
  PlatformConfig_NumPciSegments :: "(16 word) option"
  PlatformConfig_OemStrings :: "(string list) option"
  PlatformConfig_SerialNumber :: "string option"
  PlatformConfig_SevSnp :: "bool option"
  PlatformConfig_Tdx :: "bool option"
  PlatformConfig_Uuid :: "string option"

definition PlatformConfig_fields :: "PlatformConfig field list" where
  "PlatformConfig_fields =
    [optional ''iommu_address_width'' PlatformConfig_IommuAddressWidth PlatformConfig_IommuAddressWidth_update json_uint,
     optional ''iommu_segments'' PlatformConfig_IommuSegments PlatformConfig_IommuSegments_update (json_list json_int),
     optional ''num_pci_segments'' PlatformConfig_NumPciSegments PlatformConfig_NumPciSegments_update json_int,
     optional ''oem_strings'' PlatformConfig_OemStrings PlatformConfig_OemStrings_update (json_list json_string),
     optional ''serial_number'' PlatformConfig_SerialNumber PlatformConfig_SerialNumber_update json_string,
     optional ''sev_snp'' PlatformConfig_SevSnp PlatformConfig_SevSnp_update json_bool,
     optional ''tdx'' PlatformConfig_Tdx PlatformConfig_Tdx_update json_bool,
     optional ''uuid'' PlatformConfig_Uuid PlatformConfig_Uuid_update json_string]"

definition zero_PlatformConfig :: PlatformConfig where
  "zero_PlatformConfig = \<lparr>PlatformConfig_IommuAddressWidth = None, PlatformConfig_IommuSegments = None, PlatformConfig_NumPciSegments = None, PlatformConfig_OemStrings = None,
     PlatformConfig_SerialNumber = None, PlatformConfig_SevSnp = None, PlatformConfig_Tdx = None, PlatformConfig_Uuid = None\<rparr>"

definition json_PlatformConfig :: "PlatformConfig codec" where
  "json_PlatformConfig = json_struct PlatformConfig_fields zero_PlatformConfig"

definition valid_PlatformConfig :: "PlatformConfig \<Rightarrow> bool" where
  "valid_PlatformConfig s \<longleftrightarrow> pred_option (list_all (\<lambda>_. True)) (PlatformConfig_IommuSegments s) \<and> pred_option (list_all utf8) (PlatformConfig_OemStrings s) \<and> pred_option utf8 (PlatformConfig_SerialNumber s) \<and>
     pred_option utf8 (PlatformConfig_Uuid s)"

interpretation ch_PlatformConfig: json_element json_PlatformConfig valid_PlatformConfig id
proof
  fix s assume s: "valid_PlatformConfig s"
  show "transports json_PlatformConfig s (id s)"
    unfolding json_PlatformConfig_def
    by (rule struct_transports)
      (use s in \<open>simp_all add: PlatformConfig_fields_def zero_PlatformConfig_def valid_PlatformConfig_def ch_simps
        copy_optional [OF uint.json_element_axioms]
        copy_optional [OF int.list_element]
        copy_optional [OF int.json_element_axioms]
        copy_optional [OF string.list_element]
        copy_optional [OF string.json_element_axioms]
        copy_optional [OF bool.json_element_axioms]\<close>)
qed (simp add: json_PlatformConfig_def struct_not_null)

lemma zero_of_PlatformConfig [simp]: "zero_of json_PlatformConfig = zero_PlatformConfig"
  by (simp add: json_PlatformConfig_def)

record PmemConfig =
  PmemConfig_DiscardWrites :: "bool option"
  PmemConfig_File :: string
  PmemConfig_Id :: "string option"
  PmemConfig_Iommu :: "bool option"
  PmemConfig_PciSegment :: "(16 word) option"
  PmemConfig_Size :: "(64 word) option"

definition PmemConfig_fields :: "PmemConfig field list" where
  "PmemConfig_fields =
    [optional ''discard_writes'' PmemConfig_DiscardWrites PmemConfig_DiscardWrites_update json_bool,
     field ''file'' PmemConfig_File PmemConfig_File_update json_string,
     optional ''id'' PmemConfig_Id PmemConfig_Id_update json_string,
     optional ''iommu'' PmemConfig_Iommu PmemConfig_Iommu_update json_bool,
     optional ''pci_segment'' PmemConfig_PciSegment PmemConfig_PciSegment_update json_int,
     optional ''size'' PmemConfig_Size PmemConfig_Size_update json_int]"

definition zero_PmemConfig :: PmemConfig where
  "zero_PmemConfig = \<lparr>PmemConfig_DiscardWrites = None, PmemConfig_File = [], PmemConfig_Id = None, PmemConfig_Iommu = None,
     PmemConfig_PciSegment = None, PmemConfig_Size = None\<rparr>"

definition json_PmemConfig :: "PmemConfig codec" where
  "json_PmemConfig = json_struct PmemConfig_fields zero_PmemConfig"

definition valid_PmemConfig :: "PmemConfig \<Rightarrow> bool" where
  "valid_PmemConfig s \<longleftrightarrow> utf8 (PmemConfig_File s) \<and> pred_option utf8 (PmemConfig_Id s)"

interpretation ch_PmemConfig: json_element json_PmemConfig valid_PmemConfig id
proof
  fix s assume s: "valid_PmemConfig s"
  show "transports json_PmemConfig s (id s)"
    unfolding json_PmemConfig_def
    by (rule struct_transports)
      (use s in \<open>simp_all add: PmemConfig_fields_def zero_PmemConfig_def valid_PmemConfig_def ch_simps
        copy_optional [OF bool.json_element_axioms]
        copy_field [OF json_element.arrives [OF string.json_element_axioms]]
        copy_optional [OF string.json_element_axioms]
        copy_optional [OF int.json_element_axioms]\<close>)
qed (simp add: json_PmemConfig_def struct_not_null)

lemma zero_of_PmemConfig [simp]: "zero_of json_PmemConfig = zero_PmemConfig"
  by (simp add: json_PmemConfig_def)

record RateLimitGroupConfig =
  RateLimitGroupConfig_Id :: string
  RateLimitGroupConfig_RateLimiterConfig :: RateLimiterConfig

definition RateLimitGroupConfig_fields :: "RateLimitGroupConfig field list" where
  "RateLimitGroupConfig_fields =
    [field ''id'' RateLimitGroupConfig_Id RateLimitGroupConfig_Id_update json_string,
     field ''rate_limiter_config'' RateLimitGroupConfig_RateLimiterConfig RateLimitGroupConfig_RateLimiterConfig_update json_RateLimiterConfig]"

definition zero_RateLimitGroupConfig :: RateLimitGroupConfig where
  "zero_RateLimitGroupConfig = \<lparr>RateLimitGroupConfig_Id = [], RateLimitGroupConfig_RateLimiterConfig = zero_RateLimiterConfig\<rparr>"

definition json_RateLimitGroupConfig :: "RateLimitGroupConfig codec" where
  "json_RateLimitGroupConfig = json_struct RateLimitGroupConfig_fields zero_RateLimitGroupConfig"

definition valid_RateLimitGroupConfig :: "RateLimitGroupConfig \<Rightarrow> bool" where
  "valid_RateLimitGroupConfig s \<longleftrightarrow> utf8 (RateLimitGroupConfig_Id s) \<and> valid_RateLimiterConfig (RateLimitGroupConfig_RateLimiterConfig s)"

interpretation ch_RateLimitGroupConfig: json_element json_RateLimitGroupConfig valid_RateLimitGroupConfig id
proof
  fix s assume s: "valid_RateLimitGroupConfig s"
  show "transports json_RateLimitGroupConfig s (id s)"
    unfolding json_RateLimitGroupConfig_def
    by (rule struct_transports)
      (use s in \<open>simp_all add: RateLimitGroupConfig_fields_def zero_RateLimitGroupConfig_def valid_RateLimitGroupConfig_def ch_simps
        copy_field [OF json_element.arrives [OF string.json_element_axioms]]
        copy_field [OF json_element.arrives [OF ch_RateLimiterConfig.json_element_axioms]]\<close>)
qed (simp add: json_RateLimitGroupConfig_def struct_not_null)

lemma zero_of_RateLimitGroupConfig [simp]: "zero_of json_RateLimitGroupConfig = zero_RateLimitGroupConfig"
  by (simp add: json_RateLimitGroupConfig_def)

record ReceiveMigrationData =
  ReceiveMigrationData_ReceiverUrl :: string

definition ReceiveMigrationData_fields :: "ReceiveMigrationData field list" where
  "ReceiveMigrationData_fields =
    [field ''receiver_url'' ReceiveMigrationData_ReceiverUrl ReceiveMigrationData_ReceiverUrl_update json_string]"

definition zero_ReceiveMigrationData :: ReceiveMigrationData where
  "zero_ReceiveMigrationData = \<lparr>ReceiveMigrationData_ReceiverUrl = []\<rparr>"

definition json_ReceiveMigrationData :: "ReceiveMigrationData codec" where
  "json_ReceiveMigrationData = json_struct ReceiveMigrationData_fields zero_ReceiveMigrationData"

definition valid_ReceiveMigrationData :: "ReceiveMigrationData \<Rightarrow> bool" where
  "valid_ReceiveMigrationData s \<longleftrightarrow> utf8 (ReceiveMigrationData_ReceiverUrl s)"

interpretation ch_ReceiveMigrationData: json_element json_ReceiveMigrationData valid_ReceiveMigrationData id
proof
  fix s assume s: "valid_ReceiveMigrationData s"
  show "transports json_ReceiveMigrationData s (id s)"
    unfolding json_ReceiveMigrationData_def
    by (rule struct_transports)
      (use s in \<open>simp_all add: ReceiveMigrationData_fields_def zero_ReceiveMigrationData_def valid_ReceiveMigrationData_def ch_simps
        copy_field [OF json_element.arrives [OF string.json_element_axioms]]\<close>)
qed (simp add: json_ReceiveMigrationData_def struct_not_null)

lemma zero_of_ReceiveMigrationData [simp]: "zero_of json_ReceiveMigrationData = zero_ReceiveMigrationData"
  by (simp add: json_ReceiveMigrationData_def)

record RestoreConfig =
  RestoreConfig_Prefault :: "bool option"
  RestoreConfig_SourceUrl :: string

definition RestoreConfig_fields :: "RestoreConfig field list" where
  "RestoreConfig_fields =
    [optional ''prefault'' RestoreConfig_Prefault RestoreConfig_Prefault_update json_bool,
     field ''source_url'' RestoreConfig_SourceUrl RestoreConfig_SourceUrl_update json_string]"

definition zero_RestoreConfig :: RestoreConfig where
  "zero_RestoreConfig = \<lparr>RestoreConfig_Prefault = None, RestoreConfig_SourceUrl = []\<rparr>"

definition json_RestoreConfig :: "RestoreConfig codec" where
  "json_RestoreConfig = json_struct RestoreConfig_fields zero_RestoreConfig"

definition valid_RestoreConfig :: "RestoreConfig \<Rightarrow> bool" where
  "valid_RestoreConfig s \<longleftrightarrow> utf8 (RestoreConfig_SourceUrl s)"

interpretation ch_RestoreConfig: json_element json_RestoreConfig valid_RestoreConfig id
proof
  fix s assume s: "valid_RestoreConfig s"
  show "transports json_RestoreConfig s (id s)"
    unfolding json_RestoreConfig_def
    by (rule struct_transports)
      (use s in \<open>simp_all add: RestoreConfig_fields_def zero_RestoreConfig_def valid_RestoreConfig_def ch_simps
        copy_optional [OF bool.json_element_axioms]
        copy_field [OF json_element.arrives [OF string.json_element_axioms]]\<close>)
qed (simp add: json_RestoreConfig_def struct_not_null)

lemma zero_of_RestoreConfig [simp]: "zero_of json_RestoreConfig = zero_RestoreConfig"
  by (simp add: json_RestoreConfig_def)

record RngConfig =
  RngConfig_Iommu :: "bool option"
  RngConfig_Src :: string

definition RngConfig_fields :: "RngConfig field list" where
  "RngConfig_fields =
    [optional ''iommu'' RngConfig_Iommu RngConfig_Iommu_update json_bool,
     field ''src'' RngConfig_Src RngConfig_Src_update json_string]"

definition zero_RngConfig :: RngConfig where
  "zero_RngConfig = \<lparr>RngConfig_Iommu = None, RngConfig_Src = []\<rparr>"

definition json_RngConfig :: "RngConfig codec" where
  "json_RngConfig = json_struct RngConfig_fields zero_RngConfig"

definition valid_RngConfig :: "RngConfig \<Rightarrow> bool" where
  "valid_RngConfig s \<longleftrightarrow> utf8 (RngConfig_Src s)"

interpretation ch_RngConfig: json_element json_RngConfig valid_RngConfig id
proof
  fix s assume s: "valid_RngConfig s"
  show "transports json_RngConfig s (id s)"
    unfolding json_RngConfig_def
    by (rule struct_transports)
      (use s in \<open>simp_all add: RngConfig_fields_def zero_RngConfig_def valid_RngConfig_def ch_simps
        copy_optional [OF bool.json_element_axioms]
        copy_field [OF json_element.arrives [OF string.json_element_axioms]]\<close>)
qed (simp add: json_RngConfig_def struct_not_null)

lemma zero_of_RngConfig [simp]: "zero_of json_RngConfig = zero_RngConfig"
  by (simp add: json_RngConfig_def)

record SendMigrationData =
  SendMigrationData_DestinationUrl :: string
  SendMigrationData_Local :: "bool option"

definition SendMigrationData_fields :: "SendMigrationData field list" where
  "SendMigrationData_fields =
    [field ''destination_url'' SendMigrationData_DestinationUrl SendMigrationData_DestinationUrl_update json_string,
     optional ''local'' SendMigrationData_Local SendMigrationData_Local_update json_bool]"

definition zero_SendMigrationData :: SendMigrationData where
  "zero_SendMigrationData = \<lparr>SendMigrationData_DestinationUrl = [], SendMigrationData_Local = None\<rparr>"

definition json_SendMigrationData :: "SendMigrationData codec" where
  "json_SendMigrationData = json_struct SendMigrationData_fields zero_SendMigrationData"

definition valid_SendMigrationData :: "SendMigrationData \<Rightarrow> bool" where
  "valid_SendMigrationData s \<longleftrightarrow> utf8 (SendMigrationData_DestinationUrl s)"

interpretation ch_SendMigrationData: json_element json_SendMigrationData valid_SendMigrationData id
proof
  fix s assume s: "valid_SendMigrationData s"
  show "transports json_SendMigrationData s (id s)"
    unfolding json_SendMigrationData_def
    by (rule struct_transports)
      (use s in \<open>simp_all add: SendMigrationData_fields_def zero_SendMigrationData_def valid_SendMigrationData_def ch_simps
        copy_field [OF json_element.arrives [OF string.json_element_axioms]]
        copy_optional [OF bool.json_element_axioms]\<close>)
qed (simp add: json_SendMigrationData_def struct_not_null)

lemma zero_of_SendMigrationData [simp]: "zero_of json_SendMigrationData = zero_SendMigrationData"
  by (simp add: json_SendMigrationData_def)

record SgxEpcConfig =
  SgxEpcConfig_Id :: string
  SgxEpcConfig_Prefault :: "bool option"
  SgxEpcConfig_Size :: "64 word"

definition SgxEpcConfig_fields :: "SgxEpcConfig field list" where
  "SgxEpcConfig_fields =
    [field ''id'' SgxEpcConfig_Id SgxEpcConfig_Id_update json_string,
     optional ''prefault'' SgxEpcConfig_Prefault SgxEpcConfig_Prefault_update json_bool,
     field ''size'' SgxEpcConfig_Size SgxEpcConfig_Size_update json_int]"

definition zero_SgxEpcConfig :: SgxEpcConfig where
  "zero_SgxEpcConfig = \<lparr>SgxEpcConfig_Id = [], SgxEpcConfig_Prefault = None, SgxEpcConfig_Size = 0\<rparr>"

definition json_SgxEpcConfig :: "SgxEpcConfig codec" where
  "json_SgxEpcConfig = json_struct SgxEpcConfig_fields zero_SgxEpcConfig"

definition valid_SgxEpcConfig :: "SgxEpcConfig \<Rightarrow> bool" where
  "valid_SgxEpcConfig s \<longleftrightarrow> utf8 (SgxEpcConfig_Id s)"

interpretation ch_SgxEpcConfig: json_element json_SgxEpcConfig valid_SgxEpcConfig id
proof
  fix s assume s: "valid_SgxEpcConfig s"
  show "transports json_SgxEpcConfig s (id s)"
    unfolding json_SgxEpcConfig_def
    by (rule struct_transports)
      (use s in \<open>simp_all add: SgxEpcConfig_fields_def zero_SgxEpcConfig_def valid_SgxEpcConfig_def ch_simps
        copy_field [OF json_element.arrives [OF string.json_element_axioms]]
        copy_optional [OF bool.json_element_axioms]
        copy_field [OF json_element.arrives [OF int.json_element_axioms]]\<close>)
qed (simp add: json_SgxEpcConfig_def struct_not_null)

lemma zero_of_SgxEpcConfig [simp]: "zero_of json_SgxEpcConfig = zero_SgxEpcConfig"
  by (simp add: json_SgxEpcConfig_def)

record TpmConfig =
  TpmConfig_Socket :: string

definition TpmConfig_fields :: "TpmConfig field list" where
  "TpmConfig_fields =
    [field ''socket'' TpmConfig_Socket TpmConfig_Socket_update json_string]"

definition zero_TpmConfig :: TpmConfig where
  "zero_TpmConfig = \<lparr>TpmConfig_Socket = []\<rparr>"

definition json_TpmConfig :: "TpmConfig codec" where
  "json_TpmConfig = json_struct TpmConfig_fields zero_TpmConfig"

definition valid_TpmConfig :: "TpmConfig \<Rightarrow> bool" where
  "valid_TpmConfig s \<longleftrightarrow> utf8 (TpmConfig_Socket s)"

interpretation ch_TpmConfig: json_element json_TpmConfig valid_TpmConfig id
proof
  fix s assume s: "valid_TpmConfig s"
  show "transports json_TpmConfig s (id s)"
    unfolding json_TpmConfig_def
    by (rule struct_transports)
      (use s in \<open>simp_all add: TpmConfig_fields_def zero_TpmConfig_def valid_TpmConfig_def ch_simps
        copy_field [OF json_element.arrives [OF string.json_element_axioms]]\<close>)
qed (simp add: json_TpmConfig_def struct_not_null)

lemma zero_of_TpmConfig [simp]: "zero_of json_TpmConfig = zero_TpmConfig"
  by (simp add: json_TpmConfig_def)

record VdpaConfig =
  VdpaConfig_Id :: "string option"
  VdpaConfig_Iommu :: "bool option"
  VdpaConfig_NumQueues :: "64 word"
  VdpaConfig_Path :: string
  VdpaConfig_PciSegment :: "(16 word) option"

definition VdpaConfig_fields :: "VdpaConfig field list" where
  "VdpaConfig_fields =
    [optional ''id'' VdpaConfig_Id VdpaConfig_Id_update json_string,
     optional ''iommu'' VdpaConfig_Iommu VdpaConfig_Iommu_update json_bool,
     field ''num_queues'' VdpaConfig_NumQueues VdpaConfig_NumQueues_update json_int,
     field ''path'' VdpaConfig_Path VdpaConfig_Path_update json_string,
     optional ''pci_segment'' VdpaConfig_PciSegment VdpaConfig_PciSegment_update json_int]"

definition zero_VdpaConfig :: VdpaConfig where
  "zero_VdpaConfig = \<lparr>VdpaConfig_Id = None, VdpaConfig_Iommu = None, VdpaConfig_NumQueues = 0, VdpaConfig_Path = [],
     VdpaConfig_PciSegment = None\<rparr>"

definition json_VdpaConfig :: "VdpaConfig codec" where
  "json_VdpaConfig = json_struct VdpaConfig_fields zero_VdpaConfig"

definition valid_VdpaConfig :: "VdpaConfig \<Rightarrow> bool" where
  "valid_VdpaConfig s \<longleftrightarrow> pred_option utf8 (VdpaConfig_Id s) \<and> utf8 (VdpaConfig_Path s)"

interpretation ch_VdpaConfig: json_element json_VdpaConfig valid_VdpaConfig id
proof
  fix s assume s: "valid_VdpaConfig s"
  show "transports json_VdpaConfig s (id s)"
    unfolding json_VdpaConfig_def
    by (rule struct_transports)
      (use s in \<open>simp_all add: VdpaConfig_fields_def zero_VdpaConfig_def valid_VdpaConfig_def ch_simps
        copy_optional [OF string.json_element_axioms]
        copy_optional [OF bool.json_element_axioms]
        copy_field [OF json_element.arrives [OF int.json_element_axioms]]
        copy_field [OF json_element.arrives [OF string.json_element_axioms]]
        copy_optional [OF int.json_element_axioms]\<close>)
qed (simp add: json_VdpaConfig_def struct_not_null)

lemma zero_of_VdpaConfig [simp]: "zero_of json_VdpaConfig = zero_VdpaConfig"
  by (simp add: json_VdpaConfig_def)

record VmAddUserDevice =
  VmAddUserDevice_Socket :: string

definition VmAddUserDevice_fields :: "VmAddUserDevice field list" where
  "VmAddUserDevice_fields =
    [field ''socket'' VmAddUserDevice_Socket VmAddUserDevice_Socket_update json_string]"

definition zero_VmAddUserDevice :: VmAddUserDevice where
  "zero_VmAddUserDevice = \<lparr>VmAddUserDevice_Socket = []\<rparr>"

definition json_VmAddUserDevice :: "VmAddUserDevice codec" where
  "json_VmAddUserDevice = json_struct VmAddUserDevice_fields zero_VmAddUserDevice"

definition valid_VmAddUserDevice :: "VmAddUserDevice \<Rightarrow> bool" where
  "valid_VmAddUserDevice s \<longleftrightarrow> utf8 (VmAddUserDevice_Socket s)"

interpretation ch_VmAddUserDevice: json_element json_VmAddUserDevice valid_VmAddUserDevice id
proof
  fix s assume s: "valid_VmAddUserDevice s"
  show "transports json_VmAddUserDevice s (id s)"
    unfolding json_VmAddUserDevice_def
    by (rule struct_transports)
      (use s in \<open>simp_all add: VmAddUserDevice_fields_def zero_VmAddUserDevice_def valid_VmAddUserDevice_def ch_simps
        copy_field [OF json_element.arrives [OF string.json_element_axioms]]\<close>)
qed (simp add: json_VmAddUserDevice_def struct_not_null)

lemma zero_of_VmAddUserDevice [simp]: "zero_of json_VmAddUserDevice = zero_VmAddUserDevice"
  by (simp add: json_VmAddUserDevice_def)

record VsockConfig =
  VsockConfig_Cid :: "64 word"
  VsockConfig_Id :: "string option"
  VsockConfig_Iommu :: "bool option"
  VsockConfig_PciSegment :: "(16 word) option"
  VsockConfig_Socket :: string

definition VsockConfig_fields :: "VsockConfig field list" where
  "VsockConfig_fields =
    [field ''cid'' VsockConfig_Cid VsockConfig_Cid_update json_int,
     optional ''id'' VsockConfig_Id VsockConfig_Id_update json_string,
     optional ''iommu'' VsockConfig_Iommu VsockConfig_Iommu_update json_bool,
     optional ''pci_segment'' VsockConfig_PciSegment VsockConfig_PciSegment_update json_int,
     field ''socket'' VsockConfig_Socket VsockConfig_Socket_update json_string]"

definition zero_VsockConfig :: VsockConfig where
  "zero_VsockConfig = \<lparr>VsockConfig_Cid = 0, VsockConfig_Id = None, VsockConfig_Iommu = None, VsockConfig_PciSegment = None,
     VsockConfig_Socket = []\<rparr>"

definition json_VsockConfig :: "VsockConfig codec" where
  "json_VsockConfig = json_struct VsockConfig_fields zero_VsockConfig"

definition valid_VsockConfig :: "VsockConfig \<Rightarrow> bool" where
  "valid_VsockConfig s \<longleftrightarrow> pred_option utf8 (VsockConfig_Id s) \<and> utf8 (VsockConfig_Socket s)"

interpretation ch_VsockConfig: json_element json_VsockConfig valid_VsockConfig id
proof
  fix s assume s: "valid_VsockConfig s"
  show "transports json_VsockConfig s (id s)"
    unfolding json_VsockConfig_def
    by (rule struct_transports)
      (use s in \<open>simp_all add: VsockConfig_fields_def zero_VsockConfig_def valid_VsockConfig_def ch_simps
        copy_field [OF json_element.arrives [OF int.json_element_axioms]]
        copy_optional [OF string.json_element_axioms]
        copy_optional [OF bool.json_element_axioms]
        copy_optional [OF int.json_element_axioms]
        copy_field [OF json_element.arrives [OF string.json_element_axioms]]\<close>)
qed (simp add: json_VsockConfig_def struct_not_null)

lemma zero_of_VsockConfig [simp]: "zero_of json_VsockConfig = zero_VsockConfig"
  by (simp add: json_VsockConfig_def)

record VmConfig =
  VmConfig_Balloon :: "BalloonConfig option"
  VmConfig_Console :: "ConsoleConfig option"
  VmConfig_Cpus :: "CpusConfig option"
  VmConfig_DebugConsole :: "DebugConsoleConfig option"
  VmConfig_Devices :: "(DeviceConfig list) option"
  VmConfig_Disks :: "(DiskConfig list) option"
  VmConfig_Fs :: "(FsConfig list) option"
  VmConfig_Iommu :: "bool option"
  VmConfig_LandlockEnable :: "bool option"
  VmConfig_LandlockRules :: "(LandlockConfig list) option"
  VmConfig_Memory :: "MemoryConfig option"
  VmConfig_Net :: "(NetConfig list) option"
  VmConfig_Numa :: "(NumaConfig list) option"
  VmConfig_Payload :: PayloadConfig
  VmConfig_PciSegments :: "(PciSegmentConfig list) option"
  VmConfig_Platform :: "PlatformConfig option"
  VmConfig_Pmem :: "(PmemConfig list) option"
  VmConfig_Pvpanic :: "bool option"
  VmConfig_RateLimitGroups :: "(RateLimitGroupConfig list) option"
  VmConfig_Rng :: "RngConfig option"
  VmConfig_Serial :: "ConsoleConfig option"
  VmConfig_SgxEpc :: "(SgxEpcConfig list) option"
  VmConfig_Tpm :: "TpmConfig option"
  VmConfig_Vdpa :: "(VdpaConfig list) option"
  VmConfig_Vsock :: "VsockConfig option"
  VmConfig_Watchdog :: "bool option"

definition VmConfig_fields :: "VmConfig field list" where
  "VmConfig_fields =
    [optional ''balloon'' VmConfig_Balloon VmConfig_Balloon_update json_BalloonConfig,
     optional ''console'' VmConfig_Console VmConfig_Console_update json_ConsoleConfig,
     optional ''cpus'' VmConfig_Cpus VmConfig_Cpus_update json_CpusConfig,
     optional ''debug_console'' VmConfig_DebugConsole VmConfig_DebugConsole_update json_DebugConsoleConfig,
     optional ''devices'' VmConfig_Devices VmConfig_Devices_update (json_list json_DeviceConfig),
     optional ''disks'' VmConfig_Disks VmConfig_Disks_update (json_list json_DiskConfig),
     optional ''fs'' VmConfig_Fs VmConfig_Fs_update (json_list json_FsConfig),
     optional ''iommu'' VmConfig_Iommu VmConfig_Iommu_update json_bool,
     optional ''landlock_enable'' VmConfig_LandlockEnable VmConfig_LandlockEnable_update json_bool,
     optional ''landlock_rules'' VmConfig_LandlockRules VmConfig_LandlockRules_update (json_list json_LandlockConfig),
     optional ''memory'' VmConfig_Memory VmConfig_Memory_update json_MemoryConfig,
     optional ''net'' VmConfig_Net VmConfig_Net_update (json_list json_NetConfig),
     optional ''numa'' VmConfig_Numa VmConfig_Numa_update (json_list json_NumaConfig),
     field ''payload'' VmConfig_Payload VmConfig_Payload_update json_PayloadConfig,
     optional ''pci_segments'' VmConfig_PciSegments VmConfig_PciSegments_update (json_list json_PciSegmentConfig),
     optional ''platform'' VmConfig_Platform VmConfig_Platform_update json_PlatformConfig,
     optional ''pmem'' VmConfig_Pmem VmConfig_Pmem_update (json_list json_PmemConfig),
     optional ''pvpanic'' VmConfig_Pvpanic VmConfig_Pvpanic_update json_bool,
     optional ''rate_limit_groups'' VmConfig_RateLimitGroups VmConfig_RateLimitGroups_update (json_list json_RateLimitGroupConfig),
     optional ''rng'' VmConfig_Rng VmConfig_Rng_update json_RngConfig,
     optional ''serial'' VmConfig_Serial VmConfig_Serial_update json_ConsoleConfig,
     optional ''sgx_epc'' VmConfig_SgxEpc VmConfig_SgxEpc_update (json_list json_SgxEpcConfig),
     optional ''tpm'' VmConfig_Tpm VmConfig_Tpm_update json_TpmConfig,
     optional ''vdpa'' VmConfig_Vdpa VmConfig_Vdpa_update (json_list json_VdpaConfig),
     optional ''vsock'' VmConfig_Vsock VmConfig_Vsock_update json_VsockConfig,
     optional ''watchdog'' VmConfig_Watchdog VmConfig_Watchdog_update json_bool]"

definition zero_VmConfig :: VmConfig where
  "zero_VmConfig = \<lparr>VmConfig_Balloon = None, VmConfig_Console = None, VmConfig_Cpus = None, VmConfig_DebugConsole = None,
     VmConfig_Devices = None, VmConfig_Disks = None, VmConfig_Fs = None, VmConfig_Iommu = None,
     VmConfig_LandlockEnable = None, VmConfig_LandlockRules = None, VmConfig_Memory = None, VmConfig_Net = None,
     VmConfig_Numa = None, VmConfig_Payload = zero_PayloadConfig, VmConfig_PciSegments = None, VmConfig_Platform = None,
     VmConfig_Pmem = None, VmConfig_Pvpanic = None, VmConfig_RateLimitGroups = None, VmConfig_Rng = None,
     VmConfig_Serial = None, VmConfig_SgxEpc = None, VmConfig_Tpm = None, VmConfig_Vdpa = None,
     VmConfig_Vsock = None, VmConfig_Watchdog = None\<rparr>"

definition json_VmConfig :: "VmConfig codec" where
  "json_VmConfig = json_struct VmConfig_fields zero_VmConfig"

definition valid_VmConfig :: "VmConfig \<Rightarrow> bool" where
  "valid_VmConfig s \<longleftrightarrow> pred_option valid_BalloonConfig (VmConfig_Balloon s) \<and> pred_option valid_ConsoleConfig (VmConfig_Console s) \<and> pred_option valid_CpusConfig (VmConfig_Cpus s) \<and>
     pred_option valid_DebugConsoleConfig (VmConfig_DebugConsole s) \<and> pred_option (list_all valid_DeviceConfig) (VmConfig_Devices s) \<and> pred_option (list_all valid_DiskConfig) (VmConfig_Disks s) \<and>
     pred_option (list_all valid_FsConfig) (VmConfig_Fs s) \<and> pred_option (list_all valid_LandlockConfig) (VmConfig_LandlockRules s) \<and> pred_option valid_MemoryConfig (VmConfig_Memory s) \<and>
     pred_option (list_all valid_NetConfig) (VmConfig_Net s) \<and> pred_option (list_all valid_NumaConfig) (VmConfig_Numa s) \<and> valid_PayloadConfig (VmConfig_Payload s) \<and>
     pred_option (list_all valid_PciSegmentConfig) (VmConfig_PciSegments s) \<and> pred_option valid_PlatformConfig (VmConfig_Platform s) \<and> pred_option (list_all valid_PmemConfig) (VmConfig_Pmem s) \<and>
     pred_option (list_all valid_RateLimitGroupConfig) (VmConfig_RateLimitGroups s) \<and> pred_option valid_RngConfig (VmConfig_Rng s) \<and> pred_option valid_ConsoleConfig (VmConfig_Serial s) \<and>
     pred_option (list_all valid_SgxEpcConfig) (VmConfig_SgxEpc s) \<and> pred_option valid_TpmConfig (VmConfig_Tpm s) \<and> pred_option (list_all valid_VdpaConfig) (VmConfig_Vdpa s) \<and>
     pred_option valid_VsockConfig (VmConfig_Vsock s)"

interpretation ch_VmConfig: json_element json_VmConfig valid_VmConfig id
proof
  fix s assume s: "valid_VmConfig s"
  show "transports json_VmConfig s (id s)"
    unfolding json_VmConfig_def
    by (rule struct_transports)
      (use s in \<open>simp_all add: VmConfig_fields_def zero_VmConfig_def valid_VmConfig_def ch_simps
        copy_optional [OF ch_BalloonConfig.json_element_axioms]
        copy_optional [OF ch_ConsoleConfig.json_element_axioms]
        copy_optional [OF ch_CpusConfig.json_element_axioms]
        copy_optional [OF ch_DebugConsoleConfig.json_element_axioms]
        copy_optional [OF ch_DeviceConfig.list_element]
        copy_optional [OF ch_DiskConfig.list_element]
        copy_optional [OF ch_FsConfig.list_element]
        copy_optional [OF bool.json_element_axioms]
        copy_optional [OF ch_LandlockConfig.list_element]
        copy_optional [OF ch_MemoryConfig.json_element_axioms]
        copy_optional [OF ch_NetConfig.list_element]
        copy_optional [OF ch_NumaConfig.list_element]
        copy_field [OF json_element.arrives [OF ch_PayloadConfig.json_element_axioms]]
        copy_optional [OF ch_PciSegmentConfig.list_element]
        copy_optional [OF ch_PlatformConfig.json_element_axioms]
        copy_optional [OF ch_PmemConfig.list_element]
        copy_optional [OF ch_RateLimitGroupConfig.list_element]
        copy_optional [OF ch_RngConfig.json_element_axioms]
        copy_optional [OF ch_SgxEpcConfig.list_element]
        copy_optional [OF ch_TpmConfig.json_element_axioms]
        copy_optional [OF ch_VdpaConfig.list_element]
        copy_optional [OF ch_VsockConfig.json_element_axioms]\<close>)
qed (simp add: json_VmConfig_def struct_not_null)

lemma zero_of_VmConfig [simp]: "zero_of json_VmConfig = zero_VmConfig"
  by (simp add: json_VmConfig_def)

record VmCoredumpData =
  VmCoredumpData_DestinationUrl :: "string option"

definition VmCoredumpData_fields :: "VmCoredumpData field list" where
  "VmCoredumpData_fields =
    [optional ''destination_url'' VmCoredumpData_DestinationUrl VmCoredumpData_DestinationUrl_update json_string]"

definition zero_VmCoredumpData :: VmCoredumpData where
  "zero_VmCoredumpData = \<lparr>VmCoredumpData_DestinationUrl = None\<rparr>"

definition json_VmCoredumpData :: "VmCoredumpData codec" where
  "json_VmCoredumpData = json_struct VmCoredumpData_fields zero_VmCoredumpData"

definition valid_VmCoredumpData :: "VmCoredumpData \<Rightarrow> bool" where
  "valid_VmCoredumpData s \<longleftrightarrow> pred_option utf8 (VmCoredumpData_DestinationUrl s)"

interpretation ch_VmCoredumpData: json_element json_VmCoredumpData valid_VmCoredumpData id
proof
  fix s assume s: "valid_VmCoredumpData s"
  show "transports json_VmCoredumpData s (id s)"
    unfolding json_VmCoredumpData_def
    by (rule struct_transports)
      (use s in \<open>simp_all add: VmCoredumpData_fields_def zero_VmCoredumpData_def valid_VmCoredumpData_def ch_simps
        copy_optional [OF string.json_element_axioms]\<close>)
qed (simp add: json_VmCoredumpData_def struct_not_null)

lemma zero_of_VmCoredumpData [simp]: "zero_of json_VmCoredumpData = zero_VmCoredumpData"
  by (simp add: json_VmCoredumpData_def)

record VmInfo =
  VmInfo_Config :: VmConfig
  VmInfo_DeviceTree :: "(string \<rightharpoonup> DeviceNode) option"
  VmInfo_MemoryActualSize :: "(64 word) option"
  VmInfo_State :: string

definition VmInfo_fields :: "VmInfo field list" where
  "VmInfo_fields =
    [field ''config'' VmInfo_Config VmInfo_Config_update json_VmConfig,
     optional ''device_tree'' VmInfo_DeviceTree VmInfo_DeviceTree_update (json_dict json_DeviceNode),
     optional ''memory_actual_size'' VmInfo_MemoryActualSize VmInfo_MemoryActualSize_update json_int,
     field ''state'' VmInfo_State VmInfo_State_update json_string]"

definition zero_VmInfo :: VmInfo where
  "zero_VmInfo = \<lparr>VmInfo_Config = zero_VmConfig, VmInfo_DeviceTree = None, VmInfo_MemoryActualSize = None, VmInfo_State = []\<rparr>"

definition json_VmInfo :: "VmInfo codec" where
  "json_VmInfo = json_struct VmInfo_fields zero_VmInfo"

definition valid_VmInfo :: "VmInfo \<Rightarrow> bool" where
  "valid_VmInfo s \<longleftrightarrow> valid_VmConfig (VmInfo_Config s) \<and> pred_option (valid_map valid_DeviceNode) (VmInfo_DeviceTree s) \<and> utf8 (VmInfo_State s)"

interpretation ch_VmInfo: json_element json_VmInfo valid_VmInfo id
proof
  fix s assume s: "valid_VmInfo s"
  show "transports json_VmInfo s (id s)"
    unfolding json_VmInfo_def
    by (rule struct_transports)
      (use s in \<open>simp_all add: VmInfo_fields_def zero_VmInfo_def valid_VmInfo_def ch_simps
        copy_field [OF json_element.arrives [OF ch_VmConfig.json_element_axioms]]
        copy_optional [OF ch_DeviceNode.dict_element]
        copy_optional [OF int.json_element_axioms]
        copy_field [OF json_element.arrives [OF string.json_element_axioms]]\<close>)
qed (simp add: json_VmInfo_def struct_not_null)

lemma zero_of_VmInfo [simp]: "zero_of json_VmInfo = zero_VmInfo"
  by (simp add: json_VmInfo_def)

record VmRemoveDevice =
  VmRemoveDevice_Id :: "string option"

definition VmRemoveDevice_fields :: "VmRemoveDevice field list" where
  "VmRemoveDevice_fields =
    [optional ''id'' VmRemoveDevice_Id VmRemoveDevice_Id_update json_string]"

definition zero_VmRemoveDevice :: VmRemoveDevice where
  "zero_VmRemoveDevice = \<lparr>VmRemoveDevice_Id = None\<rparr>"

definition json_VmRemoveDevice :: "VmRemoveDevice codec" where
  "json_VmRemoveDevice = json_struct VmRemoveDevice_fields zero_VmRemoveDevice"

definition valid_VmRemoveDevice :: "VmRemoveDevice \<Rightarrow> bool" where
  "valid_VmRemoveDevice s \<longleftrightarrow> pred_option utf8 (VmRemoveDevice_Id s)"

interpretation ch_VmRemoveDevice: json_element json_VmRemoveDevice valid_VmRemoveDevice id
proof
  fix s assume s: "valid_VmRemoveDevice s"
  show "transports json_VmRemoveDevice s (id s)"
    unfolding json_VmRemoveDevice_def
    by (rule struct_transports)
      (use s in \<open>simp_all add: VmRemoveDevice_fields_def zero_VmRemoveDevice_def valid_VmRemoveDevice_def ch_simps
        copy_optional [OF string.json_element_axioms]\<close>)
qed (simp add: json_VmRemoveDevice_def struct_not_null)

lemma zero_of_VmRemoveDevice [simp]: "zero_of json_VmRemoveDevice = zero_VmRemoveDevice"
  by (simp add: json_VmRemoveDevice_def)

record VmResize =
  VmResize_DesiredBalloon :: "(64 word) option"
  VmResize_DesiredRam :: "(64 word) option"
  VmResize_DesiredVcpus :: "(64 word) option"

definition VmResize_fields :: "VmResize field list" where
  "VmResize_fields =
    [optional ''desired_balloon'' VmResize_DesiredBalloon VmResize_DesiredBalloon_update json_int,
     optional ''desired_ram'' VmResize_DesiredRam VmResize_DesiredRam_update json_int,
     optional ''desired_vcpus'' VmResize_DesiredVcpus VmResize_DesiredVcpus_update json_int]"

definition zero_VmResize :: VmResize where
  "zero_VmResize = \<lparr>VmResize_DesiredBalloon = None, VmResize_DesiredRam = None, VmResize_DesiredVcpus = None\<rparr>"

definition json_VmResize :: "VmResize codec" where
  "json_VmResize = json_struct VmResize_fields zero_VmResize"

definition valid_VmResize :: "VmResize \<Rightarrow> bool" where
  "valid_VmResize s \<longleftrightarrow> True"

interpretation ch_VmResize: json_element json_VmResize valid_VmResize id
proof
  fix s assume s: "valid_VmResize s"
  show "transports json_VmResize s (id s)"
    unfolding json_VmResize_def
    by (rule struct_transports)
      (use s in \<open>simp_all add: VmResize_fields_def zero_VmResize_def valid_VmResize_def ch_simps
        copy_optional [OF int.json_element_axioms]\<close>)
qed (simp add: json_VmResize_def struct_not_null)

lemma zero_of_VmResize [simp]: "zero_of json_VmResize = zero_VmResize"
  by (simp add: json_VmResize_def)

record VmResizeZone =
  VmResizeZone_DesiredRam :: "(64 word) option"
  VmResizeZone_Id :: "string option"

definition VmResizeZone_fields :: "VmResizeZone field list" where
  "VmResizeZone_fields =
    [optional ''desired_ram'' VmResizeZone_DesiredRam VmResizeZone_DesiredRam_update json_int,
     optional ''id'' VmResizeZone_Id VmResizeZone_Id_update json_string]"

definition zero_VmResizeZone :: VmResizeZone where
  "zero_VmResizeZone = \<lparr>VmResizeZone_DesiredRam = None, VmResizeZone_Id = None\<rparr>"

definition json_VmResizeZone :: "VmResizeZone codec" where
  "json_VmResizeZone = json_struct VmResizeZone_fields zero_VmResizeZone"

definition valid_VmResizeZone :: "VmResizeZone \<Rightarrow> bool" where
  "valid_VmResizeZone s \<longleftrightarrow> pred_option utf8 (VmResizeZone_Id s)"

interpretation ch_VmResizeZone: json_element json_VmResizeZone valid_VmResizeZone id
proof
  fix s assume s: "valid_VmResizeZone s"
  show "transports json_VmResizeZone s (id s)"
    unfolding json_VmResizeZone_def
    by (rule struct_transports)
      (use s in \<open>simp_all add: VmResizeZone_fields_def zero_VmResizeZone_def valid_VmResizeZone_def ch_simps
        copy_optional [OF int.json_element_axioms]
        copy_optional [OF string.json_element_axioms]\<close>)
qed (simp add: json_VmResizeZone_def struct_not_null)

lemma zero_of_VmResizeZone [simp]: "zero_of json_VmResizeZone = zero_VmResizeZone"
  by (simp add: json_VmResizeZone_def)

record VmSnapshotConfig =
  VmSnapshotConfig_DestinationUrl :: "string option"

definition VmSnapshotConfig_fields :: "VmSnapshotConfig field list" where
  "VmSnapshotConfig_fields =
    [optional ''destination_url'' VmSnapshotConfig_DestinationUrl VmSnapshotConfig_DestinationUrl_update json_string]"

definition zero_VmSnapshotConfig :: VmSnapshotConfig where
  "zero_VmSnapshotConfig = \<lparr>VmSnapshotConfig_DestinationUrl = None\<rparr>"

definition json_VmSnapshotConfig :: "VmSnapshotConfig codec" where
  "json_VmSnapshotConfig = json_struct VmSnapshotConfig_fields zero_VmSnapshotConfig"

definition valid_VmSnapshotConfig :: "VmSnapshotConfig \<Rightarrow> bool" where
  "valid_VmSnapshotConfig s \<longleftrightarrow> pred_option utf8 (VmSnapshotConfig_DestinationUrl s)"

interpretation ch_VmSnapshotConfig: json_element json_VmSnapshotConfig valid_VmSnapshotConfig id
proof
  fix s assume s: "valid_VmSnapshotConfig s"
  show "transports json_VmSnapshotConfig s (id s)"
    unfolding json_VmSnapshotConfig_def
    by (rule struct_transports)
      (use s in \<open>simp_all add: VmSnapshotConfig_fields_def zero_VmSnapshotConfig_def valid_VmSnapshotConfig_def ch_simps
        copy_optional [OF string.json_element_axioms]\<close>)
qed (simp add: json_VmSnapshotConfig_def struct_not_null)

lemma zero_of_VmSnapshotConfig [simp]: "zero_of json_VmSnapshotConfig = zero_VmSnapshotConfig"
  by (simp add: json_VmSnapshotConfig_def)

record VmmPingResponse =
  VmmPingResponse_BuildVersion :: "string option"
  VmmPingResponse_Features :: "(string list) option"
  VmmPingResponse_Pid :: "(64 word) option"
  VmmPingResponse_Version :: string

definition VmmPingResponse_fields :: "VmmPingResponse field list" where
  "VmmPingResponse_fields =
    [optional ''build_version'' VmmPingResponse_BuildVersion VmmPingResponse_BuildVersion_update json_string,
     optional ''features'' VmmPingResponse_Features VmmPingResponse_Features_update (json_list json_string),
     optional ''pid'' VmmPingResponse_Pid VmmPingResponse_Pid_update json_int,
     field ''version'' VmmPingResponse_Version VmmPingResponse_Version_update json_string]"

definition zero_VmmPingResponse :: VmmPingResponse where
  "zero_VmmPingResponse = \<lparr>VmmPingResponse_BuildVersion = None, VmmPingResponse_Features = None, VmmPingResponse_Pid = None, VmmPingResponse_Version = []\<rparr>"

definition json_VmmPingResponse :: "VmmPingResponse codec" where
  "json_VmmPingResponse = json_struct VmmPingResponse_fields zero_VmmPingResponse"

definition valid_VmmPingResponse :: "VmmPingResponse \<Rightarrow> bool" where
  "valid_VmmPingResponse s \<longleftrightarrow> pred_option utf8 (VmmPingResponse_BuildVersion s) \<and> pred_option (list_all utf8) (VmmPingResponse_Features s) \<and> utf8 (VmmPingResponse_Version s)"

interpretation ch_VmmPingResponse: json_element json_VmmPingResponse valid_VmmPingResponse id
proof
  fix s assume s: "valid_VmmPingResponse s"
  show "transports json_VmmPingResponse s (id s)"
    unfolding json_VmmPingResponse_def
    by (rule struct_transports)
      (use s in \<open>simp_all add: VmmPingResponse_fields_def zero_VmmPingResponse_def valid_VmmPingResponse_def ch_simps
        copy_optional [OF string.json_element_axioms]
        copy_optional [OF string.list_element]
        copy_optional [OF int.json_element_axioms]
        copy_field [OF json_element.arrives [OF string.json_element_axioms]]\<close>)
qed (simp add: json_VmmPingResponse_def struct_not_null)

lemma zero_of_VmmPingResponse [simp]: "zero_of json_VmmPingResponse = zero_VmmPingResponse"
  by (simp add: json_VmmPingResponse_def)

end
