(* ===== verification/ChClient.thy ===== *)
theory ChClient
  imports ChModels
begin

text \<open>
  The client of the hypervisor's API (\<^verbatim>\<open>vmruntime/internal/chclient/client.gen.go\<close>): per operation a
  builder of its request, the call, the reader of its response, and the call with its response.  The
  transport is a state that answers requests; editors may change or reject a request before it is sent.
\<close>

section \<open>URLs and messages\<close>

text \<open>
  \<^verbatim>\<open>net/url\<close>, for absolute URLs made of letters, digits and \<open>-._~/:\<close>: what precedes the path, and the
  path.  Other texts do not occur and are errors here.
\<close>

record url =
  urlOrigin :: string
  urlPath :: string

definition plain_url_char :: "char \<Rightarrow> bool" where
  "plain_url_char c \<longleftrightarrow> 0x61 \<le> (of_char c :: nat) \<and> of_char c \<le> (0x7A :: nat) \<or> 0x41 \<le> (of_char c :: nat) \<and> of_char c \<le> (0x5A :: nat) \<or>
     is_digit c \<or> c \<in> set ''-._~/:''"

definition url_parse :: "string \<Rightarrow> url res" where
  "url_parse s = (let scheme = takeWhile (\<lambda>c. c \<noteq> CHR '':'') s; rest = drop (length scheme) s in
     if scheme \<noteq> [] \<and> take 3 rest = ''://'' \<and> list_all plain_url_char s
     then (let authority = takeWhile (\<lambda>c. c \<noteq> CHR ''/'') (drop 3 rest) in
       Ok \<lparr>urlOrigin = scheme @ ''://'' @ authority, urlPath = drop (3 + length authority) rest\<rparr>)
     else Err (External ''parse error''))"

definition url_string :: "url \<Rightarrow> string" where
  "url_string u = urlOrigin u @ urlPath u"

text \<open>\<^verbatim>\<open>resolvePath\<close>: the reference replaces what follows the last slash; then dots are resolved.\<close>

fun resolve_elems :: "string list \<Rightarrow> string \<Rightarrow> bool \<Rightarrow> string" where
  "resolve_elems [] dst first = dst"
| "resolve_elems (e # es) dst first =
    (if e = ''.'' then resolve_elems es dst False
     else if e = ''..'' then (case last_index (CHR ''/'') dst 0 None of
         None \<Rightarrow> resolve_elems es [] True
       | Some i \<Rightarrow> resolve_elems es (take i dst) first)
     else resolve_elems es (if first then dst @ e else dst @ CHR ''/'' # e) False)"

definition resolve_path :: "string \<Rightarrow> string \<Rightarrow> string" where
  "resolve_path base ref =
    (let full = (if ref = [] then base
        else if hd ref \<noteq> CHR ''/'' then (case last_index (CHR ''/'') base 0 None of None \<Rightarrow> ref | Some i \<Rightarrow> take (Suc i) base @ ref)
        else ref) in
     if full = [] then []
     else (let elems = split_on (CHR ''/'') full;
         r = CHR ''/'' # resolve_elems elems [] True @ (if last elems \<in> {''.'', ''..''} then ''/'' else []) in
       if 1 < length r \<and> r ! 1 = CHR ''/'' then tl r else r))"

text \<open>\<^verbatim>\<open>URL.Parse\<close> for a reference that is a path.\<close>

definition url_reference :: "url \<Rightarrow> string \<Rightarrow> url" where
  "url_reference u ref = u\<lparr>urlPath := resolve_path (urlPath u) ref\<rparr>"

datatype http_body = NoBody | JsonBody json | TextBody string

record http_request =
  rqMethod :: string
  rqURL :: string
  rqHeader :: "(string \<times> string) list"
  rqBody :: http_body

text \<open>\<open>rsReadErr\<close>: the error of reading the body; \<open>rsClosed\<close>: the body was closed.\<close>

record http_response =
  rsStatus :: string
  rsStatusCode :: nat
  rsContentType :: string
  rsBody :: http_body
  rsReadErr :: "gerror option"
  rsClosed :: bool

section \<open>The client\<close>

type_synonym editor = "http_request \<Rightarrow> http_request res"
type_synonym 's doer = "http_request \<Rightarrow> 's \<Rightarrow> http_response res \<times> 's"

record 's ch_client =
  chServer :: string
  chDoer :: "'s doer option"
  chRequestEditors :: "editor list"

type_synonym 's client_option = "'s ch_client \<Rightarrow> 's ch_client res"
type_synonym ('s, 'r) ch_call = "'s ch_client \<Rightarrow> 's \<Rightarrow> 'r res \<times> 's"

fun apply_options :: "'s client_option list \<Rightarrow> 's ch_client \<Rightarrow> 's ch_client res" where
  "apply_options [] c = Ok c"
| "apply_options (opt # opts) c = res_bind (opt c) (apply_options opts)"

text \<open>\<open>standard\<close> is the transport of \<^verbatim>\<open>http.Client\<close>.\<close>

definition NewClient :: "'s doer \<Rightarrow> string \<Rightarrow> 's client_option list \<Rightarrow> 's ch_client res" where
  "NewClient standard server opts =
    res_bind (apply_options opts \<lparr>chServer = server, chDoer = None, chRequestEditors = []\<rparr>) (\<lambda>client.
      let client = (if chServer client \<noteq> [] \<and> last (chServer client) = CHR ''/'' then client else client\<lparr>chServer := chServer client @ ''/''\<rparr>) in
      Ok (if chDoer client = None then client\<lparr>chDoer := Some standard\<rparr> else client))"

definition WithHTTPClient :: "'s doer \<Rightarrow> 's client_option" where
  "WithHTTPClient doer c = Ok (c\<lparr>chDoer := Some doer\<rparr>)"

definition WithRequestEditorFn :: "editor \<Rightarrow> 's client_option" where
  "WithRequestEditorFn fn c = Ok (c\<lparr>chRequestEditors := chRequestEditors c @ [fn]\<rparr>)"

definition NewClientWithResponses :: "'s doer \<Rightarrow> string \<Rightarrow> 's client_option list \<Rightarrow> 's ch_client res" where
  "NewClientWithResponses standard server opts = res_bind (NewClient standard server opts) Ok"

definition WithBaseURL :: "string \<Rightarrow> 's client_option" where
  "WithBaseURL baseURL c = res_bind (url_parse baseURL) (\<lambda>u. Ok (c\<lparr>chServer := url_string u\<rparr>))"

fun apply_all :: "editor list \<Rightarrow> http_request \<Rightarrow> http_request res" where
  "apply_all [] req = Ok req"
| "apply_all (r # rs) req = res_bind (r req) (apply_all rs)"

definition applyEditors :: "'s ch_client \<Rightarrow> http_request \<Rightarrow> editor list \<Rightarrow> http_request res" where
  "applyEditors c req additionalEditors = res_bind (apply_all (chRequestEditors c) req) (apply_all additionalEditors)"

text \<open>The common parts of the builders, the calls and the readers.\<close>

definition plain_request :: "string \<Rightarrow> string \<Rightarrow> string \<Rightarrow> http_request res" where
  "plain_request m path server = res_bind (url_parse server) (\<lambda>serverURL.
     let operationPath = (if hd path = CHR ''/'' then ''.'' @ path else path) in
     Ok \<lparr>rqMethod = m, rqURL = url_string (url_reference serverURL operationPath), rqHeader = [], rqBody = NoBody\<rparr>)"

definition body_request :: "string \<Rightarrow> string \<Rightarrow> string \<Rightarrow> string \<Rightarrow> http_body \<Rightarrow> http_request res" where
  "body_request m path server contentType body = res_bind (plain_request m path server) (\<lambda>req.
     Ok (req\<lparr>rqHeader := [(''Content-Type'', contentType)], rqBody := body\<rparr>))"

definition json_request :: "'a codec \<Rightarrow> 'a \<Rightarrow> (string \<Rightarrow> http_body \<Rightarrow> http_request res) \<Rightarrow> http_request res" where
  "json_request c body with_body = res_bind (enc_json c body) (\<lambda>buf. with_body ''application/json'' (JsonBody buf))"

definition send :: "http_request res \<Rightarrow> editor list \<Rightarrow> ('s, http_response) ch_call" where
  "send request reqEditors c s = (case res_bind request (\<lambda>req. applyEditors c req reqEditors) of
      Ok req \<Rightarrow> (case chDoer c of Some doer \<Rightarrow> doer req s | None \<Rightarrow> (Panic ''nil pointer dereference'', s))
    | Err e \<Rightarrow> (Err e, s)
    | Panic p \<Rightarrow> (Panic p, s))"

text \<open>A response with its body and, where the operation has one, the value it decodes to.\<close>

record 'a ch_response =
  crBody :: http_body
  crHTTPResponse :: "http_response option"
  crJSON200 :: "'a option"

definition response_StatusCode :: "'a ch_response \<Rightarrow> nat" where
  "response_StatusCode r = (case crHTTPResponse r of Some rsp \<Rightarrow> rsStatusCode rsp | None \<Rightarrow> 0)"

definition response_Status :: "'a ch_response \<Rightarrow> string" where
  "response_Status r = (case crHTTPResponse r of Some rsp \<Rightarrow> rsStatus rsp | None \<Rightarrow> [])"

text \<open>\<^verbatim>\<open>json.Unmarshal\<close> of a body.\<close>

definition unmarshal_body :: "'a codec \<Rightarrow> http_body \<Rightarrow> 'a res" where
  "unmarshal_body c body = (case body of
      JsonBody j \<Rightarrow> dec_json c j (zero_of c)
    | TextBody t \<Rightarrow> Err (External ''invalid character'')
    | NoBody \<Rightarrow> Err (External ''unexpected end of JSON input''))"

definition parse_plain :: "http_response \<Rightarrow> 'a ch_response res" where
  "parse_plain rsp = (case rsReadErr rsp of
      Some e \<Rightarrow> Err e
    | None \<Rightarrow> Ok \<lparr>crBody = rsBody rsp, crHTTPResponse = Some (rsp\<lparr>rsClosed := True\<rparr>), crJSON200 = None\<rparr>)"

definition parse_json :: "'a codec \<Rightarrow> http_response \<Rightarrow> 'a ch_response res" where
  "parse_json c rsp = res_bind (parse_plain rsp) (\<lambda>response.
     if contains (rsContentType rsp) ''json'' \<and> rsStatusCode rsp = 200
     then res_bind (unmarshal_body c (rsBody rsp)) (\<lambda>dest. Ok (response\<lparr>crJSON200 := Some dest\<rparr>))
     else Ok response)"

definition with_response :: "(http_response \<Rightarrow> 'a ch_response res) \<Rightarrow> ('s, http_response) ch_call \<Rightarrow> ('s, 'a ch_response) ch_call" where
  "with_response parse m c s = (case m c s of
      (Ok rsp, s) \<Rightarrow> (parse rsp, s)
    | (Err e, s) \<Rightarrow> (Err e, s)
    | (Panic p, s) \<Rightarrow> (Panic p, s))"

definition json_VmCounters :: "(string \<rightharpoonup> (string \<rightharpoonup> 64 word)) codec" where
  "json_VmCounters = json_dict (json_dict json_int)"

section \<open>Requests\<close>

text \<open>The bodies of the operations.\<close>

type_synonym PutVmAddDeviceJSONRequestBody = DeviceConfig
type_synonym PutVmAddDiskJSONRequestBody = DiskConfig
type_synonym PutVmAddFsJSONRequestBody = FsConfig
type_synonym PutVmAddNetJSONRequestBody = NetConfig
type_synonym PutVmAddPmemJSONRequestBody = PmemConfig
type_synonym PutVmAddUserDeviceJSONRequestBody = VmAddUserDevice
type_synonym PutVmAddVdpaJSONRequestBody = VdpaConfig
type_synonym PutVmAddVsockJSONRequestBody = VsockConfig
type_synonym PutVmCoredumpJSONRequestBody = VmCoredumpData
type_synonym CreateVMJSONRequestBody = VmConfig
type_synonym PutVmReceiveMigrationJSONRequestBody = ReceiveMigrationData
type_synonym PutVmRemoveDeviceJSONRequestBody = VmRemoveDevice
type_synonym PutVmResizeJSONRequestBody = VmResize
type_synonym PutVmResizeZoneJSONRequestBody = VmResizeZone
type_synonym PutVmRestoreJSONRequestBody = RestoreConfig
type_synonym PutVmSendMigrationJSONRequestBody = SendMigrationData
type_synonym PutVmSnapshotJSONRequestBody = VmSnapshotConfig

definition NewPutVmAddDeviceRequestWithBody :: "string \<Rightarrow> string \<Rightarrow> http_body \<Rightarrow> http_request res" where
  "NewPutVmAddDeviceRequestWithBody server contentType body = body_request ''PUT'' ''/vm.add-device'' server contentType body"

definition NewPutVmAddDeviceRequest :: "string \<Rightarrow> PutVmAddDeviceJSONRequestBody \<Rightarrow> http_request res" where
  "NewPutVmAddDeviceRequest server body = json_request json_DeviceConfig body (NewPutVmAddDeviceRequestWithBody server)"

definition NewPutVmAddDiskRequestWithBody :: "string \<Rightarrow> string \<Rightarrow> http_body \<Rightarrow> http_request res" where
  "NewPutVmAddDiskRequestWithBody server contentType body = body_request ''PUT'' ''/vm.add-disk'' server contentType body"

definition NewPutVmAddDiskRequest :: "string \<Rightarrow> PutVmAddDiskJSONRequestBody \<Rightarrow> http_request res" where
  "NewPutVmAddDiskRequest server body = json_request json_DiskConfig body (NewPutVmAddDiskRequestWithBody server)"

definition NewPutVmAddFsRequestWithBody :: "string \<Rightarrow> string \<Rightarrow> http_body \<Rightarrow> http_request res" where
  "NewPutVmAddFsRequestWithBody server contentType body = body_request ''PUT'' ''/vm.add-fs'' server contentType body"

definition NewPutVmAddFsRequest :: "string \<Rightarrow> PutVmAddFsJSONRequestBody \<Rightarrow> http_request res" where
  "NewPutVmAddFsRequest server body = json_request json_FsConfig body (NewPutVmAddFsRequestWithBody server)"

definition NewPutVmAddNetRequestWithBody :: "string \<Rightarrow> string \<Rightarrow> http_body \<Rightarrow> http_request res" where
  "NewPutVmAddNetRequestWithBody server contentType body = body_request ''PUT'' ''/vm.add-net'' server contentType body"

definition NewPutVmAddNetRequest :: "string \<Rightarrow> PutVmAddNetJSONRequestBody \<Rightarrow> http_request res" where
  "NewPutVmAddNetRequest server body = json_request json_NetConfig body (NewPutVmAddNetRequestWithBody server)"

definition NewPutVmAddPmemRequestWithBody :: "string \<Rightarrow> string \<Rightarrow> http_body \<Rightarrow> http_request res" where
  "NewPutVmAddPmemRequestWithBody server contentType body = body_request ''PUT'' ''/vm.add-pmem'' server contentType body"

definition NewPutVmAddPmemRequest :: "string \<Rightarrow> PutVmAddPmemJSONRequestBody \<Rightarrow> http_request res" where
  "NewPutVmAddPmemRequest server body = json_request json_PmemConfig body (NewPutVmAddPmemRequestWithBody server)"

definition NewPutVmAddUserDeviceRequestWithBody :: "string \<Rightarrow> string \<Rightarrow> http_body \<Rightarrow> http_request res" where
  "NewPutVmAddUserDeviceRequestWithBody server contentType body = body_request ''PUT'' ''/vm.add-user-device'' server contentType body"

definition NewPutVmAddUserDeviceRequest :: "string \<Rightarrow> PutVmAddUserDeviceJSONRequestBody \<Rightarrow> http_request res" where
  "NewPutVmAddUserDeviceRequest server body = json_request json_VmAddUserDevice body (NewPutVmAddUserDeviceRequestWithBody server)"

definition NewPutVmAddVdpaRequestWithBody :: "string \<Rightarrow> string \<Rightarrow> http_body \<Rightarrow> http_request res" where
  "NewPutVmAddVdpaRequestWithBody server contentType body = body_request ''PUT'' ''/vm.add-vdpa'' server contentType body"

definition NewPutVmAddVdpaRequest :: "string \<Rightarrow> PutVmAddVdpaJSONRequestBody \<Rightarrow> http_request res" where
  "NewPutVmAddVdpaRequest server body = json_request json_VdpaConfig body (NewPutVmAddVdpaRequestWithBody server)"

definition NewPutVmAddVsockRequestWithBody :: "string \<Rightarrow> string \<Rightarrow> http_body \<Rightarrow> http_request res" where
  "NewPutVmAddVsockRequestWithBody server contentType body = body_request ''PUT'' ''/vm.add-vsock'' server contentType body"

definition NewPutVmAddVsockRequest :: "string \<Rightarrow> PutVmAddVsockJSONRequestBody \<Rightarrow> http_request res" where
  "NewPutVmAddVsockRequest server body = json_request json_VsockConfig body (NewPutVmAddVsockRequestWithBody server)"

definition NewBootVMRequest :: "string \<Rightarrow> http_request res" where
  "NewBootVMRequest server = plain_request ''PUT'' ''/vm.boot'' server"

definition NewPutVmCoredumpRequestWithBody :: "string \<Rightarrow> string \<Rightarrow> http_body \<Rightarrow> http_request res" where
  "NewPutVmCoredumpRequestWithBody server contentType body = body_request ''PUT'' ''/vm.coredump'' server contentType body"

definition NewPutVmCoredumpRequest :: "string \<Rightarrow> PutVmCoredumpJSONRequestBody \<Rightarrow> http_request res" where
  "NewPutVmCoredumpRequest server body = json_request json_VmCoredumpData body (NewPutVmCoredumpRequestWithBody server)"

definition NewGetVmCountersRequest :: "string \<Rightarrow> http_request res" where
  "NewGetVmCountersRequest server = plain_request ''GET'' ''/vm.counters'' server"

definition NewCreateVMRequestWithBody :: "string \<Rightarrow> string \<Rightarrow> http_body \<Rightarrow> http_request res" where
  "NewCreateVMRequestWithBody server contentType body = body_request ''PUT'' ''/vm.create'' server contentType body"

definition NewCreateVMRequest :: "string \<Rightarrow> CreateVMJSONRequestBody \<Rightarrow> http_request res" where
  "NewCreateVMRequest server body = json_request json_VmConfig body (NewCreateVMRequestWithBody server)"

definition NewDeleteVMRequest :: "string \<Rightarrow> http_request res" where
  "NewDeleteVMRequest server = plain_request ''PUT'' ''/vm.delete'' server"

definition NewGetVmInfoRequest :: "string \<Rightarrow> http_request res" where
  "NewGetVmInfoRequest server = plain_request ''GET'' ''/vm.info'' server"

definition NewPauseVMRequest :: "string \<Rightarrow> http_request res" where
  "NewPauseVMRequest server = plain_request ''PUT'' ''/vm.pause'' server"

definition NewPowerButtonVMRequest :: "string \<Rightarrow> http_request res" where
  "NewPowerButtonVMRequest server = plain_request ''PUT'' ''/vm.power-button'' server"

definition NewRebootVMRequest :: "string \<Rightarrow> http_request res" where
  "NewRebootVMRequest server = plain_request ''PUT'' ''/vm.reboot'' server"

definition NewPutVmReceiveMigrationRequestWithBody :: "string \<Rightarrow> string \<Rightarrow> http_body \<Rightarrow> http_request res" where
  "NewPutVmReceiveMigrationRequestWithBody server contentType body = body_request ''PUT'' ''/vm.receive-migration'' server contentType body"

definition NewPutVmReceiveMigrationRequest :: "string \<Rightarrow> PutVmReceiveMigrationJSONRequestBody \<Rightarrow> http_request res" where
  "NewPutVmReceiveMigrationRequest server body = json_request json_ReceiveMigrationData body (NewPutVmReceiveMigrationRequestWithBody server)"

definition NewPutVmRemoveDeviceRequestWithBody :: "string \<Rightarrow> string \<Rightarrow> http_body \<Rightarrow> http_request res" where
  "NewPutVmRemoveDeviceRequestWithBody server contentType body = body_request ''PUT'' ''/vm.remove-device'' server contentType body"

definition NewPutVmRemoveDeviceRequest :: "string \<Rightarrow> PutVmRemoveDeviceJSONRequestBody \<Rightarrow> http_request res" where
  "NewPutVmRemoveDeviceRequest server body = json_request json_VmRemoveDevice body (NewPutVmRemoveDeviceRequestWithBody server)"

definition NewPutVmResizeRequestWithBody :: "string \<Rightarrow> string \<Rightarrow> http_body \<Rightarrow> http_request res" where
  "NewPutVmResizeRequestWithBody server contentType body = body_request ''PUT'' ''/vm.resize'' server contentType body"

definition NewPutVmResizeRequest :: "string \<Rightarrow> PutVmResizeJSONRequestBody \<Rightarrow> http_request res" where
  "NewPutVmResizeRequest server body = json_request json_VmResize body (NewPutVmResizeRequestWithBody server)"

definition NewPutVmResizeZoneRequestWithBody :: "string \<Rightarrow> string \<Rightarrow> http_body \<Rightarrow> http_request res" where
  "NewPutVmResizeZoneRequestWithBody server contentType body = body_request ''PUT'' ''/vm.resize-zone'' server contentType body"

definition NewPutVmResizeZoneRequest :: "string \<Rightarrow> PutVmResizeZoneJSONRequestBody \<Rightarrow> http_request res" where
  "NewPutVmResizeZoneRequest server body = json_request json_VmResizeZone body (NewPutVmResizeZoneRequestWithBody server)"

definition NewPutVmRestoreRequestWithBody :: "string \<Rightarrow> string \<Rightarrow> http_body \<Rightarrow> http_request res" where
  "NewPutVmRestoreRequestWithBody server contentType body = body_request ''PUT'' ''/vm.restore'' server contentType body"

definition NewPutVmRestoreRequest :: "string \<Rightarrow> PutVmRestoreJSONRequestBody \<Rightarrow> http_request res" where
  "NewPutVmRestoreRequest server body = json_request json_RestoreConfig body (NewPutVmRestoreRequestWithBody server)"

definition NewResumeVMRequest :: "string \<Rightarrow> http_request res" where
  "NewResumeVMRequest server = plain_request ''PUT'' ''/vm.resume'' server"

definition NewPutVmSendMigrationRequestWithBody :: "string \<Rightarrow> string \<Rightarrow> http_body \<Rightarrow> http_request res" where
  "NewPutVmSendMigrationRequestWithBody server contentType body = body_request ''PUT'' ''/vm.send-migration'' server contentType body"

definition NewPutVmSendMigrationRequest :: "string \<Rightarrow> PutVmSendMigrationJSONRequestBody \<Rightarrow> http_request res" where
  "NewPutVmSendMigrationRequest server body = json_request json_SendMigrationData body (NewPutVmSendMigrationRequestWithBody server)"

definition NewShutdownVMRequest :: "string \<Rightarrow> http_request res" where
  "NewShutdownVMRequest server = plain_request ''PUT'' ''/vm.shutdown'' server"

definition NewPutVmSnapshotRequestWithBody :: "string \<Rightarrow> string \<Rightarrow> http_body \<Rightarrow> http_request res" where
  "NewPutVmSnapshotRequestWithBody server contentType body = body_request ''PUT'' ''/vm.snapshot'' server contentType body"

definition NewPutVmSnapshotRequest :: "string \<Rightarrow> PutVmSnapshotJSONRequestBody \<Rightarrow> http_request res" where
  "NewPutVmSnapshotRequest server body = json_request json_VmSnapshotConfig body (NewPutVmSnapshotRequestWithBody server)"

definition NewPutVmmNmiRequest :: "string \<Rightarrow> http_request res" where
  "NewPutVmmNmiRequest server = plain_request ''PUT'' ''/vmm.nmi'' server"

definition NewGetVmmPingRequest :: "string \<Rightarrow> http_request res" where
  "NewGetVmmPingRequest server = plain_request ''GET'' ''/vmm.ping'' server"

definition NewShutdownVMMRequest :: "string \<Rightarrow> http_request res" where
  "NewShutdownVMMRequest server = plain_request ''PUT'' ''/vmm.shutdown'' server"

section \<open>Calls\<close>

definition Client_PutVmAddDeviceWithBody :: "string \<Rightarrow> http_body \<Rightarrow> editor list \<Rightarrow> ('s, http_response) ch_call" where
  "Client_PutVmAddDeviceWithBody contentType body reqEditors c = send (NewPutVmAddDeviceRequestWithBody (chServer c) contentType body) reqEditors c"

definition Client_PutVmAddDevice :: "PutVmAddDeviceJSONRequestBody \<Rightarrow> editor list \<Rightarrow> ('s, http_response) ch_call" where
  "Client_PutVmAddDevice body reqEditors c = send (NewPutVmAddDeviceRequest (chServer c) body) reqEditors c"

definition Client_PutVmAddDiskWithBody :: "string \<Rightarrow> http_body \<Rightarrow> editor list \<Rightarrow> ('s, http_response) ch_call" where
  "Client_PutVmAddDiskWithBody contentType body reqEditors c = send (NewPutVmAddDiskRequestWithBody (chServer c) contentType body) reqEditors c"

definition Client_PutVmAddDisk :: "PutVmAddDiskJSONRequestBody \<Rightarrow> editor list \<Rightarrow> ('s, http_response) ch_call" where
  "Client_PutVmAddDisk body reqEditors c = send (NewPutVmAddDiskRequest (chServer c) body) reqEditors c"

definition Client_PutVmAddFsWithBody :: "string \<Rightarrow> http_body \<Rightarrow> editor list \<Rightarrow> ('s, http_response) ch_call" where
  "Client_PutVmAddFsWithBody contentType body reqEditors c = send (NewPutVmAddFsRequestWithBody (chServer c) contentType body) reqEditors c"

definition Client_PutVmAddFs :: "PutVmAddFsJSONRequestBody \<Rightarrow> editor list \<Rightarrow> ('s, http_response) ch_call" where
  "Client_PutVmAddFs body reqEditors c = send (NewPutVmAddFsRequest (chServer c) body) reqEditors c"

definition Client_PutVmAddNetWithBody :: "string \<Rightarrow> http_body \<Rightarrow> editor list \<Rightarrow> ('s, http_response) ch_call" where
  "Client_PutVmAddNetWithBody contentType body reqEditors c = send (NewPutVmAddNetRequestWithBody (chServer c) contentType body) reqEditors c"

definition Client_PutVmAddNet :: "PutVmAddNetJSONRequestBody \<Rightarrow> editor list \<Rightarrow> ('s, http_response) ch_call" where
  "Client_PutVmAddNet body reqEditors c = send (NewPutVmAddNetRequest (chServer c) body) reqEditors c"

definition Client_PutVmAddPmemWithBody :: "string \<Rightarrow> http_body \<Rightarrow> editor list \<Rightarrow> ('s, http_response) ch_call" where
  "Client_PutVmAddPmemWithBody contentType body reqEditors c = send (NewPutVmAddPmemRequestWithBody (chServer c) contentType body) reqEditors c"

definition Client_PutVmAddPmem :: "PutVmAddPmemJSONRequestBody \<Rightarrow> editor list \<Rightarrow> ('s, http_response) ch_call" where
  "Client_PutVmAddPmem body reqEditors c = send (NewPutVmAddPmemRequest (chServer c) body) reqEditors c"

definition Client_PutVmAddUserDeviceWithBody :: "string \<Rightarrow> http_body \<Rightarrow> editor list \<Rightarrow> ('s, http_response) ch_call" where
  "Client_PutVmAddUserDeviceWithBody contentType body reqEditors c = send (NewPutVmAddUserDeviceRequestWithBody (chServer c) contentType body) reqEditors c"

definition Client_PutVmAddUserDevice :: "PutVmAddUserDeviceJSONRequestBody \<Rightarrow> editor list \<Rightarrow> ('s, http_response) ch_call" where
  "Client_PutVmAddUserDevice body reqEditors c = send (NewPutVmAddUserDeviceRequest (chServer c) body) reqEditors c"

definition Client_PutVmAddVdpaWithBody :: "string \<Rightarrow> http_body \<Rightarrow> editor list \<Rightarrow> ('s, http_response) ch_call" where
  "Client_PutVmAddVdpaWithBody contentType body reqEditors c = send (NewPutVmAddVdpaRequestWithBody (chServer c) contentType body) reqEditors c"

definition Client_PutVmAddVdpa :: "PutVmAddVdpaJSONRequestBody \<Rightarrow> editor list \<Rightarrow> ('s, http_response) ch_call" where
  "Client_PutVmAddVdpa body reqEditors c = send (NewPutVmAddVdpaRequest (chServer c) body) reqEditors c"

definition Client_PutVmAddVsockWithBody :: "string \<Rightarrow> http_body \<Rightarrow> editor list \<Rightarrow> ('s, http_response) ch_call" where
  "Client_PutVmAddVsockWithBody contentType body reqEditors c = send (NewPutVmAddVsockRequestWithBody (chServer c) contentType body) reqEditors c"

definition Client_PutVmAddVsock :: "PutVmAddVsockJSONRequestBody \<Rightarrow> editor list \<Rightarrow> ('s, http_response) ch_call" where
  "Client_PutVmAddVsock body reqEditors c = send (NewPutVmAddVsockRequest (chServer c) body) reqEditors c"

definition Client_BootVM :: "editor list \<Rightarrow> ('s, http_response) ch_call" where
  "Client_BootVM reqEditors c = send (NewBootVMRequest (chServer c)) reqEditors c"

definition Client_PutVmCoredumpWithBody :: "string \<Rightarrow> http_body \<Rightarrow> editor list \<Rightarrow> ('s, http_response) ch_call" where
  "Client_PutVmCoredumpWithBody contentType body reqEditors c = send (NewPutVmCoredumpRequestWithBody (chServer c) contentType body) reqEditors c"

definition Client_PutVmCoredump :: "PutVmCoredumpJSONRequestBody \<Rightarrow> editor list \<Rightarrow> ('s, http_response) ch_call" where
  "Client_PutVmCoredump body reqEditors c = send (NewPutVmCoredumpRequest (chServer c) body) reqEditors c"

definition Client_GetVmCounters :: "editor list \<Rightarrow> ('s, http_response) ch_call" where
  "Client_GetVmCounters reqEditors c = send (NewGetVmCountersRequest (chServer c)) reqEditors c"

definition Client_CreateVMWithBody :: "string \<Rightarrow> http_body \<Rightarrow> editor list \<Rightarrow> ('s, http_response) ch_call" where
  "Client_CreateVMWithBody contentType body reqEditors c = send (NewCreateVMRequestWithBody (chServer c) contentType body) reqEditors c"

definition Client_CreateVM :: "CreateVMJSONRequestBody \<Rightarrow> editor list \<Rightarrow> ('s, http_response) ch_call" where
  "Client_CreateVM body reqEditors c = send (NewCreateVMRequest (chServer c) body) reqEditors c"

definition Client_DeleteVM :: "editor list \<Rightarrow> ('s, http_response) ch_call" where
  "Client_DeleteVM reqEditors c = send (NewDeleteVMRequest (chServer c)) reqEditors c"

definition Client_GetVmInfo :: "editor list \<Rightarrow> ('s, http_response) ch_call" where
  "Client_GetVmInfo reqEditors c = send (NewGetVmInfoRequest (chServer c)) reqEditors c"

definition Client_PauseVM :: "editor list \<Rightarrow> ('s, http_response) ch_call" where
  "Client_PauseVM reqEditors c = send (NewPauseVMRequest (chServer c)) reqEditors c"

definition Client_PowerButtonVM :: "editor list \<Rightarrow> ('s, http_response) ch_call" where
  "Client_PowerButtonVM reqEditors c = send (NewPowerButtonVMRequest (chServer c)) reqEditors c"

definition Client_RebootVM :: "editor list \<Rightarrow> ('s, http_response) ch_call" where
  "Client_RebootVM reqEditors c = send (NewRebootVMRequest (chServer c)) reqEditors c"

definition Client_PutVmReceiveMigrationWithBody :: "string \<Rightarrow> http_body \<Rightarrow> editor list \<Rightarrow> ('s, http_response) ch_call" where
  "Client_PutVmReceiveMigrationWithBody contentType body reqEditors c = send (NewPutVmReceiveMigrationRequestWithBody (chServer c) contentType body) reqEditors c"

definition Client_PutVmReceiveMigration :: "PutVmReceiveMigrationJSONRequestBody \<Rightarrow> editor list \<Rightarrow> ('s, http_response) ch_call" where
  "Client_PutVmReceiveMigration body reqEditors c = send (NewPutVmReceiveMigrationRequest (chServer c) body) reqEditors c"

definition Client_PutVmRemoveDeviceWithBody :: "string \<Rightarrow> http_body \<Rightarrow> editor list \<Rightarrow> ('s, http_response) ch_call" where
  "Client_PutVmRemoveDeviceWithBody contentType body reqEditors c = send (NewPutVmRemoveDeviceRequestWithBody (chServer c) contentType body) reqEditors c"

definition Client_PutVmRemoveDevice :: "PutVmRemoveDeviceJSONRequestBody \<Rightarrow> editor list \<Rightarrow> ('s, http_response) ch_call" where
  "Client_PutVmRemoveDevice body reqEditors c = send (NewPutVmRemoveDeviceRequest (chServer c) body) reqEditors c"

definition Client_PutVmResizeWithBody :: "string \<Rightarrow> http_body \<Rightarrow> editor list \<Rightarrow> ('s, http_response) ch_call" where
  "Client_PutVmResizeWithBody contentType body reqEditors c = send (NewPutVmResizeRequestWithBody (chServer c) contentType body) reqEditors c"

definition Client_PutVmResize :: "PutVmResizeJSONRequestBody \<Rightarrow> editor list \<Rightarrow> ('s, http_response) ch_call" where
  "Client_PutVmResize body reqEditors c = send (NewPutVmResizeRequest (chServer c) body) reqEditors c"

definition Client_PutVmResizeZoneWithBody :: "string \<Rightarrow> http_body \<Rightarrow> editor list \<Rightarrow> ('s, http_response) ch_call" where
  "Client_PutVmResizeZoneWithBody contentType body reqEditors c = send (NewPutVmResizeZoneRequestWithBody (chServer c) contentType body) reqEditors c"

definition Client_PutVmResizeZone :: "PutVmResizeZoneJSONRequestBody \<Rightarrow> editor list \<Rightarrow> ('s, http_response) ch_call" where
  "Client_PutVmResizeZone body reqEditors c = send (NewPutVmResizeZoneRequest (chServer c) body) reqEditors c"

definition Client_PutVmRestoreWithBody :: "string \<Rightarrow> http_body \<Rightarrow> editor list \<Rightarrow> ('s, http_response) ch_call" where
  "Client_PutVmRestoreWithBody contentType body reqEditors c = send (NewPutVmRestoreRequestWithBody (chServer c) contentType body) reqEditors c"

definition Client_PutVmRestore :: "PutVmRestoreJSONRequestBody \<Rightarrow> editor list \<Rightarrow> ('s, http_response) ch_call" where
  "Client_PutVmRestore body reqEditors c = send (NewPutVmRestoreRequest (chServer c) body) reqEditors c"

definition Client_ResumeVM :: "editor list \<Rightarrow> ('s, http_response) ch_call" where
  "Client_ResumeVM reqEditors c = send (NewResumeVMRequest (chServer c)) reqEditors c"

definition Client_PutVmSendMigrationWithBody :: "string \<Rightarrow> http_body \<Rightarrow> editor list \<Rightarrow> ('s, http_response) ch_call" where
  "Client_PutVmSendMigrationWithBody contentType body reqEditors c = send (NewPutVmSendMigrationRequestWithBody (chServer c) contentType body) reqEditors c"

definition Client_PutVmSendMigration :: "PutVmSendMigrationJSONRequestBody \<Rightarrow> editor list \<Rightarrow> ('s, http_response) ch_call" where
  "Client_PutVmSendMigration body reqEditors c = send (NewPutVmSendMigrationRequest (chServer c) body) reqEditors c"

definition Client_ShutdownVM :: "editor list \<Rightarrow> ('s, http_response) ch_call" where
  "Client_ShutdownVM reqEditors c = send (NewShutdownVMRequest (chServer c)) reqEditors c"

definition Client_PutVmSnapshotWithBody :: "string \<Rightarrow> http_body \<Rightarrow> editor list \<Rightarrow> ('s, http_response) ch_call" where
  "Client_PutVmSnapshotWithBody contentType body reqEditors c = send (NewPutVmSnapshotRequestWithBody (chServer c) contentType body) reqEditors c"

definition Client_PutVmSnapshot :: "PutVmSnapshotJSONRequestBody \<Rightarrow> editor list \<Rightarrow> ('s, http_response) ch_call" where
  "Client_PutVmSnapshot body reqEditors c = send (NewPutVmSnapshotRequest (chServer c) body) reqEditors c"

definition Client_PutVmmNmi :: "editor list \<Rightarrow> ('s, http_response) ch_call" where
  "Client_PutVmmNmi reqEditors c = send (NewPutVmmNmiRequest (chServer c)) reqEditors c"

definition Client_GetVmmPing :: "editor list \<Rightarrow> ('s, http_response) ch_call" where
  "Client_GetVmmPing reqEditors c = send (NewGetVmmPingRequest (chServer c)) reqEditors c"

definition Client_ShutdownVMM :: "editor list \<Rightarrow> ('s, http_response) ch_call" where
  "Client_ShutdownVMM reqEditors c = send (NewShutdownVMMRequest (chServer c)) reqEditors c"

section \<open>Responses\<close>

text \<open>The responses of the operations, with what a body of the status 200 decodes to.\<close>

type_synonym VmCounters = "string \<rightharpoonup> (string \<rightharpoonup> 64 word)"
type_synonym PutVmAddDeviceResponse = "PciDeviceInfo ch_response"
type_synonym PutVmAddDiskResponse = "PciDeviceInfo ch_response"
type_synonym PutVmAddFsResponse = "PciDeviceInfo ch_response"
type_synonym PutVmAddNetResponse = "PciDeviceInfo ch_response"
type_synonym PutVmAddPmemResponse = "PciDeviceInfo ch_response"
type_synonym PutVmAddUserDeviceResponse = "PciDeviceInfo ch_response"
type_synonym PutVmAddVdpaResponse = "PciDeviceInfo ch_response"
type_synonym PutVmAddVsockResponse = "PciDeviceInfo ch_response"
type_synonym BootVMResponse = "unit ch_response"
type_synonym PutVmCoredumpResponse = "unit ch_response"
type_synonym GetVmCountersResponse = "VmCounters ch_response"
type_synonym CreateVMResponse = "unit ch_response"
type_synonym DeleteVMResponse = "unit ch_response"
type_synonym GetVmInfoResponse = "VmInfo ch_response"
type_synonym PauseVMResponse = "unit ch_response"
type_synonym PowerButtonVMResponse = "unit ch_response"
type_synonym RebootVMResponse = "unit ch_response"
type_synonym PutVmReceiveMigrationResponse = "unit ch_response"
type_synonym PutVmRemoveDeviceResponse = "unit ch_response"
type_synonym PutVmResizeResponse = "unit ch_response"
type_synonym PutVmResizeZoneResponse = "unit ch_response"
type_synonym PutVmRestoreResponse = "unit ch_response"
type_synonym ResumeVMResponse = "unit ch_response"
type_synonym PutVmSendMigrationResponse = "unit ch_response"
type_synonym ShutdownVMResponse = "unit ch_response"
type_synonym PutVmSnapshotResponse = "unit ch_response"
type_synonym PutVmmNmiResponse = "unit ch_response"
type_synonym GetVmmPingResponse = "VmmPingResponse ch_response"
type_synonym ShutdownVMMResponse = "unit ch_response"

definition ParsePutVmAddDeviceResponse :: "http_response \<Rightarrow> PutVmAddDeviceResponse res" where
  "ParsePutVmAddDeviceResponse = parse_json json_PciDeviceInfo"

definition PutVmAddDeviceWithBodyWithResponse :: "string \<Rightarrow> http_body \<Rightarrow> editor list \<Rightarrow> ('s, PutVmAddDeviceResponse) ch_call" where
  "PutVmAddDeviceWithBodyWithResponse contentType body reqEditors = with_response ParsePutVmAddDeviceResponse (Client_PutVmAddDeviceWithBody contentType body reqEditors)"

definition PutVmAddDeviceWithResponse :: "PutVmAddDeviceJSONRequestBody \<Rightarrow> editor list \<Rightarrow> ('s, PutVmAddDeviceResponse) ch_call" where
  "PutVmAddDeviceWithResponse body reqEditors = with_response ParsePutVmAddDeviceResponse (Client_PutVmAddDevice body reqEditors)"

definition ParsePutVmAddDiskResponse :: "http_response \<Rightarrow> PutVmAddDiskResponse res" where
  "ParsePutVmAddDiskResponse = parse_json json_PciDeviceInfo"

definition PutVmAddDiskWithBodyWithResponse :: "string \<Rightarrow> http_body \<Rightarrow> editor list \<Rightarrow> ('s, PutVmAddDiskResponse) ch_call" where
  "PutVmAddDiskWithBodyWithResponse contentType body reqEditors = with_response ParsePutVmAddDiskResponse (Client_PutVmAddDiskWithBody contentType body reqEditors)"

definition PutVmAddDiskWithResponse :: "PutVmAddDiskJSONRequestBody \<Rightarrow> editor list \<Rightarrow> ('s, PutVmAddDiskResponse) ch_call" where
  "PutVmAddDiskWithResponse body reqEditors = with_response ParsePutVmAddDiskResponse (Client_PutVmAddDisk body reqEditors)"

definition ParsePutVmAddFsResponse :: "http_response \<Rightarrow> PutVmAddFsResponse res" where
  "ParsePutVmAddFsResponse = parse_json json_PciDeviceInfo"

definition PutVmAddFsWithBodyWithResponse :: "string \<Rightarrow> http_body \<Rightarrow> editor list \<Rightarrow> ('s, PutVmAddFsResponse) ch_call" where
  "PutVmAddFsWithBodyWithResponse contentType body reqEditors = with_response ParsePutVmAddFsResponse (Client_PutVmAddFsWithBody contentType body reqEditors)"

definition PutVmAddFsWithResponse :: "PutVmAddFsJSONRequestBody \<Rightarrow> editor list \<Rightarrow> ('s, PutVmAddFsResponse) ch_call" where
  "PutVmAddFsWithResponse body reqEditors = with_response ParsePutVmAddFsResponse (Client_PutVmAddFs body reqEditors)"

definition ParsePutVmAddNetResponse :: "http_response \<Rightarrow> PutVmAddNetResponse res" where
  "ParsePutVmAddNetResponse = parse_json json_PciDeviceInfo"

definition PutVmAddNetWithBodyWithResponse :: "string \<Rightarrow> http_body \<Rightarrow> editor list \<Rightarrow> ('s, PutVmAddNetResponse) ch_call" where
  "PutVmAddNetWithBodyWithResponse contentType body reqEditors = with_response ParsePutVmAddNetResponse (Client_PutVmAddNetWithBody contentType body reqEditors)"

definition PutVmAddNetWithResponse :: "PutVmAddNetJSONRequestBody \<Rightarrow> editor list \<Rightarrow> ('s, PutVmAddNetResponse) ch_call" where
  "PutVmAddNetWithResponse body reqEditors = with_response ParsePutVmAddNetResponse (Client_PutVmAddNet body reqEditors)"

definition ParsePutVmAddPmemResponse :: "http_response \<Rightarrow> PutVmAddPmemResponse res" where
  "ParsePutVmAddPmemResponse = parse_json json_PciDeviceInfo"

definition PutVmAddPmemWithBodyWithResponse :: "string \<Rightarrow> http_body \<Rightarrow> editor list \<Rightarrow> ('s, PutVmAddPmemResponse) ch_call" where
  "PutVmAddPmemWithBodyWithResponse contentType body reqEditors = with_response ParsePutVmAddPmemResponse (Client_PutVmAddPmemWithBody contentType body reqEditors)"

definition PutVmAddPmemWithResponse :: "PutVmAddPmemJSONRequestBody \<Rightarrow> editor list \<Rightarrow> ('s, PutVmAddPmemResponse) ch_call" where
  "PutVmAddPmemWithResponse body reqEditors = with_response ParsePutVmAddPmemResponse (Client_PutVmAddPmem body reqEditors)"

definition ParsePutVmAddUserDeviceResponse :: "http_response \<Rightarrow> PutVmAddUserDeviceResponse res" where
  "ParsePutVmAddUserDeviceResponse = parse_json json_PciDeviceInfo"

definition PutVmAddUserDeviceWithBodyWithResponse :: "string \<Rightarrow> http_body \<Rightarrow> editor list \<Rightarrow> ('s, PutVmAddUserDeviceResponse) ch_call" where
  "PutVmAddUserDeviceWithBodyWithResponse contentType body reqEditors = with_response ParsePutVmAddUserDeviceResponse (Client_PutVmAddUserDeviceWithBody contentType body reqEditors)"

definition PutVmAddUserDeviceWithResponse :: "PutVmAddUserDeviceJSONRequestBody \<Rightarrow> editor list \<Rightarrow> ('s, PutVmAddUserDeviceResponse) ch_call" where
  "PutVmAddUserDeviceWithResponse body reqEditors = with_response ParsePutVmAddUserDeviceResponse (Client_PutVmAddUserDevice body reqEditors)"

definition ParsePutVmAddVdpaResponse :: "http_response \<Rightarrow> PutVmAddVdpaResponse res" where
  "ParsePutVmAddVdpaResponse = parse_json json_PciDeviceInfo"

definition PutVmAddVdpaWithBodyWithResponse :: "string \<Rightarrow> http_body \<Rightarrow> editor list \<Rightarrow> ('s, PutVmAddVdpaResponse) ch_call" where
  "PutVmAddVdpaWithBodyWithResponse contentType body reqEditors = with_response ParsePutVmAddVdpaResponse (Client_PutVmAddVdpaWithBody contentType body reqEditors)"

definition PutVmAddVdpaWithResponse :: "PutVmAddVdpaJSONRequestBody \<Rightarrow> editor list \<Rightarrow> ('s, PutVmAddVdpaResponse) ch_call" where
  "PutVmAddVdpaWithResponse body reqEditors = with_response ParsePutVmAddVdpaResponse (Client_PutVmAddVdpa body reqEditors)"

definition ParsePutVmAddVsockResponse :: "http_response \<Rightarrow> PutVmAddVsockResponse res" where
  "ParsePutVmAddVsockResponse = parse_json json_PciDeviceInfo"

definition PutVmAddVsockWithBodyWithResponse :: "string \<Rightarrow> http_body \<Rightarrow> editor list \<Rightarrow> ('s, PutVmAddVsockResponse) ch_call" where
  "PutVmAddVsockWithBodyWithResponse contentType body reqEditors = with_response ParsePutVmAddVsockResponse (Client_PutVmAddVsockWithBody contentType body reqEditors)"

definition PutVmAddVsockWithResponse :: "PutVmAddVsockJSONRequestBody \<Rightarrow> editor list \<Rightarrow> ('s, PutVmAddVsockResponse) ch_call" where
  "PutVmAddVsockWithResponse body reqEditors = with_response ParsePutVmAddVsockResponse (Client_PutVmAddVsock body reqEditors)"

definition ParseBootVMResponse :: "http_response \<Rightarrow> BootVMResponse res" where
  "ParseBootVMResponse = parse_plain"

definition BootVMWithResponse :: "editor list \<Rightarrow> ('s, BootVMResponse) ch_call" where
  "BootVMWithResponse reqEditors = with_response ParseBootVMResponse (Client_BootVM reqEditors)"

definition ParsePutVmCoredumpResponse :: "http_response \<Rightarrow> PutVmCoredumpResponse res" where
  "ParsePutVmCoredumpResponse = parse_plain"

definition PutVmCoredumpWithBodyWithResponse :: "string \<Rightarrow> http_body \<Rightarrow> editor list \<Rightarrow> ('s, PutVmCoredumpResponse) ch_call" where
  "PutVmCoredumpWithBodyWithResponse contentType body reqEditors = with_response ParsePutVmCoredumpResponse (Client_PutVmCoredumpWithBody contentType body reqEditors)"

definition PutVmCoredumpWithResponse :: "PutVmCoredumpJSONRequestBody \<Rightarrow> editor list \<Rightarrow> ('s, PutVmCoredumpResponse) ch_call" where
  "PutVmCoredumpWithResponse body reqEditors = with_response ParsePutVmCoredumpResponse (Client_PutVmCoredump body reqEditors)"

definition ParseGetVmCountersResponse :: "http_response \<Rightarrow> GetVmCountersResponse res" where
  "ParseGetVmCountersResponse = parse_json json_VmCounters"

definition GetVmCountersWithResponse :: "editor list \<Rightarrow> ('s, GetVmCountersResponse) ch_call" where
  "GetVmCountersWithResponse reqEditors = with_response ParseGetVmCountersResponse (Client_GetVmCounters reqEditors)"

definition ParseCreateVMResponse :: "http_response \<Rightarrow> CreateVMResponse res" where
  "ParseCreateVMResponse = parse_plain"

definition CreateVMWithBodyWithResponse :: "string \<Rightarrow> http_body \<Rightarrow> editor list \<Rightarrow> ('s, CreateVMResponse) ch_call" where
  "CreateVMWithBodyWithResponse contentType body reqEditors = with_response ParseCreateVMResponse (Client_CreateVMWithBody contentType body reqEditors)"

definition CreateVMWithResponse :: "CreateVMJSONRequestBody \<Rightarrow> editor list \<Rightarrow> ('s, CreateVMResponse) ch_call" where
  "CreateVMWithResponse body reqEditors = with_response ParseCreateVMResponse (Client_CreateVM body reqEditors)"

definition ParseDeleteVMResponse :: "http_response \<Rightarrow> DeleteVMResponse res" where
  "ParseDeleteVMResponse = parse_plain"

definition DeleteVMWithResponse :: "editor list \<Rightarrow> ('s, DeleteVMResponse) ch_call" where
  "DeleteVMWithResponse reqEditors = with_response ParseDeleteVMResponse (Client_DeleteVM reqEditors)"

definition ParseGetVmInfoResponse :: "http_response \<Rightarrow> GetVmInfoResponse res" where
  "ParseGetVmInfoResponse = parse_json json_VmInfo"

definition GetVmInfoWithResponse :: "editor list \<Rightarrow> ('s, GetVmInfoResponse) ch_call" where
  "GetVmInfoWithResponse reqEditors = with_response ParseGetVmInfoResponse (Client_GetVmInfo reqEditors)"

definition ParsePauseVMResponse :: "http_response \<Rightarrow> PauseVMResponse res" where
  "ParsePauseVMResponse = parse_plain"

definition PauseVMWithResponse :: "editor list \<Rightarrow> ('s, PauseVMResponse) ch_call" where
  "PauseVMWithResponse reqEditors = with_response ParsePauseVMResponse (Client_PauseVM reqEditors)"

definition ParsePowerButtonVMResponse :: "http_response \<Rightarrow> PowerButtonVMResponse res" where
  "ParsePowerButtonVMResponse = parse_plain"

definition PowerButtonVMWithResponse :: "editor list \<Rightarrow> ('s, PowerButtonVMResponse) ch_call" where
  "PowerButtonVMWithResponse reqEditors = with_response ParsePowerButtonVMResponse (Client_PowerButtonVM reqEditors)"

definition ParseRebootVMResponse :: "http_response \<Rightarrow> RebootVMResponse res" where
  "ParseRebootVMResponse = parse_plain"

definition RebootVMWithResponse :: "editor list \<Rightarrow> ('s, RebootVMResponse) ch_call" where
  "RebootVMWithResponse reqEditors = with_response ParseRebootVMResponse (Client_RebootVM reqEditors)"

definition ParsePutVmReceiveMigrationResponse :: "http_response \<Rightarrow> PutVmReceiveMigrationResponse res" where
  "ParsePutVmReceiveMigrationResponse = parse_plain"

definition PutVmReceiveMigrationWithBodyWithResponse :: "string \<Rightarrow> http_body \<Rightarrow> editor list \<Rightarrow> ('s, PutVmReceiveMigrationResponse) ch_call" where
  "PutVmReceiveMigrationWithBodyWithResponse contentType body reqEditors = with_response ParsePutVmReceiveMigrationResponse (Client_PutVmReceiveMigrationWithBody contentType body reqEditors)"

definition PutVmReceiveMigrationWithResponse :: "PutVmReceiveMigrationJSONRequestBody \<Rightarrow> editor list \<Rightarrow> ('s, PutVmReceiveMigrationResponse) ch_call" where
  "PutVmReceiveMigrationWithResponse body reqEditors = with_response ParsePutVmReceiveMigrationResponse (Client_PutVmReceiveMigration body reqEditors)"

definition ParsePutVmRemoveDeviceResponse :: "http_response \<Rightarrow> PutVmRemoveDeviceResponse res" where
  "ParsePutVmRemoveDeviceResponse = parse_plain"

definition PutVmRemoveDeviceWithBodyWithResponse :: "string \<Rightarrow> http_body \<Rightarrow> editor list \<Rightarrow> ('s, PutVmRemoveDeviceResponse) ch_call" where
  "PutVmRemoveDeviceWithBodyWithResponse contentType body reqEditors = with_response ParsePutVmRemoveDeviceResponse (Client_PutVmRemoveDeviceWithBody contentType body reqEditors)"

definition PutVmRemoveDeviceWithResponse :: "PutVmRemoveDeviceJSONRequestBody \<Rightarrow> editor list \<Rightarrow> ('s, PutVmRemoveDeviceResponse) ch_call" where
  "PutVmRemoveDeviceWithResponse body reqEditors = with_response ParsePutVmRemoveDeviceResponse (Client_PutVmRemoveDevice body reqEditors)"

definition ParsePutVmResizeResponse :: "http_response \<Rightarrow> PutVmResizeResponse res" where
  "ParsePutVmResizeResponse = parse_plain"

definition PutVmResizeWithBodyWithResponse :: "string \<Rightarrow> http_body \<Rightarrow> editor list \<Rightarrow> ('s, PutVmResizeResponse) ch_call" where
  "PutVmResizeWithBodyWithResponse contentType body reqEditors = with_response ParsePutVmResizeResponse (Client_PutVmResizeWithBody contentType body reqEditors)"

definition PutVmResizeWithResponse :: "PutVmResizeJSONRequestBody \<Rightarrow> editor list \<Rightarrow> ('s, PutVmResizeResponse) ch_call" where
  "PutVmResizeWithResponse body reqEditors = with_response ParsePutVmResizeResponse (Client_PutVmResize body reqEditors)"

definition ParsePutVmResizeZoneResponse :: "http_response \<Rightarrow> PutVmResizeZoneResponse res" where
  "ParsePutVmResizeZoneResponse = parse_plain"

definition PutVmResizeZoneWithBodyWithResponse :: "string \<Rightarrow> http_body \<Rightarrow> editor list \<Rightarrow> ('s, PutVmResizeZoneResponse) ch_call" where
  "PutVmResizeZoneWithBodyWithResponse contentType body reqEditors = with_response ParsePutVmResizeZoneResponse (Client_PutVmResizeZoneWithBody contentType body reqEditors)"

definition PutVmResizeZoneWithResponse :: "PutVmResizeZoneJSONRequestBody \<Rightarrow> editor list \<Rightarrow> ('s, PutVmResizeZoneResponse) ch_call" where
  "PutVmResizeZoneWithResponse body reqEditors = with_response ParsePutVmResizeZoneResponse (Client_PutVmResizeZone body reqEditors)"

definition ParsePutVmRestoreResponse :: "http_response \<Rightarrow> PutVmRestoreResponse res" where
  "ParsePutVmRestoreResponse = parse_plain"

definition PutVmRestoreWithBodyWithResponse :: "string \<Rightarrow> http_body \<Rightarrow> editor list \<Rightarrow> ('s, PutVmRestoreResponse) ch_call" where
  "PutVmRestoreWithBodyWithResponse contentType body reqEditors = with_response ParsePutVmRestoreResponse (Client_PutVmRestoreWithBody contentType body reqEditors)"

definition PutVmRestoreWithResponse :: "PutVmRestoreJSONRequestBody \<Rightarrow> editor list \<Rightarrow> ('s, PutVmRestoreResponse) ch_call" where
  "PutVmRestoreWithResponse body reqEditors = with_response ParsePutVmRestoreResponse (Client_PutVmRestore body reqEditors)"

definition ParseResumeVMResponse :: "http_response \<Rightarrow> ResumeVMResponse res" where
  "ParseResumeVMResponse = parse_plain"

definition ResumeVMWithResponse :: "editor list \<Rightarrow> ('s, ResumeVMResponse) ch_call" where
  "ResumeVMWithResponse reqEditors = with_response ParseResumeVMResponse (Client_ResumeVM reqEditors)"

definition ParsePutVmSendMigrationResponse :: "http_response \<Rightarrow> PutVmSendMigrationResponse res" where
  "ParsePutVmSendMigrationResponse = parse_plain"

definition PutVmSendMigrationWithBodyWithResponse :: "string \<Rightarrow> http_body \<Rightarrow> editor list \<Rightarrow> ('s, PutVmSendMigrationResponse) ch_call" where
  "PutVmSendMigrationWithBodyWithResponse contentType body reqEditors = with_response ParsePutVmSendMigrationResponse (Client_PutVmSendMigrationWithBody contentType body reqEditors)"

definition PutVmSendMigrationWithResponse :: "PutVmSendMigrationJSONRequestBody \<Rightarrow> editor list \<Rightarrow> ('s, PutVmSendMigrationResponse) ch_call" where
  "PutVmSendMigrationWithResponse body reqEditors = with_response ParsePutVmSendMigrationResponse (Client_PutVmSendMigration body reqEditors)"

definition ParseShutdownVMResponse :: "http_response \<Rightarrow> ShutdownVMResponse res" where
  "ParseShutdownVMResponse = parse_plain"

definition ShutdownVMWithResponse :: "editor list \<Rightarrow> ('s, ShutdownVMResponse) ch_call" where
  "ShutdownVMWithResponse reqEditors = with_response ParseShutdownVMResponse (Client_ShutdownVM reqEditors)"

definition ParsePutVmSnapshotResponse :: "http_response \<Rightarrow> PutVmSnapshotResponse res" where
  "ParsePutVmSnapshotResponse = parse_plain"

definition PutVmSnapshotWithBodyWithResponse :: "string \<Rightarrow> http_body \<Rightarrow> editor list \<Rightarrow> ('s, PutVmSnapshotResponse) ch_call" where
  "PutVmSnapshotWithBodyWithResponse contentType body reqEditors = with_response ParsePutVmSnapshotResponse (Client_PutVmSnapshotWithBody contentType body reqEditors)"

definition PutVmSnapshotWithResponse :: "PutVmSnapshotJSONRequestBody \<Rightarrow> editor list \<Rightarrow> ('s, PutVmSnapshotResponse) ch_call" where
  "PutVmSnapshotWithResponse body reqEditors = with_response ParsePutVmSnapshotResponse (Client_PutVmSnapshot body reqEditors)"

definition ParsePutVmmNmiResponse :: "http_response \<Rightarrow> PutVmmNmiResponse res" where
  "ParsePutVmmNmiResponse = parse_plain"

definition PutVmmNmiWithResponse :: "editor list \<Rightarrow> ('s, PutVmmNmiResponse) ch_call" where
  "PutVmmNmiWithResponse reqEditors = with_response ParsePutVmmNmiResponse (Client_PutVmmNmi reqEditors)"

definition ParseGetVmmPingResponse :: "http_response \<Rightarrow> GetVmmPingResponse res" where
  "ParseGetVmmPingResponse = parse_json json_VmmPingResponse"

definition GetVmmPingWithResponse :: "editor list \<Rightarrow> ('s, GetVmmPingResponse) ch_call" where
  "GetVmmPingWithResponse reqEditors = with_response ParseGetVmmPingResponse (Client_GetVmmPing reqEditors)"

definition ParseShutdownVMMResponse :: "http_response \<Rightarrow> ShutdownVMMResponse res" where
  "ParseShutdownVMMResponse = parse_plain"

definition ShutdownVMMWithResponse :: "editor list \<Rightarrow> ('s, ShutdownVMMResponse) ch_call" where
  "ShutdownVMMWithResponse reqEditors = with_response ParseShutdownVMMResponse (Client_ShutdownVMM reqEditors)"

lemmas request_builders =
  NewPutVmAddDeviceRequestWithBody_def NewPutVmAddDiskRequestWithBody_def NewPutVmAddFsRequestWithBody_def NewPutVmAddNetRequestWithBody_def
  NewPutVmAddPmemRequestWithBody_def NewPutVmAddUserDeviceRequestWithBody_def NewPutVmAddVdpaRequestWithBody_def NewPutVmAddVsockRequestWithBody_def
  NewBootVMRequest_def NewPutVmCoredumpRequestWithBody_def NewGetVmCountersRequest_def NewCreateVMRequestWithBody_def
  NewDeleteVMRequest_def NewGetVmInfoRequest_def NewPauseVMRequest_def NewPowerButtonVMRequest_def
  NewRebootVMRequest_def NewPutVmReceiveMigrationRequestWithBody_def NewPutVmRemoveDeviceRequestWithBody_def NewPutVmResizeRequestWithBody_def
  NewPutVmResizeZoneRequestWithBody_def NewPutVmRestoreRequestWithBody_def NewResumeVMRequest_def NewPutVmSendMigrationRequestWithBody_def
  NewShutdownVMRequest_def NewPutVmSnapshotRequestWithBody_def NewPutVmmNmiRequest_def NewGetVmmPingRequest_def
  NewShutdownVMMRequest_def

section \<open>The API's description\<close>

text \<open>
  The operations of \<^verbatim>\<open>cloud-hypervisor.swagger.yaml\<close>: path, method, and whether there is a body; and
  what the builders make of them, in the same order.
\<close>

definition api_operations :: "(string \<times> string \<times> bool) list" where
  "api_operations =
    [(''/vmm.ping'', ''GET'', False),
     (''/vmm.shutdown'', ''PUT'', False),
     (''/vm.info'', ''GET'', False),
     (''/vm.counters'', ''GET'', False),
     (''/vm.create'', ''PUT'', True),
     (''/vm.delete'', ''PUT'', False),
     (''/vm.boot'', ''PUT'', False),
     (''/vm.pause'', ''PUT'', False),
     (''/vm.resume'', ''PUT'', False),
     (''/vm.shutdown'', ''PUT'', False),
     (''/vm.reboot'', ''PUT'', False),
     (''/vm.power-button'', ''PUT'', False),
     (''/vm.resize'', ''PUT'', True),
     (''/vm.resize-zone'', ''PUT'', True),
     (''/vm.add-device'', ''PUT'', True),
     (''/vm.remove-device'', ''PUT'', True),
     (''/vm.add-disk'', ''PUT'', True),
     (''/vm.add-fs'', ''PUT'', True),
     (''/vm.add-pmem'', ''PUT'', True),
     (''/vm.add-net'', ''PUT'', True),
     (''/vm.add-vsock'', ''PUT'', True),
     (''/vm.add-vdpa'', ''PUT'', True),
     (''/vm.add-user-device'', ''PUT'', True),
     (''/vm.snapshot'', ''PUT'', True),
     (''/vm.coredump'', ''PUT'', True),
     (''/vmm.nmi'', ''PUT'', False),
     (''/vm.restore'', ''PUT'', True),
     (''/vm.receive-migration'', ''PUT'', True),
     (''/vm.send-migration'', ''PUT'', True)]"

definition client_requests :: "string \<Rightarrow> string \<Rightarrow> http_body \<Rightarrow> (string \<times> http_request res) list" where
  "client_requests server contentType body =
    [(''/vmm.ping'', NewGetVmmPingRequest server),
     (''/vmm.shutdown'', NewShutdownVMMRequest server),
     (''/vm.info'', NewGetVmInfoRequest server),
     (''/vm.counters'', NewGetVmCountersRequest server),
     (''/vm.create'', NewCreateVMRequestWithBody server contentType body),
     (''/vm.delete'', NewDeleteVMRequest server),
     (''/vm.boot'', NewBootVMRequest server),
     (''/vm.pause'', NewPauseVMRequest server),
     (''/vm.resume'', NewResumeVMRequest server),
     (''/vm.shutdown'', NewShutdownVMRequest server),
     (''/vm.reboot'', NewRebootVMRequest server),
     (''/vm.power-button'', NewPowerButtonVMRequest server),
     (''/vm.resize'', NewPutVmResizeRequestWithBody server contentType body),
     (''/vm.resize-zone'', NewPutVmResizeZoneRequestWithBody server contentType body),
     (''/vm.add-device'', NewPutVmAddDeviceRequestWithBody server contentType body),
     (''/vm.remove-device'', NewPutVmRemoveDeviceRequestWithBody server contentType body),
     (''/vm.add-disk'', NewPutVmAddDiskRequestWithBody server contentType body),
     (''/vm.add-fs'', NewPutVmAddFsRequestWithBody server contentType body),
     (''/vm.add-pmem'', NewPutVmAddPmemRequestWithBody server contentType body),
     (''/vm.add-net'', NewPutVmAddNetRequestWithBody server contentType body),
     (''/vm.add-vsock'', NewPutVmAddVsockRequestWithBody server contentType body),
     (''/vm.add-vdpa'', NewPutVmAddVdpaRequestWithBody server contentType body),
     (''/vm.add-user-device'', NewPutVmAddUserDeviceRequestWithBody server contentType body),
     (''/vm.snapshot'', NewPutVmSnapshotRequestWithBody server contentType body),
     (''/vm.coredump'', NewPutVmCoredumpRequestWithBody server contentType body),
     (''/vmm.nmi'', NewPutVmmNmiRequest server),
     (''/vm.restore'', NewPutVmRestoreRequestWithBody server contentType body),
     (''/vm.receive-migration'', NewPutVmReceiveMigrationRequestWithBody server contentType body),
     (''/vm.send-migration'', NewPutVmSendMigrationRequestWithBody server contentType body)]"

definition described_request :: "string \<Rightarrow> http_body \<Rightarrow> string \<times> string \<times> bool \<Rightarrow> string \<times> http_request res" where
  "described_request contentType body op = (case op of (path, m, has_body) \<Rightarrow>
     (path, Ok \<lparr>rqMethod = m, rqURL = ''http://localhost/api/v1'' @ path,
        rqHeader = (if has_body then [(''Content-Type'', contentType)] else []), rqBody = (if has_body then body else NoBody)\<rparr>))"

text \<open>The URL of an operation, relative to a server whose path ends in a slash.\<close>

lemma split_plain: "CHR ''/'' \<notin> set p \<Longrightarrow> split_on (CHR ''/'') (''/api/v1/./'' @ p) = [[], ''api'', ''v1'', ''.'', p]"
  using split_on_no_sep [of "CHR ''/''" p] by simp

lemma plain_request_url:
  assumes "CHR ''/'' \<notin> set p" "p \<noteq> ''.''" "p \<noteq> ''..''"
  shows "plain_request m (CHR ''/'' # p) ''http://localhost/api/v1/'' =
    Ok \<lparr>rqMethod = m, rqURL = ''http://localhost/api/v1/'' @ p, rqHeader = [], rqBody = NoBody\<rparr>"
proof -
  have u: "url_parse ''http://localhost/api/v1/'' = Ok \<lparr>urlOrigin = ''http://localhost'', urlPath = ''/api/v1/''\<rparr>"
    by (simp add: url_parse_def plain_url_char_def is_digit_def Let_def)
  have "resolve_path ''/api/v1/'' (''./'' @ p) = ''/api/v1/'' @ p"
    using split_plain [OF assms(1)] assms by (simp add: resolve_path_def Let_def)
  then show ?thesis by (simp add: plain_request_def u url_reference_def url_string_def)
qed

text \<open>
  C36: the client that the runtime makes for the hypervisor builds for each operation of the API's
  description the request it describes: its method, its path below the server's, a body and a type of
  content exactly where there is a body.
\<close>

theorem requests_follow_description:
  "\<exists>c. NewClientWithResponses standard ''http://localhost/api/v1'' [WithHTTPClient doer] = Ok c \<and>
     chDoer c = Some doer \<and> chRequestEditors c = [] \<and>
     client_requests (chServer c) contentType body = map (described_request contentType body) api_operations"
proof -
  have "NewClientWithResponses standard ''http://localhost/api/v1'' [WithHTTPClient doer] =
      Ok \<lparr>chServer = ''http://localhost/api/v1/'', chDoer = Some doer, chRequestEditors = []\<rparr>"
    by (simp add: NewClientWithResponses_def NewClient_def WithHTTPClient_def)
  moreover have "client_requests ''http://localhost/api/v1/'' contentType body = map (described_request contentType body) api_operations"
    by (simp add: client_requests_def api_operations_def described_request_def request_builders body_request_def plain_request_url)
  ultimately show ?thesis by simp
qed

end
