(* ===== verification/ApiTypes.thy ===== *)
theory ApiTypes
  imports ChClient
begin

text \<open>
  The types of \<^verbatim>\<open>vmruntime/internal/chclient/cloud-hypervisor.swagger.yaml\<close>: for each schema of the
  description the keys with their types, whether a key is required, the formats, minima and
  enumerations; when a JSON value conforms to a schema; and that what the codecs of the generated
  structs write conforms, up to minima and enumerations, which the Go types do not know.
\<close>

section \<open>Schemas\<close>

text \<open>\<open>SInt\<close>: the range of the format and the minimum; \<open>SObj\<close>: the keys, whether they are required, their schemas.\<close>

datatype schema =
    SAny
  | SBool
  | SStr
  | SEnum "string list"
  | SInt "(int \<times> int) option" "int option"
  | SArr schema
  | SMap schema
  | SObj "(string \<times> bool \<times> schema) list"

text \<open>The ranges of the formats.\<close>

definition i8 :: "(int \<times> int) option" where "i8 = Some (- (2 ^ 7), 2 ^ 7)"
definition u8 :: "(int \<times> int) option" where "u8 = Some (0, 2 ^ 8)"
definition i16 :: "(int \<times> int) option" where "i16 = Some (- (2 ^ 15), 2 ^ 15)"
definition i32 :: "(int \<times> int) option" where "i32 = Some (- (2 ^ 31), 2 ^ 31)"
definition i64 :: "(int \<times> int) option" where "i64 = Some (- (2 ^ 63), 2 ^ 63)"

lemmas formats = i8_def u8_def i16_def i32_def i64_def

text \<open>With \<open>strict\<close> the minima and enumerations count.\<close>

fun conforms :: "bool \<Rightarrow> schema \<Rightarrow> json \<Rightarrow> bool" and conforms_keys :: "bool \<Rightarrow> (string \<times> bool \<times> schema) list \<Rightarrow> (string \<times> json) list \<Rightarrow> bool" where
  "conforms strict SAny j = True"
| "conforms strict SBool j = (case j of JBool _ \<Rightarrow> True | _ \<Rightarrow> False)"
| "conforms strict SStr j = (case j of JStr _ \<Rightarrow> True | _ \<Rightarrow> False)"
| "conforms strict (SEnum es) j = (case j of JStr t \<Rightarrow> strict \<longrightarrow> t \<in> set es | _ \<Rightarrow> False)"
| "conforms strict (SInt format minimum) j = (case j of
     JNum n \<Rightarrow> pred_option (\<lambda>(a, b). a \<le> n \<and> n < b) format \<and> (strict \<longrightarrow> pred_option (\<lambda>m. m \<le> n) minimum)
   | _ \<Rightarrow> False)"
| "conforms strict (SArr s) j = (case j of JArr js \<Rightarrow> list_all (conforms strict s) js | _ \<Rightarrow> False)"
| "conforms strict (SMap s) j = (case j of JObj kvs \<Rightarrow> list_all (\<lambda>(k, j). conforms strict s j) kvs | _ \<Rightarrow> False)"
| "conforms strict (SObj ps) j = (case j of JObj kvs \<Rightarrow> distinct (map fst kvs) \<and> conforms_keys strict ps kvs | _ \<Rightarrow> False)"
| "conforms_keys strict [] kvs = True"
| "conforms_keys strict ((k, req, s) # ps) kvs \<longleftrightarrow>
     (case map_of kvs k of None \<Rightarrow> \<not> req | Some j \<Rightarrow> conforms strict s j) \<and> conforms_keys strict ps kvs"

text \<open>A value of a codec is written as a value of a schema.\<close>

definition has :: "bool \<Rightarrow> 'a codec \<Rightarrow> schema \<Rightarrow> 'a \<Rightarrow> bool" where
  "has strict c s x \<longleftrightarrow> (\<exists>j. enc_json c x = Ok j \<and> conforms strict s j)"

definition field_has :: "bool \<Rightarrow> 'r field \<Rightarrow> bool \<Rightarrow> schema \<Rightarrow> 'r \<Rightarrow> bool" where
  "field_has strict f req s x \<longleftrightarrow> (\<exists>v. fdEnc f x = Ok v \<and> (case v of None \<Rightarrow> \<not> req | Some j \<Rightarrow> conforms strict s j))"

named_theorems has

lemma has_string [has]: "has False json_string SStr x" "has False json_string (SEnum es) x" "has strict json_string SStr x"
  by (simp_all add: has_def json_string_def)

lemma has_enum [has]: "utf8 x \<Longrightarrow> x \<in> set es \<Longrightarrow> has strict json_string (SEnum es) x"
  by (simp add: has_def json_string_def utf8_def)

lemma has_bool [has]: "has strict json_bool SBool x"
  by (simp add: has_def json_bool_def)

lemma has_any [has]: "has strict json_any SAny x"
  by (simp add: has_def json_any_def)

lemma has_int [has]:
  "has False (json_int :: 8 word codec) (SInt i8 m) x8" "has False (json_int :: 16 word codec) (SInt i16 m) x16"
  "has False (json_int :: 32 word codec) (SInt i32 m) x32" "has False (json_int :: 64 word codec) (SInt i64 m) x64"
  "has False (json_int :: 64 word codec) (SInt None m) x64" "has False (json_uint :: 8 word codec) (SInt u8 m) x8"
  using sint_greater_eq [of x8] sint_less [of x8] sint_greater_eq [of x16] sint_less [of x16]
    sint_greater_eq [of x32] sint_less [of x32] sint_greater_eq [of x64] sint_less [of x64] uint_lt2p [of x8]
  by (simp_all add: formats has_def json_int_def json_uint_def)

lemma has_strict_int [has]:
  "pred_option (\<lambda>m. m \<le> sint x) m \<Longrightarrow> has strict (json_int :: 64 word codec) (SInt None m) x"
  "pred_option (\<lambda>m. m \<le> sint x) m \<Longrightarrow> has strict (json_int :: 64 word codec) (SInt i64 m) x"
  using sint_greater_eq [of x] sint_less [of x] by (simp_all add: formats has_def json_int_def)

lemma enc_json_list: "enc_json (json_list c) xs = res_map JArr (res_list (enc_json c) xs)"
  by (simp add: json_list_def json_via_def json_slice_def)

lemma has_list [has]: "list_all (has strict c s) xs \<Longrightarrow> has strict (json_list c) (SArr s) xs"
proof -
  assume "list_all (has strict c s) xs"
  then have "\<forall>x \<in> set xs. \<exists>j. enc_json c x = Ok j \<and> conforms strict s j" by (simp add: list_all_iff has_def)
  then obtain j where "\<forall>x \<in> set xs. enc_json c x = Ok (j x) \<and> conforms strict s (j x)" by metis
  moreover from this have "res_list (enc_json c) xs = Ok (map j xs)" by (simp add: res_list_Ok list_all2_conv_all_nth)
  ultimately show ?thesis by (simp add: has_def enc_json_list list_all_iff)
qed

lemma has_dict [has]: "(\<And>x. has strict c s x) \<Longrightarrow> has strict (json_dict c) (SMap s) m"
proof -
  assume "\<And>x. has strict c s x"
  then have "\<forall>x. \<exists>j. enc_json c x = Ok j \<and> conforms strict s j" by (simp add: has_def)
  then obtain j where j: "\<And>x. enc_json c x = Ok (j x)" "\<And>x. conforms strict s (j x)" by metis
  let ?ks = "sorted_list_of_set (dom m)"
  have "res_list (\<lambda>k. res_map (Pair (utf8_coerce k)) (enc_json c (the (m k)))) ?ks = Ok (map (\<lambda>k. (utf8_coerce k, j (the (m k)))) ?ks)"
    by (simp add: res_list_Ok list_all2_conv_all_nth j(1))
  then show ?thesis by (simp add: has_def json_dict_def json_via_def json_map_def list_all_iff j(2))
qed

lemma field_has_field [has]: "has strict c s (get x) \<Longrightarrow> field_has strict (field n get upd c) req s x"
  by (auto simp: has_def field_has_def field_def)

lemma field_has_optional [has]: "pred_option (has strict c s) (get x) \<Longrightarrow> field_has strict (optional n get upd c) False s x"
  by (cases "get x") (auto simp: has_def field_has_def optional_def)

lemma conforms_keys_skip:
  "k \<notin> fst ` set ps \<Longrightarrow> conforms_keys strict ps ((k, j) # kvs) = conforms_keys strict ps kvs"
  by (induction ps) auto

lemma fields_have:
  assumes "list_all2 (\<lambda>f (k, req, s). fdName f = k \<and> field_has strict f req s x) fs ps" "distinct (map fst ps)"
  shows "\<exists>kvs. enc_fields fs x = Ok kvs \<and> fst ` set kvs \<subseteq> fst ` set ps \<and> distinct (map fst kvs) \<and> conforms_keys strict ps kvs"
  using assms
proof (induction fs ps rule: list_all2_induct)
  case (Cons f fs p ps)
  obtain k req s where p: "p = (k, req, s)" by (cases p)
  from Cons obtain kvs where kvs: "enc_fields fs x = Ok kvs" "fst ` set kvs \<subseteq> fst ` set ps" "distinct (map fst kvs)" "conforms_keys strict ps kvs"
    by auto
  from Cons.hyps p obtain v where v: "fdEnc f x = Ok v" "case v of None \<Rightarrow> \<not> req | Some j \<Rightarrow> conforms strict s j" and k: "fdName f = k"
    by (auto simp: field_has_def)
  have fresh: "k \<notin> fst ` set ps" using Cons.prems p by auto
  then have none: "map_of kvs k = None" using kvs(2) by (auto simp: map_of_eq_None_iff)
  show ?case
  proof (cases v)
    case None
    with v kvs none p fresh show ?thesis by (auto simp: subset_iff)
  next
    case (Some j)
    with v kvs none p fresh k conforms_keys_skip [OF fresh, of strict j kvs] show ?thesis by (force simp: subset_iff)
  qed
qed simp

lemma struct_has:
  assumes "list_all2 (\<lambda>f (k, req, s). fdName f = k \<and> field_has strict f req s x) fs ps" "distinct (map fst ps)"
  shows "has strict (json_struct fs z) (SObj ps) x"
  using fields_have [OF assms] by (auto simp: has_def json_struct_def)

lemma pred_option_all [has]: "(\<And>x. P x) \<Longrightarrow> pred_option P y"
  by (cases y) simp_all

lemma list_all_all [has]: "(\<And>x. P x) \<Longrightarrow> list_all P xs"
  by (simp add: list_all_iff)

section \<open>The schemas of the description\<close>

definition BalloonConfig_schema :: schema where
  "BalloonConfig_schema = SObj
    [(''deflate_on_oom'', False, SBool),
     (''free_page_reporting'', False, SBool),
     (''size'', True, SInt i64 None)]"

lemma has_BalloonConfig [has]: "has False json_BalloonConfig BalloonConfig_schema x"
  unfolding json_BalloonConfig_def BalloonConfig_schema_def BalloonConfig_fields_def by (rule struct_has) (simp_all add: has)

definition ConsoleConfig_schema :: schema where
  "ConsoleConfig_schema = SObj
    [(''file'', False, SStr),
     (''iommu'', False, SBool),
     (''mode'', True, SEnum [''Off'', ''Pty'', ''Tty'', ''File'', ''Socket'', ''Null'']),
     (''socket'', False, SStr)]"

lemma has_ConsoleConfig [has]: "has False json_ConsoleConfig ConsoleConfig_schema x"
  unfolding json_ConsoleConfig_def ConsoleConfig_schema_def ConsoleConfig_fields_def by (rule struct_has) (simp_all add: has)

definition CpuAffinity_schema :: schema where
  "CpuAffinity_schema = SObj
    [(''host_cpus'', True, SArr (SInt None None)),
     (''vcpu'', True, SInt None None)]"

lemma has_CpuAffinity [has]: "has False json_CpuAffinity CpuAffinity_schema x"
  unfolding json_CpuAffinity_def CpuAffinity_schema_def CpuAffinity_fields_def by (rule struct_has) (simp_all add: has)

definition CpuFeatures_schema :: schema where
  "CpuFeatures_schema = SObj
    [(''amx'', False, SBool)]"

lemma has_CpuFeatures [has]: "has False json_CpuFeatures CpuFeatures_schema x"
  unfolding json_CpuFeatures_def CpuFeatures_schema_def CpuFeatures_fields_def by (rule struct_has) (simp_all add: has)

definition CpuTopology_schema :: schema where
  "CpuTopology_schema = SObj
    [(''cores_per_die'', False, SInt None None),
     (''dies_per_package'', False, SInt None None),
     (''packages'', False, SInt None None),
     (''threads_per_core'', False, SInt None None)]"

lemma has_CpuTopology [has]: "has False json_CpuTopology CpuTopology_schema x"
  unfolding json_CpuTopology_def CpuTopology_schema_def CpuTopology_fields_def by (rule struct_has) (simp_all add: has)

definition CpusConfig_schema :: schema where
  "CpusConfig_schema = SObj
    [(''affinity'', False, SArr (CpuAffinity_schema)),
     (''boot_vcpus'', True, SInt None (Some 1)),
     (''features'', False, CpuFeatures_schema),
     (''kvm_hyperv'', False, SBool),
     (''max_phys_bits'', False, SInt None None),
     (''max_vcpus'', True, SInt None (Some 1)),
     (''topology'', False, CpuTopology_schema)]"

lemma has_CpusConfig [has]: "has False json_CpusConfig CpusConfig_schema x"
  unfolding json_CpusConfig_def CpusConfig_schema_def CpusConfig_fields_def by (rule struct_has) (simp_all add: has)

definition DebugConsoleConfig_schema :: schema where
  "DebugConsoleConfig_schema = SObj
    [(''file'', False, SStr),
     (''iobase'', False, SInt None None),
     (''mode'', True, SEnum [''Off'', ''Pty'', ''Tty'', ''File'', ''Null''])]"

lemma has_DebugConsoleConfig [has]: "has False json_DebugConsoleConfig DebugConsoleConfig_schema x"
  unfolding json_DebugConsoleConfig_def DebugConsoleConfig_schema_def DebugConsoleConfig_fields_def by (rule struct_has) (simp_all add: has)

definition DeviceConfig_schema :: schema where
  "DeviceConfig_schema = SObj
    [(''id'', False, SStr),
     (''iommu'', False, SBool),
     (''path'', True, SStr),
     (''pci_segment'', False, SInt i16 None),
     (''x_nv_gpudirect_clique'', False, SInt i8 None)]"

lemma has_DeviceConfig [has]: "has False json_DeviceConfig DeviceConfig_schema x"
  unfolding json_DeviceConfig_def DeviceConfig_schema_def DeviceConfig_fields_def by (rule struct_has) (simp_all add: has)

definition DeviceNode_schema :: schema where
  "DeviceNode_schema = SObj
    [(''children'', False, SArr (SStr)),
     (''id'', False, SStr),
     (''pci_bdf'', False, SStr),
     (''resources'', False, SArr (SMap SAny))]"

lemma has_DeviceNode [has]: "has False json_DeviceNode DeviceNode_schema x"
  unfolding json_DeviceNode_def DeviceNode_schema_def DeviceNode_fields_def by (rule struct_has) (simp_all add: has)

definition VirtQueueAffinity_schema :: schema where
  "VirtQueueAffinity_schema = SObj
    [(''host_cpus'', True, SArr (SInt None None)),
     (''queue_index'', True, SInt None None)]"

lemma has_VirtQueueAffinity [has]: "has False json_VirtQueueAffinity VirtQueueAffinity_schema x"
  unfolding json_VirtQueueAffinity_def VirtQueueAffinity_schema_def VirtQueueAffinity_fields_def by (rule struct_has) (simp_all add: has)

definition TokenBucket_schema :: schema where
  "TokenBucket_schema = SObj
    [(''one_time_burst'', False, SInt i64 (Some 0)),
     (''refill_time'', True, SInt i64 (Some 0)),
     (''size'', True, SInt i64 (Some 0))]"

lemma has_TokenBucket [has]: "has False json_TokenBucket TokenBucket_schema x"
  unfolding json_TokenBucket_def TokenBucket_schema_def TokenBucket_fields_def by (rule struct_has) (simp_all add: has)

definition RateLimiterConfig_schema :: schema where
  "RateLimiterConfig_schema = SObj
    [(''bandwidth'', False, TokenBucket_schema),
     (''ops'', False, TokenBucket_schema)]"

lemma has_RateLimiterConfig [has]: "has False json_RateLimiterConfig RateLimiterConfig_schema x"
  unfolding json_RateLimiterConfig_def RateLimiterConfig_schema_def RateLimiterConfig_fields_def by (rule struct_has) (simp_all add: has)

definition DiskConfig_schema :: schema where
  "DiskConfig_schema = SObj
    [(''direct'', False, SBool),
     (''id'', False, SStr),
     (''iommu'', False, SBool),
     (''num_queues'', False, SInt None None),
     (''path'', True, SStr),
     (''pci_segment'', False, SInt i16 None),
     (''queue_affinity'', False, SArr (VirtQueueAffinity_schema)),
     (''queue_size'', False, SInt None None),
     (''rate_limit_group'', False, SStr),
     (''rate_limiter_config'', False, RateLimiterConfig_schema),
     (''readonly'', False, SBool),
     (''serial'', False, SStr),
     (''vhost_socket'', False, SStr),
     (''vhost_user'', False, SBool)]"

lemma has_DiskConfig [has]: "has False json_DiskConfig DiskConfig_schema x"
  unfolding json_DiskConfig_def DiskConfig_schema_def DiskConfig_fields_def by (rule struct_has) (simp_all add: has)

definition FsConfig_schema :: schema where
  "FsConfig_schema = SObj
    [(''id'', False, SStr),
     (''num_queues'', True, SInt None None),
     (''pci_segment'', False, SInt i16 None),
     (''queue_size'', True, SInt None None),
     (''socket'', True, SStr),
     (''tag'', True, SStr)]"

lemma has_FsConfig [has]: "has False json_FsConfig FsConfig_schema x"
  unfolding json_FsConfig_def FsConfig_schema_def FsConfig_fields_def by (rule struct_has) (simp_all add: has)

definition LandlockConfig_schema :: schema where
  "LandlockConfig_schema = SObj
    [(''access'', True, SStr),
     (''path'', True, SStr)]"

lemma has_LandlockConfig [has]: "has False json_LandlockConfig LandlockConfig_schema x"
  unfolding json_LandlockConfig_def LandlockConfig_schema_def LandlockConfig_fields_def by (rule struct_has) (simp_all add: has)

definition MemoryZoneConfig_schema :: schema where
  "MemoryZoneConfig_schema = SObj
    [(''file'', False, SStr),
     (''host_numa_node'', False, SInt i32 None),
     (''hotplug_size'', False, SInt i64 None),
     (''hotplugged_size'', False, SInt i64 None),
     (''hugepage_size'', False, SInt i64 None),
     (''hugepages'', False, SBool),
     (''id'', True, SStr),
     (''mergeable'', False, SBool),
     (''prefault'', False, SBool),
     (''shared'', False, SBool),
     (''size'', True, SInt i64 None)]"

lemma has_MemoryZoneConfig [has]: "has False json_MemoryZoneConfig MemoryZoneConfig_schema x"
  unfolding json_MemoryZoneConfig_def MemoryZoneConfig_schema_def MemoryZoneConfig_fields_def by (rule struct_has) (simp_all add: has)

definition MemoryConfig_schema :: schema where
  "MemoryConfig_schema = SObj
    [(''hotplug_method'', False, SStr),
     (''hotplug_size'', False, SInt i64 None),
     (''hotplugged_size'', False, SInt i64 None),
     (''hugepage_size'', False, SInt i64 None),
     (''hugepages'', False, SBool),
     (''mergeable'', False, SBool),
     (''prefault'', False, SBool),
     (''shared'', False, SBool),
     (''size'', True, SInt i64 None),
     (''thp'', False, SBool),
     (''zones'', False, SArr (MemoryZoneConfig_schema))]"

lemma has_MemoryConfig [has]: "has False json_MemoryConfig MemoryConfig_schema x"
  unfolding json_MemoryConfig_def MemoryConfig_schema_def MemoryConfig_fields_def by (rule struct_has) (simp_all add: has)

definition NetConfig_schema :: schema where
  "NetConfig_schema = SObj
    [(''host_mac'', False, SStr),
     (''id'', False, SStr),
     (''iommu'', False, SBool),
     (''ip'', False, SStr),
     (''mac'', False, SStr),
     (''mask'', False, SStr),
     (''mtu'', False, SInt None None),
     (''num_queues'', False, SInt None None),
     (''pci_segment'', False, SInt i16 None),
     (''queue_size'', False, SInt None None),
     (''rate_limiter_config'', False, RateLimiterConfig_schema),
     (''tap'', False, SStr),
     (''vhost_mode'', False, SStr),
     (''vhost_socket'', False, SStr),
     (''vhost_user'', False, SBool)]"

lemma has_NetConfig [has]: "has False json_NetConfig NetConfig_schema x"
  unfolding json_NetConfig_def NetConfig_schema_def NetConfig_fields_def by (rule struct_has) (simp_all add: has)

definition NumaDistance_schema :: schema where
  "NumaDistance_schema = SObj
    [(''destination'', True, SInt i32 None),
     (''distance'', True, SInt i32 None)]"

lemma has_NumaDistance [has]: "has False json_NumaDistance NumaDistance_schema x"
  unfolding json_NumaDistance_def NumaDistance_schema_def NumaDistance_fields_def by (rule struct_has) (simp_all add: has)

definition NumaConfig_schema :: schema where
  "NumaConfig_schema = SObj
    [(''cpus'', False, SArr (SInt i32 None)),
     (''distances'', False, SArr (NumaDistance_schema)),
     (''guest_numa_id'', True, SInt i32 None),
     (''memory_zones'', False, SArr (SStr)),
     (''pci_segments'', False, SArr (SInt i32 None)),
     (''sgx_epc_sections'', False, SArr (SStr))]"

lemma has_NumaConfig [has]: "has False json_NumaConfig NumaConfig_schema x"
  unfolding json_NumaConfig_def NumaConfig_schema_def NumaConfig_fields_def by (rule struct_has) (simp_all add: has)

definition PayloadConfig_schema :: schema where
  "PayloadConfig_schema = SObj
    [(''cmdline'', False, SStr),
     (''firmware'', False, SStr),
     (''host_data'', False, SStr),
     (''igvm'', False, SStr),
     (''initramfs'', False, SStr),
     (''kernel'', False, SStr)]"

lemma has_PayloadConfig [has]: "has False json_PayloadConfig PayloadConfig_schema x"
  unfolding json_PayloadConfig_def PayloadConfig_schema_def PayloadConfig_fields_def by (rule struct_has) (simp_all add: has)

definition PciDeviceInfo_schema :: schema where
  "PciDeviceInfo_schema = SObj
    [(''bdf'', True, SStr),
     (''id'', True, SStr)]"

lemma has_PciDeviceInfo [has]: "has False json_PciDeviceInfo PciDeviceInfo_schema x"
  unfolding json_PciDeviceInfo_def PciDeviceInfo_schema_def PciDeviceInfo_fields_def by (rule struct_has) (simp_all add: has)

definition PciSegmentConfig_schema :: schema where
  "PciSegmentConfig_schema = SObj
    [(''mmio32_aperture_weight'', False, SInt i32 None),
     (''mmio64_aperture_weight'', False, SInt i32 None),
     (''pci_segment'', True, SInt i16 None)]"

lemma has_PciSegmentConfig [has]: "has False json_PciSegmentConfig PciSegmentConfig_schema x"
  unfolding json_PciSegmentConfig_def PciSegmentConfig_schema_def PciSegmentConfig_fields_def by (rule struct_has) (simp_all add: has)

definition PlatformConfig_schema :: schema where
  "PlatformConfig_schema = SObj
    [(''iommu_address_width'', False, SInt u8 None),
     (''iommu_segments'', False, SArr (SInt i16 None)),
     (''num_pci_segments'', False, SInt i16 None),
     (''oem_strings'', False, SArr (SStr)),
     (''serial_number'', False, SStr),
     (''sev_snp'', False, SBool),
     (''tdx'', False, SBool),
     (''uuid'', False, SStr)]"

lemma has_PlatformConfig [has]: "has False json_PlatformConfig PlatformConfig_schema x"
  unfolding json_PlatformConfig_def PlatformConfig_schema_def PlatformConfig_fields_def by (rule struct_has) (simp_all add: has)

definition PmemConfig_schema :: schema where
  "PmemConfig_schema = SObj
    [(''discard_writes'', False, SBool),
     (''file'', True, SStr),
     (''id'', False, SStr),
     (''iommu'', False, SBool),
     (''pci_segment'', False, SInt i16 None),
     (''size'', False, SInt i64 None)]"

lemma has_PmemConfig [has]: "has False json_PmemConfig PmemConfig_schema x"
  unfolding json_PmemConfig_def PmemConfig_schema_def PmemConfig_fields_def by (rule struct_has) (simp_all add: has)

definition RateLimitGroupConfig_schema :: schema where
  "RateLimitGroupConfig_schema = SObj
    [(''id'', True, SStr),
     (''rate_limiter_config'', True, RateLimiterConfig_schema)]"

lemma has_RateLimitGroupConfig [has]: "has False json_RateLimitGroupConfig RateLimitGroupConfig_schema x"
  unfolding json_RateLimitGroupConfig_def RateLimitGroupConfig_schema_def RateLimitGroupConfig_fields_def by (rule struct_has) (simp_all add: has)

definition ReceiveMigrationData_schema :: schema where
  "ReceiveMigrationData_schema = SObj
    [(''receiver_url'', True, SStr)]"

lemma has_ReceiveMigrationData [has]: "has False json_ReceiveMigrationData ReceiveMigrationData_schema x"
  unfolding json_ReceiveMigrationData_def ReceiveMigrationData_schema_def ReceiveMigrationData_fields_def by (rule struct_has) (simp_all add: has)

definition RestoreConfig_schema :: schema where
  "RestoreConfig_schema = SObj
    [(''prefault'', False, SBool),
     (''source_url'', True, SStr)]"

lemma has_RestoreConfig [has]: "has False json_RestoreConfig RestoreConfig_schema x"
  unfolding json_RestoreConfig_def RestoreConfig_schema_def RestoreConfig_fields_def by (rule struct_has) (simp_all add: has)

definition RngConfig_schema :: schema where
  "RngConfig_schema = SObj
    [(''iommu'', False, SBool),
     (''src'', True, SStr)]"

lemma has_RngConfig [has]: "has False json_RngConfig RngConfig_schema x"
  unfolding json_RngConfig_def RngConfig_schema_def RngConfig_fields_def by (rule struct_has) (simp_all add: has)

definition SendMigrationData_schema :: schema where
  "SendMigrationData_schema = SObj
    [(''destination_url'', True, SStr),
     (''local'', False, SBool)]"

lemma has_SendMigrationData [has]: "has False json_SendMigrationData SendMigrationData_schema x"
  unfolding json_SendMigrationData_def SendMigrationData_schema_def SendMigrationData_fields_def by (rule struct_has) (simp_all add: has)

definition SgxEpcConfig_schema :: schema where
  "SgxEpcConfig_schema = SObj
    [(''id'', True, SStr),
     (''prefault'', False, SBool),
     (''size'', True, SInt i64 None)]"

lemma has_SgxEpcConfig [has]: "has False json_SgxEpcConfig SgxEpcConfig_schema x"
  unfolding json_SgxEpcConfig_def SgxEpcConfig_schema_def SgxEpcConfig_fields_def by (rule struct_has) (simp_all add: has)

definition TpmConfig_schema :: schema where
  "TpmConfig_schema = SObj
    [(''socket'', True, SStr)]"

lemma has_TpmConfig [has]: "has False json_TpmConfig TpmConfig_schema x"
  unfolding json_TpmConfig_def TpmConfig_schema_def TpmConfig_fields_def by (rule struct_has) (simp_all add: has)

definition VdpaConfig_schema :: schema where
  "VdpaConfig_schema = SObj
    [(''id'', False, SStr),
     (''iommu'', False, SBool),
     (''num_queues'', True, SInt None None),
     (''path'', True, SStr),
     (''pci_segment'', False, SInt i16 None)]"

lemma has_VdpaConfig [has]: "has False json_VdpaConfig VdpaConfig_schema x"
  unfolding json_VdpaConfig_def VdpaConfig_schema_def VdpaConfig_fields_def by (rule struct_has) (simp_all add: has)

definition VmAddUserDevice_schema :: schema where
  "VmAddUserDevice_schema = SObj
    [(''socket'', True, SStr)]"

lemma has_VmAddUserDevice [has]: "has False json_VmAddUserDevice VmAddUserDevice_schema x"
  unfolding json_VmAddUserDevice_def VmAddUserDevice_schema_def VmAddUserDevice_fields_def by (rule struct_has) (simp_all add: has)

definition VsockConfig_schema :: schema where
  "VsockConfig_schema = SObj
    [(''cid'', True, SInt i64 (Some 3)),
     (''id'', False, SStr),
     (''iommu'', False, SBool),
     (''pci_segment'', False, SInt i16 None),
     (''socket'', True, SStr)]"

lemma has_VsockConfig [has]: "has False json_VsockConfig VsockConfig_schema x"
  unfolding json_VsockConfig_def VsockConfig_schema_def VsockConfig_fields_def by (rule struct_has) (simp_all add: has)

definition VmConfig_schema :: schema where
  "VmConfig_schema = SObj
    [(''balloon'', False, BalloonConfig_schema),
     (''console'', False, ConsoleConfig_schema),
     (''cpus'', False, CpusConfig_schema),
     (''debug_console'', False, DebugConsoleConfig_schema),
     (''devices'', False, SArr (DeviceConfig_schema)),
     (''disks'', False, SArr (DiskConfig_schema)),
     (''fs'', False, SArr (FsConfig_schema)),
     (''iommu'', False, SBool),
     (''landlock_enable'', False, SBool),
     (''landlock_rules'', False, SArr (LandlockConfig_schema)),
     (''memory'', False, MemoryConfig_schema),
     (''net'', False, SArr (NetConfig_schema)),
     (''numa'', False, SArr (NumaConfig_schema)),
     (''payload'', True, PayloadConfig_schema),
     (''pci_segments'', False, SArr (PciSegmentConfig_schema)),
     (''platform'', False, PlatformConfig_schema),
     (''pmem'', False, SArr (PmemConfig_schema)),
     (''pvpanic'', False, SBool),
     (''rate_limit_groups'', False, SArr (RateLimitGroupConfig_schema)),
     (''rng'', False, RngConfig_schema),
     (''serial'', False, ConsoleConfig_schema),
     (''sgx_epc'', False, SArr (SgxEpcConfig_schema)),
     (''tpm'', False, TpmConfig_schema),
     (''vdpa'', False, SArr (VdpaConfig_schema)),
     (''vsock'', False, VsockConfig_schema),
     (''watchdog'', False, SBool)]"

lemma has_VmConfig [has]: "has False json_VmConfig VmConfig_schema x"
  unfolding json_VmConfig_def VmConfig_schema_def VmConfig_fields_def by (rule struct_has) (simp_all add: has)

definition VmCoredumpData_schema :: schema where
  "VmCoredumpData_schema = SObj
    [(''destination_url'', False, SStr)]"

lemma has_VmCoredumpData [has]: "has False json_VmCoredumpData VmCoredumpData_schema x"
  unfolding json_VmCoredumpData_def VmCoredumpData_schema_def VmCoredumpData_fields_def by (rule struct_has) (simp_all add: has)

definition VmInfo_schema :: schema where
  "VmInfo_schema = SObj
    [(''config'', True, VmConfig_schema),
     (''device_tree'', False, SMap (DeviceNode_schema)),
     (''memory_actual_size'', False, SInt i64 None),
     (''state'', True, SEnum [''Created'', ''Running'', ''Shutdown'', ''Paused''])]"

lemma has_VmInfo [has]: "has False json_VmInfo VmInfo_schema x"
  unfolding json_VmInfo_def VmInfo_schema_def VmInfo_fields_def by (rule struct_has) (simp_all add: has)

definition VmRemoveDevice_schema :: schema where
  "VmRemoveDevice_schema = SObj
    [(''id'', False, SStr)]"

lemma has_VmRemoveDevice [has]: "has False json_VmRemoveDevice VmRemoveDevice_schema x"
  unfolding json_VmRemoveDevice_def VmRemoveDevice_schema_def VmRemoveDevice_fields_def by (rule struct_has) (simp_all add: has)

definition VmResize_schema :: schema where
  "VmResize_schema = SObj
    [(''desired_balloon'', False, SInt i64 None),
     (''desired_ram'', False, SInt i64 None),
     (''desired_vcpus'', False, SInt None (Some 1))]"

lemma has_VmResize [has]: "has False json_VmResize VmResize_schema x"
  unfolding json_VmResize_def VmResize_schema_def VmResize_fields_def by (rule struct_has) (simp_all add: has)

definition VmResizeZone_schema :: schema where
  "VmResizeZone_schema = SObj
    [(''desired_ram'', False, SInt i64 None),
     (''id'', False, SStr)]"

lemma has_VmResizeZone [has]: "has False json_VmResizeZone VmResizeZone_schema x"
  unfolding json_VmResizeZone_def VmResizeZone_schema_def VmResizeZone_fields_def by (rule struct_has) (simp_all add: has)

definition VmSnapshotConfig_schema :: schema where
  "VmSnapshotConfig_schema = SObj
    [(''destination_url'', False, SStr)]"

lemma has_VmSnapshotConfig [has]: "has False json_VmSnapshotConfig VmSnapshotConfig_schema x"
  unfolding json_VmSnapshotConfig_def VmSnapshotConfig_schema_def VmSnapshotConfig_fields_def by (rule struct_has) (simp_all add: has)

definition VmmPingResponse_schema :: schema where
  "VmmPingResponse_schema = SObj
    [(''build_version'', False, SStr),
     (''features'', False, SArr (SStr)),
     (''pid'', False, SInt i64 None),
     (''version'', True, SStr)]"

lemma has_VmmPingResponse [has]: "has False json_VmmPingResponse VmmPingResponse_schema x"
  unfolding json_VmmPingResponse_def VmmPingResponse_schema_def VmmPingResponse_fields_def by (rule struct_has) (simp_all add: has)

section \<open>The bodies of the requests\<close>

definition typed_body :: "schema \<Rightarrow> string \<Rightarrow> http_request res \<Rightarrow> bool" where
  "typed_body s path r \<longleftrightarrow> (\<exists>j. r = Ok \<lparr>rqMethod = ''PUT'', rqURL = ''http://localhost/api/v1'' @ path,
     rqHeader = [(''Content-Type'', ''application/json'')], rqBody = JsonBody j\<rparr> \<and> conforms False s j)"

lemma typed_json_request:
  assumes "has False c s b" "CHR ''/'' \<notin> set p" "p \<noteq> ''.''" "p \<noteq> ''..''"
  shows "typed_body s (CHR ''/'' # p) (json_request c b (body_request ''PUT'' (CHR ''/'' # p) ''http://localhost/api/v1/''))"
  using assms by (auto simp: has_def typed_body_def json_request_def body_request_def plain_request_url)


end
