(* ===== verification/HypervisorCalls.thy ===== *)
theory HypervisorCalls
  imports ApiTypes VmRuntime
begin

text \<open>
  The runtime's calls to the hypervisor as requests of the generated client: the environment of
  \<open>VmRuntime\<close> with the answers that a hypervisor gives on its socket.
\<close>

section \<open>The description of a machine\<close>

text \<open>The literal in \<^verbatim>\<open>createVM\<close>, field by field; what it does not name is left out.\<close>

fun console_mode_string :: "console_mode \<Rightarrow> string" where
  "console_mode_string ConsoleConfigModeNull = ''Null''"
| "console_mode_string ConsoleConfigModeSocket = ''Socket''"

definition DiskConfig_of :: "disk_config \<Rightarrow> DiskConfig" where
  "DiskConfig_of d = zero_DiskConfig\<lparr>DiskConfig_Path := dkPath d, DiskConfig_Readonly := Some (dkReadonly d),
     DiskConfig_Direct := Some (dkDirect d), DiskConfig_NumQueues := Some (word_of_int (dkNumQueues d)),
     DiskConfig_QueueSize := Some (word_of_int (dkQueueSize d))\<rparr>"

definition NetConfig_of :: "net_config \<Rightarrow> NetConfig" where
  "NetConfig_of n = zero_NetConfig\<lparr>NetConfig_Tap := Some (ncTap n), NetConfig_Mac := Some (ncMac n),
     NetConfig_NumQueues := Some (word_of_int (ncNumQueues n)), NetConfig_QueueSize := Some (word_of_int (ncQueueSize n))\<rparr>"

definition VmConfig_of :: "vm_spec \<Rightarrow> VmConfig" where
  "VmConfig_of sp = zero_VmConfig\<lparr>
     VmConfig_Cpus := Some (zero_CpusConfig\<lparr>CpusConfig_BootVcpus := word_of_int (vsBootVcpus sp), CpusConfig_MaxVcpus := word_of_int (vsMaxVcpus sp)\<rparr>),
     VmConfig_Memory := Some (zero_MemoryConfig\<lparr>MemoryConfig_Size := word_of_int (vsMemorySize sp)\<rparr>),
     VmConfig_Disks := Some (map DiskConfig_of (vsDisks sp)),
     VmConfig_Net := Some (map NetConfig_of (vsNet sp)),
     VmConfig_Vsock := Some (zero_VsockConfig\<lparr>VsockConfig_Cid := word_of_int (vsVsockCid sp), VsockConfig_Socket := vsVsockSocket sp\<rparr>),
     VmConfig_Console := Some (zero_ConsoleConfig\<lparr>ConsoleConfig_Mode := console_mode_string (vsConsole sp)\<rparr>),
     VmConfig_Serial := Some (zero_ConsoleConfig\<lparr>ConsoleConfig_Mode := console_mode_string (vsSerial sp), ConsoleConfig_Socket := Some (vsSerialSocket sp)\<rparr>),
     VmConfig_Payload := zero_PayloadConfig\<lparr>PayloadConfig_Kernel := Some (vsKernel sp), PayloadConfig_Initramfs := Some (vsInitramfs sp),
       PayloadConfig_Cmdline := Some (vsCmdline sp)\<rparr>,
     VmConfig_Rng := Some (zero_RngConfig\<lparr>RngConfig_Src := vsRngSrc sp\<rparr>)\<rparr>"

section \<open>The hypervisor behind its socket\<close>

text \<open>\<open>D\<close> answers a request after the calls made so far; the client is the one of \<^verbatim>\<open>runtime.New\<close>.\<close>

type_synonym hypervisor = "vm_call list \<Rightarrow> http_request \<Rightarrow> gerror + http_response"

definition socket_doer :: "hypervisor \<Rightarrow> vm_call list doer" where
  "socket_doer D req t = (case D t req of Inl e \<Rightarrow> Err e | Inr rsp \<Rightarrow> Ok rsp, t)"

definition vmm_client :: "hypervisor \<Rightarrow> vm_call list ch_client res" where
  "vmm_client D = NewClientWithResponses (\<lambda>req t. (Err (External ''connection refused''), t)) ''http://localhost/api/v1'' [WithHTTPClient (socket_doer D)]"

fun error_of :: "'a res \<Rightarrow> gerror option" where
  "error_of (Err e) = Some e"
| "error_of _ = None"

definition answer :: "hypervisor \<Rightarrow> (vm_call list, 'r) ch_call \<Rightarrow> vm_call list \<Rightarrow> 'r res" where
  "answer D m t = res_bind (vmm_client D) (\<lambda>c. fst (m c t))"

definition hypervisor_error :: "hypervisor \<Rightarrow> vm_call list \<Rightarrow> vm_call \<Rightarrow> gerror option" where
  "hypervisor_error D t c = (case c of
      GetVmmPing \<Rightarrow> error_of (answer D (GetVmmPingWithResponse []) t)
    | CreateVM sp \<Rightarrow> error_of (answer D (Client_CreateVM (VmConfig_of sp) []) t)
    | BootVM \<Rightarrow> error_of (answer D (BootVMWithResponse []) t)
    | ShutdownVM \<Rightarrow> error_of (answer D (ShutdownVMWithResponse []) t)
    | DeleteVM \<Rightarrow> error_of (answer D (Client_DeleteVM []) t)
    | ShutdownVMM \<Rightarrow> error_of (answer D (ShutdownVMMWithResponse []) t)
    | GetVmInfo \<Rightarrow> error_of (answer D (GetVmInfoWithResponse []) t)
    | _ \<Rightarrow> None)"

definition calls_hypervisor :: "vm_call \<Rightarrow> bool" where
  "calls_hypervisor c \<longleftrightarrow> (case c of GetVmmPing \<Rightarrow> True | CreateVM _ \<Rightarrow> True | BootVM \<Rightarrow> True | ShutdownVM \<Rightarrow> True | DeleteVM \<Rightarrow> True |
     ShutdownVMM \<Rightarrow> True | GetVmInfo \<Rightarrow> True | _ \<Rightarrow> False)"

definition status_of :: "'a ch_response res \<Rightarrow> nat" where
  "status_of r = (case r of Ok x \<Rightarrow> response_StatusCode x | _ \<Rightarrow> 0)"

definition body_text :: "(json \<Rightarrow> string) \<Rightarrow> http_body \<Rightarrow> string" where
  "body_text show_json b = (case b of NoBody \<Rightarrow> [] | TextBody t \<Rightarrow> t | JsonBody j \<Rightarrow> show_json j)"

text \<open>
  The environment of the runtime with this hypervisor; the status that is looked at is the one of the
  boot directly after the creation, and of the ping otherwise.
\<close>

definition hypervisor_env :: "(json \<Rightarrow> string) \<Rightarrow> hypervisor \<Rightarrow> vm_env \<Rightarrow> vm_env" where
  "hypervisor_env show_json D E = E\<lparr>
     env_err := \<lambda>t c. if calls_hypervisor c then hypervisor_error D t c else env_err E t c,
     ve_status := \<lambda>t. if t \<noteq> [] \<and> is_create (last t) then status_of (answer D (BootVMWithResponse []) t)
       else status_of (answer D (GetVmmPingWithResponse []) t),
     ve_body := \<lambda>t. (case answer D (BootVMWithResponse []) t of Ok x \<Rightarrow> body_text show_json (crBody x) | _ \<Rightarrow> []),
     ve_state := \<lambda>t. (case answer D (GetVmInfoWithResponse []) t of Ok x \<Rightarrow> map_option VmInfo_State (crJSON200 x) | _ \<Rightarrow> None)\<rparr>"

section \<open>What the hypervisor is asked\<close>

definition api_request :: "string \<Rightarrow> string \<Rightarrow> http_request" where
  "api_request m path = \<lparr>rqMethod = m, rqURL = ''http://localhost/api/v1/'' @ path, rqHeader = [], rqBody = NoBody\<rparr>"

lemma vmm_client_eq: "vmm_client D = Ok \<lparr>chServer = ''http://localhost/api/v1/'', chDoer = Some (socket_doer D), chRequestEditors = []\<rparr>"
  by (simp add: vmm_client_def NewClientWithResponses_def NewClient_def WithHTTPClient_def)

lemma send_request:
  "send (Ok req) [] \<lparr>chServer = srv, chDoer = Some (socket_doer D), chRequestEditors = []\<rparr> t =
    (case D t req of Inl e \<Rightarrow> Err e | Inr rsp \<Rightarrow> Ok rsp, t)"
  by (simp add: send_def applyEditors_def socket_doer_def)

lemma answer_info: "answer D (GetVmInfoWithResponse []) t =
    (case D t (api_request ''GET'' ''vm.info'') of Inl e \<Rightarrow> Err e | Inr rsp \<Rightarrow> ParseGetVmInfoResponse rsp)"
  by (simp add: answer_def vmm_client_eq GetVmInfoWithResponse_def with_response_def Client_GetVmInfo_def NewGetVmInfoRequest_def
      plain_request_url send_request api_request_def split: sum.splits)

definition create_request :: "json \<Rightarrow> http_request" where
  "create_request j = (api_request ''PUT'' ''vm.create'')\<lparr>rqHeader := [(''Content-Type'', ''application/json'')], rqBody := JsonBody j\<rparr>"

lemma answer_create:
  assumes "valid_VmConfig v"
  shows "\<exists>j. enc_json json_VmConfig v = Ok j \<and> dec_json json_VmConfig j zero_VmConfig = Ok v \<and>
    answer D (Client_CreateVM v []) t = (case D t (create_request j) of Inl e \<Rightarrow> Err e | Inr rsp \<Rightarrow> Ok rsp)"
proof -
  obtain j where j: "enc_json json_VmConfig v = Ok j" "dec_json json_VmConfig j zero_VmConfig = Ok v"
    using ch_VmConfig.arrives [OF assms] by (auto simp: transports_def)
  then have "answer D (Client_CreateVM v []) t = (case D t (create_request j) of Inl e \<Rightarrow> Err e | Inr rsp \<Rightarrow> Ok rsp)"
    by (simp add: answer_def vmm_client_eq Client_CreateVM_def NewCreateVMRequest_def json_request_def NewCreateVMRequestWithBody_def
        body_request_def plain_request_url send_request api_request_def create_request_def split: sum.splits)
  with j show ?thesis by blast
qed

text \<open>The texts of a description.\<close>

definition spec_texts :: "vm_spec \<Rightarrow> string list" where
  "spec_texts sp = map dkPath (vsDisks sp) @ concat (map (\<lambda>n. [ncTap n, ncMac n]) (vsNet sp)) @
     [vsVsockSocket sp, vsSerialSocket sp, vsKernel sp, vsInitramfs sp, vsCmdline sp, vsRngSrc sp]"

lemma valid_VmConfig_of:
  assumes "list_all utf8 (spec_texts sp)"
  shows "valid_VmConfig (VmConfig_of sp)"
proof -
  have "utf8 (console_mode_string m)" for m by (cases m) (simp_all add: utf8_ascii)
  moreover have "list_all valid_DiskConfig (map DiskConfig_of (vsDisks sp))" "list_all valid_NetConfig (map NetConfig_of (vsNet sp))"
    using assms by (auto simp: list_all_iff spec_texts_def valid_DiskConfig_def DiskConfig_of_def zero_DiskConfig_def
        valid_NetConfig_def NetConfig_of_def zero_NetConfig_def)
  ultimately show ?thesis
    using assms by (simp add: valid_VmConfig_def VmConfig_of_def zero_VmConfig_def spec_texts_def valid_ConsoleConfig_def
        valid_CpusConfig_def valid_MemoryConfig_def valid_VsockConfig_def valid_PayloadConfig_def valid_RngConfig_def
        zero_ConsoleConfig_def zero_CpusConfig_def zero_MemoryConfig_def zero_VsockConfig_def zero_PayloadConfig_def zero_RngConfig_def)
qed

text \<open>With at least one processor it satisfies the schema of the API, minima and enumerations included.\<close>

lemma sint_of_word: "sint (ucast (w :: 32 word) :: 64 word) = uint w"
proof -
  have w: "0 \<le> uint w" "uint w < 2 ^ 32" using uint_lt2p [of w] by simp_all
  moreover have "- 9223372036854775808 \<le> uint w" using w(1) by linarith
  ultimately have "signed_take_bit 63 (uint w) = uint w" by (intro signed_take_bit_int_eq_self) simp_all
  with w show ?thesis by (simp add: sint_uint unsigned_ucast_eq take_bit_int_eq_self)
qed

lemma vm_spec_simps [simp]:
  "vsBootVcpus (vm_spec_of r m) = uint (rtCpus (vcRuntime (vrConfig r)))" "vsMaxVcpus (vm_spec_of r m) = uint (rtCpus (vcRuntime (vrConfig r)))"
  "vsVsockCid (vm_spec_of r m) = 3"
  by (simp_all add: vm_spec_of_def Let_def)

lemma has_DiskConfig_of: "has True json_DiskConfig DiskConfig_schema (DiskConfig_of d)"
  unfolding json_DiskConfig_def DiskConfig_schema_def DiskConfig_fields_def
  by (rule struct_has) (simp_all add: has DiskConfig_of_def zero_DiskConfig_def)

lemma has_NetConfig_of: "has True json_NetConfig NetConfig_schema (NetConfig_of n)"
  unfolding json_NetConfig_def NetConfig_schema_def NetConfig_fields_def
  by (rule struct_has) (simp_all add: has NetConfig_of_def zero_NetConfig_def)

lemma has_cpus: "1 \<le> sint b \<Longrightarrow> 1 \<le> sint m \<Longrightarrow> has True json_CpusConfig CpusConfig_schema (zero_CpusConfig\<lparr>CpusConfig_BootVcpus := b, CpusConfig_MaxVcpus := m\<rparr>)"
  unfolding json_CpusConfig_def CpusConfig_schema_def CpusConfig_fields_def
  by (rule struct_has) (simp_all add: has zero_CpusConfig_def)

lemma has_memory: "has True json_MemoryConfig MemoryConfig_schema (zero_MemoryConfig\<lparr>MemoryConfig_Size := n\<rparr>)"
  unfolding json_MemoryConfig_def MemoryConfig_schema_def MemoryConfig_fields_def
  by (rule struct_has) (simp_all add: has zero_MemoryConfig_def)

lemma has_vsock: "has True json_VsockConfig VsockConfig_schema (zero_VsockConfig\<lparr>VsockConfig_Cid := 3, VsockConfig_Socket := s\<rparr>)"
  unfolding json_VsockConfig_def VsockConfig_schema_def VsockConfig_fields_def
  by (rule struct_has) (simp_all add: has zero_VsockConfig_def)

lemma has_console: "has True json_ConsoleConfig ConsoleConfig_schema (zero_ConsoleConfig\<lparr>ConsoleConfig_Mode := console_mode_string c\<rparr>)"
    "has True json_ConsoleConfig ConsoleConfig_schema (zero_ConsoleConfig\<lparr>ConsoleConfig_Mode := console_mode_string c, ConsoleConfig_Socket := Some s\<rparr>)"
  unfolding json_ConsoleConfig_def ConsoleConfig_schema_def ConsoleConfig_fields_def
  by (rule struct_has; cases c; simp add: has zero_ConsoleConfig_def utf8_ascii)+

lemma has_payload: "has True json_PayloadConfig PayloadConfig_schema (zero_PayloadConfig\<lparr>PayloadConfig_Kernel := a, PayloadConfig_Initramfs := b, PayloadConfig_Cmdline := c\<rparr>)"
  unfolding json_PayloadConfig_def PayloadConfig_schema_def PayloadConfig_fields_def
  by (rule struct_has) (simp_all add: has zero_PayloadConfig_def)

lemma has_rng: "has True json_RngConfig RngConfig_schema (zero_RngConfig\<lparr>RngConfig_Src := s\<rparr>)"
  unfolding json_RngConfig_def RngConfig_schema_def RngConfig_fields_def
  by (rule struct_has) (simp_all add: has zero_RngConfig_def)

lemma has_VmConfig_of:
  assumes "rtCpus (vcRuntime (vrConfig r)) \<noteq> 0"
  shows "has True json_VmConfig VmConfig_schema (VmConfig_of (vm_spec_of r m))"
proof -
  let ?sp = "vm_spec_of r m"
  have "uint (rtCpus (vcRuntime (vrConfig r))) \<noteq> 0" using assms by (simp add: uint_0_iff)
  then have "1 \<le> uint (rtCpus (vcRuntime (vrConfig r)))" using uint_ge_0 [of "rtCpus (vcRuntime (vrConfig r))"] by linarith
  moreover have "list_all (has True json_DiskConfig DiskConfig_schema) (map DiskConfig_of (vsDisks ?sp))"
      "list_all (has True json_NetConfig NetConfig_schema) (map NetConfig_of (vsNet ?sp))"
    by (simp_all add: list_all_iff has_DiskConfig_of has_NetConfig_of)
  ultimately show ?thesis
    unfolding json_VmConfig_def VmConfig_schema_def VmConfig_fields_def
    by (intro struct_has) (simp_all add: has VmConfig_of_def zero_VmConfig_def has_cpus sint_of_word has_memory has_vsock has_console has_payload has_rng)
qed

text \<open>The request of \<^verbatim>\<open>createVM\<close> and what becomes of it.\<close>

lemma createVM_request:
  assumes "vrLogManager r = Some m" "rtCpus (vcRuntime (vrConfig r)) \<noteq> 0" "list_all utf8 (spec_texts (vm_spec_of r m))"
  shows "\<exists>j. conforms True VmConfig_schema j \<and>
    dec_json json_VmConfig j zero_VmConfig = Ok (VmConfig_of (vm_spec_of r m)) \<and>
    fst (createVM (hypervisor_env show_json D E) r) =
      (case D (vrTrace r) (create_request j) of
         Inl e \<Rightarrow> Err (Errorf (''failed to create vm: '' @ error_string e))
       | Inr rsp \<Rightarrow> Ok ())"
proof -
  let ?v = "VmConfig_of (vm_spec_of r m)"
  obtain j where j: "enc_json json_VmConfig ?v = Ok j" "dec_json json_VmConfig j zero_VmConfig = Ok ?v"
      "answer D (Client_CreateVM ?v []) (vrTrace r) = (case D (vrTrace r) (create_request j) of Inl e \<Rightarrow> Err e | Inr rsp \<Rightarrow> Ok rsp)"
    using answer_create [OF valid_VmConfig_of [OF assms(3)]] by blast
  then have "fst (createVM (hypervisor_env show_json D E) r) =
      (case D (vrTrace r) (create_request j) of Inl e \<Rightarrow> Err (Errorf (''failed to create vm: '' @ error_string e)) | Inr rsp \<Rightarrow> Ok ())"
    by (simp add: createVM_def assms(1) vcall_def ext_def hypervisor_env_def calls_hypervisor_def hypervisor_error_def split: sum.splits)
  moreover have "conforms True VmConfig_schema j" using has_VmConfig_of [OF assms(2), of m] j(1) by (simp add: has_def)
  ultimately show ?thesis using j(2) by blast
qed

text \<open>
  \<^verbatim>\<open>createVM\<close> asks the hypervisor with one request, of the method, path and type of content of the API's
  description; its JSON body satisfies the description's schema, minima and enumerations included, and is
  read back as exactly the machine that the runtime described.  Whether \<^verbatim>\<open>createVM\<close> fails depends on the
  transport only: the answer's status is not looked at.
\<close>

theorem description_sent:
  assumes "vrLogManager r = Some m" "rtCpus (vcRuntime (vrConfig r)) \<noteq> 0" "list_all utf8 (spec_texts (vm_spec_of r m))"
  shows "\<exists>j. conforms True VmConfig_schema j \<and>
    dec_json json_VmConfig j zero_VmConfig = Ok (VmConfig_of (vm_spec_of r m)) \<and>
    fst (createVM (hypervisor_env show_json D E) r) =
      (case D (vrTrace r) (create_request j) of
         Inl e \<Rightarrow> Err (Errorf (''failed to create vm: '' @ error_string e))
       | Inr rsp \<Rightarrow> Ok ())"
  using createVM_request [OF assms] .

text \<open>The witness: two containers and a hypervisor that refuses the machine.\<close>

definition refusing :: hypervisor where
  "refusing t req = Inr \<lparr>rsStatus = ''400 Bad Request'', rsStatusCode = 400, rsContentType = [], rsBody = NoBody, rsReadErr = None, rsClosed = False\<rparr>"

theorem description_sent_witness:
  "\<exists>j. conforms True VmConfig_schema j \<and>
     dec_json json_VmConfig j zero_VmConfig = Ok (VmConfig_of (vm_spec_of (VmRuntime_New two_containers :: nat vm_runtime) (newLogManager ''/w'' [] :: nat runtime_log_manager))) \<and>
     fst (createVM (hypervisor_env (\<lambda>_. []) refusing good_vm_env)
       ((VmRuntime_New two_containers)\<lparr>vrLogManager := Some (newLogManager ''/w'' [] :: nat runtime_log_manager)\<rparr>)) = Ok ()"
proof -
  let ?r = "(VmRuntime_New two_containers)\<lparr>vrLogManager := Some (newLogManager ''/w'' [] :: nat runtime_log_manager)\<rparr>"
  have same: "vm_spec_of ?r (newLogManager ''/w'' [] :: nat runtime_log_manager) =
      vm_spec_of (VmRuntime_New two_containers :: nat vm_runtime) (newLogManager ''/w'' [] :: nat runtime_log_manager)"
    by (simp add: vm_spec_of_def getInitDaemonSocketPath_def getInitRamFSPath_def vworkdir_def)
  have "list_all utf8 (spec_texts (vm_spec_of ?r (newLogManager ''/w'' [] :: nat runtime_log_manager)))"
    by (simp add: spec_texts_def vm_spec_of_def VmRuntime_New_def two_containers_def plain_container_def disk_of_def newLogManager_def
        GetSerialSocketPath_def getInitDaemonSocketPath_def getInitRamFSPath_def vworkdir_def path_join_def path_clean_def utf8_ascii)
  moreover have "rtCpus (vcRuntime (vrConfig ?r)) \<noteq> 0" by (simp add: VmRuntime_New_def two_containers_def)
  ultimately show ?thesis
    using description_sent [of ?r "newLogManager ''/w'' []" "\<lambda>_. []" refusing good_vm_env] same by (simp add: refusing_def)
qed

text \<open>
  The state that the runtime reports is the hypervisor's: a machine is reported as running exactly
  if the hypervisor answers the request for its state with 200 and a JSON body that is read as a
  description whose state is \<^verbatim>\<open>Running\<close>.
\<close>

theorem running_state_is_hypervisors:
  "snd (fst (RuntimeGetState (hypervisor_env show_json D E) pid r)) \<longleftrightarrow>
    (\<exists>rsp j info. D (vrTrace r) (api_request ''GET'' ''vm.info'') = Inr rsp \<and> rsReadErr rsp = None \<and>
       contains (rsContentType rsp) ''json'' \<and> rsStatusCode rsp = 200 \<and>
       rsBody rsp = JsonBody j \<and> dec_json json_VmInfo j zero_VmInfo = Ok info \<and> VmInfo_State info = ''Running'')"
  by (auto simp: RuntimeGetState_def vcall_val_def ext_val_def hypervisor_env_def calls_hypervisor_def hypervisor_error_def answer_info
      ParseGetVmInfoResponse_def parse_json_def parse_plain_def unmarshal_body_def
      split: sum.splits option.splits res.splits http_body.splits if_splits)

end
