(* ===== verification/MachinePath.thy ===== *)
theory MachinePath
  imports RuntimeService ConfigPath HypervisorCalls
begin

text \<open>
  A machine from the node agent's database to the hypervisor: the configuration that the agent writes,
  as the runtime reads it, and the machine that the runtime asks the hypervisor to create.
\<close>

text \<open>What the agent writes, field by field.\<close>

lemma config_file_of_machine:
  assumes "createRuntimeConfigFile cfg E m s = (Ok (), s')" and "distinct (mContainers m)"
  obtains spec ni rt where "mSpec m = Some spec" "Option.bind (mNetworkInterface m) (nIfaces s) = Some ni"
    "last (nTrace s') = Os (EncodeRuntimeConfig (getRuntimeConfigPath cfg (mID m)) rt)"
    "rtWorkingDir rt = GetMachineDirectory cfg (mID m)" "rtMachineID rt = mID m" "rtCpus rt = msCpus spec"
    "rtMemoryMB rt = msMemoryMB spec" "rtNetwork rt = network_config ni (mID m)"
    "list_all2 (config_of (container_volumes (mVolumes m) Map.empty) s) (mContainers m) (rtContainers rt)"
proof -
  let ?vols = "container_volumes (mVolumes m) Map.empty"
  obtain spec a ni t cs s1 where p: "mSpec m = Some spec" "mNetworkInterface m = Some a" "nIfaces s a = Some ni"
    and cs: "container_configs ?vols (mContainers m) (s\<lparr>nTrace := t\<rparr>) = (Ok cs, s1)"
    and l: "last (nTrace s') = Os (EncodeRuntimeConfig (getRuntimeConfigPath cfg (mID m))
        \<lparr>rtWorkingDir = GetMachineDirectory cfg (mID m), rtMachineID = mID m, rtCpus = msCpus spec, rtMemoryMB = msMemoryMB spec,
          rtNetwork = network_config ni (mID m), rtContainers = cs\<rparr>)"
    using assms(1) by (auto simp: createRuntimeConfigFile_def Let_def split: flow_asm)
  have "list_all2 (config_of ?vols (s\<lparr>nTrace := t\<rparr>)) (mContainers m) cs"
    using container_configs_Ok [OF cs assms(2)] by blast
  moreover have "config_of ?vols (s\<lparr>nTrace := t\<rparr>) = config_of ?vols s" by (simp add: config_of_def fun_eq_iff)
  ultimately show thesis using that [OF p(1) _ l] p by simp
qed

text \<open>The disk of a container: the device of its volume, writable.\<close>

definition container_disk :: "machine \<Rightarrow> 'm node_scheme \<Rightarrow> nat \<Rightarrow> DiskConfig \<Rightarrow> bool" where
  "container_disk m s a d \<longleftrightarrow> (\<exists>c mv va v. nContainers s a = Some c \<and>
     container_volumes (mVolumes m) Map.empty (ctID c) = Some mv \<and> mvVolume mv = Some va \<and> nVolumes s va = Some v \<and>
     voPath v = Some (DiskConfig_Path d) \<and> DiskConfig_Readonly d = Some False)"

text \<open>The machine that the hypervisor reads, against the machine in the agent's memory.\<close>

definition machine_as_described :: "machine \<Rightarrow> machine_spec \<Rightarrow> network_interface \<Rightarrow> 'm node_scheme \<Rightarrow> VmConfig \<Rightarrow> bool" where
  "machine_as_described m spec ni s v \<longleftrightarrow>
     (\<exists>cpus. VmConfig_Cpus v = Some cpus \<and> CpusConfig_BootVcpus cpus = ucast (msCpus spec) \<and> CpusConfig_MaxVcpus cpus = ucast (msCpus spec)) \<and>
     (\<exists>mem. VmConfig_Memory v = Some mem \<and> MemoryConfig_Size mem = msMemoryMB spec * 1024 * 1024) \<and>
     (\<exists>disks. VmConfig_Disks v = Some disks \<and> list_all2 (container_disk m s) (mContainers m) disks) \<and>
     (\<exists>net. VmConfig_Net v = Some [net] \<and> NetConfig_Tap net = Some (niName ni) \<and>
       NetConfig_Mac net = Some (join '':'' (map hex2 (niMacAddress ni))))"

lemma read_config:
  assumes "transports (json_ptr (json_runtime_config t p)) (Some c) (Some c')" "valid_runtime_config c"
  shows "c' = wide_config c"
proof -
  have "transports (json_ptr (json_runtime_config t p)) (Some c) (Some (wide_config c))"
    using json_element.ptr_transports [OF runtime_config_element, of "Some c" t p] assms(2) by simp
  from transports_determined [OF assms(1) this] show ?thesis by simp
qed

lemma wide_fields [simp]:
  "rtCpus (wide_config c) = rtCpus c" "rtMemoryMB (wide_config c) = rtMemoryMB c" "rtContainers (wide_config c) = rtContainers c"
  "rnInterfaceName (rtNetwork (wide_config c)) = rnInterfaceName (rtNetwork c)"
  "rnMacAddress (rtNetwork (wide_config c)) = rnMacAddress (rtNetwork c)"
  by (simp_all add: wide_config_def wide_network_def)

lemma word_of_int_sint64: "word_of_int (sint (w :: 64 word)) = w"
  by simp

lemma described_disks:
  assumes "list_all2 (config_of (container_volumes (mVolumes m) Map.empty) s) as rcs"
  shows "list_all2 (container_disk m s) as (map (DiskConfig_of \<circ> disk_of) rcs)"
  using assms
proof (induction rule: list_all2_induct)
  case (Cons a as rc rcs)
  from Cons.hyps(1) have "container_disk m s a (DiskConfig_of (disk_of rc))"
    by (auto simp: config_of_def container_disk_def DiskConfig_of_def disk_of_def zero_DiskConfig_def)
  with Cons.IH show ?case by simp
qed simp

text \<open>
  C6: a machine reaches the hypervisor as the agent has it: once the agent has written the runtime's
  configuration, the runtime that reads it asks the hypervisor to create a machine with the processors
  and the memory of the machine's specification, the devices of its containers' volumes as disks in
  the order of the containers, and the name and MAC address of its own network interface, in a JSON body
  that satisfies the API's schema.
\<close>

theorem machine_reaches_hypervisor:
  assumes "createRuntimeConfigFile cfg E m s = (Ok (), s')" and "distinct (mContainers m)"
    and "last (nTrace s') = Os (EncodeRuntimeConfig path rt)" and "valid_runtime_config rt" and "rtCpus rt \<noteq> 0"
    and "transports (json_ptr (json_runtime_config t p)) (Some rt) (Some (vcRuntime (vrConfig r)))"
    and "vrLogManager r = Some lm" and "list_all utf8 (spec_texts (vm_spec_of r lm))"
  shows "\<exists>spec ni j v. mSpec m = Some spec \<and> Option.bind (mNetworkInterface m) (nIfaces s) = Some ni \<and>
    machine_as_described m spec ni s v \<and> conforms True VmConfig_schema j \<and> dec_json json_VmConfig j zero_VmConfig = Ok v \<and>
    fst (createVM (hypervisor_env show_json D E') r) =
      (case D (vrTrace r) (create_request j) of
         Inl e \<Rightarrow> Err (Errorf (''failed to create vm: '' @ error_string e))
       | Inr rsp \<Rightarrow> Ok ())"
proof -
  obtain spec ni rt' where c: "mSpec m = Some spec" "Option.bind (mNetworkInterface m) (nIfaces s) = Some ni"
    "last (nTrace s') = Os (EncodeRuntimeConfig (getRuntimeConfigPath cfg (mID m)) rt')"
    "rtCpus rt' = msCpus spec" "rtMemoryMB rt' = msMemoryMB spec" "rtNetwork rt' = network_config ni (mID m)"
    "list_all2 (config_of (container_volumes (mVolumes m) Map.empty) s) (mContainers m) (rtContainers rt')"
    by (rule config_file_of_machine [OF assms(1,2)])
  have rt: "rt' = rt" using c(3) assms(3) by simp
  have read: "vcRuntime (vrConfig r) = wide_config rt" using read_config [OF assms(6,4)] .
  then have "rtCpus (vcRuntime (vrConfig r)) \<noteq> 0" using assms(5) by simp
  from createVM_request [OF assms(7) this assms(8)] obtain j where j: "conforms True VmConfig_schema j"
    "dec_json json_VmConfig j zero_VmConfig = Ok (VmConfig_of (vm_spec_of r lm))"
    "fst (createVM (hypervisor_env show_json D E') r) =
      (case D (vrTrace r) (create_request j) of Inl e \<Rightarrow> Err (Errorf (''failed to create vm: '' @ error_string e)) | Inr rsp \<Rightarrow> Ok ())"
    by blast
  have "machine_as_described m spec ni s (VmConfig_of (vm_spec_of r lm))"
    using described_disks [OF c(7)] c(4-6)
    by (simp add: machine_as_described_def VmConfig_of_def vm_spec_of_def Let_def read rt NetConfig_of_def network_config_def)
  with c(1,2) j show ?thesis by blast
qed

text \<open>The witness: a machine with one container whose image has a variable more.\<close>

definition sample_rt :: runtime_config where
  "sample_rt = \<lparr>rtWorkingDir = ''/var/lib/baepo/runtimes/m1'', rtMachineID = ''m1'', rtCpus = 2, rtMemoryMB = 512,
     rtNetwork = \<lparr>rnInterfaceName = ''tap2'', rnIPAddress = [192, 168, 100, 2], rnMacAddress = ''52:54:00:00:00:02'',
       rnGatewayAddress = [192, 168, 100, 1], rnNetworkCIDR = \<lparr>netIP = [192, 168, 100, 0], netMask = [255, 255, 255, 0]\<rparr>, rnHostname = ''m1''\<rparr>,
     rtContainers = [\<lparr>rcContainerID = ''c1'', rcSpec = \<lparr>csName = None, csImage = ''nginx'', csEnv = Some (merge_env [''A'' \<mapsto> ''1''] [''PATH'' \<mapsto> ''/bin'']),
       csCommand = Some [''nginx''], csUser = Some ''root'', csHealthcheck = None, csWorkingDir = Some ''/'', csRestart = None\<rparr>,
       rcVolumePath = ''/dev/vg/v1''\<rparr>]\<rparr>"

definition sample_runtime :: "nat vm_runtime" where
  "sample_runtime = (VmRuntime_New \<lparr>vcRuntime = wide_config sample_rt, vcInitBinary = ''/init'', vcInitContainerBinary = ''/initcontainer'',
     vcCloudHypervisorBinary = ''/ch'', vcVMLinux = ''/vmlinux'', vcDebug = False\<rparr>)\<lparr>vrLogManager := Some (newLogManager ''/var/lib/baepo/runtimes/m1'' [])\<rparr>"

lemma sample_file:
  "\<exists>s'. createRuntimeConfigFile sample_config quiet_env sample_machine sample_node = (Ok (), s') \<and>
    last (nTrace s') = Os (EncodeRuntimeConfig (getRuntimeConfigPath sample_config ''m1'') sample_rt)"
  by (simp add: createRuntimeConfigFile_def sample_config_def quiet_env_def sample_machine_def sample_node_def bare_node_def
      call_def ext_def deref_def ptr_def Let_def share_env_def sample_rt_def GetMachineDirectory_def path_join_def path_clean_def
      network_config_def hex2_def hexdigit_def complete_spec_def default_string_def Deref_def)

theorem machine_reaches_hypervisor_witness:
  "\<exists>ni j v. nIfaces sample_node 0 = Some ni \<and>
     machine_as_described sample_machine \<lparr>msName = None, msCpus = 2, msMemoryMB = 512, msTimeout = None\<rparr> ni sample_node v \<and>
     conforms True VmConfig_schema j \<and> dec_json json_VmConfig j zero_VmConfig = Ok v \<and>
     fst (createVM (hypervisor_env (\<lambda>_. []) refusing good_vm_env) sample_runtime) = Ok ()"
proof -
  obtain s' where written: "createRuntimeConfigFile sample_config quiet_env sample_machine sample_node = (Ok (), s')"
    "last (nTrace s') = Os (EncodeRuntimeConfig (getRuntimeConfigPath sample_config ''m1'') sample_rt)"
    using sample_file by blast
  have valid: "valid_runtime_config sample_rt"
    by (simp add: sample_rt_def valid_runtime_config_def valid_runtime_network_def valid_runtime_container_def valid_container_spec_def
        ip4_or_nil_def To4_def valid_map_def merge_env_add ran_map_upd utf8_ascii)
  have read: "transports (json_ptr (json_runtime_config (\<lambda>_. []) (\<lambda>_. []))) (Some sample_rt) (Some (vcRuntime (vrConfig sample_runtime)))"
    using json_element.ptr_transports [OF runtime_config_element, of "Some sample_rt"] valid by (simp add: sample_runtime_def VmRuntime_New_def)
  have texts: "list_all utf8 (spec_texts (vm_spec_of sample_runtime (newLogManager ''/var/lib/baepo/runtimes/m1'' [] :: nat runtime_log_manager)))"
    by (simp add: spec_texts_def vm_spec_of_def sample_runtime_def VmRuntime_New_def wide_config_def wide_network_def sample_rt_def disk_of_def newLogManager_def
        GetSerialSocketPath_def getInitDaemonSocketPath_def getInitRamFSPath_def vworkdir_def path_join_def path_clean_def utf8_ascii)
  have m: "distinct (mContainers sample_machine)" "rtCpus sample_rt \<noteq> 0"
    "vrLogManager sample_runtime = Some (newLogManager ''/var/lib/baepo/runtimes/m1'' [])"
    "mSpec sample_machine = Some \<lparr>msName = None, msCpus = 2, msMemoryMB = 512, msTimeout = None\<rparr>" "mNetworkInterface sample_machine = Some 0"
    by (simp_all add: sample_machine_def sample_rt_def sample_runtime_def)
  from machine_reaches_hypervisor [OF written(1) m(1) written(2) valid m(2) read m(3) texts, of "\<lambda>_. []" refusing good_vm_env] m(4,5)
  show ?thesis by (auto simp: refusing_def)
qed

end
