(* ===== verification/ControllerProgress.thy ===== *)
theory ControllerProgress
  imports ControllerSteps
begin

text \<open>
  Progress of the controller: in an environment whose calls succeed a machine that shall terminate
  terminates by the controller's own steps, whether its runtime still answers or not.
\<close>

section \<open>The controller's own steps\<close>

text \<open>The steps of the dispatcher and of the reconciliation's goroutine, without those of the surroundings.\<close>

inductive own_step :: "string \<Rightarrow> config \<Rightarrow> 'e node_env_scheme \<Rightarrow> ctrl_node \<Rightarrow> ctrl_node \<Rightarrow> bool" for vg cfg E where
  own_dispatch: "receive_event i (coBus s) = Some (event, b) \<Longrightarrow>
    eventHandler E event (s\<lparr>coBus := b\<rparr>) = (Ok (), s') \<Longrightarrow> own_step vg cfg E s s'"
| own_run: "j \<in> set (coJobs s) \<Longrightarrow> run_job vg cfg E j s = (Ok (), s') \<Longrightarrow> own_step vg cfg E s (begin_ending j s')"
| own_finish: "j \<in> set (coEnding s) \<Longrightarrow> finish_job j s = (Ok (), s') \<Longrightarrow> own_step vg cfg E s s'"

lemma own_step_is_step: "own_step vg cfg E s s' \<Longrightarrow> ctrl_step vg cfg E s s'"
  by (induction rule: own_step.induct) (auto intro: ctrl_step.intros)

lemma own_steps_reach: "(own_step vg cfg E)\<^sup>*\<^sup>* s s' \<Longrightarrow> ctrl_reach vg cfg E s s'"
  by (induction rule: rtranclp_induct) (auto intro: ctrl_reach.intros own_step_is_step)

lemma receive_member:
  assumes "e \<in> set (busPending b)"
  shows "\<exists>i b'. receive_event i b = Some (e, b')"
  using assms by (auto simp: receive_event_def in_set_conv_nth)

section \<open>An environment whose calls succeed\<close>

text \<open>Whether runtimes answer to the question for their state is left open, but does not change (\<open>up\<close>).\<close>

definition calm :: "bool \<Rightarrow> 'e node_env_scheme \<Rightarrow> bool" where
  "calm up E \<longleftrightarrow> (\<forall>t c. (\<exists>i. c = Rt (RuntimeGetState i)) \<or> env_err E t c = None) \<and>
     (\<forall>t i. env_err E t (Rt (RuntimeGetState i)) = None \<longleftrightarrow> up)"

lemma calm_calls [simp]:
  assumes "calm up E"
  shows "env_err E t (RunCmd name args) = None" "env_err E t (Net n) = None" "env_err E t (Db d) = None"
    "env_err E t (Rt (FindProcess pid)) = None" "env_err E t (Rt (SignalTerm pid)) = None" "env_err E t (Rt (ProcessKill pid)) = None"
    "env_err E t (Os x) = None" "env_err E t (Rt CmdStdoutPipe) = None" "env_err E t (Rt CmdStderrPipe) = None" "env_err E t (Rt (CmdStart b as)) = None"
  using assms unfolding calm_def by blast+

lemma calm_up: "calm up E \<Longrightarrow> env_err E t (Rt (RuntimeGetState i)) = None \<longleftrightarrow> up"
  by (simp add: calm_def)

lemma Volume_Release_calm:
  assumes "calm up E" "nVolumes s b \<noteq> None"
  shows "\<exists>s'. Volume_Release vg E (Some b) s = (Ok (), s') \<and> dom (nVolumes s) \<subseteq> dom (nVolumes s')"
  using assms by (auto simp: Volume_Release_def Volume_runCmd_def deref_Some call_cases put_volume_def Let_def)

lemma release_volumes_calm:
  assumes "calm up E" "\<forall>mv \<in> set mvs. \<exists>b. mvVolume mv = Some b \<and> nVolumes s b \<noteq> None"
  shows "\<exists>s'. release_volumes vg E mvs s = (Ok (MachineStateTerminated, None), s')"
  using assms(2)
proof (induction mvs arbitrary: s)
  case (Cons mv mvs)
  then obtain b where b: "mvVolume mv = Some b" "nVolumes s b \<noteq> None" by auto
  obtain s1 where 1: "Volume_Release vg E (Some b) s = (Ok (), s1)" "dom (nVolumes s) \<subseteq> dom (nVolumes s1)"
    using Volume_Release_calm [OF assms(1) b(2)] by blast
  have "\<forall>mv \<in> set mvs. \<exists>b. mvVolume mv = Some b \<and> nVolumes s1 b \<noteq> None"
    using Cons.prems 1(2) by (fastforce simp: dom_def)
  from Cons.IH [OF this] 1(1) b(1) show ?case by (simp add: or_error_def)
qed simp

lemma ReleaseInterface_calm:
  assumes "calm up E" "net_inv s" "live_ifaces s a \<noteq> None"
  shows "\<exists>s'. ReleaseInterface E (Some a) s = (Ok (), s') \<and> nVolumes s' = nVolumes s"
proof -
  obtain ni where l: "live_ifaces s a = Some ni" using assms(3) by blast
  note l = live_ifaces_SomeD [OF l]
  obtain r s' where r: "ReleaseInterface E (Some a) s = (r, s')" by fastforce
  have "r \<noteq> Panic m" for m using ReleaseInterface_no_Panic [OF assms(2,3)] r by auto
  moreover have "r \<noteq> Err e" for e
    using r l assms(1)
    by (auto simp: ReleaseInterface_def deref_Some call_cases applyTapFirewallRules_def runCmd_def Let_def
        release_address_def on_net_def claim_ip_def calculateOffsetFromIP_def claim_def offset_loop_no_Err
        split: flow_asm res.splits if_splits)
  moreover have "nVolumes s' = nVolumes s"
    using r l assms(1)
    by (auto simp: ReleaseInterface_def deref_Some call_cases applyTapFirewallRules_def runCmd_def Let_def
        release_address_def on_net_def split: flow_asm res.splits if_splits)
  ultimately show ?thesis using r by (cases r) auto
qed

lemma Terminate_calm:
  assumes "calm True E"
  shows "\<exists>s'. Terminate E i s = (Ok (), s')"
  using assms calm_up [OF assms] by (simp add: Terminate_def call_cases call_val_cases)

lemma end_runtime_calm:
  assumes "calm up E"
  shows "\<exists>s1. end_runtime E m k s = k s1 \<and> nVolumes s1 = nVolumes s \<and> net_inv s1 = net_inv s \<and> live_ifaces s1 = live_ifaces s"
proof -
  obtain s0 where s0: "isMachineRuntimeStarted E m s = (Ok up, s0)" "trace_only s s0"
    using calm_up [OF assms, of "nTrace s" "mID m"] isMachineRuntimeStarted_Ok [of E m s]
    by (cases "env_err E (nTrace s) (Rt (RuntimeGetState (mID m)))") (auto simp: isMachineRuntimeStarted_def call_cases)
  show ?thesis
  proof (cases up)
    case False
    with s0 show ?thesis by (intro exI [of _ s0]) (auto simp: end_runtime_def elim!: trace_onlyE)
  next
    case True
    then have "calm True E" using assms by simp
    then obtain s1 where s1: "Terminate E (mID m) (announce E m MachineStateTerminating s0) = (Ok (), s1)"
      using Terminate_calm by blast
    with s0 True Terminate_trace [OF s1] show ?thesis
      by (intro exI [of _ s1]) (auto simp: end_runtime_def or_error_def announce_def elim!: trace_onlyE split: if_splits)
  qed
qed

section \<open>The steps of a termination\<close>

lemma reconcileToTerminated_calm:
  fixes s :: "'m ctrl_node_scheme"
  assumes c: "calm up E" and i: "net_inv s" and a: "mNetworkInterface m = Some a" "live_ifaces s a \<noteq> None"
    and v: "\<forall>mv \<in> set (mVolumes m). \<exists>b. mvVolume mv = Some b \<and> nVolumes s b \<noteq> None"
  shows "\<exists>s'. reconcileToTerminated vg E m s = (Ok (MachineStateTerminated, None), s') \<and> live_ifaces s' a = None \<and>
    (\<forall>mv \<in> set (mVolumes m). \<exists>b v. mvVolume mv = Some b \<and> nVolumes s' b = Some v \<and> voReleasedAt v \<noteq> None)"
proof -
  define k :: "'m ctrl_node_scheme \<Rightarrow> (machine_state \<times> gerror option) res \<times> 'm ctrl_node_scheme" where
    "k = (\<lambda>s. or_error (Wrap (''failed to release network interface ('' @ iface_id s (mNetworkInterface m) @ '')''))
        (ReleaseInterface E (mNetworkInterface m) s) (release_volumes vg E (mVolumes m)))"
  have r: "reconcileToTerminated vg E m s = end_runtime E m k s" by (simp add: reconcileToTerminated_def k_def)
  obtain s1 where s1: "end_runtime E m k s = k s1" "nVolumes s1 = nVolumes s" "net_inv s1" "live_ifaces s1 = live_ifaces s"
    using end_runtime_calm [OF c, of m k s] i by blast
  obtain s2 where s2: "ReleaseInterface E (Some a) s1 = (Ok (), s2)" "nVolumes s2 = nVolumes s"
    using ReleaseInterface_calm [OF c s1(3)] a(2) s1(2,4) by auto
  obtain s3 where s3: "release_volumes vg E (mVolumes m) s2 = (Ok (MachineStateTerminated, None), s3)"
    using release_volumes_calm [OF c] v s2(2) by metis
  have "live_ifaces s2 a = None" using net.release_ok [OF s1(3) s2(1)] by simp
  moreover have "reconcileToTerminated vg E m s = (Ok (MachineStateTerminated, None), s3)"
    using s1(1) s2(1) s3 a(1) by (simp add: r k_def or_error_def)
  ultimately show ?thesis using release_volumes_released [OF s3] by auto
qed

lemma net_inv_memory: "nIfaces s' = nIfaces s \<Longrightarrow> nNet s' = nNet s \<Longrightarrow> nNext s' = nNext s \<Longrightarrow> net_inv s' = net_inv s"
  by (simp add: net_inv_def net_fresh_def net_live_def net_unique_def net_exact_def live_ifaces_def)

lemma assess_starts:
  assumes "shouldReconcile (stMachine (coState s))" "stReconciliation (coState s) = None" "\<not> coStopping s"
  shows "\<exists>s1 j. eventHandler E AssessStateMessage s = (Ok (), s1) \<and> j \<in> set (coJobs s1) \<and>
    jbDesired j = mDesiredState (stMachine (coState s)) \<and> jbMachine j = stMachine (coState s) \<and>
    stMachine (coState s1) = stMachine (coState s) \<and> nVolumes s1 = nVolumes s \<and> nIfaces s1 = nIfaces s \<and>
    nNet s1 = nNet s \<and> nNext s1 = nNext s"
  using assms
  by (auto simp: eventHandler_def assess_def Let_def GetState_def reconcile_def startRuntimeListener_def new_ctx_def SetState_def
      commit_def cancel_ctx_def split: option.splits)

lemma handle_terminated:
  assumes "calm up E"
  shows "\<exists>s'. eventHandler E (StateChangedMessage MachineStateTerminated n) s = (Ok (), s') \<and>
    stMachine (coState s') = (stMachine (coState s))\<lparr>mState := MachineStateTerminated, mTerminatedAt := Some (now E s)\<rparr> \<and>
    coEnding s' = coEnding s \<and> nVolumes s' = nVolumes s \<and> live_ifaces s' = live_ifaces s"
  using assms
  by (auto simp: eventHandler_def SetState_def commit_def GetState_def save_state_def Let_def call_cases publish_def live_ifaces_def fun_eq_iff)

lemma finish_clears:
  "\<exists>s'. finish_job j s = (Ok (), s') \<and> stReconciliation (coState s') = None \<and> stMachine (coState s') = stMachine (coState s) \<and>
    nVolumes s' = nVolumes s \<and> live_ifaces s' = live_ifaces s"
  by (auto simp: finish_job_def SetState_def commit_def GetState_def clear_reconciliation_def live_ifaces_def fun_eq_iff)

lemma run_job_terminated:
  assumes "reconcileToTerminated vg E (jbMachine j) s = (Ok (MachineStateTerminated, None), s')" "jbDesired j = MachineDesiredStateTerminated"
  shows "\<exists>s2 n. run_job vg cfg E j s = (Ok (), s2) \<and> StateChangedMessage MachineStateTerminated n \<in> set (busPending (coBus s2)) \<and>
    nVolumes s2 = nVolumes s' \<and> live_ifaces s2 = live_ifaces s'"
  using assms by (auto simp: run_job_def Let_def NewStateChangedMessage_def)

text \<open>
  C10: a machine that shall terminate terminates: when its assessment waits, no reconciliation is going on
  and the calls to the outside succeed, the controller can go by its own steps to the state terminated, stored
  with its time, with the reconciliation over, the interface given back and every volume released,
  whether the machine's runtime still answers and has to be ended or not.
\<close>

theorem termination_completes:
  assumes "calm up E" and "net_inv s"
    and "mDesiredState (stMachine (coState s)) = MachineDesiredStateTerminated" "mState (stMachine (coState s)) \<noteq> MachineStateTerminated"
    and "stReconciliation (coState s) = None" and "\<not> coStopping s" and "AssessStateMessage \<in> set (busPending (coBus s))"
    and "mNetworkInterface (stMachine (coState s)) = Some a" and "live_ifaces s a \<noteq> None"
    and "\<forall>mv \<in> set (mVolumes (stMachine (coState s))). \<exists>b. mvVolume mv = Some b \<and> nVolumes s b \<noteq> None"
  shows "\<exists>s'. (own_step vg cfg E)\<^sup>*\<^sup>* s s' \<and> stReconciliation (coState s') = None \<and>
    mState (stMachine (coState s')) = MachineStateTerminated \<and> mTerminatedAt (stMachine (coState s')) \<noteq> None \<and>
    live_ifaces s' a = None \<and>
    (\<forall>mv \<in> set (mVolumes (stMachine (coState s))). \<exists>b v. mvVolume mv = Some b \<and> nVolumes s' b = Some v \<and> voReleasedAt v \<noteq> None)"
proof -
  let ?m = "stMachine (coState s)"
  obtain i b where b: "receive_event i (coBus s) = Some (AssessStateMessage, b)" using receive_member [OF assms(7)] by blast
  have "shouldReconcile ?m" using assms(3,4) by (simp add: shouldReconcile_def)
  with assess_starts [of "s\<lparr>coBus := b\<rparr>" E] assms(3,5,6) obtain s1 j where
    s1: "eventHandler E AssessStateMessage (s\<lparr>coBus := b\<rparr>) = (Ok (), s1)" "j \<in> set (coJobs s1)"
      "jbDesired j = MachineDesiredStateTerminated" "jbMachine j = ?m" "stMachine (coState s1) = ?m" "nVolumes s1 = nVolumes s"
      "nIfaces s1 = nIfaces s" "nNet s1 = nNet s" "nNext s1 = nNext s"
    by auto
  have l1: "net_inv s1" "live_ifaces s1 = live_ifaces s"
    using net_inv_memory [OF s1(7-9)] assms(2) by (auto simp: live_ifaces_def fun_eq_iff s1(7))
  obtain s2 where s2: "reconcileToTerminated vg E (jbMachine j) s1 = (Ok (MachineStateTerminated, None), s2)" "live_ifaces s2 a = None"
      "\<forall>mv \<in> set (mVolumes ?m). \<exists>b v. mvVolume mv = Some b \<and> nVolumes s2 b = Some v \<and> voReleasedAt v \<noteq> None"
    using reconcileToTerminated_calm [OF assms(1) l1(1) assms(8)] assms(9,10) l1(2) s1(4,6) by metis
  obtain s3 n where s3: "run_job vg cfg E j s1 = (Ok (), s3)" "StateChangedMessage MachineStateTerminated n \<in> set (busPending (coBus s3))"
      "nVolumes s3 = nVolumes s2" "live_ifaces s3 = live_ifaces s2"
    using run_job_terminated [OF s2(1) s1(3)] by blast
  let ?s4 = "begin_ending j s3"
  have m3: "stMachine (coState s3) = ?m" using run_job_frame [OF s3(1)] s1(5) by (simp add: ctrl_frame_def)
  obtain i' b' where b': "receive_event i' (coBus ?s4) = Some (StateChangedMessage MachineStateTerminated n, b')"
    using receive_member s3(2) by (metis begin_ending_def ctrl_node.select_convs(2) ctrl_node.surjective ctrl_node.update_convs(4,5))
  obtain s5 where s5: "eventHandler E (StateChangedMessage MachineStateTerminated n) (?s4\<lparr>coBus := b'\<rparr>) = (Ok (), s5)"
      "mState (stMachine (coState s5)) = MachineStateTerminated" "mTerminatedAt (stMachine (coState s5)) \<noteq> None"
      "coEnding s5 = j # coEnding s3" "nVolumes s5 = nVolumes s2" "live_ifaces s5 = live_ifaces s2"
    using handle_terminated [OF assms(1), of n "?s4\<lparr>coBus := b'\<rparr>"] s3(3,4) by (auto simp: begin_ending_def live_ifaces_def fun_eq_iff)
  obtain s6 where s6: "finish_job j s5 = (Ok (), s6)" "stReconciliation (coState s6) = None" "stMachine (coState s6) = stMachine (coState s5)"
      "nVolumes s6 = nVolumes s2" "live_ifaces s6 = live_ifaces s2"
    using finish_clears [of j s5] s5(5,6) by auto
  have "(own_step vg cfg E)\<^sup>*\<^sup>* s s6"
    using own_dispatch [OF b s1(1)] own_run [OF s1(2) s3(1)] own_dispatch [OF b' s5(1)] own_finish [OF _ s6(1)] s5(4)
    by (metis (no_types, lifting) list.set_intros(1) rtranclp.simps)
  then show ?thesis using s6 s5(2,3) s2(2,3) by (intro exI [of _ s6]) auto
qed

text \<open>The witness: a machine with an interface and one allocated volume, whose runtime answers.\<close>

definition ending_volume :: volume where
  "ending_volume = \<lparr>voID = ''v1'', voSize = 512, voPath = Some ''/dev/vg/v1'', voSourceID = None, voSource = None, voAllocatedAt = Some 0, voReleasedAt = None\<rparr>"

definition unwanted_machine :: machine where
  "unwanted_machine = idle_machine\<lparr>mDesiredState := MachineDesiredStateTerminated, mState := MachineStateRunning,
     mVolumes := [\<lparr>mvID = ''mv1'', mvPosition = 0, mvMachineID = ''m1'', mvContainerID = ''c1'', mvImageID = None, mvImage = None,
       mvVolumeID = ''v1'', mvVolume = Some 7\<rparr>]\<rparr>"

definition unwanted_ctrl :: ctrl_node where
  "unwanted_ctrl = sample_ctrl\<lparr>coState := (coState sample_ctrl)\<lparr>stMachine := unwanted_machine\<rparr>, nVolumes := [7 \<mapsto> ending_volume]\<rparr>"

theorem termination_completes_witness:
  "\<exists>s'. (own_step ''vg'' sample_config quiet_env)\<^sup>*\<^sup>* unwanted_ctrl s' \<and> live_ifaces unwanted_ctrl 0 \<noteq> None \<and> live_ifaces s' 0 = None \<and>
     mState (stMachine (coState s')) = MachineStateTerminated \<and> (\<exists>v. nVolumes s' 7 = Some v \<and> voReleasedAt v \<noteq> None)"
proof -
  have c: "calm True quiet_env" by (simp add: calm_def quiet_env_def)
  have l: "live_ifaces unwanted_ctrl = live_ifaces sample_ctrl" by (simp add: unwanted_ctrl_def live_ifaces_def fun_eq_iff)
  have i: "net_inv unwanted_ctrl"
    using net_inv_memory [of unwanted_ctrl sample_ctrl] sample_ctrl_net(1) by (simp add: unwanted_ctrl_def)
  have live: "live_ifaces unwanted_ctrl 0 \<noteq> None" by (simp add: l sample_ctrl_net(2))
  have m: "mDesiredState (stMachine (coState unwanted_ctrl)) = MachineDesiredStateTerminated"
    "mState (stMachine (coState unwanted_ctrl)) \<noteq> MachineStateTerminated" "mNetworkInterface (stMachine (coState unwanted_ctrl)) = Some 0"
    "\<forall>mv \<in> set (mVolumes (stMachine (coState unwanted_ctrl))). \<exists>b. mvVolume mv = Some b \<and> nVolumes unwanted_ctrl b \<noteq> None"
    by (simp_all add: unwanted_ctrl_def unwanted_machine_def idle_machine_def)
  have b: "stReconciliation (coState unwanted_ctrl) = None" "\<not> coStopping unwanted_ctrl" "AssessStateMessage \<in> set (busPending (coBus unwanted_ctrl))"
    by (simp_all add: unwanted_ctrl_def sample_ctrl_def start_ctrl_def PublishEvent_def SubscribeToEvents_def NewBus_def)
  have v: "\<exists>mv. mv \<in> set (mVolumes (stMachine (coState unwanted_ctrl))) \<and> mvVolume mv = Some 7"
    by (simp add: unwanted_ctrl_def unwanted_machine_def)
  from termination_completes [OF c i m(1,2) b m(3) live m(4), of "''vg''" sample_config] v live show ?thesis by fastforce
qed

end
