(* ===== verification/ControllerPrepare.thy ===== *)
theory ControllerPrepare
  imports ControllerProgress
begin

text \<open>
  Preparing a machine and starting its runtime succeed when the calls to the outside do: what a machine
  needs in memory, that every step of the preparation leaves it there, and that the steps succeed,
  images that are not pulled yet included.
\<close>

section \<open>What a machine needs in memory\<close>

definition has_path :: "'m node_scheme \<Rightarrow> machine_volume \<Rightarrow> bool" where
  "has_path s mv \<longleftrightarrow> (\<exists>b v. mvVolume mv = Some b \<and> nVolumes s b = Some v \<and> voPath v \<noteq> None)"

definition path_at :: "'m node_scheme \<Rightarrow> nat \<Rightarrow> bool" where
  "path_at s b \<longleftrightarrow> (\<exists>v. nVolumes s b = Some v \<and> voPath v \<noteq> None)"

text \<open>A volume that is allocated has a path, and the source of one that is not has one.\<close>

definition allocatable :: "'m node_scheme \<Rightarrow> nat \<Rightarrow> bool" where
  "allocatable s b \<longleftrightarrow> (\<exists>v. nVolumes s b = Some v \<and> (voAllocatedAt v \<noteq> None \<longrightarrow> voPath v \<noteq> None) \<and>
     (\<forall>src. voAllocatedAt v = None \<and> voSource v = Some src \<longrightarrow> path_at s src))"

text \<open>An image is pulled, or has a volume that it can be pulled onto.\<close>

definition image_prepared :: "'m node_scheme \<Rightarrow> nat \<Rightarrow> bool" where
  "image_prepared s ia \<longleftrightarrow> (\<exists>img. nImages s ia = Some img \<and>
     (imPulledAt img = None \<longrightarrow> (\<exists>b. imVolume img = Some b \<and> allocatable s b)))"

text \<open>The source of a machine's volume may be the volume of the image that is pulled first.\<close>

definition source_of_image :: "'m node_scheme \<Rightarrow> machine_volume \<Rightarrow> nat \<Rightarrow> bool" where
  "source_of_image s mv src \<longleftrightarrow> (\<exists>ia img. mvImage mv = Some ia \<and> nImages s ia = Some img \<and> imPulledAt img = None \<and> imVolume img = Some src)"

definition volume_prepared :: "'m node_scheme \<Rightarrow> machine_volume \<Rightarrow> bool" where
  "volume_prepared s mv \<longleftrightarrow> (\<forall>ia. mvImage mv = Some ia \<longrightarrow> image_prepared s ia) \<and>
     (\<exists>b v. mvVolume mv = Some b \<and> nVolumes s b = Some v \<and> (voAllocatedAt v \<noteq> None \<longrightarrow> voPath v \<noteq> None) \<and>
       (\<forall>src. voAllocatedAt v = None \<and> voSource v = Some src \<longrightarrow> path_at s src \<or> source_of_image s mv src))"

definition container_prepared :: "machine \<Rightarrow> 'm node_scheme \<Rightarrow> nat \<Rightarrow> bool" where
  "container_prepared m s a \<longleftrightarrow> (\<exists>c mv ia img. nContainers s a = Some c \<and> ctSpec c \<noteq> None \<and>
     container_volumes (mVolumes m) Map.empty (ctID c) = Some mv \<and> mvImage mv = Some ia \<and> nImages s ia = Some img \<and> imSpec img \<noteq> None)"

definition machine_ready :: "machine \<Rightarrow> 'm node_scheme \<Rightarrow> bool" where
  "machine_ready m s \<longleftrightarrow> mSpec m \<noteq> None \<and> (\<exists>a. mNetworkInterface m = Some a \<and> nIfaces s a \<noteq> None) \<and>
     list_all (container_prepared m s) (mContainers m) \<and>
     list_all (\<lambda>mv. volume_prepared s mv \<and> (\<exists>a \<in> set (mContainers m). map_option ctID (nContainers s a) = Some (mvContainerID mv))) (mVolumes m)"

section \<open>What preparing leaves of it\<close>

definition volume_kept :: "volume \<Rightarrow> volume \<Rightarrow> bool" where
  "volume_kept v v' \<longleftrightarrow> voSource v' = voSource v \<and> (voPath v \<noteq> None \<longrightarrow> voPath v' \<noteq> None) \<and>
     (voAllocatedAt v \<noteq> None \<longrightarrow> voAllocatedAt v' \<noteq> None) \<and> (voAllocatedAt v' = voAllocatedAt v \<or> voPath v' \<noteq> None)"

definition image_kept :: "'m node_scheme \<Rightarrow> image \<Rightarrow> image \<Rightarrow> bool" where
  "image_kept s' i i' \<longleftrightarrow> imVolume i' = imVolume i \<and> imSpec i' = imSpec i \<and> (imPulledAt i \<noteq> None \<longrightarrow> imPulledAt i' \<noteq> None) \<and>
     (imPulledAt i = None \<and> imPulledAt i' \<noteq> None \<longrightarrow> (\<forall>b. imVolume i = Some b \<longrightarrow> path_at s' b))"

definition volumes_kept :: "'m node_scheme \<Rightarrow> 'm node_scheme \<Rightarrow> bool" where
  "volumes_kept s s' \<longleftrightarrow> (\<forall>b v. nVolumes s b = Some v \<longrightarrow> (\<exists>v'. nVolumes s' b = Some v' \<and> volume_kept v v'))"

definition memory_kept :: "'m node_scheme \<Rightarrow> 'm node_scheme \<Rightarrow> bool" where
  "memory_kept s s' \<longleftrightarrow> nContainers s' = nContainers s \<and> nIfaces s' = nIfaces s \<and> volumes_kept s s' \<and>
     (\<forall>a i. nImages s a = Some i \<longrightarrow> (\<exists>i'. nImages s' a = Some i' \<and> image_kept s' i i'))"

lemma volume_kept_refl [simp]: "volume_kept v v"
  by (simp add: volume_kept_def)

lemma volume_kept_trans: "volume_kept u v \<Longrightarrow> volume_kept v w \<Longrightarrow> volume_kept u w"
  by (auto simp: volume_kept_def)

lemma path_at_kept: "path_at s b \<Longrightarrow> volumes_kept s s' \<Longrightarrow> path_at s' b"
  by (fastforce simp: path_at_def volumes_kept_def volume_kept_def)

lemma volumes_kept_trans: "volumes_kept s s' \<Longrightarrow> volumes_kept s' s'' \<Longrightarrow> volumes_kept s s''"
  unfolding volumes_kept_def by (metis volume_kept_trans)

lemma image_kept_refl [simp]: "image_kept s i i"
  by (auto simp: image_kept_def)

lemma image_kept_trans:
  assumes "image_kept s' i i'" "image_kept s'' i' i''" "volumes_kept s' s''"
  shows "image_kept s'' i i''"
  using assms path_at_kept [OF _ assms(3)] unfolding image_kept_def by metis

lemma memory_kept_refl [simp]: "memory_kept s s"
  by (simp add: memory_kept_def volumes_kept_def)

lemma memory_kept_image: "memory_kept s s' \<Longrightarrow> nImages s a = Some i \<Longrightarrow> \<exists>i'. nImages s' a = Some i' \<and> image_kept s' i i'"
  by (simp add: memory_kept_def)

lemma memory_kept_trans:
  assumes "memory_kept s s'" "memory_kept s' s''"
  shows "memory_kept s s''"
proof -
  have v: "volumes_kept s s'" "volumes_kept s' s''" using assms by (simp_all add: memory_kept_def)
  have "\<exists>i''. nImages s'' a = Some i'' \<and> image_kept s'' i i''" if "nImages s a = Some i" for a i
  proof -
    note image = that
    obtain i' where i': "nImages s' a = Some i'" "image_kept s' i i'" using memory_kept_image [OF assms(1) image] by blast
    obtain i'' where "nImages s'' a = Some i''" "image_kept s'' i' i''" using memory_kept_image [OF assms(2) i'(1)] by blast
    with image_kept_trans [OF i'(2) _ v(2)] show ?thesis by blast
  qed
  with assms volumes_kept_trans [OF v] show ?thesis by (simp add: memory_kept_def)
qed

lemma memory_kept_same:
  "nContainers s' = nContainers s \<Longrightarrow> nIfaces s' = nIfaces s \<Longrightarrow> nImages s' = nImages s \<Longrightarrow> volumes_kept s s' \<Longrightarrow> memory_kept s s'"
  by (simp add: memory_kept_def)

lemma memory_kept_trace: "trace_only s s' \<Longrightarrow> memory_kept s s'"
  by (auto elim!: trace_onlyE simp: memory_kept_def volumes_kept_def)

lemma has_path_kept: "has_path s mv \<Longrightarrow> memory_kept s s' \<Longrightarrow> has_path s' mv"
  by (fastforce simp: has_path_def memory_kept_def volumes_kept_def volume_kept_def)

lemma allocatable_kept:
  assumes "allocatable s b" "volumes_kept s s'"
  shows "allocatable s' b"
proof -
  obtain v where v: "nVolumes s b = Some v" "voAllocatedAt v \<noteq> None \<longrightarrow> voPath v \<noteq> None"
      "\<forall>src. voAllocatedAt v = None \<and> voSource v = Some src \<longrightarrow> path_at s src"
    using assms(1) by (auto simp: allocatable_def)
  obtain v' where v': "nVolumes s' b = Some v'" "volume_kept v v'" using assms(2) v(1) by (auto simp: volumes_kept_def)
  have "path_at s' src" if "voAllocatedAt v' = None" "voSource v' = Some src" for src
    using v(3) v'(2) that path_at_kept [OF _ assms(2)] by (simp add: volume_kept_def)
  with v v' show ?thesis by (auto simp: allocatable_def volume_kept_def)
qed

lemma image_prepared_kept:
  assumes "image_prepared s ia" "memory_kept s s'"
  shows "image_prepared s' ia"
proof -
  obtain i where i: "nImages s ia = Some i" "imPulledAt i = None \<longrightarrow> (\<exists>b. imVolume i = Some b \<and> allocatable s b)"
    using assms(1) by (auto simp: image_prepared_def)
  obtain i' where i': "nImages s' ia = Some i'" "image_kept s' i i'" using assms(2) i(1) by (auto simp: memory_kept_def)
  have "volumes_kept s s'" using assms(2) by (simp add: memory_kept_def)
  with i i' allocatable_kept show ?thesis unfolding image_prepared_def image_kept_def by metis
qed

lemma source_of_image_kept:
  assumes "source_of_image s mv src" "memory_kept s s'"
  shows "path_at s' src \<or> source_of_image s' mv src"
proof -
  obtain ia i where i: "mvImage mv = Some ia" "nImages s ia = Some i" "imPulledAt i = None" "imVolume i = Some src"
    using assms(1) by (auto simp: source_of_image_def)
  obtain i' where i': "nImages s' ia = Some i'" "image_kept s' i i'" using assms(2) i(2) by (auto simp: memory_kept_def)
  show ?thesis
    by (cases "imPulledAt i'") (use i i' in \<open>auto simp: image_kept_def source_of_image_def\<close>)
qed

lemma volume_prepared_kept:
  assumes p: "volume_prepared s mv" and k: "memory_kept s s'"
  shows "volume_prepared s' mv"
proof -
  obtain b v where b: "mvVolume mv = Some b" "nVolumes s b = Some v" "voAllocatedAt v \<noteq> None \<longrightarrow> voPath v \<noteq> None"
      "\<forall>src. voAllocatedAt v = None \<and> voSource v = Some src \<longrightarrow> path_at s src \<or> source_of_image s mv src"
    using p by (auto simp: volume_prepared_def)
  have vk: "volumes_kept s s'" using k by (simp add: memory_kept_def)
  then obtain v' where v': "nVolumes s' b = Some v'" "volume_kept v v'" using b(2) by (auto simp: volumes_kept_def)
  have "path_at s' src \<or> source_of_image s' mv src" if "voAllocatedAt v' = None" "voSource v' = Some src" for src
  proof -
    have "path_at s src \<or> source_of_image s mv src" using b(4) v'(2) that by (auto simp: volume_kept_def)
    then show ?thesis using path_at_kept [OF _ vk] source_of_image_kept [OF _ k] by blast
  qed
  moreover have "voAllocatedAt v' \<noteq> None \<longrightarrow> voPath v' \<noteq> None" using v'(2) b(3) by (auto simp: volume_kept_def)
  moreover have "\<forall>ia. mvImage mv = Some ia \<longrightarrow> image_prepared s' ia" using p image_prepared_kept [OF _ k] by (auto simp: volume_prepared_def)
  ultimately show ?thesis using b(1) v'(1) unfolding volume_prepared_def by blast
qed

lemma container_prepared_kept: "container_prepared m s a \<Longrightarrow> memory_kept s s' \<Longrightarrow> container_prepared m s' a"
  unfolding container_prepared_def memory_kept_def image_kept_def by metis

section \<open>Preparation succeeds\<close>

lemma SetupInterface_calm:
  assumes "calm up E" "nIfaces s a \<noteq> None"
  shows "\<exists>s'. SetupInterface E (Some a) s = (Ok (), s') \<and> trace_only s s'"
proof -
  obtain r s' where r: "SetupInterface E (Some a) s = (r, s')" by fastforce
  with assms have "r = Ok ()"
    by (auto simp: SetupInterface_def deref_Some call_cases Let_def applyTapFirewallRules_def runCmd_def split: flow_asm)
  with r SetupInterface_trace [OF r] show ?thesis by simp
qed

lemma containers_by_id_calm:
  assumes "\<forall>a \<in> set as. nContainers s a \<noteq> None"
  shows "\<exists>m'. containers_by_id as m s = (Ok m', s) \<and> dom m \<subseteq> dom m' \<and> (\<forall>a \<in> set as. \<forall>c. nContainers s a = Some c \<longrightarrow> m' (ctID c) \<noteq> None)"
  using assms
proof (induction as arbitrary: m)
  case (Cons a as)
  then obtain c where c: "nContainers s a = Some c" by auto
  have "\<forall>a \<in> set as. nContainers s a \<noteq> None" using Cons.prems by simp
  from Cons.IH [OF this, of "m(ctID c \<mapsto> a)"] obtain m' where
    "containers_by_id as (m(ctID c \<mapsto> a)) s = (Ok m', s)" "dom (m(ctID c \<mapsto> a)) \<subseteq> dom m'"
    "\<forall>a \<in> set as. \<forall>c. nContainers s a = Some c \<longrightarrow> m' (ctID c) \<noteq> None"
    by blast
  with c show ?case by (intro exI [of _ m']) (auto simp: deref_Some)
qed simp

lemma calm_registry [simp]: "calm up E \<Longrightarrow> env_err E t (Registry c) = None"
  unfolding calm_def by blast

lemma Volume_Allocate_calm:
  assumes c: "calm up E" and v: "nVolumes s b = Some v" "voAllocatedAt v = None" "\<forall>src. voSource v = Some src \<longrightarrow> path_at s src"
  shows "\<exists>s'. Volume_Allocate vg E (Some b) s = (Ok (), s') \<and> nContainers s' = nContainers s \<and> nIfaces s' = nIfaces s \<and>
    nImages s' = nImages s \<and> volumes_kept s s' \<and> path_at s' b"
proof (cases "voSource v")
  case None
  with c v show ?thesis
    by (auto simp: Volume_Allocate_def Volume_runCmd_def lvcreate_args_def deref_Some call_cases put_volume_def Let_def volumes_kept_def
        volume_kept_def path_at_def)
next
  case (Some src)
  with v(3) obtain w p where "nVolumes s src = Some w" "voPath w = Some p" by (auto simp: path_at_def)
  with Some c v(1,2) show ?thesis
    by (cases "src = b")
      (auto simp: Volume_Allocate_def Volume_runCmd_def lvcreate_args_def deref_def call_cases put_volume_def Let_def volumes_kept_def
        volume_kept_def path_at_def)
qed

text \<open>An allocation whose caller takes an allocated volume for a success.\<close>

lemma allocate_calm:
  assumes c: "calm up E" and a: "allocatable s b"
  shows "\<exists>s'. catchE (Volume_Allocate vg E (Some b) s) (\<lambda>_ s. (Ok (), s))
      (\<lambda>e s. if \<not> errors_is e ErrVolumeAlreadyAllocated then (Err (w e), s) else (Ok (), s)) = (Ok (), s') \<and>
    nContainers s' = nContainers s \<and> nIfaces s' = nIfaces s \<and> nImages s' = nImages s \<and> volumes_kept s s' \<and> path_at s' b"
proof -
  obtain v where v: "nVolumes s b = Some v" "voAllocatedAt v \<noteq> None \<longrightarrow> voPath v \<noteq> None"
      "\<forall>src. voAllocatedAt v = None \<and> voSource v = Some src \<longrightarrow> path_at s src"
    using a by (auto simp: allocatable_def)
  show ?thesis
  proof (cases "voAllocatedAt v = None")
    case True
    with v(3) Volume_Allocate_calm [OF c v(1) True, of vg] show ?thesis by auto
  next
    case False
    then have "Volume_Allocate vg E (Some b) s = (Err ErrVolumeAlreadyAllocated, s)" using v(1) by (auto simp: Volume_Allocate_def deref_Some)
    with False v show ?thesis by (auto simp: path_at_def volumes_kept_def)
  qed
qed

lemma download_layer_calm: "calm up E \<Longrightarrow> \<exists>s'. download_layer E d i s = (Ok (), s') \<and> trace_only s s'"
  by (simp add: download_layer_def call_cases)

lemma download_all_calm: "calm up E \<Longrightarrow> \<exists>s'. download_all E d is [] s = (Ok (), s') \<and> trace_only s s'"
proof (induction "is" arbitrary: s)
  case (Cons i "is")
  obtain s1 where 1: "download_layer E d i s = (Ok (), s1)" "trace_only s s1" using download_layer_calm [OF Cons.prems] by blast
  obtain s2 where 2: "download_all E d is [] s1 = (Ok (), s2)" "trace_only s1 s2" using Cons.IH [OF Cons.prems] by blast
  from 1 2 trace_only_trans show ?case by fastforce
qed simp

lemma extract_layers_calm: "calm up E \<Longrightarrow> \<exists>s'. extract_layers E d out is s = (Ok (), s') \<and> trace_only s s'"
proof (induction "is" arbitrary: s)
  case (Cons i "is")
  let ?s = "s\<lparr>nTrace := nTrace s @ [RunCmd ''tar'' [''-xf'', layer_path d i, ''-C'', out]]\<rparr>"
  obtain s2 where 2: "extract_layers E d out is ?s = (Ok (), s2)" "trace_only ?s s2" using Cons.IH [OF Cons.prems] by blast
  have "trace_only s ?s" by simp
  then have "trace_only s s2" using 2(2) by (rule trace_only_trans)
  with 2(1) Cons.prems show ?case by (simp add: call_cases)
qed simp

lemma extractImage_calm: "calm up E \<Longrightarrow> \<exists>s'. extractImage E n tmp out s = (Ok (), s') \<and> trace_only s s'"
proof -
  assume c: "calm up E"
  let ?d = "path_join [tmp, ''layers'']"
  let ?s = "s\<lparr>nTrace := nTrace s @ [Registry (RemoteLayers n), Os (Mkdir ?d 420)]\<rparr>" and ?n = "ne_layers E (nTrace s)"
  obtain s1 where 1: "download_all E ?d [0..<?n] [] ?s = (Ok (), s1)" "trace_only ?s s1" using download_all_calm [OF c] by blast
  obtain s2 where 2: "extract_layers E ?d out [0..<?n] s1 = (Ok (), s2)" "trace_only s1 s2" using extract_layers_calm [OF c] by blast
  have "trace_only s ?s" by simp
  then have "trace_only s s2" using 1(2) 2(2) by (blast intro: trace_only_trans)
  with 1 2 c show ?thesis by (simp add: extractImage_def call_cases call_val_cases Let_def)
qed

lemma image_volume_path_at:
  "imVolume i = Some b \<Longrightarrow> path_at s b \<Longrightarrow> \<exists>p. image_volume_path i s = (Ok p, s)"
  by (auto simp: image_volume_path_def deref_Some path_at_def)

lemma path_at_upd [simp]: "path_at (s\<lparr>nTrace := t\<rparr>) b = path_at s b"
  by (simp add: path_at_def)

lemma image_volume_path_trace:
  "image_volume_path i (s\<lparr>nTrace := t\<rparr>) = (fst (image_volume_path i s), s\<lparr>nTrace := t\<rparr>)"
  by (cases "imVolume i") (auto simp: image_volume_path_def deref_def split: option.split)

text \<open>The part of \<^verbatim>\<open>Pull\<close> with the temporary directory: the image gets its time, its volume a path.\<close>

lemma pull_in_tmp_calm:
  assumes c: "calm up E" and i: "nImages s a = Some img" "imVolume img = Some b" "allocatable s b"
  shows "\<exists>s' x. pull_in_tmp vg E a img tmp s = (Ok (), s') \<and> memory_kept s s' \<and> nImages s' a = Some (img\<lparr>imPulledAt := Some x\<rparr>) \<and> path_at s' b"
proof -
  let ?s = "s\<lparr>nTrace := nTrace s @ [Registry (ParseReference (imName img)), Registry (RemoteImage (imName img))]\<rparr>"
  let ?out = "path_join [tmp, ''output'']"
  have "allocatable ?s b" using allocatable_kept [OF i(3)] by (simp add: volumes_kept_def)
  from allocate_calm [OF c this, of vg "wrap_v (''failed to allocate volume '' @ imVolumeID img)"] obtain s1 where
    1: "catchE (Volume_Allocate vg E (Some b) ?s) (\<lambda>_ s. (Ok (), s))
      (\<lambda>e s. if \<not> errors_is e ErrVolumeAlreadyAllocated then (Err (wrap_v (''failed to allocate volume '' @ imVolumeID img) e), s) else (Ok (), s)) = (Ok (), s1)"
    and m1: "nContainers s1 = nContainers s" "nIfaces s1 = nIfaces s" "nImages s1 = nImages s" "volumes_kept s s1" "path_at s1 b"
    by (auto simp: volumes_kept_def)
  obtain p where p: "image_volume_path img s1 = (Ok p, s1)" using image_volume_path_at [OF i(2) m1(5)] by blast
  let ?s2 = "s1\<lparr>nTrace := nTrace s1 @ [Os (Mkdir ?out 420), RunCmd ''mkfs.ext4'' [p], Os (Mount p ?out ''ext4'')]\<rparr>"
  obtain s3 where 3: "extractImage E (imName img) tmp ?out ?s2 = (Ok (), s3)" "trace_only ?s2 s3" using extractImage_calm [OF c] by blast
  then obtain t where t: "s3 = s1\<lparr>nTrace := t\<rparr>" by (auto elim!: trace_onlyE)
  define x where "x = now E (s3\<lparr>nTrace := t @ [Os (Unmount ?out)]\<rparr>)"
  define s4 where "s4 = (put_image a (img\<lparr>imPulledAt := Some x\<rparr>) s1)\<lparr>nTrace := t @ [Os (Unmount ?out), Db (DbSaveImage [''PulledAt''] (img\<lparr>imPulledAt := Some x\<rparr>))]\<rparr>"
  have "pull_in_tmp vg E a img tmp s = (Ok (), s4)"
    using c i(2) 1 p 3(1)
    by (simp add: pull_in_tmp_def call_cases Image_runCmd_def Let_def image_volume_path_trace t s4_def x_def put_image_def)
  moreover have "memory_kept s s4" using m1 i
    by (auto simp: memory_kept_def s4_def put_image_def image_kept_def path_at_def volumes_kept_def)
  moreover have "nImages s4 a = Some (img\<lparr>imPulledAt := Some x\<rparr>)" "path_at s4 b" using m1(5) by (simp_all add: s4_def put_image_def path_at_def)
  ultimately show ?thesis by blast
qed

lemma Pull_calm:
  assumes c: "calm up E" and p: "image_prepared s ia"
  shows "\<exists>s'. Pull vg E (Some ia) s = (Ok (), s') \<and> memory_kept s s' \<and> (\<exists>i. nImages s' ia = Some i \<and> imPulledAt i \<noteq> None)"
proof -
  obtain img where img: "nImages s ia = Some img" "imPulledAt img = None \<longrightarrow> (\<exists>b. imVolume img = Some b \<and> allocatable s b)"
    using p by (auto simp: image_prepared_def)
  show ?thesis
  proof (cases "imPulledAt img = None")
    case False
    with img(1) show ?thesis by (auto simp: Pull_def deref_Some)
  next
    case True
    then obtain b where b: "imVolume img = Some b" "allocatable s b" using img(2) by blast
    let ?s = "s\<lparr>nTrace := nTrace s @ [Os (MkdirTemp ''image-*'')]\<rparr>"
    have "allocatable ?s b" using allocatable_kept [OF b(2)] by (simp add: volumes_kept_def)
    from pull_in_tmp_calm [OF c _ b(1) this, of ia vg "ne_tmpdir E (nTrace s)"] img(1) obtain s1 x where
      1: "pull_in_tmp vg E ia img (ne_tmpdir E (nTrace s)) ?s = (Ok (), s1)" "memory_kept ?s s1" "nImages s1 ia = Some (img\<lparr>imPulledAt := Some x\<rparr>)"
      by auto
    have "memory_kept s ?s" by (simp add: memory_kept_trace)
    then have "memory_kept s s1" using 1(2) by (rule memory_kept_trans)
    moreover have "memory_kept s1 (snd (call E (Os (RemoveAll (ne_tmpdir E (nTrace s)))) s1))" using c by (simp add: call_cases memory_kept_trace)
    ultimately have "memory_kept s (snd (call E (Os (RemoveAll (ne_tmpdir E (nTrace s)))) s1))" by (rule memory_kept_trans)
    with c img(1) True 1(1,3) show ?thesis by (simp add: Pull_def deref_Some call_val_cases call_cases deferE_def)
  qed
qed

lemma prepare_volume_calm:
  assumes c: "calm up E" and v: "volume_prepared s mv"
  shows "\<exists>s'. prepare_volume vg E mv s = (Ok (), s') \<and> memory_kept s s' \<and> has_path s' mv"
proof -
  obtain s1 where 1: "(if mvImage mv \<noteq> None then Pull vg E (mvImage mv) s else (Ok (), s)) = (Ok (), s1)" "memory_kept s s1"
      "\<forall>ia. mvImage mv = Some ia \<longrightarrow> (\<exists>i. nImages s1 ia = Some i \<and> imPulledAt i \<noteq> None)"
  proof (cases "mvImage mv")
    case None
    then show thesis using that [of s] by simp
  next
    case (Some ia)
    then have "image_prepared s ia" using v by (simp add: volume_prepared_def)
    from Pull_calm [OF c this, of vg] Some that show thesis by auto
  qed
  have v1: "volume_prepared s1 mv" using volume_prepared_kept [OF v 1(2)] .
  then obtain b w where b: "mvVolume mv = Some b" "nVolumes s1 b = Some w" "voAllocatedAt w \<noteq> None \<longrightarrow> voPath w \<noteq> None"
      "\<forall>src. voAllocatedAt w = None \<and> voSource w = Some src \<longrightarrow> path_at s1 src \<or> source_of_image s1 mv src"
    by (auto simp: volume_prepared_def)
  have "\<not> source_of_image s1 mv src" for src using 1(3) by (auto simp: source_of_image_def)
  with b(2-4) have "allocatable s1 b" by (auto simp: allocatable_def)
  from allocate_calm [OF c this, of vg "Wrap (''failed to allocate volume ('' @ mvVolumeID mv @ '')'')"] obtain s2 where
    2: "catchE (Volume_Allocate vg E (Some b) s1) (\<lambda>_ s. (Ok (), s))
      (\<lambda>e s. if \<not> errors_is e ErrVolumeAlreadyAllocated then (Err (Wrap (''failed to allocate volume ('' @ mvVolumeID mv @ '')'') e), s) else (Ok (), s)) = (Ok (), s2)"
    and m2: "nContainers s2 = nContainers s1" "nIfaces s2 = nIfaces s1" "nImages s2 = nImages s1" "volumes_kept s1 s2" "path_at s2 b"
    by blast
  have "prepare_volume vg E mv s = (Ok (), s2)" unfolding prepare_volume_def using 1(1) 2 b(1) by simp
  moreover have "memory_kept s s2" using memory_kept_trans [OF 1(2) memory_kept_same] m2 by blast
  moreover have "has_path s2 mv" using m2(5) b(1) by (auto simp: has_path_def path_at_def)
  ultimately show ?thesis by blast
qed

lemma prepare_volumes_calm:
  assumes "calm up E" "\<forall>mv \<in> set mvs. volume_prepared s mv \<and> byID (mvContainerID mv) \<noteq> None"
  shows "\<exists>s'. prepare_volumes vg E byID mvs [] s = (Ok (), s') \<and> memory_kept s s' \<and> (\<forall>mv \<in> set mvs. has_path s' mv)"
  using assms(2)
proof (induction mvs arbitrary: s)
  case (Cons mv mvs)
  then obtain s1 where 1: "prepare_volume vg E mv s = (Ok (), s1)" "memory_kept s s1" "has_path s1 mv"
    using prepare_volume_calm [OF assms(1), of s mv vg] by auto
  have "\<forall>mv \<in> set mvs. volume_prepared s1 mv \<and> byID (mvContainerID mv) \<noteq> None" using Cons.prems volume_prepared_kept [OF _ 1(2)] by auto
  from Cons.IH [OF this] obtain s2 where 2: "prepare_volumes vg E byID mvs [] s1 = (Ok (), s2)" "memory_kept s1 s2" "\<forall>mv \<in> set mvs. has_path s2 mv"
    by blast
  with 1 Cons.prems memory_kept_trans [OF 1(2) 2(2)] has_path_kept [OF 1(3) 2(2)] show ?case by auto
qed simp

lemma prepareMachine_calm:
  assumes c: "calm up E" and r: "machine_ready m s"
  shows "\<exists>s'. prepareMachine vg E m s = (Ok (), s') \<and> memory_kept s s' \<and> (\<forall>mv \<in> set (mVolumes m). has_path s' mv)"
proof -
  obtain a where a: "mNetworkInterface m = Some a" "nIfaces s a \<noteq> None" using r by (auto simp: machine_ready_def)
  have "\<forall>a \<in> set (mContainers m). nContainers s a \<noteq> None" using r by (auto simp: machine_ready_def list_all_iff container_prepared_def)
  then obtain byID where byID: "containers_by_id (mContainers m) Map.empty s = (Ok byID, s)"
      "\<forall>a \<in> set (mContainers m). \<forall>c. nContainers s a = Some c \<longrightarrow> byID (ctID c) \<noteq> None"
    using containers_by_id_calm [of "mContainers m" s Map.empty] by blast
  obtain s1 where 1: "SetupInterface E (Some a) s = (Ok (), s1)" "trace_only s s1" using SetupInterface_calm [OF c a(2)] by blast
  have "\<forall>mv \<in> set (mVolumes m). volume_prepared s1 mv \<and> byID (mvContainerID mv) \<noteq> None"
  proof
    fix mv assume mv: "mv \<in> set (mVolumes m)"
    then obtain a where "a \<in> set (mContainers m)" "map_option ctID (nContainers s a) = Some (mvContainerID mv)" "volume_prepared s mv"
      using r by (auto simp: machine_ready_def list_all_iff)
    with byID(2) volume_prepared_kept [OF _ memory_kept_trace [OF 1(2)]] show "volume_prepared s1 mv \<and> byID (mvContainerID mv) \<noteq> None"
      by auto
  qed
  from prepare_volumes_calm [OF c this] obtain s2 where "prepare_volumes vg E byID (mVolumes m) [] s1 = (Ok (), s2)"
      "memory_kept s1 s2" "\<forall>mv \<in> set (mVolumes m). has_path s2 mv"
    by blast
  with memory_kept_trans [OF memory_kept_trace [OF 1(2)]] a(1) byID(1) 1(1) show ?thesis by (simp add: prepareMachine_def)
qed

section \<open>The runtime starts\<close>

lemma container_volumes_member:
  "container_volumes vs m k = Some mv \<Longrightarrow> mv \<in> set vs \<or> m k = Some mv"
  by (induction vs m rule: container_volumes.induct) (auto split: if_splits)

text \<open>What an entry of the configuration needs; sharing an environment does not take it away.\<close>

definition entry_ready :: "(string \<rightharpoonup> machine_volume) \<Rightarrow> 'm node_scheme \<Rightarrow> nat \<Rightarrow> bool" where
  "entry_ready vols s a \<longleftrightarrow> (\<exists>c mv ia img. nContainers s a = Some c \<and> ctSpec c \<noteq> None \<and> vols (ctID c) = Some mv \<and> mvImage mv = Some ia \<and>
     nImages s ia = Some img \<and> imSpec img \<noteq> None \<and> has_path s mv)"

lemma entry_ready_share:
  "nContainers s a = Some c \<Longrightarrow> entry_ready vols s b \<Longrightarrow> entry_ready vols (share_env a c spec i s) b"
  by (cases "b = a") (auto simp: entry_ready_def has_path_def share_env_def split: option.splits)

lemma container_configs_calm:
  assumes "\<forall>a \<in> set as. entry_ready vols s a"
  shows "\<exists>cs s'. container_configs vols as s = (Ok cs, s')"
  using assms
proof (induction as arbitrary: s)
  case (Cons a as)
  then obtain c mv ia img spec i b v path where e: "nContainers s a = Some c" "ctSpec c = Some spec" "vols (ctID c) = Some mv"
      "mvImage mv = Some ia" "nImages s ia = Some img" "imSpec img = Some i" "mvVolume mv = Some b" "nVolumes s b = Some v" "voPath v = Some path"
    by (auto simp: entry_ready_def has_path_def)
  have "\<forall>b \<in> set as. entry_ready vols (share_env a c spec i s) b" using Cons.prems entry_ready_share [OF e(1)] by simp
  from Cons.IH [OF this] obtain cs s' where "container_configs vols as (share_env a c spec i s) = (Ok cs, s')" by blast
  with e show ?case by (simp add: deref_Some ptr_def Let_def)
qed simp

lemma Runtime_Start_calm:
  assumes c: "calm up E" and m: "mSpec m \<noteq> None" "mNetworkInterface m = Some a" "nIfaces s a \<noteq> None"
    and e: "\<forall>a \<in> set (mContainers m). entry_ready (container_volumes (mVolumes m) Map.empty) s a"
  shows "\<exists>s'. Runtime_Start cfg E m s = (Ok (), s')"
proof -
  let ?dir = "Os (MkdirAll (GetMachineDirectory cfg (mID m)) 420)"
  have "\<forall>a \<in> set (mContainers m). entry_ready (container_volumes (mVolumes m) Map.empty) (s\<lparr>nTrace := nTrace s @ [?dir]\<rparr>) a"
    using e by (simp add: entry_ready_def has_path_def)
  from container_configs_calm [OF this] obtain cs s' where
    "container_configs (container_volumes (mVolumes m) Map.empty) (mContainers m) (s\<lparr>nTrace := nTrace s @ [?dir]\<rparr>) = (Ok cs, s')"
    by blast
  with c m show ?thesis
    by (auto simp: Runtime_Start_def createRuntimeConfigFile_def call_cases ptr_def deref_def Let_def)
qed

lemma isMachineRuntimeStarted_calm:
  assumes "calm up E"
  shows "\<exists>s'. isMachineRuntimeStarted E m s = (Ok up, s') \<and> trace_only s s'"
  using calm_up [OF assms, of "nTrace s" "mID m"] isMachineRuntimeStarted_Ok [of E m s]
  by (cases "env_err E (nTrace s) (Rt (RuntimeGetState (mID m)))") (auto simp: isMachineRuntimeStarted_def call_cases)

lemma coBus_more: "node.more s' = node.more s \<Longrightarrow> coBus s' = coBus s"
  by (cases s; cases s') simp

lemma start_prepared_calm:
  assumes c: "calm up E" and r: "machine_ready m s" and x: "ctx \<notin> set (coCancelled s)"
  shows "\<exists>s'. start_prepared vg cfg E ctx m s = (Ok (MachineStateRunning, None), s') \<and> coBus s' = coBus s"
proof -
  obtain s1 where 1: "prepareMachine vg E m s = (Ok (), s1)" "memory_kept s s1" "\<forall>mv \<in> set (mVolumes m). has_path s1 mv"
    using prepareMachine_calm [OF c r] by blast
  obtain s2 where 2: "isMachineRuntimeStarted E m s1 = (Ok up, s2)" "trace_only s1 s2" using isMachineRuntimeStarted_calm [OF c] by blast
  have m1: "node.more s1 = node.more s" using prepareMachine_more [of s "node.more s" vg E m] 1(1) by (simp add: keeps_def)
  have m2: "node.more s2 = node.more s" using more_trace_only [OF 2(2)] m1 by simp
  show ?thesis
  proof (cases up)
    case True
    with 1(1) 2(1) coBus_more [OF m2] show ?thesis by (simp add: start_prepared_def or_error_def)
  next
    case False
    obtain a where a: "mSpec m \<noteq> None" "mNetworkInterface m = Some a" "nIfaces s a \<noteq> None" using r by (auto simp: machine_ready_def)
    have k: "memory_kept s s2" using memory_kept_trans [OF 1(2) memory_kept_trace [OF 2(2)]] .
    then have i: "nIfaces s2 a \<noteq> None" using a(3) by (simp add: memory_kept_def)
    have "\<forall>a \<in> set (mContainers m). entry_ready (container_volumes (mVolumes m) Map.empty) s2 a"
    proof
      fix a assume "a \<in> set (mContainers m)"
      then have "container_prepared m s a" using r by (simp add: machine_ready_def list_all_iff)
      then obtain c mv ia img where e: "nContainers s a = Some c" "ctSpec c \<noteq> None" "container_volumes (mVolumes m) Map.empty (ctID c) = Some mv"
          "mvImage mv = Some ia" "nImages s ia = Some img" "imSpec img \<noteq> None"
        by (auto simp: container_prepared_def)
      have "has_path s2 mv"
        using container_volumes_member [OF e(3)] 1(3) has_path_kept [OF _ memory_kept_trace [OF 2(2)]] by auto
      with e k show "entry_ready (container_volumes (mVolumes m) Map.empty) s2 a" unfolding entry_ready_def memory_kept_def image_kept_def by metis
    qed
    from Runtime_Start_calm [OF c a(1,2) i this] obtain s3 where 3: "Runtime_Start cfg E m s2 = (Ok (), s3)" by blast
    have m3: "node.more s3 = node.more s" using Runtime_Start_more [of s2 "node.more s2" cfg E m] 3 m2 by (simp add: keeps_def)
    have "ctx \<notin> set (coCancelled s2)" using x m2 by (cases s; cases s2) simp
    with False 1(1) 2(1) 3 coBus_more [OF m3] show ?thesis by (simp add: start_prepared_def or_error_def)
  qed
qed

end
