(* ===== verification/ControllerRunning.thy ===== *)
theory ControllerRunning
  imports ControllerPrepare
begin

text \<open>
  The other direction of progress: a new controller of a machine that shall run brings it to rest in
  the state running, with its listener started, when the calls to the outside succeed.
\<close>

section \<open>The steps to rest\<close>

text \<open>
  What the steps need to know of a controller, and how each changes it when the messages are handled in
  order; the last component says whether the images of a machine are pulled and its volumes allocated.
\<close>

definition view :: "machine \<Rightarrow> ctrl_node \<Rightarrow> message list \<times> machine_state \<times> machine_desired_state \<times> bool \<times> bool \<times> job list \<times> job list \<times> nat \<times> bool" where
  "view m s = (busPending (coBus s), mState (stMachine (coState s)), mDesiredState (stMachine (coState s)),
     stReconciliation (coState s) \<noteq> None, stRuntimeListener (coState s) \<noteq> None, coJobs s, coEnding s, length (coListeners s), machine_prepared m s)"

lemma prepared_upd [simp]:
  "machine_prepared m (s\<lparr>coBus := a\<rparr>) = machine_prepared m s" "machine_prepared m (s\<lparr>coState := b\<rparr>) = machine_prepared m s"
  "machine_prepared m (s\<lparr>coJobs := c\<rparr>) = machine_prepared m s" "machine_prepared m (s\<lparr>coEnding := c\<rparr>) = machine_prepared m s"
  "machine_prepared m (s\<lparr>coListeners := l\<rparr>) = machine_prepared m s" "machine_prepared m (s\<lparr>coNextCtx := n\<rparr>) = machine_prepared m s"
  "machine_prepared m (s\<lparr>nTrace := t\<rparr>) = machine_prepared m s"
  "machine_prepared (m\<lparr>mState := st\<rparr>) s = machine_prepared m s" "machine_prepared (m\<lparr>mTerminatedAt := x\<rparr>) s = machine_prepared m s"
  by (simp_all add: machine_prepared_def allocated_def pulled_def)

lemma receive_first: "busPending b = e # ps \<Longrightarrow> receive_event 0 b = Some (e, b\<lparr>busPending := ps\<rparr>)"
  by (simp add: receive_event_def)

lemma dispatch_first:
  assumes "busPending (coBus s) = e # ps" "eventHandler E e (s\<lparr>coBus := (coBus s)\<lparr>busPending := ps\<rparr>\<rparr>) = (Ok (), s')"
  shows "own_step vg cfg E s s'"
  using own_dispatch [OF receive_first [OF assms(1)] assms(2)] .

lemma view_state:
  assumes "view m s = (StateChangedMessage st n # ps, st0, d, rec, lis, js, es, k, p)" "calm up E"
  shows "\<exists>s'. own_step vg cfg E s s' \<and> view m s' = (ps @ [AssessStateMessage], st, d, rec, lis, js, es, k, p)"
proof -
  let ?s = "s\<lparr>coBus := (coBus s)\<lparr>busPending := ps\<rparr>\<rparr>"
  have "\<exists>s'. eventHandler E (StateChangedMessage st n) ?s = (Ok (), s') \<and> view m s' = (ps @ [AssessStateMessage], st, d, rec, lis, js, es, k, p)"
    using assms by (auto simp: view_def eventHandler_def SetState_def commit_def GetState_def save_state_def Let_def call_cases publish_def PublishEvent_def)
  moreover have "busPending (coBus s) = StateChangedMessage st n # ps" using assms(1) by (simp add: view_def)
  ultimately show ?thesis using dispatch_first by blast
qed

lemma view_complete:
  assumes "view m s = (ReconciliationCompleteMessage ok err # ps, st, d, rec, lis, js, es, k, p)"
  shows "\<exists>s'. own_step vg cfg E s s' \<and> view m s' = (ps, st, d, rec, lis, js, es, k, p)"
proof -
  let ?s = "s\<lparr>coBus := (coBus s)\<lparr>busPending := ps\<rparr>\<rparr>"
  have "eventHandler E (ReconciliationCompleteMessage ok err) ?s = (Ok (), ?s)" by (simp add: eventHandler_def)
  moreover have "view m ?s = (ps, st, d, rec, lis, js, es, k, p)" using assms by (simp add: view_def)
  moreover have "busPending (coBus s) = ReconciliationCompleteMessage ok err # ps" using assms by (simp add: view_def)
  ultimately show ?thesis using dispatch_first by blast
qed

lemma view_finish:
  assumes "view m s = (ps, st, d, rec, lis, js, [j], k, p)"
  shows "\<exists>s'. own_step vg cfg E s s' \<and> view m s' = (ps, st, d, False, lis, js, [], k, p)"
proof -
  have "\<exists>s'. finish_job j s = (Ok (), s') \<and> view m s' = (ps, st, d, False, lis, js, [], k, p)"
    using assms by (auto simp: view_def finish_job_def SetState_def commit_def GetState_def clear_reconciliation_def)
  moreover have "j \<in> set (coEnding s)" using assms by (simp add: view_def)
  ultimately show ?thesis using own_finish by blast
qed

lemma view_assess:
  assumes "view m s = (AssessStateMessage # ps, MachineStateRunning, d, rec, lis, js, es, k, p)" "d = MachineDesiredStateRunning \<or> rec"
  shows "\<exists>s'. own_step vg cfg E s s' \<and>
    view m s' = (ps, MachineStateRunning, d, rec, True, js, es, if lis then k else Suc k, p)"
proof -
  let ?s = "s\<lparr>coBus := (coBus s)\<lparr>busPending := ps\<rparr>\<rparr>"
  have "\<exists>s'. eventHandler E AssessStateMessage ?s = (Ok (), s') \<and>
      view m s' = (ps, MachineStateRunning, d, rec, True, js, es, if lis then k else Suc k, p)"
    using assms by (cases "stRuntimeListener (coState s)") (auto simp: view_def eventHandler_def assess_def GetState_def shouldReconcile_def reconcile_def
        shouldStartRuntimeListener_def Includes_iff startRuntimeListener_def new_ctx_def SetState_def commit_def Let_def)
  moreover have "busPending (coBus s) = AssessStateMessage # ps" using assms(1) by (simp add: view_def)
  ultimately show ?thesis using dispatch_first by blast
qed

text \<open>The waiting assessments of a machine that runs as it shall, or whose reconciliation is not over.\<close>

lemma view_assessments:
  assumes "view m s = (replicate q AssessStateMessage, MachineStateRunning, d, rec, lis, [], es, k, p)" "d = MachineDesiredStateRunning \<or> rec"
  shows "\<exists>s'. (own_step vg cfg E)\<^sup>*\<^sup>* s s' \<and>
    view m s' = ([], MachineStateRunning, d, rec, lis \<or> 0 < q, [], es, if lis \<or> q = 0 then k else Suc k, p)"
  using assms(1)
proof (induction q arbitrary: s lis k)
  case 0
  then show ?case by (intro exI [of _ s]) simp
next
  case (Suc q)
  then obtain s1 where 1: "own_step vg cfg E s s1"
    "view m s1 = (replicate q AssessStateMessage, MachineStateRunning, d, rec, True, [], es, if lis then k else Suc k, p)"
    using view_assess [of m s "replicate q AssessStateMessage" d rec lis "[]" es k p vg cfg E] assms(2) by auto
  from Suc.IH [OF 1(2)] obtain s2 where "(own_step vg cfg E)\<^sup>*\<^sup>* s1 s2"
    "view m s2 = ([], MachineStateRunning, d, rec, True, [], es, if lis then k else Suc k, p)"
    by auto
  with 1(1) show ?case by (intro exI [of _ s2]) auto
qed

text \<open>The reconciliation of a new controller: its assessment, and its body.\<close>

definition new_controller :: "machine \<Rightarrow> ctrl_node \<Rightarrow> bool" where
  "new_controller m s \<longleftrightarrow> coState s = \<lparr>stMachine = m, stReconciliation = None, stRuntimeListener = None\<rparr> \<and>
     busPending (coBus s) = [AssessStateMessage] \<and> \<not> coStopping s \<and> coJobs s = [] \<and> coEnding s = [] \<and> coListeners s = [] \<and>
     coCancelled s = []"

lemma Controller_New_is_new: "new_controller m (Controller_New i m n)"
  by (simp add: new_controller_def Controller_New_def node.extend_def PublishEvent_def SubscribeToEvents_def NewBus_def)

lemma new_controller_assessed:
  assumes "new_controller m s" "mDesiredState m = MachineDesiredStateRunning"
    "mState m \<notin> {MachineStateRunning, MachineStateDegraded, MachineStateError}"
  shows "\<exists>s1 j p. own_step vg cfg E s s1 \<and> view m s1 = ([], mState m, MachineDesiredStateRunning, True, False, [j], [], 0, p) \<and>
    jbDesired j = MachineDesiredStateRunning \<and> jbMachine j = m \<and> coCancelled s1 = [] \<and>
    nContainers s1 = nContainers s \<and> nImages s1 = nImages s \<and> nIfaces s1 = nIfaces s \<and> nVolumes s1 = nVolumes s"
proof -
  let ?s = "s\<lparr>coBus := (coBus s)\<lparr>busPending := []\<rparr>\<rparr>"
  have "busPending (coBus s) = [AssessStateMessage]" using assms(1) by (simp add: new_controller_def)
  moreover have "\<exists>s1 j p. eventHandler E AssessStateMessage ?s = (Ok (), s1) \<and> view m s1 = ([], mState m, MachineDesiredStateRunning, True, False, [j], [], 0, p) \<and>
      jbDesired j = MachineDesiredStateRunning \<and> jbMachine j = m \<and> coCancelled s1 = [] \<and>
      nContainers s1 = nContainers s \<and> nImages s1 = nImages s \<and> nIfaces s1 = nIfaces s \<and> nVolumes s1 = nVolumes s"
    using assms by (simp add: new_controller_def eventHandler_def assess_def GetState_def shouldReconcile_def
        shouldStartRuntimeListener_def Includes_iff reconcile_def new_ctx_def SetState_def commit_def Let_def view_def)
  ultimately show ?thesis using dispatch_first by blast
qed

lemma machine_ready_memory:
  assumes "nContainers s = nContainers n" "nImages s = nImages n" "nIfaces s = nIfaces n" "nVolumes s = nVolumes n"
  shows "machine_ready m s = machine_ready m n"
proof -
  have "container_prepared m s = container_prepared m n" by (simp add: container_prepared_def fun_eq_iff assms)
  moreover have "volume_prepared s = volume_prepared n"
    by (simp add: volume_prepared_def image_prepared_def allocatable_def source_of_image_def path_at_def fun_eq_iff assms)
  ultimately show ?thesis by (simp add: machine_ready_def assms)
qed

lemma view_run:
  assumes c: "calm up E" and ns: "no_sentinel E" and v: "view m s = ([], st, d, True, False, [j], [], 0, p)"
    and j: "jbDesired j = MachineDesiredStateRunning" "jbMachine j = m" "coCancelled s = []" and r: "machine_ready m s" and e: "mState m \<noteq> MachineStateError"
  shows "\<exists>s' ps n. own_step vg cfg E s s' \<and>
    view m s' = (ps @ [StateChangedMessage MachineStateRunning n, ReconciliationCompleteMessage True None], st, d, True, False, [], [j], 0, True) \<and>
    (ps = [] \<or> (\<exists>t. ps = [StateChangedMessage MachineStateStarting t]))"
proof -
  let ?s = "announce E m MachineStateStarting s"
  obtain ps where ps: "busPending (coBus ?s) = ps" "ps = [] \<or> (\<exists>t. ps = [StateChangedMessage MachineStateStarting t])"
    using v by (auto simp: announce_def view_def NewStateChangedMessage_def)
  have "machine_ready m ?s" using r machine_ready_memory [of ?s s m] by (simp add: announce_def publish_def)
  moreover have "jbCtx j \<notin> set (coCancelled ?s)" by (simp add: announce_def publish_def j(3))
  ultimately obtain s1 where
    1: "start_prepared vg cfg E (jbCtx j) m ?s = (Ok (MachineStateRunning, None), s1)" "coBus s1 = coBus ?s"
    using start_prepared_calm [OF c] by blast
  then have "reconcileToRunning vg cfg E (jbCtx j) m s = (Ok (MachineStateRunning, None), s1)" using e by (simp add: reconcileToRunning_def Let_def)
  then obtain s2 n where 2: "run_job vg cfg E j s = (Ok (), s2)"
    "busPending (coBus s2) = ps @ [StateChangedMessage MachineStateRunning n, ReconciliationCompleteMessage True None]"
    "nVolumes s2 = nVolumes s1 \<and> nImages s2 = nImages s1"
    using j 1(2) ps(1) by (auto simp: run_job_def Let_def NewStateChangedMessage_def)
  have "j \<in> set (coJobs s)" using v by (simp add: view_def)
  from own_run [OF this 2(1)] have "own_step vg cfg E s (begin_ending j s2)" .
  moreover have "machine_prepared m s1" using start_prepared_Running [OF 1(1) ns] by blast
  then have "machine_prepared m s2" using 2(3) by (simp add: machine_prepared_def allocated_def pulled_def)
  ultimately have "own_step vg cfg E s (begin_ending j s2)" "machine_prepared m s2" by blast+
  moreover have "view m (begin_ending j s2) =
      (ps @ [StateChangedMessage MachineStateRunning n, ReconciliationCompleteMessage True None], st, d, True, False, [], [j], 0, True)"
    using v 2(2) run_job_frame [OF 2(1)] \<open>machine_prepared m s2\<close>
    by (auto simp: view_def begin_ending_def ctrl_frame_def machine_prepared_def allocated_def pulled_def)
  ultimately show ?thesis using ps(2) by blast
qed

text \<open>From the end of the body on, the waiting messages bring the controller to rest.\<close>

lemma view_rest:
  assumes c: "calm up E"
    and v: "view m s = (StateChangedMessage MachineStateRunning n # ReconciliationCompleteMessage True None # replicate q AssessStateMessage,
      st, MachineDesiredStateRunning, True, False, [], [j], 0, p)"
  shows "\<exists>s'. (own_step vg cfg E)\<^sup>*\<^sup>* s s' \<and> view m s' = ([], MachineStateRunning, MachineDesiredStateRunning, False, True, [], [], 1, p)"
proof -
  have q: "replicate q AssessStateMessage @ [AssessStateMessage] = replicate (Suc q) AssessStateMessage"
    using replicate_append_same [of q AssessStateMessage] by simp
  obtain s1 where 1: "own_step vg cfg E s s1"
    "view m s1 = (ReconciliationCompleteMessage True None # replicate (Suc q) AssessStateMessage, MachineStateRunning, MachineDesiredStateRunning, True, False, [], [j], 0, p)"
    using view_state [OF v c, of vg cfg] unfolding append_Cons q by blast
  obtain s2 where 2: "own_step vg cfg E s1 s2"
    "view m s2 = (replicate (Suc q) AssessStateMessage, MachineStateRunning, MachineDesiredStateRunning, True, False, [], [j], 0, p)"
    using view_complete [OF 1(2), of vg cfg E] by blast
  obtain s3 where 3: "own_step vg cfg E s2 s3"
    "view m s3 = (replicate (Suc q) AssessStateMessage, MachineStateRunning, MachineDesiredStateRunning, False, False, [], [], 0, p)"
    using view_finish [OF 2(2), of vg cfg E] by blast
  obtain s4 where 4: "(own_step vg cfg E)\<^sup>*\<^sup>* s3 s4" "view m s4 = ([], MachineStateRunning, MachineDesiredStateRunning, False, True, [], [], 1, p)"
    using view_assessments [OF 3(2), of vg cfg E] by auto
  have "(own_step vg cfg E)\<^sup>*\<^sup>* s s4"
    using 1(1) 2(1) 3(1) 4(1) by (meson converse_rtranclp_into_rtranclp)
  with 4(2) show ?thesis by blast
qed

lemma view_from_body:
  assumes c: "calm up E"
    and v: "view m s = (ps @ [StateChangedMessage MachineStateRunning n, ReconciliationCompleteMessage True None],
      st, MachineDesiredStateRunning, True, False, [], [j], 0, p)" "ps = [] \<or> (\<exists>t. ps = [StateChangedMessage MachineStateStarting t])"
  shows "\<exists>s'. (own_step vg cfg E)\<^sup>*\<^sup>* s s' \<and> view m s' = ([], MachineStateRunning, MachineDesiredStateRunning, False, True, [], [], 1, p)"
  using v(2)
proof
  assume "ps = []"
  with v(1) view_rest [OF c, of m s n 0] show ?thesis by simp
next
  assume "\<exists>t. ps = [StateChangedMessage MachineStateStarting t]"
  then obtain t where "ps = [StateChangedMessage MachineStateStarting t]" ..
  with v(1) view_state [OF _ c, of m s MachineStateStarting t] obtain s1 where 1: "own_step vg cfg E s s1"
    "view m s1 = (StateChangedMessage MachineStateRunning n # ReconciliationCompleteMessage True None # replicate 1 AssessStateMessage,
      MachineStateStarting, MachineDesiredStateRunning, True, False, [], [j], 0, p)"
    by fastforce
  from view_rest [OF c 1(2), of vg cfg] 1(1) show ?thesis by (meson converse_rtranclp_into_rtranclp)
qed

text \<open>A new controller of a machine whose needs are met comes to rest.\<close>

lemma new_controller_runs:
  assumes c: "calm up E" and ns: "no_sentinel E" and n: "new_controller m s" and r: "machine_ready m s"
    and d: "mDesiredState m = MachineDesiredStateRunning" "mState m \<notin> {MachineStateRunning, MachineStateDegraded, MachineStateError}"
  shows "\<exists>s'. (own_step vg cfg E)\<^sup>*\<^sup>* s s' \<and> view m s' = ([], MachineStateRunning, MachineDesiredStateRunning, False, True, [], [], 1, True)"
proof -
  obtain s1 j p where 1: "own_step vg cfg E s s1" "view m s1 = ([], mState m, MachineDesiredStateRunning, True, False, [j], [], 0, p)"
      "jbDesired j = MachineDesiredStateRunning" "jbMachine j = m" "coCancelled s1 = []"
      "nContainers s1 = nContainers s" "nImages s1 = nImages s" "nIfaces s1 = nIfaces s" "nVolumes s1 = nVolumes s"
    using new_controller_assessed [OF n d] by blast
  have "machine_ready m s1" using r machine_ready_memory [OF 1(6-9)] by simp
  with view_run [OF c ns 1(2-5)] d(2) obtain s2 ps k where 2: "own_step vg cfg E s1 s2"
      "view m s2 = (ps @ [StateChangedMessage MachineStateRunning k, ReconciliationCompleteMessage True None],
        mState m, MachineDesiredStateRunning, True, False, [], [j], 0, True)" "ps = [] \<or> (\<exists>t. ps = [StateChangedMessage MachineStateStarting t])"
    by blast
  obtain s3 where "(own_step vg cfg E)\<^sup>*\<^sup>* s2 s3" "view m s3 = ([], MachineStateRunning, MachineDesiredStateRunning, False, True, [], [], 1, True)"
    using view_from_body [OF c 2(2,3)] by blast
  with 1(1) 2(1) show ?thesis by (meson converse_rtranclp_into_rtranclp)
qed

text \<open>
  C11: a machine that shall run comes to run: its new controller, in an environment whose calls succeed, can go
  by its own steps, its messages handled in the order they were published, to a state of rest, with the
  machine in the state running, its images pulled and its volumes allocated, no reconciliation going on,
  no message waiting and exactly one listener for the machine's runtime, whether the runtime was running
  before or has to be started.
\<close>

theorem machine_comes_to_run:
  assumes "calm up E" and "no_sentinel E" and "machine_ready m n" and "mDesiredState m = MachineDesiredStateRunning"
    and "mState m \<notin> {MachineStateRunning, MachineStateDegraded, MachineStateError}"
  shows "\<exists>s'. (own_step vg cfg E)\<^sup>*\<^sup>* (Controller_New i m n) s' \<and> busPending (coBus s') = [] \<and>
    mState (stMachine (coState s')) = MachineStateRunning \<and> machine_prepared m s' \<and>
    stReconciliation (coState s') = None \<and> stRuntimeListener (coState s') \<noteq> None \<and>
    coJobs s' = [] \<and> coEnding s' = [] \<and> length (coListeners s') = 1"
proof -
  have "machine_ready m (Controller_New i m n)"
    using assms(3) machine_ready_memory [of "Controller_New i m n" n m] by (simp add: Controller_New_def node.extend_def)
  from new_controller_runs [OF assms(1,2) Controller_New_is_new this assms(4,5)] obtain s' where
    "(own_step vg cfg E)\<^sup>*\<^sup>* (Controller_New i m n) s'" "view m s' = ([], MachineStateRunning, MachineDesiredStateRunning, False, True, [], [], 1, True)"
    by blast
  then show ?thesis by (intro exI [of _ s']) (auto simp: view_def)
qed

text \<open>The witness: the machine of the configuration file's witness, not yet started.\<close>

theorem machine_comes_to_run_witness:
  "\<exists>s'. (own_step ''vg'' sample_config quiet_env)\<^sup>*\<^sup>* (Controller_New ''s1'' sample_machine sample_node) s' \<and>
     mState (stMachine (coState (Controller_New ''s1'' sample_machine sample_node))) = MachineStatePending \<and>
     mState (stMachine (coState s')) = MachineStateRunning \<and> busPending (coBus s') = [] \<and> length (coListeners s') = 1"
proof -
  have c: "calm True quiet_env" "no_sentinel quiet_env" by (simp_all add: calm_def no_sentinel_def quiet_env_def)
  have r: "machine_ready sample_machine sample_node"
    by (simp add: machine_ready_def container_prepared_def volume_prepared_def image_prepared_def sample_machine_def sample_node_def bare_node_def)
  have m: "mDesiredState sample_machine = MachineDesiredStateRunning"
    "mState sample_machine \<notin> {MachineStateRunning, MachineStateDegraded, MachineStateError}"
    by (simp_all add: sample_machine_def)
  have "mState (stMachine (coState (Controller_New ''s1'' sample_machine sample_node))) = MachineStatePending"
    by (simp add: Controller_New_def node.extend_def sample_machine_def)
  with machine_comes_to_run [OF c r m, of "''vg''" sample_config "''s1''"] show ?thesis by blast
qed

end
