(* ===== verification/ControllerLost.thy ===== *)
theory ControllerLost
  imports ControllerRunning
begin

text \<open>
  What the mark of a reconciliation hides: an assessment that is handled while a reconciliation is marked
  does nothing and is not repeated when the mark is cleared, so a request can be lost.
\<close>

text \<open>The steps on the way, and what they leave alone.\<close>

definition memory_same :: "ctrl_node \<Rightarrow> ctrl_node \<Rightarrow> bool" where
  "memory_same s s' \<longleftrightarrow> nContainers s' = nContainers s \<and> nImages s' = nImages s \<and> nIfaces s' = nIfaces s \<and> nVolumes s' = nVolumes s \<and>
     coCancelled s' = coCancelled s"

lemma view_desired:
  assumes "view m s = (DesiredStateChangedMessage d' t # ps, st, d, rec, lis, js, es, k, p)" "calm up E"
  shows "\<exists>s'. own_step vg cfg E s s' \<and> view m s' = (ps @ [AssessStateMessage], st, d', rec, lis, js, es, k, p) \<and> memory_same s s'"
proof -
  let ?s = "s\<lparr>coBus := (coBus s)\<lparr>busPending := ps\<rparr>\<rparr>"
  have "\<exists>s'. eventHandler E (DesiredStateChangedMessage d' t) ?s = (Ok (), s') \<and>
      view m s' = (ps @ [AssessStateMessage], st, d', rec, lis, js, es, k, p) \<and> memory_same s s'"
    using assms by (auto simp: view_def eventHandler_def SetState_def commit_def GetState_def save_desired_state_def Let_def call_cases
        publish_def PublishEvent_def memory_same_def)
  moreover have "busPending (coBus s) = DesiredStateChangedMessage d' t # ps" using assms(1) by (simp add: view_def)
  ultimately show ?thesis using dispatch_first by blast
qed

lemma view_skipped:
  assumes "view m s = (AssessStateMessage # ps, st, d, True, False, js, es, k, p)" "st \<notin> {MachineStateRunning, MachineStateDegraded}"
  shows "\<exists>s'. own_step vg cfg E s s' \<and> view m s' = (ps, st, d, True, False, js, es, k, p) \<and> memory_same s s'"
proof -
  let ?s = "s\<lparr>coBus := (coBus s)\<lparr>busPending := ps\<rparr>\<rparr>"
  have "eventHandler E AssessStateMessage ?s = (Ok (), ?s)"
    using assms by (auto simp: view_def eventHandler_def assess_def GetState_def reconcile_def shouldStartRuntimeListener_def Includes_iff Let_def)
  moreover have "view m ?s = (ps, st, d, True, False, js, es, k, p)" "memory_same s ?s" using assms(1) by (auto simp: view_def memory_same_def)
  moreover have "busPending (coBus s) = AssessStateMessage # ps" using assms(1) by (simp add: view_def)
  ultimately show ?thesis using dispatch_first by blast
qed

lemma view_at_rest:
  assumes "view m s = ([], st, d, rec, lis, [], [], k, p)"
  shows "\<not> own_step vg cfg E s s'"
proof
  assume "own_step vg cfg E s s'"
  then show False using assms by (cases rule: own_step.cases) (auto simp: view_def receive_event_def split: if_splits)
qed

text \<open>Everything is handled before the mark is cleared.\<close>

lemma view_handled_first:
  assumes c: "calm up E"
    and v: "view m s = (StateChangedMessage MachineStateRunning n # ReconciliationCompleteMessage True None # replicate q AssessStateMessage,
      st, d, True, False, [], [j], 0, p)"
  shows "\<exists>s'. (own_step vg cfg E)\<^sup>*\<^sup>* s s' \<and> view m s' = ([], MachineStateRunning, d, False, True, [], [], 1, p)"
proof -
  have q: "replicate q AssessStateMessage @ [AssessStateMessage] = replicate (Suc q) AssessStateMessage"
    using replicate_append_same [of q AssessStateMessage] by simp
  obtain s1 where 1: "own_step vg cfg E s s1"
    "view m s1 = (ReconciliationCompleteMessage True None # replicate (Suc q) AssessStateMessage, MachineStateRunning, d, True, False, [], [j], 0, p)"
    using view_state [OF v c, of vg cfg] unfolding append_Cons q by blast
  obtain s2 where 2: "own_step vg cfg E s1 s2" "view m s2 = (replicate (Suc q) AssessStateMessage, MachineStateRunning, d, True, False, [], [j], 0, p)"
    using view_complete [OF 1(2), of vg cfg E] by blast
  obtain s3 where 3: "(own_step vg cfg E)\<^sup>*\<^sup>* s2 s3" "view m s3 = ([], MachineStateRunning, d, True, True, [], [j], 1, p)"
    using view_assessments [OF 2(2), of vg cfg E] by auto
  obtain s4 where 4: "own_step vg cfg E s3 s4" "view m s4 = ([], MachineStateRunning, d, False, True, [], [], 1, p)"
    using view_finish [OF 3(2), of vg cfg E] by blast
  have "(own_step vg cfg E)\<^sup>*\<^sup>* s s4" using 1(1) 2(1) 3(1) 4(1) by (meson converse_rtranclp_into_rtranclp rtranclp.rtrancl_into_rtrancl)
  with 4(2) show ?thesis by blast
qed



end
