(* ===== verification/CreatedMachine.thy ===== *)
theory CreatedMachine
  imports MachineServiceProps ControllerRunning
begin

text \<open>
  A machine from its creation to its running: what the machine service builds is what the controller of
  the machine needs, images that are not pulled yet included.
\<close>

section \<open>What creation builds\<close>

text \<open>
  The rows of images as the agent stores them: with a specification and a volume without a source, which
  has a path when it is allocated and when the image is pulled.
\<close>

definition image_row_ok :: "image \<Rightarrow> volume \<Rightarrow> bool" where
  "image_row_ok i v \<longleftrightarrow> imSpec i \<noteq> None \<and> voSource v = None \<and> (imPulledAt i \<noteq> None \<or> voAllocatedAt v \<noteq> None \<longrightarrow> voPath v \<noteq> None)"

definition rows_ok :: "'e node_env_scheme \<Rightarrow> bool" where
  "rows_ok E \<longleftrightarrow> (\<forall>t. image_row_ok (fst (ne_image E t)) (snd (ne_image E t)))"

lemma FetchDetails_row:
  assumes "FetchDetails E n s = (Ok ia, s')" "rows_ok E"
  shows "\<exists>i b v. nImages s' ia = Some i \<and> imVolume i = Some b \<and> nVolumes s' b = Some v \<and> b < nNext s' \<and> ia < nNext s' \<and> image_row_ok i v"
  using assms
  by (auto simp: FetchDetails_def gen_id_def new_image_def put_image_def put_volume_def Let_def rows_ok_def image_row_ok_def
      image_of_config_def new_image_volume_def split: flow_asm if_splits)

text \<open>What a container, at \<open>ca\<close>, and its volume need, once they are built; later steps do not touch it.\<close>

definition container_built :: "'m node_scheme \<Rightarrow> nat \<Rightarrow> machine_volume \<Rightarrow> bool" where
  "container_built s ca mv \<longleftrightarrow> (\<exists>c va v ia i b w. ca < nNext s \<and> nContainers s ca = Some c \<and> ctSpec c \<noteq> None \<and> ctID c = mvContainerID mv \<and>
     mvVolume mv = Some va \<and> va < nNext s \<and> nVolumes s va = Some v \<and> voAllocatedAt v = None \<and> voSource v = Some b \<and>
     mvImage mv = Some ia \<and> ia < nNext s \<and> nImages s ia = Some i \<and> imVolume i = Some b \<and> b < nNext s \<and> nVolumes s b = Some w \<and> image_row_ok i w)"

lemma container_built_grows: "container_built s ca mv \<Longrightarrow> store_grows s s' \<Longrightarrow> container_built s' ca mv"
  by (fastforce simp: container_built_def store_grows_def)

lemma add_container_built:
  assumes r: "add_containers E (opt # opts) m s = (Ok m', s')" and rows: "rows_ok E"
  obtains ca mv s1 where "store_grows s s1" "container_built s1 ca mv"
    "add_containers E opts (m\<lparr>mContainers := mContainers m @ [ca], mVolumes := mVolumes m @ [mv]\<rparr>) s1 = (Ok m', s')"
proof -
  obtain spec where sp: "mccSpec opt = Some spec" using r by (cases "mccSpec opt") auto
  obtain r0 s0 where f: "FetchDetails E (csImage spec) s = (r0, s0)" by fastforce
  with r sp obtain ia where ia: "r0 = Ok ia" by (cases r0) auto
  have g0: "store_grows s s0" using keepsD [OF FetchDetails_grows [OF store_grows_refl] f] .
  obtain im b w where im: "nImages s0 ia = Some im" "imVolume im = Some b" "nVolumes s0 b = Some w" "b < nNext s0" "ia < nNext s0" "image_row_ok im w"
    using FetchDetails_row [OF _ rows] f ia by blast
  let ?va = "Suc (nNext s0)"
  define vid where "vid = env_id E (nTrace s0)"
  define mv where "mv = machine_volume_of (env_id E (nTrace s0 @ [GenID])) (length (mVolumes m)) (mID m) (mccContainerID opt) ia im ?va vid"
  define s1 where "s1 = s0\<lparr>nTrace := nTrace s0 @ [GenID, GenID],
     nContainers := (nContainers s0)(nNext s0 \<mapsto> \<lparr>ctID = mccContainerID opt, ctMachineID = mID m, ctSpec = Some spec\<rparr>),
     nVolumes := (nVolumes s0)(?va \<mapsto> container_volume vid im w), nNext := Suc ?va\<rparr>"
  have "add_containers E opts (m\<lparr>mContainers := mContainers m @ [nNext s0], mVolumes := mVolumes m @ [mv]\<rparr>) s1 = (Ok m', s')"
    using r sp f ia im by (simp add: deref_def gen_id_def Let_def s1_def mv_def vid_def)
  moreover have "store_grows s s1" using g0 by (auto simp: store_grows_def s1_def)
  moreover have "container_built s1 (nNext s0) mv"
    using im by (auto simp: container_built_def s1_def mv_def machine_volume_of_def container_volume_def)
  ultimately show thesis by (rule that [rotated 2])
qed

lemma add_containers_built:
  assumes "add_containers E opts m s = (Ok m', s')" "rows_ok E" "list_all2 (container_built s) (mContainers m) (mVolumes m)"
  shows "list_all2 (container_built s') (mContainers m') (mVolumes m')"
  using assms(1,3)
proof (induction opts arbitrary: m s)
  case (Cons opt opts)
  obtain ca mv s1 where 1: "store_grows s s1" "container_built s1 ca mv"
    "add_containers E opts (m\<lparr>mContainers := mContainers m @ [ca], mVolumes := mVolumes m @ [mv]\<rparr>) s1 = (Ok m', s')"
    using add_container_built [OF Cons.prems(1) assms(2)] by metis
  have "list_all2 (container_built s1) (mContainers m) (mVolumes m)"
    using Cons.prems(2) container_built_grows [OF _ 1(1)] by (rule list_all2_mono)
  with 1(2) have "list_all2 (container_built s1) (mContainers m @ [ca]) (mVolumes m @ [mv])" by (intro list_all2_appendI) auto
  with Cons.IH [OF 1(3)] show ?case by simp
qed simp

text \<open>A created machine is ready, in any memory that has what was built.\<close>

lemma container_volumes_some:
  "(\<exists>mv \<in> set vs. mvContainerID mv = k) \<or> m k \<noteq> None \<Longrightarrow> container_volumes vs m k \<noteq> None"
  by (induction vs m rule: container_volumes.induct) auto

lemma container_built_at:
  assumes "list_all2 (container_built s) as mvs"
  shows "\<forall>a \<in> set as. \<exists>mv \<in> set mvs. container_built s a mv" "\<forall>mv \<in> set mvs. \<exists>a \<in> set as. container_built s a mv"
  using assms by (induction rule: list_all2_induct) auto

lemma built_volume_prepared:
  assumes "container_built s a mv"
  shows "volume_prepared s mv \<and> map_option ctID (nContainers s a) = Some (mvContainerID mv)"
  using assms by (auto simp: container_built_def volume_prepared_def image_prepared_def allocatable_def source_of_image_def path_at_def image_row_ok_def)

lemma built_machine_ready:
  assumes b: "list_all2 (container_built s) (mContainers m) (mVolumes m)" and m: "mSpec m \<noteq> None"
    "mNetworkInterface m = Some ni" "nIfaces s ni \<noteq> None"
  shows "machine_ready m s"
proof -
  have "container_prepared m s a" if a: "a \<in> set (mContainers m)" for a
  proof -
    obtain mv where mv: "mv \<in> set (mVolumes m)" "container_built s a mv" using container_built_at(1) [OF b] a by blast
    obtain c where c: "nContainers s a = Some c" "ctSpec c \<noteq> None" "ctID c = mvContainerID mv" using mv(2) by (auto simp: container_built_def)
    obtain mv' where mv': "container_volumes (mVolumes m) Map.empty (ctID c) = Some mv'"
      using container_volumes_some [of "mVolumes m" "ctID c" Map.empty] mv(1) c(3) by force
    then have "mv' \<in> set (mVolumes m)" using container_volumes_member by fastforce
    then obtain a' where "container_built s a' mv'" using container_built_at(2) [OF b] by blast
    with c mv' show ?thesis by (auto simp: container_prepared_def container_built_def image_row_ok_def)
  qed
  moreover have "volume_prepared s mv \<and> (\<exists>a \<in> set (mContainers m). map_option ctID (nContainers s a) = Some (mvContainerID mv))"
    if "mv \<in> set (mVolumes m)" for mv
    using container_built_at(2) [OF b] built_volume_prepared that by blast
  ultimately show ?thesis using m by (simp add: machine_ready_def list_all_iff)
qed

section \<open>From the creation to the running machine\<close>

lemma set_controller_new:
  "\<exists>c. msControllers (set_controller E m s) = AList.update (mID m) c (msControllers s) \<and> new_controller m (ctrl_at c n)"
  by (auto simp: set_controller_def newMachineController_def gen_id_def Let_def new_controller_def Controller_New_def SubscribeToEvents_def
      PublishEvent_def NewBus_def node.defs ctrl_at_def)

lemma created_parts:
  assumes inv: "net_inv s" and r: "Create E opts s = (Ok m, s')" and rows: "rows_ok E"
  obtains c where "map_of (msControllers s') (mcoMachineID opts) = Some c" "new_controller m (ctrl_at c s')"
    "list_all2 (container_built s') (mContainers m) (mVolumes m)" "mSpec m = mcoSpec opts" "mDesiredState m = mcoDesiredState opts"
    "mState m = MachineStatePending" "mNetworkInterface m \<noteq> None" "\<forall>a. mNetworkInterface m = Some a \<longrightarrow> nIfaces s' a \<noteq> None"
    "length (mVolumes m) = length (mcoContainers opts)"
  using r inv
proof (cases rule: Create_cases)
  case (created a s1 s2 ni m0)
  let ?m = "m0\<lparr>mNetworkInterfaceID := Some (niID ni), mNetworkInterface := Some a\<rparr>"
  let ?t = "s2\<lparr>nTrace := nTrace s2 @ [Db (DbCreateMachine ?m)]\<rparr>"
  have m: "m = ?m" using created(5) by simp
  note id = add_containers_id [OF created(1)]
  obtain c where c: "msControllers s' = AList.update (mID ?m) c (msControllers ?t)" "new_controller ?m (ctrl_at c s')"
    using set_controller_new [of E ?m ?t s'] created(6) by auto
  have k: "map_of (msControllers s') (mcoMachineID opts) = Some c" using c(1) id by (simp add: update_conv' new_machine_def)
  have "list_all2 (container_built s1) (mContainers m0) (mVolumes m0)"
    using add_containers_built [OF created(1) rows] by (simp add: new_machine_def)
  moreover have "store_grows s1 s2" using keepsD [OF AllocateInterface_grows [OF store_grows_refl] created(2)] .
  moreover have "store_grows s2 s'" "nIfaces s' = nIfaces s2"
    using created(6) by (auto simp: set_controller_def newMachineController_def gen_id_def Let_def store_grows_def)
  ultimately have "list_all2 (container_built s') (mContainers m0) (mVolumes m0)"
    using container_built_grows store_grows_trans by (blast intro: list_all2_mono)
  moreover have "length (mVolumes m0) = length (mcoContainers opts)" using add_containers_ready [OF created(1)] by (auto simp: new_machine_def)
  ultimately show thesis
    using that [OF k] c(2) id created(3) \<open>nIfaces s' = nIfaces s2\<close> by (simp add: m new_machine_def)
qed auto

text \<open>
  C8: a created machine comes to run: after a creation that succeeded, with whatever images, stored before
  or not, pulled or not, and an environment whose calls succeed from then on, the controller that the
  machine service made can go by its own steps to a state of rest, with the machine in the state running,
  one allocated volume for each of its containers, their images pulled, and one listener for its runtime.
\<close>

theorem created_machine_runs:
  assumes "net_inv s" and "Create E opts s = (Ok m, s')" and "rows_ok E"
    and "mcoDesiredState opts = MachineDesiredStateRunning" and "mcoSpec opts \<noteq> None" and "calm up E'" and "no_sentinel E'"
  shows "\<exists>c t. map_of (msControllers s') (mcoMachineID opts) = Some c \<and> (own_step vg cfg E')\<^sup>*\<^sup>* (ctrl_at c s') t \<and>
    busPending (coBus t) = [] \<and> mState (stMachine (coState t)) = MachineStateRunning \<and> stReconciliation (coState t) = None \<and>
    length (mVolumes m) = length (mcoContainers opts) \<and> machine_prepared m t \<and> length (coListeners t) = 1"
proof -
  obtain c where c: "map_of (msControllers s') (mcoMachineID opts) = Some c" "new_controller m (ctrl_at c s')"
    "list_all2 (container_built s') (mContainers m) (mVolumes m)" "mSpec m = mcoSpec opts" "mDesiredState m = mcoDesiredState opts"
    "mState m = MachineStatePending" "mNetworkInterface m \<noteq> None" "\<forall>a. mNetworkInterface m = Some a \<longrightarrow> nIfaces s' a \<noteq> None"
    "length (mVolumes m) = length (mcoContainers opts)"
    by (rule created_parts [OF assms(1-3)])
  obtain a where a: "mNetworkInterface m = Some a" "nIfaces s' a \<noteq> None" using c(7,8) by blast
  have "machine_ready m s'" using built_machine_ready [OF c(3) _ a] c(4) assms(5) by simp
  then have "machine_ready m (ctrl_at c s')" using machine_ready_memory [of "ctrl_at c s'" s' m] by simp
  from new_controller_runs [OF assms(6,7) c(2) this] c(5,6) assms(4) obtain t where
    "(own_step vg cfg E')\<^sup>*\<^sup>* (ctrl_at c s') t" "view m t = ([], MachineStateRunning, MachineDesiredStateRunning, False, True, [], [], 1, True)"
    by (metis (no_types, lifting) emptyE insertE machine_state.distinct(1,3,5,7,9,11,13,15))
  with c(1,9) show ?thesis by (intro exI [of _ c] exI [of _ t]) (auto simp: view_def)
qed

text \<open>The witness: a machine with one container, whose image is stored but not pulled.\<close>

definition row_env :: node_env where
  "row_env = quiet_env\<lparr>ne_image := \<lambda>_. (\<lparr>imID = ''i'', imDigest = ''d'', imName = ''nginx'', imSpec = Some \<lparr>imsUser = [], imsWorkingDir = [],
       imsEnv = Map.empty, imsCommand = [''nginx'']\<rparr>, imVolumeID = ''v'', imVolume = None, imPulledAt = None\<rparr>, new_image_volume ''v'' 0)\<rparr>"

definition run_options :: machine_create_options where
  "run_options = sample_options\<lparr>mcoSpec := Some \<lparr>msName = None, msCpus = 2, msMemoryMB = 512, msTimeout = None\<rparr>\<rparr>"

lemma Create_run: "\<exists>m s'. Create row_env run_options start_service = (Ok m, s')"
proof -
  have e: "env_err row_env t c = None" for t c by (simp add: row_env_def quiet_env_def)
  obtain m s1 where 1: "add_containers row_env (mcoContainers run_options) (new_machine run_options) start_service = (Ok m, s1)"
    by (simp add: run_options_def sample_options_def FetchDetails_def call_cases call_val_cases row_env_def quiet_env_def new_image_def put_image_def
        put_volume_def gen_id_def Let_def deref_Some)
  have "net_same start_service s1" using keepsD [OF add_containers_net [OF net_same_refl] 1] .
  then have "nNet s1 = start_provider" by (simp add: net_same_def)
  from AllocateInterface_quiet [OF this, of row_env] e obtain s2 ni where
    "AllocateInterface row_env s1 = (Ok (nNext s1), s2)" "nIfaces s2 (nNext s1) = Some ni" by blast
  with 1 e show ?thesis by (simp add: Create_def deref_Some call_cases deferE_def Let_def)
qed

theorem created_machine_runs_witness:
  "\<exists>m s' c t. Create row_env run_options start_service = (Ok m, s') \<and> length (mVolumes m) = 1 \<and>
     (own_step ''vg'' sample_config quiet_env)\<^sup>*\<^sup>* (ctrl_at c s') t \<and> mState (stMachine (coState t)) = MachineStateRunning"
proof -
  obtain m s' where r: "Create row_env run_options start_service = (Ok m, s')" using Create_run by blast
  have inv: "net_inv start_service" by simp
  have rows: "rows_ok row_env" by (simp add: rows_ok_def image_row_ok_def row_env_def quiet_env_def new_image_volume_def)
  have d: "mcoDesiredState run_options = MachineDesiredStateRunning" "mcoSpec run_options \<noteq> None" "length (mcoContainers run_options) = 1"
    by (simp_all add: run_options_def sample_options_def)
  have c: "calm True quiet_env" "no_sentinel quiet_env" by (simp_all add: calm_def no_sentinel_def quiet_env_def)
  from created_machine_runs [OF inv r rows d(1,2) c, of "''vg''" sample_config] r d(3) show ?thesis by metis
qed

end
