(* ===== verification/SharedImages.thy ===== *)
theory SharedImages
  imports CreatedMachine
begin

text \<open>
  Two machines created from one stored image that is not pulled yet have each an object of their own
  for it and for its volume.  Once one of them is pulled, the logical volume exists, and the pull of the
  other fails for ever.
\<close>

section \<open>Calls that leave a logical volume alone\<close>

definition lvremove :: "string \<Rightarrow> string \<Rightarrow> node_call" where
  "lvremove vg nm = RunCmd ''lvremove'' [''-y'', vg @ ''/'' @ nm]"

text \<open>Documented behaviour of \<^verbatim>\<open>lvcreate\<close>: a name that was created and not removed is refused.\<close>

definition lvm_refuses :: "string \<Rightarrow> 'e node_env_scheme \<Rightarrow> bool" where
  "lvm_refuses vg E \<longleftrightarrow> (\<forall>t args. 0 < creations E (args ! 5) t \<and> lvremove vg (args ! 5) \<notin> set t \<longrightarrow>
     env_err E t (RunCmd ''lvcreate'' args) \<noteq> None)"

text \<open>A property of the memory that no call but the removal of one volume ends.\<close>

locale call_closed =
  fixes vg nm :: string and P :: "'m node_scheme \<Rightarrow> bool"
  assumes closed: "P s \<Longrightarrow> c \<noteq> lvremove vg nm \<Longrightarrow> P (s\<lparr>nTrace := nTrace s @ [c]\<rparr>)"
begin

lemma download_all_closed: "P s \<Longrightarrow> keeps P (download_all E d is errs s)"
  by (induction "is" arbitrary: errs s) (auto simp: download_layer_def lvremove_def intro!: keeps_intros closed)

lemma extract_layers_closed: "P s \<Longrightarrow> keeps P (extract_layers E d out is s)"
  by (induction "is" arbitrary: s) (auto simp: lvremove_def intro!: keeps_intros closed)

lemma extractImage_closed: "P s \<Longrightarrow> keeps P (extractImage E n tmp out s)"
  by (auto simp: extractImage_def Let_def lvremove_def intro!: keeps_intros closed download_all_closed extract_layers_closed)

lemma SetupInterface_closed: "P s \<Longrightarrow> keeps P (SetupInterface E p s)"
  by (auto simp: SetupInterface_def applyTapFirewallRules_def runCmd_def del_tap_def Let_def lvremove_def intro!: keeps_intros closed)

lemma runtime_closed: "P s \<Longrightarrow> keeps P (isMachineRuntimeStarted E m s)" "P s \<Longrightarrow> keeps P (Terminate E i s)"
  by (auto simp: isMachineRuntimeStarted_def Terminate_def lvremove_def intro!: keeps_intros closed)

end

section \<open>An image whose volume exists already\<close>

text \<open>An image object at \<open>a\<close>, not pulled, whose volume object at \<open>b\<close> does not know that it was created.\<close>

definition blocked :: "string \<Rightarrow> 'e node_env_scheme \<Rightarrow> nat \<Rightarrow> nat \<Rightarrow> string \<Rightarrow> 'm node_scheme \<Rightarrow> bool" where
  "blocked vg E a b nm s \<longleftrightarrow> (\<exists>i. nImages s a = Some i \<and> imPulledAt i = None \<and> imVolume i = Some b) \<and>
     (\<exists>v. nVolumes s b = Some v \<and> voAllocatedAt v = None \<and> voID v = nm) \<and>
     0 < creations E nm (nTrace s) \<and> lvremove vg nm \<notin> set (nTrace s)"

interpretation blk: call_closed vg nm "blocked vg E a b nm" for vg nm E a b
  by unfold_locales (auto simp: blocked_def)

lemma blocked_memory:
  "nImages s' = nImages s \<Longrightarrow> nVolumes s' = nVolumes s \<Longrightarrow> nTrace s' = nTrace s \<Longrightarrow> blocked vg E a b nm s' = blocked vg E a b nm s"
  by (simp add: blocked_def)

lemma blocked_put_volume: "x \<noteq> b \<Longrightarrow> blocked vg E a b nm (put_volume x v s) = blocked vg E a b nm s"
  by (simp add: blocked_def put_volume_def)

lemma blocked_put_image: "x \<noteq> a \<Longrightarrow> blocked vg E a b nm (put_image x i s) = blocked vg E a b nm s"
  by (simp add: blocked_def put_image_def)

lemma not_sentinel: "no_sentinel E \<Longrightarrow> env_err E t c = Some e \<Longrightarrow> \<not> errors_is e ErrVolumeAlreadyAllocated"
  by (auto simp: no_sentinel_def)

text \<open>Its volume cannot be allocated.\<close>

lemma Volume_Allocate_refused:
  assumes l: "lvm_refuses vg E" and b: "blocked vg E a b nm s" and n: "no_sentinel E" and r: "Volume_Allocate vg E (Some b) s = (r, s')"
  shows "blocked vg E a b nm s' \<and> r \<noteq> Ok () \<and> (\<forall>e. r = Err e \<longrightarrow> \<not> errors_is e ErrVolumeAlreadyAllocated)"
proof -
  obtain v where v: "nVolumes s b = Some v" "voAllocatedAt v = None" "voID v = nm" using b by (auto simp: blocked_def)
  let ?v = "v\<lparr>voPath := Some (volume_path vg v)\<rparr>"
  let ?s = "put_volume b ?v s"
  have bs: "blocked vg E a b nm ?s" using b v by (auto simp: blocked_def put_volume_def)
  obtain q s1 where q: "lvcreate_args vg ?v ?s = (q, s1)" by fastforce
  have s1: "s1 = ?s" by (rule lvcreate_args_state [OF q])
  show ?thesis
  proof (cases q)
    case (Ok args)
    then have "args ! 5 = nm" using lvcreate_args_Ok q v(3) by fastforce
    then have "env_err E (nTrace ?s) (RunCmd ''lvcreate'' args) \<noteq> None" using l bs by (auto simp: lvm_refuses_def blocked_def)
    then obtain e where e: "env_err E (nTrace ?s) (RunCmd ''lvcreate'' args) = Some e" by blast
    have "blocked vg E a b nm (?s\<lparr>nTrace := nTrace ?s @ [RunCmd ''lvcreate'' args]\<rparr>)"
      by (rule blk.closed [OF bs]) (simp add: lvremove_def)
    with r v q s1 Ok e not_sentinel [OF n e] show ?thesis
      by (auto simp: Volume_Allocate_def deref_Some Let_def Volume_runCmd_def call_cases)
  next
    case (Err e)
    then have "\<not> errors_is e ErrVolumeAlreadyAllocated" using q by (auto simp: lvcreate_args_def split: flow_asm option.splits if_splits)
    with r v q s1 Err bs show ?thesis by (auto simp: Volume_Allocate_def deref_Some Let_def)
  next
    case (Panic m)
    with r v q s1 bs show ?thesis by (auto simp: Volume_Allocate_def deref_Some Let_def)
  qed
qed

lemma Volume_Allocate_blocked:
  assumes l: "lvm_refuses vg E" and n: "no_sentinel E" and b: "blocked vg E a b nm s"
  shows "keeps (blocked vg E a b nm) (Volume_Allocate vg E p s)"
proof (cases "p = Some b")
  case True
  obtain r s' where r: "Volume_Allocate vg E p s = (r, s')" by fastforce
  with True Volume_Allocate_refused [OF l b n, of r s'] show ?thesis by simp
next
  case False
  show ?thesis
  proof (cases p)
    case None
    with b show ?thesis by (simp add: Volume_Allocate_def deref_def)
  next
    case (Some x)
    with False have "x \<noteq> b" by simp
    with b Some show ?thesis
      by (auto simp: Volume_Allocate_def Volume_runCmd_def Let_def blocked_put_volume lvremove_def intro!: keeps_intros blk.closed)
  qed
qed

text \<open>So it is never pulled, and what pulls and prepares other images leaves it so.\<close>

lemma pull_refused:
  fixes s s' :: "'m node_scheme"
  assumes l: "lvm_refuses vg E" and n: "no_sentinel E" and b: "blocked vg E a b nm s" and i: "imVolume img = Some b"
    and r: "pull_in_tmp vg E x img tmp s = (r, s')"
  shows "blocked vg E a b nm s' \<and> r \<noteq> Ok ()"
proof -
  define part where "part = (\<lambda>s :: 'm node_scheme. catchE (Volume_Allocate vg E (Some b) s) (\<lambda>_ s. (Ok (), s))
      (\<lambda>e s. if \<not> errors_is e ErrVolumeAlreadyAllocated then (Err (wrap_v (''failed to allocate volume '' @ imVolumeID img) e), s) else (Ok (), s)))"
  have part: "blocked vg E a b nm s2 \<and> q \<noteq> Ok ()" if "part s1 = (q, s2)" "blocked vg E a b nm s1" for q s1 s2
    using that(1) Volume_Allocate_refused [OF l that(2) n] by (auto simp: part_def split: flow_asm if_splits)
  have step: "blocked vg E a b nm (s1\<lparr>nTrace := nTrace s1 @ [Registry c]\<rparr>)" if "blocked vg E a b nm s1" for s1 c
    by (rule blk.closed [OF that]) (simp add: lvremove_def)
  have "\<exists>rest. pull_in_tmp vg E x img tmp s =
      tryE (Wrap ''failed to parse image reference'') (call E (Registry (ParseReference (imName img))) s) (\<lambda>_ s.
      tryE (Wrap ''failed to fetch remote image'') (call E (Registry (RemoteImage (imName img))) s) (\<lambda>_ s. tryE id (part s) rest))"
    unfolding pull_in_tmp_def part_def i by (rule exI, rule refl)
  then obtain rest where eq: "pull_in_tmp vg E x img tmp s =
      tryE (Wrap ''failed to parse image reference'') (call E (Registry (ParseReference (imName img))) s) (\<lambda>_ s.
      tryE (Wrap ''failed to fetch remote image'') (call E (Registry (RemoteImage (imName img))) s) (\<lambda>_ s. tryE id (part s) rest))" ..
  let ?sb = "s\<lparr>nTrace := nTrace s @ [Registry (ParseReference (imName img))]\<rparr>"
  let ?s2 = "?sb\<lparr>nTrace := nTrace ?sb @ [Registry (RemoteImage (imName img))]\<rparr>"
  have b1: "blocked vg E a b nm ?sb" by (rule step [OF b])
  have b2: "blocked vg E a b nm ?s2" by (rule step [OF b1])
  obtain q s3 where q: "part ?s2 = (q, s3)" by fastforce
  from part [OF q b2] r eq q b1 b2 show ?thesis
    by (cases "env_err E (nTrace s) (Registry (ParseReference (imName img)))";
        cases "env_err E (nTrace ?sb) (Registry (RemoteImage (imName img)))"; cases q) (auto simp: call_cases)
qed

lemma pull_in_tmp_blocked:
  assumes l: "lvm_refuses vg E" and n: "no_sentinel E" and b: "blocked vg E a b nm s" and x: "x \<noteq> a"
  shows "keeps (blocked vg E a b nm) (pull_in_tmp vg E x img tmp s)"
  using b x unfolding pull_in_tmp_def Image_runCmd_def Let_def
  by (auto simp: lvremove_def blocked_put_image
      intro!: keeps_intros blk.closed Volume_Allocate_blocked [OF l n] blk.extractImage_closed image_volume_path_keeps)

lemma Pull_blocked:
  assumes l: "lvm_refuses vg E" and n: "no_sentinel E" and b: "blocked vg E a b nm s" and r: "Pull vg E p s = (r, s')"
  shows "blocked vg E a b nm s' \<and> (p = Some a \<longrightarrow> r \<noteq> Ok ())"
proof (cases "Option.bind p (nImages s)")
  case None
  with r b show ?thesis by (auto simp: Pull_def deref_def blocked_def split: option.splits)
next
  case (Some img)
  then obtain x where x: "p = Some x" "nImages s x = Some img" by (cases p) auto
  show ?thesis
  proof (cases "imPulledAt img")
    case Some
    with r b x show ?thesis by (auto simp: Pull_def deref_Some blocked_def)
  next
    case None
    let ?c = "Os (MkdirTemp ''image-*'')"
    let ?s = "s\<lparr>nTrace := nTrace s @ [?c]\<rparr>" and ?tmp = "ne_tmpdir E (nTrace s)"
    obtain q s1 where q: "pull_in_tmp vg E x img ?tmp ?s = (q, s1)" by fastforce
    have bs: "blocked vg E a b nm ?s" by (rule blk.closed [OF b]) (simp add: lvremove_def)
    have s1: "blocked vg E a b nm s1 \<and> (x = a \<longrightarrow> q \<noteq> Ok ())"
    proof (cases "x = a")
      case True
      then have "imVolume img = Some b" using b x by (auto simp: blocked_def)
      from pull_refused [OF l n bs this q] show ?thesis by blast
    next
      case False
      from keepsD [OF pull_in_tmp_blocked [OF l n bs False] q] False show ?thesis by blast
    qed
    have "blocked vg E a b nm (s1\<lparr>nTrace := nTrace s1 @ [Os (RemoveAll ?tmp)]\<rparr>)"
      using s1 by (intro blk.closed) (auto simp: lvremove_def)
    with r x None q s1 bs show ?thesis
      by (auto simp: Pull_def deref_Some call_val_cases call_cases deferE_def split: option.splits res.splits)
  qed
qed

section \<open>A machine with such an image\<close>

definition uses_image :: "nat \<Rightarrow> machine \<Rightarrow> bool" where
  "uses_image a m \<longleftrightarrow> (\<exists>mv \<in> set (mVolumes m). mvImage mv = Some a)"

lemma prepare_volume_blocked:
  assumes l: "lvm_refuses vg E" and n: "no_sentinel E" and b: "blocked vg E a b nm s" and r: "prepare_volume vg E mv s = (r, s')"
  shows "blocked vg E a b nm s' \<and> (mvImage mv = Some a \<longrightarrow> r \<noteq> Ok ())"
proof -
  obtain q s1 where q: "(if mvImage mv \<noteq> None then Pull vg E (mvImage mv) s else (Ok (), s)) = (q, s1)" by fastforce
  then have s1: "blocked vg E a b nm s1 \<and> (mvImage mv = Some a \<longrightarrow> q \<noteq> Ok ())"
    using b Pull_blocked [OF l n b] by (auto split: if_splits)
  with r q keepsD [OF Volume_Allocate_blocked [OF l n]] show ?thesis
    by (auto simp: prepare_volume_def split: flow_asm if_splits)
qed

lemma prepare_volumes_blocked:
  assumes l: "lvm_refuses vg E" and n: "no_sentinel E" and "blocked vg E a b nm s" and "prepare_volumes vg E byID mvs errs s = (r, s')"
  shows "blocked vg E a b nm s' \<and> (r = Ok () \<longrightarrow> errs = [] \<and> (\<forall>mv \<in> set mvs. mvImage mv \<noteq> Some a))"
  using assms(3,4)
proof (induction mvs arbitrary: errs s)
  case Nil
  then show ?case by (auto split: if_splits)
next
  case (Cons mv mvs)
  show ?case
  proof (cases "byID (mvContainerID mv) = None")
    case True
    with Cons.prems show ?thesis by auto
  next
    case False
    obtain q s1 where q: "prepare_volume vg E mv s = (q, s1)" by fastforce
    note 1 = prepare_volume_blocked [OF l n Cons.prems(1) q]
    show ?thesis
    proof (cases q)
      case (Ok u)
      with Cons.prems(2) False q have "prepare_volumes vg E byID mvs errs s1 = (r, s')" by simp
      from Cons.IH [OF _ this] 1 Ok show ?thesis by auto
    next
      case (Err e)
      with Cons.prems(2) False q have "prepare_volumes vg E byID mvs (errs @ [e]) s1 = (r, s')" by simp
      from Cons.IH [OF _ this] 1 show ?thesis by auto
    next
      case (Panic m)
      with Cons.prems(2) False q 1 show ?thesis by auto
    qed
  qed
qed

lemma prepareMachine_blocked:
  assumes l: "lvm_refuses vg E" and n: "no_sentinel E" and b: "blocked vg E a b nm s" and u: "uses_image a m"
    and r: "prepareMachine vg E m s = (r, s')"
  shows "blocked vg E a b nm s' \<and> r \<noteq> Ok ()"
proof -
  obtain q s1 where q: "containers_by_id (mContainers m) Map.empty s = (q, s1)" by fastforce
  have s1: "s1 = s" using containers_by_id_state [OF q] .
  obtain q2 s2 where q2: "SetupInterface E (mNetworkInterface m) s = (q2, s2)" by fastforce
  have b2: "blocked vg E a b nm s2" using keepsD [OF blk.SetupInterface_closed [OF b] q2] .
  have p: "blocked vg E a b nm s3 \<and> x \<noteq> Ok ()" if "prepare_volumes vg E byID (mVolumes m) errs s2 = (x, s3)" for byID errs x s3
    using prepare_volumes_blocked [OF l n b2 that] u by (auto simp: uses_image_def)
  show ?thesis using r q s1 q2 b b2 p by (cases q; cases q2) (auto simp: prepareMachine_def)
qed

lemma start_prepared_blocked:
  assumes l: "lvm_refuses vg E" and n: "no_sentinel E" and b: "blocked vg E a b nm s" and u: "uses_image a m"
    and r: "start_prepared vg cfg E ctx m s = (Ok (st, err), s')"
  shows "blocked vg E a b nm s' \<and> st = MachineStateError \<and> node.more s' = node.more s"
proof -
  obtain q s1 where q: "prepareMachine vg E m s = (q, s1)" by fastforce
  have "node.more s1 = node.more s" using prepareMachine_more [of s "node.more s" vg E m] q by (simp add: keeps_def)
  with r q prepareMachine_blocked [OF l n b u q] show ?thesis by (cases q) (auto simp: start_prepared_def)
qed

lemma reconcileToRunning_blocked:
  assumes l: "lvm_refuses vg E" and n: "no_sentinel E" and b: "blocked vg E a b nm s" and u: "uses_image a m"
    and r: "reconcileToRunning vg cfg E ctx m s = (Ok (st, err), s')"
  shows "blocked vg E a b nm s' \<and> st = MachineStateError \<and> coBus s' = coBus (announce E m MachineStateStarting s)"
proof -
  let ?s = "announce E m MachineStateStarting s"
  have b0: "blocked vg E a b nm ?s" using b blocked_memory [of ?s s vg E a b nm] by (simp add: announce_def)
  obtain q s1 where q: "isMachineRuntimeStarted E m ?s = (q, s1)" by fastforce
  have b1: "blocked vg E a b nm s1" using keepsD [OF blk.runtime_closed(1) [OF b0] q] .
  have m1: "node.more s1 = node.more ?s" using isMachineRuntimeStarted_Ok [OF q] by (auto elim!: trace_onlyE)
  obtain q2 s2 where q2: "Terminate E (mID m) s1 = (q2, s2)" by fastforce
  have b2: "blocked vg E a b nm s2" using keepsD [OF blk.runtime_closed(2) [OF b1] q2] .
  have m2: "node.more s2 = node.more ?s" using Terminate_trace [OF q2] m1 by (auto elim!: trace_onlyE)
  have s: "blocked vg E a b nm s' \<and> st = MachineStateError \<and> coBus s' = coBus ?s"
    if "start_prepared vg cfg E ctx m x = (Ok (st, err), s')" "blocked vg E a b nm x" "node.more x = node.more ?s" for x
    using start_prepared_blocked [OF l n that(2) u that(1)] that(3) coBus_more by metis
  show ?thesis
  proof (cases "mState m = MachineStateError")
    case False
    with r s b0 show ?thesis by (simp add: reconcileToRunning_def Let_def)
  next
    case True
    with r q q2 s b1 b2 m1 m2 coBus_more [OF m2] show ?thesis
      by (cases q; cases q2) (auto simp: reconcileToRunning_def Let_def split: if_splits)
  qed
qed

section \<open>Its controller\<close>

text \<open>The messages that occur as long as the machine has never run.\<close>

definition never_ran :: "message \<Rightarrow> bool" where
  "never_ran e = (case e of
      StateChangedMessage st _ \<Rightarrow> st \<notin> {MachineStateRunning, MachineStateDegraded}
    | DesiredStateChangedMessage d _ \<Rightarrow> d = MachineDesiredStateRunning
    | RuntimeListenerConnectedMessage \<Rightarrow> False
    | RuntimeListenerDisconnectedMessage _ \<Rightarrow> False
    | _ \<Rightarrow> True)"

definition hopeless :: "string \<Rightarrow> 'e node_env_scheme \<Rightarrow> nat \<Rightarrow> nat \<Rightarrow> string \<Rightarrow> ctrl_node \<Rightarrow> bool" where
  "hopeless vg E a b nm s \<longleftrightarrow> blocked vg E a b nm s \<and> uses_image a (stMachine (coState s)) \<and>
     mState (stMachine (coState s)) \<notin> {MachineStateRunning, MachineStateDegraded} \<and>
     mDesiredState (stMachine (coState s)) = MachineDesiredStateRunning \<and> stRuntimeListener (coState s) = None \<and>
     (\<forall>j \<in> set (coJobs s). jbDesired j = MachineDesiredStateRunning \<and> uses_image a (jbMachine j)) \<and>
     (\<forall>e \<in> set (busPending (coBus s)). never_ran e)"

lemma uses_image_upd [simp]:
  "uses_image a (m\<lparr>mState := st\<rparr>) = uses_image a m" "uses_image a (m\<lparr>mDesiredState := d\<rparr>) = uses_image a m"
  "uses_image a (m\<lparr>mTerminatedAt := x\<rparr>) = uses_image a m"
  by (simp_all add: uses_image_def)

lemma blocked_upd [simp]:
  "blocked vg E a b nm (s\<lparr>coBus := x\<rparr>) = blocked vg E a b nm s" "blocked vg E a b nm (s\<lparr>coState := y\<rparr>) = blocked vg E a b nm s"
  "blocked vg E a b nm (s\<lparr>coJobs := z\<rparr>) = blocked vg E a b nm s" "blocked vg E a b nm (s\<lparr>coEnding := z\<rparr>) = blocked vg E a b nm s"
  "blocked vg E a b nm (s\<lparr>coNextCtx := c\<rparr>) = blocked vg E a b nm s" "blocked vg E a b nm (publish e s) = blocked vg E a b nm s"
  by (simp_all add: blocked_def)

lemma blocked_save: "blocked vg E a b nm s \<Longrightarrow> blocked vg E a b nm (s\<lparr>nTrace := nTrace s @ [Db c]\<rparr>)"
  by (rule blk.closed) (auto simp: lvremove_def)

lemma receive_subset: "receive_event i b = Some (e, b') \<Longrightarrow> e \<in> set (busPending b) \<and> set (busPending b') \<subseteq> set (busPending b)"
  by (auto simp: receive_event_def split: if_splits dest: in_set_takeD in_set_dropD)

lemma handler_hopeless:
  assumes h: "hopeless vg E a b nm s" and e: "never_ran e" and r: "eventHandler E e s = (Ok (), s')"
  shows "hopeless vg E a b nm s'"
  using r
proof (cases e)
  case AssessStateMessage
  with h r show ?thesis
    by (auto simp: hopeless_def eventHandler_def assess_def Let_def GetState_def shouldStartRuntimeListener_def Includes_iff
        reconcile_def new_ctx_def SetState_def commit_def split: if_splits)
next
  case (DesiredStateChangedMessage d x)
  with h e r blocked_save [of vg E a b nm s] show ?thesis
    by (auto simp: hopeless_def never_ran_def eventHandler_def SetState_def commit_def GetState_def save_desired_state_def Let_def call_cases
        split: option.splits)
next
  case (StateChangedMessage st x)
  with h e r blocked_save [of vg E a b nm s] show ?thesis
    by (auto simp: hopeless_def never_ran_def eventHandler_def SetState_def commit_def GetState_def save_state_def Let_def call_cases
        split: option.splits)
qed (use h e in \<open>auto simp: eventHandler_def never_ran_def\<close>)

lemma job_hopeless:
  assumes l: "lvm_refuses vg E" and n: "no_sentinel E" and h: "hopeless vg E a b nm s" and j: "j \<in> set (coJobs s)"
    and r: "run_job vg cfg E j s = (Ok (), s')"
  shows "hopeless vg E a b nm (begin_ending j s')"
proof -
  let ?m = "jbMachine j"
  have b: "blocked vg E a b nm s" and jm: "jbDesired j = MachineDesiredStateRunning" "uses_image a ?m" using h j by (auto simp: hopeless_def)
  obtain q s1 where q: "reconcileToRunning vg cfg E (jbCtx j) ?m s = (q, s1)" by fastforce
  with r jm obtain st err where st: "q = Ok (st, err)" by (cases q) (auto simp: run_job_def)
  note 1 = reconcileToRunning_blocked [OF l n b jm(2) q [unfolded st]]
  have s': "s' = publish (ReconciliationCompleteMessage (err = None) err) (publish (NewStateChangedMessage E st s1) s1)"
    using r jm(1) q st by (simp add: run_job_def Let_def)
  have "\<forall>e \<in> set (busPending (coBus s')). never_ran e"
    using h 1 unfolding s' by (auto simp: hopeless_def announce_def never_ran_def NewStateChangedMessage_def)
  moreover have "blocked vg E a b nm s'" using 1 by (simp add: s')
  moreover have "set (remove1 j (coJobs s)) \<subseteq> set (coJobs s)" by (rule set_remove1_subset)
  ultimately show ?thesis using h run_job_frame [OF r] by (auto simp: hopeless_def begin_ending_def ctrl_frame_def)
qed

lemma own_step_hopeless:
  assumes "own_step vg cfg E s s'" and l: "lvm_refuses vg E" and n: "no_sentinel E" and h: "hopeless vg E a b nm s"
  shows "hopeless vg E a b nm s'"
  using assms(1)
proof cases
  case (own_dispatch i event c)
  note sub = receive_subset [OF own_dispatch(1)]
  have "hopeless vg E a b nm (s\<lparr>coBus := c\<rparr>)" using h sub by (auto simp: hopeless_def)
  moreover have "never_ran event" using h sub by (auto simp: hopeless_def)
  ultimately show ?thesis using handler_hopeless own_dispatch(2) by blast
next
  case (own_run j s2)
  then show ?thesis using job_hopeless [OF l n h] by simp
next
  case (own_finish j)
  with h show ?thesis
    by (auto simp: hopeless_def finish_job_def SetState_def commit_def GetState_def clear_reconciliation_def)
qed

section \<open>Two machines with one stored image\<close>

text \<open>What a pull leaves: the volume was created.\<close>

definition created_lv :: "string \<Rightarrow> 'e node_env_scheme \<Rightarrow> string \<Rightarrow> 'm node_scheme \<Rightarrow> bool" where
  "created_lv vg E nm s \<longleftrightarrow> 0 < creations E nm (nTrace s) \<and> lvremove vg nm \<notin> set (nTrace s)"

definition not_removed :: "string \<Rightarrow> string \<Rightarrow> 'm node_scheme \<Rightarrow> bool" where
  "not_removed vg nm s \<longleftrightarrow> lvremove vg nm \<notin> set (nTrace s)"

interpretation made: call_closed vg nm "created_lv vg E nm" for vg nm E
  by unfold_locales (auto simp: created_lv_def)

interpretation kept: call_closed vg nm "not_removed vg nm" for vg nm
  by unfold_locales (auto simp: not_removed_def)

text \<open>An image object and its volume object that others do not touch.\<close>

definition spare :: "string \<Rightarrow> string \<Rightarrow> nat \<Rightarrow> image \<Rightarrow> nat \<Rightarrow> volume \<Rightarrow> 'm node_scheme \<Rightarrow> bool" where
  "spare vg nm a i b v s \<longleftrightarrow> nImages s a = Some i \<and> nVolumes s b = Some v \<and> lvremove vg nm \<notin> set (nTrace s)"

interpretation spare: call_closed vg nm "spare vg nm a i b v" for vg nm a i b v
  by unfold_locales (auto simp: spare_def)

lemma created_lv_put [simp]: "created_lv vg E nm (put_image x i s) = created_lv vg E nm s" "created_lv vg E nm (put_volume y v s) = created_lv vg E nm s"
  by (simp_all add: created_lv_def put_image_def put_volume_def)

lemma spare_put:
  "x \<noteq> a \<Longrightarrow> spare vg nm a i b v (put_image x j s) = spare vg nm a i b v s"
  "y \<noteq> b \<Longrightarrow> spare vg nm a i b v (put_volume y w s) = spare vg nm a i b v s"
  by (simp_all add: spare_def put_image_def put_volume_def)

lemma Volume_Allocate_spare: "spare vg nm a i b v s \<Longrightarrow> y \<noteq> b \<Longrightarrow> keeps (spare vg nm a i b v) (Volume_Allocate vg E (Some y) s)"
  by (auto simp: Volume_Allocate_def Volume_runCmd_def Let_def spare_put lvremove_def intro!: keeps_intros spare.closed)

lemma pull_in_tmp_spare:
  assumes s: "spare vg nm a i b v s" and x: "x \<noteq> a" "imVolume img = Some y" "y \<noteq> b"
  shows "keeps (spare vg nm a i b v) (pull_in_tmp vg E x img tmp s)"
  using s x unfolding pull_in_tmp_def Image_runCmd_def Let_def
  by (auto simp: lvremove_def spare_put
      intro!: keeps_intros spare.closed Volume_Allocate_spare spare.extractImage_closed image_volume_path_keeps)

lemma snd_call: "snd (call E c s) = s\<lparr>nTrace := nTrace s @ [c]\<rparr>"
  by (simp add: call_def)

lemma Pull_spare:
  assumes s: "spare vg nm a i b v s" and x: "x \<noteq> a" "nImages s x = Some img" "imVolume img = Some y" "y \<noteq> b"
  shows "keeps (spare vg nm a i b v) (Pull vg E (Some x) s)"
  using s x unfolding Pull_def
  by (auto simp: lvremove_def deref_Some snd_call intro!: keeps_intros spare.closed pull_in_tmp_spare)

lemma Volume_Allocate_created:
  assumes r: "Volume_Allocate vg E (Some y) s = (Ok (), s')" and s: "spare vg nm a i b v s" and y: "y \<noteq> b" "nVolumes s y = Some w" "voID w = nm"
  shows "created_lv vg E nm s'"
proof -
  have "lvremove vg nm \<notin> set (nTrace s')" using keepsD [OF Volume_Allocate_spare [OF s y(1)] r] by (simp add: spare_def)
  moreover have u: "\<exists>u. nVolumes s' y = Some u \<and> voAllocatedAt u \<noteq> None" "voAllocatedAt w = None" using Volume_Allocate_Ok [OF r] y(2) by auto
  from r have "0 < creations E nm (nTrace s')"
    by (cases rule: Volume_Allocate_outcomes) (use u y(2,3) in auto)
  ultimately show ?thesis by (simp add: created_lv_def)
qed

lemma Volume_Allocate_first:
  assumes "no_sentinel E" "nVolumes s y = Some w" "voAllocatedAt w = None" "Volume_Allocate vg E (Some y) s = (Err e, s')"
  shows "\<not> errors_is e ErrVolumeAlreadyAllocated"
  using assms not_sentinel [OF assms(1)]
  by (auto simp: Volume_Allocate_def deref_Some Let_def Volume_runCmd_def lvcreate_args_def split: flow_asm option.splits if_splits)

lemma made_step: "created_lv vg E nm s \<Longrightarrow> lvremove vg nm \<notin> set cs \<Longrightarrow> created_lv vg E nm (s\<lparr>nTrace := nTrace s @ cs\<rparr>)"
  by (auto simp: created_lv_def)

text \<open>What follows the allocation in a pull keeps the volume.\<close>

lemma pull_in_tmp_split:
  fixes s :: "'m node_scheme"
  shows "\<exists>rest. pull_in_tmp vg E x img tmp s =
      tryE (Wrap ''failed to parse image reference'') (call E (Registry (ParseReference (imName img))) s) (\<lambda>_ s.
      tryE (Wrap ''failed to fetch remote image'') (call E (Registry (RemoteImage (imName img))) s) (\<lambda>_ s.
      tryE id (catchE (Volume_Allocate vg E (imVolume img) s) (\<lambda>_ s. (Ok (), s))
        (\<lambda>e s. if \<not> errors_is e ErrVolumeAlreadyAllocated then (Err (wrap_v (''failed to allocate volume '' @ imVolumeID img) e), s) else (Ok (), s))) rest)) \<and>
    (\<forall>z. created_lv v2 E nm z \<longrightarrow> keeps (created_lv v2 E nm) (rest () z))"
  unfolding pull_in_tmp_def Image_runCmd_def Let_def
  by (rule exI, rule conjI, rule refl)
    (auto simp: lvremove_def intro!: keeps_intros made.closed made.extractImage_closed image_volume_path_keeps)

text \<open>A pull that succeeds has created the image's volume.\<close>

lemma Pull_created:
  assumes n: "no_sentinel E" and s: "spare vg nm a i b v s" and x: "x \<noteq> a" "nImages s x = Some img" "imPulledAt img = None" "imVolume img = Some y"
    and y: "y \<noteq> b" "nVolumes s y = Some w" "voAllocatedAt w = None" "voID w = nm" and r: "Pull vg E (Some x) s = (Ok (), s')"
  shows "created_lv vg E nm s'"
proof -
  let ?c = "Os (MkdirTemp ''image-*'')" and ?tmp = "ne_tmpdir E (nTrace s)"
  let ?sa = "s\<lparr>nTrace := nTrace s @ [?c]\<rparr>"
  let ?sb = "?sa\<lparr>nTrace := nTrace ?sa @ [Registry (ParseReference (imName img))]\<rparr>"
  let ?s = "?sb\<lparr>nTrace := nTrace ?sb @ [Registry (RemoteImage (imName img))]\<rparr>"
  have sp: "spare vg nm a i b v ?s" by (intro spare.closed s) (auto simp: lvremove_def)
  have ok: "env_err E (nTrace s) ?c = None" using r x by (auto simp: Pull_def deref_Some call_val_cases split: option.splits)
  obtain q0 s2 where q0: "pull_in_tmp vg E x img ?tmp ?sa = (q0, s2)" by fastforce
  have s2: "q0 = Ok ()" "s' = s2\<lparr>nTrace := nTrace s2 @ [Os (RemoveAll ?tmp)]\<rparr>"
    using r x q0 ok by (auto simp: Pull_def deref_Some call_val_cases deferE_def snd_call split: res.splits)
  obtain rest where eq: "pull_in_tmp vg E x img ?tmp ?sa =
      tryE (Wrap ''failed to parse image reference'') (call E (Registry (ParseReference (imName img))) ?sa) (\<lambda>_ s.
      tryE (Wrap ''failed to fetch remote image'') (call E (Registry (RemoteImage (imName img))) s) (\<lambda>_ s.
      tryE id (catchE (Volume_Allocate vg E (imVolume img) s) (\<lambda>_ s. (Ok (), s))
        (\<lambda>e s. if \<not> errors_is e ErrVolumeAlreadyAllocated then (Err (wrap_v (''failed to allocate volume '' @ imVolumeID img) e), s) else (Ok (), s))) rest))"
    and keep: "\<And>z. created_lv vg E nm z \<Longrightarrow> keeps (created_lv vg E nm) (rest () z)"
    using pull_in_tmp_split [of vg E x img ?tmp ?sa vg nm] by blast
  have oks: "env_err E (nTrace ?sa) (Registry (ParseReference (imName img))) = None"
      "env_err E (nTrace ?sb) (Registry (RemoteImage (imName img))) = None"
    using q0 s2(1) unfolding eq
    by (cases "env_err E (nTrace ?sa) (Registry (ParseReference (imName img)))";
        cases "env_err E (nTrace ?sb) (Registry (RemoteImage (imName img)))"; simp add: call_cases)+
  obtain q s3 where q: "Volume_Allocate vg E (Some y) ?s = (q, s3)" by fastforce
  have "q = Ok () \<and> rest () s3 = (Ok (), s2)"
  proof (cases q)
    case (Err e)
    then have "\<not> errors_is e ErrVolumeAlreadyAllocated" using Volume_Allocate_first [OF n _ y(3), of ?s y vg e s3] q y(2) by simp
    with q0 s2(1) q Err x(4) oks show ?thesis unfolding eq by (simp add: call_cases)
  qed (use q0 s2(1) q x(4) oks in \<open>simp_all add: eq call_cases\<close>)
  moreover from this have "created_lv vg E nm s3" using Volume_Allocate_created [OF _ sp y(1) _ y(4)] q y(2) by simp
  ultimately have "created_lv vg E nm s2" using keepsD [OF keep] by blast
  then show ?thesis unfolding s2(2) by (rule made.closed) (simp add: lvremove_def)
qed

text \<open>The objects of an image whose row is stored.\<close>

lemma FetchDetails_stored:
  assumes "\<forall>t d. env_err E t (Db (DbFirstImage d)) = None" "\<forall>t. ne_image E t = (i, v)" "FetchDetails E n s = (Ok a, s')"
  shows "a = Suc (nNext s) \<and> nNext s' = Suc a \<and> nImages s' = (nImages s)(a \<mapsto> i\<lparr>imVolume := Some (nNext s)\<rparr>) \<and>
    nVolumes s' = (nVolumes s)(nNext s \<mapsto> v) \<and> (\<forall>vg nm. lvremove vg nm \<in> set (nTrace s') \<longrightarrow> lvremove vg nm \<in> set (nTrace s))"
  using assms by (auto simp: FetchDetails_def new_image_def put_image_def put_volume_def Let_def lvremove_def split: flow_asm)

lemma hopeless_new:
  assumes "blocked vg E a b nm s" "uses_image a m" "mDesiredState m = MachineDesiredStateRunning"
    "mState m \<notin> {MachineStateRunning, MachineStateDegraded}"
  shows "hopeless vg E a b nm (Controller_New i m s)"
  using assms
  by (auto simp: hopeless_def blocked_def Controller_New_def node.extend_def PublishEvent_def SubscribeToEvents_def NewBus_def never_ran_def)

section \<open>Properties\<close>

text \<open>
  C23: Two machines are created from one image whose row is stored and not pulled yet, so that each has an
  object of its own for it.  Once the image of one of them is pulled, the controller of the other, whose
  desired state is running, never brings it to running, in whatever order its messages, its
  reconciliations and their ends come: each pull calls \<^verbatim>\<open>lvcreate\<close> with the same name again, as only the
  object of the first machine knows that the volume is allocated.
\<close>

theorem shared_image_never_runs:
  assumes "\<forall>t d. env_err E t (Db (DbFirstImage d)) = None" and "\<forall>t. ne_image E t = (i, v)" and "imPulledAt i = None" and "voAllocatedAt v = None"
    and "FetchDetails E n s = (Ok a1, s1)" and "FetchDetails E n s1 = (Ok a2, s2)" and "lvremove vg (voID v) \<notin> set (nTrace s)"
    and "lvm_refuses vg E'" and "no_sentinel E'" and "Pull vg E' (Some a1) s2 = (Ok (), s3)"
    and "uses_image a2 m" and "mDesiredState m = MachineDesiredStateRunning" and "mState m \<notin> {MachineStateRunning, MachineStateDegraded}"
    and "(own_step vg cfg E')\<^sup>*\<^sup>* (Controller_New j m s3) t"
  shows "mState (stMachine (coState t)) \<notin> {MachineStateRunning, MachineStateDegraded}"
proof -
  note 1 = FetchDetails_stored [OF assms(1,2,5)] and 2 = FetchDetails_stored [OF assms(1,2,6)]
  let ?b1 = "nNext s" and ?b2 = "nNext s1" and ?nm = "voID v"
  let ?i1 = "i\<lparr>imVolume := Some ?b1\<rparr>" and ?i2 = "i\<lparr>imVolume := Some ?b2\<rparr>"
  have sp: "spare vg ?nm a2 ?i2 ?b2 v s2" using 1 2 assms(7) by (auto simp: spare_def)
  have i1: "a1 \<noteq> a2" "nImages s2 a1 = Some ?i1" "imVolume ?i1 = Some ?b1" "?b1 \<noteq> ?b2" "nVolumes s2 ?b1 = Some v"
    using 1 2 by auto
  have "spare vg ?nm a2 ?i2 ?b2 v s3" using keepsD [OF Pull_spare [OF sp i1(1-4)] assms(10)] .
  moreover have "created_lv vg E' ?nm s3"
    using Pull_created [OF assms(9) sp i1(1,2) _ i1(3-5) assms(4) _ assms(10)] assms(3) by simp
  ultimately have "blocked vg E' a2 ?b2 ?nm s3" using assms(3,4) by (auto simp: blocked_def spare_def created_lv_def)
  then have "hopeless vg E' a2 ?b2 ?nm (Controller_New j m s3)" using hopeless_new assms(11-13) by blast
  with assms(14) have "hopeless vg E' a2 ?b2 ?nm t"
    by (induction rule: rtranclp_induct) (auto dest: own_step_hopeless [OF _ assms(8,9)])
  then show ?thesis by (simp add: hopeless_def)
qed

text \<open>The witness: a volume group that refuses a name it has seen.\<close>

definition lvm_env :: node_env where
  "lvm_env = quiet_env\<lparr>env_err := \<lambda>t c. case c of RunCmd prog args \<Rightarrow>
     if prog = ''lvcreate'' \<and> (\<exists>d \<in> set t. created_name d = Some (args ! 5))
     then Some (External ''exists'') else None | _ \<Rightarrow> None\<rparr>"

lemma count_ok_occurs: "0 < count_ok E P t cs \<Longrightarrow> \<exists>c \<in> set cs. P c"
  by (induction cs arbitrary: t) (auto split: if_splits)

lemma lvm_env_ok: "lvm_refuses vg lvm_env" "no_sentinel lvm_env"
proof -
  have "env_err lvm_env t (RunCmd ''lvcreate'' args) \<noteq> None" if "0 < creations lvm_env (args ! 5) t" for t args
    using count_ok_occurs [OF that [unfolded creations_def]] by (auto simp: lvm_env_def)
  then show "lvm_refuses vg lvm_env" by (simp add: lvm_refuses_def)
  show "no_sentinel lvm_env" by (auto simp: no_sentinel_def lvm_env_def split: node_call.splits if_splits)
qed

definition twin_machine :: machine where
  "twin_machine = sample_machine\<lparr>mVolumes := [machine_volume_of ''mv'' 0 ''m1'' ''c1'' 3 sample_image 9 ''v9'']\<rparr>"

theorem shared_image_never_runs_witness:
  "\<exists>s1 s2 s3. FetchDetails quiet_env ''nginx'' bare_node = (Ok 1, s1) \<and> FetchDetails quiet_env ''nginx'' s1 = (Ok 3, s2) \<and>
    Pull ''vg'' lvm_env (Some 1) s2 = (Ok (), s3) \<and>
    (\<forall>t. (own_step ''vg'' sample_config lvm_env)\<^sup>*\<^sup>* (Controller_New ''s1'' twin_machine s3) t \<longrightarrow>
      mState (stMachine (coState t)) \<noteq> MachineStateRunning)"
proof -
  have q: "env_err quiet_env t c = None" for t c by (simp add: quiet_env_def)
  obtain s1 s2 s3 where f: "FetchDetails quiet_env ''nginx'' bare_node = (Ok 1, s1)" "FetchDetails quiet_env ''nginx'' s1 = (Ok 3, s2)"
      "Pull ''vg'' lvm_env (Some 1) s2 = (Ok (), s3)"
    by (simp add: FetchDetails_def call_cases call_val_cases quiet_env_def new_image_def put_image_def put_volume_def Let_def bare_node_def
      Pull_def pull_in_tmp_def lvm_env_def created_name_def Volume_Allocate_def deref_def Volume_runCmd_def deferE_def
      lvcreate_args_def image_volume_path_def Image_runCmd_def extractImage_def dec.simps digit_def)
  obtain i v where iv: "\<forall>t. ne_image quiet_env t = (i, v)" "imPulledAt i = None" "voAllocatedAt v = None" by (simp add: quiet_env_def)
  have m: "lvremove ''vg'' (voID v) \<notin> set (nTrace bare_node)" "uses_image 3 twin_machine" "mDesiredState twin_machine = MachineDesiredStateRunning"
      "mState twin_machine \<notin> {MachineStateRunning, MachineStateDegraded}"
    by (simp_all add: bare_node_def uses_image_def twin_machine_def machine_volume_of_def sample_machine_def)
  have "mState (stMachine (coState t)) \<noteq> MachineStateRunning"
    if "(own_step ''vg'' sample_config lvm_env)\<^sup>*\<^sup>* (Controller_New ''s1'' twin_machine s3) t" for t
    using shared_image_never_runs [OF _ iv f(1,2) m(1) lvm_env_ok f(3) m(2-4) that] q by simp
  with f show ?thesis by blast
qed

end
