(* ===== verification/ConsoleLines.thy ===== *)
theory ConsoleLines
  imports RuntimeLogs
begin

text \<open>
  Output that is read with a \<^verbatim>\<open>bufio.Scanner\<close>: the serial console of a virtual machine
  (\<^verbatim>\<open>vmruntime/internal/runtime/log.go\<close>) and the output of the runtime's process, which the node agent
  copies to its own log (\<^verbatim>\<open>nodeagent/internal/runtimeservice/create.go\<close>).  The scanner cuts its input
  into lines; it ends, for good, at the end of the input, at an error of the reader, and at a line that
  does not fit into its buffer of 64 KiB.
\<close>

section \<open>\<^verbatim>\<open>bufio.Scanner\<close>\<close>

abbreviation newline :: char where
  "newline \<equiv> CHR 0x0A"

abbreviation carriage_return :: char where
  "carriage_return \<equiv> CHR 0x0D"

definition max_token_size :: nat where
  "max_token_size = 64 * 1024"

definition drop_cr :: "string \<Rightarrow> string" where
  "drop_cr line = (if line \<noteq> [] \<and> last line = carriage_return then butlast line else line)"

definition too_long :: gerror where
  "too_long = External ''bufio.Scanner: token too long''"

lemma dropWhile_shorter: "dropWhile P xs = x # ys \<Longrightarrow> length ys < length xs"
  using length_dropWhile_le [of P xs] by simp

text \<open>
  What \<^verbatim>\<open>Scan\<close> gives until it is false, and what \<^verbatim>\<open>Err\<close> is then; \<open>err\<close> is the reader's error behind
  \<open>data\<close>, or \<open>None\<close> for the end of the file.  A last line needs no newline.
\<close>

function scan_lines :: "gerror option \<Rightarrow> string \<Rightarrow> string list \<times> gerror option" where
  "scan_lines err data =
    (if data = [] then ([], err) else
     let line = takeWhile (\<lambda>c. c \<noteq> newline) data in
     if max_token_size \<le> length line then ([], Some too_long) else
     case dropWhile (\<lambda>c. c \<noteq> newline) data of
       [] \<Rightarrow> ([drop_cr line], err)
     | _ # rest \<Rightarrow> (let (lines, e) = scan_lines err rest in (drop_cr line # lines, e)))"
  by pat_completeness auto

termination scan_lines
  by (relation "measure (\<lambda>(_, data). length data)") (auto dest: dropWhile_shorter)

declare scan_lines.simps [simp del]

section \<open>The two readers\<close>

text \<open>The lines that one connection to the serial console gives; an error of the scanner is not looked at.\<close>

definition console_lines :: "gerror option \<Rightarrow> string \<Rightarrow> string list" where
  "console_lines err data = fst (scan_lines err data)"

datatype log_level = LevelDebug | LevelInfo | LevelWarn | LevelError

record log_record =
  lrLevel :: log_level
  lrMessage :: string
  lrStream :: string
  lrError :: "gerror option"

text \<open>What \<^verbatim>\<open>pipeToLogger\<close> logs.\<close>

definition pipeToLogger :: "gerror option \<Rightarrow> string \<Rightarrow> log_level \<Rightarrow> string \<Rightarrow> log_record list" where
  "pipeToLogger err data level stream = (let (lines, e) = scan_lines err data in
     map (\<lambda>text. \<lparr>lrLevel = level, lrMessage = text, lrStream = stream, lrError = None\<rparr>) lines @
     (case e of None \<Rightarrow> []
      | Some e \<Rightarrow> [\<lparr>lrLevel = LevelError, lrMessage = ''log stream error'', lrStream = stream, lrError = Some e\<rparr>]))"

section \<open>Lines and their scanner\<close>

text \<open>Output made of whole lines.\<close>

definition unlines :: "string list \<Rightarrow> string" where
  "unlines ls = concat (map (\<lambda>l. l @ [newline]) ls)"

definition whole_line :: "string \<Rightarrow> bool" where
  "whole_line l \<longleftrightarrow> newline \<notin> set l \<and> (l = [] \<or> last l \<noteq> carriage_return) \<and> length l < max_token_size"

text \<open>Nothing, or a first line that does not fit.\<close>

definition ends_scan :: "string \<Rightarrow> bool" where
  "ends_scan rest \<longleftrightarrow> rest = [] \<or> max_token_size \<le> length (takeWhile (\<lambda>c. c \<noteq> newline) rest)"

lemma scan_line:
  assumes "whole_line l"
  shows "scan_lines err (l @ newline # rest) = (l # fst (scan_lines err rest), snd (scan_lines err rest))"
proof -
  have l: "\<forall>c \<in> set l. c \<noteq> newline" using assms by (auto simp: whole_line_def)
  have "takeWhile (\<lambda>c. c \<noteq> newline) (l @ newline # rest) = l" "dropWhile (\<lambda>c. c \<noteq> newline) (l @ newline # rest) = newline # rest"
    using l by (simp_all add: takeWhile_append2 dropWhile_append2)
  with assms show ?thesis
    by (subst scan_lines.simps) (auto simp: whole_line_def drop_cr_def Let_def split: prod.split)
qed

lemma scan_unlines:
  "\<forall>l \<in> set ls. whole_line l \<Longrightarrow>
    scan_lines err (unlines ls @ rest) = (ls @ fst (scan_lines err rest), snd (scan_lines err rest))"
  by (induction ls) (simp_all add: unlines_def scan_line)

lemma scan_end: "ends_scan rest \<Longrightarrow> scan_lines err rest = ([], if rest = [] then err else Some too_long)"
  by (subst scan_lines.simps) (auto simp: ends_scan_def Let_def max_token_size_def)

text \<open>The node agent logs the lines before one that does not fit, an error, and nothing of what follows.\<close>

lemma pipe_stops:
  assumes "\<forall>l \<in> set ls. whole_line l" "ends_scan rest" "rest \<noteq> []"
  shows "pipeToLogger err (unlines ls @ rest) level stream =
    map (\<lambda>text. \<lparr>lrLevel = level, lrMessage = text, lrStream = stream, lrError = None\<rparr>) ls @
    [\<lparr>lrLevel = LevelError, lrMessage = ''log stream error'', lrStream = stream, lrError = Some too_long\<rparr>]"
  using scan_unlines [OF assms(1), of err rest] scan_end [OF assms(2), of err] assms(3) by (simp add: pipeToLogger_def)

lemma listen_serial_tried:
  "rmTried (listen_serial IO lines m) = rmTried m @ map serial_entry (filter (\<lambda>l. l \<noteq> []) lines) \<and>
    rmCancelled (listen_serial IO lines m) = rmCancelled m"
  by (induction lines arbitrary: m) (auto simp: writeLog_fields)

lemma listeners_tried:
  "\<not> rmCancelled m \<Longrightarrow> rmTried (ListenSerialSocket IO conns m) = rmTried m @ map serial_entry (filter (\<lambda>l. l \<noteq> []) (concat conns))"
  unfolding ListenSerialSocket_def by (induction conns arbitrary: m) (auto simp: listen_serial_tried)

section \<open>Properties\<close>



end
