(* ===== verification/ChResponses.thy ===== *)
theory ChResponses
  imports ChClient
begin

text \<open>
  The rest of \<^verbatim>\<open>vmruntime/internal/chclient/client.gen.go\<close>: the methods \<^verbatim>\<open>Status\<close> and \<^verbatim>\<open>StatusCode\<close> of the
  response of each operation, and the two interfaces that the client and the client with responses
  implement.
\<close>

section \<open>The status of a response\<close>

definition PutVmAddDeviceResponse_Status :: "PutVmAddDeviceResponse \<Rightarrow> string" where
  "PutVmAddDeviceResponse_Status r = response_Status r"

definition PutVmAddDeviceResponse_StatusCode :: "PutVmAddDeviceResponse \<Rightarrow> nat" where
  "PutVmAddDeviceResponse_StatusCode r = response_StatusCode r"

definition PutVmAddDiskResponse_Status :: "PutVmAddDiskResponse \<Rightarrow> string" where
  "PutVmAddDiskResponse_Status r = response_Status r"

definition PutVmAddDiskResponse_StatusCode :: "PutVmAddDiskResponse \<Rightarrow> nat" where
  "PutVmAddDiskResponse_StatusCode r = response_StatusCode r"

definition PutVmAddFsResponse_Status :: "PutVmAddFsResponse \<Rightarrow> string" where
  "PutVmAddFsResponse_Status r = response_Status r"

definition PutVmAddFsResponse_StatusCode :: "PutVmAddFsResponse \<Rightarrow> nat" where
  "PutVmAddFsResponse_StatusCode r = response_StatusCode r"

definition PutVmAddNetResponse_Status :: "PutVmAddNetResponse \<Rightarrow> string" where
  "PutVmAddNetResponse_Status r = response_Status r"

definition PutVmAddNetResponse_StatusCode :: "PutVmAddNetResponse \<Rightarrow> nat" where
  "PutVmAddNetResponse_StatusCode r = response_StatusCode r"

definition PutVmAddPmemResponse_Status :: "PutVmAddPmemResponse \<Rightarrow> string" where
  "PutVmAddPmemResponse_Status r = response_Status r"

definition PutVmAddPmemResponse_StatusCode :: "PutVmAddPmemResponse \<Rightarrow> nat" where
  "PutVmAddPmemResponse_StatusCode r = response_StatusCode r"

definition PutVmAddUserDeviceResponse_Status :: "PutVmAddUserDeviceResponse \<Rightarrow> string" where
  "PutVmAddUserDeviceResponse_Status r = response_Status r"

definition PutVmAddUserDeviceResponse_StatusCode :: "PutVmAddUserDeviceResponse \<Rightarrow> nat" where
  "PutVmAddUserDeviceResponse_StatusCode r = response_StatusCode r"

definition PutVmAddVdpaResponse_Status :: "PutVmAddVdpaResponse \<Rightarrow> string" where
  "PutVmAddVdpaResponse_Status r = response_Status r"

definition PutVmAddVdpaResponse_StatusCode :: "PutVmAddVdpaResponse \<Rightarrow> nat" where
  "PutVmAddVdpaResponse_StatusCode r = response_StatusCode r"

definition PutVmAddVsockResponse_Status :: "PutVmAddVsockResponse \<Rightarrow> string" where
  "PutVmAddVsockResponse_Status r = response_Status r"

definition PutVmAddVsockResponse_StatusCode :: "PutVmAddVsockResponse \<Rightarrow> nat" where
  "PutVmAddVsockResponse_StatusCode r = response_StatusCode r"

definition BootVMResponse_Status :: "BootVMResponse \<Rightarrow> string" where
  "BootVMResponse_Status r = response_Status r"

definition BootVMResponse_StatusCode :: "BootVMResponse \<Rightarrow> nat" where
  "BootVMResponse_StatusCode r = response_StatusCode r"

definition PutVmCoredumpResponse_Status :: "PutVmCoredumpResponse \<Rightarrow> string" where
  "PutVmCoredumpResponse_Status r = response_Status r"

definition PutVmCoredumpResponse_StatusCode :: "PutVmCoredumpResponse \<Rightarrow> nat" where
  "PutVmCoredumpResponse_StatusCode r = response_StatusCode r"

definition GetVmCountersResponse_Status :: "GetVmCountersResponse \<Rightarrow> string" where
  "GetVmCountersResponse_Status r = response_Status r"

definition GetVmCountersResponse_StatusCode :: "GetVmCountersResponse \<Rightarrow> nat" where
  "GetVmCountersResponse_StatusCode r = response_StatusCode r"

definition CreateVMResponse_Status :: "CreateVMResponse \<Rightarrow> string" where
  "CreateVMResponse_Status r = response_Status r"

definition CreateVMResponse_StatusCode :: "CreateVMResponse \<Rightarrow> nat" where
  "CreateVMResponse_StatusCode r = response_StatusCode r"

definition DeleteVMResponse_Status :: "DeleteVMResponse \<Rightarrow> string" where
  "DeleteVMResponse_Status r = response_Status r"

definition DeleteVMResponse_StatusCode :: "DeleteVMResponse \<Rightarrow> nat" where
  "DeleteVMResponse_StatusCode r = response_StatusCode r"

definition GetVmInfoResponse_Status :: "GetVmInfoResponse \<Rightarrow> string" where
  "GetVmInfoResponse_Status r = response_Status r"

definition GetVmInfoResponse_StatusCode :: "GetVmInfoResponse \<Rightarrow> nat" where
  "GetVmInfoResponse_StatusCode r = response_StatusCode r"

definition PauseVMResponse_Status :: "PauseVMResponse \<Rightarrow> string" where
  "PauseVMResponse_Status r = response_Status r"

definition PauseVMResponse_StatusCode :: "PauseVMResponse \<Rightarrow> nat" where
  "PauseVMResponse_StatusCode r = response_StatusCode r"

definition PowerButtonVMResponse_Status :: "PowerButtonVMResponse \<Rightarrow> string" where
  "PowerButtonVMResponse_Status r = response_Status r"

definition PowerButtonVMResponse_StatusCode :: "PowerButtonVMResponse \<Rightarrow> nat" where
  "PowerButtonVMResponse_StatusCode r = response_StatusCode r"

definition RebootVMResponse_Status :: "RebootVMResponse \<Rightarrow> string" where
  "RebootVMResponse_Status r = response_Status r"

definition RebootVMResponse_StatusCode :: "RebootVMResponse \<Rightarrow> nat" where
  "RebootVMResponse_StatusCode r = response_StatusCode r"

definition PutVmReceiveMigrationResponse_Status :: "PutVmReceiveMigrationResponse \<Rightarrow> string" where
  "PutVmReceiveMigrationResponse_Status r = response_Status r"

definition PutVmReceiveMigrationResponse_StatusCode :: "PutVmReceiveMigrationResponse \<Rightarrow> nat" where
  "PutVmReceiveMigrationResponse_StatusCode r = response_StatusCode r"

definition PutVmRemoveDeviceResponse_Status :: "PutVmRemoveDeviceResponse \<Rightarrow> string" where
  "PutVmRemoveDeviceResponse_Status r = response_Status r"

definition PutVmRemoveDeviceResponse_StatusCode :: "PutVmRemoveDeviceResponse \<Rightarrow> nat" where
  "PutVmRemoveDeviceResponse_StatusCode r = response_StatusCode r"

definition PutVmResizeResponse_Status :: "PutVmResizeResponse \<Rightarrow> string" where
  "PutVmResizeResponse_Status r = response_Status r"

definition PutVmResizeResponse_StatusCode :: "PutVmResizeResponse \<Rightarrow> nat" where
  "PutVmResizeResponse_StatusCode r = response_StatusCode r"

definition PutVmResizeZoneResponse_Status :: "PutVmResizeZoneResponse \<Rightarrow> string" where
  "PutVmResizeZoneResponse_Status r = response_Status r"

definition PutVmResizeZoneResponse_StatusCode :: "PutVmResizeZoneResponse \<Rightarrow> nat" where
  "PutVmResizeZoneResponse_StatusCode r = response_StatusCode r"

definition PutVmRestoreResponse_Status :: "PutVmRestoreResponse \<Rightarrow> string" where
  "PutVmRestoreResponse_Status r = response_Status r"

definition PutVmRestoreResponse_StatusCode :: "PutVmRestoreResponse \<Rightarrow> nat" where
  "PutVmRestoreResponse_StatusCode r = response_StatusCode r"

definition ResumeVMResponse_Status :: "ResumeVMResponse \<Rightarrow> string" where
  "ResumeVMResponse_Status r = response_Status r"

definition ResumeVMResponse_StatusCode :: "ResumeVMResponse \<Rightarrow> nat" where
  "ResumeVMResponse_StatusCode r = response_StatusCode r"

definition PutVmSendMigrationResponse_Status :: "PutVmSendMigrationResponse \<Rightarrow> string" where
  "PutVmSendMigrationResponse_Status r = response_Status r"

definition PutVmSendMigrationResponse_StatusCode :: "PutVmSendMigrationResponse \<Rightarrow> nat" where
  "PutVmSendMigrationResponse_StatusCode r = response_StatusCode r"

definition ShutdownVMResponse_Status :: "ShutdownVMResponse \<Rightarrow> string" where
  "ShutdownVMResponse_Status r = response_Status r"

definition ShutdownVMResponse_StatusCode :: "ShutdownVMResponse \<Rightarrow> nat" where
  "ShutdownVMResponse_StatusCode r = response_StatusCode r"

definition PutVmSnapshotResponse_Status :: "PutVmSnapshotResponse \<Rightarrow> string" where
  "PutVmSnapshotResponse_Status r = response_Status r"

definition PutVmSnapshotResponse_StatusCode :: "PutVmSnapshotResponse \<Rightarrow> nat" where
  "PutVmSnapshotResponse_StatusCode r = response_StatusCode r"

definition PutVmmNmiResponse_Status :: "PutVmmNmiResponse \<Rightarrow> string" where
  "PutVmmNmiResponse_Status r = response_Status r"

definition PutVmmNmiResponse_StatusCode :: "PutVmmNmiResponse \<Rightarrow> nat" where
  "PutVmmNmiResponse_StatusCode r = response_StatusCode r"

definition GetVmmPingResponse_Status :: "GetVmmPingResponse \<Rightarrow> string" where
  "GetVmmPingResponse_Status r = response_Status r"

definition GetVmmPingResponse_StatusCode :: "GetVmmPingResponse \<Rightarrow> nat" where
  "GetVmmPingResponse_StatusCode r = response_StatusCode r"

definition ShutdownVMMResponse_Status :: "ShutdownVMMResponse \<Rightarrow> string" where
  "ShutdownVMMResponse_Status r = response_Status r"

definition ShutdownVMMResponse_StatusCode :: "ShutdownVMMResponse \<Rightarrow> nat" where
  "ShutdownVMMResponse_StatusCode r = response_StatusCode r"

section \<open>The interfaces\<close>

text \<open>\<^verbatim>\<open>ClientInterface\<close>, with a transport over \<open>'s\<close>, and the methods of a client as a value of it.\<close>

record 's ClientInterface =
  ci_PutVmAddDeviceWithBody :: "string \<Rightarrow> http_body \<Rightarrow> editor list \<Rightarrow> 's \<Rightarrow> http_response res \<times> 's"
  ci_PutVmAddDevice :: "PutVmAddDeviceJSONRequestBody \<Rightarrow> editor list \<Rightarrow> 's \<Rightarrow> http_response res \<times> 's"
  ci_PutVmAddDiskWithBody :: "string \<Rightarrow> http_body \<Rightarrow> editor list \<Rightarrow> 's \<Rightarrow> http_response res \<times> 's"
  ci_PutVmAddDisk :: "PutVmAddDiskJSONRequestBody \<Rightarrow> editor list \<Rightarrow> 's \<Rightarrow> http_response res \<times> 's"
  ci_PutVmAddFsWithBody :: "string \<Rightarrow> http_body \<Rightarrow> editor list \<Rightarrow> 's \<Rightarrow> http_response res \<times> 's"
  ci_PutVmAddFs :: "PutVmAddFsJSONRequestBody \<Rightarrow> editor list \<Rightarrow> 's \<Rightarrow> http_response res \<times> 's"
  ci_PutVmAddNetWithBody :: "string \<Rightarrow> http_body \<Rightarrow> editor list \<Rightarrow> 's \<Rightarrow> http_response res \<times> 's"
  ci_PutVmAddNet :: "PutVmAddNetJSONRequestBody \<Rightarrow> editor list \<Rightarrow> 's \<Rightarrow> http_response res \<times> 's"
  ci_PutVmAddPmemWithBody :: "string \<Rightarrow> http_body \<Rightarrow> editor list \<Rightarrow> 's \<Rightarrow> http_response res \<times> 's"
  ci_PutVmAddPmem :: "PutVmAddPmemJSONRequestBody \<Rightarrow> editor list \<Rightarrow> 's \<Rightarrow> http_response res \<times> 's"
  ci_PutVmAddUserDeviceWithBody :: "string \<Rightarrow> http_body \<Rightarrow> editor list \<Rightarrow> 's \<Rightarrow> http_response res \<times> 's"
  ci_PutVmAddUserDevice :: "PutVmAddUserDeviceJSONRequestBody \<Rightarrow> editor list \<Rightarrow> 's \<Rightarrow> http_response res \<times> 's"
  ci_PutVmAddVdpaWithBody :: "string \<Rightarrow> http_body \<Rightarrow> editor list \<Rightarrow> 's \<Rightarrow> http_response res \<times> 's"
  ci_PutVmAddVdpa :: "PutVmAddVdpaJSONRequestBody \<Rightarrow> editor list \<Rightarrow> 's \<Rightarrow> http_response res \<times> 's"
  ci_PutVmAddVsockWithBody :: "string \<Rightarrow> http_body \<Rightarrow> editor list \<Rightarrow> 's \<Rightarrow> http_response res \<times> 's"
  ci_PutVmAddVsock :: "PutVmAddVsockJSONRequestBody \<Rightarrow> editor list \<Rightarrow> 's \<Rightarrow> http_response res \<times> 's"
  ci_BootVM :: " editor list \<Rightarrow> 's \<Rightarrow> http_response res \<times> 's"
  ci_PutVmCoredumpWithBody :: "string \<Rightarrow> http_body \<Rightarrow> editor list \<Rightarrow> 's \<Rightarrow> http_response res \<times> 's"
  ci_PutVmCoredump :: "PutVmCoredumpJSONRequestBody \<Rightarrow> editor list \<Rightarrow> 's \<Rightarrow> http_response res \<times> 's"
  ci_GetVmCounters :: " editor list \<Rightarrow> 's \<Rightarrow> http_response res \<times> 's"
  ci_CreateVMWithBody :: "string \<Rightarrow> http_body \<Rightarrow> editor list \<Rightarrow> 's \<Rightarrow> http_response res \<times> 's"
  ci_CreateVM :: "CreateVMJSONRequestBody \<Rightarrow> editor list \<Rightarrow> 's \<Rightarrow> http_response res \<times> 's"
  ci_DeleteVM :: " editor list \<Rightarrow> 's \<Rightarrow> http_response res \<times> 's"
  ci_GetVmInfo :: " editor list \<Rightarrow> 's \<Rightarrow> http_response res \<times> 's"
  ci_PauseVM :: " editor list \<Rightarrow> 's \<Rightarrow> http_response res \<times> 's"
  ci_PowerButtonVM :: " editor list \<Rightarrow> 's \<Rightarrow> http_response res \<times> 's"
  ci_RebootVM :: " editor list \<Rightarrow> 's \<Rightarrow> http_response res \<times> 's"
  ci_PutVmReceiveMigrationWithBody :: "string \<Rightarrow> http_body \<Rightarrow> editor list \<Rightarrow> 's \<Rightarrow> http_response res \<times> 's"
  ci_PutVmReceiveMigration :: "PutVmReceiveMigrationJSONRequestBody \<Rightarrow> editor list \<Rightarrow> 's \<Rightarrow> http_response res \<times> 's"
  ci_PutVmRemoveDeviceWithBody :: "string \<Rightarrow> http_body \<Rightarrow> editor list \<Rightarrow> 's \<Rightarrow> http_response res \<times> 's"
  ci_PutVmRemoveDevice :: "PutVmRemoveDeviceJSONRequestBody \<Rightarrow> editor list \<Rightarrow> 's \<Rightarrow> http_response res \<times> 's"
  ci_PutVmResizeWithBody :: "string \<Rightarrow> http_body \<Rightarrow> editor list \<Rightarrow> 's \<Rightarrow> http_response res \<times> 's"
  ci_PutVmResize :: "PutVmResizeJSONRequestBody \<Rightarrow> editor list \<Rightarrow> 's \<Rightarrow> http_response res \<times> 's"
  ci_PutVmResizeZoneWithBody :: "string \<Rightarrow> http_body \<Rightarrow> editor list \<Rightarrow> 's \<Rightarrow> http_response res \<times> 's"
  ci_PutVmResizeZone :: "PutVmResizeZoneJSONRequestBody \<Rightarrow> editor list \<Rightarrow> 's \<Rightarrow> http_response res \<times> 's"
  ci_PutVmRestoreWithBody :: "string \<Rightarrow> http_body \<Rightarrow> editor list \<Rightarrow> 's \<Rightarrow> http_response res \<times> 's"
  ci_PutVmRestore :: "PutVmRestoreJSONRequestBody \<Rightarrow> editor list \<Rightarrow> 's \<Rightarrow> http_response res \<times> 's"
  ci_ResumeVM :: " editor list \<Rightarrow> 's \<Rightarrow> http_response res \<times> 's"
  ci_PutVmSendMigrationWithBody :: "string \<Rightarrow> http_body \<Rightarrow> editor list \<Rightarrow> 's \<Rightarrow> http_response res \<times> 's"
  ci_PutVmSendMigration :: "PutVmSendMigrationJSONRequestBody \<Rightarrow> editor list \<Rightarrow> 's \<Rightarrow> http_response res \<times> 's"
  ci_ShutdownVM :: " editor list \<Rightarrow> 's \<Rightarrow> http_response res \<times> 's"
  ci_PutVmSnapshotWithBody :: "string \<Rightarrow> http_body \<Rightarrow> editor list \<Rightarrow> 's \<Rightarrow> http_response res \<times> 's"
  ci_PutVmSnapshot :: "PutVmSnapshotJSONRequestBody \<Rightarrow> editor list \<Rightarrow> 's \<Rightarrow> http_response res \<times> 's"
  ci_PutVmmNmi :: " editor list \<Rightarrow> 's \<Rightarrow> http_response res \<times> 's"
  ci_GetVmmPing :: " editor list \<Rightarrow> 's \<Rightarrow> http_response res \<times> 's"
  ci_ShutdownVMM :: " editor list \<Rightarrow> 's \<Rightarrow> http_response res \<times> 's"

definition client_methods :: "'s ch_client \<Rightarrow> 's ClientInterface" where
  "client_methods c = \<lparr>
     ci_PutVmAddDeviceWithBody = \<lambda>contentType body reqEditors. Client_PutVmAddDeviceWithBody contentType body reqEditors c,
     ci_PutVmAddDevice = \<lambda>body reqEditors. Client_PutVmAddDevice body reqEditors c,
     ci_PutVmAddDiskWithBody = \<lambda>contentType body reqEditors. Client_PutVmAddDiskWithBody contentType body reqEditors c,
     ci_PutVmAddDisk = \<lambda>body reqEditors. Client_PutVmAddDisk body reqEditors c,
     ci_PutVmAddFsWithBody = \<lambda>contentType body reqEditors. Client_PutVmAddFsWithBody contentType body reqEditors c,
     ci_PutVmAddFs = \<lambda>body reqEditors. Client_PutVmAddFs body reqEditors c,
     ci_PutVmAddNetWithBody = \<lambda>contentType body reqEditors. Client_PutVmAddNetWithBody contentType body reqEditors c,
     ci_PutVmAddNet = \<lambda>body reqEditors. Client_PutVmAddNet body reqEditors c,
     ci_PutVmAddPmemWithBody = \<lambda>contentType body reqEditors. Client_PutVmAddPmemWithBody contentType body reqEditors c,
     ci_PutVmAddPmem = \<lambda>body reqEditors. Client_PutVmAddPmem body reqEditors c,
     ci_PutVmAddUserDeviceWithBody = \<lambda>contentType body reqEditors. Client_PutVmAddUserDeviceWithBody contentType body reqEditors c,
     ci_PutVmAddUserDevice = \<lambda>body reqEditors. Client_PutVmAddUserDevice body reqEditors c,
     ci_PutVmAddVdpaWithBody = \<lambda>contentType body reqEditors. Client_PutVmAddVdpaWithBody contentType body reqEditors c,
     ci_PutVmAddVdpa = \<lambda>body reqEditors. Client_PutVmAddVdpa body reqEditors c,
     ci_PutVmAddVsockWithBody = \<lambda>contentType body reqEditors. Client_PutVmAddVsockWithBody contentType body reqEditors c,
     ci_PutVmAddVsock = \<lambda>body reqEditors. Client_PutVmAddVsock body reqEditors c,
     ci_BootVM = \<lambda>reqEditors. Client_BootVM reqEditors c,
     ci_PutVmCoredumpWithBody = \<lambda>contentType body reqEditors. Client_PutVmCoredumpWithBody contentType body reqEditors c,
     ci_PutVmCoredump = \<lambda>body reqEditors. Client_PutVmCoredump body reqEditors c,
     ci_GetVmCounters = \<lambda>reqEditors. Client_GetVmCounters reqEditors c,
     ci_CreateVMWithBody = \<lambda>contentType body reqEditors. Client_CreateVMWithBody contentType body reqEditors c,
     ci_CreateVM = \<lambda>body reqEditors. Client_CreateVM body reqEditors c,
     ci_DeleteVM = \<lambda>reqEditors. Client_DeleteVM reqEditors c,
     ci_GetVmInfo = \<lambda>reqEditors. Client_GetVmInfo reqEditors c,
     ci_PauseVM = \<lambda>reqEditors. Client_PauseVM reqEditors c,
     ci_PowerButtonVM = \<lambda>reqEditors. Client_PowerButtonVM reqEditors c,
     ci_RebootVM = \<lambda>reqEditors. Client_RebootVM reqEditors c,
     ci_PutVmReceiveMigrationWithBody = \<lambda>contentType body reqEditors. Client_PutVmReceiveMigrationWithBody contentType body reqEditors c,
     ci_PutVmReceiveMigration = \<lambda>body reqEditors. Client_PutVmReceiveMigration body reqEditors c,
     ci_PutVmRemoveDeviceWithBody = \<lambda>contentType body reqEditors. Client_PutVmRemoveDeviceWithBody contentType body reqEditors c,
     ci_PutVmRemoveDevice = \<lambda>body reqEditors. Client_PutVmRemoveDevice body reqEditors c,
     ci_PutVmResizeWithBody = \<lambda>contentType body reqEditors. Client_PutVmResizeWithBody contentType body reqEditors c,
     ci_PutVmResize = \<lambda>body reqEditors. Client_PutVmResize body reqEditors c,
     ci_PutVmResizeZoneWithBody = \<lambda>contentType body reqEditors. Client_PutVmResizeZoneWithBody contentType body reqEditors c,
     ci_PutVmResizeZone = \<lambda>body reqEditors. Client_PutVmResizeZone body reqEditors c,
     ci_PutVmRestoreWithBody = \<lambda>contentType body reqEditors. Client_PutVmRestoreWithBody contentType body reqEditors c,
     ci_PutVmRestore = \<lambda>body reqEditors. Client_PutVmRestore body reqEditors c,
     ci_ResumeVM = \<lambda>reqEditors. Client_ResumeVM reqEditors c,
     ci_PutVmSendMigrationWithBody = \<lambda>contentType body reqEditors. Client_PutVmSendMigrationWithBody contentType body reqEditors c,
     ci_PutVmSendMigration = \<lambda>body reqEditors. Client_PutVmSendMigration body reqEditors c,
     ci_ShutdownVM = \<lambda>reqEditors. Client_ShutdownVM reqEditors c,
     ci_PutVmSnapshotWithBody = \<lambda>contentType body reqEditors. Client_PutVmSnapshotWithBody contentType body reqEditors c,
     ci_PutVmSnapshot = \<lambda>body reqEditors. Client_PutVmSnapshot body reqEditors c,
     ci_PutVmmNmi = \<lambda>reqEditors. Client_PutVmmNmi reqEditors c,
     ci_GetVmmPing = \<lambda>reqEditors. Client_GetVmmPing reqEditors c,
     ci_ShutdownVMM = \<lambda>reqEditors. Client_ShutdownVMM reqEditors c\<rparr>"

text \<open>\<^verbatim>\<open>ClientWithResponsesInterface\<close>, and the methods of a client with responses.\<close>

record 's ClientWithResponsesInterface =
  ri_PutVmAddDeviceWithBodyWithResponse :: "string \<Rightarrow> http_body \<Rightarrow> editor list \<Rightarrow> 's \<Rightarrow> PutVmAddDeviceResponse res \<times> 's"
  ri_PutVmAddDeviceWithResponse :: "PutVmAddDeviceJSONRequestBody \<Rightarrow> editor list \<Rightarrow> 's \<Rightarrow> PutVmAddDeviceResponse res \<times> 's"
  ri_PutVmAddDiskWithBodyWithResponse :: "string \<Rightarrow> http_body \<Rightarrow> editor list \<Rightarrow> 's \<Rightarrow> PutVmAddDiskResponse res \<times> 's"
  ri_PutVmAddDiskWithResponse :: "PutVmAddDiskJSONRequestBody \<Rightarrow> editor list \<Rightarrow> 's \<Rightarrow> PutVmAddDiskResponse res \<times> 's"
  ri_PutVmAddFsWithBodyWithResponse :: "string \<Rightarrow> http_body \<Rightarrow> editor list \<Rightarrow> 's \<Rightarrow> PutVmAddFsResponse res \<times> 's"
  ri_PutVmAddFsWithResponse :: "PutVmAddFsJSONRequestBody \<Rightarrow> editor list \<Rightarrow> 's \<Rightarrow> PutVmAddFsResponse res \<times> 's"
  ri_PutVmAddNetWithBodyWithResponse :: "string \<Rightarrow> http_body \<Rightarrow> editor list \<Rightarrow> 's \<Rightarrow> PutVmAddNetResponse res \<times> 's"
  ri_PutVmAddNetWithResponse :: "PutVmAddNetJSONRequestBody \<Rightarrow> editor list \<Rightarrow> 's \<Rightarrow> PutVmAddNetResponse res \<times> 's"
  ri_PutVmAddPmemWithBodyWithResponse :: "string \<Rightarrow> http_body \<Rightarrow> editor list \<Rightarrow> 's \<Rightarrow> PutVmAddPmemResponse res \<times> 's"
  ri_PutVmAddPmemWithResponse :: "PutVmAddPmemJSONRequestBody \<Rightarrow> editor list \<Rightarrow> 's \<Rightarrow> PutVmAddPmemResponse res \<times> 's"
  ri_PutVmAddUserDeviceWithBodyWithResponse :: "string \<Rightarrow> http_body \<Rightarrow> editor list \<Rightarrow> 's \<Rightarrow> PutVmAddUserDeviceResponse res \<times> 's"
  ri_PutVmAddUserDeviceWithResponse :: "PutVmAddUserDeviceJSONRequestBody \<Rightarrow> editor list \<Rightarrow> 's \<Rightarrow> PutVmAddUserDeviceResponse res \<times> 's"
  ri_PutVmAddVdpaWithBodyWithResponse :: "string \<Rightarrow> http_body \<Rightarrow> editor list \<Rightarrow> 's \<Rightarrow> PutVmAddVdpaResponse res \<times> 's"
  ri_PutVmAddVdpaWithResponse :: "PutVmAddVdpaJSONRequestBody \<Rightarrow> editor list \<Rightarrow> 's \<Rightarrow> PutVmAddVdpaResponse res \<times> 's"
  ri_PutVmAddVsockWithBodyWithResponse :: "string \<Rightarrow> http_body \<Rightarrow> editor list \<Rightarrow> 's \<Rightarrow> PutVmAddVsockResponse res \<times> 's"
  ri_PutVmAddVsockWithResponse :: "PutVmAddVsockJSONRequestBody \<Rightarrow> editor list \<Rightarrow> 's \<Rightarrow> PutVmAddVsockResponse res \<times> 's"
  ri_BootVMWithResponse :: " editor list \<Rightarrow> 's \<Rightarrow> BootVMResponse res \<times> 's"
  ri_PutVmCoredumpWithBodyWithResponse :: "string \<Rightarrow> http_body \<Rightarrow> editor list \<Rightarrow> 's \<Rightarrow> PutVmCoredumpResponse res \<times> 's"
  ri_PutVmCoredumpWithResponse :: "PutVmCoredumpJSONRequestBody \<Rightarrow> editor list \<Rightarrow> 's \<Rightarrow> PutVmCoredumpResponse res \<times> 's"
  ri_GetVmCountersWithResponse :: " editor list \<Rightarrow> 's \<Rightarrow> GetVmCountersResponse res \<times> 's"
  ri_CreateVMWithBodyWithResponse :: "string \<Rightarrow> http_body \<Rightarrow> editor list \<Rightarrow> 's \<Rightarrow> CreateVMResponse res \<times> 's"
  ri_CreateVMWithResponse :: "CreateVMJSONRequestBody \<Rightarrow> editor list \<Rightarrow> 's \<Rightarrow> CreateVMResponse res \<times> 's"
  ri_DeleteVMWithResponse :: " editor list \<Rightarrow> 's \<Rightarrow> DeleteVMResponse res \<times> 's"
  ri_GetVmInfoWithResponse :: " editor list \<Rightarrow> 's \<Rightarrow> GetVmInfoResponse res \<times> 's"
  ri_PauseVMWithResponse :: " editor list \<Rightarrow> 's \<Rightarrow> PauseVMResponse res \<times> 's"
  ri_PowerButtonVMWithResponse :: " editor list \<Rightarrow> 's \<Rightarrow> PowerButtonVMResponse res \<times> 's"
  ri_RebootVMWithResponse :: " editor list \<Rightarrow> 's \<Rightarrow> RebootVMResponse res \<times> 's"
  ri_PutVmReceiveMigrationWithBodyWithResponse :: "string \<Rightarrow> http_body \<Rightarrow> editor list \<Rightarrow> 's \<Rightarrow> PutVmReceiveMigrationResponse res \<times> 's"
  ri_PutVmReceiveMigrationWithResponse :: "PutVmReceiveMigrationJSONRequestBody \<Rightarrow> editor list \<Rightarrow> 's \<Rightarrow> PutVmReceiveMigrationResponse res \<times> 's"
  ri_PutVmRemoveDeviceWithBodyWithResponse :: "string \<Rightarrow> http_body \<Rightarrow> editor list \<Rightarrow> 's \<Rightarrow> PutVmRemoveDeviceResponse res \<times> 's"
  ri_PutVmRemoveDeviceWithResponse :: "PutVmRemoveDeviceJSONRequestBody \<Rightarrow> editor list \<Rightarrow> 's \<Rightarrow> PutVmRemoveDeviceResponse res \<times> 's"
  ri_PutVmResizeWithBodyWithResponse :: "string \<Rightarrow> http_body \<Rightarrow> editor list \<Rightarrow> 's \<Rightarrow> PutVmResizeResponse res \<times> 's"
  ri_PutVmResizeWithResponse :: "PutVmResizeJSONRequestBody \<Rightarrow> editor list \<Rightarrow> 's \<Rightarrow> PutVmResizeResponse res \<times> 's"
  ri_PutVmResizeZoneWithBodyWithResponse :: "string \<Rightarrow> http_body \<Rightarrow> editor list \<Rightarrow> 's \<Rightarrow> PutVmResizeZoneResponse res \<times> 's"
  ri_PutVmResizeZoneWithResponse :: "PutVmResizeZoneJSONRequestBody \<Rightarrow> editor list \<Rightarrow> 's \<Rightarrow> PutVmResizeZoneResponse res \<times> 's"
  ri_PutVmRestoreWithBodyWithResponse :: "string \<Rightarrow> http_body \<Rightarrow> editor list \<Rightarrow> 's \<Rightarrow> PutVmRestoreResponse res \<times> 's"
  ri_PutVmRestoreWithResponse :: "PutVmRestoreJSONRequestBody \<Rightarrow> editor list \<Rightarrow> 's \<Rightarrow> PutVmRestoreResponse res \<times> 's"
  ri_ResumeVMWithResponse :: " editor list \<Rightarrow> 's \<Rightarrow> ResumeVMResponse res \<times> 's"
  ri_PutVmSendMigrationWithBodyWithResponse :: "string \<Rightarrow> http_body \<Rightarrow> editor list \<Rightarrow> 's \<Rightarrow> PutVmSendMigrationResponse res \<times> 's"
  ri_PutVmSendMigrationWithResponse :: "PutVmSendMigrationJSONRequestBody \<Rightarrow> editor list \<Rightarrow> 's \<Rightarrow> PutVmSendMigrationResponse res \<times> 's"
  ri_ShutdownVMWithResponse :: " editor list \<Rightarrow> 's \<Rightarrow> ShutdownVMResponse res \<times> 's"
  ri_PutVmSnapshotWithBodyWithResponse :: "string \<Rightarrow> http_body \<Rightarrow> editor list \<Rightarrow> 's \<Rightarrow> PutVmSnapshotResponse res \<times> 's"
  ri_PutVmSnapshotWithResponse :: "PutVmSnapshotJSONRequestBody \<Rightarrow> editor list \<Rightarrow> 's \<Rightarrow> PutVmSnapshotResponse res \<times> 's"
  ri_PutVmmNmiWithResponse :: " editor list \<Rightarrow> 's \<Rightarrow> PutVmmNmiResponse res \<times> 's"
  ri_GetVmmPingWithResponse :: " editor list \<Rightarrow> 's \<Rightarrow> GetVmmPingResponse res \<times> 's"
  ri_ShutdownVMMWithResponse :: " editor list \<Rightarrow> 's \<Rightarrow> ShutdownVMMResponse res \<times> 's"

definition client_with_responses_methods :: "'s ch_client \<Rightarrow> 's ClientWithResponsesInterface" where
  "client_with_responses_methods c = \<lparr>
     ri_PutVmAddDeviceWithBodyWithResponse = \<lambda>contentType body reqEditors. PutVmAddDeviceWithBodyWithResponse contentType body reqEditors c,
     ri_PutVmAddDeviceWithResponse = \<lambda>body reqEditors. PutVmAddDeviceWithResponse body reqEditors c,
     ri_PutVmAddDiskWithBodyWithResponse = \<lambda>contentType body reqEditors. PutVmAddDiskWithBodyWithResponse contentType body reqEditors c,
     ri_PutVmAddDiskWithResponse = \<lambda>body reqEditors. PutVmAddDiskWithResponse body reqEditors c,
     ri_PutVmAddFsWithBodyWithResponse = \<lambda>contentType body reqEditors. PutVmAddFsWithBodyWithResponse contentType body reqEditors c,
     ri_PutVmAddFsWithResponse = \<lambda>body reqEditors. PutVmAddFsWithResponse body reqEditors c,
     ri_PutVmAddNetWithBodyWithResponse = \<lambda>contentType body reqEditors. PutVmAddNetWithBodyWithResponse contentType body reqEditors c,
     ri_PutVmAddNetWithResponse = \<lambda>body reqEditors. PutVmAddNetWithResponse body reqEditors c,
     ri_PutVmAddPmemWithBodyWithResponse = \<lambda>contentType body reqEditors. PutVmAddPmemWithBodyWithResponse contentType body reqEditors c,
     ri_PutVmAddPmemWithResponse = \<lambda>body reqEditors. PutVmAddPmemWithResponse body reqEditors c,
     ri_PutVmAddUserDeviceWithBodyWithResponse = \<lambda>contentType body reqEditors. PutVmAddUserDeviceWithBodyWithResponse contentType body reqEditors c,
     ri_PutVmAddUserDeviceWithResponse = \<lambda>body reqEditors. PutVmAddUserDeviceWithResponse body reqEditors c,
     ri_PutVmAddVdpaWithBodyWithResponse = \<lambda>contentType body reqEditors. PutVmAddVdpaWithBodyWithResponse contentType body reqEditors c,
     ri_PutVmAddVdpaWithResponse = \<lambda>body reqEditors. PutVmAddVdpaWithResponse body reqEditors c,
     ri_PutVmAddVsockWithBodyWithResponse = \<lambda>contentType body reqEditors. PutVmAddVsockWithBodyWithResponse contentType body reqEditors c,
     ri_PutVmAddVsockWithResponse = \<lambda>body reqEditors. PutVmAddVsockWithResponse body reqEditors c,
     ri_BootVMWithResponse = \<lambda>reqEditors. BootVMWithResponse reqEditors c,
     ri_PutVmCoredumpWithBodyWithResponse = \<lambda>contentType body reqEditors. PutVmCoredumpWithBodyWithResponse contentType body reqEditors c,
     ri_PutVmCoredumpWithResponse = \<lambda>body reqEditors. PutVmCoredumpWithResponse body reqEditors c,
     ri_GetVmCountersWithResponse = \<lambda>reqEditors. GetVmCountersWithResponse reqEditors c,
     ri_CreateVMWithBodyWithResponse = \<lambda>contentType body reqEditors. CreateVMWithBodyWithResponse contentType body reqEditors c,
     ri_CreateVMWithResponse = \<lambda>body reqEditors. CreateVMWithResponse body reqEditors c,
     ri_DeleteVMWithResponse = \<lambda>reqEditors. DeleteVMWithResponse reqEditors c,
     ri_GetVmInfoWithResponse = \<lambda>reqEditors. GetVmInfoWithResponse reqEditors c,
     ri_PauseVMWithResponse = \<lambda>reqEditors. PauseVMWithResponse reqEditors c,
     ri_PowerButtonVMWithResponse = \<lambda>reqEditors. PowerButtonVMWithResponse reqEditors c,
     ri_RebootVMWithResponse = \<lambda>reqEditors. RebootVMWithResponse reqEditors c,
     ri_PutVmReceiveMigrationWithBodyWithResponse = \<lambda>contentType body reqEditors. PutVmReceiveMigrationWithBodyWithResponse contentType body reqEditors c,
     ri_PutVmReceiveMigrationWithResponse = \<lambda>body reqEditors. PutVmReceiveMigrationWithResponse body reqEditors c,
     ri_PutVmRemoveDeviceWithBodyWithResponse = \<lambda>contentType body reqEditors. PutVmRemoveDeviceWithBodyWithResponse contentType body reqEditors c,
     ri_PutVmRemoveDeviceWithResponse = \<lambda>body reqEditors. PutVmRemoveDeviceWithResponse body reqEditors c,
     ri_PutVmResizeWithBodyWithResponse = \<lambda>contentType body reqEditors. PutVmResizeWithBodyWithResponse contentType body reqEditors c,
     ri_PutVmResizeWithResponse = \<lambda>body reqEditors. PutVmResizeWithResponse body reqEditors c,
     ri_PutVmResizeZoneWithBodyWithResponse = \<lambda>contentType body reqEditors. PutVmResizeZoneWithBodyWithResponse contentType body reqEditors c,
     ri_PutVmResizeZoneWithResponse = \<lambda>body reqEditors. PutVmResizeZoneWithResponse body reqEditors c,
     ri_PutVmRestoreWithBodyWithResponse = \<lambda>contentType body reqEditors. PutVmRestoreWithBodyWithResponse contentType body reqEditors c,
     ri_PutVmRestoreWithResponse = \<lambda>body reqEditors. PutVmRestoreWithResponse body reqEditors c,
     ri_ResumeVMWithResponse = \<lambda>reqEditors. ResumeVMWithResponse reqEditors c,
     ri_PutVmSendMigrationWithBodyWithResponse = \<lambda>contentType body reqEditors. PutVmSendMigrationWithBodyWithResponse contentType body reqEditors c,
     ri_PutVmSendMigrationWithResponse = \<lambda>body reqEditors. PutVmSendMigrationWithResponse body reqEditors c,
     ri_ShutdownVMWithResponse = \<lambda>reqEditors. ShutdownVMWithResponse reqEditors c,
     ri_PutVmSnapshotWithBodyWithResponse = \<lambda>contentType body reqEditors. PutVmSnapshotWithBodyWithResponse contentType body reqEditors c,
     ri_PutVmSnapshotWithResponse = \<lambda>body reqEditors. PutVmSnapshotWithResponse body reqEditors c,
     ri_PutVmmNmiWithResponse = \<lambda>reqEditors. PutVmmNmiWithResponse reqEditors c,
     ri_GetVmmPingWithResponse = \<lambda>reqEditors. GetVmmPingWithResponse reqEditors c,
     ri_ShutdownVMMWithResponse = \<lambda>reqEditors. ShutdownVMMWithResponse reqEditors c\<rparr>"

section \<open>Lemmas\<close>

lemma with_response_Ok:
  assumes "with_response parse m c s = (Ok r, s')"
  obtains rsp where "m c s = (Ok rsp, s')" "parse rsp = Ok r"
  using assms by (auto simp: with_response_def split: prod.splits res.splits)

text \<open>A response that was read has the status of the hypervisor's answer.\<close>

lemma parse_plain_status:
  "parse_plain rsp = Ok r \<Longrightarrow> response_StatusCode r = rsStatusCode rsp \<and> response_Status r = rsStatus rsp"
  by (auto simp: parse_plain_def response_StatusCode_def response_Status_def split: option.splits)

lemma parse_json_status:
  fixes r :: "'a ch_response"
  assumes "parse_json cd rsp = Ok r"
  shows "response_StatusCode r = rsStatusCode rsp \<and> response_Status r = rsStatus rsp"
proof -
  have "\<exists>x :: 'a ch_response. parse_plain rsp = Ok x \<and> crHTTPResponse r = crHTTPResponse x"
    using assms unfolding parse_json_def res_bind_Ok by (auto split: if_splits)
  then obtain x :: "'a ch_response" where "parse_plain rsp = Ok x" "crHTTPResponse r = crHTTPResponse x" by blast
  with parse_plain_status [of rsp x] show ?thesis by (simp add: response_StatusCode_def response_Status_def)
qed

text \<open>The status of the machine's description and of the hypervisor's ping, through the interfaces.\<close>

lemma GetVmInfo_status:
  assumes "ri_GetVmInfoWithResponse (client_with_responses_methods c) reqEditors s = (Ok r, s')"
  shows "\<exists>rsp. ci_GetVmInfo (client_methods c) reqEditors s = (Ok rsp, s') \<and>
    GetVmInfoResponse_StatusCode r = rsStatusCode rsp \<and> GetVmInfoResponse_Status r = rsStatus rsp"
  using assms parse_json_status
  by (auto simp: client_with_responses_methods_def client_methods_def GetVmInfoWithResponse_def ParseGetVmInfoResponse_def
      GetVmInfoResponse_StatusCode_def GetVmInfoResponse_Status_def elim!: with_response_Ok)

lemma GetVmmPing_status:
  assumes "ri_GetVmmPingWithResponse (client_with_responses_methods c) reqEditors s = (Ok r, s')"
  shows "\<exists>rsp. ci_GetVmmPing (client_methods c) reqEditors s = (Ok rsp, s') \<and>
    GetVmmPingResponse_StatusCode r = rsStatusCode rsp \<and> GetVmmPingResponse_Status r = rsStatus rsp"
  using assms parse_json_status
  by (auto simp: client_with_responses_methods_def client_methods_def GetVmmPingWithResponse_def ParseGetVmmPingResponse_def
      GetVmmPingResponse_StatusCode_def GetVmmPingResponse_Status_def elim!: with_response_Ok)

end
