(* ===== verification/Spec2Isabelle.thy ===== *)
theory Spec2Isabelle
  imports RegistrationProps NodeMain LogPipeline ContainerLauncher Columns MachinePath ControllerLost SharedImages
    ConsoleLines ChResponses
begin

text \<open>
  A model of the Baepo node: the programs that run virtual machines on a host and containers inside
  them.  This header says what is modelled where, what is proved, and what is left out.

  \<^bold>\<open>The programs and how they interact.\<close>  The \<^emph>\<open>node agent\<close> (\<^verbatim>\<open>nodeagent\<close>) registers with a control
  plane over a stream, receives the machines it should run, and keeps for each machine a controller
  that moves it towards its desired state: images are pulled, volumes created, a network interface
  is set up, and a \<^emph>\<open>runtime\<close> process (\<^verbatim>\<open>vmruntime\<close>) is started with a configuration file.  The runtime
  builds an initial file system, starts the hypervisor and the virtual machine, and serves logs and
  events to the agent over a socket.  Inside the machine \<^emph>\<open>init\<close> (\<^verbatim>\<open>init\<close>) sets up the guest, starts one
  process of the \<^emph>\<open>launcher\<close> (\<^verbatim>\<open>initcontainer\<close>) per container, restarts it by its policy, and reports to
  the runtime over vsock.  The agent's gateway passes requests on to the machines.

  \<^bold>\<open>Theories, from the bottom.\<close>
  \<^item> \<open>Prelude\<close>, \<open>GoLib\<close>: Go's errors, results with early return, calls to the outside world as a trace
    whose answers are functions of the trace so far, and the string functions of the standard library.
  \<^item> \<open>CoreTypes\<close> (\<^verbatim>\<open>core/types\<close>, \<^verbatim>\<open>core/typeutil\<close>), \<open>V1pbAdapter\<close> (\<^verbatim>\<open>core/v1pbadapter\<close>), \<open>Messages\<close> (the
    messages between the programs), \<open>LogManager\<close> (\<^verbatim>\<open>core/logmanager\<close>), \<open>EventBus\<close> (\<^verbatim>\<open>core/eventbus\<close> and the
    contract \<open>handler_registry\<close> of all maps of handlers), \<open>Vsock\<close> (\<^verbatim>\<open>core/vsock\<close>).
  \<^item> \<open>NodeTypes\<close> (\<^verbatim>\<open>nodeagent/internal/types\<close>, the agent's memory with shared objects in a store) and
    \<open>Interfaces\<close> (contracts of the providers), then \<open>NetworkProvider\<close>, \<open>VolumeProvider\<close>, \<open>ImageProvider\<close>,
    \<open>RuntimeService\<close> after the packages of these names; \<open>IpText\<close> reads and prints addresses.
  \<^item> \<open>Controller\<close> (\<^verbatim>\<open>machinecontroller\<close>: state, reconciliation, listener) and \<open>ControllerSteps\<close> (its
    goroutines as a step relation), \<open>ControllerProgress\<close>, \<open>ControllerPrepare\<close> and \<open>ControllerRunning\<close> (where its own
    steps can lead when the calls to the outside succeed), \<open>ControllerLost\<close> (a request that it loses),
    \<open>MachineService\<close> and \<open>MachineServiceProps\<close> (\<^verbatim>\<open>machineservice\<close>), \<open>CreatedMachine\<close> (from a creation to the
    running machine), \<open>SharedImages\<close> (two machines with one stored image),
    \<open>ServiceInterface\<close> (the contract \<open>machine_service\<close>), \<open>Registration\<close> and \<open>RegistrationProps\<close>
    (\<^verbatim>\<open>registrationservice\<close>), \<open>NodeServers\<close> (\<^verbatim>\<open>gatewayserver\<close>, \<^verbatim>\<open>apiserver\<close>, the configuration in \<^verbatim>\<open>main.go\<close>),
    \<open>NodeMain\<close> (the rest of \<^verbatim>\<open>main.go\<close>: database, parts and hooks; \<^verbatim>\<open>core/fxlog\<close>, \<^verbatim>\<open>nodeagentctl\<close>).
  \<^item> \<open>RuntimeLogs\<close> and \<open>VmRuntime\<close> (\<^verbatim>\<open>vmruntime\<close>), \<open>ConsoleLines\<close> (output read line by line with \<^verbatim>\<open>bufio.Scanner\<close>:
    the serial console, and the runtime's output in the agent).
  \<^item> \<open>InitLogs\<close>, \<open>InitContainers\<close>, \<open>InitServer\<close> (\<^verbatim>\<open>init\<close>), \<open>ContainerLauncher\<close> (\<^verbatim>\<open>initcontainer\<close>).
  \<^item> \<open>LogPipeline\<close>: a container's output from its writers to the reader of the machine's logs.
  \<^item> \<open>Json\<close>: the standard library's \<^verbatim>\<open>encoding/json\<close> for the types that occur: a codec writes a Go value as
    a JSON value and reads one into a variable; the contracts \<open>json_law\<close> and \<open>json_element\<close> say what comes
    back, and pass from a type to pointers, slices, maps and structs of it.  \<open>ConfigJson\<close> has the codecs
    of \<^verbatim>\<open>core/types\<close>, \<open>Columns\<close> the columns of the agent's database (\<^verbatim>\<open>Value\<close> and \<^verbatim>\<open>Scan\<close>), \<open>ConfigPath\<close> the way of
    a configuration from the agent to the launchers.
  \<^item> \<open>ChModels\<close> (the structs), \<open>ChClient\<close> (the 29 operations), \<open>ChResponses\<close> (the statuses of their responses
    and the two interfaces) and \<open>ApiTypes\<close> (the schemas): the client generated from the hypervisor's API
    and its description (\<^verbatim>\<open>vmruntime/internal/chclient\<close>); \<open>HypervisorCalls\<close>: the runtime's calls as requests of this client to a hypervisor that answers them; \<open>MachinePath\<close>: a machine
    from the agent's memory through the configuration file to the hypervisor's request.

  A Go struct is a record, an error return a value of \<open>'a res\<close>, a panic \<open>Panic\<close>, a sized integer a
  word, a pointer that may be nil an option.  State is passed explicitly; concurrent parts are
  step relations (the controller, the containers) or functions of the order in which goroutines act
  (the bus, the connection's loop, the log listeners).

  \<^bold>\<open>What is shown.\<close>  For the providers: addresses, names and MAC addresses of interfaces in use are
  distinct and survive a restart; a volume is created at most once; a pull unmounts what it mounted.
  For the controller: at most one reconciliation runs, a running machine was prepared and a
  terminated one holds nothing, the state changes only after the database, and when the calls to the
  outside succeed a machine that shall run, a created one included, can come to run and one that shall
  terminate can terminate; but a termination requested during a reconciliation can be lost, and of two
  machines created from one stored image that is not pulled yet the second never runs once the first has
  pulled it.  For the machine
  service: a failed creation is undone, a created machine is ready, only terminated machines are
  forgotten, stored events decode.  For the registration: after a synchronisation every expected
  machine exists and every other was asked to terminate.  For the runtime and the guest: disks and
  network of the guest are those of the machine, the lines of the serial console are logged up to the
  first that does not fit the scanner's buffer, every line of a container reaches the reader of its log
  once whatever the other writers do, unless it is written while a connection subscribes,
  a stop of the runtime is complete or leaves everything, restarts stay within the policy's budget, and,
  in this theory, a container's state reaches the controller unchanged.  For the data between the
  programs: configurations reach the guest and specifications survive the database as they were
  written, the requests to the hypervisor have the methods, paths and types of its API's description,
  and the machine created is the one that the agent has in memory.  The interfaces are locales interpreted on the code's definitions; the
  clients' lemmas are proved from the contracts.

  \<^bold>\<open>Loops and bounds.\<close>  Loops over data are recursions over lists; loops that wait for the outside are
  recursions over the list of what they receive, and the properties hold for every such list.  The
  number of turns a reader makes before its context ends is an argument (\<open>turns\<close>); statements about
  complete reading assume at least one turn per stored value.  The ten retries of the hypervisor's
  ping are counted down.  The log cut into lines terminates because the buffer shrinks;
  a scanner's line is bounded by its buffer of 64 KiB, as in the standard library.

  \<^bold>\<open>Not modelled.\<close>  The HTTP transports, the fx, gorm, cobra and iostream packages and the protobuf
  encoding are libraries: their answers are the environment's, or parameters with their documented
  behaviour.  Netlink, commands and the kernel are calls of the environment.  The text of JSON values
  (spaces, escapes) is not modelled, nor, in the hypervisor's structs, a nil slice behind a pointer or
  in a required field, which would be written as null.  Logging is left out except for the events of
  the fx package and the runtime's output that the agent copies.  Memory races between goroutines are not modelled below the atomic parts that the
  step relations name.
\<close>

section \<open>The network of a guest\<close>

text \<open>
  C17: the guest's interface gets the MAC address that the node agent allotted to the machine, the
  IP address with the prefix length of the machine's network as the netlink package reads it, and
  the machine's gateway as its default route, after the way through the runtime's and the init
  process's configurations; these are all calls, in this order, of a successful set-up.
\<close>

theorem guest_network_is_the_machines:
  assumes "length (niMacAddress ni) \<in> {6, 8, 20}" and "To4 (niGatewayAddress ni) = Some g"
    and "rtNetwork c = network_config ni hostname" and "SetupNetwork E (init_config_of c) t = (Ok (), t')"
  shows "\<exists>address. ge_parse_addr E (ip_string (niIPAddress ni) @ ''/'' @ dec (fst (mask_size (netMask (niNetworkCIDR ni))))) = Ok address \<and>
    t' = t @ [GLinkByName ''lo'', GLinkSetUp ''lo'', GLinkByName ''eth0'', GLinkSetHardwareAddr ''eth0'' (niMacAddress ni),
      GAddrAdd ''eth0'' address, GLinkSetUp ''eth0'', GRouteAdd (ipv4_prefix @ g)]"
proof -
  have mac: "ParseMAC (iniMacAddress (init_config_of c)) = Ok (niMacAddress ni)"
    using ParseMAC_mac_string [OF assms(1)] by (simp add: init_config_of_def assms(3) network_config_def mac_string_def)
  have gateway: "ParseIP (ge_parse_ip6 E) (iniGatewayAddress (init_config_of c)) = ipv4_prefix @ g"
    using ParseIP_string [OF assms(2)] by (simp add: init_config_of_def assms(3) network_config_def)
  have address: "iniIPAddress (init_config_of c) = ip_string (niIPAddress ni) @ ''/'' @ dec (fst (mask_size (netMask (niNetworkCIDR ni))))"
    by (simp add: init_config_of_def assms(3) network_config_def)
  show ?thesis
    using assms(4) unfolding SetupNetwork_def Let_def lift_res_def mac gateway address by (auto split: flow_asm)
qed

text \<open>The witness: the second address of the machines' network.\<close>

definition second_interface :: network_interface where
  "second_interface = \<lparr>niID = ''n1'', niName = ''tap2'', niIPAddress = [192, 168, 100, 2], niMacAddress = [2, 0, 0, 0, 0, 2],
     niGatewayAddress = [192, 168, 100, 1], niNetworkCIDR = default_cidr, niAllocatedAt = Some 0, niReleasedAt = None\<rparr>"

definition good_guest_env :: guest_env where
  "good_guest_env = \<lparr>env_err = \<lambda>_ _. None, env_now = length, env_id = \<lambda>_. [], ge_parse_addr = ParseCIDR4, ge_parse_ip6 = \<lambda>_. []\<rparr>"

definition second_config :: runtime_config where
  "second_config = (vcRuntime two_containers)\<lparr>rtNetwork := network_config second_interface ''m1''\<rparr>"

lemma second_address: "ParseCIDR4 ''192.168.100.2/24'' = Ok \<lparr>netIP = [192, 168, 100, 0], netMask = [255, 255, 255, 0]\<rparr>"
  by (simp add: ParseCIDR4_def split_n2_def parse_ip4_def parse_octet_def is_digit_def undec_def digit_val_def mask_ip_def cidr_mask_def upt_conv_Cons)

theorem guest_network_is_the_machines_witness:
  "\<exists>address. snd (SetupNetwork good_guest_env (init_config_of second_config) []) =
     [GLinkByName ''lo'', GLinkSetUp ''lo'', GLinkByName ''eth0'', GLinkSetHardwareAddr ''eth0'' [2, 0, 0, 0, 0, 2],
      GAddrAdd ''eth0'' address, GLinkSetUp ''eth0'', GRouteAdd (ipv4_prefix @ [192, 168, 100, 1])]"
proof -
  have h: "length (niMacAddress second_interface) \<in> {6, 8, 20}" "To4 (niGatewayAddress second_interface) = Some [192, 168, 100, 1]"
    "rtNetwork second_config = network_config second_interface ''m1''"
    by (simp_all add: second_interface_def To4_def second_config_def)
  have mac: "ParseMAC (iniMacAddress (init_config_of second_config)) = Ok [2, 0, 0, 0, 0, 2]"
    using ParseMAC_mac_string [of "[2, 0, 0, 0, 0, 2]"]
    by (simp add: init_config_of_def second_config_def network_config_def second_interface_def mac_string_def)
  have ip: "iniIPAddress (init_config_of second_config) = ''192.168.100.2/24''"
    by (simp add: init_config_of_def second_config_def network_config_def second_interface_def ip_string_def To4_def dec.simps digit_def
        mask_size_def default_cidr_def byte_bits_def)
  obtain t' where s: "SetupNetwork good_guest_env (init_config_of second_config) [] = (Ok (), t')"
    unfolding SetupNetwork_def Let_def lift_res_def mac ip by (simp add: ext_def good_guest_env_def second_address)
  from guest_network_is_the_machines [OF h s] show ?thesis by (auto simp: s second_interface_def)
qed

section \<open>The way of a container's state\<close>

text \<open>What the machine's controller should be told of an event of a container.\<close>

definition told_state :: "ctr_event \<Rightarrow> message" where
  "told_state e = ContainerStateChangedMessage (ceEventID e)
     \<lparr>pceContainerId = ceContainerID e,
      pceState = (if ceExitedAt e = None then ContainerState_Running else ContainerState_Exited),
      pceStartedAt = ceStartedAt e, pceExitedAt = ceExitedAt e, pceExitCode = ceExitCode e,
      pceExitError = map_option error_string (ceExitError e), pceHealthy = ceHealthy e,
      pceHealthcheckError = map_option error_string (ceHealthcheckError e), pceRestartCount = ceRestartCount e\<rparr>
     (ceTimestamp e)"

text \<open>One event through the init server, the runtime and the controller's listener.\<close>

lemma event_relayed:
  assumes "ceStartedAt e \<noteq> None"
  shows "\<exists>r r'. adaptContainerEventToProto (ContainerStateChangedEvent e) = Some r \<and> mapInitEvent r = Some r' \<and>
    publish_received [r'] s = publish (told_state e) s"
  using assms by (auto simp: adaptContainerEventToProto_def told_state_def)

lemma publish_received_append: "publish_received (xs @ ys) s = publish_received ys (publish_received xs s)"
  by (induction xs arbitrary: s) auto

lemma events_relayed:
  assumes "\<forall>e \<in> set evs. ceStartedAt e \<noteq> None"
  shows "publish_received (List.map_filter mapInitEvent (List.map_filter adaptContainerEventToProto (map ContainerStateChangedEvent evs))) s =
    fold publish (map told_state evs) s"
  using assms
proof (induction evs arbitrary: s)
  case Nil
  then show ?case by (simp add: List.map_filter_simps)
next
  case (Cons e evs)
  have st: "ceStartedAt e \<noteq> None" "\<forall>e \<in> set evs. ceStartedAt e \<noteq> None" using Cons.prems by simp_all
  obtain r r' where r: "adaptContainerEventToProto (ContainerStateChangedEvent e) = Some r" "mapInitEvent r = Some r'"
    "publish_received [r'] s = publish (told_state e) s"
    using event_relayed [OF st(1), of s] by blast
  have "publish_received (r' # ys) s = publish_received ys (publish (told_state e) s)" for ys
    using publish_received_append [of "[r']" ys s] unfolding r(3) by (simp only: append.simps)
  moreover have "List.map_filter mapInitEvent (List.map_filter adaptContainerEventToProto (map ContainerStateChangedEvent (e # evs))) =
      r' # List.map_filter mapInitEvent (List.map_filter adaptContainerEventToProto (map ContainerStateChangedEvent evs))"
    using r(1,2) by (simp add: List.map_filter_simps del: mapInitEvent.simps)
  ultimately show ?case using Cons.IH [OF st(2), of "publish (told_state e) s"] by (simp only: list.map fold_Cons comp_apply)
qed



end
